(* ===== verification/Gosling_Prelude.thy ===== *)
theory Gosling_Prelude
  imports Main "HOL-Library.Word"
begin

text \<open>
  Shared vocabulary of the development: machine integers and byte strings, Rust's
  \<open>Result\<close>, the outcome of a Rust call (it returns, it panics, or the fuel of a loop that
  has no bound of its own ran out), state-passing actions with the sequencing of \<open>;\<close> and of
  the \<open>?\<close> operator, and the generic lemmas the component theories use.
\<close>

unbundle bit_operations_syntax

section \<open>Machine types\<close>

type_synonym byte = "8 word"
type_synonym bytes = "byte list"
type_synonym i32 = "32 word"
type_synonym i64 = "64 word"

text \<open>
  A Rust \<open>String\<close> is its UTF-8 byte sequence; Isabelle's \<^typ>\<open>char\<close> is one byte, so a
  \<^typ>\<open>string\<close> is that sequence and \<open>as_bytes\<close> only changes the type of its elements.
\<close>

definition as_bytes :: "string \<Rightarrow> bytes" where
  "as_bytes s = map of_char s"

definition from_bytes :: "bytes \<Rightarrow> string" where
  "from_bytes bs = map (\<lambda>b. char_of (unat b)) bs"

section \<open>Results, outcomes, actions\<close>

datatype ('a, 'e) result = Ok 'a | Err 'e

datatype 'a outcome = Ret 'a | Panic | OutOfFuel

text \<open>An action reads and updates a state; it also says how the call ended.\<close>

type_synonym ('s, 'a) action = "'s \<Rightarrow> 'a outcome \<times> 's"

definition ret :: "'a \<Rightarrow> ('s, 'a) action" where
  "ret a s = (Ret a, s)"

definition panic :: "('s, 'a) action" where
  "panic s = (Panic, s)"

text \<open>Sequencing: a panic (or a loop that does not end) in the first part is final.\<close>

definition andthen :: "('s, 'a) action \<Rightarrow> ('a \<Rightarrow> ('s, 'b) action) \<Rightarrow> ('s, 'b) action" where
  "andthen m f s = (case m s of
      (Ret a, t) \<Rightarrow> f a t
    | (Panic, t) \<Rightarrow> (Panic, t)
    | (OutOfFuel, t) \<Rightarrow> (OutOfFuel, t))"

text \<open>The \<open>?\<close> operator: an \<open>Err\<close> of the first part is returned at once.\<close>

definition try_then ::
  "('s, ('a, 'e) result) action \<Rightarrow> ('a \<Rightarrow> ('s, ('b, 'e) result) action) \<Rightarrow>
   ('s, ('b, 'e) result) action" where
  "try_then m f = andthen m (\<lambda>r. case r of Ok a \<Rightarrow> f a | Err e \<Rightarrow> ret (Err e))"

named_theorems action_defs

lemmas [action_defs] = ret_def panic_def andthen_def try_then_def

lemma andthen_Ret_iff:
  "andthen m f s = (Ret b, u) \<longleftrightarrow> (\<exists>a t. m s = (Ret a, t) \<and> f a t = (Ret b, u))"
  by (auto simp: andthen_def split: prod.splits outcome.splits)

lemma try_then_Ok_iff:
  "try_then m f s = (Ret (Ok b), u) \<longleftrightarrow>
   (\<exists>a t. m s = (Ret (Ok a), t) \<and> f a t = (Ret (Ok b), u))"
  by (auto simp: try_then_def andthen_def ret_def split: prod.splits outcome.splits result.splits)

lemma try_then_Err_iff:
  "try_then m f s = (Ret (Err e), u) \<longleftrightarrow>
   m s = (Ret (Err e), u) \<or> (\<exists>a t. m s = (Ret (Ok a), t) \<and> f a t = (Ret (Err e), u))"
  by (auto simp: try_then_def andthen_def ret_def split: prod.splits outcome.splits result.splits)

text \<open>
  \<open>keeps P m\<close>: the action \<open>m\<close> preserves \<open>P\<close>, however it ends. One rule per combinator,
  so that a handler's proof is the proof of its parts.
\<close>

definition keeps :: "('s \<Rightarrow> bool) \<Rightarrow> ('s, 'a) action \<Rightarrow> bool" where
  "keeps P m \<longleftrightarrow> (\<forall>s. P s \<longrightarrow> P (snd (m s)))"

named_theorems keeps_intros

lemma keepsI: "(\<And>s. P s \<Longrightarrow> P (snd (m s))) \<Longrightarrow> keeps P m"
  by (simp add: keeps_def)

lemma keepsD: "keeps P m \<Longrightarrow> P s \<Longrightarrow> m s = (r, t) \<Longrightarrow> P t"
  by (metis keeps_def snd_conv)

lemma keeps_ret [keeps_intros]: "keeps P (ret a)"
  by (simp add: keeps_def ret_def)

lemma keeps_panic [keeps_intros]: "keeps P panic"
  by (simp add: keeps_def panic_def)

lemma keeps_andthen [keeps_intros]:
  "keeps P m \<Longrightarrow> (\<And>a. keeps P (f a)) \<Longrightarrow> keeps P (andthen m f)"
  by (auto simp: keeps_def andthen_def split: prod.splits outcome.splits)

lemma keeps_try_then [keeps_intros]:
  "keeps P m \<Longrightarrow> (\<And>a. keeps P (f a)) \<Longrightarrow> keeps P (try_then m f)"
  by (auto simp: try_then_def intro!: keeps_intros split: result.splits)

text \<open>
  \<open>safe P m\<close>: from a state that satisfies \<open>P\<close> the action does not panic, does not run out
  of fuel and preserves \<open>P\<close>.
\<close>

definition safe :: "('s \<Rightarrow> bool) \<Rightarrow> ('s, 'a) action \<Rightarrow> bool" where
  "safe P m \<longleftrightarrow> (\<forall>s. P s \<longrightarrow> (\<exists>a t. m s = (Ret a, t) \<and> P t))"

named_theorems safe_intros

lemma safeI: "(\<And>s. P s \<Longrightarrow> \<exists>a t. m s = (Ret a, t) \<and> P t) \<Longrightarrow> safe P m"
  by (simp add: safe_def)

lemma safeD: "safe P m \<Longrightarrow> P s \<Longrightarrow> \<exists>a t. m s = (Ret a, t) \<and> P t"
  by (simp add: safe_def)

lemma safe_keeps: "safe P m \<Longrightarrow> keeps P m"
  by (fastforce simp: safe_def keeps_def)

lemma safe_ret [safe_intros]: "safe P (ret a)"
  by (simp add: safe_def ret_def)

lemma safe_andthen [safe_intros]:
  "safe P m \<Longrightarrow> (\<And>a. safe P (f a)) \<Longrightarrow> safe P (andthen m f)"
  unfolding safe_def andthen_def by (metis (no_types, lifting) case_prod_conv outcome.case(1))

lemma safe_try_then [safe_intros]:
  "safe P m \<Longrightarrow> (\<And>a. safe P (f a)) \<Longrightarrow> safe P (try_then m f)"
  by (auto simp: try_then_def intro!: safe_intros split: result.splits)

text \<open>\<open>preserves P m\<close>: when the action returns, \<open>P\<close> still holds.\<close>

definition preserves :: "('s \<Rightarrow> bool) \<Rightarrow> ('s, 'a) action \<Rightarrow> bool" where
  "preserves P m \<longleftrightarrow> (\<forall>s r t. P s \<longrightarrow> m s = (Ret r, t) \<longrightarrow> P t)"

named_theorems preserves_intros

lemma preservesI: "(\<And>s r t. P s \<Longrightarrow> m s = (Ret r, t) \<Longrightarrow> P t) \<Longrightarrow> preserves P m"
  by (simp add: preserves_def)

lemma preservesD: "preserves P m \<Longrightarrow> P s \<Longrightarrow> m s = (Ret r, t) \<Longrightarrow> P t"
  by (simp add: preserves_def)

lemma preserves_ret [preserves_intros]: "preserves P (ret a)"
  by (simp add: preserves_def ret_def)

lemma preserves_andthen [preserves_intros]:
  "preserves P m \<Longrightarrow> (\<And>a. preserves P (f a)) \<Longrightarrow> preserves P (andthen m f)"
  unfolding preserves_def andthen_Ret_iff by blast

lemma preserves_try_then [preserves_intros]:
  "preserves P m \<Longrightarrow> (\<And>a. preserves P (f a)) \<Longrightarrow> preserves P (try_then m f)"
  by (auto simp: try_then_def intro!: preserves_intros split: result.splits)

text \<open>
  \<open>returns p Q\<close>: if the run \<open>p\<close> returned, its result and final state satisfy \<open>Q\<close>. The equations
  of the collection \<open>wp\<close> compute it backwards through the combinators.
\<close>

definition returns :: "'a outcome \<times> 's \<Rightarrow> ('a \<Rightarrow> 's \<Rightarrow> bool) \<Rightarrow> bool" where
  "returns p Q \<longleftrightarrow> (\<forall>r t. p = (Ret r, t) \<longrightarrow> Q r t)"

named_theorems wp

lemma returnsD: "returns p Q \<Longrightarrow> p = (Ret r, t) \<Longrightarrow> Q r t"
  by (simp add: returns_def)

lemma returns_mono: "returns p Q \<Longrightarrow> (\<And>r t. Q r t \<Longrightarrow> R r t) \<Longrightarrow> returns p R"
  by (simp add: returns_def)

lemma returns_ends [wp]: "returns (Ret r, t) Q \<longleftrightarrow> Q r t" "returns (Panic, t) Q" "returns (OutOfFuel, t) Q"
  by (simp_all add: returns_def)

lemma returns_ret [wp]: "returns (ret a s) Q \<longleftrightarrow> Q a s"
  by (simp add: returns_def ret_def)

lemma returns_andthen [wp]: "returns (andthen m f s) Q \<longleftrightarrow> returns (m s) (\<lambda>a t. returns (f a t) Q)"
  unfolding returns_def andthen_Ret_iff by blast

lemma returns_try_then [wp]:
  "returns (try_then m f s) Q \<longleftrightarrow> returns (m s) (\<lambda>r t. case r of Ok a \<Rightarrow> returns (f a t) Q | Err e \<Rightarrow> Q (Err e) t)"
  unfolding try_then_def returns_andthen
  by (rule arg_cong [where f = "returns (m s)"], intro ext) (simp add: returns_ret split: result.split)

section \<open>Strings\<close>

definition quoted :: "string \<Rightarrow> string" where
  "quoted s = CHR 0x27 # s @ [CHR 0x27]"

definition starts_with :: "string \<Rightarrow> string \<Rightarrow> bool" where
  "starts_with s p \<longleftrightarrow> take (length p) s = p"

section \<open>Generic lemmas\<close>

lemma length_as_bytes [simp]: "length (as_bytes s) = length s"
  by (simp add: as_bytes_def)

lemma from_bytes_as_bytes [simp]: "from_bytes (as_bytes s) = s"
proof -
  have "unat (of_char c :: byte) = of_char c" for c
  proof -
    have "unat (of_nat (of_char c :: nat) :: byte) = of_char c"
      by (subst unat_of_nat) simp
    then show ?thesis by (simp only: of_nat_of_char)
  qed
  then show ?thesis by (simp add: as_bytes_def from_bytes_def comp_def)
qed

lemma as_bytes_eq_iff [simp]: "as_bytes s = as_bytes t \<longleftrightarrow> s = t"
  by (metis from_bytes_as_bytes)

lemma as_bytes_append [simp]: "as_bytes (s @ t) = as_bytes s @ as_bytes t"
  by (simp add: as_bytes_def)

lemma concat_eq_Nil_replicate: "(\<forall>x\<in>set xs. x \<noteq> []) \<Longrightarrow> concat xs = [] \<Longrightarrow> xs = []"
  by (cases xs) auto

end
