(* ===== verification/Bson_Interface.thy ===== *)
theory Bson_Interface
  imports Gosling_Prelude
begin

text \<open>
  The \<open>bson\<close> crate as Honk-RPC uses it. The crate is not part of the repository, so its
  document type is the type variable \<open>'d\<close> and its operations are the fields of a record of
  functions, passed to every definition that calls them. What the code relies on is stated by
  the predicates \<open>bson_laws\<close> (documents are maps with insertion order),
  \<open>bson_size_laws\<close> (the element layout of the BSON specification) and, per document, \<open>reads_back\<close>
  (a serialised document starts with its own length and is read back). Only the variants of
  the \<open>Bson\<close> enum that the sources name have a constructor of their own; \<open>BOther\<close> stands for
  any other element, by its type byte and payload. The last three operations are the texts of
  \<open>Display\<close> and \<open>Debug\<close>, which only reach error messages.
\<close>

section \<open>Values and operations\<close>

datatype binary_subtype = Generic | OtherSubtype byte

datatype 'd bson =
    BString string
  | BDocument 'd
  | BArray "'d bson list"
  | BBinary binary_subtype bytes
  | BBoolean bool
  | BInt32 i32
  | BInt64 i64
  | BNull
  | BOther byte bytes

datatype value_access_error = NotPresent | UnexpectedType

type_synonym bson_ser_error = nat
type_synonym bson_de_error = nat

record 'd bson_ops =
  doc_new :: 'd
  doc_get :: "'d \<Rightarrow> string \<Rightarrow> 'd bson option"
  doc_insert :: "'d \<Rightarrow> string \<Rightarrow> 'd bson \<Rightarrow> 'd"
  doc_remove :: "'d \<Rightarrow> string \<Rightarrow> 'd bson option \<times> 'd"
  doc_is_empty :: "'d \<Rightarrow> bool"
  get_i32 :: "'d \<Rightarrow> string \<Rightarrow> (i32, value_access_error) result"
  get_i64 :: "'d \<Rightarrow> string \<Rightarrow> (i64, value_access_error) result"
  get_str :: "'d \<Rightarrow> string \<Rightarrow> (string, value_access_error) result"
  get_array :: "'d \<Rightarrow> string \<Rightarrow> ('d bson list, value_access_error) result"
  get_document :: "'d \<Rightarrow> string \<Rightarrow> ('d, value_access_error) result"
  to_writer :: "'d \<Rightarrow> (bytes, bson_ser_error) result"
  from_reader :: "bytes \<Rightarrow> ('d, bson_de_error) result"
  doc_display :: "'d \<Rightarrow> string"
  doc_debug :: "'d \<Rightarrow> string"
  bson_debug :: "'d bson option \<Rightarrow> string"

text \<open>The \<open>doc!\<close> macro: a new document with the listed entries inserted in order.\<close>

definition doc_of :: "'d bson_ops \<Rightarrow> (string \<times> 'd bson) list \<Rightarrow> 'd" where
  "doc_of B kvs = foldl (\<lambda>d kv. doc_insert B d (fst kv) (snd kv)) (doc_new B) kvs"

section \<open>Documents are maps\<close>

definition bson_map_laws :: "'d bson_ops \<Rightarrow> bool" where
  "bson_map_laws B \<longleftrightarrow>
     (\<forall>k. doc_get B (doc_new B) k = None) \<and>
     (\<forall>d k v j. doc_get B (doc_insert B d k v) j = (if j = k then Some v else doc_get B d j)) \<and>
     (\<forall>d k v w. doc_insert B (doc_insert B d k v) k w = doc_insert B d k w) \<and>
     (\<forall>d k. fst (doc_remove B d k) = doc_get B d k) \<and>
     (\<forall>d k j. doc_get B (snd (doc_remove B d k)) j = (if j = k then None else doc_get B d j)) \<and>
     doc_is_empty B (doc_new B)"

definition bson_access_laws :: "'d bson_ops \<Rightarrow> bool" where
  "bson_access_laws B \<longleftrightarrow>
     (\<forall>d k. get_i32 B d k = (case doc_get B d k of
        None \<Rightarrow> Err NotPresent | Some (BInt32 n) \<Rightarrow> Ok n | Some _ \<Rightarrow> Err UnexpectedType)) \<and>
     (\<forall>d k. get_i64 B d k = (case doc_get B d k of
        None \<Rightarrow> Err NotPresent | Some (BInt64 n) \<Rightarrow> Ok n | Some _ \<Rightarrow> Err UnexpectedType)) \<and>
     (\<forall>d k. get_str B d k = (case doc_get B d k of
        None \<Rightarrow> Err NotPresent | Some (BString s) \<Rightarrow> Ok s | Some _ \<Rightarrow> Err UnexpectedType)) \<and>
     (\<forall>d k. get_array B d k = (case doc_get B d k of
        None \<Rightarrow> Err NotPresent | Some (BArray xs) \<Rightarrow> Ok xs | Some _ \<Rightarrow> Err UnexpectedType)) \<and>
     (\<forall>d k. get_document B d k = (case doc_get B d k of
        None \<Rightarrow> Err NotPresent | Some (BDocument e) \<Rightarrow> Ok e | Some _ \<Rightarrow> Err UnexpectedType))"

definition bson_laws :: "'d bson_ops \<Rightarrow> bool" where
  "bson_laws B \<longleftrightarrow> bson_map_laws B \<and> bson_access_laws B"

lemma bson_get_new: "bson_laws B \<Longrightarrow> doc_get B (doc_new B) k = None"
  by (simp add: bson_laws_def bson_map_laws_def)

lemma bson_get_insert:
  "bson_laws B \<Longrightarrow> doc_get B (doc_insert B d k v) j = (if j = k then Some v else doc_get B d j)"
  by (simp add: bson_laws_def bson_map_laws_def)

lemma bson_insert_insert:
  "bson_laws B \<Longrightarrow> doc_insert B (doc_insert B d k v) k w = doc_insert B d k w"
  by (simp add: bson_laws_def bson_map_laws_def)

lemma bson_remove_fst: "bson_laws B \<Longrightarrow> fst (doc_remove B d k) = doc_get B d k"
  by (simp add: bson_laws_def bson_map_laws_def)

lemma bson_remove_snd:
  "bson_laws B \<Longrightarrow> doc_get B (snd (doc_remove B d k)) j = (if j = k then None else doc_get B d j)"
  by (simp add: bson_laws_def bson_map_laws_def)

lemma bson_is_empty_new: "bson_laws B \<Longrightarrow> doc_is_empty B (doc_new B)"
  by (simp add: bson_laws_def bson_map_laws_def)

lemma bson_get_i32:
  "bson_laws B \<Longrightarrow> get_i32 B d k = (case doc_get B d k of
     None \<Rightarrow> Err NotPresent | Some (BInt32 n) \<Rightarrow> Ok n | Some _ \<Rightarrow> Err UnexpectedType)"
  by (simp add: bson_laws_def bson_access_laws_def)

lemma bson_get_i64:
  "bson_laws B \<Longrightarrow> get_i64 B d k = (case doc_get B d k of
     None \<Rightarrow> Err NotPresent | Some (BInt64 n) \<Rightarrow> Ok n | Some _ \<Rightarrow> Err UnexpectedType)"
  by (simp add: bson_laws_def bson_access_laws_def)

lemma bson_get_str:
  "bson_laws B \<Longrightarrow> get_str B d k = (case doc_get B d k of
     None \<Rightarrow> Err NotPresent | Some (BString s) \<Rightarrow> Ok s | Some _ \<Rightarrow> Err UnexpectedType)"
  by (simp add: bson_laws_def bson_access_laws_def)

lemma bson_get_array:
  "bson_laws B \<Longrightarrow> get_array B d k = (case doc_get B d k of
     None \<Rightarrow> Err NotPresent | Some (BArray xs) \<Rightarrow> Ok xs | Some _ \<Rightarrow> Err UnexpectedType)"
  by (simp add: bson_laws_def bson_access_laws_def)

lemma bson_get_document:
  "bson_laws B \<Longrightarrow> get_document B d k = (case doc_get B d k of
     None \<Rightarrow> Err NotPresent | Some (BDocument e) \<Rightarrow> Ok e | Some _ \<Rightarrow> Err UnexpectedType)"
  by (simp add: bson_laws_def bson_access_laws_def)

lemmas bson_rules = bson_get_new bson_get_insert bson_insert_insert bson_remove_fst
  bson_remove_snd bson_is_empty_new bson_get_i32 bson_get_i64 bson_get_str bson_get_array
  bson_get_document

section \<open>The layout of a serialised document\<close>

fun decimal :: "nat \<Rightarrow> string" where
  "decimal n = (if n < 10 then [char_of (n + 48)] else decimal (n div 10) @ [char_of (n mod 10 + 48)])"

declare decimal.simps [simp del]

definition doc_size :: "'d bson_ops \<Rightarrow> 'd \<Rightarrow> nat" where
  "doc_size B d = (case to_writer B d of Ok bs \<Rightarrow> length bs | Err _ \<Rightarrow> 0)"

fun value_size :: "'d bson_ops \<Rightarrow> 'd bson \<Rightarrow> nat"
and array_size :: "'d bson_ops \<Rightarrow> nat \<Rightarrow> 'd bson list \<Rightarrow> nat" where
  "value_size B (BString s) = 5 + length s"
| "value_size B (BDocument d) = doc_size B d"
| "value_size B (BArray xs) = 5 + array_size B 0 xs"
| "value_size B (BBinary _ bs) = 5 + length bs"
| "value_size B (BBoolean _) = 1"
| "value_size B (BInt32 _) = 4"
| "value_size B (BInt64 _) = 8"
| "value_size B BNull = 0"
| "value_size B (BOther _ bs) = length bs"
| "array_size B i [] = 0"
| "array_size B i (x # xs) = 2 + length (decimal i) + value_size B x + array_size B (Suc i) xs"

text \<open>
  An empty document takes five bytes, and every element its type byte, its name with a
  terminating zero, and its value. A document serialises when its entries do.
\<close>

definition serialises :: "'d bson_ops \<Rightarrow> 'd \<Rightarrow> bool" where
  "serialises B d \<longleftrightarrow> (\<exists>bs. to_writer B d = Ok bs)"

fun value_serialises :: "'d bson_ops \<Rightarrow> 'd bson \<Rightarrow> bool" where
  "value_serialises B (BDocument d) = serialises B d"
| "value_serialises B (BArray xs) = list_all (value_serialises B) xs"
| "value_serialises B _ = True"

definition no_nul :: "string \<Rightarrow> bool" where
  "no_nul k \<longleftrightarrow> CHR 0x00 \<notin> set k"

definition bson_size_laws :: "'d bson_ops \<Rightarrow> bool" where
  "bson_size_laws B \<longleftrightarrow>
     serialises B (doc_new B) \<and> doc_size B (doc_new B) = 5 \<and>
     (\<forall>d k v. doc_get B d k = None \<longrightarrow> no_nul k \<longrightarrow>
        serialises B (doc_insert B d k v) = (serialises B d \<and> value_serialises B v)) \<and>
     (\<forall>d k v. doc_get B d k = None \<longrightarrow> serialises B (doc_insert B d k v) \<longrightarrow>
        doc_size B (doc_insert B d k v) = doc_size B d + 2 + length k + value_size B v)"

lemma bson_new_serialises: "bson_size_laws B \<Longrightarrow> serialises B (doc_new B)"
  by (simp add: bson_size_laws_def)

lemma bson_new_size: "bson_size_laws B \<Longrightarrow> doc_size B (doc_new B) = 5"
  by (simp add: bson_size_laws_def)

lemma bson_insert_serialises:
  "bson_size_laws B \<Longrightarrow> doc_get B d k = None \<Longrightarrow> no_nul k \<Longrightarrow>
   serialises B (doc_insert B d k v) = (serialises B d \<and> value_serialises B v)"
  by (simp add: bson_size_laws_def)

lemma bson_insert_size:
  "bson_size_laws B \<Longrightarrow> doc_get B d k = None \<Longrightarrow> serialises B (doc_insert B d k v) \<Longrightarrow>
   doc_size B (doc_insert B d k v) = doc_size B d + 2 + length k + value_size B v"
  by (simp add: bson_size_laws_def)

lemmas bson_size_rules = bson_new_serialises bson_new_size bson_insert_serialises bson_insert_size

lemma serialisesE:
  assumes "serialises B d" obtains bs where "to_writer B d = Ok bs" "doc_size B d = length bs"
  using assms by (auto simp: serialises_def doc_size_def)

lemma to_writer_Ok_size: "to_writer B d = Ok bs \<Longrightarrow> serialises B d \<and> doc_size B d = length bs"
  by (simp add: serialises_def doc_size_def)

section \<open>Reading back what was written\<close>

text \<open>The document size header: the first four bytes, little endian.\<close>

definition header_i32 :: "byte \<Rightarrow> byte \<Rightarrow> byte \<Rightarrow> byte \<Rightarrow> i32" where
  "header_i32 b0 b1 b2 b3 =
     ucast b0 OR push_bit 8 (ucast b1) OR push_bit 16 (ucast b2) OR push_bit 24 (ucast b3)"

definition self_sized :: "bytes \<Rightarrow> bool" where
  "self_sized bs \<longleftrightarrow> 4 < length bs \<and>
     sint (header_i32 (bs ! 0) (bs ! 1) (bs ! 2) (bs ! 3)) = int (length bs)"

definition reads_back :: "'d bson_ops \<Rightarrow> 'd \<Rightarrow> bool" where
  "reads_back B d \<longleftrightarrow> (\<forall>bs. to_writer B d = Ok bs \<longrightarrow> self_sized bs \<and> from_reader B bs = Ok d)"

end
