(* ===== verification/Tor_Crypto.thy ===== *)
theory Tor_Crypto
  imports Bson_Interface
begin

text \<open>
  \<open>tor_crypto.rs\<close>: keys, signatures and v3 onion-service ids. The primitives come from other
  crates (\<open>tor_llcrypto\<close>, \<open>curve25519_dalek\<close>, \<open>sha3\<close>, \<open>data_encoding\<close>) and are the fields of
  the record \<open>crypto_ops\<close>, an argument of the definitions. A value of a foreign key or
  signature type is represented by the bytes its \<open>to_bytes\<close> gives; a Rust array is a list of
  its length. What the sources rely on is stated in \<open>codec_laws\<close> and \<open>signature_laws\<close>.
\<close>

unbundle bit_operations_syntax

section \<open>The foreign functions\<close>

record crypto_ops =
  sha3_256 :: "bytes \<Rightarrow> bytes"
  onion_base32_encode :: "bytes \<Rightarrow> string"
  onion_base32_decode :: "string \<Rightarrow> bytes option"
  base32_nopad_encode :: "bytes \<Rightarrow> string"
  base32_nopad_decode :: "string \<Rightarrow> bytes option"
  base64_encode :: "bytes \<Rightarrow> string"
  base64_decode :: "string \<Rightarrow> bytes option"
  hexlower_encode :: "bytes \<Rightarrow> string"
  scalar_from_bytes_mod_order :: "bytes \<Rightarrow> bytes"
  keypair_from_secret_key_bytes :: "bytes \<Rightarrow> bytes option"
  keypair_public :: "bytes \<Rightarrow> bytes"
  keypair_sign :: "bytes \<Rightarrow> bytes \<Rightarrow> bytes"
  public_key_from_bytes :: "bytes \<Rightarrow> bytes option"
  verify_strict :: "bytes \<Rightarrow> bytes \<Rightarrow> bytes \<Rightarrow> bool"
  curve25519_public :: "bytes \<Rightarrow> bytes"
  convert_curve25519_to_ed25519_private :: "bytes \<Rightarrow> (bytes \<times> byte) option"
  convert_curve25519_to_ed25519_public :: "bytes \<Rightarrow> byte \<Rightarrow> bytes option"

section \<open>Types and sizes\<close>

datatype crypto_error = ParseError string | ConversionError string | KeyInvalid

definition ED25519_PRIVATE_KEY_SIZE :: nat where "ED25519_PRIVATE_KEY_SIZE = 64"
definition ED25519_PUBLIC_KEY_SIZE :: nat where "ED25519_PUBLIC_KEY_SIZE = 32"
definition ED25519_SIGNATURE_SIZE :: nat where "ED25519_SIGNATURE_SIZE = 64"
definition V3_ONION_SERVICE_ID_STRING_LENGTH :: nat where "V3_ONION_SERVICE_ID_STRING_LENGTH = 56"
definition ED25519_PRIVATE_KEYBLOB_BASE64_LENGTH :: nat where "ED25519_PRIVATE_KEYBLOB_BASE64_LENGTH = 88"
definition ED25519_PRIVATE_KEY_KEYBLOB_HEADER :: string where
  "ED25519_PRIVATE_KEY_KEYBLOB_HEADER = ''ED25519-V3:''"
definition ED25519_PRIVATE_KEY_KEYBLOB_LENGTH :: nat where "ED25519_PRIVATE_KEY_KEYBLOB_LENGTH = 99"
definition V3_ONION_SERVICE_ID_RAW_SIZE :: nat where "V3_ONION_SERVICE_ID_RAW_SIZE = 35"
definition V3_ONION_SERVICE_ID_CHECKSUM_OFFSET :: nat where "V3_ONION_SERVICE_ID_CHECKSUM_OFFSET = 32"
definition V3_ONION_SERVICE_ID_VERSION_OFFSET :: nat where "V3_ONION_SERVICE_ID_VERSION_OFFSET = 34"
definition X25519_PRIVATE_KEY_SIZE :: nat where "X25519_PRIVATE_KEY_SIZE = 32"
definition X25519_PUBLIC_KEY_SIZE :: nat where "X25519_PUBLIC_KEY_SIZE = 32"
definition X25519_PRIVATE_KEY_BASE64_LENGTH :: nat where "X25519_PRIVATE_KEY_BASE64_LENGTH = 44"
definition X25519_PUBLIC_KEY_BASE32_LENGTH :: nat where "X25519_PUBLIC_KEY_BASE32_LENGTH = 52"

lemmas crypto_sizes =
  ED25519_PRIVATE_KEY_SIZE_def ED25519_PUBLIC_KEY_SIZE_def ED25519_SIGNATURE_SIZE_def
  V3_ONION_SERVICE_ID_STRING_LENGTH_def ED25519_PRIVATE_KEYBLOB_BASE64_LENGTH_def
  ED25519_PRIVATE_KEY_KEYBLOB_LENGTH_def V3_ONION_SERVICE_ID_RAW_SIZE_def
  V3_ONION_SERVICE_ID_CHECKSUM_OFFSET_def V3_ONION_SERVICE_ID_VERSION_OFFSET_def
  X25519_PRIVATE_KEY_SIZE_def X25519_PUBLIC_KEY_SIZE_def X25519_PRIVATE_KEY_BASE64_LENGTH_def
  X25519_PUBLIC_KEY_BASE32_LENGTH_def

record ed25519_private_key = expanded_keypair :: bytes
record ed25519_public_key = ed_public_key :: bytes
record ed25519_signature = signature :: bytes
record x25519_private_key = secret_key :: bytes
record x25519_public_key = x_public_key :: bytes
record v3_onion_service_id = sid_data :: string

datatype sign_bit = Zero | One

fun sign_bit_into_u8 :: "sign_bit \<Rightarrow> byte" where
  "sign_bit_into_u8 Zero = 0"
| "sign_bit_into_u8 One = 1"

fun sign_bit_into_bool :: "sign_bit \<Rightarrow> bool" where
  "sign_bit_into_bool Zero = False"
| "sign_bit_into_bool One = True"

definition sign_bit_from_bool :: "bool \<Rightarrow> sign_bit" where
  "sign_bit_from_bool b = (if b then One else Zero)"

section \<open>Onion-service ids\<close>

definition calc_truncated_checksum :: "crypto_ops \<Rightarrow> bytes \<Rightarrow> bytes" where
  "calc_truncated_checksum C public_key =
     (let hash_bytes = sha3_256 C (as_bytes ''.onion checksum'' @ public_key @ [3])
      in [hash_bytes ! 0, hash_bytes ! 1])"

definition service_id_is_valid :: "crypto_ops \<Rightarrow> string \<Rightarrow> bool" where
  "service_id_is_valid C service_id =
     (if length service_id \<noteq> V3_ONION_SERVICE_ID_STRING_LENGTH then False
      else case onion_base32_decode C service_id of
        None \<Rightarrow> False
      | Some decoded \<Rightarrow>
          if length decoded \<noteq> V3_ONION_SERVICE_ID_RAW_SIZE then False
          else if decoded ! V3_ONION_SERVICE_ID_VERSION_OFFSET \<noteq> 3 then False
          else let public_key = take ED25519_PUBLIC_KEY_SIZE decoded;
                   truncated_checksum = calc_truncated_checksum C public_key
               in if truncated_checksum ! 0 \<noteq> decoded ! V3_ONION_SERVICE_ID_CHECKSUM_OFFSET \<or>
                     truncated_checksum ! 1 \<noteq> decoded ! (V3_ONION_SERVICE_ID_CHECKSUM_OFFSET + 1)
                  then False else True)"

definition service_id_from_string :: "crypto_ops \<Rightarrow> string \<Rightarrow> (v3_onion_service_id, crypto_error) result" where
  "service_id_from_string C service_id =
     (if \<not> service_id_is_valid C service_id
      then Err (ParseError (CHR 0x27 # service_id @ CHR 0x27 # '' is not a valid v3 onion service id''))
      else Ok \<lparr> sid_data = service_id \<rparr>)"

definition service_id_from_public_key :: "crypto_ops \<Rightarrow> ed25519_public_key \<Rightarrow> v3_onion_service_id" where
  "service_id_from_public_key C public_key =
     (let raw_service_id = replicate V3_ONION_SERVICE_ID_RAW_SIZE 0;
          raw_service_id = ed_public_key public_key @ drop ED25519_PUBLIC_KEY_SIZE raw_service_id;
          truncated_checksum = calc_truncated_checksum C (ed_public_key public_key);
          raw_service_id = raw_service_id[V3_ONION_SERVICE_ID_CHECKSUM_OFFSET := truncated_checksum ! 0];
          raw_service_id = raw_service_id[V3_ONION_SERVICE_ID_CHECKSUM_OFFSET + 1 := truncated_checksum ! 1];
          raw_service_id = raw_service_id[V3_ONION_SERVICE_ID_VERSION_OFFSET := 3]
      in \<lparr> sid_data = onion_base32_encode C raw_service_id \<rparr>)"

definition ed25519_public_from_private_key :: "crypto_ops \<Rightarrow> ed25519_private_key \<Rightarrow> ed25519_public_key" where
  "ed25519_public_from_private_key C k = \<lparr> ed_public_key = keypair_public C (expanded_keypair k) \<rparr>"

definition service_id_from_private_key :: "crypto_ops \<Rightarrow> ed25519_private_key \<Rightarrow> v3_onion_service_id" where
  "service_id_from_private_key C k = service_id_from_public_key C (ed25519_public_from_private_key C k)"

definition service_id_to_string :: "v3_onion_service_id \<Rightarrow> string" where
  "service_id_to_string sid = sid_data sid"

definition service_id_as_bytes :: "v3_onion_service_id \<Rightarrow> bytes" where
  "service_id_as_bytes sid = as_bytes (sid_data sid)"

section \<open>Ed25519 keys and signatures\<close>

datatype from_raw_validation_method = LegacyCTor | Ed25519Dalek

definition ed25519_private_from_raw_impl ::
  "crypto_ops \<Rightarrow> bytes \<Rightarrow> from_raw_validation_method \<Rightarrow> (ed25519_private_key, crypto_error) result" where
  "ed25519_private_from_raw_impl C raw method =
     (let invalid = (case method of
            LegacyCTor \<Rightarrow> \<not> (raw ! 0 = raw ! 0 AND 248 \<and> raw ! 31 = (raw ! 31 AND 63) OR 64)
          | Ed25519Dalek \<Rightarrow>
              (let scalar = take 32 raw in
               list_all (\<lambda>x. x = 0) scalar \<or> scalar \<noteq> scalar_from_bytes_mod_order C scalar))
      in if invalid then Err KeyInvalid
         else case keypair_from_secret_key_bytes C raw of
           Some k \<Rightarrow> Ok \<lparr> expanded_keypair = k \<rparr>
         | None \<Rightarrow> Err KeyInvalid)"

definition ed25519_private_from_raw :: "crypto_ops \<Rightarrow> bytes \<Rightarrow> (ed25519_private_key, crypto_error) result" where
  "ed25519_private_from_raw C raw = ed25519_private_from_raw_impl C raw Ed25519Dalek"

definition ed25519_private_from_key_blob_impl ::
  "crypto_ops \<Rightarrow> string \<Rightarrow> from_raw_validation_method \<Rightarrow> (ed25519_private_key, crypto_error) result" where
  "ed25519_private_from_key_blob_impl C key_blob method =
     (if length key_blob \<noteq> ED25519_PRIVATE_KEY_KEYBLOB_LENGTH
      then Err (ParseError (''expects string of length '' @ quoted (decimal ED25519_PRIVATE_KEY_KEYBLOB_LENGTH) @
             ''; received string with length '' @ quoted (decimal (length key_blob))))
      else if \<not> starts_with key_blob ED25519_PRIVATE_KEY_KEYBLOB_HEADER
      then Err (ParseError (''expects string that begins with '' @ quoted ED25519_PRIVATE_KEY_KEYBLOB_HEADER @
             ''; received '' @ quoted key_blob))
      else let base64_key = drop (length ED25519_PRIVATE_KEY_KEYBLOB_HEADER) key_blob in
        case base64_decode C base64_key of
          None \<Rightarrow> Err (ParseError (''could not parse '' @ quoted base64_key @ '' as base64''))
        | Some private_key_data \<Rightarrow>
            if length private_key_data \<noteq> ED25519_PRIVATE_KEY_SIZE
            then Err (ParseError (''expects decoded private key length '' @ quoted (decimal ED25519_PRIVATE_KEY_SIZE) @
                   ''; actual '' @ quoted (decimal (length private_key_data))))
            else ed25519_private_from_raw_impl C private_key_data method)"

definition ed25519_private_from_key_blob_legacy :: "crypto_ops \<Rightarrow> string \<Rightarrow> (ed25519_private_key, crypto_error) result" where
  "ed25519_private_from_key_blob_legacy C key_blob = ed25519_private_from_key_blob_impl C key_blob LegacyCTor"

definition ed25519_private_from_key_blob :: "crypto_ops \<Rightarrow> string \<Rightarrow> (ed25519_private_key, crypto_error) result" where
  "ed25519_private_from_key_blob C key_blob = ed25519_private_from_key_blob_impl C key_blob Ed25519Dalek"

definition ed25519_private_from_private_x25519 ::
  "crypto_ops \<Rightarrow> x25519_private_key \<Rightarrow> (ed25519_private_key \<times> sign_bit, crypto_error) result" where
  "ed25519_private_from_private_x25519 C k =
     (case convert_curve25519_to_ed25519_private C (secret_key k) of
        Some (res, signbit) \<Rightarrow>
          if signbit = 0 then Ok (\<lparr> expanded_keypair = res \<rparr>, Zero)
          else if signbit = 1 then Ok (\<lparr> expanded_keypair = res \<rparr>, One)
          else Err (ConversionError (''convert_curve25519_to_ed25519_private() returned invalid signbit: '' @
                 decimal (unat signbit)))
      | None \<Rightarrow> Err (ConversionError ''could not convert x25519 private key to ed25519 private key''))"

definition ed25519_private_to_key_blob :: "crypto_ops \<Rightarrow> ed25519_private_key \<Rightarrow> string" where
  "ed25519_private_to_key_blob C k = ED25519_PRIVATE_KEY_KEYBLOB_HEADER @ base64_encode C (expanded_keypair k)"

definition ed25519_private_sign_message :: "crypto_ops \<Rightarrow> ed25519_private_key \<Rightarrow> bytes \<Rightarrow> ed25519_signature" where
  "ed25519_private_sign_message C k message = \<lparr> signature = keypair_sign C (expanded_keypair k) message \<rparr>"

definition ed25519_private_to_bytes :: "ed25519_private_key \<Rightarrow> bytes" where
  "ed25519_private_to_bytes k = expanded_keypair k"

definition ed25519_private_clone :: "crypto_ops \<Rightarrow> ed25519_private_key \<Rightarrow> ed25519_private_key outcome" where
  "ed25519_private_clone C k = (case ed25519_private_from_raw C (ed25519_private_to_bytes k) of
      Ok ed25519_private_key \<Rightarrow> Ret ed25519_private_key
    | Err _ \<Rightarrow> Panic)"

definition ed25519_public_from_raw :: "crypto_ops \<Rightarrow> bytes \<Rightarrow> (ed25519_public_key, crypto_error) result" where
  "ed25519_public_from_raw C raw = (case public_key_from_bytes C raw of
      Some public_key \<Rightarrow> Ok \<lparr> ed_public_key = public_key \<rparr>
    | None \<Rightarrow> Err KeyInvalid)"

definition ed25519_public_from_service_id ::
  "crypto_ops \<Rightarrow> v3_onion_service_id \<Rightarrow> (ed25519_public_key, crypto_error) result" where
  "ed25519_public_from_service_id C service_id = (case onion_base32_decode C (sid_data service_id) of
      None \<Rightarrow> Err (ConversionError (''failed to decode '' @ quoted (service_id_to_string service_id) @ '' as V3OnionServiceId''))
    | Some decoded \<Rightarrow>
        if length decoded \<noteq> V3_ONION_SERVICE_ID_RAW_SIZE
        then Err (ConversionError (''decoded byte count is '' @ quoted (decimal (length decoded)) @
               '', expected '' @ quoted (decimal V3_ONION_SERVICE_ID_RAW_SIZE)))
        else ed25519_public_from_raw C (take ED25519_PUBLIC_KEY_SIZE decoded))"

definition ed25519_public_from_public_x25519 ::
  "crypto_ops \<Rightarrow> x25519_public_key \<Rightarrow> sign_bit \<Rightarrow> (ed25519_public_key, crypto_error) result" where
  "ed25519_public_from_public_x25519 C public_x25519 signbit =
     (case convert_curve25519_to_ed25519_public C (x_public_key public_x25519) (sign_bit_into_u8 signbit) of
        Some public_key \<Rightarrow> Ok \<lparr> ed_public_key = public_key \<rparr>
      | None \<Rightarrow> Err (ConversionError ''failed to create ed25519 public key from x25519 public key and signbit''))"

definition ed25519_signature_from_raw :: "bytes \<Rightarrow> (ed25519_signature, crypto_error) result" where
  "ed25519_signature_from_raw raw = Ok \<lparr> signature = raw \<rparr>"

definition ed25519_signature_verify :: "crypto_ops \<Rightarrow> ed25519_signature \<Rightarrow> bytes \<Rightarrow> ed25519_public_key \<Rightarrow> bool" where
  "ed25519_signature_verify C sig message public_key =
     verify_strict C (ed_public_key public_key) message (signature sig)"

definition ed25519_signature_verify_x25519 ::
  "crypto_ops \<Rightarrow> ed25519_signature \<Rightarrow> bytes \<Rightarrow> x25519_public_key \<Rightarrow> sign_bit \<Rightarrow> bool" where
  "ed25519_signature_verify_x25519 C sig message public_key signbit =
     (case ed25519_public_from_public_x25519 C public_key signbit of
        Ok public_key \<Rightarrow> ed25519_signature_verify C sig message public_key
      | Err _ \<Rightarrow> False)"

definition ed25519_signature_to_bytes :: "ed25519_signature \<Rightarrow> bytes" where
  "ed25519_signature_to_bytes sig = signature sig"

section \<open>X25519 keys\<close>

definition x25519_private_from_raw :: "bytes \<Rightarrow> (x25519_private_key, crypto_error) result" where
  "x25519_private_from_raw raw =
     (if raw ! 0 = raw ! 0 AND 240 \<and> raw ! 31 = (raw ! 31 AND 127) OR 64
      then Ok \<lparr> secret_key = raw \<rparr> else Err KeyInvalid)"

definition x25519_private_from_base64 :: "crypto_ops \<Rightarrow> string \<Rightarrow> (x25519_private_key, crypto_error) result" where
  "x25519_private_from_base64 C base64 =
     (if length base64 \<noteq> X25519_PRIVATE_KEY_BASE64_LENGTH
      then Err (ParseError (''expects string of length '' @ quoted (decimal X25519_PRIVATE_KEY_BASE64_LENGTH) @
             ''; received string with length '' @ quoted (decimal (length base64))))
      else case base64_decode C base64 of
        None \<Rightarrow> Err (ParseError (''could not parse '' @ quoted base64 @ '' as base64''))
      | Some private_key_data \<Rightarrow>
          if length private_key_data \<noteq> X25519_PRIVATE_KEY_SIZE
          then Err (ParseError (''expects decoded private key length '' @ quoted (decimal X25519_PRIVATE_KEY_SIZE) @
                 ''; actual '' @ quoted (decimal (length private_key_data))))
          else x25519_private_from_raw private_key_data)"

definition x25519_private_sign_message ::
  "crypto_ops \<Rightarrow> x25519_private_key \<Rightarrow> bytes \<Rightarrow> (ed25519_signature \<times> sign_bit, crypto_error) result" where
  "x25519_private_sign_message C k message = (case ed25519_private_from_private_x25519 C k of
      Err e \<Rightarrow> Err e
    | Ok (ed25519_private, signbit) \<Rightarrow> Ok (ed25519_private_sign_message C ed25519_private message, signbit))"

definition x25519_private_to_base64 :: "crypto_ops \<Rightarrow> x25519_private_key \<Rightarrow> string" where
  "x25519_private_to_base64 C k = base64_encode C (secret_key k)"

definition x25519_public_from_private_key :: "crypto_ops \<Rightarrow> x25519_private_key \<Rightarrow> x25519_public_key" where
  "x25519_public_from_private_key C k = \<lparr> x_public_key = curve25519_public C (secret_key k) \<rparr>"

definition x25519_public_from_raw :: "bytes \<Rightarrow> x25519_public_key" where
  "x25519_public_from_raw raw = \<lparr> x_public_key = raw \<rparr>"

definition x25519_public_from_base32 :: "crypto_ops \<Rightarrow> string \<Rightarrow> (x25519_public_key, crypto_error) result" where
  "x25519_public_from_base32 C base32 =
     (if length base32 \<noteq> X25519_PUBLIC_KEY_BASE32_LENGTH
      then Err (ParseError (''expects string of length '' @ quoted (decimal X25519_PUBLIC_KEY_BASE32_LENGTH) @
             ''; received '' @ quoted base32 @ '' with length '' @ quoted (decimal (length base32))))
      else case base32_nopad_decode C base32 of
        None \<Rightarrow> Err (ParseError (''failed to decode '' @ quoted base32 @ '' as X25519PublicKey''))
      | Some public_key_data \<Rightarrow>
          if length public_key_data \<noteq> X25519_PUBLIC_KEY_SIZE
          then Err (ParseError (''expects decoded public key length '' @ quoted (decimal X25519_PUBLIC_KEY_SIZE) @
                 ''; actual '' @ quoted (decimal (length public_key_data))))
          else Ok (x25519_public_from_raw public_key_data))"

definition x25519_public_to_base32 :: "crypto_ops \<Rightarrow> x25519_public_key \<Rightarrow> string" where
  "x25519_public_to_base32 C k = base32_nopad_encode C (x_public_key k)"

definition x25519_public_as_bytes :: "x25519_public_key \<Rightarrow> bytes" where
  "x25519_public_as_bytes k = x_public_key k"

section \<open>What the foreign functions promise\<close>

text \<open>
  The encodings of \<open>data_encoding\<close> are exact inverses on the lengths in use: an encoding has a
  fixed length and is decoded to its input, and since non-canonical input is rejected, what is
  decoded is encoded to the same text.
\<close>

definition codec_pair :: "(bytes \<Rightarrow> string) \<Rightarrow> (string \<Rightarrow> bytes option) \<Rightarrow> nat \<Rightarrow> nat \<Rightarrow> bool" where
  "codec_pair enc dec n m \<longleftrightarrow>
     (\<forall>raw. length raw = n \<longrightarrow> length (enc raw) = m \<and> dec (enc raw) = Some raw) \<and>
     (\<forall>s raw. length s = m \<longrightarrow> dec s = Some raw \<longrightarrow> length raw = n \<longrightarrow> enc raw = s)"

definition codec_laws :: "crypto_ops \<Rightarrow> bool" where
  "codec_laws C \<longleftrightarrow>
     codec_pair (onion_base32_encode C) (onion_base32_decode C) 35 56 \<and>
     codec_pair (base64_encode C) (base64_decode C) 64 88 \<and>
     codec_pair (base64_encode C) (base64_decode C) 32 44 \<and>
     codec_pair (base32_nopad_encode C) (base32_nopad_decode C) 32 52 \<and>
     (\<forall>raw. length (hexlower_encode C raw) = 2 * length raw) \<and> inj (hexlower_encode C)"

text \<open>
  Key pairs keep a reduced scalar as it is; a public key is kept as its bytes; a signature
  verifies under the public key of the key pair that made it; the two conversions from
  curve25519 to ed25519 agree.
\<close>

definition signing_key :: "crypto_ops \<Rightarrow> ed25519_private_key \<Rightarrow> bool" where
  "signing_key C k \<longleftrightarrow> length (expanded_keypair k) = ED25519_PRIVATE_KEY_SIZE \<and>
     ed25519_private_from_raw C (expanded_keypair k) = Ok k"

definition signature_laws :: "crypto_ops \<Rightarrow> bool" where
  "signature_laws C \<longleftrightarrow>
     (\<forall>raw k. keypair_from_secret_key_bytes C raw = Some k \<longrightarrow>
        take 32 raw = scalar_from_bytes_mod_order C (take 32 raw) \<longrightarrow> k = raw) \<and>
     (\<forall>raw pk. public_key_from_bytes C raw = Some pk \<longrightarrow> pk = raw) \<and>
     (\<forall>k. signing_key C k \<longrightarrow>
        length (keypair_public C (expanded_keypair k)) = 32 \<and>
        public_key_from_bytes C (keypair_public C (expanded_keypair k)) \<noteq> None \<and>
        (\<forall>m. length (keypair_sign C (expanded_keypair k) m) = 64 \<and>
           verify_strict C (keypair_public C (expanded_keypair k)) m (keypair_sign C (expanded_keypair k) m))) \<and>
     (\<forall>sk k b. convert_curve25519_to_ed25519_private C sk = Some (k, b) \<longrightarrow>
        signing_key C \<lparr> expanded_keypair = k \<rparr> \<and>
        length (curve25519_public C sk) = 32 \<and>
        convert_curve25519_to_ed25519_public C (curve25519_public C sk) b = Some (keypair_public C k))"

lemma codec_pairD:
  assumes "codec_pair enc dec n m"
  shows "length raw = n \<Longrightarrow> length (enc raw) = m" "length raw = n \<Longrightarrow> dec (enc raw) = Some raw"
    "length s = m \<Longrightarrow> dec s = Some raw \<Longrightarrow> length raw = n \<Longrightarrow> enc raw = s"
  using assms by (auto simp: codec_pair_def)

section \<open>Onion-service ids are encodings of public keys\<close>

definition raw_service_id :: "crypto_ops \<Rightarrow> bytes \<Rightarrow> bytes" where
  "raw_service_id C pk = pk @ calc_truncated_checksum C pk @ [3]"

lemma length_checksum [simp]: "length (calc_truncated_checksum C pk) = 2"
  by (simp add: calc_truncated_checksum_def Let_def)

lemma service_id_from_public_key_raw:
  assumes "length pk = 32"
  shows "service_id_from_public_key C \<lparr> ed_public_key = pk \<rparr> =
    \<lparr> sid_data = onion_base32_encode C (raw_service_id C pk) \<rparr>"
proof -
  obtain a b where ab: "calc_truncated_checksum C pk = [a, b]"
    by (simp add: calc_truncated_checksum_def Let_def)
  have "drop 32 (replicate 35 (0 :: byte)) = [0, 0, 0]" by (simp add: numeral_eq_Suc)
  with assms ab show ?thesis
    by (simp add: service_id_from_public_key_def raw_service_id_def crypto_sizes Let_def list_update_append
        numeral_eq_Suc)
qed

lemma raw_service_id_parts:
  assumes "length d = 35" "d ! 34 = 3"
    "calc_truncated_checksum C (take 32 d) ! 0 = d ! 32" "calc_truncated_checksum C (take 32 d) ! 1 = d ! 33"
  shows "d = raw_service_id C (take 32 d)"
proof -
  have "drop 32 d = [d ! 32, d ! 33, d ! 34]"
    using assms(1) by (intro nth_equalityI) (auto simp: less_Suc_eq numeral_eq_Suc)
  moreover have "calc_truncated_checksum C (take 32 d) = [d ! 32, d ! 33]"
    using assms(3,4) by (intro nth_equalityI) (auto simp: less_Suc_eq numeral_2_eq_2)
  ultimately show ?thesis using assms(2) append_take_drop_id [of 32 d] by (simp add: raw_service_id_def)
qed

lemma raw_service_id_nth:
  assumes "length pk = 32"
  shows "raw_service_id C pk ! 34 = 3" "take 32 (raw_service_id C pk) = pk"
    "raw_service_id C pk ! 32 = calc_truncated_checksum C pk ! 0"
    "raw_service_id C pk ! 33 = calc_truncated_checksum C pk ! 1" "length (raw_service_id C pk) = 35"
  using assms by (simp_all add: raw_service_id_def nth_append)

lemma service_id_is_valid_iff:
  assumes "codec_laws C"
  shows "service_id_is_valid C s \<longleftrightarrow>
    (\<exists>pk. length pk = 32 \<and> s = sid_data (service_id_from_public_key C \<lparr> ed_public_key = pk \<rparr>))"
proof
  have cp: "codec_pair (onion_base32_encode C) (onion_base32_decode C) 35 56"
    using assms by (simp add: codec_laws_def)
  { assume v: "service_id_is_valid C s"
    then obtain d where d: "length s = 56" "onion_base32_decode C s = Some d" "length d = 35" "d ! 34 = 3"
      "calc_truncated_checksum C (take 32 d) ! 0 = d ! 32" "calc_truncated_checksum C (take 32 d) ! 1 = d ! 33"
      by (auto simp: service_id_is_valid_def crypto_sizes Let_def split: if_splits option.splits)
    from raw_service_id_parts [OF d(3-6)] codec_pairD(3) [OF cp d(1-3)] d(3)
    show "\<exists>pk. length pk = 32 \<and> s = sid_data (service_id_from_public_key C \<lparr> ed_public_key = pk \<rparr>)"
      by (intro exI [of _ "take 32 d"]) (simp add: service_id_from_public_key_raw) }
  { assume "\<exists>pk. length pk = 32 \<and> s = sid_data (service_id_from_public_key C \<lparr> ed_public_key = pk \<rparr>)"
    then obtain pk where pk: "length pk = 32" "s = onion_base32_encode C (raw_service_id C pk)"
      by (auto simp: service_id_from_public_key_raw)
    from raw_service_id_nth [OF pk(1)] codec_pairD(1,2) [OF cp, of "raw_service_id C pk"] pk(2)
    show "service_id_is_valid C s"
      by (simp add: service_id_is_valid_def crypto_sizes Let_def) }
qed

lemma service_id_key:
  assumes "codec_laws C" "length pk = 32"
  shows "ed25519_public_from_service_id C (service_id_from_public_key C \<lparr> ed_public_key = pk \<rparr>) =
    ed25519_public_from_raw C pk"
  using assms raw_service_id_nth [OF assms(2)]
    codec_pairD(2) [of "onion_base32_encode C" "onion_base32_decode C" 35 56 "raw_service_id C pk"]
  by (simp add: ed25519_public_from_service_id_def service_id_from_public_key_raw codec_laws_def crypto_sizes)

section \<open>Keys\<close>

lemma signing_keyD:
  assumes "signature_laws C" "signing_key C k"
  shows "length (keypair_public C (expanded_keypair k)) = 32"
    "public_key_from_bytes C (keypair_public C (expanded_keypair k)) = Some (keypair_public C (expanded_keypair k))"
    "length (signature (ed25519_private_sign_message C k m)) = 64"
    "ed25519_signature_verify C (ed25519_private_sign_message C k m) m (ed25519_public_from_private_key C k)"
    "ed25519_private_clone C k = Ret k"
  using assms
  by (auto simp: signature_laws_def ed25519_private_sign_message_def ed25519_signature_verify_def
      ed25519_public_from_private_key_def signing_key_def ed25519_private_clone_def ed25519_private_to_bytes_def)

lemma own_service_id:
  assumes "codec_laws C" "signature_laws C" "signing_key C k"
  shows "service_id_from_string C (service_id_to_string (service_id_from_private_key C k)) =
      Ok (service_id_from_private_key C k)"
    "ed25519_public_from_service_id C (service_id_from_private_key C k) =
      Ok (ed25519_public_from_private_key C k)"
    "length (sid_data (service_id_from_private_key C k)) = 56"
proof -
  let ?pk = "keypair_public C (expanded_keypair k)"
  note pk = signing_keyD(1,2) [OF assms(2,3)]
  have id: "service_id_from_private_key C k = service_id_from_public_key C \<lparr> ed_public_key = ?pk \<rparr>"
    by (simp add: service_id_from_private_key_def ed25519_public_from_private_key_def)
  have "service_id_is_valid C (sid_data (service_id_from_private_key C k))"
    using service_id_is_valid_iff [OF assms(1)] pk(1) id by auto
  then show "service_id_from_string C (service_id_to_string (service_id_from_private_key C k)) =
      Ok (service_id_from_private_key C k)" "length (sid_data (service_id_from_private_key C k)) = 56"
    by (auto simp: service_id_from_string_def service_id_to_string_def service_id_is_valid_def crypto_sizes
        split: if_splits)
  show "ed25519_public_from_service_id C (service_id_from_private_key C k) =
      Ok (ed25519_public_from_private_key C k)"
    using service_id_key [OF assms(1) pk(1)] pk(2) id
    by (simp add: ed25519_public_from_raw_def ed25519_public_from_private_key_def)
qed

lemma service_id_from_string_Ok:
  "service_id_from_string C s = Ok sid \<longleftrightarrow> service_id_is_valid C s \<and> sid = \<lparr> sid_data = s \<rparr>"
  by (auto simp: service_id_from_string_def)

lemma key_blob_roundtrip:
  assumes "codec_laws C" "signing_key C k"
  shows "ed25519_private_from_key_blob C (ed25519_private_to_key_blob C k) = Ok k"
  using assms codec_pairD(1,2) [of "base64_encode C" "base64_decode C" 64 88 "expanded_keypair k"]
  by (simp add: ed25519_private_from_key_blob_def ed25519_private_from_key_blob_impl_def
      ed25519_private_to_key_blob_def codec_laws_def signing_key_def starts_with_def crypto_sizes
      ED25519_PRIVATE_KEY_KEYBLOB_HEADER_def ed25519_private_from_raw_def)

lemma x25519_private_roundtrip:
  assumes "codec_laws C" "length raw = 32" "x25519_private_from_raw raw = Ok k"
  shows "secret_key k = raw" "x25519_private_from_base64 C (x25519_private_to_base64 C k) = Ok k"
  using assms codec_pairD(1,2) [of "base64_encode C" "base64_decode C" 32 44 raw]
  by (auto simp: x25519_private_from_base64_def x25519_private_to_base64_def codec_laws_def crypto_sizes
      x25519_private_from_raw_def split: if_splits)

lemma x25519_public_roundtrip:
  assumes "codec_laws C" "length raw = 32"
  shows "x25519_public_from_base32 C (x25519_public_to_base32 C (x25519_public_from_raw raw)) =
    Ok (x25519_public_from_raw raw)"
  using assms codec_pairD(1,2) [of "base32_nopad_encode C" "base32_nopad_decode C" 32 52 raw]
  by (simp add: x25519_public_from_base32_def x25519_public_to_base32_def codec_laws_def crypto_sizes
      x25519_public_from_raw_def)

text \<open>A signature made with a converted x25519 key verifies under its public key and sign bit.\<close>

lemma sign_bit_into_u8_eq [simp]: "sign_bit_into_u8 b = 0 \<longleftrightarrow> b = Zero" "sign_bit_into_u8 b = 1 \<longleftrightarrow> b = One"
  by (cases b; simp)+

lemma from_private_x25519_Ok:
  "ed25519_private_from_private_x25519 C sk = Ok (k, b) \<longleftrightarrow>
   convert_curve25519_to_ed25519_private C (secret_key sk) = Some (expanded_keypair k, sign_bit_into_u8 b)"
  by (cases b) (auto simp: ed25519_private_from_private_x25519_def split: option.splits prod.splits if_splits)

lemma x25519_signing_key:
  assumes "signature_laws C" "ed25519_private_from_private_x25519 C sk = Ok (k, b)"
  shows "signing_key C k" "length (x_public_key (x25519_public_from_private_key C sk)) = 32"
    "ed25519_public_from_public_x25519 C (x25519_public_from_private_key C sk) b =
       Ok (ed25519_public_from_private_key C k)"
proof -
  have k: "\<lparr> expanded_keypair = expanded_keypair k \<rparr> = k" by simp
  from assms have *: "signing_key C \<lparr> expanded_keypair = expanded_keypair k \<rparr> \<and>
      length (curve25519_public C (secret_key sk)) = 32 \<and>
      convert_curve25519_to_ed25519_public C (curve25519_public C (secret_key sk)) (sign_bit_into_u8 b) =
        Some (keypair_public C (expanded_keypair k))"
    unfolding signature_laws_def from_private_x25519_Ok by blast
  then show "signing_key C k" "length (x_public_key (x25519_public_from_private_key C sk)) = 32"
    "ed25519_public_from_public_x25519 C (x25519_public_from_private_key C sk) b =
       Ok (ed25519_public_from_private_key C k)"
    by (simp_all add: k x25519_public_from_private_key_def ed25519_public_from_public_x25519_def
        ed25519_public_from_private_key_def)
qed

lemma x25519_sign_verifies:
  assumes "signature_laws C" "ed25519_private_from_private_x25519 C sk = Ok (k, b)"
  shows "ed25519_signature_verify_x25519 C (ed25519_private_sign_message C k m) m
    (x25519_public_from_private_key C sk) b"
  using x25519_signing_key [OF assms] signing_keyD(4) [OF assms(1)]
  by (simp add: ed25519_signature_verify_x25519_def)

text \<open>
  \<open>from_raw\<close> of an x25519 private key masks the first byte with 240 where clamping uses 248,
  so a clamped key is accepted exactly when bit 3 of its first byte is clear.
\<close>

definition x25519_clamped :: "bytes \<Rightarrow> bool" where
  "x25519_clamped raw \<longleftrightarrow> raw ! 0 = raw ! 0 AND 248 \<and> raw ! 31 = (raw ! 31 AND 127) OR 64"

lemma mask_240: "(b :: byte) = b AND 248 \<Longrightarrow> b = b AND 240 \<longleftrightarrow> \<not> bit b 3"
proof -
  have *: "(240 :: byte) = 248 AND NOT 8" by simp
  have eight: "bit (8 :: byte) i \<longleftrightarrow> i = 3" for i
    using bit_exp_iff [where ?'a = byte, of 3 i] by auto
  assume b: "b = b AND 248"
  then have "b AND 240 = b AND NOT 8" by (metis "*" and.assoc)
  moreover have "b = b AND NOT 8 \<longleftrightarrow> \<not> bit b 3"
  proof
    assume e: "b = b AND NOT 8"
    have "\<not> bit (b AND NOT 8) 3" by (simp only: bit_and_iff bit_not_iff eight) simp
    with e show "\<not> bit b 3" by metis
  next
    assume n: "\<not> bit b 3"
    have "bit b i = bit (b AND NOT 8) i" if "i < 8" for i
      unfolding bit_and_iff bit_not_iff eight using n that by auto
    then show "b = b AND NOT 8" by (intro bit_word_eqI) simp
  qed
  ultimately show ?thesis by simp
qed

lemma x25519_from_raw_clamped:
  "x25519_clamped raw \<Longrightarrow> x25519_private_from_raw raw = (if bit (raw ! 0) 3 then Err KeyInvalid else Ok \<lparr> secret_key = raw \<rparr>)"
  using mask_240 [of "raw ! 0"] by (auto simp: x25519_clamped_def x25519_private_from_raw_def)

end
