(* ===== verification/Honk_Message.thy ===== *)
theory Honk_Message
  imports Bson_Interface
begin

text \<open>
  The Honk-RPC message format (\<open>honk_rpc.rs\<close>, the part above \<open>ApiSet\<close>): error codes and
  their \<open>i32\<close> encoding, the packed protocol version, and the conversions between messages,
  their sections and BSON documents. The lemmas show that each conversion into a document is
  undone by the corresponding \<open>try_from\<close>, on exactly the sections that are well formed, and
  that \<open>try_from\<close> only ever produces well-formed sections.
\<close>

unbundle bit_operations_syntax

section \<open>Error codes\<close>

datatype error_code =
    BsonParseFailed
  | MessageTooBig
  | MessageParseFailed
  | MessageVersionIncompatible
  | SectionIdUnknown
  | SectionParseFailed
  | RequestCookieInvalid
  | RequestNamespaceInvalid
  | RequestFunctionInvalid
  | RequestVersionInvalid
  | ResponseCookieInvalid
  | ResponseStateInvalid
  | Runtime i32
  | Unknown i32

definition error_code_from_i32 :: "i32 \<Rightarrow> error_code" where
  "error_code_from_i32 v =
     (if v = -1 then BsonParseFailed
      else if v = -2 then MessageTooBig
      else if v = -3 then MessageParseFailed
      else if v = -4 then MessageVersionIncompatible
      else if v = -5 then SectionIdUnknown
      else if v = -6 then SectionParseFailed
      else if v = -7 then RequestCookieInvalid
      else if v = -8 then RequestNamespaceInvalid
      else if v = -9 then RequestFunctionInvalid
      else if v = -10 then RequestVersionInvalid
      else if v = -11 then ResponseCookieInvalid
      else if v = -12 then ResponseStateInvalid
      else if 0 <s v then Runtime v else Unknown v)"

fun error_code_into_i32 :: "error_code \<Rightarrow> i32" where
  "error_code_into_i32 BsonParseFailed = -1"
| "error_code_into_i32 MessageTooBig = -2"
| "error_code_into_i32 MessageParseFailed = -3"
| "error_code_into_i32 MessageVersionIncompatible = -4"
| "error_code_into_i32 SectionIdUnknown = -5"
| "error_code_into_i32 SectionParseFailed = -6"
| "error_code_into_i32 RequestCookieInvalid = -7"
| "error_code_into_i32 RequestNamespaceInvalid = -8"
| "error_code_into_i32 RequestFunctionInvalid = -9"
| "error_code_into_i32 RequestVersionInvalid = -10"
| "error_code_into_i32 ResponseCookieInvalid = -11"
| "error_code_into_i32 ResponseStateInvalid = -12"
| "error_code_into_i32 (Runtime v) = v"
| "error_code_into_i32 (Unknown v) = v"

text \<open>\<open>Display\<close>; a number is printed in decimal with a leading minus sign.\<close>

definition show_i32 :: "i32 \<Rightarrow> string" where
  "show_i32 v = (if sint v < 0 then CHR ''-'' # decimal (nat (- sint v)) else decimal (nat (sint v)))"

fun error_code_fmt :: "error_code \<Rightarrow> string" where
  "error_code_fmt BsonParseFailed = ''ProtocolError: failed to parse BSON object''"
| "error_code_fmt MessageTooBig = ''ProtocolError: received document too large''"
| "error_code_fmt MessageParseFailed = ''ProtocolError: received message has invalid schema''"
| "error_code_fmt MessageVersionIncompatible =
     ''ProtocolError: received message has incompatible version''"
| "error_code_fmt SectionIdUnknown =
     ''ProtocolError: received message contains section of unknown type''"
| "error_code_fmt SectionParseFailed =
     ''ProtocolError: received message contains section with invalid schema''"
| "error_code_fmt RequestCookieInvalid = ''ProtocolError: request cookie already in use''"
| "error_code_fmt RequestNamespaceInvalid =
     ''ProtocolError: request function does not exist in requested namespace''"
| "error_code_fmt RequestFunctionInvalid = ''ProtocolError: request function does not exist''"
| "error_code_fmt RequestVersionInvalid =
     ''ProtocolError: request function version does not exist''"
| "error_code_fmt ResponseCookieInvalid = ''ProtocolError: response cookie is not recognized''"
| "error_code_fmt ResponseStateInvalid = ''ProtocolError: response state not valid''"
| "error_code_fmt (Runtime code) = ''RuntimeError: runtime error '' @ show_i32 code"
| "error_code_fmt (Unknown code) = ''UnknownError: unknown error code '' @ show_i32 code"

section \<open>Protocol version\<close>

definition semver_to_i32 :: "byte \<Rightarrow> byte \<Rightarrow> byte \<Rightarrow> i32" where
  "semver_to_i32 major minor patch =
     push_bit 16 (ucast major) OR push_bit 8 (ucast minor) OR ucast patch"

definition i32_to_semver :: "i32 \<Rightarrow> (byte \<times> byte \<times> byte) option" where
  "i32_to_semver ver =
     (if 0 <=s ver \<and> ver <=s 0xffffff then
        let major = signed_drop_bit 16 (ver AND 0xff0000);
            minor = signed_drop_bit 8 (ver AND 0xff00);
            patch = ver AND 0xff
        in Some (ucast major, ucast minor, ucast patch)
      else None)"

definition HONK_RPC_VERSION :: i32 where
  "HONK_RPC_VERSION = semver_to_i32 0 1 0"

section \<open>Sections\<close>

type_synonym request_cookie = i64

definition ERROR_SECTION_ID :: i32 where "ERROR_SECTION_ID = 0"
definition REQUEST_SECTION_ID :: i32 where "REQUEST_SECTION_ID = 1"
definition RESPONSE_SECTION_ID :: i32 where "RESPONSE_SECTION_ID = 2"

record 'd error_section =
  es_cookie :: "request_cookie option"
  es_code :: error_code
  es_message :: "string option"
  es_data :: "'d bson option"

record 'd request_section =
  rq_cookie :: "request_cookie option"
  rq_namespace :: string
  rq_function :: string
  rq_version :: i32
  rq_arguments :: 'd

datatype request_state = Pending | Complete

fun request_state_i32 :: "request_state \<Rightarrow> i32" where
  "request_state_i32 Pending = 0"
| "request_state_i32 Complete = 1"

record 'd response_section =
  rs_cookie :: request_cookie
  rs_state :: request_state
  rs_result :: "'d bson option"

datatype 'd rpc_section =
    SError "'d error_section"
  | SRequest "'d request_section"
  | SResponse "'d response_section"

text \<open>Optional entries: \<open>if let Some(x) = .. { doc.insert(k, x) }\<close>.\<close>

definition insert_opt :: "'d bson_ops \<Rightarrow> 'd \<Rightarrow> string \<Rightarrow> 'd bson option \<Rightarrow> 'd" where
  "insert_opt B d k v = (case v of Some x \<Rightarrow> doc_insert B d k x | None \<Rightarrow> d)"

definition error_section_try_from :: "'d bson_ops \<Rightarrow> 'd \<Rightarrow> ('d error_section, error_code) result" where
  "error_section_try_from B value =
     (let parse = (\<lambda>cookie. case get_i32 B value ''code'' of
          Err _ \<Rightarrow> Err SectionParseFailed
        | Ok code \<Rightarrow>
            (let finish = (\<lambda>message. Ok \<lparr> es_cookie = cookie, es_code = error_code_from_i32 code,
                es_message = message, es_data = doc_get B value ''data'' \<rparr>)
             in case get_str B value ''message'' of
               Ok message \<Rightarrow> finish (Some message)
             | Err NotPresent \<Rightarrow> finish None
             | Err UnexpectedType \<Rightarrow> Err SectionParseFailed))
      in case get_i64 B value ''cookie'' of
           Ok cookie \<Rightarrow> parse (Some cookie)
         | Err NotPresent \<Rightarrow> parse None
         | Err UnexpectedType \<Rightarrow> Err SectionParseFailed)"

definition error_section_into :: "'d bson_ops \<Rightarrow> 'd error_section \<Rightarrow> 'd" where
  "error_section_into B v =
     (let d = doc_insert B (doc_new B) ''id'' (BInt32 ERROR_SECTION_ID);
          d = insert_opt B d ''cookie'' (map_option BInt64 (es_cookie v));
          d = doc_insert B d ''code'' (BInt32 (error_code_into_i32 (es_code v)));
          d = insert_opt B d ''message'' (map_option BString (es_message v));
          d = insert_opt B d ''data'' (es_data v)
      in d)"

definition request_section_try_from ::
  "'d bson_ops \<Rightarrow> 'd \<Rightarrow> ('d request_section, error_code) result" where
  "request_section_try_from B value =
     (case (case get_i64 B value ''cookie'' of
          Ok cookie \<Rightarrow> Ok (Some cookie)
        | Err NotPresent \<Rightarrow> Ok None
        | Err UnexpectedType \<Rightarrow> Err SectionParseFailed) of Err e \<Rightarrow> Err e | Ok cookie \<Rightarrow>
      case (case get_str B value ''namespace'' of
          Ok namespace \<Rightarrow> Ok namespace
        | Err NotPresent \<Rightarrow> Ok ''''
        | Err UnexpectedType \<Rightarrow> Err SectionParseFailed) of Err e \<Rightarrow> Err e | Ok namespace \<Rightarrow>
      case (case get_str B value ''function'' of
          Ok function \<Rightarrow> (if function = '''' then Err RequestFunctionInvalid else Ok function)
        | Err _ \<Rightarrow> Err SectionParseFailed) of Err e \<Rightarrow> Err e | Ok function \<Rightarrow>
      case (case get_i32 B value ''version'' of
          Ok version \<Rightarrow> Ok version
        | Err NotPresent \<Rightarrow> Ok 0
        | Err UnexpectedType \<Rightarrow> Err SectionParseFailed) of Err e \<Rightarrow> Err e | Ok version \<Rightarrow>
      case (case get_document B value ''arguments'' of
          Ok arguments \<Rightarrow> Ok arguments
        | Err NotPresent \<Rightarrow> Ok (doc_new B)
        | Err UnexpectedType \<Rightarrow> Err SectionParseFailed) of Err e \<Rightarrow> Err e | Ok arguments \<Rightarrow>
      Ok \<lparr> rq_cookie = cookie, rq_namespace = namespace, rq_function = function,
           rq_version = version, rq_arguments = arguments \<rparr>)"

definition request_section_into :: "'d bson_ops \<Rightarrow> 'd request_section \<Rightarrow> 'd" where
  "request_section_into B v =
     (let d = doc_insert B (doc_new B) ''id'' (BInt32 REQUEST_SECTION_ID);
          d = insert_opt B d ''cookie'' (map_option BInt64 (rq_cookie v));
          d = (if rq_namespace v \<noteq> '''' then doc_insert B d ''namespace'' (BString (rq_namespace v)) else d);
          d = doc_insert B d ''function'' (BString (rq_function v));
          d = (if rq_version v \<noteq> 0 then doc_insert B d ''version'' (BInt32 (rq_version v)) else d);
          d = doc_insert B d ''arguments'' (BDocument (rq_arguments v))
      in d)"

definition response_section_try_from ::
  "'d bson_ops \<Rightarrow> 'd \<Rightarrow> ('d response_section, error_code) result" where
  "response_section_try_from B value =
     (case get_i64 B value ''cookie'' of
        Err _ \<Rightarrow> Err SectionParseFailed
      | Ok cookie \<Rightarrow>
          (case get_i32 B value ''state'' of
             Err _ \<Rightarrow> Err SectionParseFailed
           | Ok n \<Rightarrow>
               (if n \<noteq> 0 \<and> n \<noteq> 1 then Err ResponseStateInvalid
                else let state = (if n = 0 then Pending else Complete);
                         result = doc_get B value ''result''
                     in if state = Pending \<and> result \<noteq> None then Err SectionParseFailed
                        else Ok \<lparr> rs_cookie = cookie, rs_state = state, rs_result = result \<rparr>)))"

definition response_section_into :: "'d bson_ops \<Rightarrow> 'd response_section \<Rightarrow> 'd" where
  "response_section_into B v =
     (let d = doc_insert B (doc_new B) ''id'' (BInt32 RESPONSE_SECTION_ID);
          d = doc_insert B d ''cookie'' (BInt64 (rs_cookie v));
          d = doc_insert B d ''state'' (BInt32 (request_state_i32 (rs_state v)));
          d = insert_opt B d ''result'' (rs_result v)
      in d)"

definition section_try_from :: "'d bson_ops \<Rightarrow> 'd \<Rightarrow> ('d rpc_section, error_code) result" where
  "section_try_from B value =
     (case get_i32 B value ''id'' of
        Ok sid \<Rightarrow>
          (if sid = ERROR_SECTION_ID then
             (case error_section_try_from B value of Ok s \<Rightarrow> Ok (SError s) | Err e \<Rightarrow> Err e)
           else if sid = REQUEST_SECTION_ID then
             (case request_section_try_from B value of Ok s \<Rightarrow> Ok (SRequest s) | Err e \<Rightarrow> Err e)
           else if sid = RESPONSE_SECTION_ID then
             (case response_section_try_from B value of Ok s \<Rightarrow> Ok (SResponse s) | Err e \<Rightarrow> Err e)
           else Err SectionIdUnknown)
      | Err _ \<Rightarrow> Err SectionParseFailed)"

fun section_into :: "'d bson_ops \<Rightarrow> 'd rpc_section \<Rightarrow> 'd" where
  "section_into B (SError s) = error_section_into B s"
| "section_into B (SRequest s) = request_section_into B s"
| "section_into B (SResponse s) = response_section_into B s"

section \<open>Messages\<close>

record 'd message =
  msg_honk_rpc :: i32
  msg_sections :: "'d rpc_section list"

fun sections_try_from :: "'d bson_ops \<Rightarrow> 'd bson list \<Rightarrow> ('d rpc_section list, error_code) result" where
  "sections_try_from B [] = Ok []"
| "sections_try_from B (BDocument d # xs) =
     (case section_try_from B d of
        Err e \<Rightarrow> Err e
      | Ok s \<Rightarrow> (case sections_try_from B xs of Err e \<Rightarrow> Err e | Ok ss \<Rightarrow> Ok (s # ss)))"
| "sections_try_from B (_ # xs) = Err SectionParseFailed"

definition message_try_from :: "'d bson_ops \<Rightarrow> 'd \<Rightarrow> ('d message, error_code) result" where
  "message_try_from B value =
     (case get_i32 B value ''honk_rpc'' of
        Err _ \<Rightarrow> Err MessageParseFailed
      | Ok honk_rpc \<Rightarrow>
          (if honk_rpc \<noteq> HONK_RPC_VERSION then
             (case i32_to_semver honk_rpc of
                Some _ \<Rightarrow> Err MessageVersionIncompatible
              | None \<Rightarrow> Err MessageParseFailed)
           else case get_array B value ''sections'' of
             Err _ \<Rightarrow> Err MessageParseFailed
           | Ok sections \<Rightarrow>
               (if sections = [] then Err MessageParseFailed
                else case sections_try_from B sections of
                  Err e \<Rightarrow> Err e
                | Ok ss \<Rightarrow> Ok \<lparr> msg_honk_rpc = honk_rpc, msg_sections = ss \<rparr>)))"

definition message_into :: "'d bson_ops \<Rightarrow> 'd message \<Rightarrow> 'd" where
  "message_into B m =
     doc_insert B (doc_insert B (doc_new B) ''honk_rpc'' (BInt32 (msg_honk_rpc m)))
       ''sections'' (BArray (map (\<lambda>s. BDocument (section_into B s)) (msg_sections m)))"

section \<open>Error codes and versions: the encodings\<close>

text \<open>The codes that survive a trip through \<open>i32\<close>.\<close>

fun canonical_code :: "error_code \<Rightarrow> bool" where
  "canonical_code (Runtime v) = (0 <s v)"
| "canonical_code (Unknown v) = (v <=s 0 \<and> \<not> (-12 <=s v \<and> v <=s -1))"
| "canonical_code _ = True"

lemma error_code_into_from: "error_code_into_i32 (error_code_from_i32 v) = v"
  by (simp add: error_code_from_i32_def)

lemma i32_between_minus12_minus1:
  "(-12 <=s (v :: i32) \<and> v <=s -1) \<longleftrightarrow>
   v \<in> {-1, -2, -3, -4, -5, -6, -7, -8, -9, -10, -11, -12}"
proof
  assume "-12 <=s v \<and> v <=s -1"
  then have "-12 \<le> sint v" "sint v \<le> -1" by (simp_all add: word_sle_eq)
  then have "sint v \<in> {-12 .. -1}" by simp
  then have "sint v \<in> {-1, -2, -3, -4, -5, -6, -7, -8, -9, -10, -11, -12}"
    by (simp add: atLeastAtMost_iff) arith
  then have "word_of_int (sint v) \<in> (word_of_int :: int \<Rightarrow> i32) ` {-1, -2, -3, -4, -5, -6, -7, -8, -9, -10, -11, -12}"
    by (rule imageI)
  then show "v \<in> {-1, -2, -3, -4, -5, -6, -7, -8, -9, -10, -11, -12}" by simp
next
  assume "v \<in> {-1, -2, -3, -4, -5, -6, -7, -8, -9, -10, -11, -12}"
  then show "-12 <=s v \<and> v <=s -1" by (auto simp: word_sle_eq)
qed

lemma error_code_from_canonical: "canonical_code (error_code_from_i32 v)"
proof (cases "-12 <=s v \<and> v <=s -1")
  case True
  then show ?thesis unfolding i32_between_minus12_minus1 by (auto simp: error_code_from_i32_def)
next
  case False
  then have "v \<notin> {-1, -2, -3, -4, -5, -6, -7, -8, -9, -10, -11, -12}"
    by (simp only: i32_between_minus12_minus1) simp
  then have "error_code_from_i32 v = (if 0 <s v then Runtime v else Unknown v)"
    by (simp add: error_code_from_i32_def)
  with False show ?thesis by (auto simp: word_sle_eq word_sless_alt)
qed

lemma error_code_from_into_iff: "error_code_from_i32 (error_code_into_i32 c) = c \<longleftrightarrow> canonical_code c"
proof
  assume "error_code_from_i32 (error_code_into_i32 c) = c"
  then show "canonical_code c" using error_code_from_canonical by metis
next
  assume c: "canonical_code c"
  show "error_code_from_i32 (error_code_into_i32 c) = c"
  proof (cases c)
    case (Runtime v)
    with c have "0 <s v" by simp
    moreover from this have "\<not> v <=s -1" by (simp add: word_sless_alt word_sle_eq)
    ultimately show ?thesis
      using i32_between_minus12_minus1 [of v] Runtime by (simp add: error_code_from_i32_def)
  next
    case (Unknown v)
    with c have "\<not> 0 <s v" "\<not> (-12 <=s v \<and> v <=s -1)" by (auto simp: word_sless_alt word_sle_eq)
    then show ?thesis
      using i32_between_minus12_minus1 [of v] Unknown by (simp add: error_code_from_i32_def)
  qed (simp_all add: error_code_from_i32_def)
qed

lemma semver_masks:
  "(0xff :: i32) = mask 8" "(0xff00 :: i32) = push_bit 8 (mask 8)" "(0xff0000 :: i32) = push_bit 16 (mask 8)"
  by (simp_all add: mask_eq_exp_minus_1 push_bit_eq_mult)

lemmas semver_bits = semver_to_i32_def semver_masks bit_simps

lemma semver_fields:
  "ucast (signed_drop_bit 16 (semver_to_i32 a b c AND 0xff0000)) = a"
  "ucast (signed_drop_bit 8 (semver_to_i32 a b c AND 0xff00)) = b"
  "ucast (semver_to_i32 a b c AND 0xff) = c"
  by (rule bit_word_eqI; auto simp: semver_bits dest: bit_imp_le_length)+

lemma semver_take_bit: "take_bit 24 (semver_to_i32 a b c) = semver_to_i32 a b c"
  by (rule bit_word_eqI) (auto simp: semver_bits dest: bit_imp_le_length)

lemma semver_range: "0 <=s (v::i32) \<and> v <=s 0xffffff \<longleftrightarrow> take_bit 24 v = v"
proof -
  have "0 <=s v \<and> v <=s 0xffffff \<longleftrightarrow> 0 \<le> sint v \<and> sint v < 2^24"
    by (auto simp: word_sle_eq)
  also have "\<dots> \<longleftrightarrow> uint v < 2 ^ 24"
  proof
    assume "0 \<le> sint v \<and> sint v < 2 ^ 24"
    then have "take_bit 32 (sint v) = sint v" by (simp add: take_bit_int_eq_self)
    with \<open>0 \<le> sint v \<and> _\<close> show "uint v < 2 ^ 24" by (simp add: uint_sint)
  next
    assume "uint v < 2 ^ 24"
    then have "signed_take_bit 31 (uint v) = uint v"
      by (intro signed_take_bit_int_eq_self order_trans [OF _ uint_ge_0]) simp_all
    with \<open>uint v < 2 ^ 24\<close> show "0 \<le> sint v \<and> sint v < 2 ^ 24" by (simp add: sint_uint)
  qed
  also have "\<dots> \<longleftrightarrow> take_bit 24 v = v"
    by (metis (no_types) take_bit_int_eq_self_iff unsigned_take_bit_eq uint_ge_0 unsigned_word_eqI)
  finally show ?thesis .
qed

lemma i32_to_semver_to_i32: "i32_to_semver (semver_to_i32 a b c) = Some (a, b, c)"
  using semver_range [of "semver_to_i32 a b c"]
  by (simp add: i32_to_semver_def semver_fields semver_take_bit Let_def)

lemma semver_to_i32_to_semver:
  assumes "i32_to_semver v = Some (a, b, c)" shows "semver_to_i32 a b c = v"
proof -
  from assms have "take_bit 24 v = v" and abc: "a = ucast (signed_drop_bit 16 (v AND 0xff0000))"
      "b = ucast (signed_drop_bit 8 (v AND 0xff00))" "c = ucast (v AND 0xff)"
    by (auto simp: i32_to_semver_def semver_range Let_def split: if_splits)
  then have lt: "bit v n \<Longrightarrow> n < 24" for n by (metis bit_take_bit_iff)
  show ?thesis unfolding abc
  proof (rule bit_word_eqI)
    fix n
    have "n < 8 \<or> (8 \<le> n \<and> n < 16) \<or> (16 \<le> n \<and> n < 24) \<or> \<not> bit v n" using lt [of n] by linarith
    then show "bit (semver_to_i32 (ucast (signed_drop_bit 16 (v AND 0xff0000)))
        (ucast (signed_drop_bit 8 (v AND 0xff00))) (ucast (v AND 0xff))) n = bit v n"
      by (elim disjE conjE) (auto simp: semver_bits)
  qed
qed

section \<open>Sections: round trips and well-formedness\<close>

text \<open>What \<open>try_from\<close> guarantees of a section it returns.\<close>

fun section_wf :: "'d rpc_section \<Rightarrow> bool" where
  "section_wf (SError s) = canonical_code (es_code s)"
| "section_wf (SRequest s) = (rq_function s \<noteq> '''')"
| "section_wf (SResponse s) = (rs_state s = Pending \<longrightarrow> rs_result s = None)"

lemma error_section_roundtrip:
  assumes "bson_laws B" "canonical_code (es_code s)"
  shows "error_section_try_from B (error_section_into B s) = Ok s"
  using assms error_code_from_into_iff [of "es_code s"]
  by (cases s) (auto simp: error_section_try_from_def error_section_into_def insert_opt_def
      bson_rules Let_def split: option.splits)

lemma request_section_roundtrip:
  assumes "bson_laws B" "rq_function s \<noteq> ''''"
  shows "request_section_try_from B (request_section_into B s) = Ok s"
  using assms
  by (cases s) (auto simp: request_section_try_from_def request_section_into_def insert_opt_def
      bson_rules Let_def split: option.splits)

lemma response_section_roundtrip:
  assumes "bson_laws B" "rs_state s = Pending \<longrightarrow> rs_result s = None"
  shows "response_section_try_from B (response_section_into B s) = Ok s"
  using assms
  by (cases s; cases "rs_state s") (auto simp: response_section_try_from_def
      response_section_into_def insert_opt_def bson_rules Let_def split: option.splits)

lemma section_into_id:
  assumes "bson_laws B"
  shows "get_i32 B (section_into B s) ''id'' = Ok (case s of SError _ \<Rightarrow> ERROR_SECTION_ID
    | SRequest _ \<Rightarrow> REQUEST_SECTION_ID | SResponse _ \<Rightarrow> RESPONSE_SECTION_ID)"
  using assms
  by (cases s) (auto simp: error_section_into_def request_section_into_def
      response_section_into_def insert_opt_def bson_rules Let_def split: option.splits)

lemma section_roundtrip:
  assumes "bson_laws B" "section_wf s"
  shows "section_try_from B (section_into B s) = Ok s"
  using assms section_into_id [OF assms(1), of s]
  by (cases s) (simp_all add: section_try_from_def ERROR_SECTION_ID_def REQUEST_SECTION_ID_def
      RESPONSE_SECTION_ID_def error_section_roundtrip request_section_roundtrip
      response_section_roundtrip)

lemma error_section_try_from_wf:
  "error_section_try_from B d = Ok s \<Longrightarrow> canonical_code (es_code s)"
  by (auto simp: error_section_try_from_def Let_def error_code_from_canonical
      split: result.splits value_access_error.splits)

lemma request_section_try_from_wf:
  assumes "request_section_try_from B d = Ok s" shows "rq_function s \<noteq> []"
  using assms by (simp add: request_section_try_from_def split: result.splits if_splits) auto

lemma response_section_try_from_wf:
  "response_section_try_from B d = Ok s \<Longrightarrow> rs_state s = Pending \<Longrightarrow> rs_result s = None"
  by (auto simp: response_section_try_from_def Let_def split: result.splits if_splits)

lemma section_try_from_wf:
  assumes "section_try_from B d = Ok s" shows "section_wf s"
  using assms
  by (auto simp: section_try_from_def error_section_try_from_wf response_section_try_from_wf
      split: result.splits if_splits dest: request_section_try_from_wf)

lemma sections_try_from_wf:
  "sections_try_from B xs = Ok ss \<Longrightarrow> list_all section_wf ss"
  by (induction xs arbitrary: ss rule: sections_try_from.induct)
    (auto split: result.splits dest: section_try_from_wf)

lemma sections_roundtrip:
  "bson_laws B \<Longrightarrow> list_all section_wf ss \<Longrightarrow>
   sections_try_from B (map (\<lambda>s. BDocument (section_into B s)) ss) = Ok ss"
  by (induction ss) (simp_all add: section_roundtrip)

lemma message_roundtrip:
  assumes "bson_laws B" "msg_honk_rpc m = HONK_RPC_VERSION" "msg_sections m \<noteq> []"
    "list_all section_wf (msg_sections m)"
  shows "message_try_from B (message_into B m) = Ok m"
  using assms by (simp add: message_try_from_def message_into_def bson_rules sections_roundtrip)

lemma message_try_from_Ok:
  assumes "message_try_from B d = Ok m"
  shows "msg_honk_rpc m = HONK_RPC_VERSION" "msg_sections m \<noteq> []" "list_all section_wf (msg_sections m)"
proof -
  from assms obtain xs ss where xs: "xs \<noteq> []" "sections_try_from B xs = Ok ss"
    and m: "m = \<lparr> msg_honk_rpc = HONK_RPC_VERSION, msg_sections = ss \<rparr>"
    by (auto simp: message_try_from_def split: result.splits if_splits option.splits)
  from m show "msg_honk_rpc m = HONK_RPC_VERSION" by simp
  from xs m show "list_all section_wf (msg_sections m)" by (simp add: sections_try_from_wf)
  from xs(2) xs(1) have "ss \<noteq> []"
    by (induction xs rule: sections_try_from.induct) (auto split: result.splits)
  with m show "msg_sections m \<noteq> []" by simp
qed

end
