(* ===== verification/Vec_Deque.thy ===== *)
theory Vec_Deque
  imports Gosling_Prelude
begin

text \<open>
  The standard library's \<open>VecDeque\<close> as the session's write buffer uses it: a ring buffer
  with a capacity and a head position. The layout matters because
  \<open>write_pending_data_impl\<close> asserts that the second of the two slices is empty. The locale
  \<open>byte_fifo\<close> is the contract the session relies on (a queue of bytes); it is interpreted on
  the ring buffer.
\<close>

section \<open>The ring buffer\<close>

record 'a vecdeque =
  vd_cap :: nat
  vd_head :: nat
  vd_items :: "'a list"

definition vd_new :: "'a vecdeque" where
  "vd_new = \<lparr> vd_cap = 0, vd_head = 0, vd_items = [] \<rparr>"

definition vd_contiguous :: "'a vecdeque \<Rightarrow> bool" where
  "vd_contiguous v \<longleftrightarrow> vd_head v + length (vd_items v) \<le> vd_cap v"

text \<open>
  \<open>reserve\<close> reallocates only when the free space is too small; the new capacity is at least
  twice the old one. A buffer that was wrapped is either completed behind its head part or has
  its head part moved to the end of the new allocation.
\<close>

definition vd_reserve :: "nat \<Rightarrow> 'a vecdeque \<Rightarrow> 'a vecdeque" where
  "vd_reserve n v =
     (let len = length (vd_items v); cap = vd_cap v in
      if n \<le> cap - len then v
      else let new_cap = max 8 (max (2 * cap) (len + n));
               head_len = cap - vd_head v;
               tail_len = len - head_len;
               new_head = (if vd_contiguous v then vd_head v
                           else if tail_len < head_len \<and> tail_len \<le> new_cap - cap then vd_head v
                           else new_cap - head_len)
           in v\<lparr> vd_cap := new_cap, vd_head := new_head \<rparr>)"

definition vd_append :: "'a list \<Rightarrow> 'a vecdeque \<Rightarrow> 'a vecdeque" where
  "vd_append xs v = (let v = vd_reserve (length xs) v in v\<lparr> vd_items := vd_items v @ xs \<rparr>)"

definition vd_as_slices :: "'a vecdeque \<Rightarrow> 'a list \<times> 'a list" where
  "vd_as_slices v =
     (if vd_contiguous v then (vd_items v, [])
      else (take (vd_cap v - vd_head v) (vd_items v), drop (vd_cap v - vd_head v) (vd_items v)))"

text \<open>\<open>drain(0..n)\<close>: the head moves over the removed elements, and back to 0 when none is left.\<close>

definition vd_drain_front :: "nat \<Rightarrow> 'a vecdeque \<Rightarrow> 'a vecdeque" where
  "vd_drain_front n v =
     (let rest = drop n (vd_items v) in
      if rest = [] then v\<lparr> vd_head := 0, vd_items := [] \<rparr>
      else v\<lparr> vd_head := (vd_head v + n) mod vd_cap v, vd_items := rest \<rparr>)"

text \<open>
  \<open>make_contiguous\<close> moves a wrapped buffer to the front. The standard library may choose another place when it has
  to move less; the items and their being in one slice are the same.
\<close>

definition vd_make_contiguous :: "'a vecdeque \<Rightarrow> 'a vecdeque" where
  "vd_make_contiguous v = (if vd_contiguous v then v else v\<lparr> vd_head := 0 \<rparr>)"

definition vd_inv :: "'a vecdeque \<Rightarrow> bool" where
  "vd_inv v \<longleftrightarrow> length (vd_items v) \<le> vd_cap v \<and> (vd_head v < vd_cap v \<or> vd_head v = 0)"

section \<open>The queue contract\<close>

locale byte_fifo =
  fixes items :: "'q \<Rightarrow> 'a list"
    and push :: "'a list \<Rightarrow> 'q \<Rightarrow> 'q"
    and pop :: "nat \<Rightarrow> 'q \<Rightarrow> 'q"
    and slices :: "'q \<Rightarrow> 'a list \<times> 'a list"
    and inv :: "'q \<Rightarrow> bool"
  assumes items_push: "inv q \<Longrightarrow> items (push xs q) = items q @ xs"
    and items_pop: "inv q \<Longrightarrow> items (pop n q) = drop n (items q)"
    and items_slices: "inv q \<Longrightarrow> fst (slices q) @ snd (slices q) = items q"
    and inv_push: "inv q \<Longrightarrow> inv (push xs q)"
    and inv_pop: "inv q \<Longrightarrow> inv (pop n q)"
begin

text \<open>What is taken from the front, followed by what is left, is what was queued.\<close>

lemma pop_conserves: "inv q \<Longrightarrow> take n (items q) @ items (pop n q) = items q"
  by (simp add: items_pop)

lemma single_slice: "inv q \<Longrightarrow> snd (slices q) = [] \<Longrightarrow> fst (slices q) = items q"
  using items_slices [of q] by simp

lemma push_then_pop:
  "inv q \<Longrightarrow> n \<le> length (items q) \<Longrightarrow> items (pop n (push xs q)) = drop n (items q) @ xs"
  by (simp add: items_pop items_push inv_push)

end

lemma vd_reserve_items [simp]: "vd_items (vd_reserve n v) = vd_items v"
  by (simp add: vd_reserve_def Let_def)

lemma vd_reserve_cap: "length (vd_items v) + n \<le> vd_cap (vd_reserve n v)" if "vd_inv v"
  using that by (auto simp: vd_reserve_def vd_inv_def Let_def)

lemma vd_reserve_inv: "vd_inv v \<Longrightarrow> vd_inv (vd_reserve n v)"
  by (auto simp: vd_reserve_def vd_inv_def vd_contiguous_def Let_def)

lemma vd_append_items [simp]: "vd_items (vd_append xs v) = vd_items v @ xs"
  by (simp add: vd_append_def Let_def)

lemma vd_append_inv: "vd_inv v \<Longrightarrow> vd_inv (vd_append xs v)"
  using vd_reserve_inv [of v "length xs"] vd_reserve_cap [of v "length xs"]
  by (auto simp: vd_append_def vd_inv_def Let_def)

lemma vd_drain_items [simp]: "vd_items (vd_drain_front n v) = drop n (vd_items v)"
  by (auto simp: vd_drain_front_def Let_def)

lemma vd_drain_inv: "vd_inv v \<Longrightarrow> vd_inv (vd_drain_front n v)"
  by (auto simp: vd_drain_front_def vd_inv_def Let_def)

lemma vd_make_contiguous_items [simp]: "vd_items (vd_make_contiguous v) = vd_items v"
  by (simp add: vd_make_contiguous_def)

lemma vd_make_contiguous_inv: "vd_inv v \<Longrightarrow> vd_inv (vd_make_contiguous v)"
  by (simp add: vd_make_contiguous_def vd_inv_def)

interpretation vd: byte_fifo vd_items vd_append
  "\<lambda>n v. vd_make_contiguous (vd_drain_front n v)" vd_as_slices vd_inv
  by unfold_locales (auto simp: vd_as_slices_def vd_append_inv vd_drain_inv vd_make_contiguous_inv)

section \<open>When the data lies in one slice\<close>

lemma vd_single_slice_iff:
  "vd_inv v \<Longrightarrow> snd (vd_as_slices v) = [] \<longleftrightarrow> vd_contiguous v"
  by (auto simp: vd_as_slices_def vd_contiguous_def vd_inv_def)

lemma vd_make_contiguous_contiguous: "vd_inv v \<Longrightarrow> vd_contiguous (vd_make_contiguous v)"
  by (simp add: vd_make_contiguous_def vd_contiguous_def vd_inv_def)

text \<open>Appending to an empty buffer that starts at position 0 keeps the data in one slice.\<close>

lemma vd_append_empty_contiguous:
  assumes "vd_inv v" "vd_head v = 0" shows "vd_contiguous (vd_append xs v)"
proof -
  have "vd_head (vd_reserve (length xs) v) = 0"
    using assms by (auto simp: vd_reserve_def vd_contiguous_def vd_inv_def Let_def)
  then show ?thesis
    using vd_reserve_cap [OF assms(1), of "length xs"]
    by (simp add: vd_append_def vd_contiguous_def Let_def)
qed

end
