(* ===== verification/Honk_Session.thy ===== *)
theory Honk_Session
  imports Honk_Message Vec_Deque "HOL-Library.Char_ord" "HOL-Library.List_Lexorder"
begin

text \<open>
  The Honk-RPC session (\<open>honk_rpc.rs\<close> from \<open>ApiSet\<close> on, and \<open>byte_counter.rs\<close>): the
  read/write stream as a script of what its calls return, section sizes, framing of incoming
  bytes into messages, routing of sections, packing of outgoing sections into messages, and
  the request loop over a set of APIs. Reading, routing and packing are total functions; only
  the loop over \<open>next_result\<close>, which an API may keep alive for ever, takes fuel.
\<close>

unbundle bit_operations_syntax

section \<open>Streams\<close>

datatype io_error_kind = WouldBlock | TimedOut | UnexpectedEof | OtherIoError nat

text \<open>
  A stream is given by what its calls will return: each \<open>read\<close> event carries the instant at
  which the call returns and either the bytes that have arrived (none at the end of the
  stream) or an error; \<open>read\<close> hands out at most as many bytes as the buffer holds and keeps the
  others for the next call. When no event is left, \<open>read\<close> would block. \<open>write\<close> takes at most
  the number of bytes its event says, or everything when no event is left.
\<close>

datatype read_event = Data bytes | ReadErr io_error_kind
datatype write_event = Accept nat | WriteErr io_error_kind

record rw_stream =
  rd_events :: "(nat \<times> read_event) list"
  rd_now :: nat
  wr_events :: "write_event list"
  fl_events :: "io_error_kind option list"
  sent :: bytes

definition io_read :: "nat \<Rightarrow> rw_stream \<Rightarrow> (nat \<times> (bytes, io_error_kind) result) \<times> rw_stream" where
  "io_read n st = (case rd_events st of
      [] \<Rightarrow> ((rd_now st, Err WouldBlock), st)
    | (t, ReadErr k) # es \<Rightarrow> ((t, Err k), st\<lparr> rd_events := es \<rparr>)
    | (t, Data bs) # es \<Rightarrow>
        ((t, Ok (take n bs)),
         st\<lparr> rd_events := (if length bs \<le> n then es else (t, Data (drop n bs)) # es) \<rparr>))"

definition io_write :: "bytes \<Rightarrow> rw_stream \<Rightarrow> (nat, io_error_kind) result \<times> rw_stream" where
  "io_write buf st = (case wr_events st of
      [] \<Rightarrow> (Ok (length buf), st\<lparr> sent := sent st @ buf \<rparr>)
    | Accept n # es \<Rightarrow>
        (Ok (min n (length buf)), st\<lparr> wr_events := es, sent := sent st @ take n buf \<rparr>)
    | WriteErr k # es \<Rightarrow> (Err k, st\<lparr> wr_events := es \<rparr>))"

definition io_flush :: "rw_stream \<Rightarrow> (unit, io_error_kind) result \<times> rw_stream" where
  "io_flush st = (case fl_events st of
      [] \<Rightarrow> (Ok (), st)
    | None # es \<Rightarrow> (Ok (), st\<lparr> fl_events := es \<rparr>)
    | Some k # es \<Rightarrow> (Err k, st\<lparr> fl_events := es \<rparr>))"

section \<open>Errors, responses, APIs\<close>

type_synonym duration = nat

datatype honk_error =
    ReaderReadFailed io_error_kind
  | BsonDocumentSizeTooSmall i32
  | BsonDocumentSizeTooLarge i32 i32
  | MessageReadTimedOut duration
  | BsonDocumentParseFailed bson_de_error
  | MessageConversionFailed error_code
  | BsonWriteFailed bson_ser_error
  | WriterWriteFailed io_error_kind
  | WriterFlushFailed io_error_kind
  | UnknownErrorSectionReceived error_code
  | InvalidMaxMesageSize
  | SectionTooLarge nat nat

datatype 'd response =
    RPending request_cookie
  | RSuccess request_cookie "'d bson option"
  | RError request_cookie error_code

text \<open>The \<open>ApiSet\<close> trait; a set of implementors of one type \<open>'a\<close>.\<close>

record ('a, 'd) api_set =
  api_namespace :: "'a \<Rightarrow> string"
  api_exec_function :: "string \<Rightarrow> i32 \<Rightarrow> 'd \<Rightarrow> request_cookie option \<Rightarrow>
    ('a, ('d bson option, error_code) result option) action"
  api_update :: "'a \<Rightarrow> 'a"
  api_next_result :: "('a, (request_cookie \<times> ('d bson option, error_code) result) option) action"

section \<open>Sizes\<close>

definition DEFAULT_MAX_MESSAGE_SIZE :: nat where "DEFAULT_MAX_MESSAGE_SIZE = 4 * 1024"
definition from_secs :: "nat \<Rightarrow> duration" where "from_secs n = n * 1000000000"
definition DEFAULT_MAX_WAIT_TIME :: duration where "DEFAULT_MAX_WAIT_TIME = from_secs 60"

definition HEADER_SIZE :: nat where "HEADER_SIZE = 4"
definition HONK_RPC_SIZE :: nat where "HONK_RPC_SIZE = 14"
definition SECTIONS_SIZE :: nat where "SECTIONS_SIZE = 18"
definition FOOTER_SIZE :: nat where "FOOTER_SIZE = 1"

definition MIN_MESSAGE_SIZE :: nat where
  "MIN_MESSAGE_SIZE = HEADER_SIZE + HONK_RPC_SIZE + SECTIONS_SIZE + FOOTER_SIZE"

record byte_counter =
  bc_bytes :: nat

definition byte_counter_write :: "bytes \<Rightarrow> byte_counter \<Rightarrow> (nat, io_error_kind) result \<times> byte_counter" where
  "byte_counter_write buf c = (Ok (length buf), c\<lparr> bc_bytes := bc_bytes c + length buf \<rparr>)"

text \<open>\<open>doc.to_writer(&mut counter)\<close> on a fresh counter, and its \<open>bytes()\<close>.\<close>

definition count_document :: "'d bson_ops \<Rightarrow> 'd \<Rightarrow> (nat, honk_error) result" where
  "count_document B d = (case to_writer B d of
      Err e \<Rightarrow> Err (BsonWriteFailed e)
    | Ok bs \<Rightarrow> Ok (bc_bytes (snd (byte_counter_write bs \<lparr> bc_bytes = 0 \<rparr>))))"

definition get_message_overhead :: "'d bson_ops \<Rightarrow> (nat, honk_error) result" where
  "get_message_overhead B = count_document B
     (doc_of B [(''honk_rpc'', BInt32 HONK_RPC_VERSION), (''sections'', BArray [BNull])])"

definition get_error_section_size ::
  "'d bson_ops \<Rightarrow> request_cookie option \<Rightarrow> string option \<Rightarrow> 'd bson option \<Rightarrow> (nat, honk_error) result" where
  "get_error_section_size B cookie message data =
     (let d = doc_of B [(''id'', BInt32 ERROR_SECTION_ID),
                        (''code'', BInt32 (error_code_into_i32 (Unknown 0)))];
          d = insert_opt B d ''cookie'' (map_option BInt64 cookie);
          d = insert_opt B d ''message'' (map_option BString message);
          d = insert_opt B d ''data'' data
      in count_document B d)"

definition get_request_section_size ::
  "'d bson_ops \<Rightarrow> request_cookie option \<Rightarrow> string option \<Rightarrow> string \<Rightarrow> i32 option \<Rightarrow> 'd option \<Rightarrow>
   (nat, honk_error) result" where
  "get_request_section_size B cookie namespace func version arguments =
     (let d = doc_of B [(''id'', BInt32 REQUEST_SECTION_ID), (''function'', BString func)];
          d = insert_opt B d ''cookie'' (map_option BInt64 cookie);
          d = insert_opt B d ''namespace'' (map_option BString namespace);
          d = insert_opt B d ''version'' (map_option BInt32 version);
          d = insert_opt B d ''arguments'' (map_option BDocument arguments)
      in count_document B d)"

definition get_response_section_size :: "'d bson_ops \<Rightarrow> 'd bson option \<Rightarrow> (nat, honk_error) result" where
  "get_response_section_size B res =
     (let d = doc_of B [(''id'', BInt32 RESPONSE_SECTION_ID), (''cookie'', BInt64 0),
                        (''state'', BInt32 0)];
          d = insert_opt B d ''result'' res
      in count_document B d)"

section \<open>The session\<close>

record 'd session =
  stream :: rw_stream
  message_write_buffer :: "byte vecdeque"
  remaining_byte_count :: "nat option"
  message_read_buffer :: bytes
  pending_sections :: "'d rpc_section list"
  inbound_requests :: "'d request_section list"
  inbound_responses :: "'d response list"
  message_serialization_buffer :: bytes
  next_cookie :: request_cookie
  outbound_sections :: "'d list"
  max_message_size :: nat
  max_wait_time :: duration
  read_timestamp :: nat

definition session_new :: "nat \<Rightarrow> rw_stream \<Rightarrow> 'd session" where
  "session_new now st = \<lparr>
     stream = st,
     message_write_buffer = vd_reserve DEFAULT_MAX_MESSAGE_SIZE vd_new,
     remaining_byte_count = None,
     message_read_buffer = [],
     pending_sections = [],
     inbound_requests = [],
     inbound_responses = [],
     message_serialization_buffer = [],
     next_cookie = 0,
     outbound_sections = [],
     max_message_size = DEFAULT_MAX_MESSAGE_SIZE,
     max_wait_time = DEFAULT_MAX_WAIT_TIME,
     read_timestamp = now \<rparr>"

definition set_max_message_size :: "i32 \<Rightarrow> ('d session, (unit, honk_error) result) action" where
  "set_max_message_size n s =
     (if n <s of_nat MIN_MESSAGE_SIZE then (Ret (Err InvalidMaxMesageSize), s)
      else (Ret (Ok ()), s\<lparr> max_message_size := unat n \<rparr>))"

definition get_max_message_size :: "'d session \<Rightarrow> nat" where
  "get_max_message_size s = max_message_size s"

definition set_max_wait_time :: "duration \<Rightarrow> 'd session \<Rightarrow> 'd session" where
  "set_max_wait_time t s = s\<lparr> max_wait_time := t \<rparr>"

definition get_max_wait_time :: "'d session \<Rightarrow> duration" where
  "get_max_wait_time s = max_wait_time s"

definition into_stream :: "'d session \<Rightarrow> rw_stream" where
  "into_stream s = stream s"

subsection \<open>Reading\<close>

definition stream_read :: "nat \<Rightarrow> ('d session, (bytes, honk_error) result) action" where
  "stream_read n s = (case io_read n (stream s) of ((t, r), st) \<Rightarrow>
     let s = s\<lparr> stream := st \<rparr> in
     case r of
       Err k \<Rightarrow>
         (if k = WouldBlock \<or> k = TimedOut then
            (if max_wait_time s < t - read_timestamp s
             then (Ret (Err (MessageReadTimedOut (max_wait_time s))), s)
             else (Ret (Ok []), s))
          else (Ret (Err (ReaderReadFailed k)), s))
     | Ok bs \<Rightarrow>
         (if bs = [] then (Ret (Err (ReaderReadFailed UnexpectedEof)), s)
          else (Ret (Ok bs), s\<lparr> read_timestamp := t \<rparr>)))"

definition finish_message_size :: "('d session, (unit, honk_error) result) action" where
  "finish_message_size s =
     (let buf = message_read_buffer s in
      if length buf = 4 then
        let size = header_i32 (buf ! 0) (buf ! 1) (buf ! 2) (buf ! 3) in
        if size <=s 4 then (Ret (Err (BsonDocumentSizeTooSmall size)), s)
        else if max_message_size s < unat size
          then (Ret (Err (BsonDocumentSizeTooLarge size (of_nat (max_message_size s)))), s)
        else (Ret (Ok ()), s\<lparr> remaining_byte_count := Some (unat size - 4) \<rparr>)
      else (Ret (Ok ()), s))"

definition read_message_size :: "('d session, (unit, honk_error) result) action" where
  "read_message_size s = (case remaining_byte_count s of
      Some _ \<Rightarrow> (Ret (Ok ()), s)
    | None \<Rightarrow>
        (if \<not> length (message_read_buffer s) < 4 then (Panic, s)
         else try_then (stream_read (4 - length (message_read_buffer s)))
           (\<lambda>bs s. if bs = [] then (Ret (Ok ()), s)
              else finish_message_size (s\<lparr> message_read_buffer := message_read_buffer s @ bs \<rparr>)) s))"

definition parse_message :: "'d bson_ops \<Rightarrow> bytes \<Rightarrow> ('d message, honk_error) result" where
  "parse_message B bs = (case from_reader B bs of
      Err e \<Rightarrow> Err (BsonDocumentParseFailed e)
    | Ok d \<Rightarrow> (case message_try_from B d of
        Err e \<Rightarrow> Err (MessageConversionFailed e)
      | Ok m \<Rightarrow> Ok m))"

definition read_message_body ::
  "'d bson_ops \<Rightarrow> nat \<Rightarrow> ('d session, ('d message option, honk_error) result) action" where
  "read_message_body B remaining = try_then (stream_read remaining) (\<lambda>bs s.
     if bs = [] then (Ret (Ok None), s)
     else let buf = message_read_buffer s @ bs in
       if length bs = remaining then
         (Ret (case parse_message B buf of Ok m \<Rightarrow> Ok (Some m) | Err e \<Rightarrow> Err e),
          s\<lparr> remaining_byte_count := None, message_read_buffer := [] \<rparr>)
       else (Ret (Ok None),
          s\<lparr> remaining_byte_count := Some (remaining - length bs), message_read_buffer := buf \<rparr>))"

definition read_message ::
  "'d bson_ops \<Rightarrow> ('d session, ('d message option, honk_error) result) action" where
  "read_message B = try_then read_message_size (\<lambda>_ s. case remaining_byte_count s of
      None \<Rightarrow> (Ret (Ok None), s)
    | Some remaining \<Rightarrow> read_message_body B remaining s)"

text \<open>What is left to be read, as a bound for the loop of \<open>read_sections\<close>.\<close>

fun event_weight :: "nat \<times> read_event \<Rightarrow> nat" where
  "event_weight (t, Data bs) = Suc (length bs)"
| "event_weight (t, ReadErr k) = 1"

definition read_weight :: "'d session \<Rightarrow> nat" where
  "read_weight s = sum_list (map event_weight (rd_events (stream s)))"

lemma stream_read_weight:
  assumes "stream_read n s = (r, t)"
  shows "read_weight t \<le> read_weight s"
    and "r = Ret (Ok bs) \<Longrightarrow> bs \<noteq> [] \<Longrightarrow> read_weight t < read_weight s"
  using assms
  by (auto simp: stream_read_def io_read_def read_weight_def Let_def
      split: list.splits prod.splits read_event.splits result.splits if_splits)

lemma finish_message_size_weight [simp]: "read_weight (snd (finish_message_size s)) = read_weight s"
  by (simp add: finish_message_size_def read_weight_def Let_def)

lemma read_message_size_weight: "read_weight (snd (read_message_size s)) \<le> read_weight s"
proof (cases "stream_read (4 - length (message_read_buffer s)) s")
  case (Pair r t)
  have "read_weight (t\<lparr> message_read_buffer := x \<rparr>) = read_weight t" for x
    by (simp add: read_weight_def)
  with Pair stream_read_weight(1) [OF Pair] show ?thesis
    by (auto simp: read_message_size_def action_defs split: option.splits outcome.splits result.splits)
qed

lemma read_message_Some_weight:
  assumes "read_message B s = (Ret (Ok (Some m)), t)" shows "read_weight t < read_weight s"
proof -
  from assms obtain u remaining where u: "read_message_size s = (Ret (Ok ()), u)"
    and body: "read_message_body B remaining u = (Ret (Ok (Some m)), t)"
    by (auto simp: read_message_def try_then_Ok_iff split: option.splits)
  from body obtain bs v where v: "stream_read remaining u = (Ret (Ok bs), v)" "bs \<noteq> []"
    and "read_weight t = read_weight v"
    by (auto simp: read_message_body_def try_then_Ok_iff read_weight_def Let_def split: if_splits)
  with stream_read_weight(2) [OF v(1)] read_message_size_weight [of s] u show ?thesis by simp
qed

lemma read_sections_decreases:
  "(Ret (Ok (Some m)), t) = read_message B s \<Longrightarrow>
   read_weight (t\<lparr> pending_sections := x \<rparr>) < read_weight s"
  using read_message_Some_weight [of B s m t] by (simp add: read_weight_def)

function read_sections :: "'d bson_ops \<Rightarrow> 'd session \<Rightarrow> (unit, honk_error) result outcome \<times> 'd session" where
  "read_sections B s = (case read_message B s of
      (Panic, t) \<Rightarrow> (Panic, t)
    | (OutOfFuel, t) \<Rightarrow> (OutOfFuel, t)
    | (Ret r, t) \<Rightarrow> (case r of
        Ok (Some m) \<Rightarrow> read_sections B (t\<lparr> pending_sections := pending_sections t @ msg_sections m \<rparr>)
      | Ok None \<Rightarrow> (Ret (Ok ()), t)
      | Err err \<Rightarrow> (case err of
          MessageReadTimedOut _ \<Rightarrow>
            (if pending_sections t = [] \<and> inbound_responses t = [] then (Ret (Err err), t)
             else (Ret (Ok ()), t))
        | ReaderReadFailed _ \<Rightarrow>
            (if pending_sections t = [] \<and> inbound_responses t = [] then (Ret (Err err), t)
             else (Ret (Ok ()), t))
        | _ \<Rightarrow> (Ret (Err err), t))))"
  by pat_completeness auto
termination
  by (relation "measure (\<lambda>(B, s). read_weight s)") (auto intro: read_sections_decreases)

declare read_sections.simps [simp del]

subsection \<open>Routing\<close>

fun process_sections_loop ::
  "'d rpc_section list \<Rightarrow> 'd session \<Rightarrow> (unit, honk_error) result outcome \<times> 'd session" where
  "process_sections_loop [] s = (Ret (Ok ()), s\<lparr> pending_sections := [] \<rparr>)"
| "process_sections_loop (SError e # rest) s = (case es_cookie e of
      Some cookie \<Rightarrow> process_sections_loop rest
        (s\<lparr> inbound_responses := inbound_responses s @ [RError cookie (es_code e)] \<rparr>)
    | None \<Rightarrow> (Ret (Err (UnknownErrorSectionReceived (es_code e))), s\<lparr> pending_sections := rest \<rparr>))"
| "process_sections_loop (SRequest r # rest) s =
     process_sections_loop rest (s\<lparr> inbound_requests := inbound_requests s @ [r] \<rparr>)"
| "process_sections_loop (SResponse r # rest) s = process_sections_loop rest
     (s\<lparr> inbound_responses := inbound_responses s @
        [case rs_state r of Complete \<Rightarrow> RSuccess (rs_cookie r) (rs_result r)
                          | Pending \<Rightarrow> RPending (rs_cookie r)] \<rparr>)"

definition process_sections :: "('d session, (unit, honk_error) result) action" where
  "process_sections s = process_sections_loop (pending_sections s) s"

subsection \<open>Packing\<close>

definition push_outbound_section ::
  "'d bson_ops \<Rightarrow> 'd rpc_section \<Rightarrow> ('d session, (unit, honk_error) result) action" where
  "push_outbound_section B sec s =
     (if max_message_size s < MIN_MESSAGE_SIZE then (Panic, s)
      else let max_section_size = max_message_size s - MIN_MESSAGE_SIZE;
               d = section_into B sec
           in case count_document B d of
             Err e \<Rightarrow> (Ret (Err e), s)
           | Ok section_size \<Rightarrow>
               (if section_size \<le> max_section_size
                then (Ret (Ok ()), s\<lparr> outbound_sections := outbound_sections s @ [d] \<rparr>)
                else (Ret (Err (SectionTooLarge section_size max_section_size)), s)))"

text \<open>
  The message document with the given sections. \<open>serialize_messages\<close> makes it by inserting
  the sections into an empty message, the left half of a split by shrinking the array in place
  and the right half with \<open>doc!\<close>; the three are the same document because inserting under a
  key that is present replaces its value.
\<close>

definition sections_message :: "'d bson_ops \<Rightarrow> 'd bson list \<Rightarrow> 'd" where
  "sections_message B xs =
     doc_of B [(''honk_rpc'', BInt32 HONK_RPC_VERSION), (''sections'', BArray xs)]"

function serialize_messages_impl ::
  "'d bson_ops \<Rightarrow> 'd bson list \<Rightarrow> ('d session, (unit, honk_error) result) action" where
  "serialize_messages_impl B xs = (\<lambda>s.
     case to_writer B (sections_message B xs) of
       Err e \<Rightarrow> (Ret (Err (BsonWriteFailed e)), s\<lparr> message_serialization_buffer := [] \<rparr>)
     | Ok bs \<Rightarrow>
         (if max_message_size s < length bs then
            (if \<not> 1 < length xs then (Panic, s\<lparr> message_serialization_buffer := bs \<rparr>)
             else try_then (serialize_messages_impl B (take (length xs div 2) xs))
                    (\<lambda>_. serialize_messages_impl B (drop (length xs div 2) xs))
                    (s\<lparr> message_serialization_buffer := bs \<rparr>))
          else (Ret (Ok ()),
            s\<lparr> message_serialization_buffer := [],
               message_write_buffer := vd_append bs (message_write_buffer s) \<rparr>)))"
  by pat_completeness auto
termination
  by (relation "measure (\<lambda>(B, xs). length xs)") auto

declare serialize_messages_impl.simps [simp del]

definition serialize_messages :: "'d bson_ops \<Rightarrow> ('d session, (unit, honk_error) result) action" where
  "serialize_messages B s =
     (if outbound_sections s = [] then (Ret (Ok ()), s)
      else serialize_messages_impl B (map BDocument (outbound_sections s))
             (s\<lparr> outbound_sections := [] \<rparr>))"

subsection \<open>Writing\<close>

text \<open>
  The loop ends here because the script of a stream is finite and what follows it is accepted; a writer that returned
  \<open>Ok(0)\<close> for ever would keep the loop of the source running for ever.
\<close>

function write_pending_loop ::
  "bytes \<Rightarrow> nat \<Rightarrow> rw_stream \<Rightarrow> (nat, honk_error) result \<times> rw_stream" where
  "write_pending_loop pending_data bytes_written st =
     (if pending_data = [] then (Ok bytes_written, st)
      else case io_write pending_data st of
        (Err k, st) \<Rightarrow>
          (if k = WouldBlock \<or> k = TimedOut then (Ok bytes_written, st)
           else (Err (WriterWriteFailed k), st))
      | (Ok count, st) \<Rightarrow>
          write_pending_loop (drop count pending_data) (bytes_written + count) st)"
  by pat_completeness auto
termination
  by (relation "measure (\<lambda>(p, _, st). length (wr_events st) + (if p = [] then 0 else 1))")
    (auto simp: io_write_def split: list.splits write_event.splits)

declare write_pending_loop.simps [simp del]

definition write_pending_data_impl :: "('d session, (nat, honk_error) result) action" where
  "write_pending_data_impl s = (case vd_as_slices (message_write_buffer s) of
      (pending_data, rest) \<Rightarrow>
        (if rest \<noteq> [] then (Panic, s)
         else case write_pending_loop pending_data 0 (stream s) of
           (r, st) \<Rightarrow> (Ret r, s\<lparr> stream := st \<rparr>)))"

definition write_pending_data :: "('d session, (unit, honk_error) result) action" where
  "write_pending_data = try_then write_pending_data_impl (\<lambda>bytes_written s.
     case io_flush (stream s) of
       (Err k, st) \<Rightarrow> (Ret (Err (WriterWriteFailed k)), s\<lparr> stream := st \<rparr>)
     | (Ok _, st) \<Rightarrow> (Ret (Ok ()), s\<lparr> stream := st,
         message_write_buffer :=
           vd_make_contiguous (vd_drain_front bytes_written (message_write_buffer s)) \<rparr>))"

subsection \<open>Requests\<close>

text \<open>\<open>slice::binary_search_by\<close> on the namespaces of the API sets.\<close>

function binary_search_loop :: "string list \<Rightarrow> string \<Rightarrow> nat \<Rightarrow> nat \<Rightarrow> nat option" where
  "binary_search_loop ns key left right =
     (if left < right then
        let mid = left + (right - left) div 2; probe = ns ! mid in
        if probe = key then Some mid
        else if probe < key then binary_search_loop ns key (mid + 1) right
        else binary_search_loop ns key left mid
      else None)"
  by pat_completeness auto
termination
  by (relation "measure (\<lambda>(_, _, left, right). right - left)") auto

declare binary_search_loop.simps [simp del]

definition binary_search :: "string list \<Rightarrow> string \<Rightarrow> nat option" where
  "binary_search ns key = binary_search_loop ns key 0 (length ns)"

text \<open>Actions on the session, and on one API set, inside \<open>handle_requests\<close>.\<close>

definition on_session :: "('s, 'r) action \<Rightarrow> ('a list \<times> 's, 'r) action" where
  "on_session m p = (case m (snd p) of (r, s) \<Rightarrow> (r, (fst p, s)))"

definition on_apiset :: "nat \<Rightarrow> ('a, 'r) action \<Rightarrow> ('a list \<times> 's, 'r) action" where
  "on_apiset i m p = (case m (fst p ! i) of (r, a) \<Rightarrow> (r, ((fst p)[i := a], snd p)))"

definition response_of :: "request_cookie \<Rightarrow> request_state \<Rightarrow> 'd bson option \<Rightarrow> 'd rpc_section" where
  "response_of cookie st res = SResponse \<lparr> rs_cookie = cookie, rs_state = st, rs_result = res \<rparr>"

definition error_of :: "request_cookie option \<Rightarrow> error_code \<Rightarrow> 'd rpc_section" where
  "error_of cookie code = SError \<lparr> es_cookie = cookie, es_code = code, es_message = None, es_data = None \<rparr>"

text \<open>The section that answers one executed request, if any.\<close>

definition reply_section ::
  "request_cookie option \<Rightarrow> ('d bson option, error_code) result option \<Rightarrow> 'd rpc_section option" where
  "reply_section cookie r = (case r of
      Some (Ok res) \<Rightarrow> map_option (\<lambda>c. response_of c Complete res) cookie
    | Some (Err code) \<Rightarrow> Some (error_of cookie code)
    | None \<Rightarrow> map_option (\<lambda>c. response_of c Pending None) cookie)"

definition push_reply ::
  "'d bson_ops \<Rightarrow> 'd rpc_section option \<Rightarrow> ('a list \<times> 'd session, (unit, honk_error) result) action" where
  "push_reply B sec = (case sec of
      None \<Rightarrow> ret (Ok ())
    | Some sec \<Rightarrow> on_session (push_outbound_section B sec))"

definition handle_request ::
  "'d bson_ops \<Rightarrow> ('a, 'd) api_set \<Rightarrow> 'd request_section \<Rightarrow>
   ('a list \<times> 'd session, (unit, honk_error) result) action" where
  "handle_request B A rq p =
     (case binary_search (map (api_namespace A) (fst p)) (rq_namespace rq) of
        Some idx \<Rightarrow>
          andthen (on_apiset idx
              (api_exec_function A (rq_function rq) (rq_version rq) (rq_arguments rq) (rq_cookie rq)))
            (\<lambda>r. push_reply B (reply_section (rq_cookie rq) r)) p
      | None \<Rightarrow> push_reply B (Some (error_of (rq_cookie rq) RequestNamespaceInvalid)) p)"

fun handle_request_list ::
  "'d bson_ops \<Rightarrow> ('a, 'd) api_set \<Rightarrow> 'd request_section list \<Rightarrow>
   ('a list \<times> 'd session, (unit, honk_error) result) action" where
  "handle_request_list B A [] = ret (Ok ())"
| "handle_request_list B A (rq # rqs) =
     try_then (handle_request B A rq) (\<lambda>_. handle_request_list B A rqs)"

definition async_section :: "request_cookie \<Rightarrow> ('d bson option, error_code) result \<Rightarrow> 'd rpc_section" where
  "async_section cookie r = (case r of
      Ok res \<Rightarrow> response_of cookie Complete res
    | Err code \<Rightarrow> error_of (Some cookie) code)"

text \<open>\<open>while let Some(..) = apiset.next_result()\<close>, with fuel.\<close>

fun drain_results ::
  "'d bson_ops \<Rightarrow> ('a, 'd) api_set \<Rightarrow> nat \<Rightarrow> nat \<Rightarrow>
   ('a list \<times> 'd session, (unit, honk_error) result) action" where
  "drain_results B A 0 i = (\<lambda>p. (OutOfFuel, p))"
| "drain_results B A (Suc fuel) i =
     andthen (on_apiset i (api_next_result A)) (\<lambda>r. case r of
       None \<Rightarrow> ret (Ok ())
     | Some (cookie, res) \<Rightarrow>
         try_then (push_reply B (Some (async_section cookie res))) (\<lambda>_. drain_results B A fuel i))"

fun handle_async ::
  "'d bson_ops \<Rightarrow> ('a, 'd) api_set \<Rightarrow> nat \<Rightarrow> nat list \<Rightarrow>
   ('a list \<times> 'd session, (unit, honk_error) result) action" where
  "handle_async B A fuel [] = ret (Ok ())"
| "handle_async B A fuel (i # is) =
     andthen (on_apiset i (\<lambda>a. (Ret (), api_update A a)))
       (\<lambda>_. try_then (drain_results B A fuel i) (\<lambda>_. handle_async B A fuel is))"

definition handle_requests ::
  "'d bson_ops \<Rightarrow> ('a, 'd) api_set \<Rightarrow> nat \<Rightarrow>
   ('a list \<times> 'd session, (unit, honk_error) result) action" where
  "handle_requests B A fuel p =
     (let rqs = inbound_requests (snd p);
          p = (fst p, (snd p)\<lparr> inbound_requests := [] \<rparr>)
      in try_then (handle_request_list B A rqs)
           (\<lambda>_. handle_async B A fuel [0..<length (fst p)]) p)"

definition session_update ::
  "'d bson_ops \<Rightarrow> ('a, 'd) api_set \<Rightarrow> nat \<Rightarrow>
   ('a list \<times> 'd session, (unit, honk_error) result) action" where
  "session_update B A fuel =
     try_then (on_session (read_sections B)) (\<lambda>_.
     try_then (on_session process_sections) (\<lambda>_.
     try_then (handle_requests B A fuel) (\<lambda>_.
     try_then (on_session (serialize_messages B)) (\<lambda>_.
     on_session write_pending_data))))"

text \<open>\<open>update(None)\<close>: no API sets, so no loop over their results.\<close>

definition no_api :: "(unit, 'd) api_set" where
  "no_api = \<lparr> api_namespace = (\<lambda>_. ''''), api_exec_function = (\<lambda>_ _ _ _. ret None),
     api_update = (\<lambda>a. a), api_next_result = ret None \<rparr>"

definition session_update_none :: "'d bson_ops \<Rightarrow> ('d session, (unit, honk_error) result) action" where
  "session_update_none B s = (case session_update B no_api 0 ([], s) of (r, (_, t)) \<Rightarrow> (r, t))"

subsection \<open>Client calls\<close>

definition client_call ::
  "'d bson_ops \<Rightarrow> string \<Rightarrow> string \<Rightarrow> i32 \<Rightarrow> 'd \<Rightarrow> ('d session, (request_cookie, honk_error) result) action" where
  "client_call B namespace func version arguments s =
     (let cookie = next_cookie s;
          s = s\<lparr> next_cookie := next_cookie s + 1 \<rparr>
      in try_then (push_outbound_section B (SRequest \<lparr> rq_cookie = Some cookie,
             rq_namespace = namespace, rq_function = func, rq_version = version,
             rq_arguments = arguments \<rparr>))
           (\<lambda>_. ret (Ok cookie)) s)"

definition client_drain_responses :: "('d session, 'd response list) action" where
  "client_drain_responses s = (Ret (inbound_responses s), s\<lparr> inbound_responses := [] \<rparr>)"

definition client_next_response :: "('d session, 'd response option) action" where
  "client_next_response s = (case inbound_responses s of
      [] \<Rightarrow> (Ret None, s)
    | r # rs \<Rightarrow> (Ret (Some r), s\<lparr> inbound_responses := rs \<rparr>))"

end
