(* ===== verification/Honk_Framing.thy ===== *)
theory Honk_Framing
  imports Honk_Session
begin

text \<open>
  Correctness of the reading half of a session: however the transport cuts the byte stream
  into chunks, the session splits it into the documents whose sizes their headers announce,
  parses each once, and keeps the rest for the next call. The central facts are
  \<open>read_message_frames\<close> and \<open>read_sections_frames\<close>; \<open>framing_unique\<close> shows that a stream
  has only one such splitting.
\<close>

section \<open>Bytes in flight\<close>

fun event_bytes :: "nat \<times> read_event \<Rightarrow> bytes" where
  "event_bytes (t, Data bs) = bs"
| "event_bytes (t, ReadErr k) = []"

definition incoming :: "'d session \<Rightarrow> bytes" where
  "incoming s = concat (map event_bytes (rd_events (stream s)))"

text \<open>The part of the state that reading a message does not touch.\<close>

definition same_queues :: "'d session \<Rightarrow> 'd session \<Rightarrow> bool" where
  "same_queues s t \<longleftrightarrow> pending_sections t = pending_sections s \<and>
     inbound_requests t = inbound_requests s \<and> inbound_responses t = inbound_responses s \<and>
     outbound_sections t = outbound_sections s \<and> message_write_buffer t = message_write_buffer s \<and>
     next_cookie t = next_cookie s \<and> max_message_size t = max_message_size s \<and>
     max_wait_time t = max_wait_time s \<and> sent (stream t) = sent (stream s) \<and>
     wr_events (stream t) = wr_events (stream s) \<and> fl_events (stream t) = fl_events (stream s)"

lemma same_queues_refl [simp]: "same_queues s s"
  by (simp add: same_queues_def)

lemma same_queues_trans [trans]: "same_queues s t \<Longrightarrow> same_queues t u \<Longrightarrow> same_queues s u"
  by (simp add: same_queues_def)

lemma same_queues_update [simp]:
  "same_queues s (t\<lparr> message_read_buffer := x \<rparr>) = same_queues s t"
  "same_queues s (t\<lparr> remaining_byte_count := y \<rparr>) = same_queues s t"
  "same_queues s (t\<lparr> read_timestamp := z \<rparr>) = same_queues s t"
  by (simp_all add: same_queues_def)

lemma stream_read_bytes:
  assumes "stream_read n s = (r, t)"
  obtains e where "r = Ret (Err e)" "e = MessageReadTimedOut (max_wait_time s) \<or> (\<exists>k. e = ReaderReadFailed k)"
      "incoming t = incoming s" "same_queues s t"
      "message_read_buffer t = message_read_buffer s" "remaining_byte_count t = remaining_byte_count s"
  | bs where "r = Ret (Ok bs)" "length bs \<le> n" "incoming s = bs @ incoming t" "same_queues s t"
      "message_read_buffer t = message_read_buffer s" "remaining_byte_count t = remaining_byte_count s"
proof (cases "rd_events (stream s)")
  case Nil
  then have "t = s" "r = Ret (Err (MessageReadTimedOut (max_wait_time s))) \<or> r = Ret (Ok [])"
    using assms by (auto simp: stream_read_def io_read_def Let_def split: if_splits)
  then show thesis using that(1) [OF _ disjI1 [OF refl]] that(2) [of "[]"] by fastforce
next
  case (Cons e es)
  obtain u ev where e: "e = (u, ev)" by (cases e)
  show thesis
  proof (cases ev)
    case (Data bs)
    show thesis
    proof (cases "take n bs = []")
      case True
      with Cons e Data assms have "bs = [] \<or> n = 0" and r: "r = Ret (Err (ReaderReadFailed UnexpectedEof))"
        and t: "t = s\<lparr> stream := (stream s)\<lparr> rd_events := (if length bs \<le> n then es else (u, Data (drop n bs)) # es) \<rparr>\<rparr>"
        by (auto simp: stream_read_def io_read_def Let_def split: if_splits)
      then have "incoming t = incoming s"
        using Cons e Data by (auto simp: incoming_def)
      with r t that(1) show thesis by (simp add: same_queues_def)
    next
      case False
      with Cons e Data assms have r: "r = Ret (Ok (take n bs))"
        and t: "t = s\<lparr> stream := (stream s)\<lparr> rd_events := (if length bs \<le> n then es else (u, Data (drop n bs)) # es) \<rparr>,
          read_timestamp := u\<rparr>"
        by (auto simp: stream_read_def io_read_def Let_def split: if_splits)
      then have "incoming s = take n bs @ incoming t"
        using Cons e Data by (auto simp: incoming_def)
      with r t that(2) show thesis by (simp add: same_queues_def)
    qed
  next
    case (ReadErr k)
    define s' where "s' = s\<lparr> stream := (stream s)\<lparr> rd_events := es \<rparr>\<rparr>"
    have t: "t = s'" and r: "r = Ret (Err (MessageReadTimedOut (max_wait_time s))) \<or>
        r = Ret (Err (ReaderReadFailed k)) \<or> r = Ret (Ok [])"
      using assms Cons e ReadErr
      by (auto simp: stream_read_def io_read_def s'_def Let_def split: if_splits)
    have s': "incoming s' = incoming s" "same_queues s s'" "message_read_buffer s' = message_read_buffer s"
        "remaining_byte_count s' = remaining_byte_count s"
      using Cons e ReadErr by (simp_all add: s'_def incoming_def same_queues_def)
    from r show thesis
    proof (elim disjE)
      assume "r = Ret (Err (MessageReadTimedOut (max_wait_time s)))"
      with s' t show thesis by (intro that(1)) auto
    next
      assume "r = Ret (Err (ReaderReadFailed k))"
      with s' t show thesis by (intro that(1)) auto
    next
      assume "r = Ret (Ok [])"
      with s' t show thesis by (intro that(2) [of "[]"]) simp_all
    qed
  qed
qed

section \<open>The reading invariant\<close>

text \<open>
  Either the size header is still incomplete, or the number of missing bytes is what the
  header announced less what has been read, and some are missing.
\<close>

definition buffer_header :: "bytes \<Rightarrow> i32" where
  "buffer_header buf = header_i32 (buf ! 0) (buf ! 1) (buf ! 2) (buf ! 3)"

definition read_inv :: "'d session \<Rightarrow> bool" where
  "read_inv s \<longleftrightarrow> (case remaining_byte_count s of
      None \<Rightarrow> length (message_read_buffer s) < 4
    | Some r \<Rightarrow> 4 \<le> length (message_read_buffer s) \<and> 0 < r \<and>
        sint (buffer_header (message_read_buffer s)) = int (length (message_read_buffer s) + r))"

lemma read_inv_new [simp]: "read_inv (session_new now st)"
  by (simp add: read_inv_def session_new_def)

lemma read_state_pending [simp]:
  "read_inv (s\<lparr> pending_sections := x \<rparr>) = read_inv s"
  "incoming (s\<lparr> pending_sections := x \<rparr>) = incoming s"
  by (simp_all add: read_inv_def incoming_def split: option.split)

lemma buffer_header_append: "4 \<le> length buf \<Longrightarrow> buffer_header (buf @ xs) = buffer_header buf"
  by (cases buf) (auto simp: buffer_header_def nth_append)

lemma self_sized_header:
  "self_sized bs \<longleftrightarrow> 4 < length bs \<and> sint (buffer_header bs) = int (length bs)"
  by (simp add: self_sized_def buffer_header_def)

lemma sint_positive_i32: "\<not> v <=s 4 \<Longrightarrow> sint (v :: i32) = int (unat v) \<and> 4 < unat v"
proof -
  assume "\<not> v <=s 4"
  then have pos: "4 < sint v" by (simp add: word_sle_eq)
  have "sint v < 2 ^ 31" using sint_lt [of v] by simp
  with pos have "take_bit 32 (sint v) = sint v" by (simp add: take_bit_int_eq_self)
  then have "uint v = sint v" by (simp add: uint_sint)
  with pos show ?thesis by (metis int_nat_eq nat_less_iff nat_numeral not_numeral_less_zero
      of_nat_less_iff of_nat_numeral uint_nat unsigned_greater_eq)
qed

text \<open>Reading the size header.\<close>

lemma read_message_size_frames:
  assumes inv: "read_inv s" and run: "read_message_size s = (r, t)"
  obtains c e where "r = Ret (Err e)" "incoming s = c @ incoming t" "same_queues s t"
      "message_read_buffer t = message_read_buffer s @ c"
      "e = MessageReadTimedOut (max_wait_time s) \<or> (\<exists>k. e = ReaderReadFailed k) \<Longrightarrow> read_inv t"
  | c where "r = Ret (Ok ())" "incoming s = c @ incoming t" "same_queues s t"
      "message_read_buffer t = message_read_buffer s @ c" "read_inv t"
proof (cases "remaining_byte_count s")
  case (Some x)
  with run inv that(2) [of "[]"] show thesis by (simp add: read_message_size_def)
next
  case None
  with inv have len: "length (message_read_buffer s) < 4" by (simp add: read_inv_def)
  obtain r' u where rd: "stream_read (4 - length (message_read_buffer s)) s = (r', u)" by fastforce
  from rd show thesis
  proof (cases rule: stream_read_bytes)
    case (1 e)
    with run None len rd have "r = Ret (Err e)" "t = u" by (simp_all add: read_message_size_def action_defs)
    with 1 None len show thesis using that(1) [of e "[]"] by (simp add: read_inv_def)
  next
    case (2 bs)
    show thesis
    proof (cases "bs = []")
      case True
      with run None len rd 2 have "r = Ret (Ok ())" "t = u" by (simp_all add: read_message_size_def action_defs)
      with 2 True None len show thesis using that(2) [of "[]"] by (simp add: read_inv_def)
    next
      case False
      define buf where "buf = message_read_buffer s @ bs"
      define v where "v = u\<lparr> message_read_buffer := buf \<rparr>"
      have v: "incoming v = incoming u" "same_queues s v" "message_read_buffer v = buf"
          "remaining_byte_count v = None"
        using 2 None by (simp_all add: v_def incoming_def)
      have fin: "finish_message_size v = (r, t)"
        using run None len rd 2 False by (simp add: read_message_size_def action_defs v_def buf_def)
      have "length buf \<le> 4" using 2 len by (simp add: buf_def)
      consider (short) "length buf < 4" | (small) "length buf = 4" "buffer_header buf <=s 4"
        | (large) "length buf = 4" "\<not> buffer_header buf <=s 4" "max_message_size v < unat (buffer_header buf)"
        | (good) "length buf = 4" "\<not> buffer_header buf <=s 4" "\<not> max_message_size v < unat (buffer_header buf)"
        using \<open>length buf \<le> 4\<close> by linarith
      then show thesis
      proof cases
        case short
        with fin v have "r = Ret (Ok ())" "t = v" by (auto simp: finish_message_size_def Let_def)
        with v short 2 show thesis using that(2) [of bs] by (simp add: read_inv_def buf_def)
      next
        case small
        with fin v have "r = Ret (Err (BsonDocumentSizeTooSmall (buffer_header buf)))" "t = v"
          by (auto simp: finish_message_size_def Let_def buffer_header_def)
        with v 2 show thesis using that(1) [of _ bs] by (simp add: buf_def)
      next
        case large
        with fin v have "r = Ret (Err (BsonDocumentSizeTooLarge (buffer_header buf) (of_nat (max_message_size v))))" "t = v"
          by (auto simp: finish_message_size_def Let_def buffer_header_def)
        with v 2 show thesis using that(1) [of _ bs] by (simp add: buf_def)
      next
        case good
        with fin v have r: "r = Ret (Ok ())" and t: "t = v\<lparr> remaining_byte_count := Some (unat (buffer_header buf) - 4) \<rparr>"
          by (auto simp: finish_message_size_def Let_def buffer_header_def)
        have "read_inv t" using good sint_positive_i32 [OF good(2)] v by (simp add: read_inv_def t)
        with r t v 2 show thesis using that(2) [of bs] by (simp add: buf_def incoming_def)
      qed
    qed
  qed
qed

text \<open>Reading one message: it consumes a prefix \<open>c\<close> of the incoming bytes.\<close>

definition io_failure :: "honk_error \<Rightarrow> bool" where
  "io_failure e \<longleftrightarrow> (\<exists>d. e = MessageReadTimedOut d) \<or> (\<exists>k. e = ReaderReadFailed k)"

definition read_result_ok ::
  "'d bson_ops \<Rightarrow> 'd session \<Rightarrow> bytes \<Rightarrow> ('d message option, honk_error) result \<Rightarrow> 'd session \<Rightarrow> bool" where
  "read_result_ok B s c r t \<longleftrightarrow> (case r of
      Ok None \<Rightarrow> read_inv t \<and> message_read_buffer t = message_read_buffer s @ c
    | Ok (Some m) \<Rightarrow> read_inv t \<and> message_read_buffer t = [] \<and>
        self_sized (message_read_buffer s @ c) \<and> parse_message B (message_read_buffer s @ c) = Ok m
    | Err e \<Rightarrow> io_failure e \<longrightarrow> read_inv t \<and> message_read_buffer t = message_read_buffer s @ c)"

lemma read_message_body_frames:
  assumes inv: "read_inv s" and rem: "remaining_byte_count s = Some rem"
    and run: "read_message_body B rem s = (r, t)"
  shows "\<exists>c q. r = Ret q \<and> incoming s = c @ incoming t \<and> same_queues s t \<and> read_result_ok B s c q t"
proof -
  let ?buf = "message_read_buffer s"
  from inv rem have buf: "4 \<le> length ?buf" "0 < rem" "sint (buffer_header ?buf) = int (length ?buf + rem)"
    by (simp_all add: read_inv_def)
  obtain r' u where rd: "stream_read rem s = (r', u)" by fastforce
  from rd show ?thesis
  proof (cases rule: stream_read_bytes)
    case (1 e)
    with run rd have "r = Ret (Err e)" "t = u" by (simp_all add: read_message_body_def action_defs)
    with 1 inv rem show ?thesis
      by (intro exI [of _ "[]"] exI [of _ "Err e"]) (simp add: read_result_ok_def read_inv_def)
  next
    case (2 bs)
    show ?thesis
    proof (cases "bs = [] \<or> length bs \<noteq> rem")
      case True
      with run rd 2 have r: "r = Ret (Ok None)"
        and t: "t = (if bs = [] then u else u\<lparr> remaining_byte_count := Some (rem - length bs),
                       message_read_buffer := ?buf @ bs \<rparr>)"
        by (auto simp: read_message_body_def action_defs Let_def split: if_splits)
      have "read_inv t"
        using True 2 inv rem buf by (auto simp: read_inv_def t buffer_header_append)
      with r t 2 show ?thesis
        by (intro exI [of _ bs] exI [of _ "Ok None"]) (auto simp: read_result_ok_def incoming_def)
    next
      case False
      with run rd 2 have r: "r = Ret (case parse_message B (?buf @ bs) of Ok m \<Rightarrow> Ok (Some m) | Err e \<Rightarrow> Err e)"
        and t: "t = u\<lparr> remaining_byte_count := None, message_read_buffer := [] \<rparr>"
        by (auto simp: read_message_body_def action_defs Let_def split: if_splits)
      have "self_sized (?buf @ bs)"
        using False buf by (simp add: self_sized_header buffer_header_append)
      moreover have "\<not> io_failure e" if "parse_message B (?buf @ bs) = Err e" for e
        using that by (auto simp: parse_message_def io_failure_def split: result.splits)
      ultimately show ?thesis using r t 2
        by (intro exI [of _ bs] exI
            [of _ "case parse_message B (?buf @ bs) of Ok m \<Rightarrow> Ok (Some m) | Err e \<Rightarrow> Err e"])
          (auto simp: read_result_ok_def read_inv_def incoming_def split: result.splits)
    qed
  qed
qed

lemma read_message_frames:
  assumes inv: "read_inv s" and run: "read_message B s = (r, t)"
  shows "\<exists>c q. r = Ret q \<and> incoming s = c @ incoming t \<and> same_queues s t \<and> read_result_ok B s c q t"
proof -
  obtain r' u where sz: "read_message_size s = (r', u)" by fastforce
  from inv sz show ?thesis
  proof (cases rule: read_message_size_frames)
    case (1 c e)
    with run sz have "r = Ret (Err e)" "t = u" by (simp_all add: read_message_def action_defs)
    moreover have "io_failure e \<Longrightarrow> read_inv u"
    proof -
      assume "io_failure e"
      then have "e = MessageReadTimedOut (max_wait_time s) \<or> (\<exists>k. e = ReaderReadFailed k)"
        using sz 1(1) by (auto simp: io_failure_def read_message_size_def finish_message_size_def
            stream_read_def action_defs Let_def split: option.splits outcome.splits result.splits
              prod.splits if_splits)
      then show "read_inv u" by (rule 1(5))
    qed
    ultimately show ?thesis using 1
      by (intro exI [of _ c] exI [of _ "Err e"]) (simp add: read_result_ok_def)
  next
    case (2 c)
    show ?thesis
    proof (cases "remaining_byte_count u")
      case None
      with run sz 2 have "r = Ret (Ok None)" "t = u" by (simp_all add: read_message_def action_defs)
      with 2 show ?thesis by (intro exI [of _ c] exI [of _ "Ok None"]) (simp add: read_result_ok_def)
    next
      case (Some rem)
      with run sz 2 have "read_message_body B rem u = (r, t)" by (simp add: read_message_def action_defs)
      from read_message_body_frames [OF 2(5) Some this] obtain c' q where
        q: "r = Ret q" "incoming u = c' @ incoming t" "same_queues u t" "read_result_ok B u c' q t" by blast
      from q(4) 2(4) have "read_result_ok B s (c @ c') q t"
        by (simp add: read_result_ok_def split: result.splits option.splits)
      with q 2 same_queues_trans [OF 2(3) q(3)] show ?thesis
        by (intro exI [of _ "c @ c'"] exI [of _ q]) simp
    qed
  qed
qed

section \<open>All sections that have arrived\<close>

text \<open>
  \<open>frames B ds ms\<close>: each document of \<open>ds\<close> announces its own size and parses to the message at
  the same position of \<open>ms\<close>.
\<close>

definition frames :: "'d bson_ops \<Rightarrow> bytes list \<Rightarrow> 'd message list \<Rightarrow> bool" where
  "frames B ds ms \<longleftrightarrow> list_all2 (\<lambda>d m. self_sized d \<and> parse_message B d = Ok m) ds ms"

definition only_reads :: "'d session \<Rightarrow> 'd session \<Rightarrow> bool" where
  "only_reads s t \<longleftrightarrow> same_queues (s\<lparr> pending_sections := pending_sections t \<rparr>) t"

lemma same_queues_sent: "same_queues s t \<Longrightarrow> only_reads s t"
  by (simp add: only_reads_def same_queues_def)

lemma only_reads_trans: "only_reads s t \<Longrightarrow> only_reads t u \<Longrightarrow> only_reads s u"
  by (simp add: only_reads_def same_queues_def)

text \<open>
  A call of \<open>read_sections\<close> that succeeds: the bytes read so far are the documents of the
  messages it delivered, in order, followed by what the read buffer still holds.
\<close>

lemma read_sections_frames:
  assumes "read_inv s" "read_sections B s = (Ret (Ok ()), t)"
  shows "\<exists>c ds ms. incoming s = c @ incoming t \<and> message_read_buffer s @ c = concat ds @ message_read_buffer t \<and>
     frames B ds ms \<and> pending_sections t = pending_sections s @ concat (map msg_sections ms) \<and>
     read_inv t \<and> only_reads s t"
  using assms
proof (induction B s rule: read_sections.induct)
  case (1 B s)
  obtain r u where rm: "read_message B s = (r, u)" by fastforce
  from read_message_frames [OF "1.prems"(1) rm] obtain c q where
    q: "r = Ret q" "incoming s = c @ incoming u" "same_queues s u" "read_result_ok B s c q u" by blast
  show ?case
  proof (cases "\<exists>m. q = Ok (Some m)")
    case True
    then obtain m where m: "q = Ok (Some m)" by blast
    define v where "v = u\<lparr> pending_sections := pending_sections u @ msg_sections m \<rparr>"
    have run: "read_sections B v = (Ret (Ok ()), t)"
      using "1.prems"(2) rm q(1) m by (simp add: read_sections.simps [of B s] v_def)
    have v: "read_inv v" "incoming v = incoming u" "message_read_buffer v = []"
        "pending_sections v = pending_sections s @ msg_sections m" "only_reads s v"
      and d: "self_sized (message_read_buffer s @ c)" "parse_message B (message_read_buffer s @ c) = Ok m"
      using q m by (simp_all add: v_def read_result_ok_def only_reads_def same_queues_def)
    from "1.IH" [OF rm [symmetric] q(1) m refl] v(1) run obtain c' ds ms where
      IH: "incoming v = c' @ incoming t" "message_read_buffer v @ c' = concat ds @ message_read_buffer t"
        "frames B ds ms" "pending_sections t = pending_sections v @ concat (map msg_sections ms)"
        "read_inv t" "only_reads v t"
      unfolding v_def by blast
    show ?thesis
      using IH v d q(2) only_reads_trans [OF v(5) IH(6)]
      by (intro exI [of _ "c @ c'"] exI [of _ "(message_read_buffer s @ c) # ds"] exI [of _ "m # ms"])
        (simp add: frames_def)
  next
    case False
    then have t: "t = u" and q': "q = Ok None \<or> (\<exists>e. q = Err e \<and> io_failure e)"
      using "1.prems"(2) rm q(1)
      by (auto simp: read_sections.simps [of B s] io_failure_def split: result.splits option.splits
          honk_error.splits if_splits)
    then have "read_inv u" "message_read_buffer u = message_read_buffer s @ c"
      using q(4) by (auto simp: read_result_ok_def)
    with q t show ?thesis
      by (intro exI [of _ c] exI [of _ "[]"] exI [of _ "[]"])
        (simp add: frames_def same_queues_sent same_queues_def)
  qed
qed

lemma read_sections_returns:
  assumes "read_inv s" shows "\<exists>q t. read_sections B s = (Ret q, t)"
  using assms
proof (induction B s rule: read_sections.induct)
  case (1 B s)
  obtain r u where rm: "read_message B s = (r, u)" by fastforce
  from read_message_frames [OF "1.prems" rm] obtain c q where
    q: "r = Ret q" "read_result_ok B s c q u" by blast
  show ?case
  proof (cases "\<exists>m. q = Ok (Some m)")
    case True
    then obtain m where m: "q = Ok (Some m)" by blast
    have "read_inv (u\<lparr> pending_sections := pending_sections u @ msg_sections m \<rparr>)"
      using q(2) m by (simp add: read_result_ok_def)
    with "1.IH" [OF rm [symmetric] q(1) m refl] rm q m show ?thesis
      by (simp add: read_sections.simps [of B s])
  next
    case False
    with rm q(1) show ?thesis
      by (auto simp: read_sections.simps [of B s] split: result.splits option.splits honk_error.splits)
  qed
qed

section \<open>There is only one way to split a stream\<close>

definition incomplete :: "bytes \<Rightarrow> bool" where
  "incomplete bs \<longleftrightarrow> length bs < 4 \<or> int (length bs) < sint (buffer_header bs)"

lemma read_inv_incomplete: "read_inv s \<Longrightarrow> incomplete (message_read_buffer s)"
  by (auto simp: read_inv_def incomplete_def split: option.splits)

lemma self_sized_prefix_length:
  assumes "self_sized d" "self_sized e" "d @ x = e @ y" shows "length d = length e"
proof -
  have "buffer_header d = buffer_header (d @ x)" "buffer_header e = buffer_header (e @ y)"
    using assms(1,2) by (simp_all add: self_sized_header buffer_header_append)
  with assms show ?thesis by (simp add: self_sized_header)
qed

lemma self_sized_not_incomplete:
  assumes "self_sized d" shows "\<not> incomplete (d @ x)"
  using assms by (auto simp: self_sized_header incomplete_def buffer_header_append)

lemma framing_unique:
  assumes "list_all self_sized ds" "list_all self_sized es" "incomplete x" "incomplete y"
    "concat ds @ x = concat es @ y"
  shows "ds = es \<and> x = y"
  using assms
proof (induction ds arbitrary: es)
  case Nil
  then show ?case
    by (cases es) (auto dest: self_sized_not_incomplete)
next
  case (Cons d ds)
  show ?case
  proof (cases es)
    case Nil
    with Cons.prems self_sized_not_incomplete [of d "concat ds @ x"] show ?thesis by simp
  next
    case (Cons e es')
    with Cons.prems have "length d = length e"
      by (intro self_sized_prefix_length [of d e "concat ds @ x" "concat es' @ y"]) simp_all
    with Cons Cons.prems have "d = e" "concat ds @ x = concat es' @ y" by auto
    with Cons Cons.prems Cons.IH [of es'] show ?thesis by simp
  qed
qed

section \<open>Everything that is available is delivered\<close>

lemma self_sized_unat:
  assumes "self_sized d"
  shows "\<not> buffer_header d <=s 4" "unat (buffer_header d) = length d"
proof -
  from assms show *: "\<not> buffer_header d <=s 4" by (simp add: self_sized_header word_sle_eq)
  from sint_positive_i32 [OF *] assms show "unat (buffer_header d) = length d"
    by (metis of_nat_eq_iff self_sized_header)
qed

definition rest_events :: "nat \<Rightarrow> bytes \<Rightarrow> (nat \<times> read_event) list \<Rightarrow> (nat \<times> read_event) list" where
  "rest_events u bs es = (if bs = [] then es else (u, Data bs) # es)"

lemma stream_read_chunk:
  assumes "rd_events (stream s) = (u, Data (c @ rest)) # es" "c \<noteq> []" "n = length c"
  shows "stream_read n s = (Ret (Ok c),
     s\<lparr> stream := (stream s)\<lparr> rd_events := rest_events u rest es \<rparr>, read_timestamp := u \<rparr>)"
  using assms by (simp add: stream_read_def io_read_def rest_events_def Let_def)

lemma finish_message_size_header:
  "length (message_read_buffer s) = 4 \<Longrightarrow> finish_message_size s =
     (if buffer_header (message_read_buffer s) <=s 4
        then (Ret (Err (BsonDocumentSizeTooSmall (buffer_header (message_read_buffer s)))), s)
      else if max_message_size s < unat (buffer_header (message_read_buffer s))
        then (Ret (Err (BsonDocumentSizeTooLarge (buffer_header (message_read_buffer s))
               (of_nat (max_message_size s)))), s)
      else (Ret (Ok ()), s\<lparr> remaining_byte_count := Some (unat (buffer_header (message_read_buffer s)) - 4) \<rparr>))"
  by (simp add: finish_message_size_def buffer_header_def Let_def)

lemma read_message_size_step:
  "remaining_byte_count s = None \<Longrightarrow> length (message_read_buffer s) < 4 \<Longrightarrow>
   stream_read (4 - length (message_read_buffer s)) s = (Ret (Ok bs), u) \<Longrightarrow> bs \<noteq> [] \<Longrightarrow>
   read_message_size s = finish_message_size (u\<lparr> message_read_buffer := message_read_buffer u @ bs \<rparr>)"
  by (simp add: read_message_size_def action_defs)

text \<open>A complete document at the front of the available bytes is read in one call.\<close>

lemma read_message_chunk:
  assumes fresh: "message_read_buffer s = []" "remaining_byte_count s = None"
    and ev: "rd_events (stream s) = (u, Data (d @ rest)) # es"
    and d: "self_sized d" "length d \<le> max_message_size s" "parse_message B d = Ok m"
  shows "read_message B s = (Ret (Ok (Some m)),
     s\<lparr> stream := (stream s)\<lparr> rd_events := rest_events u rest es \<rparr>, read_timestamp := u \<rparr>)"
proof -
  let ?h = "take 4 d" and ?b = "drop 4 d"
  have len: "4 < length d" using d(1) by (simp add: self_sized_header)
  then have h: "?h \<noteq> []" "length ?h = 4" "?b \<noteq> []" by auto
  define s1 where "s1 = s\<lparr> stream := (stream s)\<lparr> rd_events := (u, Data (?b @ rest)) # es \<rparr>,
    read_timestamp := u \<rparr>"
  have "rd_events (stream s) = (u, Data (?h @ ?b @ rest)) # es"
    using ev by (simp flip: append_assoc)
  from stream_read_chunk [OF this h(1)] h len
  have r1: "stream_read 4 s = (Ret (Ok ?h), s1)" by (simp add: s1_def rest_events_def)
  have hd: "buffer_header ?h = buffer_header d"
    using len by (simp add: buffer_header_def)
  define s2 where "s2 = s1\<lparr> message_read_buffer := ?h, remaining_byte_count := Some (length d - 4) \<rparr>"
  have "read_message_size s = finish_message_size (s1\<lparr> message_read_buffer := message_read_buffer s1 @ ?h \<rparr>)"
    by (rule read_message_size_step [OF fresh(2) _ _ h(1)]) (simp_all add: fresh(1) r1)
  also have "message_read_buffer s1 @ ?h = ?h" by (simp add: s1_def fresh)
  also have "finish_message_size (s1\<lparr> message_read_buffer := ?h \<rparr>) = (Ret (Ok ()), s2)"
    using h(2) hd self_sized_unat [OF d(1)] d(2) by (simp add: finish_message_size_header s2_def s1_def)
  finally have "read_message_size s = (Ret (Ok ()), s2)" .
  moreover define s3 where "s3 = s2\<lparr> stream := (stream s2)\<lparr> rd_events := rest_events u rest es \<rparr>,
    read_timestamp := u \<rparr>"
  have "stream_read (length d - 4) s2 = (Ret (Ok ?b), s3)"
    unfolding s3_def by (rule stream_read_chunk [OF _ h(3)]) (simp_all add: s2_def s1_def)
  moreover have "message_read_buffer s3 = ?h" "remaining_byte_count s2 = Some (length d - 4)"
    by (simp_all add: s3_def s2_def)
  ultimately have "read_message B s = (Ret (Ok (Some m)),
      s3\<lparr> remaining_byte_count := None, message_read_buffer := [] \<rparr>)"
    using d(3) h(3) by (simp add: read_message_def read_message_body_def action_defs Let_def)
  then show ?thesis using fresh by (simp add: s3_def s2_def s1_def)
qed

lemma read_sections_chunk:
  assumes "message_read_buffer s = []" "remaining_byte_count s = None"
    and "rd_events (stream s) = rest_events u (concat ds) []"
    and "frames B ds ms" "\<forall>d\<in>set ds. length d \<le> max_message_size s"
    and "pending_sections s \<noteq> [] \<or> (\<exists>m\<in>set ms. msg_sections m \<noteq> [])"
    and "ds \<noteq> [] \<Longrightarrow> \<forall>m\<in>set ms. msg_sections m \<noteq> []"
  shows "\<exists>t. read_sections B s = (Ret (Ok ()), t) \<and> incoming t = [] \<and>
    pending_sections t = pending_sections s @ concat (map msg_sections ms)"
  using assms
proof (induction ds arbitrary: s ms)
  case Nil
  then have "ms = []" "rd_events (stream s) = []" by (simp_all add: frames_def rest_events_def)
  moreover from Nil this have "pending_sections s \<noteq> []" by simp
  ultimately show ?case using Nil.prems(1,2)
    by (auto simp: read_sections.simps [of B s] read_message_def read_message_size_def stream_read_def
        io_read_def action_defs incoming_def)
next
  case (Cons d ds)
  from Cons.prems(4) obtain m ms' where ms: "ms = m # ms'" and d: "self_sized d" "parse_message B d = Ok m"
    and fr: "frames B ds ms'"
    by (auto simp: frames_def list_all2_Cons1)
  have "concat (d # ds) \<noteq> []" using d(1) by (auto simp: self_sized_header)
  then have ev: "rd_events (stream s) = (u, Data (d @ concat ds)) # []"
    using Cons.prems(3) by (simp add: rest_events_def)
  define s1 where "s1 = s\<lparr> stream := (stream s)\<lparr> rd_events := rest_events u (concat ds) [] \<rparr>,
     read_timestamp := u, pending_sections := pending_sections s @ msg_sections m \<rparr>"
  have "read_sections B s = read_sections B s1"
    using read_message_chunk [OF Cons.prems(1,2) ev d(1) _ d(2)] Cons.prems(5)
    by (simp add: read_sections.simps [of B s] s1_def)
  moreover have "\<exists>t. read_sections B s1 = (Ret (Ok ()), t) \<and> incoming t = [] \<and>
      pending_sections t = pending_sections s1 @ concat (map msg_sections ms')"
    using Cons.prems ms fr by (intro Cons.IH) (auto simp: s1_def)
  ultimately show ?case by (auto simp: s1_def ms)
qed

text \<open>
  After a header that announces too small a document the buffer is left full, and the assertion
  at the start of the next read fails.
\<close>

lemma read_after_bad_header_panics:
  assumes "read_inv s" "read_message B s = (Ret (Err (BsonDocumentSizeTooSmall n)), t)"
  shows "fst (read_message B t) = Panic"
proof -
  have no: "fst (read_message_body B rem u) \<noteq> Ret (Err (BsonDocumentSizeTooSmall n))" for rem u
  proof (cases "stream_read rem u")
    case (Pair r v)
    from Pair show ?thesis
    proof (cases rule: stream_read_bytes)
      case (1 e)
      with Pair show ?thesis by (auto simp: read_message_body_def action_defs)
    next
      case (2 bs)
      with Pair show ?thesis
        by (auto simp: read_message_body_def action_defs parse_message_def Let_def split: result.splits)
    qed
  qed
  from assms(2) have size: "read_message_size s = (Ret (Err (BsonDocumentSizeTooSmall n)), t)"
    using no by (auto simp: read_message_def try_then_Err_iff split: option.splits) (metis fst_conv)
  then have none: "remaining_byte_count s = None" by (auto simp: read_message_size_def split: option.splits)
  with assms(1) have len: "length (message_read_buffer s) < 4" by (simp add: read_inv_def)
  obtain r u where rd: "stream_read (4 - length (message_read_buffer s)) s = (r, u)" by fastforce
  from rd have "length (message_read_buffer t) = 4 \<and> remaining_byte_count t = None"
  proof (cases rule: stream_read_bytes)
    case (1 e)
    with size none len rd show ?thesis by (auto simp: read_message_size_def action_defs)
  next
    case (2 bs)
    with size none len rd show ?thesis
      by (auto simp: read_message_size_def action_defs finish_message_size_def Let_def split: if_splits)
  qed
  then show ?thesis by (simp add: read_message_def read_message_size_def action_defs)
qed


section \<open>Repeated reads: the chunks of the stream do not matter\<close>

inductive reads :: "'d bson_ops \<Rightarrow> 'd session \<Rightarrow> 'd session \<Rightarrow> bool" for B where
  reads_refl: "reads B s s"
| reads_step: "read_sections B s = (Ret (Ok ()), t) \<Longrightarrow> reads B t u \<Longrightarrow> reads B s u"

lemma frames_append: "frames B ds ms \<Longrightarrow> frames B es ns \<Longrightarrow> frames B (ds @ es) (ms @ ns)"
  by (simp add: frames_def list_all2_appendI)

lemma frames_functional: "frames B ds ms \<Longrightarrow> frames B ds ns \<Longrightarrow> ms = ns"
proof (induction ds arbitrary: ms ns)
  case (Cons d ds)
  then show ?case by (fastforce simp: frames_def list_all2_Cons1)
qed (simp add: frames_def)

lemma frames_self_sized: "frames B ds ms \<Longrightarrow> list_all self_sized ds"
  by (auto simp: frames_def list_all_iff list_all2_conv_all_nth in_set_conv_nth)

lemma reads_frames:
  assumes "reads B s u" "read_inv s"
  shows "\<exists>c ds ms. incoming s = c @ incoming u \<and> message_read_buffer s @ c = concat ds @ message_read_buffer u \<and>
     frames B ds ms \<and> pending_sections u = pending_sections s @ concat (map msg_sections ms) \<and> read_inv u"
  using assms
proof (induction rule: reads.induct)
  case (reads_refl s)
  then show ?case by (intro exI [of _ "[]"]) (simp add: frames_def)
next
  case (reads_step s t u)
  from read_sections_frames [OF \<open>read_inv s\<close> reads_step(1)] obtain c ds ms where
    1: "incoming s = c @ incoming t" "message_read_buffer s @ c = concat ds @ message_read_buffer t"
      "frames B ds ms" "pending_sections t = pending_sections s @ concat (map msg_sections ms)" "read_inv t" by blast
  from reads_step(3) [OF \<open>read_inv t\<close>] obtain c' ds' ms' where
    2: "incoming t = c' @ incoming u" "message_read_buffer t @ c' = concat ds' @ message_read_buffer u"
      "frames B ds' ms'" "pending_sections u = pending_sections t @ concat (map msg_sections ms')" "read_inv u" by blast
  show ?case
    using 1 2 frames_append [OF 1(3) 2(3)]
    by (intro exI [of _ "c @ c'"] exI [of _ "ds @ ds'"] exI [of _ "ms @ ms'"]) (metis append.assoc concat_append map_append)
qed

lemma reads_chunking:
  assumes "read_inv s" "read_inv s'" "message_read_buffer s' = message_read_buffer s"
    and "pending_sections s' = pending_sections s" "incoming s' = incoming s"
    and "reads B s u" "reads B s' u'" "incoming u = []" "incoming u' = []"
  shows "pending_sections u' = pending_sections u \<and> message_read_buffer u' = message_read_buffer u"
proof -
  from reads_frames [OF assms(6,1)] assms(8) obtain ds ms where
    1: "message_read_buffer s @ incoming s = concat ds @ message_read_buffer u" "frames B ds ms"
      "pending_sections u = pending_sections s @ concat (map msg_sections ms)" "read_inv u" by auto
  from reads_frames [OF assms(7,2)] assms(9) obtain ds' ms' where
    2: "message_read_buffer s' @ incoming s' = concat ds' @ message_read_buffer u'" "frames B ds' ms'"
      "pending_sections u' = pending_sections s' @ concat (map msg_sections ms')" "read_inv u'" by auto
  have "ds = ds' \<and> message_read_buffer u = message_read_buffer u'"
    using framing_unique [OF frames_self_sized [OF 1(2)] frames_self_sized [OF 2(2)]
        read_inv_incomplete [OF 1(4)] read_inv_incomplete [OF 2(4)]] 1(1) 2(1) assms(3,5) by simp
  then show ?thesis using frames_functional 1 2 assms(4) by metis
qed


end
