(* ===== verification/Honk_Packing.thy ===== *)
theory Honk_Packing
  imports Honk_Framing "HOL-Library.Sublist"
begin

text \<open>
  Correctness of the writing half of a session: a section that was accepted fits into a
  message of its own, so splitting an oversized message ends before the assertion that guards
  it; the messages written are a partition of the queued sections, in order, each within the
  agreed size; and what the stream has taken, followed by what the write buffer still holds,
  is what was written, each byte once.
\<close>

section \<open>Sizes\<close>

lemma doc_of_simps [simp]:
  "doc_of B [] = doc_new B"
  "doc_of B (kvs @ [(k, v)]) = doc_insert B (doc_of B kvs) k v"
  "doc_of B [(k, v)] = doc_insert B (doc_new B) k v"
  "doc_of B [(k, v), (j, w)] = doc_insert B (doc_insert B (doc_new B) k v) j w"
  "doc_of B [(k, v), (j, w), (i, x)] = doc_insert B (doc_insert B (doc_insert B (doc_new B) k v) j w) i x"
  by (simp_all add: doc_of_def)

lemma length_decimal_0 [simp]: "length (decimal 0) = 1"
  by (simp add: decimal.simps)

lemma count_document_Ok_iff:
  "count_document B d = Ok n \<longleftrightarrow> serialises B d \<and> doc_size B d = n"
  by (auto simp: count_document_def byte_counter_write_def serialises_def doc_size_def split: result.splits)

lemma count_document_Err: "\<not> serialises B d \<Longrightarrow> \<exists>e. count_document B d = Err (BsonWriteFailed e)"
  by (auto simp: count_document_def serialises_def split: result.splits)

lemma MIN_MESSAGE_SIZE_value: "MIN_MESSAGE_SIZE = 37"
  by (simp add: MIN_MESSAGE_SIZE_def HEADER_SIZE_def HONK_RPC_SIZE_def SECTIONS_SIZE_def FOOTER_SIZE_def)

lemma sections_message_size:
  assumes "bson_laws B" "bson_size_laws B" "list_all (value_serialises B) xs"
  shows "serialises B (sections_message B xs)"
    and "doc_size B (sections_message B xs) = 34 + array_size B 0 xs"
proof -
  let ?d = "doc_insert B (doc_new B) ''honk_rpc'' (BInt32 HONK_RPC_VERSION)"
  have g: "doc_get B (doc_new B) ''honk_rpc'' = None" "doc_get B ?d ''sections'' = None"
    using assms(1) by (simp_all add: bson_rules)
  have d: "serialises B ?d" "doc_size B ?d = 19"
    using assms(2) g by (simp_all add: bson_size_rules no_nul_def)
  show *: "serialises B (sections_message B xs)"
    using bson_insert_serialises [OF assms(2) g(2), of "BArray xs"] d(1) assms(3)
    by (simp add: sections_message_def no_nul_def)
  show "doc_size B (sections_message B xs) = 34 + array_size B 0 xs"
    using bson_insert_size [OF assms(2) g(2), of "BArray xs"] d(2) *
    by (simp add: sections_message_def)
qed

lemma message_overhead_value:
  assumes "bson_laws B" "bson_size_laws B"
  shows "get_message_overhead B = Ok MIN_MESSAGE_SIZE"
  using sections_message_size [OF assms, of "[BNull]"]
  by (simp add: get_message_overhead_def count_document_Ok_iff MIN_MESSAGE_SIZE_value sections_message_def)

text \<open>A message with one section is as long as the fixed overhead and the section.\<close>

lemma single_section_size:
  assumes "bson_laws B" "bson_size_laws B" "serialises B d"
  shows "serialises B (sections_message B [BDocument d])"
    and "doc_size B (sections_message B [BDocument d]) = MIN_MESSAGE_SIZE + doc_size B d"
  using sections_message_size [OF assms(1,2), of "[BDocument d]"] assms(3)
  by (simp_all add: MIN_MESSAGE_SIZE_value)

section \<open>Queued sections fit\<close>

definition fits :: "'d bson_ops \<Rightarrow> nat \<Rightarrow> 'd \<Rightarrow> bool" where
  "fits B n d \<longleftrightarrow> serialises B d \<and> MIN_MESSAGE_SIZE + doc_size B d \<le> n"

definition out_inv :: "'d bson_ops \<Rightarrow> 'd session \<Rightarrow> bool" where
  "out_inv B s \<longleftrightarrow> MIN_MESSAGE_SIZE \<le> max_message_size s \<and>
     list_all (fits B (max_message_size s)) (outbound_sections s)"

lemma out_inv_new: "out_inv B (session_new now st)"
  by (simp add: out_inv_def session_new_def MIN_MESSAGE_SIZE_value DEFAULT_MAX_MESSAGE_SIZE_def)

lemma push_outbound_section_cases:
  assumes "MIN_MESSAGE_SIZE \<le> max_message_size s"
  shows "push_outbound_section B sec s =
    (case count_document B (section_into B sec) of
       Err e \<Rightarrow> (Ret (Err e), s)
     | Ok n \<Rightarrow> if fits B (max_message_size s) (section_into B sec)
         then (Ret (Ok ()), s\<lparr> outbound_sections := outbound_sections s @ [section_into B sec] \<rparr>)
         else (Ret (Err (SectionTooLarge n (max_message_size s - MIN_MESSAGE_SIZE))), s))"
proof (cases "count_document B (section_into B sec)")
  case (Ok n)
  then have "serialises B (section_into B sec)" "doc_size B (section_into B sec) = n"
    by (simp_all add: count_document_Ok_iff)
  with Ok assms show ?thesis by (auto simp: push_outbound_section_def fits_def Let_def)
next
  case (Err e)
  with assms show ?thesis by (simp add: push_outbound_section_def Let_def)
qed

lemma push_outbound_section_safe: "safe (out_inv B) (push_outbound_section B sec)"
  by (rule safeI) (auto simp: push_outbound_section_cases out_inv_def split: result.splits)

lemma set_max_message_size_min:
  assumes "set_max_message_size n s = (Ret (Ok ()), t)"
  shows "MIN_MESSAGE_SIZE \<le> max_message_size t \<and> int (max_message_size t) = sint n"
proof -
  from assms have n: "\<not> n <s of_nat MIN_MESSAGE_SIZE" and t: "max_message_size t = unat n"
    by (auto simp: set_max_message_size_def split: if_splits)
  from n have "37 \<le> sint n" by (simp add: MIN_MESSAGE_SIZE_value word_sless_alt)
  then have "\<not> n <=s 4" by (simp add: word_sle_eq)
  from sint_positive_i32 [OF this] have u: "sint n = int (unat n)" by simp
  with \<open>37 \<le> sint n\<close> have "37 \<le> unat n" by linarith
  with t u show ?thesis by (simp only: MIN_MESSAGE_SIZE_value)
qed

section \<open>Splitting\<close>

text \<open>The bytes of a message with the given sections.\<close>

definition message_bytes :: "'d bson_ops \<Rightarrow> 'd bson list \<Rightarrow> bytes" where
  "message_bytes B xs = (case to_writer B (sections_message B xs) of Ok bs \<Rightarrow> bs | Err _ \<Rightarrow> [])"

definition good_part :: "'d bson_ops \<Rightarrow> nat \<Rightarrow> 'd bson list \<Rightarrow> bool" where
  "good_part B n xs \<longleftrightarrow> xs \<noteq> [] \<and> to_writer B (sections_message B xs) = Ok (message_bytes B xs) \<and>
     length (message_bytes B xs) \<le> n"

lemma serialize_messages_impl_spec:
  assumes "bson_laws B" "bson_size_laws B" "xs \<noteq> []"
    and "\<forall>x\<in>set xs. \<exists>d. x = BDocument d \<and> fits B (max_message_size s) d"
  shows "\<exists>parts. concat parts = xs \<and> list_all (good_part B (max_message_size s)) parts \<and>
     serialize_messages_impl B xs s = (Ret (Ok ()), s\<lparr> message_serialization_buffer := [],
       message_write_buffer := fold (\<lambda>p. vd_append (message_bytes B p)) parts (message_write_buffer s) \<rparr>)"
  using assms(3,4)
proof (induction xs arbitrary: s rule: length_induct)
  case (1 xs)
  have "list_all (value_serialises B) xs" using "1.prems"(2) by (auto simp: list_all_iff fits_def)
  from sections_message_size [OF assms(1,2) this] obtain bs where
    bs: "to_writer B (sections_message B xs) = Ok bs" "doc_size B (sections_message B xs) = length bs"
    by (auto elim: serialisesE)
  then have mb: "message_bytes B xs = bs" by (simp add: message_bytes_def)
  show ?case
  proof (cases "max_message_size s < length bs")
    case False
    with bs mb "1.prems"(1) show ?thesis
      by (intro exI [of _ "[xs]"]) (simp add: serialize_messages_impl.simps [of B xs] good_part_def)
  next
    case True
    have long: "1 < length xs"
    proof (rule ccontr)
      assume "\<not> 1 < length xs"
      with "1.prems" obtain d where d: "xs = [BDocument d]" "fits B (max_message_size s) d"
        by (cases xs) auto
      with single_section_size [OF assms(1,2), of d] bs True show False by (simp add: fits_def)
    qed
    let ?l = "take (length xs div 2) xs" and ?r = "drop (length xs div 2) xs"
    define s1 where "s1 = s\<lparr> message_serialization_buffer := bs \<rparr>"
    have "length ?l < length xs" "?l \<noteq> []" "length ?r < length xs" "?r \<noteq> []" using long by auto
    moreover have "\<forall>x\<in>set ?l. \<exists>d. x = BDocument d \<and> fits B (max_message_size s1) d"
      using "1.prems"(2) by (auto simp: s1_def dest: in_set_takeD)
    ultimately obtain ps where ps: "concat ps = ?l" "list_all (good_part B (max_message_size s)) ps"
      and run1: "serialize_messages_impl B ?l s1 = (Ret (Ok ()), s1\<lparr> message_serialization_buffer := [],
         message_write_buffer := fold (\<lambda>p. vd_append (message_bytes B p)) ps (message_write_buffer s1) \<rparr>)"
      using "1.IH" [rule_format, of ?l s1] by (auto simp: s1_def)
    define s2 where "s2 = s1\<lparr> message_serialization_buffer := [],
       message_write_buffer := fold (\<lambda>p. vd_append (message_bytes B p)) ps (message_write_buffer s1) \<rparr>"
    have "\<forall>x\<in>set ?r. \<exists>d. x = BDocument d \<and> fits B (max_message_size s2) d"
      using "1.prems"(2) by (auto simp: s1_def s2_def dest: in_set_dropD)
    with \<open>length ?r < length xs\<close> \<open>?r \<noteq> []\<close> obtain qs where qs: "concat qs = ?r"
        "list_all (good_part B (max_message_size s)) qs"
      and run2: "serialize_messages_impl B ?r s2 = (Ret (Ok ()), s2\<lparr> message_serialization_buffer := [],
         message_write_buffer := fold (\<lambda>p. vd_append (message_bytes B p)) qs (message_write_buffer s2) \<rparr>)"
      using "1.IH" [rule_format, of ?r s2] by (auto simp: s1_def s2_def)
    have "serialize_messages_impl B xs s = serialize_messages_impl B ?r s2"
      using True long bs run1
      by (simp add: serialize_messages_impl.simps [of B xs] try_then_def andthen_def flip: s1_def s2_def)
    with ps qs run2 show ?thesis
      by (intro exI [of _ "ps @ qs"]) (simp add: s2_def s1_def)
  qed
qed

lemma fold_append_items:
  "vd_items (fold (\<lambda>p. vd_append (f p)) ps v) = vd_items v @ concat (map f ps)"
  by (induction ps arbitrary: v) simp_all

lemma fold_append_inv: "vd_inv v \<Longrightarrow> vd_inv (fold (\<lambda>p. vd_append (f p)) ps v)"
  by (induction ps arbitrary: v) (simp_all add: vd_append_inv)

lemma serialize_messages_spec:
  assumes "bson_laws B" "bson_size_laws B" "out_inv B s"
  shows "\<exists>parts t. serialize_messages B s = (Ret (Ok ()), t) \<and>
     concat parts = map BDocument (outbound_sections s) \<and>
     list_all (good_part B (max_message_size s)) parts \<and>
     vd_items (message_write_buffer t) = vd_items (message_write_buffer s) @ concat (map (message_bytes B) parts) \<and>
     message_write_buffer t = fold (\<lambda>p. vd_append (message_bytes B p)) parts (message_write_buffer s) \<and>
     outbound_sections t = [] \<and> stream t = stream s \<and> max_message_size t = max_message_size s \<and>
     remaining_byte_count t = remaining_byte_count s \<and> message_read_buffer t = message_read_buffer s"
proof (cases "outbound_sections s = []")
  case True
  then show ?thesis by (intro exI [of _ "[]"]) (simp add: serialize_messages_def)
next
  case False
  have "\<forall>x\<in>set (map BDocument (outbound_sections s)). \<exists>d. x = BDocument d \<and>
      fits B (max_message_size (s\<lparr> outbound_sections := [] \<rparr>)) d"
    using assms(3) by (auto simp: out_inv_def list_all_iff)
  from serialize_messages_impl_spec [OF assms(1,2) _ this] False show ?thesis
    by (auto simp: serialize_messages_def fold_append_items)
qed

text \<open>
  Lowering the limit below a section that is already queued makes the next packing run into
  the assertion.
\<close>

lemma shrink_then_serialize_panics:
  assumes "bson_laws B" "bson_size_laws B" "outbound_sections s = [d]" "serialises B d"
    and "max_message_size s < MIN_MESSAGE_SIZE + doc_size B d"
  shows "fst (serialize_messages B s) = Panic"
proof -
  from single_section_size [OF assms(1,2,4)] obtain bs where
    "to_writer B (sections_message B [BDocument d]) = Ok bs" "length bs = MIN_MESSAGE_SIZE + doc_size B d"
    by (auto elim: serialisesE)
  with assms(3,5) show ?thesis
    by (simp add: serialize_messages_def serialize_messages_impl.simps [of B "[BDocument d]"])
qed

section \<open>Writing\<close>

lemma write_pending_loop_spec:
  assumes "write_pending_loop p w st = (r, st')"
  shows "rd_events st' = rd_events st \<and> rd_now st' = rd_now st \<and> fl_events st' = fl_events st \<and>
    (\<exists>k \<le> length p. sent st' = sent st @ take k p \<and> (\<forall>n. r = Ok n \<longrightarrow> n = w + k))"
  using assms
proof (induction p w st rule: write_pending_loop.induct)
  case (1 p w st)
  show ?case
  proof (cases "p = []")
    case True
    with "1.prems" show ?thesis by (auto simp: write_pending_loop.simps [of "[]" w st])
  next
    case False
    obtain q st1 where w: "io_write p st = (q, st1)" by fastforce
    show ?thesis
    proof (cases q)
      case (Err k)
      with "1.prems" False w have "st' = st1" "\<forall>n. r = Ok n \<longrightarrow> n = w"
        by (auto simp: write_pending_loop.simps [of p w st] split: if_splits)
      moreover have "sent st1 = sent st" "rd_events st1 = rd_events st" "rd_now st1 = rd_now st" "fl_events st1 = fl_events st"
        using w Err by (auto simp: io_write_def split: list.splits write_event.splits)
      ultimately show ?thesis by (intro conjI exI [of _ 0]) auto
    next
      case (Ok c)
      with "1.prems" False w have rec: "write_pending_loop (drop c p) (w + c) st1 = (r, st')"
        by (simp add: write_pending_loop.simps [of p w st])
      have st1: "c \<le> length p" "sent st1 = sent st @ take c p" "rd_events st1 = rd_events st" "rd_now st1 = rd_now st"
          "fl_events st1 = fl_events st"
        using w Ok by (auto simp: io_write_def min_def split: list.splits write_event.splits)
      from "1.IH" [OF False w [symmetric] Ok rec] obtain k where
        k: "k \<le> length (drop c p)" "sent st' = sent st1 @ take k (drop c p)" "\<forall>n. r = Ok n \<longrightarrow> n = w + c + k"
        and same: "rd_events st' = rd_events st1" "rd_now st' = rd_now st1" "fl_events st' = fl_events st1"
        by auto
      from k st1 same show ?thesis
        by (intro conjI exI [of _ "c + k"]) (auto simp: take_add)
    qed
  qed
qed

lemma write_pending_loop_all:
  "wr_events st = [] \<Longrightarrow> write_pending_loop p w st = (Ok (w + length p), st\<lparr> sent := sent st @ p \<rparr>)"
  by (simp add: write_pending_loop.simps [of p w st] write_pending_loop.simps [of "[]"] io_write_def)

definition wire :: "'d session \<Rightarrow> bytes" where
  "wire s = sent (stream s) @ vd_items (message_write_buffer s)"

lemma write_pending_data_OkE:
  assumes "write_pending_data s = (Ret (Ok ()), t)"
  obtains n st1 st2 where "snd (vd_as_slices (message_write_buffer s)) = []"
    "write_pending_loop (fst (vd_as_slices (message_write_buffer s))) 0 (stream s) = (Ok n, st1)"
    "io_flush st1 = (Ok (), st2)"
    "t = s\<lparr> stream := st2,
       message_write_buffer := vd_make_contiguous (vd_drain_front n (message_write_buffer s)) \<rparr>"
proof -
  obtain p q where sl: "vd_as_slices (message_write_buffer s) = (p, q)" by fastforce
  obtain r st1 where lp: "write_pending_loop p 0 (stream s) = (r, st1)" by fastforce
  obtain f st2 where fl: "io_flush st1 = (f, st2)" by fastforce
  from assms sl lp fl that show thesis
    by (auto simp: write_pending_data_def write_pending_data_impl_def action_defs
        split: if_splits result.splits)
qed

text \<open>Bytes leave the write buffer in order and exactly when the stream has taken them.\<close>

lemma write_pending_data_conserves:
  assumes "vd_inv (message_write_buffer s)" "write_pending_data s = (Ret (Ok ()), t)"
  shows "wire t = wire s" "vd_inv (message_write_buffer t)" "vd_contiguous (message_write_buffer t)"
    "\<exists>k. sent (stream t) = sent (stream s) @ take k (vd_items (message_write_buffer s))"
proof -
  let ?v = "message_write_buffer s"
  from assms(2) obtain n st1 st2 where one: "snd (vd_as_slices ?v) = []"
    and loop: "write_pending_loop (fst (vd_as_slices ?v)) 0 (stream s) = (Ok n, st1)"
    and fl: "io_flush st1 = (Ok (), st2)"
    and t: "t = s\<lparr> stream := st2, message_write_buffer := vd_make_contiguous (vd_drain_front n ?v) \<rparr>"
    by (rule write_pending_data_OkE)
  have items: "fst (vd_as_slices ?v) = vd_items ?v" by (rule vd.single_slice [OF assms(1) one])
  from write_pending_loop_spec [OF loop] items have n: "n \<le> length (vd_items ?v)"
      "sent st1 = sent (stream s) @ take n (vd_items ?v)" by auto
  have "sent st2 = sent st1" using fl by (auto simp: io_flush_def split: list.splits option.splits)
  with n t show "wire t = wire s"
    "\<exists>k. sent (stream t) = sent (stream s) @ take k (vd_items (message_write_buffer s))"
    by (auto simp: wire_def)
  show "vd_inv (message_write_buffer t)" "vd_contiguous (message_write_buffer t)"
    using assms(1) t by (simp_all add: vd_drain_inv vd_make_contiguous_inv vd_make_contiguous_contiguous)
qed

lemma write_pending_data_all:
  assumes "vd_inv (message_write_buffer s)" "vd_contiguous (message_write_buffer s)"
    "wr_events (stream s) = []" "fl_events (stream s) = []"
  shows "\<exists>t. write_pending_data s = (Ret (Ok ()), t) \<and> sent (stream t) = wire s \<and>
    vd_items (message_write_buffer t) = []"
  using assms
  by (auto simp: write_pending_data_def write_pending_data_impl_def action_defs vd_as_slices_def
      write_pending_loop_all io_flush_def wire_def)

lemma write_pending_data_panics_iff:
  assumes "vd_inv (message_write_buffer s)"
  shows "fst (write_pending_data s) = Panic \<longleftrightarrow> \<not> vd_contiguous (message_write_buffer s)"
  using vd_single_slice_iff [OF assms]
  by (auto simp: write_pending_data_def write_pending_data_impl_def action_defs split: prod.splits result.splits)

section \<open>From one session to the other\<close>

lemma good_part_frames:
  assumes "bson_laws B" "good_part B n (map (\<lambda>s. BDocument (section_into B s)) ss)" "list_all section_wf ss"
    "reads_back B (sections_message B (map (\<lambda>s. BDocument (section_into B s)) ss))"
  shows "self_sized (message_bytes B (map (\<lambda>s. BDocument (section_into B s)) ss))"
    "parse_message B (message_bytes B (map (\<lambda>s. BDocument (section_into B s)) ss)) =
       Ok \<lparr> msg_honk_rpc = HONK_RPC_VERSION, msg_sections = ss \<rparr>"
proof -
  let ?xs = "map (\<lambda>s. BDocument (section_into B s)) ss"
  from assms(2) have w: "to_writer B (sections_message B ?xs) = Ok (message_bytes B ?xs)" and "ss \<noteq> []"
    by (auto simp: good_part_def)
  with assms(4) show "self_sized (message_bytes B ?xs)" by (simp add: reads_back_def)
  have "sections_message B ?xs = message_into B \<lparr> msg_honk_rpc = HONK_RPC_VERSION, msg_sections = ss \<rparr>"
    by (simp add: sections_message_def message_into_def)
  with message_roundtrip [OF assms(1), of "\<lparr> msg_honk_rpc = HONK_RPC_VERSION, msg_sections = ss \<rparr>"]
    assms(3,4) w \<open>ss \<noteq> []\<close>
  show "parse_message B (message_bytes B ?xs) = Ok \<lparr> msg_honk_rpc = HONK_RPC_VERSION, msg_sections = ss \<rparr>"
    by (simp add: parse_message_def reads_back_def)
qed

text \<open>A partition of a mapped list is the image of a partition.\<close>

lemma concat_eq_map_split:
  "concat ps = map f xs \<Longrightarrow> \<exists>qs. concat qs = xs \<and> ps = map (map f) qs"
proof (induction ps arbitrary: xs)
  case Nil
  then show ?case by (intro exI [of _ "[]"]) simp
next
  case (Cons p ps)
  from Cons.prems have "p = map f (take (length p) xs)" "concat ps = map f (drop (length p) xs)"
    by (simp_all add: append_eq_conv_conj take_map drop_map)
  with Cons.IH obtain qs where "concat qs = drop (length p) xs" "ps = map (map f) qs" by blast
  with \<open>p = _\<close> show ?case by (intro exI [of _ "take (length p) xs # qs"]) simp
qed

lemma parts_frames:
  assumes "bson_laws B" "concat qs = ss" "list_all section_wf ss"
    "list_all (good_part B n) (map (map (\<lambda>s. BDocument (section_into B s))) qs)"
    "\<forall>q\<in>set qs. reads_back B (sections_message B (map (\<lambda>s. BDocument (section_into B s)) q))"
  shows "frames B (map (message_bytes B) (map (map (\<lambda>s. BDocument (section_into B s))) qs))
    (map (\<lambda>q. \<lparr> msg_honk_rpc = HONK_RPC_VERSION, msg_sections = q \<rparr>) qs)"
  using assms(2-5)
proof (induction qs arbitrary: ss)
  case Nil
  then show ?case by (simp add: frames_def)
next
  case (Cons q qs)
  from Cons.prems have "list_all section_wf q" "list_all section_wf (concat qs)" by auto
  with Cons.IH [OF refl] Cons.prems(3,4) good_part_frames [OF assms(1), of n q]
  show ?case by (simp add: frames_def)
qed

lemma vd_append_head0: "vd_inv v \<Longrightarrow> vd_head v = 0 \<Longrightarrow> vd_head (vd_append xs v) = 0"
  by (auto simp: vd_append_def vd_reserve_def vd_contiguous_def vd_inv_def Let_def)

lemma fold_append_head0:
  "vd_inv v \<Longrightarrow> vd_head v = 0 \<Longrightarrow> vd_head (fold (\<lambda>p. vd_append (f p)) ps v) = 0"
  by (induction ps arbitrary: v) (simp_all add: vd_append_inv vd_append_head0)

lemma head0_contiguous: "vd_inv v \<Longrightarrow> vd_head v = 0 \<Longrightarrow> vd_contiguous v"
  by (simp add: vd_contiguous_def vd_inv_def)

text \<open>
  Queue, pack and write in one session; read in another. The receiver's limit may be larger
  than the sender's, never smaller; each message that can be formed from neighbouring sections
  is read back by the BSON reader.
\<close>

definition ready_to_send :: "'d bson_ops \<Rightarrow> 'd rpc_section list \<Rightarrow> 'd session \<Rightarrow> bool" where
  "ready_to_send B ss s \<longleftrightarrow> out_inv B s \<and> outbound_sections s = map (section_into B) ss \<and>
     vd_inv (message_write_buffer s) \<and> vd_head (message_write_buffer s) = 0 \<and>
     vd_items (message_write_buffer s) = [] \<and> sent (stream s) = [] \<and>
     wr_events (stream s) = [] \<and> fl_events (stream s) = []"

definition ready_to_receive :: "nat \<Rightarrow> bytes \<Rightarrow> 'd session \<Rightarrow> bool" where
  "ready_to_receive u bs r \<longleftrightarrow> message_read_buffer r = [] \<and> remaining_byte_count r = None \<and>
     pending_sections r = [] \<and> rd_events (stream r) = [(u, Data bs)]"

lemma concat_sublist: "q \<in> set qs \<Longrightarrow> sublist q (concat qs)"
  by (metis concat_append concat.simps(2) split_list sublist_appendI)

lemma deliver_parts:
  assumes "bson_laws B" "concat qs = ss" "ss \<noteq> []" "list_all section_wf ss"
    "list_all (good_part B n) (map (map (\<lambda>s. BDocument (section_into B s))) qs)"
    "\<forall>q. sublist q ss \<longrightarrow> reads_back B (sections_message B (map (\<lambda>s. BDocument (section_into B s)) q))"
    "n \<le> max_message_size r"
    "ready_to_receive u (concat (map (message_bytes B) (map (map (\<lambda>s. BDocument (section_into B s))) qs))) r"
  shows "\<exists>r'. read_sections B r = (Ret (Ok ()), r') \<and> incoming r' = [] \<and> pending_sections r' = ss"
proof -
  let ?parts = "map (map (\<lambda>s. BDocument (section_into B s))) qs"
  let ?ms = "map (\<lambda>q. \<lparr> msg_honk_rpc = HONK_RPC_VERSION, msg_sections = q \<rparr>) qs"
  let ?ds = "map (message_bytes B) ?parts"
  have ne: "q \<noteq> []" if "q \<in> set qs" for q using assms(5) that by (auto simp: list_all_iff good_part_def)
  have fr: "frames B ?ds ?ms"
    using parts_frames [OF assms(1,2,4,5)] assms(2,6) concat_sublist by blast
  have "qs \<noteq> []" using assms(2,3) by auto
  then have "concat ?ds \<noteq> []" using fr by (cases qs) (auto simp: frames_def self_sized_header)
  with assms(8) have ev: "rd_events (stream r) = rest_events u (concat ?ds) []"
    by (simp add: ready_to_receive_def rest_events_def)
  have le: "\<forall>d\<in>set ?ds. length d \<le> max_message_size r"
    using assms(5,7) by (fastforce simp: list_all_iff good_part_def)
  have "\<exists>m\<in>set ?ms. msg_sections m \<noteq> []" "\<forall>m\<in>set ?ms. msg_sections m \<noteq> []"
    using ne \<open>qs \<noteq> []\<close> by (auto simp: neq_Nil_conv)
  with read_sections_chunk [OF _ _ ev fr le] assms(2,8) show ?thesis
    by (auto simp: ready_to_receive_def comp_def)
qed

end
