(* ===== verification/Honk_Requests.thy ===== *)
theory Honk_Requests
  imports Honk_Packing
begin

text \<open>
  What happens between reading and writing: routing of sections to the request and response
  queues, lookup of the API set by namespace, execution of requests and delivery of results
  that were not ready at once. The locale \<open>rpc_api\<close> is the contract of an \<open>ApiSet\<close>
  implementation (it does not panic, keeps its invariant, and each result it hands out lowers a
  bounded measure); inside it the request loop is shown to end and to keep the session's
  invariant. It is interpreted on the identity and endpoint servers.
\<close>

section \<open>Routing\<close>

definition is_request :: "'d rpc_section \<Rightarrow> 'd request_section option" where
  "is_request s = (case s of SRequest r \<Rightarrow> Some r | _ \<Rightarrow> None)"

definition as_response :: "'d rpc_section \<Rightarrow> 'd response option" where
  "as_response s = (case s of
      SError e \<Rightarrow> map_option (\<lambda>c. RError c (es_code e)) (es_cookie e)
    | SRequest _ \<Rightarrow> None
    | SResponse r \<Rightarrow> Some (case rs_state r of
        Complete \<Rightarrow> RSuccess (rs_cookie r) (rs_result r) | Pending \<Rightarrow> RPending (rs_cookie r)))"

definition fatal :: "'d rpc_section \<Rightarrow> bool" where
  "fatal s \<longleftrightarrow> (\<exists>e. s = SError e \<and> es_cookie e = None)"

lemma fatal_code [code]:
  "fatal s = (case s of SError e \<Rightarrow> es_cookie e = None | _ \<Rightarrow> False)"
  by (cases s) (auto simp: fatal_def)

lemma process_sections_loop_append:
  "\<forall>x\<in>set good. \<not> fatal x \<Longrightarrow> process_sections_loop (good @ rest) s =
     process_sections_loop rest
       (s\<lparr> inbound_requests := inbound_requests s @ List.map_filter is_request good,
           inbound_responses := inbound_responses s @ List.map_filter as_response good \<rparr>)"
proof (induction good arbitrary: s)
  case Nil
  then show ?case by (simp add: map_filter_simps)
next
  case (Cons x xs)
  then show ?case
    by (cases x) (auto simp: fatal_def is_request_def as_response_def map_filter_simps split: option.splits)
qed

section \<open>Namespace lookup\<close>

lemma binary_search_loop_Some:
  "binary_search_loop ns key l r = Some i \<Longrightarrow> r \<le> length ns \<Longrightarrow> l \<le> i \<and> i < r \<and> ns ! i = key"
proof (induction ns key l r rule: binary_search_loop.induct)
  case (1 ns key l r)
  let ?m = "l + (r - l) div 2"
  from "1.prems"(1) have lr: "l < r" by (auto simp: binary_search_loop.simps [of ns key l r] split: if_splits)
  then have m: "l \<le> ?m" "?m < r" by auto
  consider "ns ! ?m = key" | "ns ! ?m < key" "ns ! ?m \<noteq> key" | "\<not> ns ! ?m < key" "ns ! ?m \<noteq> key" by blast
  then show ?case
  proof cases
    case 1
    with "1.prems" lr m show ?thesis by (simp add: binary_search_loop.simps [of ns key l r] Let_def)
  next
    case 2
    with "1.prems"(1) lr have "binary_search_loop ns key (?m + 1) r = Some i"
      by (simp add: binary_search_loop.simps [of ns key l r] Let_def)
    from "1.IH"(1) [OF lr refl refl 2(2,1) this "1.prems"(2)] m show ?thesis by auto
  next
    case 3
    with "1.prems"(1) lr have "binary_search_loop ns key l ?m = Some i"
      by (simp add: binary_search_loop.simps [of ns key l r] Let_def)
    from "1.IH"(2) [OF lr refl refl 3(2,1) this] "1.prems"(2) m show ?thesis by auto
  qed
qed

lemma binary_search_loop_None:
  "binary_search_loop ns key l r = None \<Longrightarrow> sorted ns \<Longrightarrow> r \<le> length ns \<Longrightarrow> l \<le> i \<Longrightarrow> i < r \<Longrightarrow> ns ! i \<noteq> key"
proof (induction ns key l r rule: binary_search_loop.induct)
  case (1 ns key l r)
  let ?m = "l + (r - l) div 2"
  have lr: "l < r" and m: "l \<le> ?m" "?m < r" using "1.prems" by auto
  from "1.prems"(1) lr have ne: "ns ! ?m \<noteq> key"
    by (auto simp: binary_search_loop.simps [of ns key l r] Let_def split: if_splits)
  show ?case
  proof (cases "ns ! ?m < key")
    case True
    with "1.prems"(1) lr ne have rec: "binary_search_loop ns key (?m + 1) r = None"
      by (simp add: binary_search_loop.simps [of ns key l r] Let_def)
    show ?thesis
    proof (cases "?m + 1 \<le> i")
      case True
      with "1.IH"(1) [OF lr refl refl ne \<open>ns ! ?m < key\<close> rec] "1.prems" show ?thesis by simp
    next
      case False
      then have "ns ! i \<le> ns ! ?m" using "1.prems" m by (intro sorted_nth_mono) auto
      with True show ?thesis by auto
    qed
  next
    case False
    with "1.prems"(1) lr ne have rec: "binary_search_loop ns key l ?m = None"
      by (simp add: binary_search_loop.simps [of ns key l r] Let_def)
    show ?thesis
    proof (cases "i < ?m")
      case True
      with "1.IH"(2) [OF lr refl refl ne False rec] "1.prems" m show ?thesis by simp
    next
      case False
      then have "ns ! ?m \<le> ns ! i" using "1.prems" by (intro sorted_nth_mono) auto
      with ne \<open>\<not> ns ! ?m < key\<close> show ?thesis by auto
    qed
  qed
qed

lemma binary_search_Some: "binary_search ns key = Some i \<Longrightarrow> i < length ns \<and> ns ! i = key"
  using binary_search_loop_Some [of ns key 0 "length ns" i] by (simp add: binary_search_def)

lemma binary_search_None: "binary_search ns key = None \<Longrightarrow> sorted ns \<Longrightarrow> key \<notin> set ns"
  using binary_search_loop_None [of ns key 0 "length ns"]
  by (auto simp: binary_search_def in_set_conv_nth)

section \<open>The session between two updates\<close>

definition session_ok :: "'d bson_ops \<Rightarrow> 'd session \<Rightarrow> bool" where
  "session_ok B s \<longleftrightarrow> read_inv s \<and> out_inv B s \<and>
     vd_inv (message_write_buffer s) \<and> vd_head (message_write_buffer s) = 0"

lemma session_ok_new: "session_ok B (session_new now st)"
  by (simp add: session_ok_def out_inv_new)
    (simp add: session_new_def vd_reserve_def vd_new_def vd_inv_def vd_contiguous_def Let_def)

lemma read_inv_other [simp]:
  "read_inv (s\<lparr> outbound_sections := a \<rparr>) = read_inv s"
  "read_inv (s\<lparr> inbound_requests := b \<rparr>) = read_inv s"
  "read_inv (s\<lparr> inbound_responses := c \<rparr>) = read_inv s"
  "read_inv (s\<lparr> stream := d \<rparr>) = read_inv s"
  "read_inv (s\<lparr> message_write_buffer := e \<rparr>) = read_inv s"
  by (simp_all add: read_inv_def split: option.split)

lemma read_inv_cong:
  "remaining_byte_count t = remaining_byte_count s \<Longrightarrow> message_read_buffer t = message_read_buffer s \<Longrightarrow>
   read_inv t = read_inv s"
  by (simp add: read_inv_def split: option.split)

lemma push_outbound_section_ok: "safe (session_ok B) (push_outbound_section B sec)"
  by (rule safeI)
    (auto simp: push_outbound_section_cases session_ok_def out_inv_def split: result.splits)

lemma read_sections_ok:
  assumes "session_ok B s"
  shows "\<exists>q t. read_sections B s = (Ret q, t) \<and> (q = Ok () \<longrightarrow> session_ok B t)"
proof -
  from assms read_sections_returns [of s B] obtain q t where run: "read_sections B s = (Ret q, t)"
    by (auto simp: session_ok_def)
  moreover have "session_ok B t" if "q = Ok ()"
    using assms read_sections_frames [of s B t] run that
    by (auto simp: session_ok_def out_inv_def only_reads_def same_queues_def)
  ultimately show ?thesis by blast
qed

lemma process_sections_loop_ok:
  "session_ok B s \<Longrightarrow> \<exists>q t. process_sections_loop xs s = (Ret q, t) \<and> session_ok B t"
  by (induction xs s rule: process_sections_loop.induct)
    (auto simp: session_ok_def out_inv_def split: option.splits)

lemma serialize_messages_ok:
  assumes "bson_laws B" "bson_size_laws B" "session_ok B s"
  shows "\<exists>t. serialize_messages B s = (Ret (Ok ()), t) \<and> session_ok B t"
proof -
  from assms(3) have s: "out_inv B s" "vd_inv (message_write_buffer s)" "vd_head (message_write_buffer s) = 0"
    "read_inv s" by (simp_all add: session_ok_def)
  from serialize_messages_spec [OF assms(1,2) s(1)] obtain parts t where
    run: "serialize_messages B s = (Ret (Ok ()), t)"
    and t: "message_write_buffer t = fold (\<lambda>p. vd_append (message_bytes B p)) parts (message_write_buffer s)"
      "outbound_sections t = []" "max_message_size t = max_message_size s"
      "remaining_byte_count t = remaining_byte_count s" "message_read_buffer t = message_read_buffer s"
    by blast
  have "read_inv t" using read_inv_cong [OF t(4,5)] s(4) by simp
  with t(1-3) s have "session_ok B t"
    by (simp add: session_ok_def out_inv_def fold_append_inv fold_append_head0)
  with run show ?thesis by blast
qed

lemma write_pending_data_ok:
  assumes "session_ok B s"
  shows "\<exists>q t. write_pending_data s = (Ret q, t) \<and>
    (q = Ok () \<longrightarrow> vd_items (message_write_buffer t) = [] \<longrightarrow> session_ok B t)"
proof -
  from assms have s: "vd_inv (message_write_buffer s)" "vd_contiguous (message_write_buffer s)"
    by (simp_all add: session_ok_def head0_contiguous)
  obtain o' t where run: "write_pending_data s = (o', t)" by fastforce
  have "o' \<noteq> Panic" "o' \<noteq> OutOfFuel"
    using write_pending_data_panics_iff [OF s(1)] s(2) run
    by (auto simp: write_pending_data_def write_pending_data_impl_def action_defs
        split: prod.splits result.splits if_splits)
  then obtain q where q: "o' = Ret q" by (cases o') auto
  have "session_ok B t" if "q = Ok ()" "vd_items (message_write_buffer t) = []"
    using run that assms unfolding q
    by (auto elim!: write_pending_data_OkE simp: session_ok_def out_inv_def
        vd_make_contiguous_def vd_contiguous_def vd_drain_front_def vd_inv_def)
  with run q show ?thesis by blast
qed

section \<open>Invariants of an API set\<close>

text \<open>
  However an update ends (errors of the stream included), the API sets keep an invariant
  that their own operations keep.
\<close>

locale api_invariant =
  fixes A :: "('a, 'd) api_set"
    and inv :: "'a \<Rightarrow> bool"
  assumes exec_keeps: "inv a \<Longrightarrow> inv (snd (api_exec_function A f v args c a))"
    and update_keeps: "inv a \<Longrightarrow> inv (api_update A a)"
    and next_keeps: "inv a \<Longrightarrow> inv (snd (api_next_result A a))"
begin

definition apis_inv :: "nat \<Rightarrow> 'a list \<times> 'd session \<Rightarrow> bool" where
  "apis_inv n p \<longleftrightarrow> length (fst p) = n \<and> list_all inv (fst p)"

lemma on_session_keeps [keeps_intros]: "keeps (apis_inv n) (on_session m)"
  by (rule keepsI) (simp add: apis_inv_def on_session_def split: prod.splits)

lemma on_apiset_keeps:
  assumes "i < n" "\<And>a. inv a \<Longrightarrow> inv (snd (m a))"
  shows "keeps (apis_inv n) (on_apiset i m)"
proof (rule keepsI)
  fix p assume p: "apis_inv n p"
  obtain r b where rb: "m (fst p ! i) = (r, b)" by fastforce
  have "inv b" using assms p rb by (fastforce simp: apis_inv_def list_all_length)
  with p rb set_update_subset_insert [of "fst p" i b] show "apis_inv n (snd (on_apiset i m p))"
    by (auto simp: apis_inv_def on_apiset_def list_all_iff)
qed

lemma push_reply_keeps [keeps_intros]: "keeps (apis_inv n) (push_reply B sec)"
  by (simp add: push_reply_def keeps_intros split: option.splits)

lemma handle_request_keeps: "keeps (apis_inv n) (handle_request B A rq)"
proof (rule keepsI)
  fix p assume p: "apis_inv n p"
  have "keeps (apis_inv n) (case binary_search (map (api_namespace A) (fst p)) (rq_namespace rq) of
      Some idx \<Rightarrow> andthen (on_apiset idx
          (api_exec_function A (rq_function rq) (rq_version rq) (rq_arguments rq) (rq_cookie rq)))
        (\<lambda>r. push_reply B (reply_section (rq_cookie rq) r))
    | None \<Rightarrow> push_reply B (Some (error_of (rq_cookie rq) RequestNamespaceInvalid)))"
    using p binary_search_Some [of "map (api_namespace A) (fst p)" "rq_namespace rq"]
    by (auto simp: apis_inv_def exec_keeps split: option.splits intro!: keeps_intros on_apiset_keeps)
  with p show "apis_inv n (snd (handle_request B A rq p))"
    by (cases p) (simp add: keeps_def handle_request_def split: option.splits)
qed

lemma handle_request_list_keeps: "keeps (apis_inv n) (handle_request_list B A rqs)"
  by (induction rqs) (auto intro!: keeps_intros handle_request_keeps)

lemma drain_results_keeps: "i < n \<Longrightarrow> keeps (apis_inv n) (drain_results B A fuel i)"
proof (induction fuel)
  case 0
  then show ?case by (simp add: keeps_def)
next
  case (Suc fuel)
  then show ?case
    by (auto intro!: keeps_intros on_apiset_keeps next_keeps split: option.splits)
qed

lemma handle_async_keeps: "\<forall>i\<in>set is. i < n \<Longrightarrow> keeps (apis_inv n) (handle_async B A fuel is)"
  by (induction "is") (auto intro!: keeps_intros on_apiset_keeps drain_results_keeps simp: update_keeps)

lemma handle_requests_keeps: "keeps (apis_inv n) (handle_requests B A fuel)"
proof (rule keepsI)
  fix p assume p: "apis_inv n p"
  then have "apis_inv n (fst p, (snd p)\<lparr> inbound_requests := [] \<rparr>)" by (simp add: apis_inv_def)
  moreover have "keeps (apis_inv n) (try_then (handle_request_list B A (inbound_requests (snd p)))
      (\<lambda>_. handle_async B A fuel [0..<n]))"
    by (intro keeps_try_then handle_request_list_keeps handle_async_keeps) simp
  ultimately show "apis_inv n (snd (handle_requests B A fuel p))"
    using p by (simp add: keeps_def handle_requests_def Let_def apis_inv_def)
qed

lemma session_update_keeps: "keeps (apis_inv n) (session_update B A fuel)"
  unfolding session_update_def by (intro keeps_intros handle_requests_keeps)

end

section \<open>The contract of an API set\<close>

locale rpc_api =
  fixes A :: "('a, 'd) api_set"
    and pending :: "'a \<Rightarrow> nat"
    and bound :: nat
    and inv :: "'a \<Rightarrow> bool"
  assumes exec_safe: "inv a \<Longrightarrow> \<exists>r b. api_exec_function A f v args c a = (Ret r, b) \<and> inv b"
    and update_inv: "inv a \<Longrightarrow> inv (api_update A a)"
    and next_safe: "inv a \<Longrightarrow> \<exists>r b. api_next_result A a = (Ret r, b) \<and> inv b \<and>
          (r \<noteq> None \<longrightarrow> pending b < pending a)"
    and pending_bound: "inv a \<Longrightarrow> pending a < bound"
begin

definition handled :: "'d bson_ops \<Rightarrow> nat \<Rightarrow> 'a list \<times> 'd session \<Rightarrow> bool" where
  "handled B n p \<longleftrightarrow> length (fst p) = n \<and> list_all inv (fst p) \<and> session_ok B (snd p)"

lemma handled_at: "handled B n p \<Longrightarrow> i < n \<Longrightarrow> inv (fst p ! i)"
  by (simp add: handled_def list_all_length)

lemma handled_upd: "handled B n p \<Longrightarrow> inv a \<Longrightarrow> handled B n ((fst p)[i := a], snd p)"
  using set_update_subset_insert [of "fst p" i a] by (auto simp: handled_def list_all_iff)

lemma on_apiset_safe:
  assumes "i < n" "\<And>a. inv a \<Longrightarrow> \<exists>r b. m a = (Ret r, b) \<and> inv b"
  shows "safe (handled B n) (on_apiset i m)"
proof (rule safeI)
  fix p assume p: "handled B n p"
  with assms obtain r b where "m (fst p ! i) = (Ret r, b)" "inv b" by (meson handled_at)
  with handled_upd [OF p] show "\<exists>a t. on_apiset i m p = (Ret a, t) \<and> handled B n t"
    by (simp add: on_apiset_def)
qed

lemma push_reply_safe [safe_intros]: "safe (handled B n) (push_reply B sec)"
proof -
  have "safe (handled B n) (on_session (push_outbound_section B sec))" for sec :: "'d rpc_section"
    using push_outbound_section_ok [of B sec]
    by (fastforce simp: safe_def on_session_def handled_def)
  then show ?thesis by (simp add: push_reply_def safe_ret split: option.splits)
qed

lemma handle_request_safe: "safe (handled B n) (handle_request B A rq)"
proof (rule safeI)
  fix p assume p: "handled B n p"
  have "safe (handled B n) (case binary_search (map (api_namespace A) (fst p)) (rq_namespace rq) of
      Some idx \<Rightarrow> andthen (on_apiset idx
          (api_exec_function A (rq_function rq) (rq_version rq) (rq_arguments rq) (rq_cookie rq)))
        (\<lambda>r. push_reply B (reply_section (rq_cookie rq) r))
    | None \<Rightarrow> push_reply B (Some (error_of (rq_cookie rq) RequestNamespaceInvalid)))"
    using p binary_search_Some [of "map (api_namespace A) (fst p)" "rq_namespace rq"]
    by (auto simp: handled_def exec_safe split: option.splits intro!: safe_intros on_apiset_safe)
  from safeD [OF this p] show "\<exists>a t. handle_request B A rq p = (Ret a, t) \<and> handled B n t"
    by (simp add: handle_request_def split: option.splits)
qed

lemma handle_request_list_safe: "safe (handled B n) (handle_request_list B A rqs)"
  by (induction rqs) (auto intro!: safe_intros handle_request_safe)

text \<open>Each result lowers the measure, so \<open>bound\<close> rounds drain an API set.\<close>

lemma drain_results_returns:
  "handled B n p \<Longrightarrow> i < n \<Longrightarrow> pending (fst p ! i) < fuel \<Longrightarrow>
   \<exists>r t. drain_results B A fuel i p = (Ret r, t) \<and> handled B n t"
proof (induction fuel arbitrary: p)
  case 0
  then show ?case by simp
next
  case (Suc fuel)
  from next_safe [OF handled_at [OF Suc.prems(1,2)]] obtain r b where
    nx: "api_next_result A (fst p ! i) = (Ret r, b)" "inv b"
    "r \<noteq> None \<longrightarrow> pending b < pending (fst p ! i)" by blast
  define q where "q = ((fst p)[i := b], snd p)"
  have q: "handled B n q" unfolding q_def by (rule handled_upd [OF Suc.prems(1) nx(2)])
  have qi: "fst q ! i = b" using Suc.prems(1,2) by (simp add: q_def handled_def)
  show ?case
  proof (cases r)
    case None
    with nx q show ?thesis by (auto simp: andthen_def on_apiset_def ret_def q_def)
  next
    case (Some cr)
    obtain cookie res where cr: "cr = (cookie, res)" by fastforce
    let ?push = "push_reply B (Some (async_section cookie res)) :: ('a list \<times> 'd session, (unit, honk_error) result) action"
    from safeD [OF push_reply_safe q] obtain x t where push: "?push q = (Ret x, t)" "handled B n t" by blast
    have "fst t = fst q" using push(1)
      by (auto simp: push_reply_def on_session_def split: prod.splits)
    with Suc.IH [OF push(2) Suc.prems(2)] qi nx(3) Some Suc.prems(3) have
      "\<exists>r u. drain_results B A fuel i t = (Ret r, u) \<and> handled B n u" by auto
    with nx(1) Some cr push show ?thesis
      by (cases x) (auto simp: andthen_def try_then_def on_apiset_def ret_def q_def)
  qed
qed

lemma drain_results_safe:
  assumes "i < n" "bound \<le> fuel" shows "safe (handled B n) (drain_results B A fuel i)"
proof (rule safeI)
  fix p assume p: "handled B n p"
  from pending_bound [OF handled_at [OF p assms(1)]] assms(2) have "pending (fst p ! i) < fuel" by simp
  from drain_results_returns [OF p assms(1) this]
  show "\<exists>a t. drain_results B A fuel i p = (Ret a, t) \<and> handled B n t" .
qed

lemma handle_async_safe:
  assumes "bound \<le> fuel" shows "\<forall>i\<in>set is. i < n \<Longrightarrow> safe (handled B n) (handle_async B A fuel is)"
  by (induction "is") (auto intro!: safe_intros on_apiset_safe drain_results_safe assms simp: update_inv)

lemma handle_requests_safe:
  assumes "bound \<le> fuel" shows "safe (handled B n) (handle_requests B A fuel)"
proof (rule safeI)
  fix p assume p: "handled B n p"
  let ?q = "(fst p, (snd p)\<lparr> inbound_requests := [] \<rparr>)"
  have q: "handled B n ?q" using p by (simp add: handled_def session_ok_def out_inv_def)
  have "safe (handled B n) (try_then (handle_request_list B A (inbound_requests (snd p)))
      (\<lambda>_. handle_async B A fuel [0..<n]))"
    by (intro safe_try_then handle_request_list_safe handle_async_safe [OF assms]) simp
  from safeD [OF this q] p show "\<exists>a t. handle_requests B A fuel p = (Ret a, t) \<and> handled B n t"
    by (simp add: handle_requests_def handled_def Let_def)
qed

text \<open>
  One \<open>update\<close> of a session neither panics nor loops; if it succeeds and the stream has taken
  all bytes, the session is ready for the next one.
\<close>

lemma session_update_returns:
  assumes "bson_laws B" "bson_size_laws B" "bound \<le> fuel" "handled B n p"
  shows "\<exists>q t. session_update B A fuel p = (Ret q, t) \<and> length (fst t) = n \<and>
    (q = Ok () \<longrightarrow> list_all inv (fst t) \<and>
       (vd_items (message_write_buffer (snd t)) = [] \<longrightarrow> session_ok B (snd t)))"
proof -
  obtain as s where p: "p = (as, s)" "length as = n" "list_all inv as" "session_ok B s"
    using assms(4) by (cases p) (auto simp: handled_def)
  from read_sections_ok [OF p(4)] obtain q1 s1 where r1: "read_sections B s = (Ret q1, s1)"
    "q1 = Ok () \<longrightarrow> session_ok B s1" by blast
  show ?thesis
  proof (cases q1)
    case (Err e)
    with r1 p show ?thesis by (auto simp: session_update_def on_session_def action_defs)
  next
    case (Ok u)
    with r1 process_sections_loop_ok [of B s1 "pending_sections s1"] obtain q2 s2 where
      r2: "process_sections s1 = (Ret q2, s2)" "session_ok B s2" by (auto simp: process_sections_def)
    show ?thesis
    proof (cases q2)
      case (Err e)
      with r1 r2 Ok p show ?thesis by (auto simp: session_update_def on_session_def action_defs)
    next
      case (Ok u')
      have "handled B n (as, s2)" using p r2(2) by (simp add: handled_def)
      from safeD [OF handle_requests_safe [OF assms(3)] this] obtain q3 as' s3 where
        r3: "handle_requests B A fuel (as, s2) = (Ret q3, (as', s3))" "handled B n (as', s3)" by fastforce
      from serialize_messages_ok [OF assms(1,2)] r3(2) obtain s4 where
        r4: "serialize_messages B s3 = (Ret (Ok ()), s4)" "session_ok B s4" by (auto simp: handled_def)
      from write_pending_data_ok [OF r4(2)] obtain q5 s5 where r5: "write_pending_data s4 = (Ret q5, s5)"
        "q5 = Ok () \<longrightarrow> vd_items (message_write_buffer s5) = [] \<longrightarrow> session_ok B s5" by blast
      from r1 r2 r3 r4 r5 \<open>q1 = Ok u\<close> Ok p(1) show ?thesis
        by (cases q3) (auto simp: session_update_def on_session_def action_defs handled_def)
    qed
  qed
qed

end

sublocale rpc_api \<subseteq> api_invariant A inv
proof unfold_locales
  fix a f v args c assume "inv a"
  then show "inv (snd (api_exec_function A f v args c a))" "inv (api_update A a)" "inv (snd (api_next_result A a))"
    using exec_safe [of a f v args c] update_inv [of a] next_safe [of a] by auto
qed

end
