(* ===== verification/Honk_Sizes.thy ===== *)
theory Honk_Sizes
  imports Honk_Requests
begin

text \<open>
  The size estimates \<open>get_request_section_size\<close> and \<open>get_response_section_size\<close> bound the sections
  that are later sent, so a caller that checks the estimate against the session's limit does not
  run into \<open>SectionTooLarge\<close>.
\<close>

lemma doc_of_append: "doc_of B (kvs @ [kv]) = doc_insert B (doc_of B kvs) (fst kv) (snd kv)"
  by (simp add: doc_of_def)

lemma doc_get_doc_of:
  assumes "bson_laws B" shows "doc_get B (doc_of B kvs) k = map_of (rev kvs) k"
proof (induction kvs rule: rev_induct)
  case Nil
  then show ?case using assms by (simp add: bson_rules)
next
  case (snoc kv kvs)
  with assms show ?case by (cases kv) (simp add: doc_of_append bson_rules)
qed

definition entries_size :: "'d bson_ops \<Rightarrow> (string \<times> 'd bson) list \<Rightarrow> nat" where
  "entries_size B kvs = sum_list (map (\<lambda>kv. 2 + length (fst kv) + value_size B (snd kv)) kvs)"

lemma doc_of_size:
  assumes "bson_laws B" "bson_size_laws B" "distinct (map fst kvs)" "list_all no_nul (map fst kvs)"
  shows "serialises B (doc_of B kvs) \<longleftrightarrow> list_all (value_serialises B) (map snd kvs)"
    and "serialises B (doc_of B kvs) \<Longrightarrow> doc_size B (doc_of B kvs) = 5 + entries_size B kvs"
proof -
  have "(serialises B (doc_of B kvs) \<longleftrightarrow> list_all (value_serialises B) (map snd kvs)) \<and>
    (serialises B (doc_of B kvs) \<longrightarrow> doc_size B (doc_of B kvs) = 5 + entries_size B kvs)"
    using assms(3,4)
  proof (induction kvs rule: rev_induct)
    case Nil
    then show ?case using assms(2) by (simp add: bson_size_rules entries_size_def)
  next
    case (snoc kv kvs)
    then have "doc_get B (doc_of B kvs) (fst kv) = None"
      using assms(1) by (simp add: doc_get_doc_of map_of_eq_None_iff)
    with snoc assms(2) show ?case
      by (auto simp: doc_of_append entries_size_def bson_insert_serialises bson_insert_size)
  qed
  then show "serialises B (doc_of B kvs) \<longleftrightarrow> list_all (value_serialises B) (map snd kvs)"
    "serialises B (doc_of B kvs) \<Longrightarrow> doc_size B (doc_of B kvs) = 5 + entries_size B kvs" by auto
qed

lemma request_section_doc_of:
  "ns \<noteq> '''' \<Longrightarrow> section_into B (SRequest \<lparr> rq_cookie = Some c, rq_namespace = ns, rq_function = f,
     rq_version = 0, rq_arguments = args \<rparr>) =
   doc_of B [(''id'', BInt32 REQUEST_SECTION_ID), (''cookie'', BInt64 c), (''namespace'', BString ns),
     (''function'', BString f), (''arguments'', BDocument args)]"
  by (simp add: request_section_into_def insert_opt_def doc_of_def Let_def)

lemma request_size_doc_of:
  "get_request_section_size B (Some c) (Some ns) f (Some v) (Some args) = count_document B
   (doc_of B [(''id'', BInt32 REQUEST_SECTION_ID), (''function'', BString f), (''cookie'', BInt64 c),
     (''namespace'', BString ns), (''version'', BInt32 v), (''arguments'', BDocument args)])"
  by (simp add: get_request_section_size_def insert_opt_def doc_of_def Let_def)

lemma request_estimate:
  assumes "bson_laws B" "bson_size_laws B" "ns \<noteq> ''''"
    and "get_request_section_size B (Some c) (Some ns) f (Some v) (Some args) = Ok n"
    and "serialises B args \<Longrightarrow> serialises B args' \<and> doc_size B args' = doc_size B args"
  shows "count_document B (section_into B (SRequest \<lparr> rq_cookie = Some c', rq_namespace = ns, rq_function = f,
     rq_version = 0, rq_arguments = args' \<rparr>)) = Ok (n - 13)" "13 \<le> n"
proof -
  let ?e = "[(''id'', BInt32 REQUEST_SECTION_ID), (''function'', BString f), (''cookie'', BInt64 c),
     (''namespace'', BString ns), (''version'', BInt32 v), (''arguments'', BDocument args)]"
  let ?r = "[(''id'', BInt32 REQUEST_SECTION_ID), (''cookie'', BInt64 c'), (''namespace'', BString ns),
     (''function'', BString f), (''arguments'', BDocument args')]"
  from assms(4) have e: "serialises B (doc_of B ?e)" "doc_size B (doc_of B ?e) = n"
    by (simp_all only: request_size_doc_of count_document_Ok_iff)
  note es = doc_of_size [OF assms(1,2), of ?e] and rs = doc_of_size [OF assms(1,2), of ?r]
  from e(1) es(1) have "serialises B args" by (simp add: no_nul_def)
  with assms(5) have a: "serialises B args'" "doc_size B args' = doc_size B args" by auto
  then have r: "serialises B (doc_of B ?r)" using rs(1) by (simp add: no_nul_def)
  have "doc_size B (doc_of B ?e) = doc_size B (doc_of B ?r) + 13"
    using es(2) [OF _ _ e(1)] rs(2) [OF _ _ r] a(2) by (simp add: no_nul_def entries_size_def)
  then have n: "n = doc_size B (doc_of B ?r) + 13" using e(2) by metis
  from n show "13 \<le> n" by (rule ssubst) (rule le_add2)
  from n have m: "n - 13 = doc_size B (doc_of B ?r)" by (metis diff_add_inverse2)
  show "count_document B (section_into B (SRequest \<lparr> rq_cookie = Some c', rq_namespace = ns, rq_function = f,
     rq_version = 0, rq_arguments = args' \<rparr>)) = Ok (n - 13)"
    unfolding request_section_doc_of [OF assms(3)] m count_document_Ok_iff using r by blast
qed

lemma response_estimate:
  assumes "bson_laws B" "bson_size_laws B" "get_response_section_size B (Some res) = Ok n"
  shows "count_document B (section_into B (response_of cookie Complete (Some res))) = Ok n"
proof -
  let ?l = "\<lambda>c s. [(''id'', BInt32 RESPONSE_SECTION_ID), (''cookie'', BInt64 c), (''state'', BInt32 s), (''result'', res)]"
  have d: "distinct (map fst (?l c s))" "list_all no_nul (map fst (?l c s))" for c s by (simp_all add: no_nul_def)
  have est: "get_response_section_size B (Some res) = count_document B (doc_of B (?l 0 0))"
    by (simp add: get_response_section_size_def insert_opt_def doc_of_def Let_def)
  have sec: "section_into B (response_of cookie Complete (Some res)) = doc_of B (?l cookie (request_state_i32 Complete))"
    by (simp add: response_of_def response_section_into_def insert_opt_def doc_of_def Let_def)
  have ser: "serialises B (doc_of B (?l c s)) \<longleftrightarrow> value_serialises B res" for c s
    using doc_of_size(1) [OF assms(1,2) d, of c s] by simp
  have len: "serialises B (doc_of B (?l c s)) \<Longrightarrow> doc_size B (doc_of B (?l c s)) = 48 + value_size B res" for c s
    using doc_of_size(2) [OF assms(1,2) d, of c s] by (simp add: entries_size_def)
  from assms(3) have "value_serialises B res" "n = 48 + value_size B res"
    unfolding est count_document_Ok_iff ser using len [of 0 0] ser by auto
  then show ?thesis unfolding sec count_document_Ok_iff using len ser by blast
qed

lemma push_outbound_section_fits:
  assumes "count_document B (section_into B sec) = Ok n" "MIN_MESSAGE_SIZE + n \<le> max_message_size s"
  shows "push_outbound_section B sec s = (Ret (Ok ()), s\<lparr> outbound_sections := outbound_sections s @ [section_into B sec] \<rparr>)"
  using assms by (simp add: push_outbound_section_def Let_def)

end
