(* ===== verification/Gosling_Protocol.thy ===== *)
theory Gosling_Protocol
  imports Tor_Crypto Honk_Sizes
begin

text \<open>
  What both handshakes share (\<open>ascii_string.rs\<close> and \<open>gosling.rs\<close>): ASCII strings, the RPC
  error codes, and the client proof, the byte string a client signs. A Rust \<open>String\<close> is the
  list of its UTF-8 bytes, as characters.
\<close>

section \<open>Strings, constants, errors\<close>

record ascii_string = ascii_value :: string

datatype ascii_error = InvalidAscii string

definition is_ascii :: "string \<Rightarrow> bool" where
  "is_ascii s = list_all (\<lambda>b. b < 128) (as_bytes s)"

definition ascii_string_new :: "string \<Rightarrow> (ascii_string, ascii_error) result" where
  "ascii_string_new v = (if is_ascii v then Ok \<lparr> ascii_value = v \<rparr> else Err (InvalidAscii v))"

datatype rpc_error = BadVersion | RequestCookieRequired | InvalidArg | Failure

fun rpc_error_as_i32 :: "rpc_error \<Rightarrow> i32" where
  "rpc_error_as_i32 BadVersion = 0"
| "rpc_error_as_i32 RequestCookieRequired = 1"
| "rpc_error_as_i32 InvalidArg = 2"
| "rpc_error_as_i32 Failure = 3"

definition rpc_failure :: "rpc_error \<Rightarrow> error_code" where
  "rpc_failure e = Runtime (rpc_error_as_i32 e)"

definition GOSLING_PROTOCOL_VERSION :: string where "GOSLING_PROTOCOL_VERSION = ''0.1.0''"
definition CLIENT_COOKIE_SIZE :: nat where "CLIENT_COOKIE_SIZE = 32"
definition SERVER_COOKIE_SIZE :: nat where "SERVER_COOKIE_SIZE = 32"

section \<open>The client proof\<close>

datatype domain_separator = GoslingIdentity | GoslingEndpoint

fun domain_separator_bytes :: "domain_separator \<Rightarrow> bytes" where
  "domain_separator_bytes GoslingIdentity = as_bytes ''gosling-identity''"
| "domain_separator_bytes GoslingEndpoint = as_bytes ''gosling-endpoint''"

definition build_client_proof ::
  "crypto_ops \<Rightarrow> domain_separator \<Rightarrow> ascii_string \<Rightarrow> v3_onion_service_id \<Rightarrow> v3_onion_service_id \<Rightarrow>
   bytes \<Rightarrow> bytes \<Rightarrow> bytes" where
  "build_client_proof C sep request client_service_id server_service_id client_cookie server_cookie =
     domain_separator_bytes sep @ [0] @
     as_bytes (ascii_value request) @ [0] @
     as_bytes (service_id_to_string client_service_id) @ [0] @
     as_bytes (service_id_to_string server_service_id) @ [0] @
     as_bytes (hexlower_encode C client_cookie) @ [0] @
     as_bytes (hexlower_encode C server_cookie)"

section \<open>Optional fields and typed arguments\<close>

definition is_some :: "'a option \<Rightarrow> bool" where
  "is_some x = (x \<noteq> None)"

lemma is_some_simps [simp]: "is_some (Some x)" "\<not> is_some None"
  by (simp_all add: is_some_def)

text \<open>The patterns \<open>Some(Bson::String(..))\<close> and so on.\<close>

fun bson_string :: "'d bson option \<Rightarrow> string option" where
  "bson_string (Some (BString s)) = Some s"
| "bson_string _ = None"

fun bson_generic :: "'d bson option \<Rightarrow> bytes option" where
  "bson_generic (Some (BBinary Generic bs)) = Some bs"
| "bson_generic _ = None"

fun bson_boolean :: "'d bson option \<Rightarrow> bool option" where
  "bson_boolean (Some (BBoolean b)) = Some b"
| "bson_boolean _ = None"

fun bson_document :: "'d bson option \<Rightarrow> 'd option" where
  "bson_document (Some (BDocument d)) = Some d"
| "bson_document _ = None"

type_synonym ('s, 'd) exec_action = "('s, ('d bson option, error_code) result option) action"

text \<open>\<open>{:?}\<close> of a byte vector.\<close>

fun show_bytes :: "bytes \<Rightarrow> string" where
  "show_bytes [] = ''''"
| "show_bytes [b] = decimal (unat b)"
| "show_bytes (b # bs) = decimal (unat b) @ '', '' @ show_bytes bs"

definition bad_server_cookie :: "bytes \<Rightarrow> string" where
  "bad_server_cookie server_cookie =
     ''unable to convert '' @ quoted (CHR ''['' # show_bytes server_cookie @ '']'') @ '' to server cookie''"

section \<open>Properties\<close>

lemma replicate_bool [simp]:
  "replicate 2 x = [x, x]" "replicate 3 x = [x, x, x]" "replicate 4 x = [x, x, x, x]"
  "replicate 5 x = [x, x, x, x, x]" "replicate 6 x = [x, x, x, x, x, x]"
  "replicate 8 x = [x, x, x, x, x, x, x, x]" "replicate 9 x = [x, x, x, x, x, x, x, x, x]" for x :: bool
  by (simp_all add: numeral_eq_Suc)

lemma as_bytes_inj: "inj as_bytes"
  by (rule injI) simp

lemma length_domain_separator [simp]: "length (domain_separator_bytes sep) = 16"
  by (cases sep) simp_all

lemma domain_separator_inj: "domain_separator_bytes sep = domain_separator_bytes sep' \<Longrightarrow> sep = sep'"
  by (cases sep; cases sep') simp_all

text \<open>
  All fields but the request have a fixed length, so the proof determines each of its parts: a
  signature over it cannot be reused for another handshake kind, request, peer or cookie.
\<close>

lemma build_client_proof_inj:
  assumes "codec_laws C"
    and "length (sid_data c) = 56" "length (sid_data c') = 56"
    and "length (sid_data s) = 56" "length (sid_data s') = 56"
    and "length cc = 32" "length cc' = 32" "length sc = 32" "length sc' = 32"
    and eq: "build_client_proof C sep r c s cc sc = build_client_proof C sep' r' c' s' cc' sc'"
  shows "sep = sep' \<and> r = r' \<and> c = c' \<and> s = s' \<and> cc = cc' \<and> sc = sc'"
proof -
  have hex: "length (hexlower_encode C x) = 2 * length x" "hexlower_encode C x = hexlower_encode C y \<Longrightarrow> x = y" for x y
    using assms(1) by (auto simp: codec_laws_def dest: injD)
  have "length (ascii_value r) = length (ascii_value r')"
    using arg_cong [OF eq, of length] assms by (simp add: build_client_proof_def service_id_to_string_def hex)
  with eq assms have "domain_separator_bytes sep = domain_separator_bytes sep'"
    "ascii_value r = ascii_value r'" "sid_data c = sid_data c'" "sid_data s = sid_data s'" "cc = cc'" "sc = sc'"
    by (auto simp: build_client_proof_def service_id_to_string_def hex dest: hex(2))
  then show ?thesis using domain_separator_inj by auto
qed

lemma rpc_failure_canonical: "canonical_code (rpc_failure e) \<longleftrightarrow> e \<noteq> BadVersion"
  by (cases e) (simp_all add: rpc_failure_def word_sless_alt)

end
