(* ===== verification/Identity_Client.thy ===== *)
theory Identity_Client
  imports Gosling_Protocol
begin

text \<open>
  The client side of the identity handshake (\<open>identity_client.rs\<close>): a state machine driven by
  \<open>update\<close>, which first updates the RPC session and then acts on the next response. The client
  cookie, drawn at random, is an argument.
\<close>

section \<open>State\<close>

datatype identity_client_error =
    IdC_ClientCreationFailed crypto_error
  | IdC_HonkRPCFailure honk_error
  | IdC_UnexpectedResponseReceived string
  | IdC_InvalidState
  | IdC_IncorrectUsage string
  | IdC_EndpointChallengeResponseTooLarge nat nat

datatype 'd identity_client_event =
    IdC_ChallengeReceived 'd
  | IdC_HandshakeCompleted v3_onion_service_id v3_onion_service_id string x25519_private_key

datatype identity_client_state =
    IdC_BeginHandshake
  | IdC_WaitingForChallenge
  | IdC_WaitingForChallengeResponse
  | IdC_WaitingForChallengeVerification
  | IdC_HandshakeComplete

record 'd identity_client =
  idc_rpc :: "'d session"
  idc_server_service_id :: v3_onion_service_id
  idc_requested_endpoint :: ascii_string
  idc_client_service_id :: v3_onion_service_id
  idc_client_identity_ed25519_private :: ed25519_private_key
  idc_client_authorization_key_private :: x25519_private_key
  idc_client_authorization_signing_key_private :: "ed25519_private_key \<times> sign_bit"
  idc_state :: identity_client_state
  idc_begin_handshake_request_cookie :: "request_cookie option"
  idc_server_cookie :: "bytes option"
  idc_endpoint_challenge_response :: "'d option"
  idc_send_response_request_cookie :: "request_cookie option"

definition identity_client_new ::
  "crypto_ops \<Rightarrow> 'd session \<Rightarrow> v3_onion_service_id \<Rightarrow> ascii_string \<Rightarrow> ed25519_private_key \<Rightarrow>
   x25519_private_key \<Rightarrow> ('d identity_client, identity_client_error) result" where
  "identity_client_new C rpc server_service_id requested_endpoint identity_key authorization_key =
     (case ed25519_private_from_private_x25519 C authorization_key of
        Err e \<Rightarrow> Err (IdC_ClientCreationFailed e)
      | Ok signing \<Rightarrow> Ok \<lparr>
          idc_rpc = rpc,
          idc_server_service_id = server_service_id,
          idc_requested_endpoint = requested_endpoint,
          idc_client_service_id = service_id_from_private_key C identity_key,
          idc_client_identity_ed25519_private = identity_key,
          idc_client_authorization_key_private = authorization_key,
          idc_client_authorization_signing_key_private = signing,
          idc_state = IdC_BeginHandshake,
          idc_begin_handshake_request_cookie = None,
          idc_server_cookie = None,
          idc_endpoint_challenge_response = None,
          idc_send_response_request_cookie = None \<rparr>)"

type_synonym 'd identity_client_action =
  "('d identity_client, ('d identity_client_event option, identity_client_error) result) action"

text \<open>A client call on the session of the client; its error is the client's.\<close>

definition idc_call ::
  "'d bson_ops \<Rightarrow> string \<Rightarrow> 'd \<Rightarrow> ('d identity_client, (request_cookie, identity_client_error) result) action" where
  "idc_call B func args s = (case client_call B ''gosling_identity'' func 0 args (idc_rpc s) of
      (Ret (Ok cookie), rpc) \<Rightarrow> (Ret (Ok cookie), s\<lparr> idc_rpc := rpc \<rparr>)
    | (Ret (Err e), rpc) \<Rightarrow> (Ret (Err (IdC_HonkRPCFailure e)), s\<lparr> idc_rpc := rpc \<rparr>)
    | (Panic, rpc) \<Rightarrow> (Panic, s\<lparr> idc_rpc := rpc \<rparr>)
    | (OutOfFuel, rpc) \<Rightarrow> (OutOfFuel, s\<lparr> idc_rpc := rpc \<rparr>))"

section \<open>The steps of update\<close>

definition begin_handshake_args :: "'d bson_ops \<Rightarrow> 'd identity_client \<Rightarrow> 'd" where
  "begin_handshake_args B s = doc_of B
     [(''version'', BString GOSLING_PROTOCOL_VERSION),
      (''client_identity'', BString (service_id_to_string (idc_client_service_id s))),
      (''endpoint'', BString (ascii_value (idc_requested_endpoint s)))]"

definition idc_begin :: "'d bson_ops \<Rightarrow> 'd identity_client_action" where
  "idc_begin B s = try_then (idc_call B ''begin_handshake'' (begin_handshake_args B s))
     (\<lambda>cookie s. (Ret (Ok None), s\<lparr> idc_begin_handshake_request_cookie := Some cookie,
                                    idc_state := IdC_WaitingForChallenge \<rparr>)) s"

text \<open>The document in the response to \<open>begin_handshake\<close>, or what \<open>update\<close> returns instead.\<close>

definition begin_handshake_result ::
  "request_cookie \<Rightarrow> 'd response \<Rightarrow> ('d, ('d identity_client_event option, identity_client_error) result) result" where
  "begin_handshake_result expected response = (case response of
      RPending cookie \<Rightarrow>
        if cookie \<noteq> expected then Err (Err (IdC_UnexpectedResponseReceived ''received unexpected pending response''))
        else Err (Ok None)
    | RError cookie error_code \<Rightarrow>
        if cookie \<noteq> expected
        then Err (Err (IdC_UnexpectedResponseReceived (''received unexpected error response; rpc error_code: '' @ error_code_fmt error_code)))
        else Err (Err (IdC_UnexpectedResponseReceived (''received unexpected rpc error_code: '' @ error_code_fmt error_code)))
    | RSuccess cookie res \<Rightarrow>
        if cookie \<noteq> expected then Err (Err (IdC_UnexpectedResponseReceived ''received unexpected success response''))
        else (case bson_document res of
          Some d \<Rightarrow> Ok d
        | None \<Rightarrow> Err (Err (IdC_UnexpectedResponseReceived ''begin_handshake() response is unexpected bson type''))))"

definition idc_receive_challenge :: "'d bson_ops \<Rightarrow> 'd \<Rightarrow> 'd identity_client_action" where
  "idc_receive_challenge B response s = (case doc_get B response ''server_cookie'' of
      None \<Rightarrow> (Ret (Err (IdC_UnexpectedResponseReceived ''missing server_cookie'')), s)
    | Some (BBinary Generic server_cookie) \<Rightarrow>
        if length server_cookie \<noteq> SERVER_COOKIE_SIZE
        then (Ret (Err (IdC_UnexpectedResponseReceived
                (bad_server_cookie server_cookie))), s)
        else let s = s\<lparr> idc_server_cookie := Some server_cookie \<rparr> in
          (case doc_get B response ''endpoint_challenge'' of
             None \<Rightarrow> (Ret (Err (IdC_UnexpectedResponseReceived ''missing endpoint_challenge'')), s)
           | Some (BDocument endpoint_challenge) \<Rightarrow>
               (Ret (Ok (Some (IdC_ChallengeReceived endpoint_challenge))),
                s\<lparr> idc_state := IdC_WaitingForChallengeResponse \<rparr>)
           | Some _ \<Rightarrow> (Ret (Err (IdC_UnexpectedResponseReceived ''endpoint challenge is unexpected bson type'')), s))
    | Some _ \<Rightarrow> (Ret (Err (IdC_UnexpectedResponseReceived ''server_cookie is unxpected bson type'')), s))"

definition send_response_args ::
  "'d bson_ops \<Rightarrow> crypto_ops \<Rightarrow> bytes \<Rightarrow> bytes \<Rightarrow> 'd \<Rightarrow> 'd identity_client \<Rightarrow> 'd" where
  "send_response_args B C client_cookie server_cookie endpoint_challenge_response s =
     (let client_identity_proof = build_client_proof C GoslingIdentity (idc_requested_endpoint s)
            (idc_client_service_id s) (idc_server_service_id s) client_cookie server_cookie;
          client_identity_proof_signature =
            ed25519_private_sign_message C (idc_client_identity_ed25519_private s) client_identity_proof;
          client_authorization_key = x25519_public_from_private_key C (idc_client_authorization_key_private s);
          client_identity = service_id_to_string (idc_client_service_id s);
          client_authorization_signature =
            ed25519_private_sign_message C (fst (idc_client_authorization_signing_key_private s)) (as_bytes client_identity);
          signbit = snd (idc_client_authorization_signing_key_private s)
      in doc_of B
        [(''client_cookie'', BBinary Generic client_cookie),
         (''client_identity_proof_signature'', BBinary Generic (ed25519_signature_to_bytes client_identity_proof_signature)),
         (''client_authorization_key'', BBinary Generic (x25519_public_as_bytes client_authorization_key)),
         (''client_authorization_key_signbit'', BBoolean (sign_bit_into_bool signbit)),
         (''client_authorization_signature'', BBinary Generic (ed25519_signature_to_bytes client_authorization_signature)),
         (''challenge_response'', BDocument endpoint_challenge_response)])"

definition idc_respond ::
  "'d bson_ops \<Rightarrow> crypto_ops \<Rightarrow> bytes \<Rightarrow> bytes \<Rightarrow> 'd \<Rightarrow> 'd identity_client_action" where
  "idc_respond B C random server_cookie endpoint_challenge_response s =
     try_then (idc_call B ''send_response'' (send_response_args B C random server_cookie endpoint_challenge_response s))
       (\<lambda>cookie s. (Ret (Ok None), s\<lparr> idc_send_response_request_cookie := Some cookie,
                                      idc_state := IdC_WaitingForChallengeVerification \<rparr>)) s"

definition idc_finish :: "crypto_ops \<Rightarrow> request_cookie \<Rightarrow> 'd response \<Rightarrow> 'd identity_client_action" where
  "idc_finish C expected response s = (case response of
      RPending cookie \<Rightarrow>
        if cookie = expected then (Ret (Ok None), s)
        else (Ret (Err (IdC_UnexpectedResponseReceived ''received unexpectd pending response'')), s)
    | RError cookie error_code \<Rightarrow>
        if cookie = expected
        then (Ret (Err (IdC_UnexpectedResponseReceived (''received unexpected error response; rpc error_code: '' @ error_code_fmt error_code))), s)
        else (Ret (Err (IdC_UnexpectedResponseReceived (''received unexpected rpc error_code: '' @ error_code_fmt error_code))), s)
    | RSuccess cookie res \<Rightarrow>
        if cookie = expected then (case bson_string res of
            None \<Rightarrow> (Ret (Err (IdC_UnexpectedResponseReceived ''endpoint service id is unexpected bson type'')), s)
          | Some text \<Rightarrow> (case service_id_from_string C text of
              Err _ \<Rightarrow> (Ret (Err (IdC_UnexpectedResponseReceived
                (''unable to parse received endpoint service id '' @ quoted text @ '' as v3 onion service id''))), s)
            | Ok endpoint_service_id \<Rightarrow>
                (Ret (Ok (Some (IdC_HandshakeCompleted (idc_server_service_id s) endpoint_service_id
                   (ascii_value (idc_requested_endpoint s)) (idc_client_authorization_key_private s)))),
                 s\<lparr> idc_state := IdC_HandshakeComplete \<rparr>)))
        else (Ret (Err (IdC_UnexpectedResponseReceived ''received unexpected success response'')), s))"

text \<open>Take the next response of the session, if there is one.\<close>

definition idc_next_response :: "('d response \<Rightarrow> 'd identity_client_action) \<Rightarrow> 'd identity_client_action" where
  "idc_next_response k s = (case client_next_response (idc_rpc s) of
      (Ret (Some response), rpc) \<Rightarrow> k response (s\<lparr> idc_rpc := rpc \<rparr>)
    | (_, rpc) \<Rightarrow> (Ret (Ok None), s\<lparr> idc_rpc := rpc \<rparr>))"

text \<open>The match of \<open>update\<close>; the challenge response has been taken out of the state.\<close>

definition idc_advance :: "'d bson_ops \<Rightarrow> crypto_ops \<Rightarrow> bytes \<Rightarrow> 'd option \<Rightarrow> 'd identity_client_action" where
  "idc_advance B C random challenge_response s =
     (case (idc_state s, idc_begin_handshake_request_cookie s, idc_server_cookie s, challenge_response,
            idc_send_response_request_cookie s) of
        (IdC_BeginHandshake, None, None, None, None) \<Rightarrow> idc_begin B s
      | (IdC_WaitingForChallenge, Some begin_cookie, None, None, None) \<Rightarrow>
          idc_next_response (\<lambda>response s. case begin_handshake_result begin_cookie response of
              Err r \<Rightarrow> (Ret r, s)
            | Ok d \<Rightarrow> idc_receive_challenge B d s) s
      | (IdC_WaitingForChallengeResponse, Some begin_cookie, Some server_cookie, None, None) \<Rightarrow> (Ret (Ok None), s)
      | (IdC_WaitingForChallengeResponse, Some begin_cookie, Some server_cookie, Some response, None) \<Rightarrow>
          idc_respond B C random server_cookie response s
      | (IdC_WaitingForChallengeVerification, Some begin_cookie, Some server_cookie, None, Some send_cookie) \<Rightarrow>
          idc_next_response (idc_finish C send_cookie) s
      | _ \<Rightarrow> (Ret (Err IdC_InvalidState), s))"

definition identity_client_update :: "'d bson_ops \<Rightarrow> crypto_ops \<Rightarrow> bytes \<Rightarrow> 'd identity_client_action" where
  "identity_client_update B C random s =
     (if idc_state s = IdC_HandshakeComplete
      then (Ret (Err (IdC_IncorrectUsage ''update() may not be called after HandshakeComplete has been returned from previous update() call'')), s)
      else case session_update_none B (idc_rpc s) of
        (Ret (Err e), rpc) \<Rightarrow> (Ret (Err (IdC_HonkRPCFailure e)), s\<lparr> idc_rpc := rpc \<rparr>)
      | (Ret (Ok _), rpc) \<Rightarrow>
          idc_advance B C random (idc_endpoint_challenge_response s)
            (s\<lparr> idc_rpc := rpc, idc_endpoint_challenge_response := None \<rparr>)
      | (Panic, rpc) \<Rightarrow> (Panic, s\<lparr> idc_rpc := rpc \<rparr>)
      | (OutOfFuel, rpc) \<Rightarrow> (OutOfFuel, s\<lparr> idc_rpc := rpc \<rparr>))"

section \<open>The answer of the host\<close>

definition send_response ::
  "'d bson_ops \<Rightarrow> 'd \<Rightarrow> ('d identity_client, (unit, identity_client_error) result) action" where
  "send_response B challenge_response s =
     (if idc_state s = IdC_WaitingForChallengeResponse \<and> idc_begin_handshake_request_cookie s \<noteq> None \<and>
         idc_server_cookie s \<noteq> None \<and> idc_endpoint_challenge_response s = None \<and>
         idc_send_response_request_cookie s = None
      then let arguments = doc_of B
             [(''client_cookie'', BBinary Generic (replicate CLIENT_COOKIE_SIZE 0)),
              (''client_identity_proof_signature'', BBinary Generic (replicate ED25519_SIGNATURE_SIZE 0)),
              (''client_authorization_key'', BBinary Generic (replicate X25519_PUBLIC_KEY_SIZE 0)),
              (''client_authorization_key_signbit'', BBoolean False),
              (''client_authorization_signature'', BBinary Generic (replicate ED25519_SIGNATURE_SIZE 0)),
              (''challenge_response'', BDocument challenge_response)]
           in case get_request_section_size B (Some 0) (Some ''gosling_identity'') ''send_response'' (Some 0) (Some arguments) of
             Err e \<Rightarrow> (Ret (Err (IdC_HonkRPCFailure e)), s)
           | Ok request_section_size \<Rightarrow>
          (case get_message_overhead B of
             Err e \<Rightarrow> (Ret (Err (IdC_HonkRPCFailure e)), s)
           | Ok overhead \<Rightarrow>
               let message_size = overhead + request_section_size;
                   max_message_size = get_max_message_size (idc_rpc s)
               in if max_message_size < message_size
                  then (Ret (Err (IdC_EndpointChallengeResponseTooLarge message_size max_message_size)), s)
                  else (Ret (Ok ()), s\<lparr> idc_endpoint_challenge_response := Some challenge_response \<rparr>))
      else (Ret (Err (IdC_IncorrectUsage ''send_response() may only be called after ChallengeReceived event has been returned from update(), and it may only be called once'')), s))"

section \<open>Properties\<close>

fun idc_present :: "identity_client_state \<Rightarrow> bool list" where
  "idc_present IdC_BeginHandshake = [False, False, False]"
| "idc_present IdC_WaitingForChallenge = [True, False, False]"
| "idc_present IdC_WaitingForChallengeResponse = [True, True, False]"
| "idc_present IdC_WaitingForChallengeVerification = [True, True, True]"
| "idc_present IdC_HandshakeComplete = [True, True, True]"

text \<open>The optional fields follow the state; a response of the host waits in one state only.\<close>

definition idc_inv :: "'d identity_client \<Rightarrow> bool" where
  "idc_inv s \<longleftrightarrow> [is_some (idc_begin_handshake_request_cookie s), is_some (idc_server_cookie s),
       is_some (idc_send_response_request_cookie s)] = idc_present (idc_state s) \<and>
     (idc_endpoint_challenge_response s \<noteq> None \<longrightarrow> idc_state s = IdC_WaitingForChallengeResponse) \<and>
     (\<forall>c. idc_server_cookie s = Some c \<longrightarrow> length c = SERVER_COOKIE_SIZE)"

lemma idc_inv_new: "identity_client_new C rpc srv ep k x = Ok s \<Longrightarrow> idc_inv s"
  by (auto simp: identity_client_new_def idc_inv_def split: result.splits)

lemma idc_call_state:
  assumes "idc_call B f args s = (r, t)" shows "\<exists>rpc. t = s\<lparr> idc_rpc := rpc \<rparr>"
  using assms by (auto simp: idc_call_def split: prod.splits outcome.splits result.splits)

lemma idc_step_inv:
  assumes "idc_inv s" "idc_endpoint_challenge_response s = None"
  shows "idc_state s = IdC_BeginHandshake \<Longrightarrow> idc_begin B s = (Ret (Ok ev), t) \<Longrightarrow> idc_inv t"
    "idc_state s = IdC_WaitingForChallenge \<Longrightarrow> idc_receive_challenge B d s = (Ret (Ok ev), t) \<Longrightarrow> idc_inv t"
    "idc_state s = IdC_WaitingForChallengeResponse \<Longrightarrow> idc_respond B C random sc resp s = (Ret (Ok ev), t) \<Longrightarrow> idc_inv t"
    "idc_state s = IdC_WaitingForChallengeVerification \<Longrightarrow> idc_finish C c rsp s = (Ret (Ok ev), t) \<Longrightarrow> idc_inv t"
proof -
  show "idc_inv t" if "idc_state s = IdC_BeginHandshake" "idc_begin B s = (Ret (Ok ev), t)"
    using assms that by (auto simp: idc_begin_def try_then_Ok_iff idc_inv_def dest!: idc_call_state)
  show "idc_inv t" if "idc_state s = IdC_WaitingForChallenge" "idc_receive_challenge B d s = (Ret (Ok ev), t)"
    using assms that
    by (auto simp: idc_receive_challenge_def idc_inv_def Let_def
        split: option.splits bson.splits binary_subtype.splits if_splits)
  show "idc_inv t" if "idc_state s = IdC_WaitingForChallengeResponse" "idc_respond B C random sc resp s = (Ret (Ok ev), t)"
    using assms that by (auto simp: idc_respond_def try_then_Ok_iff idc_inv_def dest!: idc_call_state)
  show "idc_inv t" if "idc_state s = IdC_WaitingForChallengeVerification" "idc_finish C c rsp s = (Ret (Ok ev), t)"
    using assms that
    by (auto simp: idc_finish_def idc_inv_def split: response.splits option.splits if_splits result.splits)
qed

lemma idc_next_responseE:
  assumes "idc_next_response k s = (r, t)"
  obtains (none) rpc where "r = Ret (Ok None)" "t = s\<lparr> idc_rpc := rpc \<rparr>"
  | (some) response rest where "inbound_responses (idc_rpc s) = response # rest"
      "k response (s\<lparr> idc_rpc := (idc_rpc s)\<lparr> inbound_responses := rest \<rparr> \<rparr>) = (r, t)"
proof (cases "inbound_responses (idc_rpc s)")
  case Nil
  with assms none [of "idc_rpc s"] show thesis by (auto simp: idc_next_response_def client_next_response_def)
next
  case (Cons a list)
  with assms some show thesis by (auto simp: idc_next_response_def client_next_response_def)
qed

lemma idc_inv_rpc [simp]: "idc_inv (s\<lparr> idc_rpc := x \<rparr>) = idc_inv s"
  by (simp add: idc_inv_def)

lemma idc_advance_cases:
  assumes "idc_inv (s\<lparr> idc_endpoint_challenge_response := resp \<rparr>)" "idc_state s \<noteq> IdC_HandshakeComplete"
    and "idc_advance B C random resp s = (r, t)"
  obtains (start) "idc_state s = IdC_BeginHandshake" "idc_begin B s = (r, t)"
  | (challenge) c where "idc_state s = IdC_WaitingForChallenge" "idc_begin_handshake_request_cookie s = Some c"
      "idc_next_response (\<lambda>response s. case begin_handshake_result c response of
              Err r \<Rightarrow> (Ret r, s) | Ok d \<Rightarrow> idc_receive_challenge B d s) s = (r, t)"
  | (wait) "idc_state s = IdC_WaitingForChallengeResponse" "r = Ret (Ok None)" "t = s"
  | (respond) sc d where "idc_state s = IdC_WaitingForChallengeResponse" "idc_server_cookie s = Some sc"
      "resp = Some d" "idc_respond B C random sc d s = (r, t)"
  | (finish) c where "idc_state s = IdC_WaitingForChallengeVerification" "idc_send_response_request_cookie s = Some c"
      "idc_next_response (idc_finish C c) s = (r, t)"
  using assms
  by (cases "idc_state s") (auto simp: idc_advance_def idc_inv_def is_some_def split: option.splits)

lemma identity_client_update_cases:
  assumes "identity_client_update B C random s = (Ret r, t)"
  obtains (complete) e where "idc_state s = IdC_HandshakeComplete" "r = Err (IdC_IncorrectUsage e)" "t = s"
  | (rpc_failed) e rpc where "r = Err (IdC_HonkRPCFailure e)" "t = s\<lparr> idc_rpc := rpc \<rparr>"
  | (advance) rpc where "idc_state s \<noteq> IdC_HandshakeComplete" "session_update_none B (idc_rpc s) = (Ret (Ok ()), rpc)"
      "idc_advance B C random (idc_endpoint_challenge_response s)
         (s\<lparr> idc_rpc := rpc, idc_endpoint_challenge_response := None \<rparr>) = (Ret r, t)"
  using assms
  by (auto simp: identity_client_update_def split: if_splits prod.splits outcome.splits result.splits)

lemma idc_taken:
  assumes "idc_inv s"
  shows "idc_inv (s\<lparr> idc_rpc := rpc, idc_endpoint_challenge_response := None \<rparr>)"
    "idc_inv (s\<lparr> idc_rpc := rpc, idc_endpoint_challenge_response := None \<rparr>
       \<lparr> idc_endpoint_challenge_response := idc_endpoint_challenge_response s \<rparr>)"
  using assms by (auto simp: idc_inv_def)

lemma identity_client_update_inv:
  assumes "idc_inv s" "identity_client_update B C random s = (Ret (Ok ev), t)"
  shows "idc_inv t"
  using assms(2)
proof (cases rule: identity_client_update_cases)
  case (advance rpc)
  let ?u = "s\<lparr> idc_rpc := rpc, idc_endpoint_challenge_response := None \<rparr>"
  have u: "idc_inv ?u" "idc_endpoint_challenge_response ?u = None" using idc_taken [OF assms(1)] by auto
  have st: "idc_state ?u \<noteq> IdC_HandshakeComplete" using advance(1) by simp
  from idc_taken(2) [OF assms(1)] st advance(3) show ?thesis
  proof (cases rule: idc_advance_cases)
    case start
    with idc_step_inv(1) [OF u] show ?thesis by blast
  next
    case (challenge c)
    from challenge(3) show ?thesis
    proof (cases rule: idc_next_responseE)
      case (none rpc')
      with u show ?thesis by (simp add: idc_inv_def)
    next
      case (some response rest)
      let ?v = "?u\<lparr> idc_rpc := (idc_rpc ?u)\<lparr> inbound_responses := rest \<rparr> \<rparr>"
      have v: "idc_inv ?v" "idc_endpoint_challenge_response ?v = None" "idc_state ?v = IdC_WaitingForChallenge"
        using u challenge(1) by (simp_all add: idc_inv_def)
      show ?thesis
      proof (cases "begin_handshake_result c response")
        case (Ok d)
        with some idc_step_inv(2) [OF v(1,2)] v(3) show ?thesis by auto
      next
        case (Err r')
        with some v(1) show ?thesis by auto
      qed
    qed
  next
    case wait
    with u show ?thesis by simp
  next
    case (respond sc d)
    with idc_step_inv(3) [OF u] show ?thesis by blast
  next
    case (finish c)
    from finish(3) show ?thesis
    proof (cases rule: idc_next_responseE)
      case (none rpc')
      with u show ?thesis by (simp add: idc_inv_def)
    next
      case (some response rest)
      let ?v = "?u\<lparr> idc_rpc := (idc_rpc ?u)\<lparr> inbound_responses := rest \<rparr> \<rparr>"
      have v: "idc_inv ?v" "idc_endpoint_challenge_response ?v = None" "idc_state ?v = IdC_WaitingForChallengeVerification"
        using u finish(1) by (simp_all add: idc_inv_def)
      with some idc_step_inv(4) [OF v(1,2)] show ?thesis by blast
    qed
  qed
qed simp_all

lemma send_response_inv:
  assumes "idc_inv s" "send_response B d s = (Ret r, t)" shows "idc_inv t"
  using assms by (auto simp: send_response_def Let_def idc_inv_def split: if_splits result.splits)

text \<open>A completed handshake rests on a successful answer to the client's own last request.\<close>

lemma idc_completed:
  assumes "identity_client_update B C random s =
      (Ret (Ok (Some (IdC_HandshakeCompleted server endpoint name key))), t)" "idc_inv s"
  shows "\<exists>rpc c rest. session_update_none B (idc_rpc s) = (Ret (Ok ()), rpc) \<and>
     idc_state s = IdC_WaitingForChallengeVerification \<and> idc_send_response_request_cookie s = Some c \<and>
     inbound_responses rpc = RSuccess c (Some (BString (service_id_to_string endpoint))) # rest \<and>
     service_id_is_valid C (service_id_to_string endpoint) \<and>
     server = idc_server_service_id s \<and> name = ascii_value (idc_requested_endpoint s) \<and>
     key = idc_client_authorization_key_private s \<and> idc_state t = IdC_HandshakeComplete"
  using assms(1)
proof (cases rule: identity_client_update_cases)
  case (advance rpc)
  let ?u = "s\<lparr> idc_rpc := rpc, idc_endpoint_challenge_response := None \<rparr>"
  have st: "idc_state ?u \<noteq> IdC_HandshakeComplete" using advance(1) by simp
  from idc_taken(2) [OF assms(2)] st advance(3) show ?thesis
  proof (cases rule: idc_advance_cases)
    case start
    then show ?thesis by (auto simp: idc_begin_def try_then_Ok_iff)
  next
    case (challenge c)
    from challenge(3) show ?thesis
      by (cases rule: idc_next_responseE)
        (auto simp: idc_receive_challenge_def begin_handshake_result_def Let_def
          split: result.splits response.splits if_splits option.splits bson.splits binary_subtype.splits)
  next
    case wait
    then show ?thesis by simp
  next
    case (respond sc d)
    then show ?thesis by (auto simp: idc_respond_def try_then_Ok_iff)
  next
    case (finish c)
    from finish(3) show ?thesis
    proof (cases rule: idc_next_responseE)
      case (some response rest)
      obtain cookie res where resp: "response = RSuccess cookie res"
        using some(2) by (auto simp: idc_finish_def split: response.splits if_splits)
      with some(2) obtain str where res: "cookie = c" "bson_string res = Some str"
        "service_id_from_string C str = Ok endpoint"
        by (auto simp: idc_finish_def split: if_splits option.splits result.splits)
      have "res = Some (BString str)" using res(2) by (cases res rule: bson_string.cases) auto
      with some resp res finish advance(2) show ?thesis
        by (auto simp: idc_finish_def service_id_from_string_Ok service_id_to_string_def)
    qed simp
  qed
qed simp_all

end
