(* ===== verification/Identity_Server.thy ===== *)
theory Identity_Server
  imports Gosling_Protocol
begin

text \<open>
  The server side of the identity handshake (\<open>identity_server.rs\<close>). The long tuple matches of
  the source inspect the state and which of the optional fields are present; \<open>ids_present\<close> is
  that pattern, in the order of the fields. Random bytes and generated keys are arguments. The
  text of \<open>InvalidState\<close>, the debug print of the fields, is not modelled.
\<close>

section \<open>State\<close>

datatype identity_server_error =
    IdS_HonkRPCFailure honk_error
  | IdS_InvalidState
  | IdS_IncorrectUsage string
  | IdS_BadClient
  | IdS_EndpointChallengeTooLarge nat nat

datatype 'd identity_server_event =
    IdS_EndpointRequestReceived v3_onion_service_id ascii_string
  | IdS_ChallengeResponseReceived 'd
  | IdS_HandshakeCompleted ed25519_private_key ascii_string v3_onion_service_id x25519_public_key
  | IdS_HandshakeRejected bool bool bool bool bool

datatype identity_server_state =
    IdS_WaitingForBeginHandshake
  | IdS_GettingChallenge
  | IdS_ChallengeReady
  | IdS_WaitingForSendResponse
  | IdS_GettingChallengeVerification
  | IdS_ChallengeVerificationReady
  | IdS_ChallengeVerificationResponseSent
  | IdS_HandshakeComplete
  | IdS_HandshakeFailed

record 'd identity_server =
  ids_rpc :: "'d session option"
  ids_server_identity :: v3_onion_service_id
  ids_state :: identity_server_state
  ids_begin_handshake_request_cookie :: "request_cookie option"
  ids_client_identity :: "v3_onion_service_id option"
  ids_requested_endpoint :: "ascii_string option"
  ids_server_cookie :: "bytes option"
  ids_endpoint_challenge :: "'d option"
  ids_send_response_request_cookie :: "request_cookie option"
  ids_client_auth_key :: "x25519_public_key option"
  ids_challenge_response :: "'d option"
  ids_endpoint_private_key :: "ed25519_private_key option"
  ids_client_allowed :: bool
  ids_client_requested_endpoint_valid :: bool
  ids_client_proof_signature_valid :: bool
  ids_client_auth_signature_valid :: bool
  ids_challenge_response_valid :: bool

definition identity_server_new :: "'d session \<Rightarrow> v3_onion_service_id \<Rightarrow> 'd identity_server" where
  "identity_server_new rpc server_identity = \<lparr>
     ids_rpc = Some rpc,
     ids_server_identity = server_identity,
     ids_state = IdS_WaitingForBeginHandshake,
     ids_begin_handshake_request_cookie = None,
     ids_client_identity = None,
     ids_requested_endpoint = None,
     ids_server_cookie = None,
     ids_endpoint_challenge = None,
     ids_send_response_request_cookie = None,
     ids_client_auth_key = None,
     ids_challenge_response = None,
     ids_endpoint_private_key = None,
     ids_client_allowed = False,
     ids_client_requested_endpoint_valid = False,
     ids_client_proof_signature_valid = False,
     ids_client_auth_signature_valid = False,
     ids_challenge_response_valid = False \<rparr>"

definition ids_present :: "'d identity_server \<Rightarrow> bool list" where
  "ids_present s =
     [is_some (ids_begin_handshake_request_cookie s), is_some (ids_client_identity s),
      is_some (ids_requested_endpoint s), is_some (ids_server_cookie s),
      is_some (ids_endpoint_challenge s), is_some (ids_send_response_request_cookie s),
      is_some (ids_client_auth_key s), is_some (ids_challenge_response s),
      is_some (ids_endpoint_private_key s)]"

section \<open>Requests of the client\<close>

definition identity_namespace :: string where "identity_namespace = ''gosling_identity''"

definition ids_fail :: "rpc_error \<Rightarrow> ('d identity_server, 'd) exec_action" where
  "ids_fail e s = (Ret (Some (Err (rpc_failure e))), s\<lparr> ids_state := IdS_HandshakeFailed \<rparr>)"

definition ids_begin_handshake ::
  "'d bson_ops \<Rightarrow> crypto_ops \<Rightarrow> request_cookie \<Rightarrow> 'd \<Rightarrow> ('d identity_server, 'd) exec_action" where
  "ids_begin_handshake B C request_cookie args s =
     (let (version, args) = doc_remove B args ''version'';
          valid_version = (bson_string version = Some GOSLING_PROTOCOL_VERSION)
      in if \<not> valid_version then ids_fail BadVersion s
      else let (client_identity, args) = doc_remove B args ''client_identity'';
               (endpoint_name, args) = doc_remove B args ''endpoint''
      in case (bson_string client_identity, bson_string endpoint_name) of
        (Some client_identity, Some endpoint_name) \<Rightarrow>
          (case service_id_from_string C client_identity of
             Err _ \<Rightarrow> ids_fail InvalidArg s
           | Ok client_identity \<Rightarrow>
               (case ascii_string_new endpoint_name of
                  Err _ \<Rightarrow> ids_fail InvalidArg s
                | Ok endpoint_name \<Rightarrow>
                    (Ret None, s\<lparr> ids_begin_handshake_request_cookie := Some request_cookie,
                                  ids_client_identity := Some client_identity,
                                  ids_requested_endpoint := Some endpoint_name \<rparr>)))
      | _ \<Rightarrow> ids_fail InvalidArg s)"

text \<open>
  What \<open>send_response\<close> does with arguments of the right types: it checks their lengths, then
  records the cookie, the results of the two signature checks, the key and the response.
\<close>

definition ids_record_response ::
  "crypto_ops \<Rightarrow> request_cookie \<Rightarrow> bytes \<Rightarrow> ed25519_signature \<Rightarrow> x25519_public_key \<Rightarrow> sign_bit \<Rightarrow>
   ed25519_signature \<Rightarrow> 'd \<Rightarrow> 'd identity_server \<Rightarrow> 'd identity_server" where
  "ids_record_response C request_cookie client_cookie proof_signature authorization_key signbit
     authorization_signature challenge_response s =
     (let client_identity = the (ids_client_identity s);
          s = s\<lparr> ids_send_response_request_cookie := Some request_cookie \<rparr>;
          s = (case ed25519_public_from_service_id C client_identity of
                 Ok client_identity_key \<Rightarrow>
                   s\<lparr> ids_client_proof_signature_valid :=
                        ed25519_signature_verify C proof_signature
                          (build_client_proof C GoslingIdentity (the (ids_requested_endpoint s))
                             client_identity (ids_server_identity s) client_cookie
                             (the (ids_server_cookie s)))
                          client_identity_key \<rparr>
               | Err _ \<Rightarrow> s);
          s = s\<lparr> ids_client_auth_signature_valid :=
                   ed25519_signature_verify_x25519 C authorization_signature
                     (service_id_as_bytes client_identity) authorization_key signbit \<rparr>;
          s = s\<lparr> ids_client_auth_key := Some authorization_key \<rparr>
      in s\<lparr> ids_challenge_response := Some challenge_response \<rparr>)"

definition ids_accept_response ::
  "crypto_ops \<Rightarrow> request_cookie \<Rightarrow> bytes \<Rightarrow> bytes \<Rightarrow> bytes \<Rightarrow> bool \<Rightarrow> bytes \<Rightarrow> 'd \<Rightarrow>
   ('d identity_server, 'd) exec_action" where
  "ids_accept_response C request_cookie client_cookie proof_signature authorization_key signbit
     authorization_signature challenge_response s =
     (if length client_cookie \<noteq> CLIENT_COOKIE_SIZE then ids_fail InvalidArg s
      else if length proof_signature \<noteq> ED25519_SIGNATURE_SIZE then ids_fail InvalidArg s
      else case ed25519_signature_from_raw proof_signature of
        Err _ \<Rightarrow> ids_fail InvalidArg s
      | Ok proof_signature \<Rightarrow>
     if length authorization_key \<noteq> X25519_PUBLIC_KEY_SIZE then ids_fail InvalidArg s
      else let authorization_key = x25519_public_from_raw authorization_key;
               signbit = sign_bit_from_bool signbit
      in if length authorization_signature \<noteq> ED25519_SIGNATURE_SIZE then ids_fail InvalidArg s
      else case ed25519_signature_from_raw authorization_signature of
        Err _ \<Rightarrow> ids_fail InvalidArg s
      | Ok authorization_signature \<Rightarrow>
        (Ret None, ids_record_response C request_cookie client_cookie proof_signature authorization_key
           signbit authorization_signature challenge_response s))"

definition ids_send_response ::
  "'d bson_ops \<Rightarrow> crypto_ops \<Rightarrow> request_cookie \<Rightarrow> 'd \<Rightarrow> ('d identity_server, 'd) exec_action" where
  "ids_send_response B C request_cookie args s =
     (let (client_cookie, args) = doc_remove B args ''client_cookie'';
          (proof_signature, args) = doc_remove B args ''client_identity_proof_signature'';
          (authorization_key, args) = doc_remove B args ''client_authorization_key'';
          (signbit, args) = doc_remove B args ''client_authorization_key_signbit'';
          (authorization_signature, args) = doc_remove B args ''client_authorization_signature'';
          (challenge_response, args) = doc_remove B args ''challenge_response''
      in case (bson_generic client_cookie, bson_generic proof_signature, bson_generic authorization_key,
               bson_boolean signbit, bson_generic authorization_signature, bson_document challenge_response) of
        (Some client_cookie, Some proof_signature, Some authorization_key, Some signbit,
         Some authorization_signature, Some challenge_response) \<Rightarrow>
          ids_accept_response C request_cookie client_cookie proof_signature authorization_key signbit
            authorization_signature challenge_response s
      | _ \<Rightarrow> ids_fail InvalidArg s)"

text \<open>The matches of \<open>exec_function\<close> do not look at the cookie of \<open>send_response\<close>.\<close>

definition ids_exec_present :: "'d identity_server \<Rightarrow> bool list" where
  "ids_exec_present s =
     [is_some (ids_begin_handshake_request_cookie s), is_some (ids_client_identity s),
      is_some (ids_requested_endpoint s), is_some (ids_server_cookie s),
      is_some (ids_endpoint_challenge s), is_some (ids_client_auth_key s),
      is_some (ids_challenge_response s), is_some (ids_endpoint_private_key s)]"

definition ids_exec_function ::
  "'d bson_ops \<Rightarrow> crypto_ops \<Rightarrow> string \<Rightarrow> i32 \<Rightarrow> 'd \<Rightarrow> request_cookie option \<Rightarrow>
   ('d identity_server, 'd) exec_action" where
  "ids_exec_function B C name version args request_cookie s = (case request_cookie of
      None \<Rightarrow> (Ret (Some (Err (rpc_failure RequestCookieRequired))), s)
    | Some request_cookie \<Rightarrow>
        if name = ''begin_handshake'' \<and> version = 0 \<and> ids_state s = IdS_WaitingForBeginHandshake \<and>
           ids_exec_present s = [False, False, False, False, False, False, False, False]
        then ids_begin_handshake B C request_cookie args s
        else if name = ''send_response'' \<and> version = 0 \<and> ids_state s = IdS_WaitingForSendResponse \<and>
           ids_exec_present s = [True, True, True, True, True, False, False, False]
        then ids_send_response B C request_cookie args s
        else ids_fail Failure s)"

section \<open>Results that come later\<close>

definition challenge_result :: "'d bson_ops \<Rightarrow> bytes \<Rightarrow> 'd \<Rightarrow> 'd bson" where
  "challenge_result B server_cookie endpoint_challenge = BDocument
     (doc_of B [(''server_cookie'', BBinary Generic server_cookie),
                (''endpoint_challenge'', BDocument endpoint_challenge)])"

definition ids_success :: "'d identity_server \<Rightarrow> bool" where
  "ids_success s \<longleftrightarrow> ids_client_allowed s \<and> ids_client_requested_endpoint_valid s \<and>
     ids_client_proof_signature_valid s \<and> ids_client_auth_signature_valid s \<and>
     ids_challenge_response_valid s"

definition ids_next_present :: "'d identity_server \<Rightarrow> bool list" where
  "ids_next_present s =
     [is_some (ids_begin_handshake_request_cookie s), is_some (ids_client_identity s),
      is_some (ids_requested_endpoint s), is_some (ids_server_cookie s),
      is_some (ids_endpoint_challenge s), is_some (ids_send_response_request_cookie s),
      is_some (ids_client_auth_key s), is_some (ids_challenge_response s)]"

definition ids_next_result ::
  "'d bson_ops \<Rightarrow> crypto_ops \<Rightarrow> ed25519_private_key \<Rightarrow>
   ('d identity_server, (request_cookie \<times> ('d bson option, error_code) result) option) action" where
  "ids_next_result B C generated s =
     (if ids_state s = IdS_ChallengeReady \<and>
         ids_next_present s = [True, True, True, True, True, False, False, False]
      then (Ret (Some (the (ids_begin_handshake_request_cookie s),
              Ok (Some (challenge_result B (the (ids_server_cookie s)) (the (ids_endpoint_challenge s)))))),
            s\<lparr> ids_state := IdS_WaitingForSendResponse, ids_endpoint_challenge := Some (doc_new B) \<rparr>)
      else if ids_state s = IdS_ChallengeReady then (Panic, s)
      else if ids_state s = IdS_ChallengeVerificationReady \<and>
         ids_next_present s = [True, True, True, True, True, True, True, True]
      then let s = s\<lparr> ids_state := IdS_ChallengeVerificationResponseSent \<rparr>;
               cookie = the (ids_send_response_request_cookie s)
           in if ids_success s
              then (Ret (Some (cookie, Ok (Some (BString
                      (service_id_to_string (service_id_from_private_key C generated)))))),
                    s\<lparr> ids_endpoint_private_key := Some generated \<rparr>)
              else (Ret (Some (cookie, Err (rpc_failure Failure))), s)
      else (Ret None, s))"

definition identity_api ::
  "'d bson_ops \<Rightarrow> crypto_ops \<Rightarrow> ed25519_private_key \<Rightarrow> ('d identity_server, 'd) api_set" where
  "identity_api B C generated = \<lparr>
     api_namespace = (\<lambda>_. identity_namespace),
     api_exec_function = ids_exec_function B C,
     api_update = (\<lambda>s. s),
     api_next_result = ids_next_result B C generated \<rparr>"

section \<open>Operations of the host\<close>

definition handle_endpoint_request_received ::
  "'d bson_ops \<Rightarrow> bytes \<Rightarrow> bool \<Rightarrow> bool \<Rightarrow> 'd \<Rightarrow>
   ('d identity_server, (unit, identity_server_error) result) action" where
  "handle_endpoint_request_received B random client_allowed endpoint_valid endpoint_challenge s =
     (case (ids_rpc s) of
        Some rpc \<Rightarrow>
          if ids_state s = IdS_GettingChallenge \<and>
             ids_exec_present s = [True, True, True, False, False, False, False, False]
          then let server_cookie = random in
            (case get_response_section_size B (Some (challenge_result B server_cookie endpoint_challenge)) of
               Err e \<Rightarrow> (Ret (Err (IdS_HonkRPCFailure e)), s)
             | Ok response_section_size \<Rightarrow>
            (case get_message_overhead B of
               Err e \<Rightarrow> (Ret (Err (IdS_HonkRPCFailure e)), s)
             | Ok overhead \<Rightarrow>
                 let message_size = overhead + response_section_size;
                     max_message_size = get_max_message_size rpc
                 in if max_message_size < message_size
                    then (Ret (Err (IdS_EndpointChallengeTooLarge message_size max_message_size)), s)
                    else (Ret (Ok ()), s\<lparr>
                       ids_server_cookie := Some server_cookie,
                       ids_endpoint_challenge := Some endpoint_challenge,
                       ids_client_allowed := client_allowed,
                       ids_client_requested_endpoint_valid := endpoint_valid,
                       ids_state := IdS_ChallengeReady \<rparr>)))
          else (Ret (Err (IdS_IncorrectUsage ''handle_endpoint_request_received() may only be called after EndpointRequestReceived has been returned from update(), and it may only be called once'')), s)
      | None \<Rightarrow> (Ret (Err (IdS_IncorrectUsage ''handle_endpoint_request_received() may only be called after EndpointRequestReceived has been returned from update(), and it may only be called once'')), s))"

definition handle_challenge_response_received ::
  "bool \<Rightarrow> ('d identity_server, (unit, identity_server_error) result) action" where
  "handle_challenge_response_received challenge_response_valid s =
     (if ids_state s = IdS_GettingChallengeVerification \<and>
         ids_exec_present s = [True, True, True, True, True, True, True, False]
      then (Ret (Ok ()), s\<lparr> ids_challenge_response_valid := challenge_response_valid,
                            ids_state := IdS_ChallengeVerificationReady \<rparr>)
      else (Ret (Err (IdS_IncorrectUsage ''handle_challenge_response_received() may only be called after ChallengeResponseReceived event has been returned from update(), and it may only be called once'')), s))"

text \<open>The state transitions of \<open>update\<close> after the session was updated.\<close>

definition ids_advance ::
  "'d bson_ops \<Rightarrow> crypto_ops \<Rightarrow>
   ('d identity_server, ('d identity_server_event option, identity_server_error) result) action" where
  "ids_advance B C s =
     (if ids_state s = IdS_WaitingForBeginHandshake \<and>
         ids_present s = [False, False, False, False, False, False, False, False, False]
      then (Ret (Ok None), s)
      else if ids_state s = IdS_WaitingForBeginHandshake \<and>
         ids_present s = [True, True, True, False, False, False, False, False, False]
      then (Ret (Ok (Some (IdS_EndpointRequestReceived (the (ids_client_identity s)) (the (ids_requested_endpoint s))))),
            s\<lparr> ids_state := IdS_GettingChallenge \<rparr>)
      else if ids_state s = IdS_WaitingForSendResponse \<and>
         ids_present s = [True, True, True, True, True, False, False, False, False]
      then (Ret (Ok None), s)
      else if ids_state s = IdS_WaitingForSendResponse \<and>
         ids_present s = [True, True, True, True, True, True, True, True, False]
      then (Ret (Ok (Some (IdS_ChallengeResponseReceived (the (ids_challenge_response s))))),
            s\<lparr> ids_state := IdS_GettingChallengeVerification, ids_challenge_response := Some (doc_new B) \<rparr>)
      else if ids_state s = IdS_ChallengeVerificationResponseSent \<and>
         ids_present s = [True, True, True, True, True, True, True, True, True]
      then let s = s\<lparr> ids_state := IdS_HandshakeComplete \<rparr> in
           (case ed25519_private_clone C (the (ids_endpoint_private_key s)) of
              Ret k \<Rightarrow> (Ret (Ok (Some (IdS_HandshakeCompleted k (the (ids_requested_endpoint s))
                          (the (ids_client_identity s)) (the (ids_client_auth_key s))))), s)
            | _ \<Rightarrow> (Panic, s))
      else if ids_state s = IdS_ChallengeVerificationResponseSent \<and>
         ids_present s = [True, True, True, True, True, True, True, True, False]
      then (Ret (Ok (Some (IdS_HandshakeRejected (ids_client_allowed s) (ids_client_requested_endpoint_valid s)
              (ids_client_proof_signature_valid s) (ids_client_auth_signature_valid s)
              (ids_challenge_response_valid s)))),
            s\<lparr> ids_state := IdS_HandshakeComplete \<rparr>)
      else if ids_state s = IdS_HandshakeFailed then (Ret (Err IdS_BadClient), s)
      else (Ret (Err IdS_InvalidState), s))"

text \<open>
  \<open>update\<close>. At most one result is ready at a time, so two rounds of \<open>next_result\<close> drain it.
\<close>

definition IDENTITY_SERVER_FUEL :: nat where "IDENTITY_SERVER_FUEL = 2"

definition identity_server_update ::
  "'d bson_ops \<Rightarrow> crypto_ops \<Rightarrow> ed25519_private_key \<Rightarrow>
   ('d identity_server, ('d identity_server_event option, identity_server_error) result) action" where
  "identity_server_update B C generated s = (case ids_rpc s of
      None \<Rightarrow> ids_advance B C s
    | Some rpc \<Rightarrow>
        (case session_update B (identity_api B C generated) IDENTITY_SERVER_FUEL ([s\<lparr> ids_rpc := None \<rparr>], rpc) of
           (Ret (Ok _), (ss, rpc)) \<Rightarrow> ids_advance B C ((hd ss)\<lparr> ids_rpc := Some rpc \<rparr>)
         | (Ret (Err e), (ss, rpc)) \<Rightarrow> (Ret (Err (IdS_HonkRPCFailure e)), (hd ss)\<lparr> ids_rpc := Some rpc \<rparr>)
         | (Panic, (ss, rpc)) \<Rightarrow> (Panic, hd ss)
         | (OutOfFuel, (ss, rpc)) \<Rightarrow> (OutOfFuel, hd ss)))"

section \<open>Invariant\<close>

text \<open>The answers of the host that were accepted, in order.\<close>

datatype host_answer = RequestAnswered bool bool | ResponseAnswered bool

definition ids_proof_ok :: "crypto_ops \<Rightarrow> 'd identity_server \<Rightarrow> bool" where
  "ids_proof_ok C s \<longleftrightarrow> (\<exists>client_cookie sig key. length client_cookie = CLIENT_COOKIE_SIZE \<and>
     ed25519_public_from_service_id C (the (ids_client_identity s)) = Ok key \<and>
     ed25519_signature_verify C sig
       (build_client_proof C GoslingIdentity (the (ids_requested_endpoint s)) (the (ids_client_identity s))
          (ids_server_identity s) client_cookie (the (ids_server_cookie s))) key)"

definition ids_auth_ok :: "crypto_ops \<Rightarrow> 'd identity_server \<Rightarrow> bool" where
  "ids_auth_ok C s \<longleftrightarrow> (\<exists>sig signbit. ed25519_signature_verify_x25519 C sig
     (service_id_as_bytes (the (ids_client_identity s))) (the (ids_client_auth_key s)) signbit)"

abbreviation (input) ids_stage :: "nat \<Rightarrow> bool list" where
  "ids_stage n \<equiv> replicate n True @ replicate (9 - n) False"

definition ids_verified :: "crypto_ops \<Rightarrow> 'd identity_server \<Rightarrow> bool" where
  "ids_verified C s \<longleftrightarrow> (ids_client_proof_signature_valid s \<longrightarrow> ids_proof_ok C s) \<and>
     (ids_client_auth_signature_valid s \<longrightarrow> ids_auth_ok C s)"

definition ids_unverified :: "'d identity_server \<Rightarrow> bool" where
  "ids_unverified s \<longleftrightarrow> \<not> ids_client_proof_signature_valid s \<and> \<not> ids_client_auth_signature_valid s"

definition ids_asked :: "'d identity_server \<Rightarrow> host_answer list" where
  "ids_asked s = [RequestAnswered (ids_client_allowed s) (ids_client_requested_endpoint_valid s)]"

definition ids_answered :: "'d identity_server \<Rightarrow> host_answer list" where
  "ids_answered s = ids_asked s @ [ResponseAnswered (ids_challenge_response_valid s)]"

definition ids_inv :: "crypto_ops \<Rightarrow> host_answer list \<Rightarrow> 'd identity_server \<Rightarrow> bool" where
  "ids_inv C log s \<longleftrightarrow> (case ids_state s of
      IdS_WaitingForBeginHandshake \<Rightarrow> log = [] \<and> ids_unverified s \<and>
        (ids_present s = ids_stage 0 \<or> ids_present s = ids_stage 3)
    | IdS_GettingChallenge \<Rightarrow> log = [] \<and> ids_unverified s \<and> ids_present s = ids_stage 3
    | IdS_ChallengeReady \<Rightarrow> log = ids_asked s \<and> ids_unverified s \<and> ids_present s = ids_stage 5
    | IdS_WaitingForSendResponse \<Rightarrow> log = ids_asked s \<and>
        (ids_present s = ids_stage 5 \<and> ids_unverified s \<or> ids_present s = ids_stage 8 \<and> ids_verified C s)
    | IdS_GettingChallengeVerification \<Rightarrow> log = ids_asked s \<and> ids_present s = ids_stage 8 \<and> ids_verified C s
    | IdS_ChallengeVerificationReady \<Rightarrow> log = ids_answered s \<and> ids_present s = ids_stage 8 \<and> ids_verified C s
    | IdS_ChallengeVerificationResponseSent \<Rightarrow> log = ids_answered s \<and> ids_verified C s \<and>
        ids_present s = ids_stage (if ids_success s then 9 else 8)
    | IdS_HandshakeComplete \<Rightarrow> log = ids_answered s \<and> ids_verified C s \<and>
        ids_present s = ids_stage (if ids_success s then 9 else 8)
    | IdS_HandshakeFailed \<Rightarrow> True)"

lemma ids_frame [simp]:
  "ids_present (s\<lparr> ids_rpc := x \<rparr>) = ids_present s" "ids_present (s\<lparr> ids_state := st \<rparr>) = ids_present s"
  "ids_unverified (s\<lparr> ids_rpc := x \<rparr>) = ids_unverified s" "ids_unverified (s\<lparr> ids_state := st \<rparr>) = ids_unverified s"
  "ids_verified C (s\<lparr> ids_rpc := x \<rparr>) = ids_verified C s" "ids_verified C (s\<lparr> ids_state := st \<rparr>) = ids_verified C s"
  "ids_asked (s\<lparr> ids_rpc := x \<rparr>) = ids_asked s" "ids_asked (s\<lparr> ids_state := st \<rparr>) = ids_asked s"
  "ids_answered (s\<lparr> ids_rpc := x \<rparr>) = ids_answered s" "ids_answered (s\<lparr> ids_state := st \<rparr>) = ids_answered s"
  "ids_success (s\<lparr> ids_rpc := x \<rparr>) = ids_success s" "ids_success (s\<lparr> ids_state := st \<rparr>) = ids_success s"
  by (simp_all add: ids_present_def ids_unverified_def ids_verified_def ids_proof_ok_def ids_auth_ok_def
      ids_asked_def ids_answered_def ids_success_def)

lemma ids_rpc_irrelevant [simp]: "ids_inv C log (s\<lparr> ids_rpc := x \<rparr>) = ids_inv C log s"
  by (simp add: ids_inv_def split: identity_server_state.split)

lemma ids_fail_inv [simp]: "ids_inv C log (snd (ids_fail e s))"
  by (simp add: ids_fail_def ids_inv_def)

lemma ids_fail_Ret: "\<exists>r t. ids_fail e s = (Ret r, t) \<and> ids_inv C log t"
  by (simp add: ids_fail_def ids_inv_def)

lemma ids_begin_handshake_safe:
  assumes "ids_inv C log s" "ids_state s = IdS_WaitingForBeginHandshake"
    "ids_exec_present s = [False, False, False, False, False, False, False, False]"
  shows "\<exists>r t. ids_begin_handshake B C cookie args s = (Ret r, t) \<and> ids_inv C log t"
proof -
  have ok: "ids_inv C log (s\<lparr> ids_begin_handshake_request_cookie := Some cookie,
      ids_client_identity := Some a, ids_requested_endpoint := Some b \<rparr>)" for a b
    using assms by (auto simp: ids_inv_def ids_present_def ids_exec_present_def ids_unverified_def)
  show ?thesis
    by (auto simp: ids_begin_handshake_def Let_def ok ids_fail_Ret split: prod.splits option.splits result.splits)
qed

lemma ids_record_response_inv:
  assumes "ids_inv C log s" "ids_state s = IdS_WaitingForSendResponse"
    "ids_exec_present s = [True, True, True, True, True, False, False, False]" "length cc = CLIENT_COOKIE_SIZE"
  shows "ids_inv C log (ids_record_response C cookie cc ps ak sb as cr s)"
proof -
  from assms(1-3) have s: "log = ids_asked s" "ids_unverified s" "ids_present s = ids_stage 5"
    by (auto simp: ids_inv_def ids_present_def ids_exec_present_def)
  let ?t = "ids_record_response C cookie cc ps ak sb as cr s"
  have "ids_state ?t = IdS_WaitingForSendResponse" "ids_asked ?t = ids_asked s" "ids_present ?t = ids_stage 8"
    using s(3) assms(2)
    by (auto simp: ids_record_response_def Let_def ids_asked_def ids_present_def split: result.split)
  moreover have "ids_verified C ?t"
    using s(2) assms(4)
    by (auto simp: ids_record_response_def Let_def ids_verified_def ids_unverified_def ids_proof_ok_def
        ids_auth_ok_def split: result.split)
  ultimately show ?thesis using s(1) by (simp add: ids_inv_def)
qed

lemma ids_accept_response_safe:
  assumes "ids_inv C log s" "ids_state s = IdS_WaitingForSendResponse"
    "ids_exec_present s = [True, True, True, True, True, False, False, False]"
  shows "\<exists>r t. ids_accept_response C cookie cc ps ak sb as cr s = (Ret r, t) \<and> ids_inv C log t"
  using ids_record_response_inv [OF assms]
  by (simp add: ids_accept_response_def Let_def ids_fail_Ret split: result.split)

lemma ids_exec_safe:
  assumes "ids_inv C log s"
  shows "\<exists>r t. ids_exec_function B C f v args c s = (Ret r, t) \<and> ids_inv C log t"
proof (cases c)
  case None
  with assms show ?thesis by (simp add: ids_exec_function_def)
next
  case (Some cookie)
  then show ?thesis
    using ids_begin_handshake_safe [OF assms] ids_accept_response_safe [OF assms]
    by (simp add: ids_exec_function_def ids_send_response_def ids_fail_Ret Let_def split: prod.split option.split)
qed

definition ids_pending :: "'d identity_server \<Rightarrow> nat" where
  "ids_pending s = (if ids_state s = IdS_ChallengeReady \<or> ids_state s = IdS_ChallengeVerificationReady then 1 else 0)"

lemma ids_next_present_eq: "ids_present s = ids_next_present s @ [is_some (ids_endpoint_private_key s)]"
  by (simp add: ids_present_def ids_next_present_def)

lemma ids_next_safe:
  assumes "ids_inv C log s"
  shows "\<exists>r t. ids_next_result B C k s = (Ret r, t) \<and> ids_inv C log t \<and>
    (r \<noteq> None \<longrightarrow> ids_pending t < ids_pending s)"
proof (cases "ids_state s = IdS_ChallengeReady \<or> ids_state s = IdS_ChallengeVerificationReady")
  case False
  with assms show ?thesis by (simp add: ids_next_result_def)
next
  case True
  then show ?thesis
  proof
    assume st: "ids_state s = IdS_ChallengeReady"
    with assms have "log = ids_asked s" "ids_unverified s" "ids_present s = ids_stage 5" by (auto simp: ids_inv_def)
    then have "ids_inv C log (s\<lparr> ids_state := IdS_WaitingForSendResponse, ids_endpoint_challenge := Some (doc_new B) \<rparr>)"
      "ids_next_present s = [True, True, True, True, True, False, False, False]"
      by (auto simp: ids_inv_def ids_present_def ids_next_present_def ids_asked_def ids_unverified_def)
    with st show ?thesis by (simp add: ids_next_result_def ids_pending_def)
  next
    assume st: "ids_state s = IdS_ChallengeVerificationReady"
    with assms have s: "log = ids_answered s" "ids_present s = ids_stage 8" "ids_verified C s" by (auto simp: ids_inv_def)
    define t where "t = s\<lparr> ids_state := IdS_ChallengeVerificationResponseSent \<rparr>"
    have "\<not> ids_success s \<Longrightarrow> ids_inv C log t" using s by (auto simp: ids_inv_def t_def)
    moreover have "ids_success s \<Longrightarrow> ids_inv C log (t\<lparr> ids_endpoint_private_key := Some k \<rparr>)"
      using s by (auto simp: ids_inv_def t_def ids_present_def ids_answered_def ids_asked_def ids_verified_def
          ids_proof_ok_def ids_auth_ok_def ids_success_def)
    moreover have "ids_next_present s = [True, True, True, True, True, True, True, True]"
      using s(2) by (simp add: ids_next_present_eq)
    ultimately show ?thesis using st
      by (auto simp: ids_next_result_def ids_pending_def t_def Let_def)
  qed
qed

lemma ids_pending_less: "ids_pending s < 2"
  by (simp add: ids_pending_def)

text \<open>The endpoint key, once there, is a generated one.\<close>

definition ids_keys :: "ed25519_private_key set \<Rightarrow> 'd identity_server \<Rightarrow> bool" where
  "ids_keys K s \<longleftrightarrow> (\<forall>k. ids_endpoint_private_key s = Some k \<longrightarrow> k \<in> K)"

lemma ids_exec_key: "ids_endpoint_private_key (snd (ids_exec_function B C f v args c s)) = ids_endpoint_private_key s"
proof -
  have rec: "ids_endpoint_private_key (ids_record_response C x cc ps ak sb as cr s) = ids_endpoint_private_key s"
    for x cc ps ak sb as cr
    by (simp add: ids_record_response_def Let_def split: result.split)
  show ?thesis
    by (simp add: ids_exec_function_def ids_begin_handshake_def ids_send_response_def ids_accept_response_def
        ids_fail_def rec Let_def split: prod.split option.split result.split)
qed

lemma ids_exec_safe_key:
  assumes "ids_inv C log s \<and> ids_keys K s"
  shows "\<exists>r t. ids_exec_function B C f v args c s = (Ret r, t) \<and> ids_inv C log t \<and> ids_keys K t"
proof -
  from ids_exec_safe [of C log s B f v args c] assms obtain r t where
    "ids_exec_function B C f v args c s = (Ret r, t)" "ids_inv C log t" by blast
  moreover from this(1) ids_exec_key [of B C f v args c s] assms have "ids_keys K t" by (simp add: ids_keys_def)
  ultimately show ?thesis by blast
qed

lemma ids_next_key:
  "ids_keys (insert k K) s \<Longrightarrow> ids_keys (insert k K) (snd (ids_next_result B C k s))"
  by (simp add: ids_next_result_def ids_keys_def Let_def)

lemma ids_next_safe_key:
  assumes "ids_inv C log s \<and> ids_keys (insert k K) s"
  shows "\<exists>r t. ids_next_result B C k s = (Ret r, t) \<and> (ids_inv C log t \<and> ids_keys (insert k K) t) \<and>
    (r \<noteq> None \<longrightarrow> ids_pending t < ids_pending s)"
  using assms ids_next_safe [of C log s B k] ids_next_key [of k K s B C] by auto

interpretation ids: rpc_api "identity_api B C generated" ids_pending 2
    "\<lambda>s. ids_inv C log s \<and> ids_keys (insert generated K) s"
  for B :: "'d bson_ops" and C generated log K
  by unfold_locales
    (simp_all add: identity_api_def ids_exec_safe_key ids_next_safe_key [simplified] ids_pending_less)

section \<open>Reachable states\<close>

inductive ids_reach :: "'d bson_ops \<Rightarrow> crypto_ops \<Rightarrow> host_answer list \<Rightarrow> 'd identity_server \<Rightarrow> bool"
  for B C where
  ids_reach_new: "ids_reach B C [] (identity_server_new rpc server_identity)"
| ids_reach_update: "ids_reach B C log s \<Longrightarrow> signing_key C generated \<Longrightarrow>
    identity_server_update B C generated s = (Ret r, t) \<Longrightarrow> ids_reach B C log t"
| ids_reach_request: "ids_reach B C log s \<Longrightarrow>
    handle_endpoint_request_received B random allowed valid challenge s = (Ret (Ok ()), t) \<Longrightarrow>
    ids_reach B C (log @ [RequestAnswered allowed valid]) t"
| ids_reach_response: "ids_reach B C log s \<Longrightarrow>
    handle_challenge_response_received valid s = (Ret (Ok ()), t) \<Longrightarrow>
    ids_reach B C (log @ [ResponseAnswered valid]) t"

lemma ids_present_exec:
  "ids_exec_present s = [a, b, c, d, e, f, g, h] \<Longrightarrow>
   ids_present s = [a, b, c, d, e, is_some (ids_send_response_request_cookie s), f, g, h]"
  by (simp add: ids_present_def ids_exec_present_def)

lemma handle_endpoint_request_received_inv:
  assumes "ids_inv C log s" "handle_endpoint_request_received B random allowed valid challenge s = (Ret (Ok ()), t)"
  shows "ids_inv C (log @ [RequestAnswered allowed valid]) t"
proof -
  from assms(2) have st: "ids_state s = IdS_GettingChallenge" and t: "t = s\<lparr> ids_server_cookie := Some random,
       ids_endpoint_challenge := Some challenge, ids_client_allowed := allowed,
       ids_client_requested_endpoint_valid := valid, ids_state := IdS_ChallengeReady \<rparr>"
    by (auto simp: handle_endpoint_request_received_def Let_def split: option.splits if_splits result.splits)
  from assms(1) st have "log = []" "ids_unverified s" "ids_present s = ids_stage 3" by (auto simp: ids_inv_def)
  then show ?thesis unfolding t by (auto simp: ids_inv_def ids_asked_def ids_unverified_def ids_present_def)
qed

lemma handle_challenge_response_received_inv:
  assumes "ids_inv C log s" "handle_challenge_response_received valid s = (Ret (Ok ()), t)"
  shows "ids_inv C (log @ [ResponseAnswered valid]) t"
proof -
  from assms(2) have st: "ids_state s = IdS_GettingChallengeVerification" and t: "t = s\<lparr> ids_challenge_response_valid := valid,
       ids_state := IdS_ChallengeVerificationReady \<rparr>"
    by (auto simp: handle_challenge_response_received_def split: if_splits)
  from assms(1) st have "log = ids_asked s" "ids_verified C s" "ids_present s = ids_stage 8" by (auto simp: ids_inv_def)
  then show ?thesis unfolding t
    by (auto simp: ids_inv_def ids_answered_def ids_asked_def ids_verified_def ids_proof_ok_def ids_auth_ok_def ids_present_def)
qed

lemma ids_advance_inv:
  assumes "ids_inv C log s" shows "ids_inv C log (snd (ids_advance B C s))"
proof (cases "ids_state s = IdS_WaitingForSendResponse \<and> ids_present s = ids_stage 8")
  case True
  with assms have "log = ids_asked s" "ids_verified C s" by (auto simp: ids_inv_def)
  with True show ?thesis
    by (auto simp: ids_advance_def ids_inv_def ids_present_def ids_asked_def ids_verified_def
        ids_proof_ok_def ids_auth_ok_def)
next
  case False
  with assms show ?thesis
    by (cases "ids_state s") (auto simp: ids_advance_def Let_def ids_inv_def split: outcome.split)
qed

definition ids_ok :: "crypto_ops \<Rightarrow> host_answer list \<Rightarrow> 'd identity_server \<Rightarrow> bool" where
  "ids_ok C log s \<longleftrightarrow> ids_inv C log s \<and> ids_keys {k. signing_key C k} s"

lemma ids_ok_rpc [simp]: "ids_ok C log (s\<lparr> ids_rpc := x \<rparr>) = ids_ok C log s"
  by (simp add: ids_ok_def ids_keys_def)

lemma ids_ok_apis:
  assumes "signing_key C generated"
  shows "ids.apis_inv C log generated {k. signing_key C k} n p \<longleftrightarrow> length (fst p) = n \<and> list_all (ids_ok C log) (fst p)"
  unfolding ids.apis_inv_def using assms by (simp add: ids_ok_def insert_absorb list_all_iff)

lemma ids_advance_ok:
  assumes "ids_ok C log s" shows "ids_ok C log (snd (ids_advance B C s))"
proof -
  have "ids_endpoint_private_key (snd (ids_advance B C s)) = ids_endpoint_private_key s"
    by (simp add: ids_advance_def Let_def split: outcome.split)
  with assms ids_advance_inv show ?thesis by (auto simp: ids_ok_def ids_keys_def)
qed

lemma identity_server_update_cases:
  assumes "ids_ok C log s" "signing_key C generated" "identity_server_update B C generated s = (Ret r, t)"
  obtains (advance) u where "ids_ok C log u" "ids_advance B C u = (Ret r, t)"
  | (failed) e where "r = Err (IdS_HonkRPCFailure e)" "ids_ok C log t"
proof (cases "ids_rpc s")
  case None
  with assms that(1) show thesis by (simp add: identity_server_update_def)
next
  case (Some rpc)
  let ?p = "([s\<lparr> ids_rpc := None \<rparr>], rpc)"
  obtain q ss rpc' where run: "session_update B (identity_api B C generated) IDENTITY_SERVER_FUEL ?p = (q, (ss, rpc'))"
    by (metis prod.exhaust)
  have "ids.apis_inv C log generated {k. signing_key C k} 1 ?p" using assms(1,2) by (simp add: ids_ok_apis)
  from keepsD [OF ids.session_update_keeps this run] have "ids_ok C log ((hd ss)\<lparr> ids_rpc := Some rpc' \<rparr>)"
    using assms(2) by (cases ss) (auto simp: ids_ok_apis)
  then have inv: "\<And>u. u = (hd ss)\<lparr> ids_rpc := Some rpc' \<rparr> \<Longrightarrow> ids_ok C log u" by simp
  from assms(3) Some run show thesis
    by (auto simp: identity_server_update_def split: outcome.splits result.splits intro: that inv)
qed

lemma ids_reach_ok: "ids_reach B C log s \<Longrightarrow> ids_ok C log s"
proof (induction rule: ids_reach.induct)
  case (ids_reach_new rpc server_identity)
  then show ?case
    by (simp add: ids_ok_def ids_keys_def ids_inv_def identity_server_new_def ids_present_def ids_unverified_def)
next
  case (ids_reach_update log s generated r t)
  from ids_reach_update.IH ids_reach_update.hyps(2,3) show ?case
  proof (cases rule: identity_server_update_cases)
    case (advance u)
    with ids_advance_ok [OF advance(1), of B] show ?thesis by simp
  qed simp
next
  case (ids_reach_request log s random allowed valid challenge t)
  then have "ids_endpoint_private_key t = ids_endpoint_private_key s"
    by (auto simp: handle_endpoint_request_received_def Let_def split: option.splits if_splits result.splits)
  with ids_reach_request show ?case by (auto simp: ids_ok_def ids_keys_def handle_endpoint_request_received_inv)
next
  case (ids_reach_response log s valid t)
  then have "ids_endpoint_private_key t = ids_endpoint_private_key s"
    by (auto simp: handle_challenge_response_received_def split: if_splits)
  with ids_reach_response show ?case by (auto simp: ids_ok_def ids_keys_def handle_challenge_response_received_inv)
qed

text \<open>No panic: neither \<open>unreachable!\<close> of \<open>next_result\<close>, nor the one of \<open>clone\<close>, nor the session.\<close>

lemma ids_advance_returns:
  assumes "signature_laws C" "ids_ok C log s" shows "\<exists>r t. ids_advance B C s = (Ret r, t)"
proof (cases "ids_endpoint_private_key s")
  case None
  then show ?thesis by (simp add: ids_advance_def ids_present_def)
next
  case (Some k)
  with assms have "ed25519_private_clone C k = Ret k" by (simp add: ids_ok_def ids_keys_def signing_keyD)
  with Some show ?thesis by (simp add: ids_advance_def Let_def)
qed

lemma identity_server_update_returns:
  assumes "bson_laws B" "bson_size_laws B" "signature_laws C" "signing_key C generated"
    and "ids_ok C log s" "\<forall>rpc. ids_rpc s = Some rpc \<longrightarrow> session_ok B rpc"
  shows "\<exists>r t. identity_server_update B C generated s = (Ret r, t)"
proof (cases "ids_rpc s")
  case None
  with ids_advance_returns [OF assms(3,5)] show ?thesis by (simp add: identity_server_update_def)
next
  case (Some rpc)
  let ?p = "([s\<lparr> ids_rpc := None \<rparr>], rpc)"
  have h: "ids.handled C log generated {k. signing_key C k} B 1 ?p"
    unfolding ids.handled_def using assms(4-6) Some by (simp add: ids_ok_def insert_absorb ids_keys_def)
  have "2 \<le> IDENTITY_SERVER_FUEL" by (simp add: IDENTITY_SERVER_FUEL_def)
  from ids.session_update_returns [OF assms(1,2) this h] obtain q ss rpc' where
    run: "session_update B (identity_api B C generated) IDENTITY_SERVER_FUEL ?p = (Ret q, (ss, rpc'))"
    by (metis prod.exhaust)
  have "ids.apis_inv C log generated {k. signing_key C k} 1 ?p" using assms(4,5) by (simp add: ids_ok_apis)
  from keepsD [OF ids.session_update_keeps this run] have ok: "ids_ok C log ((hd ss)\<lparr> ids_rpc := Some rpc' \<rparr>)"
    using assms(4) by (cases ss) (auto simp: ids_ok_apis)
  from Some run ids_advance_returns [OF assms(3) ok, of B] show ?thesis
    by (cases q) (auto simp: identity_server_update_def)
qed

lemma ids_advance_completed:
  assumes "ids_inv C log u" "ids_advance B C u = (Ret (Ok (Some (IdS_HandshakeCompleted key endpoint client auth))), t)"
  shows "log = [RequestAnswered True True, ResponseAnswered True]"
    "ids_proof_ok C t" "ids_auth_ok C t"
    "ids_requested_endpoint t = Some endpoint" "ids_client_identity t = Some client"
    "ids_client_auth_key t = Some auth" "is_some (ids_server_cookie t)"
proof -
  from assms(2) have st: "ids_state u = IdS_ChallengeVerificationResponseSent" "ids_present u = ids_stage 9"
    and t: "t = u\<lparr> ids_state := IdS_HandshakeComplete \<rparr>" and ev: "endpoint = the (ids_requested_endpoint u)"
      "client = the (ids_client_identity u)" "auth = the (ids_client_auth_key u)"
    by (auto simp: ids_advance_def Let_def split: if_splits outcome.splits)
  from assms(1) st(1) have inv: "log = ids_answered u" "ids_verified C u"
      "ids_present u = ids_stage (if ids_success u then 9 else 8)"
    by (auto simp: ids_inv_def)
  with st(2) have succ: "ids_success u" by (auto split: if_splits)
  with inv(1) show "log = [RequestAnswered True True, ResponseAnswered True]"
    by (simp add: ids_answered_def ids_asked_def ids_success_def)
  from succ inv(2) show "ids_proof_ok C t" "ids_auth_ok C t"
    by (auto simp: t ids_verified_def ids_success_def ids_proof_ok_def ids_auth_ok_def)
  from st(2) ev show "ids_requested_endpoint t = Some endpoint" "ids_client_identity t = Some client"
    "ids_client_auth_key t = Some auth" "is_some (ids_server_cookie t)"
    by (auto simp: t ids_present_def is_some_def)
qed

section \<open>The server's own identity\<close>

lemma ids_exec_server: "ids_server_identity (snd (ids_exec_function B C f v args c s)) = ids_server_identity s"
proof -
  have rec: "ids_server_identity (ids_record_response C x cc ps ak sb as cr s) = ids_server_identity s"
    for x cc ps ak sb as cr
    by (simp add: ids_record_response_def Let_def split: result.split)
  show ?thesis
    by (simp add: ids_exec_function_def ids_begin_handshake_def ids_send_response_def ids_accept_response_def
        ids_fail_def rec Let_def split: prod.split option.split result.split)
qed

lemma ids_next_server: "ids_server_identity (snd (ids_next_result B C k s)) = ids_server_identity s"
  by (simp add: ids_next_result_def Let_def split: option.split outcome.split)

interpretation ids_own: api_invariant "identity_api B C generated" "\<lambda>s. ids_server_identity s = me"
  for B :: "'d bson_ops" and C generated me
  by unfold_locales (simp_all add: identity_api_def ids_exec_server ids_next_server)

lemma identity_server_update_server:
  assumes "identity_server_update B C generated s = (Ret r, t)"
  shows "ids_server_identity t = ids_server_identity s"
proof -
  have adv: "ids_server_identity (snd (ids_advance B C u)) = ids_server_identity u" for u :: "'a identity_server"
    by (simp add: ids_advance_def Let_def split: outcome.split)
  show ?thesis
  proof (cases "ids_rpc s")
    case None
    with assms adv [of s] show ?thesis by (simp add: identity_server_update_def)
  next
    case (Some rpc)
    let ?p = "([s\<lparr> ids_rpc := None \<rparr>], rpc)"
    obtain q ss rpc' where run: "session_update B (identity_api B C generated) IDENTITY_SERVER_FUEL ?p = (q, (ss, rpc'))"
      by (metis prod.exhaust)
    have "ids_own.apis_inv (ids_server_identity s) 1 ?p" by (simp add: ids_own.apis_inv_def)
    from keepsD [OF ids_own.session_update_keeps this run] have "ids_server_identity (hd ss) = ids_server_identity s"
      by (cases ss) (auto simp: ids_own.apis_inv_def)
    with assms Some run adv [of "(hd ss)\<lparr> ids_rpc := Some rpc' \<rparr>"] show ?thesis
      by (auto simp: identity_server_update_def split: outcome.splits result.splits)
  qed
qed

end
