(* ===== verification/Endpoint_Client.thy ===== *)
theory Endpoint_Client
  imports Gosling_Protocol
begin

text \<open>
  The client side of the endpoint handshake (\<open>endpoint_client.rs\<close>). Its two client calls are
  unwrapped, so a section that does not fit makes \<open>update\<close> panic. The text of \<open>InvalidState\<close>, the
  debug print of the fields, is not modelled.
\<close>

section \<open>State\<close>

datatype endpoint_client_error =
    EpC_HonkRPCFailure honk_error
  | EpC_UnexpectedResponseReceived string
  | EpC_InvalidState
  | EpC_IncorrectUsage string

datatype endpoint_client_event = EpC_HandshakeCompleted rw_stream

datatype endpoint_client_state =
    EpC_BeginHandshake
  | EpC_WaitingForServerCookie
  | EpC_WaitingForProofVerification
  | EpC_HandshakeComplete

record 'd endpoint_client =
  epc_rpc :: "'d session option"
  epc_server_service_id :: v3_onion_service_id
  epc_requested_channel :: ascii_string
  epc_client_service_id :: v3_onion_service_id
  epc_client_ed25519_private :: ed25519_private_key
  epc_state :: endpoint_client_state
  epc_begin_handshake_request_cookie :: "request_cookie option"
  epc_send_response_request_cookie :: "request_cookie option"

definition endpoint_client_new ::
  "crypto_ops \<Rightarrow> 'd session \<Rightarrow> v3_onion_service_id \<Rightarrow> ascii_string \<Rightarrow> ed25519_private_key \<Rightarrow> 'd endpoint_client" where
  "endpoint_client_new C rpc server_service_id requested_channel client_key = \<lparr>
     epc_rpc = Some rpc,
     epc_server_service_id = server_service_id,
     epc_requested_channel = requested_channel,
     epc_client_service_id = service_id_from_private_key C client_key,
     epc_client_ed25519_private = client_key,
     epc_state = EpC_BeginHandshake,
     epc_begin_handshake_request_cookie = None,
     epc_send_response_request_cookie = None \<rparr>"

type_synonym 'd endpoint_client_action =
  "('d endpoint_client, (endpoint_client_event option, endpoint_client_error) result) action"

text \<open>\<open>rpc.client_call(..).unwrap()\<close> on the session \<open>rpc\<close> of the client.\<close>

definition epc_call ::
  "'d bson_ops \<Rightarrow> string \<Rightarrow> 'd \<Rightarrow> 'd session \<Rightarrow> ('d endpoint_client, request_cookie) action" where
  "epc_call B func args rpc s = (case client_call B ''gosling_endpoint'' func 0 args rpc of
      (Ret (Ok cookie), rpc) \<Rightarrow> (Ret cookie, s\<lparr> epc_rpc := Some rpc \<rparr>)
    | (_, rpc) \<Rightarrow> (Panic, s\<lparr> epc_rpc := Some rpc \<rparr>))"

section \<open>The steps of update\<close>

definition channel_handshake_args :: "'d bson_ops \<Rightarrow> 'd endpoint_client \<Rightarrow> 'd" where
  "channel_handshake_args B s = doc_of B
     [(''version'', BString GOSLING_PROTOCOL_VERSION),
      (''client_identity'', BString (service_id_to_string (epc_client_service_id s))),
      (''channel'', BString (ascii_value (epc_requested_channel s)))]"

definition epc_begin :: "'d bson_ops \<Rightarrow> 'd session \<Rightarrow> 'd endpoint_client_action" where
  "epc_begin B rpc s = andthen (epc_call B ''begin_handshake'' (channel_handshake_args B s) rpc)
     (\<lambda>cookie s. (Ret (Ok None), s\<lparr> epc_begin_handshake_request_cookie := Some cookie,
                                    epc_state := EpC_WaitingForServerCookie \<rparr>)) s"

definition channel_response_args ::
  "'d bson_ops \<Rightarrow> crypto_ops \<Rightarrow> bytes \<Rightarrow> bytes \<Rightarrow> 'd endpoint_client \<Rightarrow> 'd" where
  "channel_response_args B C client_cookie server_cookie s =
     (let client_identity_proof = build_client_proof C GoslingEndpoint (epc_requested_channel s)
            (epc_client_service_id s) (epc_server_service_id s) client_cookie server_cookie;
          client_identity_proof_signature =
            ed25519_private_sign_message C (epc_client_ed25519_private s) client_identity_proof
      in doc_of B
        [(''client_cookie'', BBinary Generic client_cookie),
         (''client_identity_proof_signature'', BBinary Generic (ed25519_signature_to_bytes client_identity_proof_signature))])"

definition epc_receive_cookie ::
  "'d bson_ops \<Rightarrow> crypto_ops \<Rightarrow> bytes \<Rightarrow> 'd session \<Rightarrow> 'd bson option \<Rightarrow> 'd endpoint_client_action" where
  "epc_receive_cookie B C random rpc res s = (case bson_document res of
      Some d \<Rightarrow> (case bson_generic (doc_get B d ''server_cookie'') of
          Some server_cookie \<Rightarrow>
            if length server_cookie \<noteq> SERVER_COOKIE_SIZE
            then (Ret (Err (EpC_UnexpectedResponseReceived (bad_server_cookie server_cookie))), s)
            else andthen (epc_call B ''send_response'' (channel_response_args B C random server_cookie s) rpc)
              (\<lambda>cookie s. (Ret (Ok None), s\<lparr> epc_send_response_request_cookie := Some cookie,
                                             epc_state := EpC_WaitingForProofVerification \<rparr>)) s
        | None \<Rightarrow> (Ret (Err (EpC_UnexpectedResponseReceived (''begin_handshake() returned unexpected value: '' @ doc_display B d))), s))
    | None \<Rightarrow> (Ret (Err (EpC_UnexpectedResponseReceived (''begin_handshake() returned unexpected value: '' @ bson_debug B res))), s))"

definition epc_finish :: "'d bson_ops \<Rightarrow> 'd session \<Rightarrow> 'd bson option \<Rightarrow> 'd endpoint_client_action" where
  "epc_finish B rpc res s = (case bson_document res of
      Some d \<Rightarrow>
        if doc_is_empty B d
        then (Ret (Ok (Some (EpC_HandshakeCompleted (into_stream rpc)))),
              s\<lparr> epc_state := EpC_HandshakeComplete, epc_rpc := None \<rparr>)
        else (Ret (Err (EpC_UnexpectedResponseReceived (''received unexpected data from send_response(): '' @ doc_debug B d))), s)
    | None \<Rightarrow> (Ret (Err (EpC_UnexpectedResponseReceived (''received unexpected data from send_response(): '' @ bson_debug B res))), s))"

text \<open>
  The match on a response: the result of a success with the expected cookie goes on. The texts
  for an error with and without the expected cookie differ between the two waiting states.
\<close>

definition epc_response ::
  "request_cookie \<Rightarrow> bool \<Rightarrow> 'd response \<Rightarrow> ('d bson option, (endpoint_client_event option, endpoint_client_error) result) result" where
  "epc_response expected proof response = (case response of
      RPending cookie \<Rightarrow>
        if cookie = expected then Err (Ok None)
        else Err (Err (EpC_UnexpectedResponseReceived ''received unexpected pending response''))
    | RError cookie error_code \<Rightarrow>
        if (cookie = expected) = proof
        then Err (Err (EpC_UnexpectedResponseReceived (''received unexpected error response; rpc error_code: '' @ error_code_fmt error_code)))
        else Err (Err (EpC_UnexpectedResponseReceived (''received unexpected rpc error_code: '' @ error_code_fmt error_code)))
    | RSuccess cookie res \<Rightarrow>
        if cookie = expected then Ok res
        else Err (Err (EpC_UnexpectedResponseReceived ''received unexpected success response'')))"

definition epc_next_response ::
  "request_cookie \<Rightarrow> bool \<Rightarrow> ('d session \<Rightarrow> 'd bson option \<Rightarrow> 'd endpoint_client_action) \<Rightarrow>
   'd session \<Rightarrow> 'd endpoint_client_action" where
  "epc_next_response expected proof k rpc s = (case client_next_response rpc of
      (Ret (Some response), rpc) \<Rightarrow>
        (let s = s\<lparr> epc_rpc := Some rpc \<rparr> in
         case epc_response expected proof response of
           Err r \<Rightarrow> (Ret r, s)
         | Ok res \<Rightarrow> k rpc res s)
    | (_, rpc) \<Rightarrow> (Ret (Ok None), s\<lparr> epc_rpc := Some rpc \<rparr>))"

definition epc_advance :: "'d bson_ops \<Rightarrow> crypto_ops \<Rightarrow> bytes \<Rightarrow> 'd session \<Rightarrow> 'd endpoint_client_action" where
  "epc_advance B C random rpc s =
     (case (epc_state s, epc_begin_handshake_request_cookie s, epc_send_response_request_cookie s) of
        (EpC_BeginHandshake, None, None) \<Rightarrow> epc_begin B rpc s
      | (EpC_WaitingForServerCookie, Some begin_cookie, None) \<Rightarrow>
          epc_next_response begin_cookie False (epc_receive_cookie B C random) rpc s
      | (EpC_WaitingForProofVerification, Some begin_cookie, Some send_cookie) \<Rightarrow>
          epc_next_response send_cookie True (epc_finish B) rpc s
      | _ \<Rightarrow> (Ret (Err EpC_InvalidState), s))"

definition endpoint_client_update :: "'d bson_ops \<Rightarrow> crypto_ops \<Rightarrow> bytes \<Rightarrow> 'd endpoint_client_action" where
  "endpoint_client_update B C random s =
     (if epc_state s = EpC_HandshakeComplete
      then (Ret (Err (EpC_IncorrectUsage ''update() may not be called after HandshakeComplete has been returned from previous update() call'')), s)
      else case epc_rpc s of
        None \<Rightarrow> (Ret (Err EpC_InvalidState), s)
      | Some rpc \<Rightarrow>
          (case session_update_none B rpc of
             (Ret (Err e), rpc) \<Rightarrow> (Ret (Err (EpC_HonkRPCFailure e)), s\<lparr> epc_rpc := Some rpc \<rparr>)
           | (Ret (Ok _), rpc) \<Rightarrow> epc_advance B C random rpc (s\<lparr> epc_rpc := Some rpc \<rparr>)
           | (Panic, rpc) \<Rightarrow> (Panic, s\<lparr> epc_rpc := Some rpc \<rparr>)
           | (OutOfFuel, rpc) \<Rightarrow> (OutOfFuel, s\<lparr> epc_rpc := Some rpc \<rparr>)))"

section \<open>Properties\<close>

lemma endpoint_client_update_cases:
  assumes "endpoint_client_update B C random s = (r, t)" "\<forall>e. r \<noteq> Ret (Err e)" "epc_rpc s = Some rpc0"
    "session_update_none B rpc0 = (Ret q, rpc)"
  shows "q = Ok () \<and> epc_state s \<noteq> EpC_HandshakeComplete \<and> epc_advance B C random rpc (s\<lparr> epc_rpc := Some rpc \<rparr>) = (r, t)"
  using assms by (auto simp: endpoint_client_update_def split: if_splits result.splits)

lemma epc_completed:
  assumes "endpoint_client_update B C random s = (Ret (Ok (Some (EpC_HandshakeCompleted st))), t)"
  shows "\<exists>rpc0 rpc c d rest. epc_rpc s = Some rpc0 \<and> session_update_none B rpc0 = (Ret (Ok ()), rpc) \<and>
     epc_state s = EpC_WaitingForProofVerification \<and> epc_send_response_request_cookie s = Some c \<and>
     inbound_responses rpc = RSuccess c (Some (BDocument d)) # rest \<and> doc_is_empty B d \<and>
     st = stream rpc \<and> epc_rpc t = None \<and> epc_state t = EpC_HandshakeComplete"
proof -
  from assms obtain rpc0 where rpc0: "epc_rpc s = Some rpc0"
    by (auto simp: endpoint_client_update_def split: if_splits option.splits)
  obtain o' rpc where up: "session_update_none B rpc0 = (o', rpc)" by fastforce
  with assms rpc0 have q: "o' = Ret (Ok ())"
    and adv: "epc_advance B C random rpc (s\<lparr> epc_rpc := Some rpc \<rparr>) = (Ret (Ok (Some (EpC_HandshakeCompleted st))), t)"
    by (auto simp: endpoint_client_update_def split: if_splits outcome.splits result.splits)
  obtain c where c: "epc_state s = EpC_WaitingForProofVerification" "epc_send_response_request_cookie s = Some c"
    and nx: "epc_next_response c True (epc_finish B) rpc (s\<lparr> epc_rpc := Some rpc \<rparr>) =
      (Ret (Ok (Some (EpC_HandshakeCompleted st))), t)"
    using adv
    by (auto simp: epc_advance_def epc_begin_def epc_next_response_def epc_receive_cookie_def epc_call_def
        epc_response_def client_next_response_def andthen_Ret_iff Let_def
        split: endpoint_client_state.splits option.splits list.splits result.splits response.splits if_splits)
  then obtain response rest where resp: "inbound_responses rpc = response # rest"
    by (auto simp: epc_next_response_def client_next_response_def split: list.splits)
  with nx obtain d where d: "response = RSuccess c (Some (BDocument d))" "doc_is_empty B d"
      "st = stream rpc" "epc_rpc t = None" "epc_state t = EpC_HandshakeComplete"
    by (auto simp: epc_next_response_def client_next_response_def epc_response_def epc_finish_def into_stream_def
        Let_def elim!: bson_document.elims
        split: response.splits if_splits option.splits)
  with rpc0 up q c resp show ?thesis by blast
qed

text \<open>
  A channel name that does not fit into a message is not reported as an error: the call is
  unwrapped and the client panics.
\<close>

lemma epc_begin_panics:
  assumes "MIN_MESSAGE_SIZE \<le> max_message_size rpc"
    and "\<not> fits B (max_message_size rpc) (section_into B (SRequest \<lparr> rq_cookie = Some (next_cookie rpc),
       rq_namespace = ''gosling_endpoint'', rq_function = ''begin_handshake'', rq_version = 0,
       rq_arguments = channel_handshake_args B s \<rparr>))"
  shows "fst (epc_begin B rpc s) = Panic"
proof -
  let ?sec = "SRequest \<lparr> rq_cookie = Some (next_cookie rpc), rq_namespace = ''gosling_endpoint'',
     rq_function = ''begin_handshake'', rq_version = 0, rq_arguments = channel_handshake_args B s \<rparr>"
  let ?rpc = "rpc\<lparr> next_cookie := next_cookie rpc + 1 \<rparr>"
  have "\<exists>e. push_outbound_section B ?sec ?rpc = (Ret (Err e), ?rpc)"
    using assms by (auto simp: push_outbound_section_cases split: result.splits)
  then show ?thesis
    by (auto simp: epc_begin_def epc_call_def client_call_def action_defs Let_def)
qed

end
