(* ===== verification/Endpoint_Server.thy ===== *)
theory Endpoint_Server
  imports Gosling_Protocol
begin

text \<open>
  The server side of the endpoint handshake (\<open>endpoint_server.rs\<close>), modelled like the identity
  server: \<open>eps_present\<close> is the pattern of optional fields that the tuple matches inspect. The
  server cookie that \<open>new\<close> generates is never stored, so it is no part of the model.
\<close>

section \<open>State\<close>

datatype endpoint_server_error =
    EpS_HonkRPCFailure honk_error
  | EpS_InvalidState
  | EpS_IncorrectUsage string
  | EpS_BadClient

datatype endpoint_server_event =
    EpS_ChannelRequestReceived v3_onion_service_id ascii_string
  | EpS_HandshakeCompleted v3_onion_service_id ascii_string rw_stream
  | EpS_HandshakeRejected bool bool bool

datatype endpoint_server_state =
    EpS_WaitingForBeginHandshake
  | EpS_ValidatingChannelRequest
  | EpS_ChannelRequestValidated
  | EpS_WaitingForSendResponse
  | EpS_HandledSendResponse
  | EpS_HandshakeComplete
  | EpS_HandshakeFailed

record 'd endpoint_server =
  eps_rpc :: "'d session option"
  eps_server_identity :: v3_onion_service_id
  eps_allowed_client_identity :: v3_onion_service_id
  eps_state :: endpoint_server_state
  eps_begin_handshake_request_cookie :: "request_cookie option"
  eps_client_identity :: "v3_onion_service_id option"
  eps_requested_channel :: "ascii_string option"
  eps_server_cookie :: "bytes option"
  eps_handshake_succeeded :: "bool option"
  eps_client_allowed :: bool
  eps_client_requested_channel_valid :: bool
  eps_client_proof_signature_valid :: bool

definition endpoint_server_new ::
  "'d session \<Rightarrow> v3_onion_service_id \<Rightarrow> v3_onion_service_id \<Rightarrow> 'd endpoint_server" where
  "endpoint_server_new rpc client_identity server_identity = \<lparr>
     eps_rpc = Some rpc,
     eps_server_identity = server_identity,
     eps_allowed_client_identity = client_identity,
     eps_state = EpS_WaitingForBeginHandshake,
     eps_begin_handshake_request_cookie = None,
     eps_client_identity = None,
     eps_requested_channel = None,
     eps_server_cookie = None,
     eps_handshake_succeeded = None,
     eps_client_allowed = False,
     eps_client_requested_channel_valid = True,
     eps_client_proof_signature_valid = False \<rparr>"

definition eps_present :: "'d endpoint_server \<Rightarrow> bool list" where
  "eps_present s =
     [is_some (eps_begin_handshake_request_cookie s), is_some (eps_client_identity s),
      is_some (eps_requested_channel s), is_some (eps_server_cookie s),
      is_some (eps_handshake_succeeded s)]"

section \<open>Requests of the client\<close>

definition endpoint_namespace :: string where "endpoint_namespace = ''gosling_endpoint''"

definition eps_fail :: "rpc_error \<Rightarrow> ('d endpoint_server, 'd) exec_action" where
  "eps_fail e s = (Ret (Some (Err (rpc_failure e))), s\<lparr> eps_state := EpS_HandshakeFailed \<rparr>)"

definition eps_begin_handshake ::
  "'d bson_ops \<Rightarrow> crypto_ops \<Rightarrow> request_cookie \<Rightarrow> 'd \<Rightarrow> ('d endpoint_server, 'd) exec_action" where
  "eps_begin_handshake B C request_cookie args s =
     (let (version, args) = doc_remove B args ''version'';
          valid_version = (bson_string version = Some GOSLING_PROTOCOL_VERSION)
      in if \<not> valid_version then eps_fail BadVersion s
      else let (client_identity, args) = doc_remove B args ''client_identity'';
               (channel_name, args) = doc_remove B args ''channel''
      in case (bson_string client_identity, bson_string channel_name) of
        (Some client_identity, Some channel_name) \<Rightarrow>
          (case service_id_from_string C client_identity of
             Err _ \<Rightarrow> eps_fail InvalidArg s
           | Ok client_identity \<Rightarrow>
               let s = s\<lparr> eps_client_identity := Some client_identity \<rparr> in
               (case ascii_string_new channel_name of
                  Err _ \<Rightarrow> eps_fail InvalidArg s
                | Ok channel_name \<Rightarrow>
                    (Ret None, s\<lparr> eps_begin_handshake_request_cookie := Some request_cookie,
                                  eps_requested_channel := Some channel_name \<rparr>)))
      | _ \<Rightarrow> eps_fail InvalidArg s)"

definition eps_send_response ::
  "'d bson_ops \<Rightarrow> crypto_ops \<Rightarrow> 'd \<Rightarrow> ('d endpoint_server, 'd) exec_action" where
  "eps_send_response B C args s =
     (let (client_cookie, args) = doc_remove B args ''client_cookie'';
          (proof_signature, args) = doc_remove B args ''client_identity_proof_signature''
      in case (bson_generic client_cookie, bson_generic proof_signature) of
        (Some client_cookie, Some proof_signature) \<Rightarrow>
          if length client_cookie \<noteq> CLIENT_COOKIE_SIZE then eps_fail InvalidArg s
          else if length proof_signature \<noteq> ED25519_SIGNATURE_SIZE then eps_fail InvalidArg s
          else (case ed25519_signature_from_raw proof_signature of
            Err _ \<Rightarrow> eps_fail InvalidArg s
          | Ok proof_signature \<Rightarrow>
          (case ed25519_public_from_service_id C (the (eps_client_identity s)) of
            Err _ \<Rightarrow> eps_fail InvalidArg s
          | Ok client_identity_key \<Rightarrow>
              let client_proof = build_client_proof C GoslingEndpoint (the (eps_requested_channel s))
                    (the (eps_client_identity s)) (eps_server_identity s) client_cookie
                    (the (eps_server_cookie s));
                  s = s\<lparr> eps_client_proof_signature_valid :=
                           ed25519_signature_verify C proof_signature client_proof client_identity_key \<rparr>
              in if eps_client_allowed s \<and> eps_client_requested_channel_valid s \<and>
                    eps_client_proof_signature_valid s
                 then (Ret (Some (Ok (Some (BDocument (doc_new B))))),
                       s\<lparr> eps_handshake_succeeded := Some True, eps_state := EpS_HandledSendResponse \<rparr>)
                 else (Ret (Some (Err (rpc_failure Failure))),
                       s\<lparr> eps_handshake_succeeded := Some False, eps_state := EpS_HandledSendResponse \<rparr>)))
      | _ \<Rightarrow> eps_fail InvalidArg s)"

definition eps_exec_present :: "'d endpoint_server \<Rightarrow> bool list" where
  "eps_exec_present s = [is_some (eps_client_identity s), is_some (eps_requested_channel s),
     is_some (eps_server_cookie s)]"

definition eps_exec_function ::
  "'d bson_ops \<Rightarrow> crypto_ops \<Rightarrow> string \<Rightarrow> i32 \<Rightarrow> 'd \<Rightarrow> request_cookie option \<Rightarrow>
   ('d endpoint_server, 'd) exec_action" where
  "eps_exec_function B C name version args request_cookie s = (case request_cookie of
      None \<Rightarrow> (Ret (Some (Err (rpc_failure RequestCookieRequired))), s)
    | Some request_cookie \<Rightarrow>
        if name = ''begin_handshake'' \<and> version = 0 \<and> eps_state s = EpS_WaitingForBeginHandshake \<and>
           eps_exec_present s = [False, False, False]
        then eps_begin_handshake B C request_cookie args s
        else if name = ''send_response'' \<and> version = 0 \<and> eps_state s = EpS_WaitingForSendResponse \<and>
           eps_exec_present s = [True, True, True]
        then eps_send_response B C args s
        else eps_fail Failure s)"

definition eps_next_result ::
  "'d bson_ops \<Rightarrow> ('d endpoint_server, (request_cookie \<times> ('d bson option, error_code) result) option) action" where
  "eps_next_result B s =
     (case (eps_begin_handshake_request_cookie s, eps_server_cookie s) of
        (Some begin_handshake_request_cookie, Some server_cookie) \<Rightarrow>
          if eps_state s = EpS_ChannelRequestValidated
          then (Ret (Some (begin_handshake_request_cookie, Ok (Some (BDocument
                  (doc_of B [(''server_cookie'', BBinary Generic server_cookie)]))))),
                s\<lparr> eps_state := EpS_WaitingForSendResponse \<rparr>)
          else (Ret None, s)
      | _ \<Rightarrow> (Ret None, s))"

definition endpoint_api :: "'d bson_ops \<Rightarrow> crypto_ops \<Rightarrow> ('d endpoint_server, 'd) api_set" where
  "endpoint_api B C = \<lparr>
     api_namespace = (\<lambda>_. endpoint_namespace),
     api_exec_function = eps_exec_function B C,
     api_update = (\<lambda>s. s),
     api_next_result = eps_next_result B \<rparr>"

section \<open>Operations of the host\<close>

definition handle_channel_request_received ::
  "bytes \<Rightarrow> bool \<Rightarrow> ('d endpoint_server, (unit, endpoint_server_error) result) action" where
  "handle_channel_request_received random channel_valid s =
     (if eps_state s = EpS_ValidatingChannelRequest \<and> eps_present s = [True, True, True, False, False]
      then (Ret (Ok ()), s\<lparr> eps_server_cookie := Some random,
              eps_client_allowed := (the (eps_client_identity s) = eps_allowed_client_identity s),
              eps_client_requested_channel_valid := channel_valid,
              eps_state := EpS_ChannelRequestValidated \<rparr>)
      else (Ret (Err (EpS_IncorrectUsage ''handle_channel_request_received() may only be called after ChannelRequestReceived has been returned from update(), and it may only be called once'')), s))"

definition eps_advance ::
  "('d endpoint_server, (endpoint_server_event option, endpoint_server_error) result) action" where
  "eps_advance s =
     (if eps_state s = EpS_WaitingForBeginHandshake \<and> eps_present s = [False, False, False, False, False]
      then (Ret (Ok None), s)
      else if eps_state s = EpS_WaitingForBeginHandshake \<and> eps_present s = [True, True, True, False, False]
      then (Ret (Ok (Some (EpS_ChannelRequestReceived (the (eps_client_identity s)) (the (eps_requested_channel s))))),
            s\<lparr> eps_state := EpS_ValidatingChannelRequest \<rparr>)
      else if eps_state s = EpS_ValidatingChannelRequest \<and> eps_present s = [True, True, True, False, False]
      then (Ret (Ok None), s)
      else if eps_state s = EpS_ChannelRequestValidated \<and> eps_present s = [True, True, True, True, False]
      then (Ret (Ok None), s)
      else if eps_state s = EpS_WaitingForSendResponse \<and> eps_present s = [True, True, True, True, False]
      then (Ret (Ok None), s)
      else if eps_state s = EpS_HandledSendResponse \<and> eps_present s = [True, True, True, True, True]
      then let s = s\<lparr> eps_state := EpS_HandshakeComplete \<rparr> in
           if the (eps_handshake_succeeded s)
           then (case eps_rpc s of
                   None \<Rightarrow> (Panic, s)
                 | Some rpc \<Rightarrow> (Ret (Ok (Some (EpS_HandshakeCompleted (the (eps_client_identity s))
                       (the (eps_requested_channel s)) (into_stream rpc)))), s\<lparr> eps_rpc := None \<rparr>))
           else (Ret (Ok (Some (EpS_HandshakeRejected (eps_client_allowed s)
                   (eps_client_requested_channel_valid s) (eps_client_proof_signature_valid s)))), s)
      else if eps_state s = EpS_HandshakeFailed then (Ret (Err EpS_BadClient), s)
      else (Ret (Err EpS_InvalidState), s))"

definition ENDPOINT_SERVER_FUEL :: nat where "ENDPOINT_SERVER_FUEL = 2"

definition endpoint_server_update ::
  "'d bson_ops \<Rightarrow> crypto_ops \<Rightarrow>
   ('d endpoint_server, (endpoint_server_event option, endpoint_server_error) result) action" where
  "endpoint_server_update B C s = (case eps_rpc s of
      None \<Rightarrow> eps_advance s
    | Some rpc \<Rightarrow>
        (case session_update B (endpoint_api B C) ENDPOINT_SERVER_FUEL ([s\<lparr> eps_rpc := None \<rparr>], rpc) of
           (Ret (Ok _), (ss, rpc)) \<Rightarrow> eps_advance ((hd ss)\<lparr> eps_rpc := Some rpc \<rparr>)
         | (Ret (Err e), (ss, rpc)) \<Rightarrow> (Ret (Err (EpS_HonkRPCFailure e)), (hd ss)\<lparr> eps_rpc := Some rpc \<rparr>)
         | (Panic, (ss, rpc)) \<Rightarrow> (Panic, hd ss)
         | (OutOfFuel, (ss, rpc)) \<Rightarrow> (OutOfFuel, hd ss)))"

section \<open>Invariant\<close>

definition eps_proof_ok :: "crypto_ops \<Rightarrow> 'd endpoint_server \<Rightarrow> bool" where
  "eps_proof_ok C s \<longleftrightarrow> (\<exists>client_cookie sig key. length client_cookie = CLIENT_COOKIE_SIZE \<and>
     ed25519_public_from_service_id C (the (eps_client_identity s)) = Ok key \<and>
     ed25519_signature_verify C sig
       (build_client_proof C GoslingEndpoint (the (eps_requested_channel s)) (the (eps_client_identity s))
          (eps_server_identity s) client_cookie (the (eps_server_cookie s))) key)"

abbreviation (input) eps_stage :: "nat \<Rightarrow> bool list" where
  "eps_stage n \<equiv> replicate n True @ replicate (5 - n) False"

definition eps_judged :: "bool list \<Rightarrow> 'd endpoint_server \<Rightarrow> bool" where
  "eps_judged log s \<longleftrightarrow> log = [eps_client_requested_channel_valid s] \<and>
     (eps_client_allowed s \<longleftrightarrow> the (eps_client_identity s) = eps_allowed_client_identity s)"

definition eps_decided :: "crypto_ops \<Rightarrow> 'd endpoint_server \<Rightarrow> bool" where
  "eps_decided C s \<longleftrightarrow> (eps_handshake_succeeded s = Some True \<longrightarrow>
     eps_client_allowed s \<and> eps_client_requested_channel_valid s \<and> eps_proof_ok C s)"

definition eps_inv :: "crypto_ops \<Rightarrow> v3_onion_service_id \<Rightarrow> bool list \<Rightarrow> 'd endpoint_server \<Rightarrow> bool" where
  "eps_inv C allowed log s \<longleftrightarrow> eps_allowed_client_identity s = allowed \<and> (case eps_state s of
      EpS_WaitingForBeginHandshake \<Rightarrow> log = [] \<and> (eps_present s = eps_stage 0 \<or> eps_present s = eps_stage 3)
    | EpS_ValidatingChannelRequest \<Rightarrow> log = [] \<and> eps_present s = eps_stage 3
    | EpS_ChannelRequestValidated \<Rightarrow> eps_judged log s \<and> eps_present s = eps_stage 4
    | EpS_WaitingForSendResponse \<Rightarrow> eps_judged log s \<and> eps_present s = eps_stage 4
    | EpS_HandledSendResponse \<Rightarrow> eps_judged log s \<and> eps_present s = eps_stage 5 \<and> eps_decided C s
    | EpS_HandshakeComplete \<Rightarrow> eps_judged log s \<and> eps_present s = eps_stage 5 \<and> eps_decided C s
    | EpS_HandshakeFailed \<Rightarrow> True)"

lemma eps_frame [simp]:
  "eps_present (s\<lparr> eps_rpc := x \<rparr>) = eps_present s" "eps_present (s\<lparr> eps_state := st \<rparr>) = eps_present s"
  "eps_judged log (s\<lparr> eps_rpc := x \<rparr>) = eps_judged log s" "eps_judged log (s\<lparr> eps_state := st \<rparr>) = eps_judged log s"
  "eps_decided C (s\<lparr> eps_rpc := x \<rparr>) = eps_decided C s" "eps_decided C (s\<lparr> eps_state := st \<rparr>) = eps_decided C s"
  by (simp_all add: eps_present_def eps_judged_def eps_decided_def eps_proof_ok_def)

lemma eps_rpc_irrelevant [simp]: "eps_inv C allowed log (s\<lparr> eps_rpc := x \<rparr>) = eps_inv C allowed log s"
  by (simp add: eps_inv_def split: endpoint_server_state.split)

lemma eps_fail_Ret:
  "eps_allowed_client_identity s = allowed \<Longrightarrow> \<exists>r t. eps_fail e s = (Ret r, t) \<and> eps_inv C allowed log t"
  by (simp add: eps_fail_def eps_inv_def)

lemma eps_proof_ok_frame [simp]:
  "eps_proof_ok C (s\<lparr> eps_client_proof_signature_valid := v, eps_handshake_succeeded := b, eps_state := st \<rparr>) =
   eps_proof_ok C s"
  by (simp add: eps_proof_ok_def)

lemma eps_begin_handshake_safe:
  assumes "eps_inv C allowed log s" "eps_state s = EpS_WaitingForBeginHandshake"
    "eps_exec_present s = [False, False, False]"
  shows "\<exists>r t. eps_begin_handshake B C cookie args s = (Ret r, t) \<and> eps_inv C allowed log t"
proof -
  have a: "eps_allowed_client_identity s = allowed" using assms(1) by (simp add: eps_inv_def)
  have ok: "eps_inv C allowed log (s\<lparr> eps_client_identity := Some x,
      eps_begin_handshake_request_cookie := Some cookie, eps_requested_channel := Some y \<rparr>)" for x y
    using assms by (auto simp: eps_inv_def eps_present_def eps_exec_present_def)
  show ?thesis
    by (simp add: eps_begin_handshake_def Let_def ok eps_fail_Ret a split: prod.split option.split result.split)
qed

lemma eps_send_response_safe:
  assumes "eps_inv C allowed log s" "eps_state s = EpS_WaitingForSendResponse"
  shows "\<exists>r t. eps_send_response B C args s = (Ret r, t) \<and> eps_inv C allowed log t"
proof -
  from assms have s: "eps_allowed_client_identity s = allowed" "eps_judged log s" "eps_present s = eps_stage 4"
    by (auto simp: eps_inv_def)
  let ?msg = "\<lambda>cc. build_client_proof C GoslingEndpoint (the (eps_requested_channel s))
     (the (eps_client_identity s)) (eps_server_identity s) cc (the (eps_server_cookie s))"
  have ok: "eps_inv C allowed log (s\<lparr> eps_client_proof_signature_valid := v, eps_handshake_succeeded := Some b,
      eps_state := EpS_HandledSendResponse \<rparr>)"
    if "b \<longrightarrow> eps_client_allowed s \<and> eps_client_requested_channel_valid s \<and> eps_proof_ok C s" for v b
    using s that by (auto simp: eps_inv_def eps_judged_def eps_present_def eps_decided_def)
  have valid: "eps_proof_ok C s" if "ed25519_public_from_service_id C (the (eps_client_identity s)) = Ok k"
    "ed25519_signature_verify C sig (?msg cc) k" "length cc = CLIENT_COOKIE_SIZE" for k sig cc
    using that by (auto simp: eps_proof_ok_def)
  show ?thesis
    by (simp add: eps_send_response_def Let_def eps_fail_Ret s(1) split: prod.split option.split result.split)
      (auto intro!: ok dest: valid)
qed

lemma eps_exec_safe:
  assumes "eps_inv C allowed log s"
  shows "\<exists>r t. eps_exec_function B C f v args c s = (Ret r, t) \<and> eps_inv C allowed log t"
proof -
  have "eps_allowed_client_identity s = allowed" using assms by (simp add: eps_inv_def)
  then show ?thesis
    using assms eps_begin_handshake_safe [OF assms] eps_send_response_safe [OF assms]
    by (simp add: eps_exec_function_def eps_fail_Ret split: option.split)
qed

definition eps_pending :: "'d endpoint_server \<Rightarrow> nat" where
  "eps_pending s = (if eps_state s = EpS_ChannelRequestValidated then 1 else 0)"

lemma eps_pending_less: "eps_pending s < 2"
  by (simp add: eps_pending_def)

lemma eps_next_safe:
  assumes "eps_inv C allowed log s"
  shows "\<exists>r t. eps_next_result B s = (Ret r, t) \<and> eps_inv C allowed log t \<and>
    (r \<noteq> None \<longrightarrow> eps_pending t < eps_pending s)"
proof -
  have "eps_inv C allowed log (s\<lparr> eps_state := EpS_WaitingForSendResponse \<rparr>)"
    if "eps_state s = EpS_ChannelRequestValidated"
    using assms that by (simp add: eps_inv_def)
  moreover have "eps_pending (s\<lparr> eps_state := EpS_WaitingForSendResponse \<rparr>) < eps_pending s"
    if "eps_state s = EpS_ChannelRequestValidated"
    using that by (simp add: eps_pending_def)
  ultimately show ?thesis using assms by (simp add: eps_next_result_def split: option.split)
qed

interpretation eps: rpc_api "endpoint_api B C" eps_pending 2 "eps_inv C allowed log"
  for B :: "'d bson_ops" and C allowed log
  by unfold_locales (simp_all add: endpoint_api_def eps_exec_safe eps_next_safe [simplified] eps_pending_less)

section \<open>Reachable states\<close>

inductive eps_reach ::
  "'d bson_ops \<Rightarrow> crypto_ops \<Rightarrow> v3_onion_service_id \<Rightarrow> bool list \<Rightarrow> 'd endpoint_server \<Rightarrow> bool"
  for B C allowed where
  eps_reach_new: "eps_reach B C allowed [] (endpoint_server_new rpc allowed server_identity)"
| eps_reach_update: "eps_reach B C allowed log s \<Longrightarrow> endpoint_server_update B C s = (Ret r, t) \<Longrightarrow>
    eps_reach B C allowed log t"
| eps_reach_channel: "eps_reach B C allowed log s \<Longrightarrow>
    handle_channel_request_received random valid s = (Ret (Ok ()), t) \<Longrightarrow>
    eps_reach B C allowed (log @ [valid]) t"

lemma eps_advance_inv: "eps_inv C allowed log s \<Longrightarrow> eps_inv C allowed log (snd (eps_advance s))"
  by (cases "eps_state s") (auto simp: eps_advance_def Let_def eps_inv_def split: option.split)

lemma handle_channel_request_received_inv:
  assumes "eps_inv C allowed log s" "handle_channel_request_received random valid s = (Ret (Ok ()), t)"
  shows "eps_inv C allowed (log @ [valid]) t"
  using assms
  by (auto simp: handle_channel_request_received_def eps_inv_def eps_judged_def eps_present_def split: if_splits)

lemma endpoint_server_update_cases:
  assumes "eps_inv C allowed log s" "endpoint_server_update B C s = (Ret r, t)"
  obtains (advance) u where "eps_inv C allowed log u" "eps_advance u = (Ret r, t)"
  | (failed) e where "r = Err (EpS_HonkRPCFailure e)" "eps_inv C allowed log t"
proof (cases "eps_rpc s")
  case None
  with assms that(1) show thesis by (simp add: endpoint_server_update_def)
next
  case (Some rpc)
  let ?p = "([s\<lparr> eps_rpc := None \<rparr>], rpc)"
  obtain q ss rpc' where run: "session_update B (endpoint_api B C) ENDPOINT_SERVER_FUEL ?p = (q, (ss, rpc'))"
    by (metis prod.exhaust)
  have "eps.apis_inv C allowed log 1 ?p" using assms(1) by (simp add: eps.apis_inv_def)
  from keepsD [OF eps.session_update_keeps this run] have "eps_inv C allowed log ((hd ss)\<lparr> eps_rpc := Some rpc' \<rparr>)"
    by (cases ss) (auto simp: eps.apis_inv_def)
  then have inv: "\<And>u. u = (hd ss)\<lparr> eps_rpc := Some rpc' \<rparr> \<Longrightarrow> eps_inv C allowed log u" by simp
  from assms(2) Some run show thesis
    by (auto simp: endpoint_server_update_def split: outcome.splits result.splits intro: that inv)
qed

lemma eps_reach_inv: "eps_reach B C allowed log s \<Longrightarrow> eps_inv C allowed log s"
proof (induction rule: eps_reach.induct)
  case (eps_reach_new rpc server_identity)
  then show ?case by (simp add: eps_inv_def endpoint_server_new_def eps_present_def)
next
  case (eps_reach_update log s r t)
  from eps_reach_update.IH eps_reach_update.hyps(2) show ?case
  proof (cases rule: endpoint_server_update_cases)
    case (advance u)
    with eps_advance_inv [OF advance(1)] show ?thesis by simp
  qed simp
next
  case (eps_reach_channel log s random valid t)
  then show ?case by (simp add: handle_channel_request_received_inv)
qed

lemma eps_advance_completed:
  assumes "eps_inv C allowed log u" "eps_advance u = (Ret (Ok (Some (EpS_HandshakeCompleted client channel st))), t)"
  shows "client = allowed" "log = [True]" "eps_proof_ok C t"
    "eps_client_identity t = Some client" "eps_requested_channel t = Some channel" "eps_rpc t = None"
proof -
  from assms(2) have st: "eps_state u = EpS_HandledSendResponse" "eps_present u = [True, True, True, True, True]"
    "the (eps_handshake_succeeded u)" and t: "t = u\<lparr> eps_state := EpS_HandshakeComplete, eps_rpc := None \<rparr>"
    and ev: "client = the (eps_client_identity u)" "channel = the (eps_requested_channel u)"
    by (auto simp: eps_advance_def Let_def split: if_splits option.splits)
  from st(2,3) have some: "eps_handshake_succeeded u = Some True" by (auto simp: eps_present_def is_some_def)
  from assms(1) st(1) have inv: "eps_allowed_client_identity u = allowed" "eps_judged log u" "eps_decided C u"
    by (auto simp: eps_inv_def)
  have "eps_proof_ok C t \<longleftrightarrow> eps_proof_ok C u" by (simp add: t eps_proof_ok_def)
  with some ev inv show "client = allowed" "log = [True]" "eps_proof_ok C t"
    by (auto simp: eps_judged_def eps_decided_def)
  from st(2) ev show "eps_client_identity t = Some client" "eps_requested_channel t = Some channel" "eps_rpc t = None"
    by (auto simp: eps_present_def is_some_def t)
qed

text \<open>No panic: the session is there whenever its stream is taken.\<close>

definition eps_ok :: "crypto_ops \<Rightarrow> v3_onion_service_id \<Rightarrow> bool list \<Rightarrow> 'd endpoint_server \<Rightarrow> bool" where
  "eps_ok C allowed log s \<longleftrightarrow> eps_inv C allowed log s \<and> (eps_rpc s = None \<longrightarrow> eps_state s = EpS_HandshakeComplete)"

lemma eps_advance_rpc:
  "eps_rpc s = None \<longrightarrow> eps_state s = EpS_HandshakeComplete \<Longrightarrow>
   \<exists>r t. eps_advance s = (Ret r, t) \<and> (eps_rpc t = None \<longrightarrow> eps_state t = EpS_HandshakeComplete)"
  by (auto simp: eps_advance_def Let_def split: option.splits)

lemma endpoint_server_update_returns:
  assumes "bson_laws B" "bson_size_laws B" "eps_ok C allowed log s"
    and "\<forall>rpc. eps_rpc s = Some rpc \<longrightarrow> session_ok B rpc"
  shows "\<exists>r t. endpoint_server_update B C s = (Ret r, t)"
proof (cases "eps_rpc s")
  case None
  with assms(3) eps_advance_rpc [of s] show ?thesis by (auto simp: endpoint_server_update_def eps_ok_def)
next
  case (Some rpc)
  let ?p = "([s\<lparr> eps_rpc := None \<rparr>], rpc)"
  have h: "eps.handled C allowed log B 1 ?p"
    unfolding eps.handled_def using assms(3,4) Some by (simp add: eps_ok_def)
  have "2 \<le> ENDPOINT_SERVER_FUEL" by (simp add: ENDPOINT_SERVER_FUEL_def)
  from eps.session_update_returns [OF assms(1,2) this h] obtain q ss rpc' where
    run: "session_update B (endpoint_api B C) ENDPOINT_SERVER_FUEL ?p = (Ret q, (ss, rpc'))"
    by (metis prod.exhaust)
  from Some run eps_advance_rpc [of "(hd ss)\<lparr> eps_rpc := Some rpc' \<rparr>"] show ?thesis
    by (cases q) (auto simp: endpoint_server_update_def)
qed

lemma eps_reach_ok: "eps_reach B C allowed log s \<Longrightarrow> eps_ok C allowed log s"
proof (induction rule: eps_reach.induct)
  case (eps_reach_new rpc server_identity)
  then show ?case
    using eps_reach_inv [OF eps_reach.eps_reach_new [of B C allowed rpc server_identity]]
    by (simp add: eps_ok_def endpoint_server_new_def)
next
  case (eps_reach_update log s r t)
  have "eps_rpc t = None \<longrightarrow> eps_state t = EpS_HandshakeComplete"
  proof (cases "eps_rpc s")
    case None
    with eps_reach_update eps_advance_rpc [of s] show ?thesis
      by (auto simp: eps_ok_def endpoint_server_update_def)
  next
    case (Some rpc)
    obtain q ss rpc' where run: "session_update B (endpoint_api B C) ENDPOINT_SERVER_FUEL
        ([s\<lparr> eps_rpc := None \<rparr>], rpc) = (q, (ss, rpc'))" by (metis prod.exhaust)
    with Some eps_reach_update.hyps(2) eps_advance_rpc [of "(hd ss)\<lparr> eps_rpc := Some rpc' \<rparr>"] show ?thesis
      by (auto simp: endpoint_server_update_def split: outcome.splits result.splits)
  qed
  with eps_reach_inv [OF eps_reach.eps_reach_update [OF eps_reach_update.hyps]] show ?case by (simp add: eps_ok_def)
next
  case (eps_reach_channel log s random valid t)
  from eps_reach_channel.hyps(2) have "eps_rpc t = eps_rpc s" "eps_state s = EpS_ValidatingChannelRequest"
    by (auto simp: handle_channel_request_received_def split: if_splits)
  with eps_reach_channel eps_reach_inv [OF eps_reach.eps_reach_channel [OF eps_reach_channel.hyps]]
  show ?case by (auto simp: eps_ok_def)
qed

section \<open>The server's own identity\<close>

lemma eps_exec_server: "eps_server_identity (snd (eps_exec_function B C f v args c s)) = eps_server_identity s"
  by (simp add: eps_exec_function_def eps_begin_handshake_def eps_send_response_def
      eps_fail_def Let_def split: prod.split option.split result.split)

lemma eps_next_server: "eps_server_identity (snd (eps_next_result B s)) = eps_server_identity s"
  by (simp add: eps_next_result_def Let_def split: option.split)

interpretation eps_own: api_invariant "endpoint_api B C" "\<lambda>s. eps_server_identity s = me"
  for B :: "'d bson_ops" and C me
  by unfold_locales (simp_all add: endpoint_api_def eps_exec_server eps_next_server)

lemma endpoint_server_update_server:
  assumes "endpoint_server_update B C s = (Ret r, t)"
  shows "eps_server_identity t = eps_server_identity s"
proof -
  have adv: "eps_server_identity (snd (eps_advance u)) = eps_server_identity u" for u :: "'a endpoint_server"
    by (simp add: eps_advance_def Let_def split: option.split)
  show ?thesis
  proof (cases "eps_rpc s")
    case None
    with assms adv [of s] show ?thesis by (simp add: endpoint_server_update_def)
  next
    case (Some rpc)
    let ?p = "([s\<lparr> eps_rpc := None \<rparr>], rpc)"
    obtain q ss rpc' where run: "session_update B (endpoint_api B C) ENDPOINT_SERVER_FUEL ?p = (q, (ss, rpc'))"
      by (metis prod.exhaust)
    have "eps_own.apis_inv (eps_server_identity s) 1 ?p" by (simp add: eps_own.apis_inv_def)
    from keepsD [OF eps_own.session_update_keeps this run] have "eps_server_identity (hd ss) = eps_server_identity s"
      by (cases ss) (auto simp: eps_own.apis_inv_def)
    with assms Some run adv [of "(hd ss)\<lparr> eps_rpc := Some rpc' \<rparr>"] show ?thesis
      by (auto simp: endpoint_server_update_def split: outcome.splits result.splits)
  qed
qed

end
