(* ===== verification/Handshakes.thy ===== *)
theory Handshakes
  imports Identity_Client Identity_Server Endpoint_Client Endpoint_Server
begin

text \<open>
  Client and server of each handshake against each other: what an honest client sends is
  accepted by the server and passes its checks, what the server answers is understood by the
  client, and the size checks made before a message is queued are sufficient.
\<close>

section \<open>Identity handshake\<close>

lemma doc_remove_simps:
  "bson_laws B \<Longrightarrow> fst (doc_remove B d k) = doc_get B d k"
  "bson_laws B \<Longrightarrow> j \<noteq> k \<Longrightarrow> doc_get B (snd (doc_remove B d k)) j = doc_get B d j"
  by (simp_all add: bson_rules)

lemma identity_begin_accepted:
  assumes "bson_laws B" "codec_laws C" "signature_laws C" "signing_key C (idc_client_identity_ed25519_private c)"
    and "idc_client_service_id c = service_id_from_private_key C (idc_client_identity_ed25519_private c)"
    and "is_ascii (ascii_value (idc_requested_endpoint c))"
    and "ids_state s = IdS_WaitingForBeginHandshake" "ids_present s = replicate 9 False"
  shows "ids_exec_function B C ''begin_handshake'' 0 (begin_handshake_args B c) (Some cookie) s =
    (Ret None, s\<lparr> ids_begin_handshake_request_cookie := Some cookie,
       ids_client_identity := Some (idc_client_service_id c),
       ids_requested_endpoint := Some (idc_requested_endpoint c) \<rparr>)"
proof -
  have "ids_exec_present s = [False, False, False, False, False, False, False, False]"
    using assms(8) by (simp add: ids_present_def ids_exec_present_def)
  moreover have "service_id_from_string C (service_id_to_string (idc_client_service_id c)) = Ok (idc_client_service_id c)"
    using own_service_id(1) [OF assms(2-4)] assms(5) by simp
  moreover have "ascii_string_new (ascii_value (idc_requested_endpoint c)) = Ok (idc_requested_endpoint c)"
    using assms(6) by (simp add: ascii_string_new_def)
  ultimately show ?thesis using assms(7)
    by (simp add: ids_exec_function_def ids_begin_handshake_def split_beta Let_def
        doc_remove_simps [OF assms(1)] begin_handshake_args_def doc_get_doc_of [OF assms(1)] del: doc_of_simps)
qed

lemma signature_eta: "\<lparr> signature = signature z \<rparr> = z" for z :: ed25519_signature
  by simp

lemma x_public_key_eta: "\<lparr> x_public_key = x_public_key z \<rparr> = z" for z :: x25519_public_key
  by simp

text \<open>The argument list of \<open>send_response\<close> by its typed parts.\<close>

definition response_doc :: "'d bson_ops \<Rightarrow> bytes \<Rightarrow> bytes \<Rightarrow> bytes \<Rightarrow> bool \<Rightarrow> bytes \<Rightarrow> 'd \<Rightarrow> 'd" where
  "response_doc B cc ps ak sb as cr = doc_of B
     [(''client_cookie'', BBinary Generic cc), (''client_identity_proof_signature'', BBinary Generic ps),
      (''client_authorization_key'', BBinary Generic ak), (''client_authorization_key_signbit'', BBoolean sb),
      (''client_authorization_signature'', BBinary Generic as), (''challenge_response'', BDocument cr)]"

lemma ids_send_response_doc:
  assumes "bson_laws B"
  shows "ids_send_response B C cookie (response_doc B cc ps ak sb as cr) s = ids_accept_response C cookie cc ps ak sb as cr s"
  by (simp del: doc_of_simps add: ids_send_response_def response_doc_def split_beta Let_def
      doc_remove_simps [OF assms] doc_get_doc_of [OF assms])

lemma ids_accept_response_sizes:
  assumes "length cc = CLIENT_COOKIE_SIZE" "length ps = 64" "length ak = 32" "length as = 64"
  shows "ids_accept_response C cookie cc ps ak sb as cr s = (Ret None, ids_record_response C cookie cc
     \<lparr> signature = ps \<rparr> \<lparr> x_public_key = ak \<rparr> (sign_bit_from_bool sb) \<lparr> signature = as \<rparr> cr s)"
  using assms
  by (simp add: ids_accept_response_def ed25519_signature_from_raw_def x25519_public_from_raw_def crypto_sizes Let_def)

lemma ids_record_response_valid:
  assumes "ids_client_identity s = Some client" "ed25519_public_from_service_id C client = Ok key"
    and "ed25519_signature_verify C ps (build_client_proof C GoslingIdentity (the (ids_requested_endpoint s))
       client (ids_server_identity s) cc (the (ids_server_cookie s))) key"
    and "ed25519_signature_verify_x25519 C as (service_id_as_bytes client) ak sb"
  shows "ids_record_response C cookie cc ps ak sb as cr s =
    s\<lparr> ids_send_response_request_cookie := Some cookie,
       ids_client_proof_signature_valid := True, ids_client_auth_signature_valid := True,
       ids_client_auth_key := Some ak, ids_challenge_response := Some cr \<rparr>"
  using assms by (simp add: ids_record_response_def Let_def)

lemma identity_response_accepted:
  assumes "bson_laws B" "codec_laws C" "signature_laws C"
    and new: "identity_client_new C rpc srv ep k x = Ok c" "signing_key C k"
    and "length cc = CLIENT_COOKIE_SIZE" "ids_state s = IdS_WaitingForSendResponse"
    and "ids_exec_present s = [True, True, True, True, True, False, False, False]"
    and "ids_client_identity s = Some (idc_client_service_id c)" "ids_requested_endpoint s = Some ep"
    and "ids_server_identity s = srv" "ids_server_cookie s = Some sc"
  shows "ids_exec_function B C ''send_response'' 0 (send_response_args B C cc sc resp c) (Some cookie) s =
    (Ret None, s\<lparr> ids_send_response_request_cookie := Some cookie,
       ids_client_proof_signature_valid := True, ids_client_auth_signature_valid := True,
       ids_client_auth_key := Some (x25519_public_from_private_key C x),
       ids_challenge_response := Some resp \<rparr>)"
proof -
  from new(1) obtain sk b where sk: "ed25519_private_from_private_x25519 C x = Ok (sk, b)"
    and c: "idc_client_service_id c = service_id_from_private_key C k" "idc_requested_endpoint c = ep"
      "idc_server_service_id c = srv" "idc_client_identity_ed25519_private c = k"
      "idc_client_authorization_key_private c = x" "idc_client_authorization_signing_key_private c = (sk, b)"
    by (auto simp: identity_client_new_def split: result.splits)
  let ?client = "service_id_from_private_key C k" and ?x = "x25519_public_from_private_key C x"
  let ?ps = "ed25519_private_sign_message C k (build_client_proof C GoslingIdentity ep ?client srv cc sc)"
  let ?as = "ed25519_private_sign_message C sk (service_id_as_bytes ?client)"
  have args: "send_response_args B C cc sc resp c =
      response_doc B cc (signature ?ps) (x_public_key ?x) (sign_bit_into_bool b) (signature ?as) resp"
    by (simp add: send_response_args_def response_doc_def Let_def c ed25519_signature_to_bytes_def
        x25519_public_as_bytes_def service_id_as_bytes_def service_id_to_string_def del: doc_of_simps)
  note xs = x25519_signing_key [OF assms(3) sk] and auth = x25519_sign_verifies [OF assms(3) sk]
  have sb: "sign_bit_from_bool (sign_bit_into_bool b) = b" by (cases b) (simp_all add: sign_bit_from_bool_def)
  have lens: "length (signature ?ps) = 64" "length (x_public_key ?x) = 32" "length (signature ?as) = 64"
    using signing_keyD(3) [OF assms(3) new(2)] xs(2) signing_keyD(3) [OF assms(3) xs(1)] by auto
  have acc: "ids_exec_function B C ''send_response'' 0 (send_response_args B C cc sc resp c) (Some cookie) s =
      (Ret None, ids_record_response C cookie cc ?ps ?x b ?as resp s)"
    using assms(7,8) ids_accept_response_sizes [OF assms(6) lens, of C cookie "sign_bit_into_bool b" resp s] sb
    by (simp add: args ids_exec_function_def ids_send_response_doc [OF assms(1)] signature_eta x_public_key_eta)
  have id: "ids_client_identity s = Some ?client" using assms(9) c by simp
  have "ids_record_response C cookie cc ?ps ?x b ?as resp s = s\<lparr> ids_send_response_request_cookie := Some cookie,
       ids_client_proof_signature_valid := True, ids_client_auth_signature_valid := True,
       ids_client_auth_key := Some ?x, ids_challenge_response := Some resp \<rparr>"
    by (rule ids_record_response_valid [OF id own_service_id(2) [OF assms(2,3) new(2)] _ auth])
      (use assms(10-12) signing_keyD(4) [OF assms(3) new(2)] in simp)
  with acc show ?thesis by simp
qed

lemma identity_challenge_understood:
  assumes "bson_laws B" "length sc = SERVER_COOKIE_SIZE"
  shows "begin_handshake_result cookie (RSuccess cookie (Some (challenge_result B sc ch))) =
      Ok (doc_of B [(''server_cookie'', BBinary Generic sc), (''endpoint_challenge'', BDocument ch)])"
    "idc_receive_challenge B (doc_of B [(''server_cookie'', BBinary Generic sc), (''endpoint_challenge'', BDocument ch)]) c =
      (Ret (Ok (Some (IdC_ChallengeReceived ch))),
       c\<lparr> idc_server_cookie := Some sc, idc_state := IdC_WaitingForChallengeResponse \<rparr>)"
  using assms
  by (simp_all add: begin_handshake_result_def challenge_result_def idc_receive_challenge_def doc_get_doc_of del: doc_of_simps)

lemma identity_key_understood:
  assumes "codec_laws C" "signature_laws C" "signing_key C k"
  shows "idc_finish C cookie (RSuccess cookie (Some (BString (service_id_to_string (service_id_from_private_key C k))))) c =
    (Ret (Ok (Some (IdC_HandshakeCompleted (idc_server_service_id c) (service_id_from_private_key C k)
       (ascii_value (idc_requested_endpoint c)) (idc_client_authorization_key_private c)))),
     c\<lparr> idc_state := IdC_HandshakeComplete \<rparr>)"
  using own_service_id(1) [OF assms] by (simp add: idc_finish_def)

text \<open>The size of the arguments depends on the challenge response only.\<close>

lemma response_doc_size:
  assumes "bson_laws B" "bson_size_laws B" "length cc = 32" "length ps = 64" "length ak = 32" "length as = 64"
    "length cc' = 32" "length ps' = 64" "length ak' = 32" "length as' = 64"
    and "serialises B (response_doc B cc ps ak sb as cr)"
  shows "serialises B (response_doc B cc' ps' ak' sb' as' cr) \<and>
    doc_size B (response_doc B cc' ps' ak' sb' as' cr) = doc_size B (response_doc B cc ps ak sb as cr)"
proof -
  let ?l = "\<lambda>cc ps ak sb as. [(''client_cookie'', BBinary Generic cc), (''client_identity_proof_signature'', BBinary Generic ps),
      (''client_authorization_key'', BBinary Generic ak), (''client_authorization_key_signbit'', BBoolean sb),
      (''client_authorization_signature'', BBinary Generic as), (''challenge_response'', BDocument cr)]"
  have d: "distinct (map fst (?l cc ps ak sb as))" "list_all no_nul (map fst (?l cc ps ak sb as))" for cc ps ak sb as
    by (simp_all add: no_nul_def)
  have r: "serialises B (response_doc B cc' ps' ak' sb' as' cr)"
    using assms(11) doc_of_size(1) [OF assms(1,2) d] by (simp add: response_doc_def del: doc_of_simps)
  have "entries_size B (?l cc ps ak sb as) = entries_size B (?l cc' ps' ak' sb' as')"
    using assms(3-10) by (simp add: entries_size_def)
  with r assms(11) doc_of_size(2) [OF assms(1,2) d] show ?thesis
    unfolding response_doc_def by metis
qed

lemma send_response_fits:
  assumes "bson_laws B" "bson_size_laws B" "signature_laws C"
    and "signing_key C (idc_client_identity_ed25519_private s)"
    and sk: "ed25519_private_from_private_x25519 C (idc_client_authorization_key_private s) =
      Ok (idc_client_authorization_signing_key_private s)"
    and "length random = CLIENT_COOKIE_SIZE" "send_response B resp s = (Ret (Ok ()), t)"
    and rpc: "max_message_size rpc = max_message_size (idc_rpc s)"
  shows "\<exists>u. idc_respond B C random sc resp (t\<lparr> idc_rpc := rpc \<rparr>) = (Ret (Ok None), u) \<and>
    idc_state u = IdC_WaitingForChallengeVerification \<and>
    idc_send_response_request_cookie u = Some (next_cookie rpc) \<and>
    outbound_sections (idc_rpc u) = outbound_sections rpc @ [section_into B (SRequest
      \<lparr> rq_cookie = Some (next_cookie rpc), rq_namespace = ''gosling_identity'', rq_function = ''send_response'',
        rq_version = 0, rq_arguments = send_response_args B C random sc resp s \<rparr>)]"
proof -
  obtain n where n: "get_request_section_size B (Some 0) (Some ''gosling_identity'') ''send_response'' (Some 0)
      (Some (response_doc B (replicate 32 0) (replicate 64 0) (replicate 32 0) False (replicate 64 0) resp)) = Ok n"
    "MIN_MESSAGE_SIZE + n \<le> max_message_size (idc_rpc s)"
    and t: "t = s\<lparr> idc_endpoint_challenge_response := Some resp \<rparr>"
    using assms(7) unfolding send_response_def message_overhead_value [OF assms(1,2)]
    by (auto simp del: doc_of_simps simp: Let_def crypto_sizes CLIENT_COOKIE_SIZE_def response_doc_def
        get_max_message_size_def split: if_splits result.splits)
  obtain sk b where skb: "idc_client_authorization_signing_key_private s = (sk, b)" by fastforce
  note xs = x25519_signing_key [OF assms(3) sk [unfolded skb]]
  let ?ps = "signature (ed25519_private_sign_message C (idc_client_identity_ed25519_private s)
     (build_client_proof C GoslingIdentity (idc_requested_endpoint s) (idc_client_service_id s) (idc_server_service_id s) random sc))"
  let ?as = "signature (ed25519_private_sign_message C sk (as_bytes (service_id_to_string (idc_client_service_id s))))"
  let ?ak = "x_public_key (x25519_public_from_private_key C (idc_client_authorization_key_private s))"
  let ?args = "send_response_args B C random sc resp s"
  have args: "?args = response_doc B random ?ps ?ak (sign_bit_into_bool b) ?as resp"
    by (simp add: send_response_args_def response_doc_def Let_def skb ed25519_signature_to_bytes_def
        x25519_public_as_bytes_def del: doc_of_simps)
  have lens: "length random = 32" "length ?ps = 64" "length ?ak = 32" "length ?as = 64"
    using assms(6) signing_keyD(3) [OF assms(3,4)] xs(2) signing_keyD(3) [OF assms(3) xs(1)]
    by (simp_all add: CLIENT_COOKIE_SIZE_def)
  let ?sec = "SRequest \<lparr> rq_cookie = Some (next_cookie rpc), rq_namespace = ''gosling_identity'',
     rq_function = ''send_response'', rq_version = 0, rq_arguments = ?args \<rparr>"
  have "count_document B (section_into B ?sec) = Ok (n - 13)"
    by (rule request_estimate(1) [OF assms(1,2) _ n(1)], simp,
        simp only: args, rule response_doc_size [OF assms(1,2) _ _ _ _ lens], simp_all)
  then have push: "push_outbound_section B ?sec (rpc\<lparr> next_cookie := next_cookie rpc + 1 \<rparr>) = (Ret (Ok ()),
      rpc\<lparr> next_cookie := next_cookie rpc + 1, outbound_sections := outbound_sections rpc @ [section_into B ?sec] \<rparr>)"
    using push_outbound_section_fits [of B ?sec "n - 13" "rpc\<lparr> next_cookie := next_cookie rpc + 1 \<rparr>"] n(2) rpc
    by simp
  have same: "send_response_args B C random sc resp (t\<lparr> idc_rpc := rpc \<rparr>) = ?args"
    by (simp add: t send_response_args_def Let_def del: doc_of_simps)
  show ?thesis unfolding idc_respond_def same
    using push by (simp add: idc_call_def client_call_def action_defs Let_def)
qed

lemma challenge_fits:
  assumes "bson_laws B" "bson_size_laws B"
    and "handle_endpoint_request_received B random allowed valid challenge s = (Ret (Ok ()), t)"
    and "ids_rpc s = Some rpc" "max_message_size rpc' = max_message_size rpc"
    and unsent: "ids_send_response_request_cookie s = None"
  shows "\<exists>cookie r u. ids_next_result B C generated t = (Ret (Some (cookie, r)), u) \<and>
     ids_begin_handshake_request_cookie s = Some cookie \<and> r = Ok (Some (challenge_result B random challenge)) \<and>
     fst (push_outbound_section B (async_section cookie r) rpc') = Ret (Ok ())"
proof -
  from assms(3,4) have st: "ids_exec_present s = [True, True, True, False, False, False, False, False]"
    and t: "t = s\<lparr> ids_server_cookie := Some random, ids_endpoint_challenge := Some challenge,
       ids_client_allowed := allowed, ids_client_requested_endpoint_valid := valid, ids_state := IdS_ChallengeReady \<rparr>"
    by (auto simp: handle_endpoint_request_received_def Let_def split: option.splits if_splits result.splits)
  obtain n where n: "get_response_section_size B (Some (challenge_result B random challenge)) = Ok n"
      "MIN_MESSAGE_SIZE + n \<le> max_message_size rpc"
    using assms(3,4) message_overhead_value [OF assms(1,2)]
    by (auto simp: handle_endpoint_request_received_def Let_def get_max_message_size_def
        split: option.splits if_splits result.splits)
  from st obtain cookie where cookie: "ids_begin_handshake_request_cookie s = Some cookie"
    by (auto simp: ids_exec_present_def is_some_def)
  have "fst (push_outbound_section B (async_section cookie (Ok (Some (challenge_result B random challenge)))) rpc') = Ret (Ok ())"
    using push_outbound_section_fits [OF response_estimate [OF assms(1,2) n(1), of cookie], of rpc'] n(2) assms(5)
    by (simp add: async_section_def)
  moreover have "ids_next_present t = [True, True, True, True, True, False, False, False]"
    using st unsent by (simp add: t ids_next_present_def ids_exec_present_def)
  ultimately show ?thesis using cookie by (simp add: ids_next_result_def t)
qed

section \<open>Endpoint handshake\<close>

lemma endpoint_begin_accepted:
  assumes "bson_laws B" "codec_laws C" "signature_laws C" "signing_key C k" "is_ascii (ascii_value channel)"
    and "c = endpoint_client_new C rpc srv channel k"
    and "eps_state s = EpS_WaitingForBeginHandshake" "eps_exec_present s = [False, False, False]"
  shows "eps_exec_function B C ''begin_handshake'' 0 (channel_handshake_args B c) (Some cookie) s =
    (Ret None, s\<lparr> eps_client_identity := Some (service_id_from_private_key C k),
       eps_begin_handshake_request_cookie := Some cookie, eps_requested_channel := Some channel \<rparr>)"
proof -
  have c: "epc_client_service_id c = service_id_from_private_key C k" "epc_requested_channel c = channel"
    using assms(6) by (simp_all add: endpoint_client_new_def)
  have "ascii_string_new (ascii_value channel) = Ok channel" using assms(5) by (simp add: ascii_string_new_def)
  with own_service_id(1) [OF assms(2-4)] c show ?thesis using assms(7,8)
    by (simp add: eps_exec_function_def eps_begin_handshake_def split_beta Let_def
        doc_remove_simps [OF assms(1)] channel_handshake_args_def doc_get_doc_of [OF assms(1)] del: doc_of_simps)
qed

lemma endpoint_response_accepted:
  assumes "bson_laws B" "codec_laws C" "signature_laws C" "signing_key C k" "length cc = CLIENT_COOKIE_SIZE"
    and "c = endpoint_client_new C rpc srv channel k"
    and "eps_state s = EpS_WaitingForSendResponse" "eps_client_identity s = Some (service_id_from_private_key C k)"
    and "eps_requested_channel s = Some channel" "eps_server_cookie s = Some sc" "eps_server_identity s = srv"
  shows "eps_exec_function B C ''send_response'' 0 (channel_response_args B C cc sc c) (Some cookie) s =
    (let ok = eps_client_allowed s \<and> eps_client_requested_channel_valid s in
     (Ret (Some (if ok then Ok (Some (BDocument (doc_new B))) else Err (rpc_failure Failure))),
      s\<lparr> eps_client_proof_signature_valid := True, eps_handshake_succeeded := Some ok,
         eps_state := EpS_HandledSendResponse \<rparr>))"
proof -
  have c: "epc_client_service_id c = service_id_from_private_key C k" "epc_requested_channel c = channel"
    "epc_server_service_id c = srv" "epc_client_ed25519_private c = k"
    using assms(6) by (simp_all add: endpoint_client_new_def)
  let ?m = "build_client_proof C GoslingEndpoint channel (service_id_from_private_key C k) srv cc sc"
  let ?sig = "ed25519_private_sign_message C k ?m"
  have args: "channel_response_args B C cc sc c = doc_of B
      [(''client_cookie'', BBinary Generic cc), (''client_identity_proof_signature'', BBinary Generic (signature ?sig))]"
    by (simp add: channel_response_args_def Let_def c ed25519_signature_to_bytes_def del: doc_of_simps)
  have "eps_send_response B C (channel_response_args B C cc sc c) s =
    (let ok = eps_client_allowed s \<and> eps_client_requested_channel_valid s in
     (Ret (Some (if ok then Ok (Some (BDocument (doc_new B))) else Err (rpc_failure Failure))),
      s\<lparr> eps_client_proof_signature_valid := True, eps_handshake_succeeded := Some ok,
         eps_state := EpS_HandledSendResponse \<rparr>))"
    unfolding args
    using assms(5,8-11) own_service_id(2) [OF assms(2-4)] signing_keyD(3,4) [OF assms(3,4), of ?m]
    by (simp add: eps_send_response_def split_beta Let_def doc_remove_simps [OF assms(1)]
        doc_get_doc_of [OF assms(1)] ed25519_signature_from_raw_def signature_eta crypto_sizes del: doc_of_simps)
  moreover have "eps_exec_present s = [True, True, True]" using assms(8-10) by (simp add: eps_exec_present_def)
  ultimately show ?thesis using assms(7) by (simp add: eps_exec_function_def)
qed

lemma endpoint_success_understood:
  assumes "bson_laws B"
  shows "epc_finish B rpc (Some (BDocument (doc_new B))) c =
    (Ret (Ok (Some (EpC_HandshakeCompleted (stream rpc)))), c\<lparr> epc_state := EpC_HandshakeComplete, epc_rpc := None \<rparr>)"
  using assms by (simp add: epc_finish_def into_stream_def bson_rules)

end
