(* ===== verification/Text_Parsing.thy ===== *)
theory Text_Parsing
  imports Bson_Interface
begin

text \<open>
  The string functions of the standard library that the parsers of the Tor interface use:
  \<open>split\<close> at an ASCII character, \<open>parse\<close> of unsigned numbers, white space, prefixes and suffixes.
  A string is its UTF-8 bytes.
\<close>

section \<open>Splitting\<close>

fun split_on :: "char \<Rightarrow> string \<Rightarrow> string list" where
  "split_on c [] = [[]]"
| "split_on c (x # xs) = (if x = c then [] # split_on c xs
     else case split_on c xs of w # ws \<Rightarrow> (x # w) # ws | [] \<Rightarrow> [[x]])"

lemma split_on_not_Nil [simp]: "split_on c xs \<noteq> []"
  by (induction xs) (auto split: list.splits)

lemma split_on_word: "c \<notin> set xs \<Longrightarrow> split_on c xs = [xs]"
  by (induction xs) auto

lemma split_on_append: "c \<notin> set xs \<Longrightarrow> split_on c (xs @ c # ys) = xs # split_on c ys"
  by (induction xs) auto

lemma split_on_parts: "w \<in> set (split_on c xs) \<Longrightarrow> c \<notin> set w"
  by (induction xs arbitrary: w) (auto split: list.splits if_splits)

text \<open>\<open>split\<close> is the inverse of joining words without the separator.\<close>

fun join_with :: "string \<Rightarrow> string list \<Rightarrow> string" where
  "join_with sep [] = []"
| "join_with sep [w] = w"
| "join_with sep (w # v # ws) = w @ sep @ join_with sep (v # ws)"

lemma split_on_join: "ws \<noteq> [] \<Longrightarrow> \<forall>w\<in>set ws. c \<notin> set w \<Longrightarrow> split_on c (join_with [c] ws) = ws"
  by (induction "[c]" ws rule: join_with.induct) (simp_all add: split_on_word split_on_append)

lemma join_split_on: "join_with [c] (split_on c xs) = xs"
proof (induction xs)
  case (Cons x xs)
  obtain w ws where "split_on c xs = w # ws" by (cases "split_on c xs") auto
  with Cons show ?case by (cases ws) auto
qed simp

section \<open>Characters\<close>

definition is_digit :: "char \<Rightarrow> bool" where
  "is_digit c \<longleftrightarrow> 48 \<le> (of_char c :: nat) \<and> (of_char c :: nat) \<le> 57"

text \<open>
  White space as Unicode defines it: the ASCII characters, and the encodings of the others. No
  proper part of the encoding of a character is the encoding of one.
\<close>

definition wide_spaces :: "string list" where
  "wide_spaces = map (map char_of) ([[194, 133], [194, 160], [225, 154, 128], [226, 128, 168], [226, 128, 169],
     [226, 128, 175], [226, 129, 159], [227, 128, 128]] @ map (\<lambda>n. [226, 128, n]) [128..<139] :: nat list list)"

definition space_here :: "string \<Rightarrow> bool" where
  "space_here s \<longleftrightarrow> (\<exists>w\<in>set (map (\<lambda>n. [char_of n]) [9, 10, 11, 12, 13, 32 :: nat] @ wide_spaces). starts_with s w)"

fun has_whitespace :: "string \<Rightarrow> bool" where
  "has_whitespace [] = False"
| "has_whitespace (c # cs) \<longleftrightarrow> space_here (c # cs) \<or> has_whitespace cs"

lemma has_whitespace_space: "CHR '' '' \<in> set s \<Longrightarrow> has_whitespace s"
proof (induction s)
  case (Cons c s)
  have "char_of (32 :: nat) = CHR '' ''" by code_simp
  then have "space_here (CHR '' '' # s)" by (simp add: space_here_def starts_with_def)
  with Cons show ?case by auto
qed simp

definition ends_with :: "string \<Rightarrow> string \<Rightarrow> bool" where
  "ends_with s p \<longleftrightarrow> starts_with (rev s) (rev p)"

section \<open>Unsigned numbers\<close>

definition digit_value :: "char \<Rightarrow> nat" where
  "digit_value c = of_char c - 48"

definition digits_value :: "string \<Rightarrow> nat" where
  "digits_value s = foldl (\<lambda>n c. 10 * n + digit_value c) 0 s"

text \<open>\<open>parse\<close> of an unsigned type of \<open>w\<close> bits: an optional plus sign and at least one digit.\<close>

definition parse_unsigned :: "nat \<Rightarrow> string \<Rightarrow> nat option" where
  "parse_unsigned w s =
     (let ds = (case s of CHR ''+'' # r \<Rightarrow> r | _ \<Rightarrow> s) in
      if ds = [] \<or> \<not> list_all is_digit ds then None
      else if digits_value ds < 2 ^ w then Some (digits_value ds) else None)"

lemma digit_char:
  assumes "n < 10" shows "(of_char (char_of (n + 48) :: char) :: nat) = n + 48"
  using assms by (simp add: of_char_of)

lemma decimal_digits: "list_all is_digit (decimal n)" "decimal n \<noteq> []"
proof -
  show "list_all is_digit (decimal n)"
  proof (induction n rule: decimal.induct)
    case (1 n)
    have "is_digit (char_of (n mod 10 + 48))" using digit_char [of "n mod 10"] by (simp add: is_digit_def)
    moreover have "n < 10 \<Longrightarrow> is_digit (char_of (n + 48))" using digit_char [of n] by (simp add: is_digit_def)
    ultimately show ?case using 1 by (subst decimal.simps) simp
  qed
  show "decimal n \<noteq> []" by (subst decimal.simps) simp
qed

lemma digits_value_append: "digits_value (s @ [c]) = 10 * digits_value s + digit_value c"
  by (simp add: digits_value_def)

lemma digits_value_decimal: "digits_value (decimal n) = n"
proof (induction n rule: decimal.induct)
  case (1 n)
  show ?case
  proof (cases "n < 10")
    case True
    then show ?thesis by (subst decimal.simps) (simp add: digits_value_def digit_value_def digit_char)
  next
    case False
    have m: "digit_value (char_of (n mod 10 + 48)) = n mod 10"
      using digit_char [of "n mod 10"] by (simp add: digit_value_def)
    from False 1 have "digits_value (decimal (n div 10)) = n div 10" by simp
    with False m show ?thesis by (subst decimal.simps) (simp add: digits_value_append)
  qed
qed

lemma not_digit: "\<not> is_digit (CHR ''+'')" "\<not> is_digit (CHR ''-'')" "\<not> is_digit (CHR ''.'')" "\<not> is_digit (CHR '' '')"
  by (simp_all add: is_digit_def)

lemma decimal_free: "\<not> is_digit c \<Longrightarrow> c \<notin> set (decimal n)"
  using decimal_digits(1) [of n] by (auto simp: list_all_iff)

lemma parse_decimal: "n < 2 ^ w \<Longrightarrow> parse_unsigned w (decimal n) = Some n"
proof -
  assume n: "n < 2 ^ w"
  have "hd (decimal n) \<noteq> CHR ''+''" using decimal_free [OF not_digit(1), of n] decimal_digits(2) [of n] by (metis list.set_sel(1))
  then have "(case decimal n of CHR ''+'' # r \<Rightarrow> r | _ \<Rightarrow> decimal n) = decimal n"
    by (cases "decimal n") (auto split: char.splits bool.splits)
  with n decimal_digits [of n] digits_value_decimal [of n] show ?thesis by (simp add: parse_unsigned_def)
qed

lemma parse_unsigned_less: "parse_unsigned w s = Some n \<Longrightarrow> n < 2 ^ w"
  by (auto simp: parse_unsigned_def Let_def split: if_splits)

end
