(* ===== verification/Net_Address.thy ===== *)
theory Net_Address
  imports Text_Parsing "HOL-Library.Word"
begin

text \<open>
  Socket addresses and the regular expressions of the Tor interface. \<open>SocketAddr\<close> is the text of an
  IP address with a port; reading one is a parameter, as are the matchers of the \<open>regex\<close> crate,
  whose laws are the documented meaning of the patterns: with the flag \<open>m\<close>, \<open>^\<close> and \<open>$\<close> match at the
  ends of every line of the text.
\<close>

section \<open>Socket addresses\<close>

type_synonym u16 = "16 word"

record socket_addr =
  sa_ip :: string
  sa_port :: u16

definition socket_addr_fmt :: "socket_addr \<Rightarrow> string" where
  "socket_addr_fmt a = sa_ip a @ '':'' @ decimal (unat (sa_port a))"

section \<open>Patterns\<close>

record text_ops =
  socket_addr_from_str :: "string \<Rightarrow> socket_addr option"
  rx_transport :: "string \<Rightarrow> bool"
  rx_fingerprint :: "string \<Rightarrow> bool"
  rx_bridge_option :: "string \<Rightarrow> (string \<times> string) option"

definition text_lines :: "string \<Rightarrow> string list" where
  "text_lines s = split_on (CHR 10) s"

definition is_word_start :: "char \<Rightarrow> bool" where
  "is_word_start c \<longleftrightarrow> (let n = of_char c :: nat in (65 \<le> n \<and> n \<le> 90) \<or> (97 \<le> n \<and> n \<le> 122) \<or> n = 95)"

definition c_identifier :: "string \<Rightarrow> bool" where
  "c_identifier s \<longleftrightarrow> (case s of [] \<Rightarrow> False | c # cs \<Rightarrow> is_word_start c \<and> list_all (\<lambda>c. is_word_start c \<or> is_digit c) cs)"

definition is_hex_digit :: "char \<Rightarrow> bool" where
  "is_hex_digit c \<longleftrightarrow> is_digit c \<or> (let n = of_char c :: nat in (65 \<le> n \<and> n \<le> 70) \<or> (97 \<le> n \<and> n \<le> 102))"

definition hex40 :: "string \<Rightarrow> bool" where
  "hex40 s \<longleftrightarrow> length s = 40 \<and> list_all is_hex_digit s"

text \<open>The captures of \<open>^(?<key>[^=]+)=(?<value>.*)$\<close> on a text of one line.\<close>

definition key_value :: "string \<Rightarrow> (string \<times> string) option" where
  "key_value s = (let k = takeWhile (\<lambda>c. c \<noteq> CHR ''='') s in
     if k = [] \<or> k = s then None else Some (k, drop (length k + 1) s))"

definition regex_laws :: "text_ops \<Rightarrow> bool" where
  "regex_laws X \<longleftrightarrow>
     (\<forall>s. rx_transport X s \<longleftrightarrow> (\<exists>l\<in>set (text_lines s). c_identifier l)) \<and>
     (\<forall>s. rx_fingerprint X s \<longleftrightarrow> (\<exists>l\<in>set (text_lines s). hex40 l)) \<and>
     (\<forall>s. CHR 10 \<notin> set s \<longrightarrow> rx_bridge_option X s = key_value s)"

definition socket_laws :: "text_ops \<Rightarrow> socket_addr \<Rightarrow> bool" where
  "socket_laws X a \<longleftrightarrow> socket_addr_from_str X (socket_addr_fmt a) = Some a \<and>
     CHR '' '' \<notin> set (socket_addr_fmt a) \<and> CHR 10 \<notin> set (socket_addr_fmt a)"

lemma text_lines_single: "CHR 10 \<notin> set s \<Longrightarrow> text_lines s = [s]"
  by (simp add: text_lines_def split_on_word)

lemma key_value_pair:
  assumes "k \<noteq> []" "CHR ''='' \<notin> set k"
  shows "key_value (k @ CHR ''='' # v) = Some (k, v)"
proof -
  have "takeWhile (\<lambda>c. c \<noteq> CHR ''='') (k @ CHR ''='' # v) = k"
    using assms(2) by (induction k) auto
  with assms(1) show ?thesis by (simp add: key_value_def)
qed

lemma key_value_Some: "key_value s = Some (k, v) \<Longrightarrow> s = k @ CHR ''='' # v \<and> k \<noteq> [] \<and> CHR ''='' \<notin> set k"
proof -
  assume *: "key_value s = Some (k, v)"
  let ?k = "takeWhile (\<lambda>c. c \<noteq> CHR ''='') s"
  from * have k: "k = ?k" "?k \<noteq> []" "?k \<noteq> s" "v = drop (length ?k + 1) s" by (auto simp: key_value_def Let_def split: if_splits)
  from k(3) have d: "dropWhile (\<lambda>c. c \<noteq> CHR ''='') s \<noteq> []" by (metis append_Nil2 takeWhile_dropWhile_id)
  then have "dropWhile (\<lambda>c. c \<noteq> CHR ''='') s = CHR ''='' # v"
    using hd_dropWhile [OF d] k(4) dropWhile_eq_drop [of "\<lambda>c. c \<noteq> CHR ''=''" s]
    by (metis (no_types, lifting) Suc_eq_plus1 drop_Suc list.collapse tl_drop)
  with k show ?thesis using takeWhile_dropWhile_id [of "\<lambda>c. c \<noteq> CHR ''=''" s] set_takeWhileD by fastforce
qed

end
