(* ===== verification/Tor_Provider.thy ===== *)
theory Tor_Provider
  imports Tor_Crypto Honk_Session Net_Address
begin

text \<open>
  The part of \<open>tor_provider.rs\<close> that the context works with: addresses, events, streams,
  listeners and the \<open>TorProvider\<close> trait. A provider is a trait object, so the trait is a record
  of functions on a state of type \<open>'tp\<close>; what the operating system answers when a socket is
  made non-blocking is part of it. A TCP listener is given by what its \<open>accept\<close> calls will
  return and would block when nothing is left. The data a provider attaches to a listener for
  its closure that runs when the listener is dropped is a number; the context's drops of its
  listeners do not run that closure in the model. The parsing of addresses is not modelled.
\<close>

datatype tor_error = ParseFailure string string | Generic_error string

record onion_addr_v3 =
  oa_service_id :: v3_onion_service_id
  oa_virt_port :: u16

datatype onion_addr = V3 onion_addr_v3

definition onion_addr_v3_new :: "v3_onion_service_id \<Rightarrow> u16 \<Rightarrow> onion_addr_v3" where
  "onion_addr_v3_new service_id virt_port = \<lparr> oa_service_id = service_id, oa_virt_port = virt_port \<rparr>"

text \<open>\<open>Display\<close> of an onion address.\<close>

definition onion_addr_v3_fmt :: "onion_addr_v3 \<Rightarrow> string" where
  "onion_addr_v3_fmt a = service_id_to_string (oa_service_id a) @ ''.onion:'' @ decimal (unat (oa_virt_port a))"

record domain_addr =
  da_domain :: string
  da_port :: u16

datatype target_addr = SocketTarget socket_addr | OnionService onion_addr | Domain domain_addr

definition target_addr_from :: "v3_onion_service_id \<times> u16 \<Rightarrow> target_addr" where
  "target_addr_from t = OnionService (V3 (onion_addr_v3_new (fst t) (snd t)))"

datatype tor_event =
    BootstrapStatus "32 word" string string
  | BootstrapComplete
  | LogReceived string
  | OnionServicePublished v3_onion_service_id

type_synonym circuit_token = nat

record onion_stream =
  os_stream :: rw_stream
  os_local_addr :: "onion_addr option"
  os_peer_addr :: "target_addr option"

definition onion_stream_into :: "onion_stream \<Rightarrow> rw_stream" where
  "onion_stream_into s = os_stream s"

record tcp_listener =
  tl_accepts :: "(rw_stream, io_error_kind) result list"

record onion_listener =
  ol_listener :: tcp_listener
  ol_onion_addr :: onion_addr
  ol_data :: nat

definition onion_listener_new :: "tcp_listener \<Rightarrow> onion_addr \<Rightarrow> nat \<Rightarrow> onion_listener" where
  "onion_listener_new listener onion_addr data =
     \<lparr> ol_listener = listener, ol_onion_addr = onion_addr, ol_data = data \<rparr>"

definition tcp_accept :: "tcp_listener \<Rightarrow> (rw_stream, io_error_kind) result \<times> tcp_listener" where
  "tcp_accept l = (case tl_accepts l of
      [] \<Rightarrow> (Err WouldBlock, l)
    | r # rs \<Rightarrow> (r, l\<lparr> tl_accepts := rs \<rparr>))"

definition onion_accept :: "onion_listener \<Rightarrow> (onion_stream option, io_error_kind) result \<times> onion_listener" where
  "onion_accept l = (case tcp_accept (ol_listener l) of (r, lst) \<Rightarrow>
     ((case r of
         Ok st \<Rightarrow> Ok (Some \<lparr> os_stream = st, os_local_addr = Some (ol_onion_addr l), os_peer_addr = None \<rparr>)
       | Err k \<Rightarrow> if k = WouldBlock then Ok None else Err k),
      l\<lparr> ol_listener := lst \<rparr>))"

record 'tp tor_provider =
  tp_update :: "'tp \<Rightarrow> (tor_event list, tor_error) result \<times> 'tp"
  tp_bootstrap :: "'tp \<Rightarrow> (unit, tor_error) result \<times> 'tp"
  tp_add_client_auth :: "v3_onion_service_id \<Rightarrow> x25519_private_key \<Rightarrow> 'tp \<Rightarrow> (unit, tor_error) result \<times> 'tp"
  tp_remove_client_auth :: "v3_onion_service_id \<Rightarrow> 'tp \<Rightarrow> (unit, tor_error) result \<times> 'tp"
  tp_connect :: "target_addr \<Rightarrow> circuit_token option \<Rightarrow> 'tp \<Rightarrow> (onion_stream, tor_error) result \<times> 'tp"
  tp_listener :: "ed25519_private_key \<Rightarrow> u16 \<Rightarrow> x25519_public_key list option \<Rightarrow> 'tp \<Rightarrow>
    (onion_listener, tor_error) result \<times> 'tp"
  tp_generate_token :: "'tp \<Rightarrow> circuit_token \<times> 'tp"
  tp_release_token :: "circuit_token \<Rightarrow> 'tp \<Rightarrow> 'tp"
  stream_set_nonblocking :: "rw_stream \<Rightarrow> (unit, io_error_kind) result"
  listener_set_nonblocking :: "onion_listener \<Rightarrow> (unit, io_error_kind) result"

end
