(* ===== verification/Ordered_Map.thy ===== *)
theory Ordered_Map
  imports Gosling_Prelude
begin

text \<open>
  \<open>BTreeMap\<close> as the context uses it: an association list in ascending key order, with
  \<open>insert\<close>, \<open>remove\<close>, \<open>get_mut\<close> and \<open>retain\<close>. The locale \<open>finite_map\<close> is the contract of a
  map with those operations; it is interpreted on the association lists.
\<close>

section \<open>Operations\<close>

type_synonym ('k, 'v) btree = "('k \<times> 'v) list"

fun bt_insert :: "'k::linorder \<Rightarrow> 'v \<Rightarrow> ('k, 'v) btree \<Rightarrow> ('k, 'v) btree" where
  "bt_insert k v [] = [(k, v)]"
| "bt_insert k v ((j, w) # m) =
     (if k < j then (k, v) # (j, w) # m else if k = j then (k, v) # m else (j, w) # bt_insert k v m)"

definition bt_get :: "('k, 'v) btree \<Rightarrow> 'k \<Rightarrow> 'v option" where
  "bt_get m k = map_of m k"

definition bt_remove :: "'k \<Rightarrow> ('k, 'v) btree \<Rightarrow> ('k, 'v) btree" where
  "bt_remove k m = filter (\<lambda>e. fst e \<noteq> k) m"

definition bt_inv :: "('k::linorder, 'v) btree \<Rightarrow> bool" where
  "bt_inv m \<longleftrightarrow> sorted (map fst m) \<and> distinct (map fst m)"

text \<open>
  \<open>retain\<close> with a closure that updates the value, appends events, tells whether the entry
  stays, and may panic.
\<close>

fun bt_retain ::
  "('k \<Rightarrow> 'v \<Rightarrow> (bool \<times> 'e list) outcome \<times> 'v) \<Rightarrow> ('k, 'v) btree \<Rightarrow> 'e list outcome \<times> ('k, 'v) btree" where
  "bt_retain f [] = (Ret [], [])"
| "bt_retain f ((k, v) # m) = (case f k v of
      (Ret (keep, evs), w) \<Rightarrow>
        (case bt_retain f m of
           (Ret evs', m') \<Rightarrow> (Ret (evs @ evs'), if keep then (k, w) # m' else m')
         | (Panic, m') \<Rightarrow> (Panic, (k, w) # m')
         | (OutOfFuel, m') \<Rightarrow> (OutOfFuel, (k, w) # m'))
    | (Panic, w) \<Rightarrow> (Panic, (k, w) # m)
    | (OutOfFuel, w) \<Rightarrow> (OutOfFuel, (k, w) # m))"

section \<open>The contract of a map\<close>

locale finite_map =
  fixes get :: "'m \<Rightarrow> 'k \<Rightarrow> 'v option"
    and insert :: "'k \<Rightarrow> 'v \<Rightarrow> 'm \<Rightarrow> 'm"
    and remove :: "'k \<Rightarrow> 'm \<Rightarrow> 'm"
    and inv :: "'m \<Rightarrow> bool"
  assumes get_insert: "inv m \<Longrightarrow> get (insert k v m) j = (if j = k then Some v else get m j)"
    and get_remove: "inv m \<Longrightarrow> get (remove k m) j = (if j = k then None else get m j)"
    and inv_insert: "inv m \<Longrightarrow> inv (insert k v m)"
    and inv_remove: "inv m \<Longrightarrow> inv (remove k m)"
begin

definition keys :: "'m \<Rightarrow> 'k set" where
  "keys m = {k. get m k \<noteq> None}"

lemma keys_insert: "inv m \<Longrightarrow> keys (insert k v m) = Set.insert k (keys m)"
  by (auto simp: keys_def get_insert)

lemma keys_remove: "inv m \<Longrightarrow> keys (remove k m) = keys m - {k}"
  by (auto simp: keys_def get_remove)

lemma remove_insert_fresh: "inv m \<Longrightarrow> get m k = None \<Longrightarrow> get (remove k (insert k v m)) = get m"
  by (auto simp: get_insert get_remove inv_insert)

end

lemma bt_insert_keys: "set (map fst (bt_insert k v m)) = insert k (set (map fst m))"
  by (induction k v m rule: bt_insert.induct) auto

lemma bt_insert_get: "bt_inv m \<Longrightarrow> bt_get (bt_insert k v m) j = (if j = k then Some v else bt_get m j)"
proof (induction k v m rule: bt_insert.induct)
  case (1 k v)
  then show ?case by (simp add: bt_get_def)
next
  case (2 k v i w m)
  then show ?case by (auto simp: bt_get_def bt_inv_def)
qed

lemma bt_insert_inv: "bt_inv m \<Longrightarrow> bt_inv (bt_insert k v m)"
proof (induction k v m rule: bt_insert.induct)
  case (1 k v)
  then show ?case by (simp add: bt_inv_def)
next
  case (2 k v j w m)
  show ?case
  proof (cases "k < j \<or> k = j")
    case True
    with "2.prems" show ?thesis by (auto simp: bt_inv_def)
  next
    case False
    with 2 have "bt_inv (bt_insert k v m)" by (auto simp: bt_inv_def)
    with False "2.prems" bt_insert_keys [of k v m] show ?thesis by (auto simp: bt_inv_def)
  qed
qed

interpretation bt: finite_map bt_get bt_insert bt_remove bt_inv
proof unfold_locales
  fix m :: "('k::linorder, 'v) btree" and k j v
  assume m: "bt_inv m"
  show "bt_get (bt_insert k v m) j = (if j = k then Some v else bt_get m j)" by (rule bt_insert_get [OF m])
  show "bt_get (bt_remove k m) j = (if j = k then None else bt_get m j)"
    by (induction m) (auto simp: bt_get_def bt_remove_def)
  show "bt_inv (bt_insert k v m)" by (rule bt_insert_inv [OF m])
  show "bt_inv (bt_remove k m)"
    using m by (simp add: bt_inv_def bt_remove_def sorted_filter distinct_map_filter)
qed

lemma bt_keys: "bt.keys m = set (map fst m)"
  unfolding bt.keys_def bt_get_def using dom_map_of_conv_image_fst [of m] by (simp add: dom_def)

section \<open>Retain\<close>

lemma bt_retain_keys: "bt_retain f m = (r, m') \<Longrightarrow> set (map fst m') \<subseteq> set (map fst m)"
proof (induction m arbitrary: r m')
  case Nil
  then show ?case by simp
next
  case (Cons kv m)
  obtain k v where kv: "kv = (k, v)" by fastforce
  obtain q n where rec: "bt_retain f m = (q, n)" by fastforce
  have "m' = n \<or> (\<exists>w. m' = (k, w) # n) \<or> (\<exists>w. m' = (k, w) # m)"
    using Cons.prems by (auto simp: kv rec split: prod.splits outcome.splits if_splits)
  with Cons.IH [OF rec] show ?case unfolding kv by fastforce
qed

lemma bt_retain_inv: "bt_retain f m = (r, m') \<Longrightarrow> bt_inv m \<Longrightarrow> bt_inv m'"
proof (induction m arbitrary: r m')
  case Nil
  then show ?case by simp
next
  case (Cons kv m)
  obtain k v where kv: "kv = (k, v)" by fastforce
  obtain q n where rec: "bt_retain f m = (q, n)" by fastforce
  from Cons.prems(2) have m: "bt_inv m" "\<forall>j\<in>set (map fst m). k < j" by (auto simp: kv bt_inv_def order.strict_iff_order)
  have "bt_inv n" by (rule Cons.IH [OF rec m(1)])
  moreover have "\<forall>j\<in>set (map fst n). k < j" using bt_retain_keys [OF rec] m(2) by blast
  ultimately have "bt_inv ((k, w) # n)" for w by (auto simp: bt_inv_def order.strict_iff_order)
  moreover have "bt_inv ((k, w) # m)" for w using Cons.prems(2) by (simp add: kv bt_inv_def)
  ultimately show ?case using Cons.prems(1) \<open>bt_inv n\<close>
    by (auto simp: kv rec split: prod.splits outcome.splits if_splits)
qed

text \<open>What a returning \<open>retain\<close> did, entry by entry.\<close>

lemma bt_retain_ConsE:
  assumes "bt_retain f ((k, v) # m) = (Ret evs, m')"
  obtains keep es w evs1 m1 where "f k v = (Ret (keep, es), w)" "bt_retain f m = (Ret evs1, m1)"
    "evs = es @ evs1" "m' = (if keep then (k, w) # m1 else m1)"
  using assms by (auto split: prod.splits outcome.splits)

lemma bt_retain_kept:
  "bt_retain f m = (Ret evs, m') \<Longrightarrow> (k, w) \<in> set m' \<Longrightarrow> \<exists>v es. (k, v) \<in> set m \<and> f k v = (Ret (True, es), w)"
proof (induction m arbitrary: evs m')
  case Nil
  then show ?case by simp
next
  case (Cons kv m)
  obtain k0 v0 where kv: "kv = (k0, v0)" by fastforce
  from Cons.prems(1) [unfolded kv] show ?case
  proof (rule bt_retain_ConsE)
    fix keep es x evs1 m1
    assume *: "f k0 v0 = (Ret (keep, es), x)" "bt_retain f m = (Ret evs1, m1)" "m' = (if keep then (k0, x) # m1 else m1)"
    show ?thesis
    proof (cases "(k, w) \<in> set m1")
      case True
      with Cons.IH [OF *(2)] show ?thesis by (auto simp: kv)
    next
      case False
      with *(3) Cons.prems(2) have "keep" "k = k0" "w = x" by (auto split: if_splits)
      with *(1) kv show ?thesis by auto
    qed
  qed
qed

lemma bt_retain_visits:
  "bt_retain f m = (Ret evs, m') \<Longrightarrow> (k, v) \<in> set m \<Longrightarrow>
   \<exists>keep es w. f k v = (Ret (keep, es), w) \<and> set es \<subseteq> set evs \<and> (keep \<longrightarrow> (k, w) \<in> set m')"
proof (induction m arbitrary: evs m')
  case Nil
  then show ?case by simp
next
  case (Cons kv m)
  obtain k0 v0 where kv: "kv = (k0, v0)" by fastforce
  from Cons.prems(1) [unfolded kv] show ?case
  proof (rule bt_retain_ConsE)
    fix keep es x evs1 m1
    assume *: "f k0 v0 = (Ret (keep, es), x)" "bt_retain f m = (Ret evs1, m1)" "evs = es @ evs1"
      "m' = (if keep then (k0, x) # m1 else m1)"
    show ?thesis
    proof (cases "(k, v) \<in> set m")
      case True
      from Cons.IH [OF *(2) this] *(3,4) show ?thesis by (auto 4 4)
    next
      case False
      with Cons.prems(2) kv * show ?thesis by auto
    qed
  qed
qed

lemma bt_retain_events:
  "bt_retain f m = (Ret evs, m') \<Longrightarrow> e \<in> set evs \<Longrightarrow>
   \<exists>k v keep es w. (k, v) \<in> set m \<and> f k v = (Ret (keep, es), w) \<and> e \<in> set es"
proof (induction m arbitrary: evs m')
  case Nil
  then show ?case by simp
next
  case (Cons kv m)
  obtain k0 v0 where kv: "kv = (k0, v0)" by fastforce
  from Cons.prems(1) [unfolded kv] show ?case
  proof (rule bt_retain_ConsE)
    fix keep es x evs1 m1
    assume *: "f k0 v0 = (Ret (keep, es), x)" "bt_retain f m = (Ret evs1, m1)" "evs = es @ evs1"
    show ?thesis
    proof (cases "e \<in> set evs1")
      case True
      from Cons.IH [OF *(2) this] show ?thesis by (meson list.set_intros(2))
    next
      case False
      then have "e \<in> set es" using Cons.prems(2) *(3) by simp
      with *(1) kv show ?thesis by (intro exI [of _ k0] exI [of _ v0]) auto
    qed
  qed
qed

text \<open>
  If every visit reports its key exactly when it drops the entry, the reports of \<open>retain\<close> are
  the keys that are gone, in order.
\<close>

lemma bt_retain_dropped:
  assumes "bt_retain f m = (Ret evs, m')" "distinct (map fst m)"
    and rep: "\<And>k v keep es w. f k v = (Ret (keep, es), w) \<Longrightarrow> concat (map rep es) = (if keep then [] else [k])"
  shows "concat (map rep evs) = filter (\<lambda>k. k \<notin> set (map fst m')) (map fst m)"
  using assms(1,2)
proof (induction m arbitrary: evs m')
  case Nil
  then show ?case by simp
next
  case (Cons kv m)
  obtain k v where kv: "kv = (k, v)" by fastforce
  from Cons.prems(1) [unfolded kv] show ?case
  proof (rule bt_retain_ConsE)
    fix keep es w evs1 m1
    assume *: "f k v = (Ret (keep, es), w)" "bt_retain f m = (Ret evs1, m1)" "evs = es @ evs1"
      "m' = (if keep then (k, w) # m1 else m1)"
    have k: "k \<notin> set (map fst m)" "distinct (map fst m)" using Cons.prems(2) by (simp_all add: kv)
    then have k1: "k \<notin> set (map fst m1)" using bt_retain_keys [OF *(2)] by blast
    have "concat (map rep evs1) = filter (\<lambda>j. j \<notin> set (map fst m1)) (map fst m)" by (rule Cons.IH [OF *(2) k(2)])
    also have "\<dots> = filter (\<lambda>j. j \<notin> set (map fst m')) (map fst m)"
      using k(1) *(4) by (intro filter_cong) auto
    finally show ?thesis using rep [OF *(1)] *(3,4) k1 by (simp add: kv)
  qed
qed

end
