(* ===== verification/Gosling_Context.thy ===== *)
theory Gosling_Context
  imports Handshakes Tor_Provider Ordered_Map "HOL-Library.AList"
begin

text \<open>
  The context (\<open>context.rs\<close>): it owns the Tor provider, the listeners and the handshakes in
  progress, each under a handle. \<open>update\<close> accepts connections, forwards the provider's events
  and advances every handshake, in this order; each phase is a definition. The handle counter, a
  \<open>usize\<close> that is only ever incremented, is a natural number. A \<open>HashMap\<close> is an association list
  in its iteration order. Instants, random bytes and generated keys are arguments; inside
  \<open>update\<close> they are functions of the handle.
\<close>

section \<open>Types\<close>

type_synonym handshake_handle = nat

definition DEFAULT_ENDPOINT_TIMEOUT :: duration where "DEFAULT_ENDPOINT_TIMEOUT = from_secs 60"
definition DEFAULT_ENDPOINT_MAX_MESSAGE_SIZE :: i32 where "DEFAULT_ENDPOINT_MAX_MESSAGE_SIZE = 384"

datatype context_error =
    InvalidArgument string
  | TorNotConnected
  | HandshakeHandleNotFound handshake_handle
  | IncorrectUsage string
  | IoError io_error_kind
  | HonkRpcError honk_error
  | TorCryptoError crypto_error
  | TorProviderError tor_error
  | IdentityClientError identity_client_error
  | IdentityServerError identity_server_error
  | EndpointClientError endpoint_client_error
  | EndpointServerError endpoint_server_error

datatype 'd context_event =
    TorBootstrapStatusReceived "32 word" string string
  | TorBootstrapCompleted
  | TorLogReceived string
  | IdentityClientChallengeReceived handshake_handle 'd
  | IdentityClientHandshakeCompleted handshake_handle v3_onion_service_id v3_onion_service_id string x25519_private_key
  | IdentityClientHandshakeFailed handshake_handle context_error
  | IdentityServerPublished
  | IdentityServerHandshakeStarted handshake_handle
  | IdentityServerEndpointRequestReceived handshake_handle v3_onion_service_id string
  | IdentityServerChallengeResponseReceived handshake_handle 'd
  | IdentityServerHandshakeCompleted handshake_handle ed25519_private_key string v3_onion_service_id x25519_public_key
  | IdentityServerHandshakeRejected handshake_handle bool bool bool bool bool
  | IdentityServerHandshakeFailed handshake_handle context_error
  | EndpointClientHandshakeCompleted handshake_handle v3_onion_service_id string rw_stream
  | EndpointClientHandshakeFailed handshake_handle context_error
  | EndpointServerPublished v3_onion_service_id string
  | EndpointServerHandshakeStarted handshake_handle
  | EndpointServerChannelRequestReceived handshake_handle v3_onion_service_id string
  | EndpointServerHandshakeCompleted handshake_handle v3_onion_service_id v3_onion_service_id string rw_stream
  | EndpointServerHandshakeRejected handshake_handle bool bool bool
  | EndpointServerHandshakeFailed handshake_handle context_error

text \<open>The entry of an endpoint listener: name, allowed client, listener, published.\<close>

record endpoint_listener =
  el_endpoint_name :: string
  el_allowed_client :: v3_onion_service_id
  el_listener :: onion_listener
  el_published :: bool

record ('tp, 'd) gosling_context =
  ctx_tor_provider :: 'tp
  ctx_bootstrap_complete :: bool
  ctx_identity_port :: u16
  ctx_endpoint_port :: u16
  ctx_identity_timeout :: duration
  ctx_identity_max_message_size :: i32
  ctx_endpoint_timeout :: duration
  ctx_next_handshake_handle :: handshake_handle
  ctx_identity_clients :: "(handshake_handle, 'd identity_client) btree"
  ctx_identity_servers :: "(handshake_handle, 'd identity_server) btree"
  ctx_endpoint_clients :: "(handshake_handle, 'd endpoint_client) btree"
  ctx_endpoint_servers :: "(handshake_handle, 'd endpoint_server) btree"
  ctx_identity_listener :: "onion_listener option"
  ctx_identity_server_published :: bool
  ctx_endpoint_listeners :: "(v3_onion_service_id \<times> endpoint_listener) list"
  ctx_identity_private_key :: ed25519_private_key
  ctx_identity_service_id :: v3_onion_service_id

definition context_new ::
  "crypto_ops \<Rightarrow> 'tp \<Rightarrow> u16 \<Rightarrow> u16 \<Rightarrow> duration \<Rightarrow> i32 \<Rightarrow> duration option \<Rightarrow> ed25519_private_key \<Rightarrow>
   (('tp, 'd) gosling_context, context_error) result" where
  "context_new C tor identity_port endpoint_port identity_timeout identity_max_message_size
     endpoint_timeout identity_private_key = Ok \<lparr>
       ctx_tor_provider = tor,
       ctx_bootstrap_complete = False,
       ctx_identity_port = identity_port,
       ctx_endpoint_port = endpoint_port,
       ctx_identity_timeout = identity_timeout,
       ctx_identity_max_message_size = identity_max_message_size,
       ctx_endpoint_timeout = (case endpoint_timeout of Some t \<Rightarrow> t | None \<Rightarrow> DEFAULT_ENDPOINT_TIMEOUT),
       ctx_next_handshake_handle = 0,
       ctx_identity_clients = [],
       ctx_identity_servers = [],
       ctx_endpoint_clients = [],
       ctx_endpoint_servers = [],
       ctx_identity_listener = None,
       ctx_identity_server_published = False,
       ctx_endpoint_listeners = [],
       ctx_identity_private_key = identity_private_key,
       ctx_identity_service_id = service_id_from_private_key C identity_private_key \<rparr>"

type_synonym ('tp, 'd, 'r) context_action = "(('tp, 'd) gosling_context, ('r, context_error) result) action"

section \<open>Calls to the provider\<close>

text \<open>A call of the provider, with its error as the context's (\<open>?\<close>).\<close>

definition with_tor :: "('tp \<Rightarrow> ('r, tor_error) result \<times> 'tp) \<Rightarrow> ('tp, 'd, 'r) context_action" where
  "with_tor f c = (case f (ctx_tor_provider c) of (r, tp) \<Rightarrow>
     (Ret (case r of Ok x \<Rightarrow> Ok x | Err e \<Rightarrow> Err (TorProviderError e)), c\<lparr> ctx_tor_provider := tp \<rparr>))"

definition io_result :: "(unit, io_error_kind) result \<Rightarrow> ('tp, 'd, unit) context_action" where
  "io_result r = ret (case r of Ok x \<Rightarrow> Ok x | Err k \<Rightarrow> Err (IoError k))"

definition context_bootstrap :: "'tp tor_provider \<Rightarrow> ('tp, 'd, unit) context_action" where
  "context_bootstrap T = with_tor (tp_bootstrap T)"

definition context_connect ::
  "'tp tor_provider \<Rightarrow> target_addr \<Rightarrow> circuit_token option \<Rightarrow> ('tp, 'd, onion_stream) context_action" where
  "context_connect T target token = with_tor (tp_connect T target token)"

definition context_generate_circuit_token :: "'tp tor_provider \<Rightarrow> (('tp, 'd) gosling_context, circuit_token) action" where
  "context_generate_circuit_token T c = (case tp_generate_token T (ctx_tor_provider c) of (token, tp) \<Rightarrow>
     (Ret token, c\<lparr> ctx_tor_provider := tp \<rparr>))"

definition context_release_circuit_token :: "'tp tor_provider \<Rightarrow> circuit_token \<Rightarrow> (('tp, 'd) gosling_context, unit) action" where
  "context_release_circuit_token T token c =
     (Ret (), c\<lparr> ctx_tor_provider := tp_release_token T token (ctx_tor_provider c) \<rparr>)"

text \<open>A new session on a stream, with the given limits.\<close>

definition configured_session :: "nat \<Rightarrow> duration \<Rightarrow> i32 \<Rightarrow> rw_stream \<Rightarrow> ('d session, honk_error) result outcome" where
  "configured_session now wait max_size st =
     (case set_max_message_size max_size (set_max_wait_time wait (session_new now st)) of
        (Ret (Ok _), s) \<Rightarrow> Ret (Ok s)
      | (Ret (Err e), s) \<Rightarrow> Ret (Err e)
      | (Panic, s) \<Rightarrow> Panic
      | (OutOfFuel, s) \<Rightarrow> OutOfFuel)"

definition with_session :: "('d session, honk_error) result outcome \<Rightarrow> ('d session \<Rightarrow> ('tp, 'd, 'r) context_action) \<Rightarrow>
  ('tp, 'd, 'r) context_action" where
  "with_session r k c = (case r of
      Ret (Ok s) \<Rightarrow> k s c
    | Ret (Err e) \<Rightarrow> (Ret (Err (HonkRpcError e)), c)
    | _ \<Rightarrow> (Panic, c))"

section \<open>Identity client\<close>

definition identity_client_begin_handshake ::
  "crypto_ops \<Rightarrow> 'tp tor_provider \<Rightarrow> nat \<Rightarrow> x25519_private_key \<Rightarrow> v3_onion_service_id \<Rightarrow> string \<Rightarrow>
   ('tp, 'd, handshake_handle) context_action" where
  "identity_client_begin_handshake C T now generated identity_server_id endpoint c =
     (case ascii_string_new endpoint of
        Err _ \<Rightarrow> (Ret (Err (InvalidArgument ''endpoint must be an ASCII string'')), c)
      | Ok endpoint \<Rightarrow>
     if \<not> ctx_bootstrap_complete c then (Ret (Err TorNotConnected), c)
     else try_then (with_tor (tp_connect T (target_addr_from (identity_server_id, ctx_identity_port c)) None)) (\<lambda>os.
       let st = onion_stream_into os in
       try_then (io_result (stream_set_nonblocking T st)) (\<lambda>_ c.
       with_session (configured_session now (ctx_identity_timeout c) (ctx_identity_max_message_size c) st) (\<lambda>rpc c.
       case ed25519_private_clone C (ctx_identity_private_key c) of
         Ret key \<Rightarrow>
           (case identity_client_new C rpc identity_server_id endpoint key generated of
              Err e \<Rightarrow> (Ret (Err (IdentityClientError e)), c)
            | Ok ident_client \<Rightarrow>
                let handle = ctx_next_handshake_handle c in
                (Ret (Ok handle), c\<lparr> ctx_next_handshake_handle := handle + 1,
                   ctx_identity_clients := bt_insert handle ident_client (ctx_identity_clients c) \<rparr>))
       | _ \<Rightarrow> (Panic, c)) c)) c)"

definition identity_client_abort_handshake :: "handshake_handle \<Rightarrow> ('tp, 'd, unit) context_action" where
  "identity_client_abort_handshake handle c = (case bt_get (ctx_identity_clients c) handle of
      Some _ \<Rightarrow> (Ret (Ok ()), c\<lparr> ctx_identity_clients := bt_remove handle (ctx_identity_clients c) \<rparr>)
    | None \<Rightarrow> (Ret (Err (HandshakeHandleNotFound handle)), c))"

definition identity_client_handle_challenge_received ::
  "'d bson_ops \<Rightarrow> handshake_handle \<Rightarrow> 'd \<Rightarrow> ('tp, 'd, unit) context_action" where
  "identity_client_handle_challenge_received B handle challenge_response c =
     (case bt_get (ctx_identity_clients c) handle of
        Some identity_client \<Rightarrow>
          (case send_response B challenge_response identity_client of (r, identity_client) \<Rightarrow>
            ((case r of Ret (Ok x) \<Rightarrow> Ret (Ok x) | Ret (Err e) \<Rightarrow> Ret (Err (IdentityClientError e))
                      | Panic \<Rightarrow> Panic | OutOfFuel \<Rightarrow> OutOfFuel),
             c\<lparr> ctx_identity_clients := bt_insert handle identity_client (ctx_identity_clients c) \<rparr>))
      | None \<Rightarrow> (Ret (Err (HandshakeHandleNotFound handle)), c))"

section \<open>Identity server\<close>

definition identity_server_start :: "'tp tor_provider \<Rightarrow> ('tp, 'd, unit) context_action" where
  "identity_server_start T c =
     (if \<not> ctx_bootstrap_complete c then (Ret (Err TorNotConnected), c)
      else if ctx_identity_listener c \<noteq> None then (Ret (Err (IncorrectUsage ''identity server already started'')), c)
      else try_then (with_tor (tp_listener T (ctx_identity_private_key c) (ctx_identity_port c) None)) (\<lambda>listener.
        try_then (io_result (listener_set_nonblocking T listener)) (\<lambda>_ c.
        (Ret (Ok ()), c\<lparr> ctx_identity_listener := Some listener \<rparr>))) c)"

definition identity_server_stop :: "('tp, 'd, unit) context_action" where
  "identity_server_stop c =
     (if ctx_identity_listener c = None then (Ret (Err (IncorrectUsage ''identity server is not started'')), c)
      else (Ret (Ok ()), c\<lparr> ctx_identity_listener := None, ctx_identity_server_published := False,
                            ctx_identity_servers := [] \<rparr>))"

definition identity_server_handle_endpoint_request_received ::
  "'d bson_ops \<Rightarrow> bytes \<Rightarrow> handshake_handle \<Rightarrow> bool \<Rightarrow> bool \<Rightarrow> 'd \<Rightarrow> ('tp, 'd, unit) context_action" where
  "identity_server_handle_endpoint_request_received B random handle client_allowed endpoint_supported challenge c =
     (case bt_get (ctx_identity_servers c) handle of
        Some identity_server \<Rightarrow>
          (case handle_endpoint_request_received B random client_allowed endpoint_supported challenge identity_server of
             (r, identity_server) \<Rightarrow>
            ((case r of Ret (Ok x) \<Rightarrow> Ret (Ok x) | Ret (Err e) \<Rightarrow> Ret (Err (IdentityServerError e))
                      | Panic \<Rightarrow> Panic | OutOfFuel \<Rightarrow> OutOfFuel),
             c\<lparr> ctx_identity_servers := bt_insert handle identity_server (ctx_identity_servers c) \<rparr>))
      | None \<Rightarrow> (Ret (Err (HandshakeHandleNotFound handle)), c))"

definition identity_server_handle_challenge_response_received ::
  "handshake_handle \<Rightarrow> bool \<Rightarrow> ('tp, 'd, unit) context_action" where
  "identity_server_handle_challenge_response_received handle challenge_response_valid c =
     (case bt_get (ctx_identity_servers c) handle of
        Some identity_server \<Rightarrow>
          (case handle_challenge_response_received challenge_response_valid identity_server of (r, identity_server) \<Rightarrow>
            ((case r of Ret (Ok x) \<Rightarrow> Ret (Ok x) | Ret (Err e) \<Rightarrow> Ret (Err (IdentityServerError e))
                      | Panic \<Rightarrow> Panic | OutOfFuel \<Rightarrow> OutOfFuel),
             c\<lparr> ctx_identity_servers := bt_insert handle identity_server (ctx_identity_servers c) \<rparr>))
      | None \<Rightarrow> (Ret (Err (HandshakeHandleNotFound handle)), c))"

section \<open>Endpoint client\<close>

definition endpoint_client_begin_handshake ::
  "crypto_ops \<Rightarrow> 'tp tor_provider \<Rightarrow> nat \<Rightarrow> v3_onion_service_id \<Rightarrow> x25519_private_key \<Rightarrow> string \<Rightarrow>
   ('tp, 'd, handshake_handle) context_action" where
  "endpoint_client_begin_handshake C T now endpoint_server_id client_auth_key channel c =
     (case ascii_string_new channel of
        Err _ \<Rightarrow> (Ret (Err (InvalidArgument ''channel must be an ASCII string'')), c)
      | Ok channel \<Rightarrow>
     if \<not> ctx_bootstrap_complete c then (Ret (Err TorNotConnected), c)
     else try_then (with_tor (tp_add_client_auth T endpoint_server_id client_auth_key)) (\<lambda>_ c.
       try_then (with_tor (tp_connect T (target_addr_from (endpoint_server_id, ctx_endpoint_port c)) None)) (\<lambda>os.
       let st = onion_stream_into os in
       try_then (io_result (stream_set_nonblocking T st)) (\<lambda>_ c.
       with_session (configured_session now (ctx_endpoint_timeout c) DEFAULT_ENDPOINT_MAX_MESSAGE_SIZE st) (\<lambda>rpc c.
       case ed25519_private_clone C (ctx_identity_private_key c) of
         Ret key \<Rightarrow>
           let endpoint_client = endpoint_client_new C rpc endpoint_server_id channel key;
               handle = ctx_next_handshake_handle c in
           (Ret (Ok handle), c\<lparr> ctx_next_handshake_handle := handle + 1,
              ctx_endpoint_clients := bt_insert handle endpoint_client (ctx_endpoint_clients c) \<rparr>)
       | _ \<Rightarrow> (Panic, c)) c)) c) c)"

definition endpoint_client_abort_handshake :: "handshake_handle \<Rightarrow> ('tp, 'd, unit) context_action" where
  "endpoint_client_abort_handshake handle c = (case bt_get (ctx_endpoint_clients c) handle of
      Some _ \<Rightarrow> (Ret (Ok ()), c\<lparr> ctx_endpoint_clients := bt_remove handle (ctx_endpoint_clients c) \<rparr>)
    | None \<Rightarrow> (Ret (Err (HandshakeHandleNotFound handle)), c))"

section \<open>Endpoint server\<close>

definition endpoint_server_start ::
  "crypto_ops \<Rightarrow> 'tp tor_provider \<Rightarrow> ed25519_private_key \<Rightarrow> string \<Rightarrow> v3_onion_service_id \<Rightarrow> x25519_public_key \<Rightarrow>
   ('tp, 'd, unit) context_action" where
  "endpoint_server_start C T endpoint_private_key endpoint_name client_identity client_auth c =
     (if \<not> ctx_bootstrap_complete c then (Ret (Err TorNotConnected), c)
      else let endpoint_public_key = ed25519_public_from_private_key C endpoint_private_key;
               endpoint_service_id = service_id_from_public_key C endpoint_public_key in
      if endpoint_service_id = ctx_identity_service_id c
      then (Ret (Err (InvalidArgument ''endpoint server must be different from identity server'')), c)
      else if map_of (ctx_endpoint_listeners c) endpoint_service_id \<noteq> None
      then (Ret (Err (IncorrectUsage ''endpoint server already started'')), c)
      else try_then (with_tor (tp_listener T endpoint_private_key (ctx_endpoint_port c) (Some [client_auth]))) (\<lambda>listener.
        try_then (io_result (listener_set_nonblocking T listener)) (\<lambda>_ c.
        (Ret (Ok ()), c\<lparr> ctx_endpoint_listeners := ctx_endpoint_listeners c @ [(endpoint_service_id,
            \<lparr> el_endpoint_name = endpoint_name, el_allowed_client = client_identity,
              el_listener = listener, el_published = False \<rparr>)] \<rparr>))) c)"

definition endpoint_server_handle_channel_request_received ::
  "bytes \<Rightarrow> handshake_handle \<Rightarrow> bool \<Rightarrow> ('tp, 'd, unit) context_action" where
  "endpoint_server_handle_channel_request_received random handle channel_supported c =
     (case bt_get (ctx_endpoint_servers c) handle of
        Some endpoint_server \<Rightarrow>
          (case handle_channel_request_received random channel_supported endpoint_server of (r, endpoint_server) \<Rightarrow>
            ((case r of Ret (Ok x) \<Rightarrow> Ret (Ok x) | Ret (Err e) \<Rightarrow> Ret (Err (EndpointServerError e))
                      | Panic \<Rightarrow> Panic | OutOfFuel \<Rightarrow> OutOfFuel),
             c\<lparr> ctx_endpoint_servers := bt_insert handle endpoint_server (ctx_endpoint_servers c) \<rparr>))
      | None \<Rightarrow> (Ret (Err (HandshakeHandleNotFound handle)), c))"

definition endpoint_server_stop :: "v3_onion_service_id \<Rightarrow> ('tp, 'd, unit) context_action" where
  "endpoint_server_stop endpoint_identity c =
     (if \<not> ctx_bootstrap_complete c then (Ret (Err TorNotConnected), c)
      else case map_of (ctx_endpoint_listeners c) endpoint_identity of
        Some _ \<Rightarrow> (Ret (Ok ()), c\<lparr> ctx_endpoint_listeners :=
            filter (\<lambda>e. fst e \<noteq> endpoint_identity) (ctx_endpoint_listeners c) \<rparr>)
      | None \<Rightarrow> (Ret (Err (InvalidArgument (''endpoint server with service id '' @
            service_id_to_string endpoint_identity @ '' not found''))), c))"

section \<open>Update: new connections\<close>

text \<open>The listener is returned with what is left of its script.\<close>

definition identity_server_handle_accept ::
  "crypto_ops \<Rightarrow> 'tp tor_provider \<Rightarrow> nat \<Rightarrow> onion_listener \<Rightarrow> duration \<Rightarrow> i32 \<Rightarrow> ed25519_private_key \<Rightarrow>
   ('d identity_server option, context_error) result outcome \<times> onion_listener" where
  "identity_server_handle_accept C T now listener timeout max_size key =
     (case onion_accept listener of (r, listener) \<Rightarrow>
       ((case r of
           Err k \<Rightarrow> Ret (Err (IoError k))
         | Ok None \<Rightarrow> Ret (Ok None)
         | Ok (Some os) \<Rightarrow>
             let st = onion_stream_into os in
             (case stream_set_nonblocking T st of
                Err _ \<Rightarrow> Ret (Ok None)
              | Ok _ \<Rightarrow>
                  (case configured_session now timeout max_size st of
                     Ret (Err e) \<Rightarrow> Ret (Err (HonkRpcError e))
                   | Ret (Ok rpc) \<Rightarrow> Ret (Ok (Some (identity_server_new rpc (service_id_from_private_key C key))))
                   | _ \<Rightarrow> Panic))), listener))"

definition endpoint_server_handle_accept ::
  "'tp tor_provider \<Rightarrow> nat \<Rightarrow> onion_listener \<Rightarrow> duration \<Rightarrow> v3_onion_service_id \<Rightarrow> v3_onion_service_id \<Rightarrow>
   ('d endpoint_server option, context_error) result outcome \<times> onion_listener" where
  "endpoint_server_handle_accept T now listener timeout client_service_id endpoint_service_id =
     (case onion_accept listener of (r, listener) \<Rightarrow>
       ((case r of
           Err k \<Rightarrow> Ret (Err (IoError k))
         | Ok None \<Rightarrow> Ret (Ok None)
         | Ok (Some os) \<Rightarrow>
             let st = onion_stream_into os in
             (case stream_set_nonblocking T st of
                Err _ \<Rightarrow> Ret (Ok None)
              | Ok _ \<Rightarrow>
                  (case configured_session now timeout DEFAULT_ENDPOINT_MAX_MESSAGE_SIZE st of
                     Ret (Err e) \<Rightarrow> Ret (Err (HonkRpcError e))
                   | Ret (Ok rpc) \<Rightarrow> Ret (Ok (Some (endpoint_server_new rpc client_service_id endpoint_service_id)))
                   | _ \<Rightarrow> Panic))), listener))"

type_synonym ('tp, 'd) context_phase = "(('tp, 'd) gosling_context, 'd context_event list) action"

definition accept_identity :: "crypto_ops \<Rightarrow> 'tp tor_provider \<Rightarrow> nat \<Rightarrow> ('tp, 'd) context_phase" where
  "accept_identity C T now c = (case ctx_identity_listener c of
      None \<Rightarrow> (Ret [], c)
    | Some listener \<Rightarrow>
        (case identity_server_handle_accept C T now listener (ctx_identity_timeout c)
           (ctx_identity_max_message_size c) (ctx_identity_private_key c) of (r, listener) \<Rightarrow>
         let c = c\<lparr> ctx_identity_listener := Some listener \<rparr> in
         (case r of
            Ret (Ok (Some identity_server)) \<Rightarrow>
              let handle = ctx_next_handshake_handle c in
              (Ret [IdentityServerHandshakeStarted handle], c\<lparr> ctx_next_handshake_handle := handle + 1,
                 ctx_identity_servers := bt_insert handle identity_server (ctx_identity_servers c) \<rparr>)
          | Ret (Ok None) \<Rightarrow> (Ret [], c)
          | Ret (Err _) \<Rightarrow> (Ret [], c\<lparr> ctx_identity_listener := None \<rparr>)
          | _ \<Rightarrow> (Panic, c))))"

text \<open>
  \<open>endpoint_listeners.retain\<close>: the entries still to be visited, those kept so far (in order),
  and the part of the context the closure borrows.
\<close>

fun accept_endpoints_loop ::
  "'tp tor_provider \<Rightarrow> nat \<Rightarrow> (v3_onion_service_id \<times> endpoint_listener) list \<Rightarrow>
   (v3_onion_service_id \<times> endpoint_listener) list \<Rightarrow> 'd context_event list \<Rightarrow> ('tp, 'd) context_phase" where
  "accept_endpoints_loop T now [] kept events c = (Ret events, c\<lparr> ctx_endpoint_listeners := kept \<rparr>)"
| "accept_endpoints_loop T now ((sid, e) # rest) kept events c =
     (case endpoint_server_handle_accept T now (el_listener e) (ctx_endpoint_timeout c) (el_allowed_client e) sid of
        (r, listener) \<Rightarrow>
          let e = e\<lparr> el_listener := listener \<rparr> in
          (case r of
             Ret (Ok (Some endpoint_server)) \<Rightarrow>
               let handle = ctx_next_handshake_handle c in
               accept_endpoints_loop T now rest (kept @ [(sid, e)]) (events @ [EndpointServerHandshakeStarted handle])
                 (c\<lparr> ctx_next_handshake_handle := handle + 1,
                     ctx_endpoint_servers := bt_insert handle endpoint_server (ctx_endpoint_servers c) \<rparr>)
           | Ret (Ok None) \<Rightarrow> accept_endpoints_loop T now rest (kept @ [(sid, e)]) events c
           | Ret (Err _) \<Rightarrow> accept_endpoints_loop T now rest kept events c
           | _ \<Rightarrow> (Panic, c\<lparr> ctx_endpoint_listeners := kept @ (sid, e) # rest \<rparr>)))"

definition accept_endpoints :: "'tp tor_provider \<Rightarrow> nat \<Rightarrow> ('tp, 'd) context_phase" where
  "accept_endpoints T now c = accept_endpoints_loop T now (ctx_endpoint_listeners c) [] [] c"

section \<open>Update: events of the provider\<close>

fun handle_tor_event :: "tor_event \<Rightarrow> ('tp, 'd) gosling_context \<Rightarrow> 'd context_event list \<times> ('tp, 'd) gosling_context" where
  "handle_tor_event (BootstrapStatus progress tag summary) c =
     ([TorBootstrapStatusReceived progress tag summary], c)"
| "handle_tor_event BootstrapComplete c = ([TorBootstrapCompleted], c\<lparr> ctx_bootstrap_complete := True \<rparr>)"
| "handle_tor_event (LogReceived line) c = ([TorLogReceived line], c)"
| "handle_tor_event (OnionServicePublished service_id) c =
     (if service_id = ctx_identity_service_id c then
        (if \<not> ctx_identity_server_published c
         then ([IdentityServerPublished], c\<lparr> ctx_identity_server_published := True \<rparr>)
         else ([], c))
      else case map_of (ctx_endpoint_listeners c) service_id of
        Some e \<Rightarrow>
          (if \<not> el_published e
           then ([EndpointServerPublished service_id (el_endpoint_name e)],
                 c\<lparr> ctx_endpoint_listeners := AList.update service_id (e\<lparr> el_published := True \<rparr>) (ctx_endpoint_listeners c) \<rparr>)
           else ([], c))
      | None \<Rightarrow> ([], c))"

fun handle_tor_events :: "tor_event list \<Rightarrow> ('tp, 'd) gosling_context \<Rightarrow> 'd context_event list \<times> ('tp, 'd) gosling_context" where
  "handle_tor_events [] c = ([], c)"
| "handle_tor_events (e # es) c = (case handle_tor_event e c of (evs, c) \<Rightarrow>
     case handle_tor_events es c of (evs', c) \<Rightarrow> (evs @ evs', c))"

section \<open>Update: handshakes in progress\<close>

text \<open>The closures of the four \<open>retain\<close> calls: whether the handshake stays, and its events.\<close>

definition step_identity_client ::
  "'d bson_ops \<Rightarrow> crypto_ops \<Rightarrow> (handshake_handle \<Rightarrow> bytes) \<Rightarrow> handshake_handle \<Rightarrow> 'd identity_client \<Rightarrow>
   (bool \<times> 'd context_event list) outcome \<times> 'd identity_client" where
  "step_identity_client B C random handle s = (case identity_client_update B C (random handle) s of
      (Ret (Ok None), s) \<Rightarrow> (Ret (True, []), s)
    | (Ret (Ok (Some (IdC_ChallengeReceived challenge))), s) \<Rightarrow>
        (Ret (True, [IdentityClientChallengeReceived handle challenge]), s)
    | (Ret (Ok (Some (IdC_HandshakeCompleted server endpoint name key))), s) \<Rightarrow>
        (Ret (False, [IdentityClientHandshakeCompleted handle server endpoint name key]), s)
    | (Ret (Err e), s) \<Rightarrow> (Ret (False, [IdentityClientHandshakeFailed handle (IdentityClientError e)]), s)
    | (Panic, s) \<Rightarrow> (Panic, s)
    | (OutOfFuel, s) \<Rightarrow> (OutOfFuel, s))"

definition step_identity_server ::
  "'d bson_ops \<Rightarrow> crypto_ops \<Rightarrow> (handshake_handle \<Rightarrow> ed25519_private_key) \<Rightarrow> handshake_handle \<Rightarrow> 'd identity_server \<Rightarrow>
   (bool \<times> 'd context_event list) outcome \<times> 'd identity_server" where
  "step_identity_server B C generated handle s = (case identity_server_update B C (generated handle) s of
      (Ret (Ok None), s) \<Rightarrow> (Ret (True, []), s)
    | (Ret (Ok (Some (IdS_EndpointRequestReceived client endpoint))), s) \<Rightarrow>
        (Ret (True, [IdentityServerEndpointRequestReceived handle client (ascii_value endpoint)]), s)
    | (Ret (Ok (Some (IdS_ChallengeResponseReceived response))), s) \<Rightarrow>
        (Ret (True, [IdentityServerChallengeResponseReceived handle response]), s)
    | (Ret (Ok (Some (IdS_HandshakeCompleted key endpoint client auth))), s) \<Rightarrow>
        (Ret (False, [IdentityServerHandshakeCompleted handle key (ascii_value endpoint) client auth]), s)
    | (Ret (Ok (Some (IdS_HandshakeRejected a b c d e))), s) \<Rightarrow>
        (Ret (False, [IdentityServerHandshakeRejected handle a b c d e]), s)
    | (Ret (Err e), s) \<Rightarrow> (Ret (False, [IdentityServerHandshakeFailed handle (IdentityServerError e)]), s)
    | (Panic, s) \<Rightarrow> (Panic, s)
    | (OutOfFuel, s) \<Rightarrow> (OutOfFuel, s))"

definition step_endpoint_client ::
  "'d bson_ops \<Rightarrow> crypto_ops \<Rightarrow> (handshake_handle \<Rightarrow> bytes) \<Rightarrow> handshake_handle \<Rightarrow> 'd endpoint_client \<Rightarrow>
   (bool \<times> 'd context_event list) outcome \<times> 'd endpoint_client" where
  "step_endpoint_client B C random handle s = (case endpoint_client_update B C (random handle) s of
      (Ret (Ok None), s) \<Rightarrow> (Ret (True, []), s)
    | (Ret (Ok (Some (EpC_HandshakeCompleted st))), s) \<Rightarrow>
        (Ret (False, [EndpointClientHandshakeCompleted handle (epc_server_service_id s)
           (ascii_value (epc_requested_channel s)) st]), s)
    | (Ret (Err e), s) \<Rightarrow> (Ret (False, [EndpointClientHandshakeFailed handle (EndpointClientError e)]), s)
    | (Panic, s) \<Rightarrow> (Panic, s)
    | (OutOfFuel, s) \<Rightarrow> (OutOfFuel, s))"

definition step_endpoint_server ::
  "'d bson_ops \<Rightarrow> crypto_ops \<Rightarrow> handshake_handle \<Rightarrow> 'd endpoint_server \<Rightarrow>
   (bool \<times> 'd context_event list) outcome \<times> 'd endpoint_server" where
  "step_endpoint_server B C handle s = (case endpoint_server_update B C s of
      (Ret (Ok None), s) \<Rightarrow> (Ret (True, []), s)
    | (Ret (Ok (Some (EpS_ChannelRequestReceived client channel))), s) \<Rightarrow>
        (Ret (True, [EndpointServerChannelRequestReceived handle client (ascii_value channel)]), s)
    | (Ret (Ok (Some (EpS_HandshakeCompleted client channel st))), s) \<Rightarrow>
        (Ret (False, [EndpointServerHandshakeCompleted handle (eps_server_identity s) client (ascii_value channel) st]), s)
    | (Ret (Ok (Some (EpS_HandshakeRejected a b d))), s) \<Rightarrow>
        (Ret (False, [EndpointServerHandshakeRejected handle a b d]), s)
    | (Ret (Err e), s) \<Rightarrow> (Ret (False, [EndpointServerHandshakeFailed handle (EndpointServerError e)]), s)
    | (Panic, s) \<Rightarrow> (Panic, s)
    | (OutOfFuel, s) \<Rightarrow> (OutOfFuel, s))"

definition update_identity_clients :: "'d bson_ops \<Rightarrow> crypto_ops \<Rightarrow> (handshake_handle \<Rightarrow> bytes) \<Rightarrow> ('tp, 'd) context_phase" where
  "update_identity_clients B C random c = (case bt_retain (step_identity_client B C random) (ctx_identity_clients c) of
     (r, m) \<Rightarrow> (r, c\<lparr> ctx_identity_clients := m \<rparr>))"

definition update_identity_servers ::
  "'d bson_ops \<Rightarrow> crypto_ops \<Rightarrow> (handshake_handle \<Rightarrow> ed25519_private_key) \<Rightarrow> ('tp, 'd) context_phase" where
  "update_identity_servers B C generated c = (case bt_retain (step_identity_server B C generated) (ctx_identity_servers c) of
     (r, m) \<Rightarrow> (r, c\<lparr> ctx_identity_servers := m \<rparr>))"

definition update_endpoint_clients :: "'d bson_ops \<Rightarrow> crypto_ops \<Rightarrow> (handshake_handle \<Rightarrow> bytes) \<Rightarrow> ('tp, 'd) context_phase" where
  "update_endpoint_clients B C random c = (case bt_retain (step_endpoint_client B C random) (ctx_endpoint_clients c) of
     (r, m) \<Rightarrow> (r, c\<lparr> ctx_endpoint_clients := m \<rparr>))"

definition update_endpoint_servers :: "'d bson_ops \<Rightarrow> crypto_ops \<Rightarrow> ('tp, 'd) context_phase" where
  "update_endpoint_servers B C c = (case bt_retain (step_endpoint_server B C) (ctx_endpoint_servers c) of
     (r, m) \<Rightarrow> (r, c\<lparr> ctx_endpoint_servers := m \<rparr>))"

section \<open>Update\<close>

definition context_update ::
  "'d bson_ops \<Rightarrow> crypto_ops \<Rightarrow> 'tp tor_provider \<Rightarrow> nat \<Rightarrow> (handshake_handle \<Rightarrow> bytes) \<Rightarrow>
   (handshake_handle \<Rightarrow> ed25519_private_key) \<Rightarrow> ('tp, 'd, 'd context_event list) context_action" where
  "context_update B C T now random generated =
     andthen (accept_identity C T now) (\<lambda>e1.
     andthen (accept_endpoints T now) (\<lambda>e2.
     try_then (with_tor (tp_update T)) (\<lambda>tor_events.
     andthen (\<lambda>c. case handle_tor_events tor_events c of (es, c) \<Rightarrow> (Ret es, c)) (\<lambda>e3.
     andthen (update_identity_clients B C random) (\<lambda>e4.
     andthen (update_identity_servers B C generated) (\<lambda>e5.
     andthen (update_endpoint_clients B C random) (\<lambda>e6.
     andthen (update_endpoint_servers B C) (\<lambda>e7.
     ret (Ok (e1 @ e2 @ e3 @ e4 @ e5 @ e6 @ e7))))))))))"

end
