(* ===== verification/Context_Safety.thy ===== *)
theory Context_Safety
  imports Gosling_Context
begin

text \<open>
  Invariants of the context: handles are unique across the four kinds of handshakes and below
  the counter, every server in progress is a reachable state of its protocol, every identity
  client is well-formed. Every operation of the context preserves them, and the events of
  \<open>update\<close> are tied to the checks of the handshake they report.
\<close>

section \<open>The invariant\<close>

abbreviation keyset :: "('k, 'v) btree \<Rightarrow> 'k set" where
  "keyset m \<equiv> fst ` set m"

definition separate :: "nat set \<Rightarrow> nat set \<Rightarrow> nat set \<Rightarrow> nat set \<Rightarrow> nat \<Rightarrow> bool" where
  "separate K L M N n \<longleftrightarrow> K \<inter> L = {} \<and> K \<inter> M = {} \<and> K \<inter> N = {} \<and> L \<inter> M = {} \<and> L \<inter> N = {} \<and> M \<inter> N = {} \<and>
     (\<forall>h \<in> K \<union> L \<union> M \<union> N. h < n)"

definition all_vals :: "('v \<Rightarrow> bool) \<Rightarrow> ('k::linorder, 'v) btree \<Rightarrow> bool" where
  "all_vals P m \<longleftrightarrow> bt_inv m \<and> (\<forall>e\<in>set m. P (snd e))"

definition ids_started :: "'d bson_ops \<Rightarrow> crypto_ops \<Rightarrow> v3_onion_service_id \<Rightarrow> 'd identity_server \<Rightarrow> bool" where
  "ids_started B C me s \<longleftrightarrow> (\<exists>log. ids_reach B C log s) \<and> ids_server_identity s = me"

definition eps_started ::
  "'d bson_ops \<Rightarrow> crypto_ops \<Rightarrow> (v3_onion_service_id \<times> v3_onion_service_id) set \<Rightarrow> 'd endpoint_server \<Rightarrow> bool" where
  "eps_started B C reg s \<longleftrightarrow> (\<exists>log. eps_reach B C (eps_allowed_client_identity s) log s) \<and>
     (eps_server_identity s, eps_allowed_client_identity s) \<in> reg"

definition listeners_in ::
  "(v3_onion_service_id \<times> v3_onion_service_id) set \<Rightarrow> (v3_onion_service_id \<times> endpoint_listener) list \<Rightarrow> bool" where
  "listeners_in reg ls \<longleftrightarrow> (\<forall>e\<in>set ls. (fst e, el_allowed_client (snd e)) \<in> reg)"

definition own_id :: "crypto_ops \<Rightarrow> ed25519_private_key \<Rightarrow> v3_onion_service_id \<Rightarrow> bool" where
  "own_id C key me \<longleftrightarrow> me = service_id_from_private_key C key"

text \<open>\<open>reg\<close> holds the pairs of endpoint and allowed client that were started so far.\<close>

definition ctx_inv ::
  "'d bson_ops \<Rightarrow> crypto_ops \<Rightarrow> (v3_onion_service_id \<times> v3_onion_service_id) set \<Rightarrow> ('tp, 'd) gosling_context \<Rightarrow> bool" where
  "ctx_inv B C reg c \<longleftrightarrow>
     all_vals idc_inv (ctx_identity_clients c) \<and>
     all_vals (ids_started B C (ctx_identity_service_id c)) (ctx_identity_servers c) \<and>
     all_vals (\<lambda>_. True) (ctx_endpoint_clients c) \<and> all_vals (eps_started B C reg) (ctx_endpoint_servers c) \<and>
     listeners_in reg (ctx_endpoint_listeners c) \<and>
     own_id C (ctx_identity_private_key c) (ctx_identity_service_id c) \<and>
     separate (keyset (ctx_identity_clients c)) (keyset (ctx_identity_servers c))
       (keyset (ctx_endpoint_clients c)) (keyset (ctx_endpoint_servers c)) (ctx_next_handshake_handle c)"

lemma all_vals_Nil [simp]: "all_vals P []"
  by (simp add: all_vals_def bt_inv_def)

lemma ctx_inv_new: "context_new C tor ip ep it mm et key = Ok c \<Longrightarrow> ctx_inv B C reg c"
  by (auto simp: context_new_def ctx_inv_def separate_def listeners_in_def own_id_def)

lemma ctx_inv_mono: "ctx_inv B C reg c \<Longrightarrow> reg \<subseteq> reg' \<Longrightarrow> ctx_inv B C reg' c"
  by (fastforce simp: ctx_inv_def all_vals_def eps_started_def listeners_in_def)

lemma ctx_inv_listeners:
  "ctx_inv B C reg c \<Longrightarrow> listeners_in reg ls \<Longrightarrow> ctx_inv B C reg (c\<lparr> ctx_endpoint_listeners := ls \<rparr>)"
  by (simp add: ctx_inv_def)

lemma ctx_inv_frame [simp]:
  "ctx_inv B C reg (c\<lparr> ctx_tor_provider := a \<rparr>) = ctx_inv B C reg c"
  "ctx_inv B C reg (c\<lparr> ctx_bootstrap_complete := b \<rparr>) = ctx_inv B C reg c"
  "ctx_inv B C reg (c\<lparr> ctx_identity_listener := l \<rparr>) = ctx_inv B C reg c"
  "ctx_inv B C reg (c\<lparr> ctx_identity_server_published := p \<rparr>) = ctx_inv B C reg c"
  by (simp_all add: ctx_inv_def)

section \<open>Insert, replace, restrict\<close>

lemma bt_insert_keyset [simp]: "keyset (bt_insert k v m) = insert k (keyset m)"
  using bt_insert_keys [of k v m] by simp

lemma bt_insert_set: "set (bt_insert k v m) \<subseteq> insert (k, v) (set m)"
  by (induction k v m rule: bt_insert.induct) auto

lemma all_vals_insert: "all_vals P m \<Longrightarrow> P v \<Longrightarrow> all_vals P (bt_insert k v m)"
  using bt_insert_set [of k v m] by (auto simp: all_vals_def bt_insert_inv)

lemma all_vals_get: "all_vals P m \<Longrightarrow> bt_get m k = Some v \<Longrightarrow> P v"
  by (force simp: all_vals_def bt_get_def dest: map_of_SomeD)

lemma bt_get_key: "bt_get m k = Some v \<Longrightarrow> insert k (keyset m) = keyset m"
  by (force simp: bt_get_def dest: map_of_SomeD)

lemma separate_insert:
  assumes "separate K L M N n"
  shows "separate (insert n K) L M N (Suc n)" "separate K (insert n L) M N (Suc n)"
    "separate K L (insert n M) N (Suc n)" "separate K L M (insert n N) (Suc n)"
  using assms by (auto simp: separate_def less_SucI)

lemma separate_mono:
  "separate K L M N n \<Longrightarrow> K' \<subseteq> K \<Longrightarrow> L' \<subseteq> L \<Longrightarrow> M' \<subseteq> M \<Longrightarrow> N' \<subseteq> N \<Longrightarrow> separate K' L' M' N' n"
  by (fastforce simp: separate_def)

lemma insert_fresh:
  assumes "ctx_inv B C reg c" "h = ctx_next_handshake_handle c"
  shows "idc_inv s1 \<Longrightarrow> ctx_inv B C reg (c\<lparr> ctx_next_handshake_handle := Suc h,
      ctx_identity_clients := bt_insert h s1 (ctx_identity_clients c) \<rparr>)"
    "ids_started B C (ctx_identity_service_id c) s2 \<Longrightarrow> ctx_inv B C reg (c\<lparr> ctx_next_handshake_handle := Suc h,
      ctx_identity_servers := bt_insert h s2 (ctx_identity_servers c) \<rparr>)"
    "ctx_inv B C reg (c\<lparr> ctx_next_handshake_handle := Suc h,
      ctx_endpoint_clients := bt_insert h s3 (ctx_endpoint_clients c) \<rparr>)"
    "eps_started B C reg s4 \<Longrightarrow> ctx_inv B C reg (c\<lparr> ctx_next_handshake_handle := Suc h,
      ctx_endpoint_servers := bt_insert h s4 (ctx_endpoint_servers c) \<rparr>)"
  using assms by (simp_all add: ctx_inv_def all_vals_insert separate_insert)

lemma replace_entry:
  assumes "ctx_inv B C reg c"
  shows "bt_get (ctx_identity_clients c) h = Some a \<Longrightarrow> idc_inv s1 \<Longrightarrow>
      ctx_inv B C reg (c\<lparr> ctx_identity_clients := bt_insert h s1 (ctx_identity_clients c) \<rparr>)"
    "bt_get (ctx_identity_servers c) h = Some b \<Longrightarrow> ids_started B C (ctx_identity_service_id c) s2 \<Longrightarrow>
      ctx_inv B C reg (c\<lparr> ctx_identity_servers := bt_insert h s2 (ctx_identity_servers c) \<rparr>)"
    "bt_get (ctx_endpoint_servers c) h = Some d \<Longrightarrow> eps_started B C reg s4 \<Longrightarrow>
      ctx_inv B C reg (c\<lparr> ctx_endpoint_servers := bt_insert h s4 (ctx_endpoint_servers c) \<rparr>)"
  using assms by (simp_all add: ctx_inv_def all_vals_insert bt_get_key)

lemma restrict_map:
  assumes "ctx_inv B C reg c"
  shows "all_vals idc_inv m1 \<Longrightarrow> keyset m1 \<subseteq> keyset (ctx_identity_clients c) \<Longrightarrow>
      ctx_inv B C reg (c\<lparr> ctx_identity_clients := m1 \<rparr>)"
    "all_vals (ids_started B C (ctx_identity_service_id c)) m2 \<Longrightarrow> keyset m2 \<subseteq> keyset (ctx_identity_servers c) \<Longrightarrow>
      ctx_inv B C reg (c\<lparr> ctx_identity_servers := m2 \<rparr>)"
    "all_vals (\<lambda>_. True) m3 \<Longrightarrow> keyset m3 \<subseteq> keyset (ctx_endpoint_clients c) \<Longrightarrow>
      ctx_inv B C reg (c\<lparr> ctx_endpoint_clients := m3 \<rparr>)"
    "all_vals (eps_started B C reg) m4 \<Longrightarrow> keyset m4 \<subseteq> keyset (ctx_endpoint_servers c) \<Longrightarrow>
      ctx_inv B C reg (c\<lparr> ctx_endpoint_servers := m4 \<rparr>)"
  using assms by (auto simp: ctx_inv_def elim!: separate_mono)

lemma all_vals_remove: "all_vals P m \<Longrightarrow> all_vals P (bt_remove k m)" "keyset (bt_remove k m) \<subseteq> keyset m"
  using bt.inv_remove [of m k] by (auto simp: all_vals_def bt_remove_def)

lemma all_vals_retain:
  assumes "bt_retain f m = (Ret evs, m')" "all_vals P m" "\<And>k v es w. P v \<Longrightarrow> f k v = (Ret (True, es), w) \<Longrightarrow> P w"
  shows "all_vals P m'" "keyset m' \<subseteq> keyset m"
proof -
  show "keyset m' \<subseteq> keyset m" using bt_retain_keys [OF assms(1)] by simp
  have "bt_inv m'" using bt_retain_inv [OF assms(1)] assms(2) by (simp add: all_vals_def)
  moreover have "P w" if "(k, w) \<in> set m'" for k w
    using bt_retain_kept [OF assms(1) that] assms(2,3) by (fastforce simp: all_vals_def)
  ultimately show "all_vals P m'" by (auto simp: all_vals_def)
qed

section \<open>Calls to the provider\<close>

lemma returns_with_tor [wp]:
  "returns (with_tor f c) Q \<longleftrightarrow> (case f (ctx_tor_provider c) of (r, tp) \<Rightarrow>
     Q (case r of Ok x \<Rightarrow> Ok x | Err e \<Rightarrow> Err (TorProviderError e)) (c\<lparr> ctx_tor_provider := tp \<rparr>))"
  by (simp add: returns_def with_tor_def split: prod.split)

lemma returns_io_result [wp]:
  "returns (io_result r c) Q \<longleftrightarrow> Q (case r of Ok x \<Rightarrow> Ok x | Err k \<Rightarrow> Err (IoError k)) c"
  by (simp add: io_result_def wp)

lemma returns_with_session [wp]:
  "returns (with_session r k c) Q \<longleftrightarrow> (case r of Ret (Ok s) \<Rightarrow> returns (k s c) Q
     | Ret (Err e) \<Rightarrow> Q (Err (HonkRpcError e)) c | _ \<Rightarrow> True)"
  by (simp add: returns_def with_session_def split: outcome.split result.split)

section \<open>Handles and the events that end a handshake\<close>

definition active :: "('tp, 'd) gosling_context \<Rightarrow> handshake_handle set" where
  "active c = keyset (ctx_identity_clients c) \<union> keyset (ctx_identity_servers c) \<union>
     keyset (ctx_endpoint_clients c) \<union> keyset (ctx_endpoint_servers c)"

fun ended :: "'d context_event \<Rightarrow> handshake_handle list" where
  "ended (IdentityClientHandshakeCompleted h _ _ _ _) = [h]"
| "ended (IdentityClientHandshakeFailed h _) = [h]"
| "ended (IdentityServerHandshakeCompleted h _ _ _ _) = [h]"
| "ended (IdentityServerHandshakeRejected h _ _ _ _ _) = [h]"
| "ended (IdentityServerHandshakeFailed h _) = [h]"
| "ended (EndpointClientHandshakeCompleted h _ _ _) = [h]"
| "ended (EndpointClientHandshakeFailed h _) = [h]"
| "ended (EndpointServerHandshakeCompleted h _ _ _ _) = [h]"
| "ended (EndpointServerHandshakeRejected h _ _ _) = [h]"
| "ended (EndpointServerHandshakeFailed h _) = [h]"
| "ended _ = []"

definition finished :: "'d context_event list \<Rightarrow> handshake_handle list" where
  "finished evs = concat (map ended evs)"

lemma finished_simps [simp]: "finished [] = []" "finished (e # es) = ended e @ finished es"
  "finished (es @ fs) = finished es @ finished fs"
  by (simp_all add: finished_def)

text \<open>
  \<open>tidy c evs t\<close>: on the way from \<open>c\<close> to \<open>t\<close>, new handles were taken from the counter, the events
  end each handshake at most once, and what they end is not active any more. \<open>accounted\<close>: no
  handshake disappears without such an event.
\<close>

definition seen :: "('tp, 'd) gosling_context \<Rightarrow> ('tp, 'd) gosling_context \<Rightarrow> handshake_handle set" where
  "seen c t = active c \<union> {ctx_next_handshake_handle c ..< ctx_next_handshake_handle t}"

definition tidy :: "('tp, 'd) gosling_context \<Rightarrow> 'd context_event list \<Rightarrow> ('tp, 'd) gosling_context \<Rightarrow> bool" where
  "tidy c evs t \<longleftrightarrow> ctx_next_handshake_handle c \<le> ctx_next_handshake_handle t \<and> distinct (finished evs) \<and>
     set (finished evs) \<subseteq> seen c t \<and> set (finished evs) \<inter> active t = {} \<and> active t \<subseteq> seen c t"

definition accounted :: "('tp, 'd) gosling_context \<Rightarrow> 'd context_event list \<Rightarrow> ('tp, 'd) gosling_context \<Rightarrow> bool" where
  "accounted c evs t \<longleftrightarrow> seen c t \<subseteq> set (finished evs) \<union> active t"

lemma active_bound: "ctx_inv B C reg c \<Longrightarrow> h \<in> active c \<Longrightarrow> h < ctx_next_handshake_handle c"
  by (auto simp: ctx_inv_def separate_def active_def)

lemma seen_trans:
  "ctx_next_handshake_handle c \<le> ctx_next_handshake_handle t \<Longrightarrow> ctx_next_handshake_handle t \<le> ctx_next_handshake_handle u \<Longrightarrow>
   seen c t \<union> {ctx_next_handshake_handle t ..< ctx_next_handshake_handle u} = seen c u"
  by (auto simp: seen_def)

lemma tidy_trans:
  assumes bound: "\<forall>h\<in>active c. h < ctx_next_handshake_handle c" and ct: "tidy c es t" and tu: "tidy t fs u"
  shows "tidy c (es @ fs) u"
proof -
  let ?n = ctx_next_handshake_handle
  from ct tu have le: "?n c \<le> ?n t" "?n t \<le> ?n u" by (simp_all add: tidy_def)
  have seen: "seen c u = seen c t \<union> {?n t ..< ?n u}" using seen_trans [OF le] by simp
  have sub: "seen t u \<subseteq> seen c u" using ct unfolding seen by (auto simp: tidy_def seen_def [of t])
  have old: "\<forall>h\<in>set (finished es). h < ?n t" using ct bound le by (fastforce simp: tidy_def seen_def)
  have gone: "set (finished es) \<inter> seen t u = {}" using ct old by (auto simp: tidy_def seen_def [of t])
  have "set (finished fs) \<subseteq> seen t u" "active u \<subseteq> seen t u" using tu by (simp_all add: tidy_def)
  with gone sub seen le ct tu show ?thesis by (auto simp: tidy_def)
qed

lemma accounted_trans:
  assumes "tidy c es t" "accounted c es t" "tidy t fs u" "accounted t fs u"
  shows "accounted c (es @ fs) u"
proof -
  have "seen c u = seen c t \<union> {ctx_next_handshake_handle t ..< ctx_next_handshake_handle u}"
    using assms(1,3) seen_trans [of c t u] by (simp add: tidy_def)
  with assms(2,4) show ?thesis by (auto simp: accounted_def seen_def [of t])
qed

lemma active_frame [simp]:
  "active (c\<lparr> ctx_tor_provider := a \<rparr>) = active c" "active (c\<lparr> ctx_bootstrap_complete := b \<rparr>) = active c"
  "active (c\<lparr> ctx_identity_listener := l \<rparr>) = active c" "active (c\<lparr> ctx_identity_server_published := p \<rparr>) = active c"
  "active (c\<lparr> ctx_endpoint_listeners := ls \<rparr>) = active c" "active (c\<lparr> ctx_next_handshake_handle := n \<rparr>) = active c"
  by (simp_all add: active_def)

text \<open>A step of the context: the invariant is kept, and handles and events agree.\<close>

definition stepped ::
  "'d bson_ops \<Rightarrow> crypto_ops \<Rightarrow> (v3_onion_service_id \<times> v3_onion_service_id) set \<Rightarrow>
   ('tp, 'd) gosling_context \<Rightarrow> 'd context_event list \<Rightarrow> ('tp, 'd) gosling_context \<Rightarrow> bool" where
  "stepped B C reg c evs t \<longleftrightarrow> ctx_inv B C reg t \<and> tidy c evs t \<and> accounted c evs t \<and>
     ctx_identity_service_id t = ctx_identity_service_id c"

lemma stepped_trans:
  assumes "ctx_inv B C reg c" "stepped B C reg c es t" "stepped B C reg t fs u"
  shows "stepped B C reg c (es @ fs) u"
proof -
  have "\<forall>h\<in>active c. h < ctx_next_handshake_handle c" using active_bound [OF assms(1)] by blast
  with assms(2,3) show ?thesis unfolding stepped_def by (metis tidy_trans accounted_trans)
qed

lemma stepped_same:
  "ctx_inv B C reg t \<Longrightarrow> active t = active c \<Longrightarrow> ctx_next_handshake_handle t = ctx_next_handshake_handle c \<Longrightarrow>
   ctx_identity_service_id t = ctx_identity_service_id c \<Longrightarrow> finished evs = [] \<Longrightarrow> stepped B C reg c evs t"
  by (simp add: stepped_def tidy_def accounted_def seen_def)

lemma stepped_fresh:
  assumes "ctx_inv B C reg t" "active t = insert (ctx_next_handshake_handle c) (active c)"
    "ctx_next_handshake_handle t = ctx_next_handshake_handle c + 1"
    "ctx_identity_service_id t = ctx_identity_service_id c" "finished evs = []"
  shows "stepped B C reg c evs t"
  using assms by (auto simp: stepped_def tidy_def accounted_def seen_def)

section \<open>Operations\<close>

named_theorems stepped_intros

lemma stepped_identity_client [stepped_intros]:
  "ctx_inv B C reg c \<Longrightarrow> idc_inv s \<Longrightarrow> h = ctx_next_handshake_handle c \<Longrightarrow>
   stepped B C reg c [] (c\<lparr> ctx_next_handshake_handle := Suc h,
     ctx_identity_clients := bt_insert h s (ctx_identity_clients c) \<rparr>)"
  by (rule stepped_fresh) (auto simp: insert_fresh(1) active_def)

lemma stepped_identity_server [stepped_intros]:
  "ctx_inv B C reg c \<Longrightarrow> ids_started B C (ctx_identity_service_id c) s \<Longrightarrow> h = ctx_next_handshake_handle c \<Longrightarrow>
   stepped B C reg c [IdentityServerHandshakeStarted h] (c\<lparr> ctx_next_handshake_handle := Suc h,
     ctx_identity_servers := bt_insert h s (ctx_identity_servers c) \<rparr>)"
  by (rule stepped_fresh) (auto simp: insert_fresh(2) active_def)

lemma stepped_endpoint_client [stepped_intros]:
  "ctx_inv B C reg c \<Longrightarrow> h = ctx_next_handshake_handle c \<Longrightarrow>
   stepped B C reg c [] (c\<lparr> ctx_next_handshake_handle := Suc h,
     ctx_endpoint_clients := bt_insert h s (ctx_endpoint_clients c) \<rparr>)"
  by (rule stepped_fresh) (auto simp: insert_fresh(3) active_def)

lemma stepped_endpoint_server [stepped_intros]:
  "ctx_inv B C reg c \<Longrightarrow> eps_started B C reg s \<Longrightarrow> h = ctx_next_handshake_handle c \<Longrightarrow>
   stepped B C reg c [EndpointServerHandshakeStarted h] (c\<lparr> ctx_next_handshake_handle := Suc h,
     ctx_endpoint_servers := bt_insert h s (ctx_endpoint_servers c) \<rparr>)"
  by (rule stepped_fresh) (auto simp: insert_fresh(4) active_def)

lemma stepped_refl [stepped_intros]: "ctx_inv B C reg c \<Longrightarrow> stepped B C reg c [] c"
  by (rule stepped_same) simp_all

text \<open>Fields that the invariant does not read may be changed on the way.\<close>

lemma stepped_after [stepped_intros]:
  "stepped B C reg (c\<lparr> ctx_tor_provider := tp \<rparr>) evs t \<Longrightarrow> stepped B C reg c evs t"
  "stepped B C reg (c\<lparr> ctx_identity_listener := l \<rparr>) evs t \<Longrightarrow> stepped B C reg c evs t"
  by (simp_all add: stepped_def tidy_def accounted_def seen_def)

lemma stepped_connected [stepped_intros]:
  assumes "ctx_inv B C reg c"
  shows "stepped B C reg c [] (c\<lparr> ctx_tor_provider := tp \<rparr>)"
    "idc_inv s \<Longrightarrow> stepped B C reg c [] (c\<lparr> ctx_tor_provider := tp, ctx_next_handshake_handle := Suc (ctx_next_handshake_handle c),
       ctx_identity_clients := bt_insert (ctx_next_handshake_handle c) s (ctx_identity_clients c) \<rparr>)"
    "stepped B C reg c [] (c\<lparr> ctx_tor_provider := tp, ctx_next_handshake_handle := Suc (ctx_next_handshake_handle c),
       ctx_endpoint_clients := bt_insert (ctx_next_handshake_handle c) s' (ctx_endpoint_clients c) \<rparr>)"
  using assms stepped_identity_client [of B C reg "c\<lparr> ctx_tor_provider := tp \<rparr>" s "ctx_next_handshake_handle c"]
    stepped_endpoint_client [of B C reg "c\<lparr> ctx_tor_provider := tp \<rparr>" "ctx_next_handshake_handle c" s']
    stepped_refl [of B C reg "c\<lparr> ctx_tor_provider := tp \<rparr>"]
  by (auto dest: stepped_after(1))

lemma identity_client_begin_handshake_step:
  assumes "ctx_inv B C reg c"
  shows "returns (identity_client_begin_handshake C T now generated srv ep c) (\<lambda>_. stepped B C reg c [])"
  using assms by (auto simp: identity_client_begin_handshake_def wp Let_def dest: idc_inv_new
      intro: stepped_refl stepped_connected split: result.splits prod.splits outcome.splits if_splits)

lemma endpoint_client_begin_handshake_step:
  assumes "ctx_inv B C reg c"
  shows "returns (endpoint_client_begin_handshake C T now srv key channel c) (\<lambda>_. stepped B C reg c [])"
  using assms by (auto simp: endpoint_client_begin_handshake_def wp Let_def
      intro: stepped_refl stepped_connected split: result.splits prod.splits outcome.splits if_splits)

lemma stepped_replaced:
  assumes "ctx_inv B C reg c"
  shows "bt_get (ctx_identity_clients c) h = Some a \<Longrightarrow> idc_inv s1 \<Longrightarrow>
      stepped B C reg c [] (c\<lparr> ctx_identity_clients := bt_insert h s1 (ctx_identity_clients c) \<rparr>)"
    "bt_get (ctx_identity_servers c) h = Some b \<Longrightarrow> ids_started B C (ctx_identity_service_id c) s2 \<Longrightarrow>
      stepped B C reg c [] (c\<lparr> ctx_identity_servers := bt_insert h s2 (ctx_identity_servers c) \<rparr>)"
    "bt_get (ctx_endpoint_servers c) h = Some d \<Longrightarrow> eps_started B C reg s4 \<Longrightarrow>
      stepped B C reg c [] (c\<lparr> ctx_endpoint_servers := bt_insert h s4 (ctx_endpoint_servers c) \<rparr>)"
  using replace_entry [OF assms] by (auto intro!: stepped_same simp: active_def bt_get_key)

lemma ctx_inv_get:
  assumes "ctx_inv B C reg c"
  shows "bt_get (ctx_identity_clients c) h = Some a \<Longrightarrow> idc_inv a"
    "bt_get (ctx_identity_servers c) h = Some b \<Longrightarrow> ids_started B C (ctx_identity_service_id c) b"
    "bt_get (ctx_endpoint_servers c) h = Some d \<Longrightarrow> eps_started B C reg d"
  using assms by (auto simp: ctx_inv_def intro: all_vals_get)

lemma handle_endpoint_request_received_started:
  assumes "ids_started B C me s" "handle_endpoint_request_received B random a v d s = (Ret r, t)"
  shows "ids_started B C me t"
proof (cases "r = Ok ()")
  case True
  have "ids_server_identity t = ids_server_identity s" using assms(2)
    by (auto simp: handle_endpoint_request_received_def Let_def split: option.splits if_splits result.splits)
  with True assms show ?thesis by (auto simp: ids_started_def dest: ids_reach_request)
next
  case False
  with assms(2) have "t = s"
    by (auto simp: handle_endpoint_request_received_def Let_def split: option.splits if_splits result.splits)
  with assms(1) show ?thesis by simp
qed

lemma handle_challenge_response_received_started:
  assumes "ids_started B C me s" "handle_challenge_response_received v s = (Ret r, t)"
  shows "ids_started B C me t"
proof (cases "r = Ok ()")
  case True
  have "ids_server_identity t = ids_server_identity s" using assms(2)
    by (auto simp: handle_challenge_response_received_def split: if_splits)
  with True assms show ?thesis by (auto simp: ids_started_def dest: ids_reach_response)
next
  case False
  with assms(2) have "t = s" by (auto simp: handle_challenge_response_received_def split: if_splits)
  with assms(1) show ?thesis by simp
qed

lemma handle_channel_request_received_started:
  assumes "eps_started B C reg s" "handle_channel_request_received random v s = (Ret r, t)"
  shows "eps_started B C reg t"
proof (cases "r = Ok ()")
  case True
  have "eps_server_identity t = eps_server_identity s \<and> eps_allowed_client_identity t = eps_allowed_client_identity s"
    using assms(2) by (auto simp: handle_channel_request_received_def split: if_splits)
  with True assms show ?thesis by (auto simp: eps_started_def dest: eps_reach_channel)
next
  case False
  with assms(2) have "t = s" by (auto simp: handle_channel_request_received_def split: if_splits)
  with assms(1) show ?thesis by simp
qed

lemma identity_client_handle_challenge_received_step:
  assumes "ctx_inv B C reg c"
  shows "returns (identity_client_handle_challenge_received B h d c) (\<lambda>_. stepped B C reg c [])"
  using assms by (auto simp: identity_client_handle_challenge_received_def wp stepped_refl
      dest: send_response_inv [OF ctx_inv_get(1)] intro: stepped_replaced
      split: option.split prod.split outcome.split result.split)

lemma identity_server_handle_endpoint_request_received_step:
  assumes "ctx_inv B C reg c"
  shows "returns (identity_server_handle_endpoint_request_received B random h a v d c) (\<lambda>_. stepped B C reg c [])"
  using assms by (auto simp: identity_server_handle_endpoint_request_received_def wp stepped_refl
      dest: handle_endpoint_request_received_started [OF ctx_inv_get(2)] intro: stepped_replaced
      split: option.split prod.split outcome.split result.split)

lemma identity_server_handle_challenge_response_received_step:
  assumes "ctx_inv B C reg c"
  shows "returns (identity_server_handle_challenge_response_received h v c) (\<lambda>_. stepped B C reg c [])"
  using assms by (auto simp: identity_server_handle_challenge_response_received_def wp stepped_refl
      dest: handle_challenge_response_received_started [OF ctx_inv_get(2)] intro: stepped_replaced
      split: option.split prod.split outcome.split result.split)

lemma endpoint_server_handle_channel_request_received_step:
  assumes "ctx_inv B C reg c"
  shows "returns (endpoint_server_handle_channel_request_received random h v c) (\<lambda>_. stepped B C reg c [])"
  using assms by (auto simp: endpoint_server_handle_channel_request_received_def wp stepped_refl
      dest: handle_channel_request_received_started [OF ctx_inv_get(3)] intro: stepped_replaced
      split: option.split prod.split outcome.split result.split)
lemma identity_server_start_step:
  assumes "ctx_inv B C reg c"
  shows "returns (identity_server_start T c) (\<lambda>_. stepped B C reg c [])"
  using assms by (auto simp: identity_server_start_def wp intro!: stepped_same
      split: result.splits prod.splits)

definition registered ::
  "crypto_ops \<Rightarrow> ed25519_private_key \<Rightarrow> v3_onion_service_id \<Rightarrow> v3_onion_service_id \<times> v3_onion_service_id" where
  "registered C key client = (service_id_from_public_key C (ed25519_public_from_private_key C key), client)"

lemma endpoint_server_start_step:
  assumes "ctx_inv B C reg c"
  shows "returns (endpoint_server_start C T key name client auth c) (\<lambda>r t.
    stepped B C (insert (registered C key client) reg) c [] t \<and> (r \<noteq> Ok () \<longrightarrow> stepped B C reg c [] t))"
proof -
  have mono: "ctx_inv B C (insert (registered C key client) reg) c"
    using assms by (rule ctx_inv_mono) blast
  then have "listeners_in (insert (registered C key client) reg) (ctx_endpoint_listeners c)" by (simp add: ctx_inv_def)
  with assms mono show ?thesis
    by (auto simp: endpoint_server_start_def wp Let_def registered_def listeners_in_def
        intro!: stepped_same ctx_inv_listeners split: result.splits prod.splits)
qed

lemma tidy_removed:
  "active t \<subseteq> active c \<Longrightarrow> ctx_next_handshake_handle t = ctx_next_handshake_handle c \<Longrightarrow> tidy c [] t"
  by (auto simp: tidy_def seen_def)

lemma active_removed:
  "active (c\<lparr> ctx_identity_clients := bt_remove h (ctx_identity_clients c) \<rparr>) \<subseteq> active c"
  "active (c\<lparr> ctx_endpoint_clients := bt_remove h (ctx_endpoint_clients c) \<rparr>) \<subseteq> active c"
  by (auto simp: active_def bt_remove_def)

text \<open>A step that may drop handshakes but reports nothing.\<close>

definition kept_inv :: "'d bson_ops \<Rightarrow> crypto_ops \<Rightarrow> (v3_onion_service_id \<times> v3_onion_service_id) set \<Rightarrow>
   ('tp, 'd) gosling_context \<Rightarrow> ('tp, 'd) gosling_context \<Rightarrow> bool" where
  "kept_inv B C reg c t \<longleftrightarrow> ctx_inv B C reg t \<and> tidy c [] t \<and> ctx_identity_service_id t = ctx_identity_service_id c"

lemma stepped_kept: "stepped B C reg c evs t \<Longrightarrow> kept_inv B C reg c t"
  by (auto simp: stepped_def kept_inv_def tidy_def)

lemma aborts_step:
  assumes "ctx_inv B C reg c"
  shows "returns (identity_client_abort_handshake h c) (\<lambda>_. kept_inv B C reg c)"
    "returns (endpoint_client_abort_handshake h c) (\<lambda>_. kept_inv B C reg c)"
    "returns (identity_server_stop c) (\<lambda>_. kept_inv B C reg c)"
    "returns (endpoint_server_stop sid c) (\<lambda>_. kept_inv B C reg c)"
proof -
  note r = restrict_map [OF assms] 
  have inv: "all_vals idc_inv (ctx_identity_clients c)" "all_vals (\<lambda>_. True) (ctx_endpoint_clients c)"
    "listeners_in reg (ctx_endpoint_listeners c)" using assms by (simp_all add: ctx_inv_def)
  show "returns (identity_client_abort_handshake h c) (\<lambda>_. kept_inv B C reg c)"
    using assms inv(1) by (auto simp: identity_client_abort_handshake_def wp kept_inv_def
        intro!: tidy_removed r(1) all_vals_remove active_removed split: option.split)
  show "returns (endpoint_client_abort_handshake h c) (\<lambda>_. kept_inv B C reg c)"
    using assms inv(2) by (auto simp: endpoint_client_abort_handshake_def wp kept_inv_def
        intro!: tidy_removed r(3) all_vals_remove active_removed split: option.split)
  show "returns (identity_server_stop c) (\<lambda>_. kept_inv B C reg c)"
    using assms restrict_map(2) [of B C reg "c\<lparr> ctx_identity_listener := None, ctx_identity_server_published := False \<rparr>" "[]"]
    by (auto simp: identity_server_stop_def wp kept_inv_def intro!: tidy_removed) (auto simp: active_def)
  show "returns (endpoint_server_stop sid c) (\<lambda>_. kept_inv B C reg c)"
    using assms inv(3) by (auto simp: endpoint_server_stop_def wp kept_inv_def listeners_in_def
        intro!: tidy_removed ctx_inv_listeners split: option.split)
qed

lemma provider_calls_step:
  assumes "ctx_inv B C reg c"
  shows "returns (context_bootstrap T c) (\<lambda>_. stepped B C reg c [])"
    "returns (context_connect T target token c) (\<lambda>_. stepped B C reg c [])"
    "returns (context_generate_circuit_token T c) (\<lambda>_. stepped B C reg c [])"
    "returns (context_release_circuit_token T tok c) (\<lambda>_. stepped B C reg c [])"
  using assms by (auto simp: context_bootstrap_def context_connect_def context_generate_circuit_token_def
      context_release_circuit_token_def wp stepped_connected(1) split: prod.split)

section \<open>Update\<close>

lemma accept_identity_step:
  assumes "ctx_inv B C reg c"
  shows "returns (accept_identity C T now c) (stepped B C reg c)"
proof -
  have "ids_started B C (ctx_identity_service_id c) (identity_server_new rpc (service_id_from_private_key C (ctx_identity_private_key c)))" for rpc
  proof -
    have "ids_server_identity (identity_server_new rpc me) = me" for me by (simp add: identity_server_new_def)
    with assms show ?thesis using ids_reach_new [of B C rpc] by (auto simp: ids_started_def ctx_inv_def own_id_def)
  qed
  then have "stepped B C reg (c\<lparr> ctx_identity_listener := l \<rparr>) [IdentityServerHandshakeStarted (ctx_next_handshake_handle c)]
     (c\<lparr> ctx_identity_listener := l, ctx_next_handshake_handle := Suc (ctx_next_handshake_handle c),
         ctx_identity_servers := bt_insert (ctx_next_handshake_handle c) 
          (identity_server_new rpc (service_id_from_private_key C (ctx_identity_private_key c))) (ctx_identity_servers c) \<rparr>)" for l rpc
    using stepped_identity_server [of B C reg "c\<lparr> ctx_identity_listener := l \<rparr>" _ "ctx_next_handshake_handle c"] assms by auto
  from stepped_after(2) [OF this] assms show ?thesis
    by (auto simp: accept_identity_def identity_server_handle_accept_def wp Let_def intro: stepped_same
        split: option.splits prod.splits result.splits outcome.splits)
qed
lemma stepped_inv: "stepped B C reg c evs t \<Longrightarrow> ctx_inv B C reg t"
  by (simp add: stepped_def)

lemma accept_endpoints_loop_step:
  assumes "stepped B C reg c0 events c" "ctx_inv B C reg c0" "listeners_in reg (kept @ rest)"
  shows "returns (accept_endpoints_loop T now rest kept events c) (stepped B C reg c0)"
  using assms
proof (induction T now rest kept events c rule: accept_endpoints_loop.induct)
  case (1 T now kept events c)
  have "ctx_inv B C reg (c\<lparr> ctx_endpoint_listeners := kept \<rparr>)"
    using 1 by (simp add: stepped_def ctx_inv_listeners)
  then have "stepped B C reg c [] (c\<lparr> ctx_endpoint_listeners := kept \<rparr>)" by (simp add: stepped_same)
  with stepped_trans [OF 1(2,1) this] show ?case by (simp add: wp)
next
  case (2 T now sid e rest kept events c)
  obtain r :: "('a endpoint_server option, context_error) result outcome" and l where acc: "endpoint_server_handle_accept T now (el_listener e) (ctx_endpoint_timeout c) (el_allowed_client e) sid = (r, l)"
    by fastforce
  let ?e = "e\<lparr> el_listener := l \<rparr>"
  have ls: "listeners_in reg ((kept @ [(sid, ?e)]) @ rest)" "listeners_in reg (kept @ rest)"
    and reg: "(sid, el_allowed_client e) \<in> reg"
    using "2.prems"(3) by (auto simp: listeners_in_def)
  show ?case
  proof (cases "\<exists>s. r = Ret (Ok (Some s))")
    case True
    then obtain s where r: "r = Ret (Ok (Some s))" by blast
    with acc obtain rpc where s: "s = endpoint_server_new rpc (el_allowed_client e) sid"
      by (auto simp: endpoint_server_handle_accept_def Let_def split: prod.splits result.splits option.splits outcome.splits)
    have "eps_allowed_client_identity s = el_allowed_client e" "eps_server_identity s = sid"
      by (simp_all add: s endpoint_server_new_def)
    with reg have "eps_started B C reg s" using eps_reach_new [of B C "el_allowed_client e" rpc sid] s by (auto simp: eps_started_def)
    with "2.prems"(1) have "stepped B C reg c [EndpointServerHandshakeStarted (ctx_next_handshake_handle c)]
       (c\<lparr> ctx_next_handshake_handle := Suc (ctx_next_handshake_handle c),
           ctx_endpoint_servers := bt_insert (ctx_next_handshake_handle c) s (ctx_endpoint_servers c) \<rparr>)"
      by (intro stepped_endpoint_server [OF stepped_inv]) auto
    from stepped_trans [OF "2.prems"(2,1) this] show ?thesis
      using "2.IH"(2) [OF acc [symmetric] refl] acc r "2.prems"(2) ls(1) by (simp add: Let_def)
  next
    case False
    with acc "2.IH"(1) [OF acc [symmetric] refl] "2.IH"(3) [OF acc [symmetric] refl] "2.prems"(1,2) ls show ?thesis
      by (auto simp: Let_def wp split: outcome.splits result.splits option.splits)
  qed
qed
lemma accept_endpoints_step:
  "ctx_inv B C reg c \<Longrightarrow> returns (accept_endpoints T now c) (stepped B C reg c)"
  unfolding accept_endpoints_def
  by (rule accept_endpoints_loop_step) (auto simp: stepped_refl, simp add: ctx_inv_def)

lemma alist_update_set: "set (AList.update k v xs) \<subseteq> insert (k, v) (set xs)"
  by (induction xs) auto

lemma handle_tor_event_step:
  assumes "ctx_inv B C reg c" "handle_tor_event e c = (evs, t)"
  shows "stepped B C reg c evs t"
proof -
  have "listeners_in reg (AList.update sid (e\<lparr> el_published := True \<rparr>) (ctx_endpoint_listeners c))"
    if "map_of (ctx_endpoint_listeners c) sid = Some e" for sid e
  proof -
    have "(sid, el_allowed_client e) \<in> reg" "listeners_in reg (ctx_endpoint_listeners c)"
      using assms(1) map_of_SomeD [OF that] by (auto simp: ctx_inv_def listeners_in_def)
    then show ?thesis using alist_update_set [of sid _ "ctx_endpoint_listeners c"] by (fastforce simp: listeners_in_def)
  qed
  then show ?thesis using assms
    by (cases e) (auto intro!: stepped_same ctx_inv_listeners split: if_splits option.splits)
qed

lemma handle_tor_events_step:
  "ctx_inv B C reg c \<Longrightarrow> handle_tor_events es c = (evs, t) \<Longrightarrow> stepped B C reg c evs t"
proof (induction es arbitrary: c evs t)
  case Nil
  then show ?case by (simp add: stepped_refl)
next
  case (Cons e es)
  obtain evs1 c1 where 1: "handle_tor_event e c = (evs1, c1)" by fastforce
  obtain evs2 c2 where 2: "handle_tor_events es c1 = (evs2, c2)" by fastforce
  have s: "stepped B C reg c evs1 c1" by (rule handle_tor_event_step [OF Cons.prems(1) 1])
  then have "stepped B C reg c1 evs2 c2" using 2 by (intro Cons.IH) (simp_all add: stepped_def)
  with stepped_trans [OF Cons.prems(1) s] 1 2 Cons.prems(2) show ?case by auto
qed

lemma step_reports:
  "step_identity_client B C random h s1 = (Ret (keep, es), t1) \<Longrightarrow> concat (map ended es) = (if keep then [] else [h])"
  "step_identity_server B C generated h s2 = (Ret (keep, es), t2) \<Longrightarrow> concat (map ended es) = (if keep then [] else [h])"
  "step_endpoint_client B C random h s3 = (Ret (keep, es), t3) \<Longrightarrow> concat (map ended es) = (if keep then [] else [h])"
  "step_endpoint_server B C h s4 = (Ret (keep, es), t4) \<Longrightarrow> concat (map ended es) = (if keep then [] else [h])"
  by (auto simp: step_identity_client_def step_identity_server_def step_endpoint_client_def step_endpoint_server_def
      split: prod.splits outcome.splits result.splits option.splits identity_client_event.splits
        identity_server_event.splits endpoint_client_event.splits endpoint_server_event.splits)

lemma stepped_retained:
  assumes "bt_retain f m = (Ret evs, m')" "all_vals P m" "\<And>k v es w. P v \<Longrightarrow> f k v = (Ret (True, es), w) \<Longrightarrow> P w"
    and "\<And>k v keep es w. f k v = (Ret (keep, es), w) \<Longrightarrow> concat (map ended es) = (if keep then [] else [k])"
    and "all_vals P m' \<Longrightarrow> keyset m' \<subseteq> keyset m \<Longrightarrow> ctx_inv B C reg t"
    and "ctx_next_handshake_handle t = ctx_next_handshake_handle c" "ctx_identity_service_id t = ctx_identity_service_id c"
    and "active c = keyset m \<union> others" "active t = keyset m' \<union> others" "keyset m \<inter> others = {}"
  shows "stepped B C reg c evs t"
proof -
  have r: "all_vals P m'" "keyset m' \<subseteq> keyset m" using all_vals_retain [OF assms(1,2)] assms(3) by blast+
  have d: "distinct (map fst m)" using assms(2) by (simp add: all_vals_def bt_inv_def)
  then have "finished evs = filter (\<lambda>k. k \<notin> keyset m') (map fst m)"
    using bt_retain_dropped [OF assms(1) d assms(4)] by (simp add: finished_def)
  with r d assms(5-) show ?thesis by (auto simp: stepped_def tidy_def accounted_def seen_def)
qed

lemma separateD:
  "ctx_inv B C reg c \<Longrightarrow> separate (keyset (ctx_identity_clients c)) (keyset (ctx_identity_servers c))
     (keyset (ctx_endpoint_clients c)) (keyset (ctx_endpoint_servers c)) (ctx_next_handshake_handle c)"
  by (simp add: ctx_inv_def)

lemma update_identity_clients_step:
  assumes "ctx_inv B C reg c"
  shows "returns (update_identity_clients B C random c) (stepped B C reg c)"
proof (unfold returns_def, intro allI impI)
  fix evs t assume "update_identity_clients B C random c = (Ret evs, t)"
  then obtain m where run: "bt_retain (step_identity_client B C random) (ctx_identity_clients c) = (Ret evs, m)"
    and t: "t = c\<lparr> ctx_identity_clients := m \<rparr>" by (auto simp: update_identity_clients_def split: prod.splits)
  have kept: "idc_inv w" if "idc_inv v" "step_identity_client B C random k v = (Ret (True, es), w)" for k v es w
    using that by (auto simp: step_identity_client_def dest: identity_client_update_inv
        split: prod.splits outcome.splits result.splits option.splits identity_client_event.splits)
  show "stepped B C reg c evs t"
    by (rule stepped_retained [OF run _ kept step_reports(1) restrict_map(1) [OF assms, of m, folded t], where others =
          "keyset (ctx_identity_servers c) \<union> keyset (ctx_endpoint_clients c) \<union> keyset (ctx_endpoint_servers c)"])
      (use assms separateD [OF assms] in \<open>auto simp: t active_def ctx_inv_def separate_def\<close>)
qed

lemma step_identity_server_started:
  assumes "signing_key C (generated k)" "ids_started B C me v" "step_identity_server B C generated k v = (Ret (keep, es), w)"
  shows "ids_started B C me w"
proof -
  obtain r where "identity_server_update B C (generated k) v = (Ret r, w)"
    using assms(3) by (auto simp: step_identity_server_def
        split: prod.splits outcome.splits result.splits option.splits identity_server_event.splits)
  with assms show ?thesis unfolding ids_started_def by (metis ids_reach_update identity_server_update_server)
qed

lemma step_endpoint_server_started:
  assumes "eps_started B C reg v" "step_endpoint_server B C k v = (Ret (keep, es), w)"
  shows "eps_started B C reg w"
proof -
  obtain r where r: "endpoint_server_update B C v = (Ret r, w)"
    using assms(2) by (auto simp: step_endpoint_server_def
        split: prod.splits outcome.splits result.splits option.splits endpoint_server_event.splits)
  from assms(1) obtain log where log: "eps_reach B C (eps_allowed_client_identity v) log v" by (auto simp: eps_started_def)
  then have w: "eps_reach B C (eps_allowed_client_identity v) log w" using r by (rule eps_reach_update)
  then have "eps_allowed_client_identity w = eps_allowed_client_identity v" using eps_reach_inv [OF w] by (simp add: eps_inv_def)
  with w assms(1) endpoint_server_update_server [OF r] show ?thesis by (auto simp: eps_started_def)
qed

lemma update_identity_servers_step:
  assumes "ctx_inv B C reg c" "\<And>h. signing_key C (generated h)"
  shows "returns (update_identity_servers B C generated c) (stepped B C reg c)"
proof (unfold returns_def, intro allI impI)
  fix evs t assume "update_identity_servers B C generated c = (Ret evs, t)"
  then obtain m where run: "bt_retain (step_identity_server B C generated) (ctx_identity_servers c) = (Ret evs, m)"
    and t: "t = c\<lparr> ctx_identity_servers := m \<rparr>" by (auto simp: update_identity_servers_def split: prod.splits)
  show "stepped B C reg c evs t"
    by (rule stepped_retained [OF run _ step_identity_server_started [OF assms(2)] step_reports(2)
          restrict_map(2) [OF assms(1), of m, folded t], where others =
          "keyset (ctx_identity_clients c) \<union> keyset (ctx_endpoint_clients c) \<union> keyset (ctx_endpoint_servers c)"])
      (use assms separateD [OF assms(1)] in \<open>auto simp: t active_def ctx_inv_def separate_def\<close>)
qed

lemma update_endpoint_clients_step:
  assumes "ctx_inv B C reg c"
  shows "returns (update_endpoint_clients B C random c) (stepped B C reg c)"
proof (unfold returns_def, intro allI impI)
  fix evs t assume "update_endpoint_clients B C random c = (Ret evs, t)"
  then obtain m where run: "bt_retain (step_endpoint_client B C random) (ctx_endpoint_clients c) = (Ret evs, m)"
    and t: "t = c\<lparr> ctx_endpoint_clients := m \<rparr>" by (auto simp: update_endpoint_clients_def split: prod.splits)
  show "stepped B C reg c evs t"
    by (rule stepped_retained [OF run _ TrueI step_reports(3) restrict_map(3) [OF assms, of m, folded t], where others =
          "keyset (ctx_identity_clients c) \<union> keyset (ctx_identity_servers c) \<union> keyset (ctx_endpoint_servers c)"])
      (use assms separateD [OF assms] in \<open>auto simp: t active_def ctx_inv_def separate_def\<close>)
qed

lemma update_endpoint_servers_step:
  assumes "ctx_inv B C reg c"
  shows "returns (update_endpoint_servers B C c) (stepped B C reg c)"
proof (unfold returns_def, intro allI impI)
  fix evs t assume "update_endpoint_servers B C c = (Ret evs, t)"
  then obtain m where run: "bt_retain (step_endpoint_server B C) (ctx_endpoint_servers c) = (Ret evs, m)"
    and t: "t = c\<lparr> ctx_endpoint_servers := m \<rparr>" by (auto simp: update_endpoint_servers_def split: prod.splits)
  show "stepped B C reg c evs t"
    by (rule stepped_retained [OF run _ step_endpoint_server_started step_reports(4) restrict_map(4) [OF assms, of m, folded t],
          where others = "keyset (ctx_identity_clients c) \<union> keyset (ctx_identity_servers c) \<union> keyset (ctx_endpoint_clients c)"])
      (use assms separateD [OF assms] in \<open>auto simp: t active_def ctx_inv_def separate_def\<close>)
qed

end
