(* ===== verification/Context_Runs.thy ===== *)
theory Context_Runs
  imports Context_Safety
begin

text \<open>
  Runs of a context: whatever the host calls in whatever order, handles end at most once, and a
  completed server handshake rests on a signature check for this very server, client and subject;
  an endpoint completes only for the client it was started for.
\<close>

section \<open>What completed handshakes rest on\<close>

text \<open>
  A signature on the proof of a handshake was accepted. The signature scheme is a parameter, so
  this says that the code asked exactly this question and got the answer yes.
\<close>

definition client_proved ::
  "crypto_ops \<Rightarrow> domain_separator \<Rightarrow> string \<Rightarrow> v3_onion_service_id \<Rightarrow> v3_onion_service_id \<Rightarrow> bool" where
  "client_proved C sep subject client server \<longleftrightarrow> (\<exists>request client_cookie server_cookie sig key.
     ascii_value request = subject \<and> length client_cookie = CLIENT_COOKIE_SIZE \<and>
     ed25519_public_from_service_id C client = Ok key \<and>
     ed25519_signature_verify C sig (build_client_proof C sep request client server client_cookie server_cookie) key)"

definition client_authorised :: "crypto_ops \<Rightarrow> v3_onion_service_id \<Rightarrow> x25519_public_key \<Rightarrow> bool" where
  "client_authorised C client auth \<longleftrightarrow>
     (\<exists>sig signbit. ed25519_signature_verify_x25519 C sig (service_id_as_bytes client) auth signbit)"

fun justified ::
  "crypto_ops \<Rightarrow> v3_onion_service_id \<Rightarrow> (v3_onion_service_id \<times> v3_onion_service_id) set \<Rightarrow> 'd context_event \<Rightarrow> bool" where
  "justified C me reg (IdentityServerHandshakeCompleted h key endpoint client auth) \<longleftrightarrow>
     client_proved C GoslingIdentity endpoint client me \<and> client_authorised C client auth"
| "justified C me reg (EndpointServerHandshakeCompleted h server client channel st) \<longleftrightarrow>
     (server, client) \<in> reg \<and> client_proved C GoslingEndpoint channel client server"
| "justified C me reg _ \<longleftrightarrow> True"

lemma justified_mono: "justified C me reg e \<Longrightarrow> reg \<subseteq> reg' \<Longrightarrow> justified C me reg' e"
  by (cases e) auto

lemma client_provedI:
  "length client_cookie = CLIENT_COOKIE_SIZE \<Longrightarrow> ed25519_public_from_service_id C client = Ok key \<Longrightarrow>
   ed25519_signature_verify C sig (build_client_proof C sep request client server client_cookie server_cookie) key \<Longrightarrow>
   client_proved C sep (ascii_value request) client server"
  unfolding client_proved_def by blast

lemma identity_completed_justified:
  assumes "ids_started B C me s" "signing_key C g"
    and "identity_server_update B C g s = (Ret (Ok (Some (IdS_HandshakeCompleted key endpoint client auth))), t)"
  shows "justified C me reg (IdentityServerHandshakeCompleted h key (ascii_value endpoint) client auth)"
proof -
  from assms(1) obtain log where ok: "ids_ok C log s" and me: "ids_server_identity s = me"
    by (auto simp: ids_started_def dest: ids_reach_ok)
  from identity_server_update_cases [OF ok assms(2,3)] obtain u where
    "ids_inv C log u" "ids_advance B C u = (Ret (Ok (Some (IdS_HandshakeCompleted key endpoint client auth))), t)"
    by (auto simp: ids_ok_def)
  note ids_advance_completed [OF this]
  moreover have "ids_server_identity t = me" using identity_server_update_server [OF assms(3)] me by simp
  ultimately show ?thesis by (auto simp: ids_proof_ok_def ids_auth_ok_def client_authorised_def intro: client_provedI)
qed

lemma endpoint_completed_justified:
  assumes "eps_started B C reg s"
    and "endpoint_server_update B C s = (Ret (Ok (Some (EpS_HandshakeCompleted client channel st))), t)"
  shows "justified C me reg (EndpointServerHandshakeCompleted h (eps_server_identity t) client (ascii_value channel) st')"
proof -
  from assms(1) obtain log where inv: "eps_inv C (eps_allowed_client_identity s) log s"
    and reg: "(eps_server_identity s, eps_allowed_client_identity s) \<in> reg"
    by (auto simp: eps_started_def dest: eps_reach_inv)
  from endpoint_server_update_cases [OF inv assms(2)] obtain u where "eps_inv C (eps_allowed_client_identity s) log u"
    "eps_advance u = (Ret (Ok (Some (EpS_HandshakeCompleted client channel st))), t)" by auto
  note eps_advance_completed [OF this]
  with reg endpoint_server_update_server [OF assms(2)] show ?thesis by (auto simp: eps_proof_ok_def intro: client_provedI)
qed

section \<open>The events of update\<close>

lemma step_justified:
  "step_identity_client B C random h s1 = (Ret (keep, es), t1) \<Longrightarrow> e \<in> set es \<Longrightarrow> justified C me reg e"
  "ids_started B C me s2 \<Longrightarrow> signing_key C (generated h) \<Longrightarrow>
     step_identity_server B C generated h s2 = (Ret (keep, es), t2) \<Longrightarrow> e \<in> set es \<Longrightarrow> justified C me reg e"
  "step_endpoint_client B C random h s3 = (Ret (keep, es), t3) \<Longrightarrow> e \<in> set es \<Longrightarrow> justified C me reg e"
  "eps_started B C reg s4 \<Longrightarrow> step_endpoint_server B C h s4 = (Ret (keep, es), t4) \<Longrightarrow> e \<in> set es \<Longrightarrow> justified C me reg e"
  by (auto simp: step_identity_client_def step_identity_server_def step_endpoint_client_def step_endpoint_server_def
      simp del: justified.simps(1,2) intro: identity_completed_justified endpoint_completed_justified
      split: prod.splits outcome.splits result.splits option.splits identity_client_event.splits
        identity_server_event.splits endpoint_client_event.splits endpoint_server_event.splits)

definition all_justified :: "crypto_ops \<Rightarrow> v3_onion_service_id \<Rightarrow> (v3_onion_service_id \<times> v3_onion_service_id) set \<Rightarrow>
   'd context_event list \<Rightarrow> bool" where
  "all_justified C me reg evs \<longleftrightarrow> (\<forall>e\<in>set evs. justified C me reg e)"

lemma all_justified_simps [simp]:
  "all_justified C me reg []" "all_justified C me reg (e # es) \<longleftrightarrow> justified C me reg e \<and> all_justified C me reg es"
  "all_justified C me reg (es @ fs) \<longleftrightarrow> all_justified C me reg es \<and> all_justified C me reg fs"
  by (auto simp: all_justified_def)

lemma retain_justified:
  assumes "bt_retain f m = (Ret evs, m')" "all_vals P m"
    and "\<And>k v keep es w e. P v \<Longrightarrow> f k v = (Ret (keep, es), w) \<Longrightarrow> e \<in> set es \<Longrightarrow> justified C me reg e"
  shows "all_justified C me reg evs"
  using bt_retain_events [OF assms(1)] assms(2,3) unfolding all_justified_def all_vals_def by fastforce

lemma accept_endpoints_loop_justified:
  "all_justified C me reg events \<Longrightarrow>
   returns (accept_endpoints_loop T now rest kept events c) (\<lambda>evs _. all_justified C me reg evs)"
proof (induction T now rest kept events c rule: accept_endpoints_loop.induct)
  case (2 T now sid e rest kept events c)
  then show ?case by (auto simp: wp Let_def split: prod.splits outcome.splits result.splits option.splits)
qed (simp add: wp)

lemma phases_justified:
  assumes "ctx_inv B C reg c" "me = ctx_identity_service_id c"
  shows "returns (accept_identity C T now c) (\<lambda>evs _. all_justified C me reg evs)"
    "returns (accept_endpoints T now c) (\<lambda>evs _. all_justified C me reg evs)"
    "returns (update_identity_clients B C random c) (\<lambda>evs _. all_justified C me reg evs)"
    "(\<And>h. signing_key C (generated h)) \<Longrightarrow> returns (update_identity_servers B C generated c) (\<lambda>evs _. all_justified C me reg evs)"
    "returns (update_endpoint_clients B C random c) (\<lambda>evs _. all_justified C me reg evs)"
    "returns (update_endpoint_servers B C c) (\<lambda>evs _. all_justified C me reg evs)"
proof -
  have inv: "all_vals (ids_started B C me) (ctx_identity_servers c)" "all_vals (\<lambda>_. True) (ctx_identity_clients c)"
    "all_vals (\<lambda>_. True) (ctx_endpoint_clients c)" "all_vals (eps_started B C reg) (ctx_endpoint_servers c)"
    using assms by (auto simp: ctx_inv_def all_vals_def)
  show "returns (accept_identity C T now c) (\<lambda>evs _. all_justified C me reg evs)"
    by (auto simp: accept_identity_def wp Let_def split: option.split prod.split outcome.split result.split)
  show "returns (accept_endpoints T now c) (\<lambda>evs _. all_justified C me reg evs)"
    unfolding accept_endpoints_def by (rule accept_endpoints_loop_justified) simp
  show "returns (update_identity_clients B C random c) (\<lambda>evs _. all_justified C me reg evs)"
    using retain_justified [OF _ inv(2) step_justified(1)]
    by (auto simp: update_identity_clients_def returns_def split: prod.splits)
  show "returns (update_identity_servers B C generated c) (\<lambda>evs _. all_justified C me reg evs)"
    if "\<And>h. signing_key C (generated h)"
    using retain_justified [OF _ inv(1) step_justified(2) [OF _ that]]
    by (auto simp: update_identity_servers_def returns_def split: prod.splits)
  show "returns (update_endpoint_clients B C random c) (\<lambda>evs _. all_justified C me reg evs)"
    using retain_justified [OF _ inv(3) step_justified(3)]
    by (auto simp: update_endpoint_clients_def returns_def split: prod.splits)
  show "returns (update_endpoint_servers B C c) (\<lambda>evs _. all_justified C me reg evs)"
    using retain_justified [OF _ inv(4) step_justified(4)]
    by (auto simp: update_endpoint_servers_def returns_def split: prod.splits)
qed

lemma handle_tor_events_justified: "handle_tor_events es c = (evs, t) \<Longrightarrow> all_justified C me reg evs"
proof (induction es arbitrary: c evs t)
  case (Cons e es)
  obtain evs1 c1 where 1: "handle_tor_event e c = (evs1, c1)" by fastforce
  obtain evs2 c2 where 2: "handle_tor_events es c1 = (evs2, c2)" by fastforce
  have "all_justified C me reg evs1" using 1 by (cases e) (auto split: if_splits option.splits)
  with Cons.IH [OF 2] 1 2 Cons.prems show ?case by auto
qed simp

definition stepped_justified ::
  "'d bson_ops \<Rightarrow> crypto_ops \<Rightarrow> (v3_onion_service_id \<times> v3_onion_service_id) set \<Rightarrow> ('tp, 'd) gosling_context \<Rightarrow>
   'd context_event list \<Rightarrow> ('tp, 'd) gosling_context \<Rightarrow> bool" where
  "stepped_justified B C reg c evs t \<longleftrightarrow>
     stepped B C reg c evs t \<and> all_justified C (ctx_identity_service_id c) reg evs"

lemma returns_conj: "returns p Q \<Longrightarrow> returns p R \<Longrightarrow> returns p (\<lambda>r t. Q r t \<and> R r t)"
  by (simp add: returns_def)

text \<open>A phase of \<open>update\<close> after what has happened before.\<close>

lemma returns_phase:
  assumes "ctx_inv B C reg c0" "stepped_justified B C reg c0 es c"
    and "\<And>d. ctx_inv B C reg d \<Longrightarrow> returns (m d) (stepped B C reg d)"
    and "\<And>d. ctx_inv B C reg d \<Longrightarrow> returns (m d) (\<lambda>evs _. all_justified C (ctx_identity_service_id d) reg evs)"
    and "\<And>fs d. stepped_justified B C reg c0 (es @ fs) d \<Longrightarrow> returns (k fs d) Q"
  shows "returns (andthen m k c) Q"
  unfolding returns_andthen
proof (rule returns_mono)
  have c: "stepped B C reg c0 es c" "ctx_identity_service_id c = ctx_identity_service_id c0"
    using assms(2) by (simp_all add: stepped_justified_def stepped_def)
  note inv = stepped_inv [OF c(1)]
  show "returns (m c) (\<lambda>fs d. stepped B C reg c fs d \<and> all_justified C (ctx_identity_service_id c) reg fs)"
    by (rule returns_conj [OF assms(3) [OF inv] assms(4) [OF inv]])
  show "returns (k fs d) Q" if "stepped B C reg c fs d \<and> all_justified C (ctx_identity_service_id c) reg fs" for fs d
    using assms(2) that c(2) stepped_trans [OF assms(1) c(1)] by (intro assms(5)) (auto simp: stepped_justified_def)
qed

lemma returns_provider_phase:
  assumes "stepped_justified B C reg c0 es c" "\<And>e d. stepped_justified B C reg c0 es d \<Longrightarrow> Q (Err e) d"
    and "\<And>x d. stepped_justified B C reg c0 es d \<Longrightarrow> returns (k x d) Q"
  shows "returns (try_then (with_tor f) k c) Q"
proof -
  have "stepped_justified B C reg c0 es (c\<lparr> ctx_tor_provider := tp \<rparr>)" for tp
    using assms(1) by (simp add: stepped_justified_def stepped_def tidy_def accounted_def seen_def)
  with assms(2,3) show ?thesis by (simp add: wp split: prod.split result.split)
qed

definition update_post ::
  "'d bson_ops \<Rightarrow> crypto_ops \<Rightarrow> (v3_onion_service_id \<times> v3_onion_service_id) set \<Rightarrow> ('tp, 'd) gosling_context \<Rightarrow>
   ('d context_event list, context_error) result \<Rightarrow> ('tp, 'd) gosling_context \<Rightarrow> bool" where
  "update_post B C reg c r t = (case r of
      Ok evs \<Rightarrow> stepped_justified B C reg c evs t
    | Err e \<Rightarrow> \<exists>evs. stepped_justified B C reg c evs t)"

lemma context_update_step:
  assumes inv: "ctx_inv B C reg c" and keys: "\<And>h. signing_key C (generated h)"
  shows "returns (context_update B C T now random generated c) (update_post B C reg c)"
  unfolding context_update_def
  apply (rule returns_phase [OF inv, of "[]"])
     apply (simp add: stepped_justified_def stepped_refl inv)
    apply (erule accept_identity_step, erule phases_justified(1) [OF _ refl])
  apply (rule returns_phase [OF inv], assumption)
    apply (erule accept_endpoints_step, erule phases_justified(2) [OF _ refl])
  apply (rule returns_provider_phase, assumption)
   apply (auto simp: update_post_def) []
  apply (rule returns_phase [OF inv], assumption)
    apply (auto simp: wp handle_tor_events_step handle_tor_events_justified split: prod.split) [2]
  apply (rule returns_phase [OF inv], assumption)
    apply (erule update_identity_clients_step, erule phases_justified(3) [OF _ refl])
  apply (rule returns_phase [OF inv], assumption)
    apply (erule update_identity_servers_step [OF _ keys], erule phases_justified(4) [OF _ refl keys])
  apply (rule returns_phase [OF inv], assumption)
    apply (erule update_endpoint_clients_step, erule phases_justified(5) [OF _ refl])
  apply (rule returns_phase [OF inv], assumption)
    apply (erule update_endpoint_servers_step, erule phases_justified(6) [OF _ refl])
  apply (simp add: wp update_post_def)
  done

section \<open>Runs\<close>

text \<open>
  Calls of the host other than \<open>update\<close> and a successful \<open>endpoint_server_start\<close>.
\<close>

inductive context_call ::
  "'d bson_ops \<Rightarrow> crypto_ops \<Rightarrow> 'tp tor_provider \<Rightarrow> ('tp, 'd) gosling_context \<Rightarrow> ('tp, 'd) gosling_context \<Rightarrow> bool"
  for B C T c t where
  "context_bootstrap T c = (Ret r, t) \<Longrightarrow> context_call B C T c t"
| "context_connect T target token c = (Ret r, t) \<Longrightarrow> context_call B C T c t"
| "context_generate_circuit_token T c = (Ret k, t) \<Longrightarrow> context_call B C T c t"
| "context_release_circuit_token T k c = (Ret u, t) \<Longrightarrow> context_call B C T c t"
| "identity_client_begin_handshake C T now x srv ep c = (Ret r, t) \<Longrightarrow> context_call B C T c t"
| "identity_client_abort_handshake h c = (Ret r, t) \<Longrightarrow> context_call B C T c t"
| "identity_client_handle_challenge_received B h d c = (Ret r, t) \<Longrightarrow> context_call B C T c t"
| "identity_server_start T c = (Ret r, t) \<Longrightarrow> context_call B C T c t"
| "identity_server_stop c = (Ret r, t) \<Longrightarrow> context_call B C T c t"
| "identity_server_handle_endpoint_request_received B random h a v d c = (Ret r, t) \<Longrightarrow> context_call B C T c t"
| "identity_server_handle_challenge_response_received h v c = (Ret r, t) \<Longrightarrow> context_call B C T c t"
| "endpoint_client_begin_handshake C T now srv x ch c = (Ret r, t) \<Longrightarrow> context_call B C T c t"
| "endpoint_client_abort_handshake h c = (Ret r, t) \<Longrightarrow> context_call B C T c t"
| "endpoint_server_start C T key nm client auth c = (Ret (Err e), t) \<Longrightarrow> context_call B C T c t"
| "endpoint_server_handle_channel_request_received random h v c = (Ret r, t) \<Longrightarrow> context_call B C T c t"
| "endpoint_server_stop sid c = (Ret r, t) \<Longrightarrow> context_call B C T c t"

text \<open>
  A run of the context from its creation: the endpoints started so far with the client each was
  started for, the events returned so far, and the state.
\<close>

inductive context_runs ::
  "'d bson_ops \<Rightarrow> crypto_ops \<Rightarrow> 'tp tor_provider \<Rightarrow> (v3_onion_service_id \<times> v3_onion_service_id) set \<Rightarrow>
   'd context_event list \<Rightarrow> ('tp, 'd) gosling_context \<Rightarrow> bool"
  for B C T where
  context_runs_new: "context_new C tor ip ep it mm et key = Ok c \<Longrightarrow> context_runs B C T {} [] c"
| context_runs_call: "context_runs B C T reg log c \<Longrightarrow> context_call B C T c t \<Longrightarrow> context_runs B C T reg log t"
| context_runs_start: "context_runs B C T reg log c \<Longrightarrow>
    endpoint_server_start C T key nm client auth c = (Ret (Ok ()), t) \<Longrightarrow>
    context_runs B C T (insert (registered C key client) reg) log t"
| context_runs_update: "context_runs B C T reg log c \<Longrightarrow> (\<And>h. signing_key C (generated h)) \<Longrightarrow>
    context_update B C T now random generated c = (Ret (Ok evs), t) \<Longrightarrow> context_runs B C T reg (log @ evs) t"
| context_runs_update_failed: "context_runs B C T reg log c \<Longrightarrow> (\<And>h. signing_key C (generated h)) \<Longrightarrow>
    context_update B C T now random generated c = (Ret (Err e), t) \<Longrightarrow> context_runs B C T reg log t"

lemma returns_kept:
  "returns p (\<lambda>_. kept_inv B C reg c) \<Longrightarrow> p = (Ret r, t) \<Longrightarrow> kept_inv B C reg c t"
  "returns p' (\<lambda>_. stepped B C reg c []) \<Longrightarrow> p' = (Ret r', t) \<Longrightarrow> kept_inv B C reg c t"
  by (auto simp: returns_def dest: stepped_kept)

lemmas call_keeps =
  aborts_step [THEN returns_kept(1)]
  provider_calls_step [THEN returns_kept(2)]
  identity_client_begin_handshake_step [THEN returns_kept(2)]
  identity_client_handle_challenge_received_step [THEN returns_kept(2)]
  identity_server_start_step [THEN returns_kept(2)]
  identity_server_handle_endpoint_request_received_step [THEN returns_kept(2)]
  identity_server_handle_challenge_response_received_step [THEN returns_kept(2)]
  endpoint_client_begin_handshake_step [THEN returns_kept(2)]
  endpoint_server_handle_channel_request_received_step [THEN returns_kept(2)]

lemma context_call_keeps:
  assumes "context_call B C T c t" "ctx_inv B C reg c"
  shows "kept_inv B C reg c t"
proof -
  have "kept_inv B C reg c t" if "endpoint_server_start C T key nm client auth c = (Ret (Err e), t)" for key nm client auth e
    using returnsD [OF endpoint_server_start_step [OF assms(2)] that] by (auto intro: stepped_kept)
  with assms(1) show ?thesis by cases (erule call_keeps [OF assms(2)] | blast)+
qed

lemma context_update_keeps:
  assumes "ctx_inv B C reg c" "\<And>h. signing_key C (generated h)"
  shows "context_update B C T now random generated c = (Ret (Ok evs), t) \<Longrightarrow> stepped_justified B C reg c evs t"
    "context_update B C T now random generated c = (Ret (Err e), t) \<Longrightarrow> kept_inv B C reg c t"
  using returnsD [OF context_update_step [OF assms]] by (fastforce simp: update_post_def stepped_justified_def intro: stepped_kept)+

definition logged :: "'d context_event list \<Rightarrow> ('tp, 'd) gosling_context \<Rightarrow> bool" where
  "logged log c \<longleftrightarrow> distinct (finished log) \<and> set (finished log) \<inter> active c = {} \<and>
     (\<forall>h\<in>set (finished log). h < ctx_next_handshake_handle c)"

lemma logged_step:
  assumes "logged log c" "tidy c evs t" "\<forall>h\<in>active c. h < ctx_next_handshake_handle c"
  shows "logged (log @ evs) t"
proof -
  let ?n = ctx_next_handshake_handle
  have new: "h < ?n t" if "h \<in> seen c t" for h using that assms(2,3) by (force simp: seen_def tidy_def)
  have old: "h \<notin> seen c t" "h < ?n t" if "h \<in> set (finished log)" for h
    using that assms(1,2) by (force simp: logged_def seen_def tidy_def)+
  have sub: "set (finished evs) \<subseteq> seen c t" "active t \<subseteq> seen c t" using assms(2) by (simp_all add: tidy_def)
  from old sub have "set (finished log) \<inter> set (finished evs) = {}" "set (finished log) \<inter> active t = {}" by blast+
  with assms(1,2) old(2) new sub show ?thesis by (auto simp: logged_def tidy_def)
qed

lemma all_justified_mono: "all_justified C me reg evs \<Longrightarrow> reg \<subseteq> reg' \<Longrightarrow> all_justified C me reg' evs"
  by (auto simp: all_justified_def intro: justified_mono)

definition run_inv ::
  "'d bson_ops \<Rightarrow> crypto_ops \<Rightarrow> (v3_onion_service_id \<times> v3_onion_service_id) set \<Rightarrow> 'd context_event list \<Rightarrow>
   ('tp, 'd) gosling_context \<Rightarrow> bool" where
  "run_inv B C reg log c \<longleftrightarrow> ctx_inv B C reg c \<and> logged log c \<and> all_justified C (ctx_identity_service_id c) reg log"

lemma run_inv_step:
  assumes "run_inv B C reg log c" "ctx_inv B C reg' t" "tidy c evs t" "reg \<subseteq> reg'"
    "ctx_identity_service_id t = ctx_identity_service_id c" "all_justified C (ctx_identity_service_id c) reg' evs"
  shows "run_inv B C reg' (log @ evs) t"
proof -
  have "\<forall>h\<in>active c. h < ctx_next_handshake_handle c" using assms(1) active_bound by (auto simp: run_inv_def)
  with assms show ?thesis by (auto simp: run_inv_def intro: logged_step all_justified_mono)
qed

lemma run_inv_kept: "run_inv B C reg log c \<Longrightarrow> kept_inv B C reg c t \<Longrightarrow> run_inv B C reg log t"
  using run_inv_step [of B C reg log c reg t "[]"] by (simp add: kept_inv_def)

lemma context_runs_inv: "context_runs B C T reg log c \<Longrightarrow> run_inv B C reg log c"
proof (induction rule: context_runs.induct)
  case (context_runs_new tor ip ep it mm et key c)
  then show ?case by (simp add: run_inv_def ctx_inv_new logged_def)
next
  case (context_runs_call reg log c t)
  then have "kept_inv B C reg c t" by (auto simp: run_inv_def intro: context_call_keeps)
  with context_runs_call.IH show ?case by (rule run_inv_kept)
next
  case (context_runs_start reg log c key nm client auth t)
  then have "stepped B C (insert (registered C key client) reg) c [] t"
    using returnsD [OF endpoint_server_start_step context_runs_start.hyps(2), of B reg] by (auto simp: run_inv_def)
  then show ?case using run_inv_step [OF context_runs_start.IH, of _ t "[]"] by (simp add: stepped_def subset_insertI)
next
  case (context_runs_update reg log c generated now random evs t)
  then have "stepped_justified B C reg c evs t" by (intro context_update_keeps(1)) (auto simp: run_inv_def)
  then show ?case using run_inv_step [OF context_runs_update.IH, of reg t evs] by (simp add: stepped_justified_def stepped_def)
next
  case (context_runs_update_failed reg log c generated now random e t)
  then have "kept_inv B C reg c t" by (intro context_update_keeps(2)) (auto simp: run_inv_def)
  with context_runs_update_failed.IH show ?case by (rule run_inv_kept)
qed

end
