(* ===== verification/Session_Runs.thy ===== *)
theory Session_Runs
  imports Honk_Sizes
begin

text \<open>
  Runs of a session in calm conditions: what one \<open>Session::update\<close> does when a single request, or
  nothing, arrives and every write succeeds. They are the steps from which the runs of the
  handshakes are composed.
\<close>

section \<open>Sessions at rest\<close>

text \<open>A session between two updates: nothing queued in either direction, writes succeed.\<close>

definition at_rest :: "'d bson_ops \<Rightarrow> 'd session \<Rightarrow> bool" where
  "at_rest B s \<longleftrightarrow> MIN_MESSAGE_SIZE \<le> max_message_size s \<and> remaining_byte_count s = None \<and>
     message_read_buffer s = [] \<and> pending_sections s = [] \<and> inbound_requests s = [] \<and>
     inbound_responses s = [] \<and> outbound_sections s = [] \<and>
     vd_inv (message_write_buffer s) \<and> vd_head (message_write_buffer s) = 0 \<and>
     vd_items (message_write_buffer s) = [] \<and> wr_events (stream s) = [] \<and> fl_events (stream s) = []"

definition with_events :: "(nat \<times> read_event) list \<Rightarrow> nat \<Rightarrow> 'd session \<Rightarrow> 'd session" where
  "with_events es t s = s\<lparr> stream := (stream s)\<lparr> rd_events := es \<rparr>, read_timestamp := t \<rparr>"

lemma read_idle:
  assumes "at_rest B s" "rd_events (stream s) = (v, ReadErr WouldBlock) # es" "v - read_timestamp s \<le> max_wait_time s"
  shows "read_sections B s = (Ret (Ok ()), with_events es (read_timestamp s) s)"
  using assms
  by (subst read_sections.simps)
    (simp add: read_message_def read_message_size_def try_then_def andthen_def stream_read_def io_read_def
      at_rest_def with_events_def ret_def)

lemma read_one:
  assumes "at_rest B s" "rd_events (stream s) = (u, Data bs) # (v, ReadErr WouldBlock) # es"
    and "frames B [bs] [m]" "length bs \<le> max_message_size s" "msg_sections m \<noteq> []"
  shows "read_sections B s = (Ret (Ok ()), (with_events es u s)\<lparr> pending_sections := msg_sections m \<rparr>)"
proof -
  have ev: "rd_events (stream s) = (u, Data (bs @ [])) # (v, ReadErr WouldBlock) # es" using assms(2) by simp
  have 1: "read_message B s = (Ret (Ok (Some m)), with_events ((v, ReadErr WouldBlock) # es) u s)"
    using read_message_chunk [OF _ _ ev, of B m] assms
    by (simp add: at_rest_def frames_def with_events_def rest_events_def)
  have "read_sections B s = read_sections B ((with_events ((v, ReadErr WouldBlock) # es) u s)\<lparr> pending_sections := msg_sections m \<rparr>)"
    using assms(1) by (subst read_sections.simps) (simp add: 1, simp add: with_events_def at_rest_def)
  also have "\<dots> = (Ret (Ok ()), (with_events es u s)\<lparr> pending_sections := msg_sections m \<rparr>)"
    using assms(1,5)
    by (subst read_sections.simps)
      (simp add: read_message_def read_message_size_def try_then_def andthen_def stream_read_def io_read_def
        at_rest_def with_events_def ret_def Let_def)
  finally show ?thesis .
qed

text \<open>The end of an update: the queued sections leave the session.\<close>

lemma send_queued:
  assumes "bson_laws B" "bson_size_laws B" "at_rest B s" "list_all (fits B (max_message_size s)) ds"
  shows "\<exists>t. try_then (serialize_messages B) (\<lambda>_. write_pending_data) (s\<lparr> outbound_sections := ds \<rparr>) = (Ret (Ok ()), t) \<and>
    at_rest B t \<and> rd_events (stream t) = rd_events (stream s) \<and> read_timestamp t = read_timestamp s \<and>
    max_message_size t = max_message_size s \<and> max_wait_time t = max_wait_time s"
proof -
  let ?s = "s\<lparr> outbound_sections := ds \<rparr>"
  obtain b w where 1: "serialize_messages B ?s = (Ret (Ok ()), s\<lparr> message_serialization_buffer := b, message_write_buffer := w \<rparr>)"
    and w: "vd_inv w" "vd_head w = 0"
  proof (cases "ds = []")
    case True
    then show ?thesis using assms(3) that [of "message_write_buffer s" "message_serialization_buffer s"]
      by (simp add: serialize_messages_def at_rest_def)
  next
    case False
    have "\<forall>x\<in>set (map BDocument ds). \<exists>d. x = BDocument d \<and> fits B (max_message_size s) d"
      using assms(4) by (auto simp: list_all_iff)
    with serialize_messages_impl_spec [OF assms(1,2), of "map BDocument ds" "s\<lparr> outbound_sections := [] \<rparr>"] False
    obtain parts where parts: "serialize_messages_impl B (map BDocument ds) (s\<lparr> outbound_sections := [] \<rparr>) =
        (Ret (Ok ()), s\<lparr> outbound_sections := [], message_serialization_buffer := [],
          message_write_buffer := fold (\<lambda>p. vd_append (message_bytes B p)) parts (message_write_buffer s) \<rparr>)"
      by auto
    have clean: "s\<lparr> outbound_sections := [] \<rparr> = s" using assms(3) by (simp add: at_rest_def)
    from parts False show ?thesis
      using assms(3) by (intro that [of "fold (\<lambda>p. vd_append (message_bytes B p)) parts (message_write_buffer s)" "[]"])
        (simp_all add: serialize_messages_def clean at_rest_def fold_append_inv fold_append_head0)
  qed
  have one: "vd_as_slices w = (vd_items w, [])" using w by (simp add: vd_as_slices_def head0_contiguous)
  have drained: "vd_make_contiguous (vd_drain_front (length (vd_items w)) w) = w\<lparr> vd_items := [] \<rparr>"
    using w by (simp add: vd_drain_front_def vd_make_contiguous_def vd_contiguous_def)
  have "write_pending_data (s\<lparr> message_serialization_buffer := b, message_write_buffer := w \<rparr>) = (Ret (Ok ()),
      s\<lparr> message_serialization_buffer := b, stream := (stream s)\<lparr> sent := sent (stream s) @ vd_items w \<rparr>,
         message_write_buffer := w\<lparr> vd_items := [] \<rparr> \<rparr>)"
    using assms(3) drained
    by (simp add: write_pending_data_def write_pending_data_impl_def try_then_def andthen_def one
        write_pending_loop_all at_rest_def io_flush_def)
  then show ?thesis
    using 1 assms(3) w by (simp add: try_then_def andthen_def at_rest_def vd_inv_def)
qed

section \<open>One update\<close>

text \<open>The end of an update in terms of the api sets and the session.\<close>

lemma session_update_tail:
  assumes "try_then (serialize_messages B) (\<lambda>_. write_pending_data) s = (Ret (Ok ()), t)"
  shows "try_then (on_session (serialize_messages B)) (\<lambda>_. on_session write_pending_data) (as, s) = (Ret (Ok ()), (as, t))"
  using assms
  by (auto simp: try_then_def andthen_def on_session_def ret_def split: prod.splits outcome.splits result.splits)

lemma binary_search_single: "binary_search [ns] ns = Some 0"
  by (simp add: binary_search_def binary_search_loop.simps)

lemma push_fits:
  "fits B (max_message_size s) (section_into B sec) \<Longrightarrow>
   push_outbound_section B sec s = (Ret (Ok ()), s\<lparr> outbound_sections := outbound_sections s @ [section_into B sec] \<rparr>)"
  using push_outbound_section_fits [of B sec "doc_size B (section_into B sec)" s] by (simp add: fits_def count_document_Ok_iff)

lemma update_request:
  assumes laws: "bson_laws B" "bson_size_laws B" and rest: "at_rest B s"
    and ev: "rd_events (stream s) = (u, Data bs) # (v, ReadErr WouldBlock) # es"
    and m: "frames B [bs] [m]" "length bs \<le> max_message_size s" "msg_sections m = [SRequest rq]"
    and ns: "rq_namespace rq = api_namespace A a"
    and exec: "api_exec_function A (rq_function rq) (rq_version rq) (rq_arguments rq) (rq_cookie rq) a = (Ret r, b)"
    and none: "api_update A b = b" "api_next_result A b = (Ret None, b)"
    and reply: "reply_section (rq_cookie rq) r = Some sec" "fits B (max_message_size s) (section_into B sec)"
  shows "\<exists>t. session_update B A (Suc fuel) ([a], s) = (Ret (Ok ()), ([b], t)) \<and> at_rest B t \<and>
    rd_events (stream t) = es \<and> read_timestamp t = u \<and> max_message_size t = max_message_size s \<and> max_wait_time t = max_wait_time s"
proof -
  let ?s = "with_events es u s"
  have rest': "at_rest B ?s" "rd_events (stream ?s) = es" "read_timestamp ?s = u" "max_message_size ?s = max_message_size s"
    "max_wait_time ?s = max_wait_time s" using rest by (simp_all add: at_rest_def with_events_def)
  obtain t where t: "try_then (serialize_messages B) (\<lambda>_. write_pending_data) (?s\<lparr> outbound_sections := [section_into B sec] \<rparr>) =
      (Ret (Ok ()), t)" and t_rest: "at_rest B t" "rd_events (stream t) = es" "read_timestamp t = u"
      "max_message_size t = max_message_size s" "max_wait_time t = max_wait_time s"
    using send_queued [OF laws rest'(1), of "[section_into B sec]"] reply(2) rest' by auto
  have 1: "read_sections B s = (Ret (Ok ()), ?s\<lparr> pending_sections := [SRequest rq] \<rparr>)"
    using read_one [OF rest ev m(1,2)] m(3) by simp
  have 2: "process_sections (?s\<lparr> pending_sections := [SRequest rq] \<rparr>) = (Ret (Ok ()), ?s\<lparr> inbound_requests := [rq] \<rparr>)"
    using rest'(1) by (simp add: process_sections_def at_rest_def)
  have 3: "handle_requests B A (Suc fuel) ([a], ?s\<lparr> inbound_requests := [rq] \<rparr>) =
      (Ret (Ok ()), ([b], ?s\<lparr> outbound_sections := [section_into B sec] \<rparr>))"
    using rest'(1) reply none exec ns
    by (simp add: handle_requests_def Let_def try_then_def andthen_def handle_request_def binary_search_single on_apiset_def
        push_reply_def on_session_def push_fits rest' ret_def at_rest_def)
  have "session_update B A (Suc fuel) ([a], s) = (Ret (Ok ()), ([b], t))"
    using session_update_tail [OF t, of "[b]"]
    by (simp add: session_update_def try_then_def [of "on_session (read_sections B)"] try_then_def [of "on_session process_sections"]
        try_then_def [of "handle_requests B A (Suc fuel)"] andthen_def on_session_def 1 2 3)
  then show ?thesis using t_rest by blast
qed

lemma update_result:
  assumes laws: "bson_laws B" "bson_size_laws B" and rest: "at_rest B s"
    and ev: "rd_events (stream s) = (v, ReadErr WouldBlock) # es" "v - read_timestamp s \<le> max_wait_time s"
    and res: "api_update A a = a" "api_next_result A a = (Ret (Some (cookie, r)), b)" "api_next_result A b = (Ret None, b)"
    and reply: "fits B (max_message_size s) (section_into B (async_section cookie r))"
  shows "\<exists>t. session_update B A (Suc (Suc fuel)) ([a], s) = (Ret (Ok ()), ([b], t)) \<and> at_rest B t \<and>
    rd_events (stream t) = es \<and> read_timestamp t = read_timestamp s \<and> max_message_size t = max_message_size s \<and>
    max_wait_time t = max_wait_time s"
proof -
  let ?s = "with_events es (read_timestamp s) s"
  have rest': "at_rest B ?s" "rd_events (stream ?s) = es" "read_timestamp ?s = read_timestamp s"
    "max_message_size ?s = max_message_size s" "max_wait_time ?s = max_wait_time s"
    using rest by (simp_all add: at_rest_def with_events_def)
  let ?d = "section_into B (async_section cookie r)"
  obtain t where t: "try_then (serialize_messages B) (\<lambda>_. write_pending_data) (?s\<lparr> outbound_sections := [?d] \<rparr>) = (Ret (Ok ()), t)"
      and t_rest: "at_rest B t" "rd_events (stream t) = es" "read_timestamp t = read_timestamp s"
      "max_message_size t = max_message_size s" "max_wait_time t = max_wait_time s"
    using send_queued [OF laws rest'(1), of "[?d]"] reply rest' by auto
  have 1: "read_sections B s = (Ret (Ok ()), ?s)" by (rule read_idle [OF rest ev])
  have clean: "?s\<lparr> pending_sections := [] \<rparr> = ?s" "?s\<lparr> inbound_requests := [] \<rparr> = ?s"
    using rest'(1) by (simp_all add: at_rest_def)
  have 2: "process_sections ?s = (Ret (Ok ()), ?s)"
    using rest'(1) clean by (simp add: process_sections_def at_rest_def)
  have 3: "handle_requests B A (Suc (Suc fuel)) ([a], ?s) = (Ret (Ok ()), ([b], ?s\<lparr> outbound_sections := [?d] \<rparr>))"
    using rest'(1) reply res clean
    by (simp add: handle_requests_def Let_def try_then_def andthen_def on_apiset_def
        push_reply_def on_session_def push_fits rest' ret_def at_rest_def)
  have "session_update B A (Suc (Suc fuel)) ([a], s) = (Ret (Ok ()), ([b], t))"
    using session_update_tail [OF t, of "[b]"]
    by (simp add: session_update_def try_then_def [of "on_session (read_sections B)"] try_then_def [of "on_session process_sections"]
        try_then_def [of "handle_requests B A (Suc (Suc fuel))"] andthen_def on_session_def 1 2 3)
  then show ?thesis using t_rest by blast
qed

end
