(* ===== verification/Honest_Runs.thy ===== *)
theory Honest_Runs
  imports Handshakes Session_Runs
begin

text \<open>
  Complete runs of the two handshake servers against an honest client: the bytes of the client's
  requests arrive on the server's stream, the host approves, and the updates of the server
  return the events of the protocol in order, up to \<open>HandshakeCompleted\<close>. Nothing is assumed
  of the serialiser and the cryptography beyond their laws.
\<close>

section \<open>Sizes of the replies\<close>

lemma pending_reply_fits:
  assumes "bson_laws B" "bson_size_laws B" "77 \<le> n"
  shows "fits B n (section_into B (response_of cookie Pending None))"
proof -
  let ?kvs = "[(''id'', BInt32 RESPONSE_SECTION_ID), (''cookie'', BInt64 cookie), (''state'', BInt32 0)]"
  have d: "section_into B (response_of cookie Pending None) = doc_of B ?kvs"
    by (simp add: response_of_def response_section_into_def insert_opt_def)
  have "serialises B (doc_of B ?kvs)" using doc_of_size(1) [OF assms(1,2), of ?kvs] by (simp add: no_nul_def del: doc_of_simps)
  moreover from this have "doc_size B (doc_of B ?kvs) = 40"
    using doc_of_size(2) [OF assms(1,2), of ?kvs] by (simp add: no_nul_def entries_size_def del: doc_of_simps)
  ultimately show ?thesis using assms(3) unfolding d by (simp add: fits_def MIN_MESSAGE_SIZE_value del: doc_of_simps)
qed

lemma text_reply_fits:
  assumes "bson_laws B" "bson_size_laws B" "90 + length s \<le> n"
  shows "fits B n (section_into B (async_section cookie (Ok (Some (BString s)))))"
proof -
  let ?kvs = "[(''id'', BInt32 RESPONSE_SECTION_ID), (''cookie'', BInt64 cookie), (''state'', BInt32 1), (''result'', BString s)]"
  have d: "section_into B (async_section cookie (Ok (Some (BString s)))) = doc_of B ?kvs"
    by (simp add: async_section_def response_of_def response_section_into_def insert_opt_def doc_of_def)
  have "serialises B (doc_of B ?kvs)" using doc_of_size(1) [OF assms(1,2), of ?kvs] by (simp add: no_nul_def del: doc_of_simps)
  moreover from this have "doc_size B (doc_of B ?kvs) = 53 + length s"
    using doc_of_size(2) [OF assms(1,2), of ?kvs] by (simp add: no_nul_def entries_size_def del: doc_of_simps)
  ultimately show ?thesis using assms(3) unfolding d by (simp add: fits_def MIN_MESSAGE_SIZE_value del: doc_of_simps)
qed

section \<open>The identity server serves an honest client\<close>

text \<open>A request of a Gosling client, as it arrives.\<close>

definition client_request :: "string \<Rightarrow> string \<Rightarrow> 'd \<Rightarrow> request_cookie \<Rightarrow> 'd request_section" where
  "client_request ns func args cookie = \<lparr> rq_cookie = Some cookie, rq_namespace = ns,
     rq_function = func, rq_version = 0, rq_arguments = args \<rparr>"

definition arrives :: "'d bson_ops \<Rightarrow> bytes \<Rightarrow> nat \<Rightarrow> 'd request_section \<Rightarrow> bool" where
  "arrives B bs n rq \<longleftrightarrow> length bs \<le> n \<and> (\<exists>m. frames B [bs] [m] \<and> msg_sections m = [SRequest rq])"

text \<open>A session at rest whose stream will deliver the given events.\<close>

definition session_at :: "'d bson_ops \<Rightarrow> nat \<Rightarrow> duration \<Rightarrow> nat \<Rightarrow> (nat \<times> read_event) list \<Rightarrow> 'd session \<Rightarrow> bool" where
  "session_at B n wait u es s \<longleftrightarrow> at_rest B s \<and> max_message_size s = n \<and> max_wait_time s = wait \<and>
     read_timestamp s = u \<and> rd_events (stream s) = es"

lemma session_at_reply:
  assumes "bson_laws B" "bson_size_laws B" "session_at B n wait w ((u, Data bs) # (v, ReadErr WouldBlock) # es) rpc"
    and "arrives B bs n rq" "rq_namespace rq = api_namespace A a"
    and "api_exec_function A (rq_function rq) (rq_version rq) (rq_arguments rq) (rq_cookie rq) a = (Ret r, b)"
    and "api_update A b = b" "api_next_result A b = (Ret None, b)"
    and "reply_section (rq_cookie rq) r = Some sec" "fits B n (section_into B sec)"
  obtains t where "session_update B A 2 ([a], rpc) = (Ret (Ok ()), ([b], t))" "session_at B n wait u es t"
proof -
  obtain m where m: "frames B [bs] [m]" "length bs \<le> max_message_size rpc" "msg_sections m = [SRequest rq]"
    using assms(3,4) by (auto simp: arrives_def session_at_def)
  have "at_rest B rpc" "rd_events (stream rpc) = (u, Data bs) # (v, ReadErr WouldBlock) # es"
    using assms(3) by (simp_all add: session_at_def)
  from update_request [OF assms(1,2) this m assms(5-9), of 1]
  show ?thesis using that assms(3,10) by (auto simp: session_at_def numeral_2_eq_2)
qed

lemma session_at_request:
  assumes "bson_laws B" "bson_size_laws B" "session_at B n wait w ((u, Data bs) # (v, ReadErr WouldBlock) # es) rpc"
    and "arrives B bs n rq" "rq_namespace rq = api_namespace A a" "77 \<le> n" "rq_cookie rq = Some c"
    and "api_exec_function A (rq_function rq) (rq_version rq) (rq_arguments rq) (rq_cookie rq) a = (Ret None, b)"
    and "api_update A b = b" "api_next_result A b = (Ret None, b)"
  obtains t where "session_update B A 2 ([a], rpc) = (Ret (Ok ()), ([b], t))" "session_at B n wait u es t"
proof -
  have "reply_section (rq_cookie rq) None = Some (response_of c Pending None)" using assms(7) by (simp add: reply_section_def)
  then show ?thesis
    using session_at_reply [OF assms(1-5,8-10)] pending_reply_fits [OF assms(1,2,6)] that by blast
qed

lemma session_at_result:
  assumes "bson_laws B" "bson_size_laws B" "session_at B n wait w ((v, ReadErr WouldBlock) # es) rpc" "v - w \<le> wait"
    and "api_update A a = a" "api_next_result A a = (Ret (Some (cookie, r)), b)" "api_next_result A b = (Ret None, b)"
    and "fits B n (section_into B (async_section cookie r))"
  obtains t where "session_update B A 2 ([a], rpc) = (Ret (Ok ()), ([b], t))" "session_at B n wait w es t"
  using update_result [OF assms(1,2), of rpc v es A a cookie r b 0] assms(3-) that
  by (auto simp: session_at_def numeral_2_eq_2)

lemma identity_update_step:
  assumes "ids_rpc s = Some rpc"
    and "session_update B (identity_api B C g) 2 ([s\<lparr> ids_rpc := None \<rparr>], rpc) = (Ret (Ok ()), ([b], t))"
  shows "identity_server_update B C g s = ids_advance B C (b\<lparr> ids_rpc := Some t \<rparr>)"
  using assms by (simp add: identity_server_update_def IDENTITY_SERVER_FUEL_def)

text \<open>The states of the server along the run.\<close>

definition ids_asked_host ::
  "'d session \<Rightarrow> v3_onion_service_id \<Rightarrow> request_cookie \<Rightarrow> v3_onion_service_id \<Rightarrow> ascii_string \<Rightarrow> 'd identity_server" where
  "ids_asked_host rpc srv cookie client ep = (identity_server_new rpc srv)\<lparr>
     ids_begin_handshake_request_cookie := Some cookie, ids_client_identity := Some client,
     ids_requested_endpoint := Some ep, ids_state := IdS_GettingChallenge \<rparr>"

definition ids_challenging :: "'d \<Rightarrow> bytes \<Rightarrow> identity_server_state \<Rightarrow> 'd identity_server \<Rightarrow> 'd identity_server" where
  "ids_challenging challenge sc st s = s\<lparr> ids_server_cookie := Some sc, ids_endpoint_challenge := Some challenge,
     ids_client_allowed := True, ids_client_requested_endpoint_valid := True, ids_state := st \<rparr>"

definition ids_responded ::
  "request_cookie \<Rightarrow> x25519_public_key \<Rightarrow> 'd \<Rightarrow> bool \<Rightarrow> identity_server_state \<Rightarrow> 'd identity_server \<Rightarrow> 'd identity_server" where
  "ids_responded cookie auth resp ok st s = s\<lparr> ids_send_response_request_cookie := Some cookie,
     ids_client_proof_signature_valid := True, ids_client_auth_signature_valid := True,
     ids_client_auth_key := Some auth, ids_challenge_response := Some resp,
     ids_challenge_response_valid := ok, ids_state := st \<rparr>"

lemmas ids_run_defs = ids_asked_host_def ids_challenging_def ids_responded_def identity_server_new_def

lemma identity_run_request:
  assumes laws: "bson_laws B" "bson_size_laws B" "codec_laws C" "signature_laws C"
    and c: "identity_client_new C crpc srv ep k x = Ok c" "signing_key C k" "is_ascii (ascii_value ep)"
    and rpc: "session_at B n wait w ((u, Data bs) # (v, ReadErr WouldBlock) # es) rpc" "77 \<le> n"
    and bs: "arrives B bs n (client_request ''gosling_identity'' ''begin_handshake'' (begin_handshake_args B c) cookie)"
  obtains t where "identity_server_update B C g (identity_server_new rpc srv) =
      (Ret (Ok (Some (IdS_EndpointRequestReceived (service_id_from_private_key C k) ep))),
       ids_asked_host t srv cookie (service_id_from_private_key C k) ep)" "session_at B n wait u es t"
proof -
  let ?s = "(identity_server_new rpc srv)\<lparr> ids_rpc := None \<rparr>"
  let ?b = "?s\<lparr> ids_begin_handshake_request_cookie := Some cookie,
          ids_client_identity := Some (service_id_from_private_key C k), ids_requested_endpoint := Some ep \<rparr>"
  have c': "idc_client_identity_ed25519_private c = k" "idc_client_service_id c = service_id_from_private_key C k"
    "idc_requested_endpoint c = ep"
    using c(1) by (auto simp: identity_client_new_def split: result.splits)
  have "ids_exec_function B C ''begin_handshake'' 0 (begin_handshake_args B c) (Some cookie) ?s = (Ret None, ?b)"
    using identity_begin_accepted [OF laws(1,3,4), of c ?s cookie] c c'
    by (simp add: identity_server_new_def ids_present_def)
  then obtain t where t: "session_update B (identity_api B C g) 2 ([?s], rpc) = (Ret (Ok ()), ([?b], t))"
    and rest: "session_at B n wait u es t"
    using session_at_request [OF laws(1,2) rpc(1) bs, of "identity_api B C g" ?s cookie ?b] rpc(2)
    by (auto simp: identity_api_def client_request_def identity_namespace_def ids_next_result_def identity_server_new_def)
  have "identity_server_update B C g (identity_server_new rpc srv) = ids_advance B C (?b\<lparr> ids_rpc := Some t \<rparr>)"
    by (rule identity_update_step) (use t in \<open>simp_all add: identity_server_new_def\<close>)
  also have "\<dots> = (Ret (Ok (Some (IdS_EndpointRequestReceived (service_id_from_private_key C k) ep))),
       ids_asked_host t srv cookie (service_id_from_private_key C k) ep)"
    by (simp add: ids_advance_def ids_present_def ids_run_defs)
  finally show ?thesis using that rest by blast
qed

lemma identity_run_challenge:
  assumes laws: "bson_laws B" "bson_size_laws B" and rpc: "session_at B n wait w es rpc"
    and size: "get_response_section_size B (Some (challenge_result B sc ch)) = Ok m" "37 + m \<le> n"
  shows "handle_endpoint_request_received B sc True True ch (ids_asked_host rpc srv cookie client ep) =
    (Ret (Ok ()), ids_challenging ch sc IdS_ChallengeReady (ids_asked_host rpc srv cookie client ep))"
  using assms message_overhead_value [OF laws] MIN_MESSAGE_SIZE_value
  by (simp add: handle_endpoint_request_received_def ids_run_defs ids_exec_present_def Let_def session_at_def
      get_max_message_size_def)

lemma identity_run_send_challenge:
  assumes laws: "bson_laws B" "bson_size_laws B"
    and rpc: "session_at B n wait w ((v, ReadErr WouldBlock) # es) rpc" "v - w \<le> wait"
    and size: "get_response_section_size B (Some (challenge_result B sc ch)) = Ok m" "37 + m \<le> n"
  obtains t where "identity_server_update B C g
      (ids_challenging ch sc IdS_ChallengeReady (ids_asked_host rpc srv cookie client ep)) =
      (Ret (Ok None), ids_challenging (doc_new B) sc IdS_WaitingForSendResponse (ids_asked_host t srv cookie client ep))"
    "session_at B n wait w es t"
proof -
  let ?s = "\<lambda>t. ids_challenging ch sc IdS_ChallengeReady (ids_asked_host t srv cookie client ep)"
  let ?b = "\<lambda>t. ids_challenging (doc_new B) sc IdS_WaitingForSendResponse (ids_asked_host t srv cookie client ep)"
  have "fits B n (section_into B (async_section cookie (Ok (Some (challenge_result B sc ch)))))"
    using response_estimate [OF laws size(1), of cookie] size(2)
    by (simp add: fits_def count_document_Ok_iff async_section_def MIN_MESSAGE_SIZE_value)
  then obtain t where t: "session_update B (identity_api B C g) 2 ([(?s rpc)\<lparr> ids_rpc := None \<rparr>], rpc) =
      (Ret (Ok ()), ([(?b rpc)\<lparr> ids_rpc := None \<rparr>], t))" and rest: "session_at B n wait w es t"
    using session_at_result [OF laws rpc, of "identity_api B C g" "(?s rpc)\<lparr> ids_rpc := None \<rparr>" cookie
        "Ok (Some (challenge_result B sc ch))" "(?b rpc)\<lparr> ids_rpc := None \<rparr>"]
    by (auto simp: identity_api_def ids_next_result_def ids_next_present_def ids_run_defs)
  have "identity_server_update B C g (?s rpc) = ids_advance B C ((?b rpc)\<lparr> ids_rpc := None \<rparr>\<lparr> ids_rpc := Some t \<rparr>)"
    by (rule identity_update_step [of _ rpc]) (use t in \<open>simp_all add: ids_run_defs\<close>)
  also have "\<dots> = (Ret (Ok None), ?b t)"
    by (simp add: ids_advance_def ids_present_def ids_run_defs)
  finally show ?thesis using that rest by blast
qed

lemma identity_run_response:
  assumes laws: "bson_laws B" "bson_size_laws B" "codec_laws C" "signature_laws C"
    and c: "identity_client_new C crpc srv ep k x = Ok c" "signing_key C k" "length cc = CLIENT_COOKIE_SIZE"
    and rpc: "session_at B n wait w ((u, Data bs) # (v, ReadErr WouldBlock) # es) rpc" "77 \<le> n"
    and bs: "arrives B bs n (client_request ''gosling_identity'' ''send_response'' (send_response_args B C cc sc resp c) cookie')"
  obtains t where "identity_server_update B C g
      (ids_challenging (doc_new B) sc IdS_WaitingForSendResponse
         (ids_asked_host rpc srv cookie (service_id_from_private_key C k) ep)) =
      (Ret (Ok (Some (IdS_ChallengeResponseReceived resp))),
       ids_responded cookie' (x25519_public_from_private_key C x) (doc_new B) False IdS_GettingChallengeVerification
         (ids_challenging (doc_new B) sc IdS_WaitingForSendResponse
            (ids_asked_host t srv cookie (service_id_from_private_key C k) ep)))" "session_at B n wait u es t"
proof -
  let ?auth = "x25519_public_from_private_key C x"
  let ?s = "\<lambda>t. ids_challenging (doc_new B) sc IdS_WaitingForSendResponse
         (ids_asked_host t srv cookie (service_id_from_private_key C k) ep)"
  let ?b = "\<lambda>d st t. ids_responded cookie' ?auth d False st (?s t)"
  have "idc_client_service_id c = service_id_from_private_key C k"
    using c(1) by (auto simp: identity_client_new_def split: result.splits)
  then have "ids_exec_function B C ''send_response'' 0 (send_response_args B C cc sc resp c) (Some cookie')
      ((?s rpc)\<lparr> ids_rpc := None \<rparr>) = (Ret None, (?b resp IdS_WaitingForSendResponse rpc)\<lparr> ids_rpc := None \<rparr>)"
    using identity_response_accepted [OF laws(1,3,4) c, of "(?s rpc)\<lparr> ids_rpc := None \<rparr>" sc resp cookie']
    by (simp add: ids_run_defs ids_exec_present_def)
  then obtain t where t: "session_update B (identity_api B C g) 2 ([(?s rpc)\<lparr> ids_rpc := None \<rparr>], rpc) =
      (Ret (Ok ()), ([(?b resp IdS_WaitingForSendResponse rpc)\<lparr> ids_rpc := None \<rparr>], t))"
    and rest: "session_at B n wait u es t"
    using session_at_request [OF laws(1,2) rpc(1) bs, of "identity_api B C g" "(?s rpc)\<lparr> ids_rpc := None \<rparr>" cookie'
        "(?b resp IdS_WaitingForSendResponse rpc)\<lparr> ids_rpc := None \<rparr>"] rpc(2)
    by (auto simp: identity_api_def client_request_def identity_namespace_def ids_next_result_def ids_run_defs)
  have "identity_server_update B C g (?s rpc) =
      ids_advance B C ((?b resp IdS_WaitingForSendResponse rpc)\<lparr> ids_rpc := None \<rparr>\<lparr> ids_rpc := Some t \<rparr>)"
    by (rule identity_update_step [of _ rpc]) (use t in \<open>simp_all add: ids_run_defs\<close>)
  also have "\<dots> = (Ret (Ok (Some (IdS_ChallengeResponseReceived resp))), ?b (doc_new B) IdS_GettingChallengeVerification t)"
    by (simp add: ids_advance_def ids_present_def ids_run_defs)
  finally show ?thesis using that rest by blast
qed

lemma identity_run_verify:
  "handle_challenge_response_received True
     (ids_responded cookie' auth resp False IdS_GettingChallengeVerification (ids_challenging d sc st (ids_asked_host rpc srv cookie client ep))) =
   (Ret (Ok ()), ids_responded cookie' auth resp True IdS_ChallengeVerificationReady
      (ids_challenging d sc st (ids_asked_host rpc srv cookie client ep)))"
  by (simp add: handle_challenge_response_received_def ids_exec_present_def ids_run_defs)

lemma identity_run_complete:
  assumes laws: "bson_laws B" "bson_size_laws B" "codec_laws C" "signature_laws C"
    and rpc: "session_at B n wait w ((v, ReadErr WouldBlock) # es) rpc" "v - w \<le> wait" "146 \<le> n"
    and g: "signing_key C g"
  obtains t where "identity_server_update B C g
      (ids_responded cookie' auth resp True IdS_ChallengeVerificationReady
        (ids_challenging d sc st (ids_asked_host rpc srv cookie client ep))) =
      (Ret (Ok (Some (IdS_HandshakeCompleted g ep client auth))),
       (ids_responded cookie' auth resp True IdS_HandshakeComplete
         (ids_challenging d sc st (ids_asked_host t srv cookie client ep)))\<lparr> ids_endpoint_private_key := Some g \<rparr>)"
    "session_at B n wait w es t"
proof -
  let ?s = "\<lambda>t. ids_responded cookie' auth resp True IdS_ChallengeVerificationReady
        (ids_challenging d sc st (ids_asked_host t srv cookie client ep))"
  let ?b = "\<lambda>st' t. (ids_responded cookie' auth resp True st'
        (ids_challenging d sc st (ids_asked_host t srv cookie client ep)))\<lparr> ids_endpoint_private_key := Some g \<rparr>"
  let ?r = "Ok (Some (BString (service_id_to_string (service_id_from_private_key C g))))"
  have "fits B n (section_into B (async_section cookie' ?r))"
    using own_service_id(3) [OF laws(3,4) g] rpc(3) by (intro text_reply_fits [OF laws(1,2)]) (simp add: service_id_to_string_def)
  then obtain t where t: "session_update B (identity_api B C g) 2 ([(?s rpc)\<lparr> ids_rpc := None \<rparr>], rpc) =
      (Ret (Ok ()), ([(?b IdS_ChallengeVerificationResponseSent rpc)\<lparr> ids_rpc := None \<rparr>], t))"
    and rest: "session_at B n wait w es t"
    using session_at_result [OF laws(1,2) rpc(1,2), of "identity_api B C g" "(?s rpc)\<lparr> ids_rpc := None \<rparr>" cookie' ?r
        "(?b IdS_ChallengeVerificationResponseSent rpc)\<lparr> ids_rpc := None \<rparr>"]
    by (auto simp: identity_api_def ids_next_result_def ids_next_present_def ids_success_def Let_def ids_run_defs)
  have "identity_server_update B C g (?s rpc) =
      ids_advance B C ((?b IdS_ChallengeVerificationResponseSent rpc)\<lparr> ids_rpc := None \<rparr>\<lparr> ids_rpc := Some t \<rparr>)"
    by (rule identity_update_step [of _ rpc]) (use t in \<open>simp_all add: ids_run_defs\<close>)
  also have "\<dots> = (Ret (Ok (Some (IdS_HandshakeCompleted g ep client auth))), ?b IdS_HandshakeComplete t)"
    using signing_keyD(5) [OF laws(4) g] by (simp add: ids_advance_def ids_present_def Let_def ids_run_defs)
  finally show ?thesis using that rest by blast
qed

text \<open>
  The whole run: the events of the server's stream are the two requests of the client, each
  followed by two polls that find nothing.
\<close>

definition two_requests :: "nat \<Rightarrow> bytes \<Rightarrow> nat \<Rightarrow> bytes \<Rightarrow> (nat \<times> read_event) list" where
  "two_requests u bs u' bs' = [(u, Data bs), (u, ReadErr WouldBlock), (u, ReadErr WouldBlock),
     (u', Data bs'), (u', ReadErr WouldBlock), (u', ReadErr WouldBlock)]"

lemma identity_run:
  assumes laws: "bson_laws B" "bson_size_laws B" "codec_laws C" "signature_laws C"
    and c: "identity_client_new C crpc srv ep k x = Ok c" "signing_key C k" "is_ascii (ascii_value ep)"
    and g: "signing_key C g" and n: "146 \<le> n" and cc: "length cc = CLIENT_COOKIE_SIZE"
    and size: "get_response_section_size B (Some (challenge_result B sc ch)) = Ok m" "37 + m \<le> n"
    and bs: "arrives B bs n (client_request ''gosling_identity'' ''begin_handshake'' (begin_handshake_args B c) cookie)"
    and bs': "arrives B bs' n (client_request ''gosling_identity'' ''send_response'' (send_response_args B C cc sc resp c) cookie')"
    and rpc: "session_at B n wait w (two_requests u bs u' bs') rpc"
  shows "\<exists>s1 s2 s3 s4 s5 s6.
    identity_server_update B C g (identity_server_new rpc srv) =
      (Ret (Ok (Some (IdS_EndpointRequestReceived (service_id_from_private_key C k) ep))), s1) \<and>
    handle_endpoint_request_received B sc True True ch s1 = (Ret (Ok ()), s2) \<and>
    identity_server_update B C g s2 = (Ret (Ok None), s3) \<and>
    identity_server_update B C g s3 = (Ret (Ok (Some (IdS_ChallengeResponseReceived resp))), s4) \<and>
    handle_challenge_response_received True s4 = (Ret (Ok ()), s5) \<and>
    identity_server_update B C g s5 = (Ret (Ok (Some (IdS_HandshakeCompleted g ep (service_id_from_private_key C k)
      (x25519_public_from_private_key C x)))), s6)"
proof -
  have n': "77 \<le> n" using n by simp
  note rpc = rpc [unfolded two_requests_def]
  obtain t1 where t1: "session_at B n wait u ((u, ReadErr WouldBlock) # (u', Data bs') # (u', ReadErr WouldBlock) # [(u', ReadErr WouldBlock)]) t1"
    and 1: "identity_server_update B C g (identity_server_new rpc srv) =
      (Ret (Ok (Some (IdS_EndpointRequestReceived (service_id_from_private_key C k) ep))),
       ids_asked_host t1 srv cookie (service_id_from_private_key C k) ep)"
    by (rule identity_run_request [OF laws c rpc n' bs]) blast
  note 2 = identity_run_challenge [OF laws(1,2) t1 size, of srv cookie "service_id_from_private_key C k" ep]
  have "u - u \<le> wait" by simp
  then obtain t3 where t3: "session_at B n wait u ((u', Data bs') # (u', ReadErr WouldBlock) # [(u', ReadErr WouldBlock)]) t3"
    and 3: "identity_server_update B C g (ids_challenging ch sc IdS_ChallengeReady
        (ids_asked_host t1 srv cookie (service_id_from_private_key C k) ep)) =
      (Ret (Ok None), ids_challenging (doc_new B) sc IdS_WaitingForSendResponse
        (ids_asked_host t3 srv cookie (service_id_from_private_key C k) ep))"
    by (rule identity_run_send_challenge [OF laws(1,2) t1 _ size]) blast
  obtain t4 where t4: "session_at B n wait u' [(u', ReadErr WouldBlock)] t4"
    and 4: "identity_server_update B C g (ids_challenging (doc_new B) sc IdS_WaitingForSendResponse
        (ids_asked_host t3 srv cookie (service_id_from_private_key C k) ep)) =
      (Ret (Ok (Some (IdS_ChallengeResponseReceived resp))),
       ids_responded cookie' (x25519_public_from_private_key C x) (doc_new B) False IdS_GettingChallengeVerification
         (ids_challenging (doc_new B) sc IdS_WaitingForSendResponse
            (ids_asked_host t4 srv cookie (service_id_from_private_key C k) ep)))"
    by (rule identity_run_response [OF laws c(1,2) cc t3 n' bs']) blast
  have "u' - u' \<le> wait" by simp
  then obtain t6 s6 where 6: "identity_server_update B C g
      (ids_responded cookie' (x25519_public_from_private_key C x) (doc_new B) True IdS_ChallengeVerificationReady
        (ids_challenging (doc_new B) sc IdS_WaitingForSendResponse
          (ids_asked_host t4 srv cookie (service_id_from_private_key C k) ep))) =
      (Ret (Ok (Some (IdS_HandshakeCompleted g ep (service_id_from_private_key C k) (x25519_public_from_private_key C x)))), s6)"
    by (rule identity_run_complete [OF laws t4 _ n g]) blast
  show ?thesis by (intro exI conjI) (rule 1, rule 2, rule 3, rule 4, rule identity_run_verify, rule 6)
qed

section \<open>The endpoint server serves an honest client\<close>

lemma document_reply_fits:
  assumes "bson_laws B" "bson_size_laws B" "serialises B d" "85 + doc_size B d \<le> n"
  shows "fits B n (section_into B (response_of cookie Complete (Some (BDocument d))))"
proof -
  let ?kvs = "[(''id'', BInt32 RESPONSE_SECTION_ID), (''cookie'', BInt64 cookie), (''state'', BInt32 1), (''result'', BDocument d)]"
  have d: "section_into B (response_of cookie Complete (Some (BDocument d))) = doc_of B ?kvs"
    by (simp add: response_of_def response_section_into_def insert_opt_def doc_of_def)
  have "serialises B (doc_of B ?kvs)" using doc_of_size(1) [OF assms(1,2), of ?kvs] assms(3) by (simp add: no_nul_def del: doc_of_simps)
  moreover from this have "doc_size B (doc_of B ?kvs) = 48 + doc_size B d"
    using doc_of_size(2) [OF assms(1,2), of ?kvs] by (simp add: no_nul_def entries_size_def del: doc_of_simps)
  ultimately show ?thesis using assms(4) unfolding d by (simp add: fits_def MIN_MESSAGE_SIZE_value del: doc_of_simps)
qed

lemma cookie_doc_size:
  assumes "bson_laws B" "bson_size_laws B"
  shows "serialises B (doc_of B [(''server_cookie'', BBinary Generic sc)])"
    "doc_size B (doc_of B [(''server_cookie'', BBinary Generic sc)]) = 25 + length sc"
proof -
  let ?kvs = "[(''server_cookie'', BBinary Generic sc)]"
  show s: "serialises B (doc_of B ?kvs)" using doc_of_size(1) [OF assms, of ?kvs] by (simp add: no_nul_def del: doc_of_simps)
  then show "doc_size B (doc_of B ?kvs) = 25 + length sc"
    using doc_of_size(2) [OF assms, of ?kvs] by (simp add: no_nul_def entries_size_def del: doc_of_simps)
qed

lemma endpoint_update_step:
  assumes "eps_rpc s = Some rpc"
    and "session_update B (endpoint_api B C) 2 ([s\<lparr> eps_rpc := None \<rparr>], rpc) = (Ret (Ok ()), ([b], t))"
  shows "endpoint_server_update B C s = eps_advance (b\<lparr> eps_rpc := Some t \<rparr>)"
  using assms by (simp add: endpoint_server_update_def ENDPOINT_SERVER_FUEL_def)

definition eps_asked_host ::
  "'d session \<Rightarrow> v3_onion_service_id \<Rightarrow> request_cookie \<Rightarrow> v3_onion_service_id \<Rightarrow> ascii_string \<Rightarrow> 'd endpoint_server" where
  "eps_asked_host rpc srv cookie client channel = (endpoint_server_new rpc client srv)\<lparr>
     eps_begin_handshake_request_cookie := Some cookie, eps_client_identity := Some client,
     eps_requested_channel := Some channel, eps_state := EpS_ValidatingChannelRequest \<rparr>"

definition eps_approved :: "bytes \<Rightarrow> endpoint_server_state \<Rightarrow> 'd endpoint_server \<Rightarrow> 'd endpoint_server" where
  "eps_approved sc st s = s\<lparr> eps_server_cookie := Some sc, eps_client_allowed := True,
     eps_client_requested_channel_valid := True, eps_state := st \<rparr>"

lemmas eps_run_defs = eps_asked_host_def eps_approved_def endpoint_server_new_def

lemma endpoint_run_request:
  assumes laws: "bson_laws B" "bson_size_laws B" "codec_laws C" "signature_laws C"
    and c: "c = endpoint_client_new C crpc srv channel k" "signing_key C k" "is_ascii (ascii_value channel)"
    and rpc: "session_at B n wait w ((u, Data bs) # (v, ReadErr WouldBlock) # es) rpc" "77 \<le> n"
    and bs: "arrives B bs n (client_request ''gosling_endpoint'' ''begin_handshake'' (channel_handshake_args B c) cookie)"
  obtains t where "endpoint_server_update B C (endpoint_server_new rpc (service_id_from_private_key C k) srv) =
      (Ret (Ok (Some (EpS_ChannelRequestReceived (service_id_from_private_key C k) channel))),
       eps_asked_host t srv cookie (service_id_from_private_key C k) channel)" "session_at B n wait u es t"
proof -
  let ?client = "service_id_from_private_key C k"
  let ?s = "(endpoint_server_new rpc ?client srv)\<lparr> eps_rpc := None \<rparr>"
  let ?b = "?s\<lparr> eps_client_identity := Some ?client, eps_begin_handshake_request_cookie := Some cookie,
      eps_requested_channel := Some channel \<rparr>"
  have "eps_exec_function B C ''begin_handshake'' 0 (channel_handshake_args B c) (Some cookie) ?s = (Ret None, ?b)"
    using endpoint_begin_accepted [OF laws(1,3,4) c(2,3,1), of ?s cookie]
    by (simp add: endpoint_server_new_def eps_exec_present_def)
  then obtain t where t: "session_update B (endpoint_api B C) 2 ([?s], rpc) = (Ret (Ok ()), ([?b], t))"
    and rest: "session_at B n wait u es t"
    using session_at_request [OF laws(1,2) rpc(1) bs, of "endpoint_api B C" ?s cookie ?b] rpc(2)
    by (auto simp: endpoint_api_def client_request_def endpoint_namespace_def eps_next_result_def endpoint_server_new_def)
  have "endpoint_server_update B C (endpoint_server_new rpc ?client srv) = eps_advance (?b\<lparr> eps_rpc := Some t \<rparr>)"
    by (rule endpoint_update_step) (use t in \<open>simp_all add: endpoint_server_new_def\<close>)
  also have "\<dots> = (Ret (Ok (Some (EpS_ChannelRequestReceived ?client channel))), eps_asked_host t srv cookie ?client channel)"
    by (simp add: eps_advance_def eps_present_def eps_run_defs)
  finally show ?thesis using that rest by blast
qed

lemma endpoint_run_approve:
  "handle_channel_request_received sc True (eps_asked_host rpc srv cookie client channel) =
   (Ret (Ok ()), eps_approved sc EpS_ChannelRequestValidated (eps_asked_host rpc srv cookie client channel))"
  by (simp add: handle_channel_request_received_def eps_present_def eps_run_defs)

lemma endpoint_run_send_cookie:
  assumes laws: "bson_laws B" "bson_size_laws B"
    and rpc: "session_at B n wait w ((v, ReadErr WouldBlock) # es) rpc" "v - w \<le> wait"
    and size: "length sc = 32" "142 \<le> n"
  obtains t where "endpoint_server_update B C (eps_approved sc EpS_ChannelRequestValidated (eps_asked_host rpc srv cookie client channel)) =
      (Ret (Ok None), eps_approved sc EpS_WaitingForSendResponse (eps_asked_host t srv cookie client channel))"
    "session_at B n wait w es t"
proof -
  let ?s = "\<lambda>st t. eps_approved sc st (eps_asked_host t srv cookie client channel)"
  let ?r = "Ok (Some (BDocument (doc_of B [(''server_cookie'', BBinary Generic sc)])))"
  have "fits B n (section_into B (async_section cookie ?r))"
    using document_reply_fits [OF laws cookie_doc_size(1) [OF laws], of sc n cookie] cookie_doc_size(2) [OF laws, of sc] size
    by (simp add: async_section_def del: doc_of_simps)
  then obtain t where t: "session_update B (endpoint_api B C) 2 ([(?s EpS_ChannelRequestValidated rpc)\<lparr> eps_rpc := None \<rparr>], rpc) =
      (Ret (Ok ()), ([(?s EpS_WaitingForSendResponse rpc)\<lparr> eps_rpc := None \<rparr>], t))" and rest: "session_at B n wait w es t"
    using session_at_result [OF laws rpc, of "endpoint_api B C" "(?s EpS_ChannelRequestValidated rpc)\<lparr> eps_rpc := None \<rparr>" cookie
        ?r "(?s EpS_WaitingForSendResponse rpc)\<lparr> eps_rpc := None \<rparr>"]
    by (auto simp: endpoint_api_def eps_next_result_def eps_run_defs simp del: doc_of_simps)
  have "endpoint_server_update B C (?s EpS_ChannelRequestValidated rpc) =
      eps_advance ((?s EpS_WaitingForSendResponse rpc)\<lparr> eps_rpc := None \<rparr>\<lparr> eps_rpc := Some t \<rparr>)"
    by (rule endpoint_update_step [of _ rpc]) (use t in \<open>simp_all add: eps_run_defs\<close>)
  also have "\<dots> = (Ret (Ok None), ?s EpS_WaitingForSendResponse t)"
    by (simp add: eps_advance_def eps_present_def eps_run_defs)
  finally show ?thesis using that rest by blast
qed

lemma endpoint_run_response:
  assumes laws: "bson_laws B" "bson_size_laws B" "codec_laws C" "signature_laws C"
    and c: "c = endpoint_client_new C crpc srv channel k" "signing_key C k" "length cc = CLIENT_COOKIE_SIZE"
    and rpc: "session_at B n wait w ((u, Data bs) # (v, ReadErr WouldBlock) # es) rpc" "90 \<le> n"
    and bs: "arrives B bs n (client_request ''gosling_endpoint'' ''send_response'' (channel_response_args B C cc sc c) cookie')"
  obtains t s where "endpoint_server_update B C (eps_approved sc EpS_WaitingForSendResponse
        (eps_asked_host rpc srv cookie (service_id_from_private_key C k) channel)) =
      (Ret (Ok (Some (EpS_HandshakeCompleted (service_id_from_private_key C k) channel (stream t)))), s)"
    "session_at B n wait u es t"
proof -
  let ?client = "service_id_from_private_key C k"
  let ?s = "\<lambda>t. eps_approved sc EpS_WaitingForSendResponse (eps_asked_host t srv cookie ?client channel)"
  let ?b = "\<lambda>t. (?s t)\<lparr> eps_client_proof_signature_valid := True, eps_handshake_succeeded := Some True,
      eps_state := EpS_HandledSendResponse \<rparr>"
  let ?r = "Some (Ok (Some (BDocument (doc_new B))))"
  have exec: "eps_exec_function B C ''send_response'' 0 (channel_response_args B C cc sc c) (Some cookie')
      ((?s rpc)\<lparr> eps_rpc := None \<rparr>) = (Ret ?r, (?b rpc)\<lparr> eps_rpc := None \<rparr>)"
    using endpoint_response_accepted [OF laws(1,3,4) c(2,3,1), of "(?s rpc)\<lparr> eps_rpc := None \<rparr>" sc cookie']
    by (simp add: eps_run_defs)
  have "fits B n (section_into B (response_of cookie' Complete (Some (BDocument (doc_new B)))))"
    using document_reply_fits [OF laws(1,2), of "doc_new B" n cookie'] bson_new_size [OF laws(2)] bson_new_serialises [OF laws(2)] rpc(2)
    by simp
  then obtain t where t: "session_update B (endpoint_api B C) 2 ([(?s rpc)\<lparr> eps_rpc := None \<rparr>], rpc) =
      (Ret (Ok ()), ([(?b rpc)\<lparr> eps_rpc := None \<rparr>], t))" and rest: "session_at B n wait u es t"
    using session_at_reply [OF laws(1,2) rpc(1) bs, of "endpoint_api B C" "(?s rpc)\<lparr> eps_rpc := None \<rparr>" ?r
        "(?b rpc)\<lparr> eps_rpc := None \<rparr>"] exec
    by (auto simp: endpoint_api_def client_request_def endpoint_namespace_def eps_next_result_def eps_run_defs reply_section_def)
  have "endpoint_server_update B C (?s rpc) = eps_advance ((?b rpc)\<lparr> eps_rpc := None \<rparr>\<lparr> eps_rpc := Some t \<rparr>)"
    by (rule endpoint_update_step [of _ rpc]) (use t in \<open>simp_all add: eps_run_defs\<close>)
  also have "\<dots> = (Ret (Ok (Some (EpS_HandshakeCompleted ?client channel (stream t)))),
      (?b t)\<lparr> eps_state := EpS_HandshakeComplete, eps_rpc := None \<rparr>)"
    by (simp add: eps_advance_def eps_present_def eps_run_defs into_stream_def)
  finally show ?thesis using that rest by blast
qed

lemma endpoint_run:
  assumes laws: "bson_laws B" "bson_size_laws B" "codec_laws C" "signature_laws C"
    and c: "c = endpoint_client_new C crpc srv channel k" "signing_key C k" "is_ascii (ascii_value channel)"
    and n: "142 \<le> n" and cc: "length cc = CLIENT_COOKIE_SIZE" "length sc = 32"
    and bs: "arrives B bs n (client_request ''gosling_endpoint'' ''begin_handshake'' (channel_handshake_args B c) cookie)"
    and bs': "arrives B bs' n (client_request ''gosling_endpoint'' ''send_response'' (channel_response_args B C cc sc c) cookie')"
    and rpc: "session_at B n wait w (two_requests u bs u' bs') rpc"
  shows "\<exists>s1 s2 s3 s4 st.
    endpoint_server_update B C (endpoint_server_new rpc (service_id_from_private_key C k) srv) =
      (Ret (Ok (Some (EpS_ChannelRequestReceived (service_id_from_private_key C k) channel))), s1) \<and>
    handle_channel_request_received sc True s1 = (Ret (Ok ()), s2) \<and>
    endpoint_server_update B C s2 = (Ret (Ok None), s3) \<and>
    endpoint_server_update B C s3 =
      (Ret (Ok (Some (EpS_HandshakeCompleted (service_id_from_private_key C k) channel st))), s4)"
proof -
  have n': "77 \<le> n" "90 \<le> n" using n by simp_all
  note rpc = rpc [unfolded two_requests_def]
  obtain t1 where t1: "session_at B n wait u ((u, ReadErr WouldBlock) # (u', Data bs') # (u', ReadErr WouldBlock) # [(u', ReadErr WouldBlock)]) t1"
    and 1: "endpoint_server_update B C (endpoint_server_new rpc (service_id_from_private_key C k) srv) =
      (Ret (Ok (Some (EpS_ChannelRequestReceived (service_id_from_private_key C k) channel))),
       eps_asked_host t1 srv cookie (service_id_from_private_key C k) channel)"
    by (rule endpoint_run_request [OF laws c rpc n'(1) bs]) blast
  have "u - u \<le> wait" by simp
  then obtain t3 where t3: "session_at B n wait u ((u', Data bs') # (u', ReadErr WouldBlock) # [(u', ReadErr WouldBlock)]) t3"
    and 3: "endpoint_server_update B C (eps_approved sc EpS_ChannelRequestValidated
        (eps_asked_host t1 srv cookie (service_id_from_private_key C k) channel)) =
      (Ret (Ok None), eps_approved sc EpS_WaitingForSendResponse
        (eps_asked_host t3 srv cookie (service_id_from_private_key C k) channel))"
    by (rule endpoint_run_send_cookie [OF laws(1,2) t1 _ cc(2) n]) blast
  obtain st s4 where 4: "endpoint_server_update B C (eps_approved sc EpS_WaitingForSendResponse
        (eps_asked_host t3 srv cookie (service_id_from_private_key C k) channel)) =
      (Ret (Ok (Some (EpS_HandshakeCompleted (service_id_from_private_key C k) channel st))), s4)"
    by (rule endpoint_run_response [OF laws c(1,2) cc(1) t3 n'(2) bs', where cookie = cookie]) blast
  show ?thesis by (intro exI conjI) (rule 1, rule endpoint_run_approve, rule 3, rule 4)
qed

end
