(* ===== verification/Bson_Alist.thy ===== *)
theory Bson_Alist
  imports Bson_Interface
begin

text \<open>
  A concrete instance of the BSON parameter: documents as association lists in insertion
  order, written in the layout of the BSON specification. The witnesses of the properties
  that have a hypothesis about the \<open>bson\<close> crate instantiate the parameter with it. The decoder
  is given by the list of documents it is able to read.
\<close>

datatype adoc = ADoc "(string \<times> adoc bson) list"

fun entries :: "adoc \<Rightarrow> (string \<times> adoc bson) list" where
  "entries (ADoc es) = es"

fun assoc_put :: "string \<Rightarrow> 'v \<Rightarrow> (string \<times> 'v) list \<Rightarrow> (string \<times> 'v) list" where
  "assoc_put k v [] = [(k, v)]"
| "assoc_put k v ((j, w) # es) = (if j = k then (k, v) # es else (j, w) # assoc_put k v es)"

lemma map_of_assoc_put [simp]: "map_of (assoc_put k v es) j = (if j = k then Some v else map_of es j)"
  by (induction es) auto

lemma assoc_put_put [simp]: "assoc_put k w (assoc_put k v es) = assoc_put k w es"
  by (induction es) auto

lemma map_of_filter_key: "map_of (filter (\<lambda>e. fst e \<noteq> k) es) j = (if j = k then None else map_of es j)"
  by (induction es) auto

section \<open>The encoder\<close>

definition le32 :: "nat \<Rightarrow> bytes" where
  "le32 n = [of_nat n, of_nat (n div 2 ^ 8), of_nat (n div 2 ^ 16), of_nat (n div 2 ^ 24)]"

definition le64 :: "i64 \<Rightarrow> bytes" where
  "le64 w = map (\<lambda>i. ucast (drop_bit (8 * i) w)) [0..<8]"

fun element_type :: "adoc bson \<Rightarrow> byte" where
  "element_type (BString _) = 2"
| "element_type (BDocument _) = 3"
| "element_type (BArray _) = 4"
| "element_type (BBinary _ _) = 5"
| "element_type (BBoolean _) = 8"
| "element_type (BInt32 _) = 16"
| "element_type (BInt64 _) = 18"
| "element_type BNull = 10"
| "element_type (BOther t _) = t"

fun subtype_byte :: "binary_subtype \<Rightarrow> byte" where
  "subtype_byte Generic = 0"
| "subtype_byte (OtherSubtype b) = b"

definition frame :: "bytes \<Rightarrow> bytes" where
  "frame body = le32 (length body + 5) @ body @ [0]"

function enc_doc :: "adoc \<Rightarrow> bytes"
and enc_entries :: "(string \<times> adoc bson) list \<Rightarrow> bytes"
and enc_array :: "nat \<Rightarrow> adoc bson list \<Rightarrow> bytes"
and enc_value :: "adoc bson \<Rightarrow> bytes" where
  "enc_doc (ADoc es) = frame (enc_entries es)"
| "enc_entries [] = []"
| "enc_entries ((k, v) # es) =
     element_type v # as_bytes k @ 0 # enc_value v @ enc_entries es"
| "enc_array i [] = []"
| "enc_array i (v # vs) =
     element_type v # as_bytes (decimal i) @ 0 # enc_value v @ enc_array (Suc i) vs"
| "enc_value (BString s) = le32 (length s + 1) @ as_bytes s @ [0]"
| "enc_value (BDocument d) = enc_doc d"
| "enc_value (BArray vs) = frame (enc_array 0 vs)"
| "enc_value (BBinary t bs) = le32 (length bs) @ subtype_byte t # bs"
| "enc_value (BBoolean b) = [if b then 1 else 0]"
| "enc_value (BInt32 n) = le32 (unat n)"
| "enc_value (BInt64 n) = le64 n"
| "enc_value BNull = []"
| "enc_value (BOther _ bs) = bs"
  by pat_completeness auto
termination
  by (relation "measure (case_sum
        (case_sum size (size_list (size_prod (\<lambda>_. 0) (size_bson size))))
        (case_sum (\<lambda>p. size_list (size_bson size) (snd p)) (size_bson size)))")
    auto

fun access :: "(adoc bson \<Rightarrow> 'a option) \<Rightarrow> adoc \<Rightarrow> string \<Rightarrow> ('a, value_access_error) result" where
  "access f d k = (case map_of (entries d) k of
     None \<Rightarrow> Err NotPresent
   | Some v \<Rightarrow> (case f v of Some a \<Rightarrow> Ok a | None \<Rightarrow> Err UnexpectedType))"

definition alist_bson :: "adoc list \<Rightarrow> adoc bson_ops" where
  "alist_bson known = \<lparr>
     doc_new = ADoc [],
     doc_get = (\<lambda>d k. map_of (entries d) k),
     doc_insert = (\<lambda>d k v. ADoc (assoc_put k v (entries d))),
     doc_remove = (\<lambda>d k. (map_of (entries d) k, ADoc (filter (\<lambda>e. fst e \<noteq> k) (entries d)))),
     doc_is_empty = (\<lambda>d. entries d = []),
     get_i32 = access (\<lambda>v. case v of BInt32 n \<Rightarrow> Some n | _ \<Rightarrow> None),
     get_i64 = access (\<lambda>v. case v of BInt64 n \<Rightarrow> Some n | _ \<Rightarrow> None),
     get_str = access (\<lambda>v. case v of BString s \<Rightarrow> Some s | _ \<Rightarrow> None),
     get_array = access (\<lambda>v. case v of BArray xs \<Rightarrow> Some xs | _ \<Rightarrow> None),
     get_document = access (\<lambda>v. case v of BDocument e \<Rightarrow> Some e | _ \<Rightarrow> None),
     to_writer = (\<lambda>d. Ok (enc_doc d)),
     from_reader = (\<lambda>bs. case find (\<lambda>d. enc_doc d = bs) known of Some d \<Rightarrow> Ok d | None \<Rightarrow> Err 0),
     doc_display = (\<lambda>d. ''document''), doc_debug = (\<lambda>d. ''Document''), bson_debug = (\<lambda>v. ''Bson'')\<rparr>"

lemma alist_sel [simp]:
  "doc_new (alist_bson known) = ADoc []"
  "doc_get (alist_bson known) d k = map_of (entries d) k"
  "doc_insert (alist_bson known) d k v = ADoc (assoc_put k v (entries d))"
  "doc_remove (alist_bson known) d k =
     (map_of (entries d) k, ADoc (filter (\<lambda>e. fst e \<noteq> k) (entries d)))"
  "doc_is_empty (alist_bson known) d = (entries d = [])"
  "get_i32 (alist_bson known) = access (\<lambda>v. case v of BInt32 n \<Rightarrow> Some n | _ \<Rightarrow> None)"
  "get_i64 (alist_bson known) = access (\<lambda>v. case v of BInt64 n \<Rightarrow> Some n | _ \<Rightarrow> None)"
  "get_str (alist_bson known) = access (\<lambda>v. case v of BString s \<Rightarrow> Some s | _ \<Rightarrow> None)"
  "get_array (alist_bson known) = access (\<lambda>v. case v of BArray xs \<Rightarrow> Some xs | _ \<Rightarrow> None)"
  "get_document (alist_bson known) = access (\<lambda>v. case v of BDocument e \<Rightarrow> Some e | _ \<Rightarrow> None)"
  "to_writer (alist_bson known) d = Ok (enc_doc d)"
  "from_reader (alist_bson known) bs =
     (case find (\<lambda>d. enc_doc d = bs) known of Some d \<Rightarrow> Ok d | None \<Rightarrow> Err 0)"
  by (simp_all add: alist_bson_def)

section \<open>The instance satisfies the laws\<close>

lemma alist_bson_laws: "bson_laws (alist_bson known)"
  by (auto simp: bson_laws_def bson_map_laws_def bson_access_laws_def
      map_of_filter_key split: option.splits bson.splits)

lemma alist_serialises [simp]: "serialises (alist_bson known) d"
  by (simp add: serialises_def)

lemma alist_doc_size: "doc_size (alist_bson known) d = length (enc_doc d)"
  by (simp add: doc_size_def)

lemma length_le32 [simp]: "length (le32 n) = 4"
  by (simp add: le32_def)

lemma length_le64 [simp]: "length (le64 n) = 8"
  by (simp add: le64_def)

lemma length_frame [simp]: "length (frame body) = length body + 5"
  by (simp add: frame_def)

lemma alist_value_size:
  "B = alist_bson known \<Longrightarrow> length (enc_value v) = value_size B v"
  "B = alist_bson known \<Longrightarrow> length (enc_array i vs) = array_size B i vs"
  by (induction B v and B i vs rule: value_size_array_size.induct) (simp_all add: alist_doc_size)

lemma length_enc_entries_put:
  "map_of es k = None \<Longrightarrow>
   length (enc_entries (assoc_put k v es)) = length (enc_entries es) + 2 + length k + length (enc_value v)"
  by (induction es) (auto split: if_splits)

lemma alist_value_serialises [simp]: "value_serialises (alist_bson known) v"
  by (induction v) (auto simp: list_all_iff)

lemma alist_bson_size_laws: "bson_size_laws (alist_bson known)"
proof -
  have "doc_size (alist_bson known) (doc_insert (alist_bson known) d k v) =
      doc_size (alist_bson known) d + 2 + length k + value_size (alist_bson known) v"
    if "doc_get (alist_bson known) d k = None" for d k v
    using that by (cases d) (simp add: alist_doc_size length_enc_entries_put
        alist_value_size(1) [OF refl, symmetric])
  then show ?thesis
    by (simp add: bson_size_laws_def alist_doc_size)
qed

section \<open>Encoded documents start with their own length\<close>

lemma bit_div_nat:
  "bit (n div 256) k \<longleftrightarrow> bit n (k + 8)" "bit (n div 65536) k \<longleftrightarrow> bit n (k + 16)"
  "bit (n div 16777216) k \<longleftrightarrow> bit n (k + 24)" for n :: nat
  using bit_drop_bit_eq [of 8 n] bit_drop_bit_eq [of 16 n] bit_drop_bit_eq [of 24 n]
  by (simp_all add: drop_bit_eq_div add.commute)

lemma header_of_nat:
  "header_i32 (of_nat n) (of_nat (n div 2 ^ 8)) (of_nat (n div 2 ^ 16)) (of_nat (n div 2 ^ 24)) = of_nat n"
proof (rule bit_word_eqI)
  fix k :: nat assume "k < LENGTH(32)"
  then have "k < 8 \<or> 8 \<le> k \<and> k < 16 \<or> 16 \<le> k \<and> k < 24 \<or> 24 \<le> k \<and> k < 32" by auto
  then show "bit (header_i32 (of_nat n) (of_nat (n div 2 ^ 8)) (of_nat (n div 2 ^ 16)) (of_nat (n div 2 ^ 24))) k =
      bit (of_nat n :: i32) k"
    by (elim disjE) (auto simp: header_i32_def bit_simps bit_div_nat)
qed

lemma alist_self_sized:
  assumes "length (enc_doc d) < 2 ^ 31" shows "self_sized (enc_doc d)"
proof (cases d)
  case (ADoc es)
  have "sint (of_nat (length (enc_doc d)) :: i32) = int (length (enc_doc d))"
    using assms signed_take_bit_int_eq_self [of 31 "int (length (enc_doc d))"]
    by (simp add: signed_of_nat)
  then show ?thesis
    using header_of_nat [of "length (enc_entries es) + 5"]
    by (simp add: self_sized_def ADoc frame_def le32_def add.commute)
qed

lemma alist_reads_back:
  assumes "find (\<lambda>e. enc_doc e = enc_doc d) known = Some d" "length (enc_doc d) < 2 ^ 31"
  shows "reads_back (alist_bson known) d"
  using assms by (simp add: reads_back_def alist_self_sized)

end
