(* ===== verification/Crypto_Toy.thy ===== *)
theory Crypto_Toy
  imports Tor_Crypto
begin

text \<open>
  A concrete \<open>crypto_ops\<close>, not cryptography, that satisfies \<open>codec_laws\<close> and
  \<open>signature_laws\<close>: the encodings pad their input to the length of the real ones, a public key
  is the scalar half of the private key, and a signature is the public key with a checksum of
  the message. It shows that the laws can hold and lets statements be evaluated.
\<close>

lemma unat_byte_less: "unat (b :: byte) < 256"
proof -
  have "unat b < 2 ^ LENGTH(8)" by (rule unsigned_less)
  then show ?thesis by simp
qed

lemma as_bytes_from_bytes [simp]: "as_bytes (from_bytes bs) = bs"
proof -
  have "of_char (char_of (unat b) :: char) = (b :: byte)" for b
  proof -
    have "of_char (char_of (unat b) :: char) = (of_nat (of_char (char_of (unat b) :: char)) :: byte)"
      by (simp only: of_nat_of_char)
    also have "\<dots> = b" using unat_byte_less [of b] by simp
    finally show ?thesis .
  qed
  then show ?thesis by (simp add: as_bytes_def from_bytes_def comp_def)
qed

definition pad_encode :: "nat \<Rightarrow> nat \<Rightarrow> bytes \<Rightarrow> string" where
  "pad_encode num den raw = from_bytes (raw @ replicate (length raw * num div den) 97)"

definition pad_decode :: "nat \<Rightarrow> nat \<Rightarrow> string \<Rightarrow> bytes option" where
  "pad_decode num den s =
     (let n = length s * den div (num + den) in
      if drop n (as_bytes s) = replicate (length s - n) 97 then Some (take n (as_bytes s)) else None)"

lemma length_from_bytes [simp]: "length (from_bytes bs) = length bs"
  by (simp add: from_bytes_def)

lemma pad_codec:
  assumes "m = n + n * num div den" "m * den div (num + den) = n"
  shows "codec_pair (pad_encode num den) (pad_decode num den) n m"
  using assms
  by (auto simp: codec_pair_def pad_encode_def pad_decode_def Let_def split: if_splits)
    (metis append_take_drop_id from_bytes_as_bytes length_as_bytes add_diff_cancel_left')

definition hex_digit :: "nat \<Rightarrow> char" where
  "hex_digit n = ''0123456789abcdef'' ! n"

definition hex_encode :: "bytes \<Rightarrow> string" where
  "hex_encode bs = concat (map (\<lambda>b. [hex_digit (unat b div 16), hex_digit (unat b mod 16)]) bs)"

lemma hex_digit_inj:
  assumes "hex_digit m = hex_digit n" "m < 16" "n < 16" shows "m = n"
proof -
  have d: "distinct ''0123456789abcdef''" by simp
  show ?thesis using assms nth_eq_iff_index_eq [OF d, of m n] by (simp add: hex_digit_def)
qed

lemma hex_encode_inj: "hex_encode as = hex_encode bs \<Longrightarrow> as = bs"
proof (induction as arbitrary: bs)
  case Nil
  then show ?case by (cases bs) (simp_all add: hex_encode_def)
next
  case (Cons a as)
  then obtain b bs' where bs: "bs = b # bs'" by (cases bs) (auto simp: hex_encode_def)
  have lt: "unat a div 16 < 16" "unat b div 16 < 16"
    using unat_byte_less [of a] unat_byte_less [of b] by linarith+
  from Cons.prems bs lt have "unat a div 16 = unat b div 16" "unat a mod 16 = unat b mod 16"
    by (auto simp: hex_encode_def intro!: hex_digit_inj)
  then have "unat a = unat b" by (metis div_mult_mod_eq)
  then have "a = b" by (simp only: word_unat_eq_iff)
  with Cons bs show ?case by (simp add: hex_encode_def)
qed

definition toy_crypto :: crypto_ops where
  "toy_crypto = \<lparr>
     sha3_256 = (\<lambda>bs. replicate 32 (sum_list bs)),
     onion_base32_encode = pad_encode 3 5, onion_base32_decode = pad_decode 3 5,
     base32_nopad_encode = pad_encode 5 8, base32_nopad_decode = pad_decode 5 8,
     base64_encode = pad_encode 3 8, base64_decode = pad_decode 3 8,
     hexlower_encode = hex_encode,
     scalar_from_bytes_mod_order = (\<lambda>s. s),
     keypair_from_secret_key_bytes = (\<lambda>raw. Some raw),
     keypair_public = take 32,
     keypair_sign = (\<lambda>k m. take 32 k @ replicate 32 (sum_list m)),
     public_key_from_bytes = (\<lambda>raw. Some raw),
     verify_strict = (\<lambda>pk m sig. sig = pk @ replicate 32 (sum_list m)),
     curve25519_public = (\<lambda>sk. sk),
     convert_curve25519_to_ed25519_private =
       (\<lambda>sk. if length sk = 32 \<and> \<not> list_all (\<lambda>x. x = 0) sk then Some (sk @ sk, 0) else None),
     convert_curve25519_to_ed25519_public = (\<lambda>pk b. if b = 0 then Some pk else None) \<rparr>"

lemma toy_crypto_sel [simp]:
  "sha3_256 toy_crypto bs = replicate 32 (sum_list bs)"
  "onion_base32_encode toy_crypto = pad_encode 3 5" "onion_base32_decode toy_crypto = pad_decode 3 5"
  "base32_nopad_encode toy_crypto = pad_encode 5 8" "base32_nopad_decode toy_crypto = pad_decode 5 8"
  "base64_encode toy_crypto = pad_encode 3 8" "base64_decode toy_crypto = pad_decode 3 8"
  "hexlower_encode toy_crypto = hex_encode"
  "scalar_from_bytes_mod_order toy_crypto s = s"
  "keypair_from_secret_key_bytes toy_crypto raw = Some raw"
  "keypair_public toy_crypto = take 32"
  "keypair_sign toy_crypto k m = take 32 k @ replicate 32 (sum_list m)"
  "public_key_from_bytes toy_crypto raw = Some raw"
  "verify_strict toy_crypto pk m sig = (sig = pk @ replicate 32 (sum_list m))"
  "curve25519_public toy_crypto sk = sk"
  "convert_curve25519_to_ed25519_private toy_crypto sk =
     (if length sk = 32 \<and> \<not> list_all (\<lambda>x. x = 0) sk then Some (sk @ sk, 0) else None)"
  "convert_curve25519_to_ed25519_public toy_crypto pk b = (if b = 0 then Some pk else None)"
  by (simp_all add: toy_crypto_def)

lemma toy_codec_laws: "codec_laws toy_crypto"
proof -
  have "length (hex_encode raw) = 2 * length raw" for raw
    by (induction raw) (simp_all add: hex_encode_def)
  then show ?thesis
    by (auto simp: codec_laws_def intro!: pad_codec injI hex_encode_inj)
qed

lemma toy_signing_key:
  "signing_key toy_crypto k \<longleftrightarrow> length (expanded_keypair k) = 64 \<and> \<not> list_all (\<lambda>x. x = 0) (take 32 (expanded_keypair k))"
  by (cases k) (auto simp: signing_key_def ed25519_private_from_raw_def ed25519_private_from_raw_impl_def
      crypto_sizes Let_def)

lemma toy_signature_laws: "signature_laws toy_crypto"
  by (auto simp: signature_laws_def toy_signing_key)

end
