(* ===== verification/Sample_Runs.thy ===== *)
theory Sample_Runs
  imports Context_Runs Honest_Runs Bson_Alist Crypto_Toy
begin

text \<open>
  Concrete documents, sessions and keys over the instances \<open>alist_bson\<close> and \<open>toy_crypto\<close> of the
  two parameters of the model, at which the properties are applied.
\<close>

section \<open>A message with one section\<close>

lemma sublist_singleton: "sublist q [x] \<longleftrightarrow> q = [] \<or> q = [x]"
  by (auto simp: sublist_Cons_right prefix_Cons)

definition sample_section :: "adoc rpc_section" where
  "sample_section = SResponse \<lparr> rs_cookie = 7, rs_state = Complete, rs_result = Some (BString ''ok'') \<rparr>"

definition sample_doc :: adoc where
  "sample_doc = ADoc [(''id'', BInt32 2), (''cookie'', BInt64 7), (''state'', BInt32 1), (''result'', BString ''ok'')]"

definition sample_full :: adoc where
  "sample_full = ADoc [(''honk_rpc'', BInt32 256), (''sections'', BArray [BDocument sample_doc])]"

definition sample_empty :: adoc where
  "sample_empty = ADoc [(''honk_rpc'', BInt32 256), (''sections'', BArray [])]"

abbreviation sample_bson :: "adoc bson_ops" where
  "sample_bson \<equiv> alist_bson [sample_full, sample_empty]"

lemma sample_section_doc: "section_into sample_bson sample_section = sample_doc"
  by (simp add: sample_section_def response_section_into_def insert_opt_def RESPONSE_SECTION_ID_def sample_doc_def)

lemma HONK_RPC_VERSION_value: "HONK_RPC_VERSION = 256"
  by (simp add: HONK_RPC_VERSION_def semver_to_i32_def)

lemma sample_messages:
  "sections_message sample_bson [BDocument sample_doc] = sample_full"
  "sections_message sample_bson [] = sample_empty"
  by (simp_all add: sections_message_def sample_full_def sample_empty_def HONK_RPC_VERSION_value)

lemma sample_sizes:
  "length (enc_doc sample_doc) = 55" "length (enc_doc sample_full) = 92" "length (enc_doc sample_empty) = 34"
  by (simp_all add: sample_doc_def sample_full_def sample_empty_def)

lemma sample_reads_back:
  "sublist q [sample_section] \<Longrightarrow>
   reads_back sample_bson (sections_message sample_bson (map (\<lambda>s. BDocument (section_into sample_bson s)) q))"
proof -
  have "length (enc_doc sample_full) \<noteq> length (enc_doc sample_empty)" by (simp only: sample_sizes)
  then have "enc_doc sample_full \<noteq> enc_doc sample_empty" by metis
  then have "reads_back sample_bson sample_full" "reads_back sample_bson sample_empty"
    by (simp_all add: alist_reads_back sample_sizes)
  then show "sublist q [sample_section] \<Longrightarrow> ?thesis"
    by (auto simp: sublist_singleton sample_section_doc sample_messages)
qed

lemma sample_section_wf: "section_wf sample_section"
  by (simp add: sample_section_def)

definition quiet_stream :: "(nat \<times> read_event) list \<Rightarrow> rw_stream" where
  "quiet_stream evs = \<lparr> rd_events = evs, rd_now = 0, wr_events = [], fl_events = [], sent = [] \<rparr>"

definition sample_sender :: "adoc session" where
  "sample_sender = (session_new 0 (quiet_stream []))\<lparr> outbound_sections := [section_into sample_bson sample_section] \<rparr>"

definition sample_receiver :: "bytes \<Rightarrow> adoc session" where
  "sample_receiver bs = session_new 0 (quiet_stream [(0, Data bs)])"

lemma sample_ready: "ready_to_send sample_bson [sample_section] sample_sender"
proof -
  have "fits sample_bson 4096 (section_into sample_bson sample_section)"
    by (simp add: fits_def sample_section_doc alist_doc_size sample_sizes MIN_MESSAGE_SIZE_value)
  then show ?thesis
    by (simp add: ready_to_send_def sample_sender_def out_inv_def session_new_def quiet_stream_def
        DEFAULT_MAX_MESSAGE_SIZE_def MIN_MESSAGE_SIZE_value vd_inv_def vd_reserve_def vd_new_def vd_contiguous_def Let_def)
qed

lemma sample_receive: "ready_to_receive 0 bs (sample_receiver bs)"
  by (simp add: ready_to_receive_def sample_receiver_def session_new_def quiet_stream_def)

section \<open>Reading the message, in one chunk or in two\<close>

definition split_receiver :: "adoc session" where
  "split_receiver = session_new 0 (quiet_stream
     [(0, Data (take 4 (enc_doc sample_full))), (0, Data (drop 4 (enc_doc sample_full)))])"

definition sample_message :: "adoc message" where
  "sample_message = \<lparr> msg_honk_rpc = HONK_RPC_VERSION, msg_sections = [sample_section] \<rparr>"

lemma sample_into: "message_into sample_bson sample_message = sample_full"
  using sample_messages(1) by (simp add: message_into_def sample_message_def sections_message_def sample_section_doc)

lemma sample_parses: "parse_message sample_bson (enc_doc sample_full) = Ok sample_message"
  using message_roundtrip [OF alist_bson_laws, of sample_message "[sample_full, sample_empty]"]
  by (simp add: parse_message_def sample_into) (simp add: sample_message_def sample_section_wf)

lemma sample_frames: "frames sample_bson [enc_doc sample_full] [sample_message]"
  by (simp add: frames_def sample_parses alist_self_sized sample_sizes)

lemma sample_full_nonempty [simp]: "enc_doc sample_full \<noteq> []"
  by (simp add: sample_full_def frame_def le32_def)

lemma sample_receiver_reads:
  "\<exists>u. read_sections sample_bson (sample_receiver (enc_doc sample_full)) = (Ret (Ok ()), u) \<and> incoming u = [] \<and>
     pending_sections u = [sample_section]"
  using read_sections_chunk [OF _ _ _ sample_frames, of "sample_receiver (enc_doc sample_full)" 0] sample_sizes
  by (auto simp: sample_receiver_def session_new_def quiet_stream_def sample_message_def rest_events_def
      DEFAULT_MAX_MESSAGE_SIZE_def)

lemma split_receiver_reads:
  "\<exists>u. read_sections sample_bson split_receiver = (Ret (Ok ()), u) \<and> incoming u = [] \<and>
     pending_sections u = [sample_section]"
proof -
  let ?bs = "enc_doc sample_full"
  have sz: "self_sized ?bs" "length ?bs = 92" by (simp_all add: alist_self_sized sample_sizes)
  have hd: "\<not> header_i32 (?bs ! 0) (?bs ! 1) (?bs ! 2) (?bs ! 3) <=s 4" "unat (header_i32 (?bs ! 0) (?bs ! 1) (?bs ! 2) (?bs ! 3)) = 92"
    using self_sized_unat [OF sz(1)] sz(2) by (simp_all add: buffer_header_def)
  note hd = hd [unfolded One_nat_def]
  show ?thesis
    apply (subst read_sections.simps)
    apply (subst read_message_def)
    apply (simp add: split_receiver_def session_new_def quiet_stream_def read_message_size_def read_message_body_def
      try_then_def andthen_def stream_read_def io_read_def finish_message_size_def sz hd DEFAULT_MAX_MESSAGE_SIZE_def Let_def
      sample_parses min_def nth_append)
    apply (subst read_sections.simps)
    apply (simp add: read_message_def read_message_size_def try_then_def andthen_def stream_read_def io_read_def ret_def
      sample_message_def incoming_def)
    done
qed


section \<open>Keys\<close>

definition sample_key :: ed25519_private_key where
  "sample_key = \<lparr> expanded_keypair = replicate 64 1 \<rparr>"

definition sample_x25519 :: x25519_private_key where
  "sample_x25519 = \<lparr> secret_key = replicate 32 64 \<rparr>"

definition sample_id :: v3_onion_service_id where
  "sample_id = service_id_from_private_key toy_crypto sample_key"

definition sample_name :: ascii_string where
  "sample_name = \<lparr> ascii_value = ''echo'' \<rparr>"

lemma sample_signing_key: "signing_key toy_crypto sample_key"
  by (simp add: toy_signing_key sample_key_def list_all_iff)
section \<open>A short write\<close>

definition sample_writer :: "adoc session" where
  "sample_writer = (session_new 0 (quiet_stream []\<lparr> wr_events := [Accept 2, WriteErr WouldBlock] \<rparr>))
     \<lparr> message_write_buffer := vd_append [1, 2, 3] vd_new \<rparr>"

lemma sample_writer_inv: "vd_inv (message_write_buffer sample_writer)"
  by (simp add: sample_writer_def vd_append_def vd_reserve_def vd_contiguous_def vd_new_def vd_inv_def)

lemma sample_writer_writes:
  "\<exists>t. write_pending_data sample_writer = (Ret (Ok ()), t) \<and> sent (stream t) = [1, 2] \<and>
     vd_items (message_write_buffer t) = [3]"
proof -
  have "write_pending_loop [1, 2, 3] 0 (stream sample_writer) =
      (Ok 2, (quiet_stream [])\<lparr> sent := [1, 2] \<rparr>)"
    by (subst write_pending_loop.simps, simp add: io_write_def session_new_def sample_writer_def quiet_stream_def)
      (subst write_pending_loop.simps, simp add: io_write_def)
  then show ?thesis
    by (simp add: write_pending_data_def write_pending_data_impl_def try_then_def andthen_def vd_append_def
        vd_reserve_def vd_new_def vd_contiguous_def vd_as_slices_def vd_drain_front_def vd_make_contiguous_def
        io_flush_def session_new_def sample_writer_def quiet_stream_def)
qed

lemma sample_x25519_signing: "\<exists>k b. ed25519_private_from_private_x25519 toy_crypto sample_x25519 = Ok (k, b)"
  by (simp add: ed25519_private_from_private_x25519_def sample_x25519_def list_all_iff)

section \<open>Requests on the wire\<close>

lemma alist_section_into: "section_into (alist_bson known) s = section_into (alist_bson []) s"
  by (cases s) (simp_all add: error_section_into_def request_section_into_def response_section_into_def insert_opt_def
      Let_def split: option.splits)

lemma alist_doc_of: "doc_of (alist_bson known) kvs = doc_of (alist_bson []) kvs"
  by (simp add: doc_of_def)

definition request_doc :: "adoc request_section \<Rightarrow> adoc" where
  "request_doc rq = sections_message (alist_bson []) [BDocument (section_into (alist_bson []) (SRequest rq))]"

lemma request_doc_arrives:
  assumes "find (\<lambda>e. enc_doc e = enc_doc (request_doc rq)) known = Some (request_doc rq)"
    and "length (enc_doc (request_doc rq)) \<le> n" "n < 2 ^ 31" "rq_function rq \<noteq> ''''"
  shows "arrives (alist_bson known) (enc_doc (request_doc rq)) n rq"
proof -
  let ?m = "\<lparr> msg_honk_rpc = HONK_RPC_VERSION, msg_sections = [SRequest rq] \<rparr>"
  have "message_into (alist_bson known) ?m = request_doc rq"
    unfolding request_doc_def sections_message_def
    by (simp add: message_into_def alist_section_into [of known])
  then have "message_try_from (alist_bson known) (request_doc rq) = Ok ?m"
    using message_roundtrip [OF alist_bson_laws, of ?m known] assms(4) by simp
  then have "parse_message (alist_bson known) (enc_doc (request_doc rq)) = Ok ?m"
    using assms(1) by (simp add: parse_message_def)
  then show ?thesis
    using assms(2,3) alist_self_sized [of "request_doc rq"]
    by (auto simp: arrives_def frames_def)
qed

lemma length_text [simp]: "length (enc_value (BString s)) = 5 + length s"
  by simp

lemma request_doc_size:
  "ns \<noteq> '''' \<Longrightarrow> length (enc_doc (request_doc (client_request ns f args cookie))) =
     108 + length ns + length f + length (enc_doc args)"
  by (simp add: request_doc_def client_request_def sections_message_def request_section_into_def insert_opt_def)

lemma begin_args_size:
  "length (enc_doc (begin_handshake_args (alist_bson known) c)) =
     61 + length (sid_data (idc_client_service_id c)) + length (ascii_value (idc_requested_endpoint c))"
  by (simp add: begin_handshake_args_def doc_of_def GOSLING_PROTOCOL_VERSION_def service_id_to_string_def)

section \<open>Both handshakes, run over the wire\<close>

lemma sample_client_Ok:
  obtains c where "identity_client_new toy_crypto (session_new 0 (quiet_stream [])) sample_id sample_name
      sample_key sample_x25519 = Ok (c :: adoc identity_client)"
  using sample_x25519_signing by (auto simp: identity_client_new_def)

definition sample_begin :: "adoc identity_client \<Rightarrow> adoc request_section" where
  "sample_begin c = client_request ''gosling_identity'' ''begin_handshake'' (begin_handshake_args (alist_bson []) c) 0"

definition sample_response :: "adoc identity_client \<Rightarrow> adoc request_section" where
  "sample_response c = client_request ''gosling_identity'' ''send_response''
     (send_response_args (alist_bson []) toy_crypto (replicate 32 7) (replicate 32 5) (ADoc []) c) 1"

abbreviation identity_bson :: "adoc identity_client \<Rightarrow> adoc bson_ops" where
  "identity_bson c \<equiv> alist_bson [request_doc (sample_begin c), request_doc (sample_response c)]"

definition identity_server_session :: "adoc identity_client \<Rightarrow> adoc session" where
  "identity_server_session c = session_new 0 (quiet_stream
     (two_requests 0 (enc_doc (request_doc (sample_begin c))) 0 (enc_doc (request_doc (sample_response c)))))"

lemma session_new_at: "session_at B 4096 DEFAULT_MAX_WAIT_TIME 0 es (session_new 0 (quiet_stream es))"
  by (simp add: session_at_def at_rest_def session_new_def quiet_stream_def DEFAULT_MAX_MESSAGE_SIZE_def MIN_MESSAGE_SIZE_value
      vd_inv_def vd_reserve_def vd_new_def vd_contiguous_def Let_def)

lemma sample_id_length: "length (sid_data sample_id) = 56"
  unfolding sample_id_def by (rule own_service_id(3) [OF toy_codec_laws toy_signature_laws sample_signing_key])

lemma sample_request_sizes:
  assumes "identity_client_new toy_crypto (session_new 0 (quiet_stream [])) sample_id sample_name sample_key sample_x25519 = Ok c"
  shows "length (enc_doc (request_doc (sample_begin c))) = 260" "length (enc_doc (request_doc (sample_response c))) = 520"
proof -
  have c: "idc_client_service_id c = sample_id" "idc_requested_endpoint c = sample_name"
    "idc_client_identity_ed25519_private c = sample_key" "idc_client_authorization_key_private c = sample_x25519"
    "ed25519_private_from_private_x25519 toy_crypto sample_x25519 = Ok (idc_client_authorization_signing_key_private c)"
    using assms by (auto simp: identity_client_new_def sample_id_def split: result.splits)
  have auth: "signing_key toy_crypto (fst (idc_client_authorization_signing_key_private c))"
    "length (x_public_key (x25519_public_from_private_key toy_crypto sample_x25519)) = 32"
    using x25519_signing_key [OF toy_signature_laws, of sample_x25519] c(5) by (metis prod.collapse)+
  show "length (enc_doc (request_doc (sample_begin c))) = 260"
    by (simp add: sample_begin_def request_doc_size begin_args_size c sample_id_length sample_name_def)
  show "length (enc_doc (request_doc (sample_response c))) = 520"
    using signing_keyD(3) [OF toy_signature_laws sample_signing_key] signing_keyD(3) [OF toy_signature_laws auth(1)] auth(2)
    by (simp add: sample_response_def request_doc_size send_response_args_def doc_of_def Let_def c
        ed25519_signature_to_bytes_def x25519_public_as_bytes_def)
qed

lemma sample_arrivals:
  assumes "identity_client_new toy_crypto (session_new 0 (quiet_stream [])) sample_id sample_name sample_key sample_x25519 = Ok c"
  shows "arrives (identity_bson c) (enc_doc (request_doc (sample_begin c))) 4096 (sample_begin c)"
    "arrives (identity_bson c) (enc_doc (request_doc (sample_response c))) 4096 (sample_response c)"
proof -
  note sizes = sample_request_sizes [OF assms]
  then have "length (enc_doc (request_doc (sample_begin c))) \<noteq> length (enc_doc (request_doc (sample_response c)))" by simp
  then have "enc_doc (request_doc (sample_begin c)) \<noteq> enc_doc (request_doc (sample_response c))" by metis
  then show "arrives (identity_bson c) (enc_doc (request_doc (sample_begin c))) 4096 (sample_begin c)"
    "arrives (identity_bson c) (enc_doc (request_doc (sample_response c))) 4096 (sample_response c)"
    by (rule_tac [!] request_doc_arrives) (simp_all add: sizes, simp_all add: sample_begin_def sample_response_def client_request_def)
qed

lemma sample_challenge_size: "get_response_section_size (alist_bson known) (Some (challenge_result (alist_bson known) (replicate 32 5) (ADoc []))) = Ok 130"
  by (simp add: get_response_section_size_def challenge_result_def count_document_Ok_iff alist_doc_size insert_opt_def)


lemma sample_name_ascii: "is_ascii (ascii_value sample_name)"
  by (simp add: is_ascii_def as_bytes_def sample_name_def)

lemma sample_cookie: "length (replicate 32 (7 :: byte)) = CLIENT_COOKIE_SIZE"
  by (simp add: CLIENT_COOKIE_SIZE_def)

lemma sample_arrivals_args:
  assumes "identity_client_new toy_crypto (session_new 0 (quiet_stream [])) sample_id sample_name sample_key sample_x25519 = Ok c"
  shows "arrives (identity_bson c) (enc_doc (request_doc (sample_begin c))) 4096
      (client_request ''gosling_identity'' ''begin_handshake'' (begin_handshake_args (identity_bson c) c) 0)"
    "arrives (identity_bson c) (enc_doc (request_doc (sample_response c))) 4096
      (client_request ''gosling_identity'' ''send_response''
        (send_response_args (identity_bson c) toy_crypto (replicate 32 7) (replicate 32 5) (ADoc []) c) 1)"
  using sample_arrivals [OF assms]
  by (simp_all add: sample_begin_def sample_response_def begin_handshake_args_def send_response_args_def
      alist_doc_of [of "[_, _]"] del: doc_of_simps)

lemma sample_identity_reach:
  assumes c: "identity_client_new toy_crypto (session_new 0 (quiet_stream [])) sample_id sample_name sample_key sample_x25519 = Ok c"
  shows "\<exists>log s t. ids_reach (identity_bson c) toy_crypto log s \<and>
    identity_server_update (identity_bson c) toy_crypto sample_key s =
       (Ret (Ok (Some (IdS_HandshakeCompleted sample_key sample_name sample_id
          (x25519_public_from_private_key toy_crypto sample_x25519)))), t)"
proof -
  obtain rpc s1 s2 s3 s4 s5 s6 where
    1: "identity_server_update (identity_bson c) toy_crypto sample_key (identity_server_new rpc sample_id) =
      (Ret (Ok (Some (IdS_EndpointRequestReceived sample_id sample_name))), s1)" and
    2: "handle_endpoint_request_received (identity_bson c) (replicate 32 5) True True (ADoc []) s1 = (Ret (Ok ()), s2)" and
    3: "identity_server_update (identity_bson c) toy_crypto sample_key s2 = (Ret (Ok None), s3)" and
    4: "identity_server_update (identity_bson c) toy_crypto sample_key s3 = (Ret (Ok (Some (IdS_ChallengeResponseReceived (ADoc [])))), s4)" and
    5: "handle_challenge_response_received True s4 = (Ret (Ok ()), s5)" and
    6: "identity_server_update (identity_bson c) toy_crypto sample_key s5 = (Ret (Ok (Some (IdS_HandshakeCompleted sample_key sample_name
      sample_id (x25519_public_from_private_key toy_crypto sample_x25519)))), s6)"
    using identity_run [OF alist_bson_laws alist_bson_size_laws toy_codec_laws toy_signature_laws c sample_signing_key
      sample_name_ascii sample_signing_key _ sample_cookie sample_challenge_size _ sample_arrivals_args [OF c]
      session_new_at, of 0 0] unfolding sample_id_def by fastforce
  show ?thesis
    by (intro exI conjI, rule ids_reach_response [OF ids_reach_update [OF ids_reach_update [OF ids_reach_request
      [OF ids_reach_update [OF ids_reach_new sample_signing_key 1] 2] sample_signing_key 3] sample_signing_key 4] 5], rule 6)
qed

definition sample_endpoint_client :: "adoc endpoint_client" where
  "sample_endpoint_client = endpoint_client_new toy_crypto (session_new 0 (quiet_stream [])) sample_id sample_name sample_key"

definition channel_begin :: "adoc request_section" where
  "channel_begin = client_request ''gosling_endpoint'' ''begin_handshake'' (channel_handshake_args (alist_bson []) sample_endpoint_client) 0"

definition channel_response :: "adoc request_section" where
  "channel_response = client_request ''gosling_endpoint'' ''send_response''
     (channel_response_args (alist_bson []) toy_crypto (replicate 32 7) (replicate 32 5) sample_endpoint_client) 1"

abbreviation endpoint_bson :: "adoc bson_ops" where
  "endpoint_bson \<equiv> alist_bson [request_doc channel_begin, request_doc channel_response]"

lemma channel_request_sizes:
  "length (enc_doc (request_doc channel_begin)) = 259" "length (enc_doc (request_doc channel_response)) = 296"
proof -
  have c: "epc_client_service_id sample_endpoint_client = sample_id" "epc_requested_channel sample_endpoint_client = sample_name"
    "epc_client_ed25519_private sample_endpoint_client = sample_key"
    by (simp_all add: sample_endpoint_client_def endpoint_client_new_def sample_id_def)
  show "length (enc_doc (request_doc channel_begin)) = 259"
    by (simp add: channel_begin_def request_doc_size channel_handshake_args_def doc_of_def c GOSLING_PROTOCOL_VERSION_def
        service_id_to_string_def sample_id_length sample_name_def)
  show "length (enc_doc (request_doc channel_response)) = 296"
    using signing_keyD(3) [OF toy_signature_laws sample_signing_key]
    by (simp add: channel_response_def request_doc_size channel_response_args_def doc_of_def Let_def c ed25519_signature_to_bytes_def)
qed

lemma channel_arrivals:
  "arrives endpoint_bson (enc_doc (request_doc channel_begin)) 4096
     (client_request ''gosling_endpoint'' ''begin_handshake'' (channel_handshake_args endpoint_bson sample_endpoint_client) 0)"
  "arrives endpoint_bson (enc_doc (request_doc channel_response)) 4096
     (client_request ''gosling_endpoint'' ''send_response''
       (channel_response_args endpoint_bson toy_crypto (replicate 32 7) (replicate 32 5) sample_endpoint_client) 1)"
proof -
  have "length (enc_doc (request_doc channel_begin)) \<noteq> length (enc_doc (request_doc channel_response))"
    by (simp add: channel_request_sizes)
  then have *: "enc_doc (request_doc channel_begin) \<noteq> enc_doc (request_doc channel_response)" by metis
  have "arrives endpoint_bson (enc_doc (request_doc channel_begin)) 4096 channel_begin"
    by (rule request_doc_arrives) (simp_all add: channel_request_sizes, simp add: channel_begin_def client_request_def)
  moreover have "arrives endpoint_bson (enc_doc (request_doc channel_response)) 4096 channel_response"
    using * by (intro request_doc_arrives) (simp_all add: channel_request_sizes, simp add: channel_response_def client_request_def)
  ultimately show "arrives endpoint_bson (enc_doc (request_doc channel_begin)) 4096
     (client_request ''gosling_endpoint'' ''begin_handshake'' (channel_handshake_args endpoint_bson sample_endpoint_client) 0)"
    "arrives endpoint_bson (enc_doc (request_doc channel_response)) 4096
     (client_request ''gosling_endpoint'' ''send_response''
       (channel_response_args endpoint_bson toy_crypto (replicate 32 7) (replicate 32 5) sample_endpoint_client) 1)"
    by (simp_all add: channel_begin_def channel_response_def channel_handshake_args_def channel_response_args_def
      alist_doc_of [of "[_, _]"] del: doc_of_simps)
qed

lemma sample_endpoint_reach:
  "\<exists>log s t st. eps_reach endpoint_bson toy_crypto sample_id log s \<and>
    endpoint_server_update endpoint_bson toy_crypto s = (Ret (Ok (Some (EpS_HandshakeCompleted sample_id sample_name st))), t)"
proof -
  obtain rpc s1 s2 s3 s4 st where
    1: "endpoint_server_update endpoint_bson toy_crypto (endpoint_server_new rpc sample_id sample_id) =
      (Ret (Ok (Some (EpS_ChannelRequestReceived sample_id sample_name))), s1)" and
    2: "handle_channel_request_received (replicate 32 5) True s1 = (Ret (Ok ()), s2)" and
    3: "endpoint_server_update endpoint_bson toy_crypto s2 = (Ret (Ok None), s3)" and
    4: "endpoint_server_update endpoint_bson toy_crypto s3 = (Ret (Ok (Some (EpS_HandshakeCompleted sample_id sample_name st))), s4)"
    using endpoint_run [OF alist_bson_laws alist_bson_size_laws toy_codec_laws toy_signature_laws sample_endpoint_client_def
      sample_signing_key sample_name_ascii _ sample_cookie _ channel_arrivals session_new_at, of 0 0]
    unfolding sample_id_def [symmetric] by fastforce
  show ?thesis
    by (intro exI conjI, rule eps_reach_update [OF eps_reach_channel [OF eps_reach_update [OF eps_reach_new 1] 2] 3], rule 4)
qed

section \<open>Clients whose last answer is there\<close>

definition answered_session :: "adoc response \<Rightarrow> adoc session" where
  "answered_session r = (session_new 0 (quiet_stream []))\<lparr> inbound_responses := [r] \<rparr>"

lemma answered_session_update:
  "session_update_none B (answered_session r) = (Ret (Ok ()), answered_session r)"
  by (auto simp: session_update_none_def session_update_def on_session_def action_defs answered_session_def session_new_def
      quiet_stream_def read_sections.simps read_message_def read_message_size_def stream_read_def io_read_def
      process_sections_def handle_requests_def serialize_messages_def write_pending_data_def write_pending_data_impl_def
      vd_as_slices_def vd_contiguous_def vd_reserve_def vd_new_def write_pending_loop.simps Let_def io_flush_def
      vd_make_contiguous_def vd_drain_front_def)

lemma answered_session_fields [simp]:
  "inbound_responses (answered_session r) = [r]" "stream (answered_session r) = quiet_stream []"
  by (simp_all add: answered_session_def session_new_def)

definition answered_identity_client :: "adoc identity_client" where
  "answered_identity_client = (case identity_client_new toy_crypto
       (answered_session (RSuccess 1 (Some (BString (service_id_to_string sample_id))))) sample_id sample_name
       sample_key sample_x25519 of Ok c \<Rightarrow> c\<lparr> idc_state := IdC_WaitingForChallengeVerification,
     idc_begin_handshake_request_cookie := Some 0, idc_server_cookie := Some (replicate 32 5),
     idc_send_response_request_cookie := Some 1 \<rparr>)"

definition answered_endpoint_client :: "adoc endpoint_client" where
  "answered_endpoint_client = (endpoint_client_new toy_crypto (answered_session (RSuccess 1 (Some (BDocument (ADoc [])))))
     sample_id sample_name sample_key)\<lparr> epc_state := EpC_WaitingForProofVerification,
       epc_begin_handshake_request_cookie := Some 0, epc_send_response_request_cookie := Some 1 \<rparr>"

lemma answered_identity_client_completes:
  "\<exists>t. identity_client_update sample_bson toy_crypto [] answered_identity_client =
     (Ret (Ok (Some (IdC_HandshakeCompleted sample_id sample_id ''echo'' sample_x25519))), t)"
  "idc_inv answered_identity_client"
  "idc_rpc answered_identity_client = answered_session (RSuccess 1 (Some (BString (service_id_to_string sample_id))))"
proof -
  obtain c where "identity_client_new toy_crypto (session_new 0 (quiet_stream [])) sample_id sample_name
      sample_key sample_x25519 = Ok (c :: adoc identity_client)" by (rule sample_client_Ok)
  then obtain sk where sk: "ed25519_private_from_private_x25519 toy_crypto sample_x25519 = Ok sk"
    by (auto simp: identity_client_new_def split: result.splits)
  have id: "service_id_from_string toy_crypto (service_id_to_string sample_id) = Ok sample_id"
    unfolding sample_id_def by (rule own_service_id(1) [OF toy_codec_laws toy_signature_laws sample_signing_key])
  show "\<exists>t. identity_client_update sample_bson toy_crypto [] answered_identity_client =
     (Ret (Ok (Some (IdC_HandshakeCompleted sample_id sample_id ''echo'' sample_x25519))), t)"
    using sk id
    by (simp add: answered_identity_client_def identity_client_new_def identity_client_update_def answered_session_update
        idc_advance_def idc_next_response_def client_next_response_def idc_finish_def
        sample_name_def)
  show "idc_inv answered_identity_client"
    using sk by (simp add: answered_identity_client_def identity_client_new_def idc_inv_def SERVER_COOKIE_SIZE_def is_some_def)
  show "idc_rpc answered_identity_client = answered_session (RSuccess 1 (Some (BString (service_id_to_string sample_id))))"
    using sk by (simp add: answered_identity_client_def identity_client_new_def)
qed

lemma answered_endpoint_client_completes:
  "\<exists>t. endpoint_client_update sample_bson toy_crypto [] answered_endpoint_client =
     (Ret (Ok (Some (EpC_HandshakeCompleted (quiet_stream [])))), t)"
  by (simp add: answered_endpoint_client_def endpoint_client_new_def endpoint_client_update_def answered_session_update
      epc_advance_def epc_next_response_def client_next_response_def epc_finish_def
      epc_response_def into_stream_def)

section \<open>A server that waits for its host\<close>

definition asked_server :: "adoc identity_server" where
  "asked_server = (identity_server_new (session_new 0 (quiet_stream [])) sample_id)\<lparr>
     ids_state := IdS_GettingChallenge, ids_begin_handshake_request_cookie := Some 0,
     ids_client_identity := Some sample_id, ids_requested_endpoint := Some sample_name \<rparr>"


end
