(* ===== verification/Sample_Context.thy ===== *)
theory Sample_Context
  imports Sample_Runs
begin

text \<open>
  A concrete run of the context: a provider that is bootstrapped at once, an endpoint whose
  listener accepts one client, and the handshake of that client up to its completion.
\<close>

section \<open>A provider and a context\<close>

text \<open>
  A provider that is bootstrapped at once and whose listeners accept one connection, of a client
  that sends the two requests of the endpoint handshake.
\<close>

definition channel_stream :: rw_stream where
  "channel_stream = quiet_stream (two_requests 0 (enc_doc (request_doc channel_begin)) 0 (enc_doc (request_doc channel_response)))"

definition sample_tor :: "unit tor_provider" where
  "sample_tor = \<lparr>
     tp_update = (\<lambda>u. (Ok [BootstrapComplete], u)),
     tp_bootstrap = (\<lambda>u. (Ok (), u)),
     tp_add_client_auth = (\<lambda>_ _ u. (Ok (), u)),
     tp_remove_client_auth = (\<lambda>_ u. (Ok (), u)),
     tp_connect = (\<lambda>target _ u. (Ok \<lparr> os_stream = quiet_stream [], os_local_addr = None, os_peer_addr = Some target \<rparr>, u)),
     tp_listener = (\<lambda>k port _ u. (Ok \<lparr> ol_listener = \<lparr> tl_accepts = [Ok channel_stream] \<rparr>,
        ol_onion_addr = V3 (onion_addr_v3_new (service_id_from_private_key toy_crypto k) port), ol_data = 0 \<rparr>, u)),
     tp_generate_token = (\<lambda>u. (0, u)),
     tp_release_token = (\<lambda>_ u. u),
     stream_set_nonblocking = (\<lambda>_. Ok ()),
     listener_set_nonblocking = (\<lambda>_. Ok ()) \<rparr>"

definition other_key :: ed25519_private_key where
  "other_key = \<lparr> expanded_keypair = replicate 64 2 \<rparr>"

lemma other_signing_key: "signing_key toy_crypto other_key"
  by (simp add: toy_signing_key other_key_def list_all_iff)

lemma sample_id_other: "sample_id \<noteq> service_id_from_private_key toy_crypto other_key"
proof
  assume "sample_id = service_id_from_private_key toy_crypto other_key"
  then have "ed25519_public_from_private_key toy_crypto sample_key = ed25519_public_from_private_key toy_crypto other_key"
    using own_service_id(2) [OF toy_codec_laws toy_signature_laws sample_signing_key]
      own_service_id(2) [OF toy_codec_laws toy_signature_laws other_signing_key] by (simp add: sample_id_def)
  then show False by (simp add: ed25519_public_from_private_key_def sample_key_def other_key_def toy_crypto_def)
qed

definition sample_context :: "(unit, adoc) gosling_context" where
  "sample_context = (case context_new toy_crypto () 1 2 (from_secs 60) 4096 None other_key of Ok c \<Rightarrow> c)"

definition sample_listener :: onion_listener where
  "sample_listener = \<lparr> ol_listener = \<lparr> tl_accepts = [] \<rparr>, ol_onion_addr = V3 (onion_addr_v3_new sample_id 2), ol_data = 0 \<rparr>"

text \<open>The context once its endpoint listens, with the given handshakes in progress.\<close>

definition listening :: "nat \<Rightarrow> tcp_listener \<Rightarrow> (nat, adoc endpoint_server) btree \<Rightarrow> (unit, adoc) gosling_context" where
  "listening n l m = sample_context\<lparr> ctx_bootstrap_complete := True, ctx_next_handshake_handle := n,
     ctx_endpoint_servers := m, ctx_endpoint_listeners := [(sample_id, \<lparr> el_endpoint_name = ''endpoint'',
       el_allowed_client = sample_id,
       el_listener = \<lparr> ol_listener = l, ol_onion_addr = V3 (onion_addr_v3_new sample_id 2), ol_data = 0 \<rparr>,
       el_published = False \<rparr>)] \<rparr>"

lemma sample_context_new: "context_new toy_crypto () 1 2 (from_secs 60) 4096 None other_key = Ok sample_context"
  by (simp add: sample_context_def context_new_def)

lemma sample_bootstrap:
  "context_update endpoint_bson toy_crypto sample_tor 0 r g sample_context =
     (Ret (Ok [TorBootstrapCompleted]), sample_context\<lparr> ctx_bootstrap_complete := True \<rparr>)"
  by (simp add: sample_context_def context_new_def context_update_def accept_identity_def accept_endpoints_def
      with_tor_def sample_tor_def action_defs update_identity_clients_def update_identity_servers_def
      update_endpoint_clients_def update_endpoint_servers_def)

lemma sample_start:
  "endpoint_server_start toy_crypto sample_tor sample_key ''endpoint'' sample_id auth
     (sample_context\<lparr> ctx_bootstrap_complete := True \<rparr>) =
     (Ret (Ok ()), listening 0 \<lparr> tl_accepts = [Ok channel_stream] \<rparr> [])"
  using sample_id_other
  by (simp add: sample_context_def context_new_def endpoint_server_start_def with_tor_def io_result_def sample_tor_def
      action_defs Let_def sample_id_def service_id_from_private_key_def listening_def)

definition channel_session :: "adoc session" where
  "channel_session = (session_new 0 channel_stream)\<lparr> max_wait_time := DEFAULT_ENDPOINT_TIMEOUT, max_message_size := 384 \<rparr>"

lemma channel_configured:
  "configured_session 0 DEFAULT_ENDPOINT_TIMEOUT DEFAULT_ENDPOINT_MAX_MESSAGE_SIZE channel_stream = Ret (Ok channel_session)"
  by (simp add: configured_session_def set_max_message_size_def set_max_wait_time_def DEFAULT_ENDPOINT_MAX_MESSAGE_SIZE_def
      MIN_MESSAGE_SIZE_value channel_session_def)

lemma sample_accept:
  assumes "endpoint_server_update endpoint_bson toy_crypto (endpoint_server_new channel_session sample_id sample_id) = 
     (Ret (Ok (Some (EpS_ChannelRequestReceived client channel))), s)"
  shows "context_update endpoint_bson toy_crypto sample_tor 0 r g (listening 0 \<lparr> tl_accepts = [Ok channel_stream] \<rparr> []) =
    (Ret (Ok [EndpointServerHandshakeStarted 0, TorBootstrapCompleted, EndpointServerChannelRequestReceived 0 client (ascii_value channel)]),
     listening 1 \<lparr> tl_accepts = [] \<rparr> [(0, s)])"
  using assms channel_configured
  by (simp add: listening_def sample_context_def context_new_def context_update_def accept_identity_def accept_endpoints_def
      with_tor_def sample_tor_def action_defs update_identity_clients_def update_identity_servers_def
      update_endpoint_clients_def update_endpoint_servers_def endpoint_server_handle_accept_def onion_accept_def tcp_accept_def
      onion_stream_into_def Let_def step_endpoint_server_def)
lemma sample_answer:
  assumes "handle_channel_request_received random v s = (Ret (Ok ()), t)"
  shows "endpoint_server_handle_channel_request_received random 0 v (listening 1 l [(0, s)]) = (Ret (Ok ()), listening 1 l [(0, t)])"
  using assms by (simp add: endpoint_server_handle_channel_request_received_def listening_def bt_get_def)

lemma sample_advance:
  assumes "step_endpoint_server endpoint_bson toy_crypto 0 s = (Ret (keep, evs), t)"
  shows "context_update endpoint_bson toy_crypto sample_tor 0 r g (listening 1 \<lparr> tl_accepts = [] \<rparr> [(0, s)]) =
    (Ret (Ok (TorBootstrapCompleted # evs)), listening 1 \<lparr> tl_accepts = [] \<rparr> (if keep then [(0, t)] else []))"
  using assms
  by (simp add: listening_def sample_context_def context_new_def context_update_def accept_identity_def accept_endpoints_def
      with_tor_def sample_tor_def action_defs update_identity_clients_def update_identity_servers_def
      update_endpoint_clients_def update_endpoint_servers_def endpoint_server_handle_accept_def onion_accept_def tcp_accept_def
      Let_def)

lemma channel_session_at: "session_at B 384 DEFAULT_ENDPOINT_TIMEOUT 0
    (two_requests 0 (enc_doc (request_doc channel_begin)) 0 (enc_doc (request_doc channel_response))) channel_session"
  using session_new_at [of B "two_requests 0 (enc_doc (request_doc channel_begin)) 0 (enc_doc (request_doc channel_response))"]
  by (simp add: session_at_def at_rest_def channel_session_def channel_stream_def MIN_MESSAGE_SIZE_value)

lemma channel_arrivals_384:
  "arrives endpoint_bson (enc_doc (request_doc channel_begin)) 384
     (client_request ''gosling_endpoint'' ''begin_handshake'' (channel_handshake_args endpoint_bson sample_endpoint_client) 0)"
  "arrives endpoint_bson (enc_doc (request_doc channel_response)) 384
     (client_request ''gosling_endpoint'' ''send_response''
       (channel_response_args endpoint_bson toy_crypto (replicate 32 7) (replicate 32 5) sample_endpoint_client) 1)"
  using channel_arrivals channel_request_sizes by (auto simp: arrives_def)

text \<open>The whole run: bootstrap, start of the endpoint, and a handshake that completes.\<close>

lemma sample_context_run:
  "\<exists>log c st. context_runs endpoint_bson toy_crypto sample_tor {(sample_id, sample_id)} log c \<and>
     EndpointServerHandshakeCompleted 0 sample_id sample_id ''echo'' st \<in> set log"
proof -
  obtain s1 s2 s3 s4 st where
    1: "endpoint_server_update endpoint_bson toy_crypto (endpoint_server_new channel_session sample_id sample_id) =
      (Ret (Ok (Some (EpS_ChannelRequestReceived sample_id sample_name))), s1)" and
    2: "handle_channel_request_received (replicate 32 5) True s1 = (Ret (Ok ()), s2)" and
    3: "endpoint_server_update endpoint_bson toy_crypto s2 = (Ret (Ok None), s3)" and
    4: "endpoint_server_update endpoint_bson toy_crypto s3 = (Ret (Ok (Some (EpS_HandshakeCompleted sample_id sample_name st))), s4)"
    using endpoint_run [OF alist_bson_laws alist_bson_size_laws toy_codec_laws toy_signature_laws sample_endpoint_client_def
      sample_signing_key sample_name_ascii _ sample_cookie _ channel_arrivals_384 channel_session_at]
    unfolding sample_id_def [symmetric] by fastforce
  let ?R = "context_runs endpoint_bson toy_crypto sample_tor"
  let ?l = "\<lparr> tl_accepts = [] \<rparr>"
  let ?g = "\<lambda>_ :: nat. sample_key"
  have reg: "registered toy_crypto sample_key sample_id = (sample_id, sample_id)"
    by (simp add: registered_def sample_id_def service_id_from_private_key_def)
  have r1: "?R {} [TorBootstrapCompleted] (sample_context\<lparr> ctx_bootstrap_complete := True \<rparr>)"
    using context_runs_update [OF context_runs_new [OF sample_context_new] sample_signing_key sample_bootstrap] by simp
  have r2: "?R {(sample_id, sample_id)} [TorBootstrapCompleted] (listening 0 \<lparr> tl_accepts = [Ok channel_stream] \<rparr> [])"
    using context_runs_start [OF r1 sample_start] by (simp add: reg)
  obtain log1 where "?R {(sample_id, sample_id)} log1 (listening 1 ?l [(0, s1)])"
    using context_runs_update [OF r2 sample_signing_key sample_accept [OF 1]] by blast
  from context_runs_call [OF this context_call.intros(15) [OF sample_answer [OF 2]]]
  have r3: "?R {(sample_id, sample_id)} log1 (listening 1 ?l [(0, s2)])" .
  have "step_endpoint_server endpoint_bson toy_crypto 0 s2 = (Ret (True, []), s3)" using 3 by (simp add: step_endpoint_server_def)
  from context_runs_update [OF r3 sample_signing_key sample_advance [OF this]]
  obtain log2 where r4: "?R {(sample_id, sample_id)} log2 (listening 1 ?l [(0, s3)])" by auto
  have "eps_server_identity s4 = sample_id"
    using endpoint_server_update_server [OF 1] endpoint_server_update_server [OF 3] endpoint_server_update_server [OF 4] 2
    by (auto simp: endpoint_server_new_def handle_channel_request_received_def split: if_splits)
  then have "step_endpoint_server endpoint_bson toy_crypto 0 s3 =
      (Ret (False, [EndpointServerHandshakeCompleted 0 sample_id sample_id ''echo'' st]), s4)"
    using 4 by (simp add: step_endpoint_server_def sample_name_def)
  from context_runs_update [OF r4 sample_signing_key sample_advance [OF this]] show ?thesis by fastforce
qed

end
