(* ===== verification/Provider_Host.thy ===== *)
theory Provider_Host
  imports Tor_Provider "HOL-Library.Multiset"
begin

text \<open>
  What the providers share: the answers of the operating system to \<open>bind\<close> and \<open>connect\<close>, which are a
  parameter, the standard \<open>swap_remove\<close> of their lists of onion services, and what an update
  promises about these services.
\<close>

record sys_ops =
  sys_bind :: "(tcp_listener, io_error_kind) result"
  sys_local_addr :: "tcp_listener \<Rightarrow> (socket_addr, io_error_kind) result"
  sys_connect :: "socket_addr \<Rightarrow> (rw_stream, io_error_kind) result"

text \<open>\<open>swap_remove(i)\<close>: the last element takes the place of the removed one.\<close>

definition swap_remove :: "nat \<Rightarrow> 'a list \<Rightarrow> 'a list" where
  "swap_remove i xs = (if i = length xs - 1 then butlast xs else (butlast xs)[i := last xs])"

lemma length_swap_remove [simp]: "i < length xs \<Longrightarrow> length (swap_remove i xs) = length xs - 1"
  by (simp add: swap_remove_def)

lemma swap_remove_mset:
  assumes "i < length xs"
  shows "mset xs = add_mset (xs ! i) (mset (swap_remove i xs))"
proof -
  have ne: "xs \<noteq> []" using assms by auto
  then have ms: "mset xs = add_mset (last xs) (mset (butlast xs))"
    by (metis add_mset_add_single append_butlast_last_id mset.simps(1,2) mset_append)
  show ?thesis
  proof (cases "i = length xs - 1")
    case True
    then have "xs ! i = last xs" using ne by (simp add: last_conv_nth)
    with ms True show ?thesis by (simp add: swap_remove_def)
  next
    case False
    with assms have j: "i < length (butlast xs)" by simp
    then have eq: "butlast xs ! i = xs ! i" by (simp add: nth_butlast)
    have "xs ! i \<in># mset (butlast xs)" using j eq nth_mem [OF j] by simp
    with j False ms eq show ?thesis by (simp add: swap_remove_def mset_update)
  qed
qed

lemma swap_remove_before: "j < i \<Longrightarrow> i < length xs \<Longrightarrow> swap_remove i xs ! j = xs ! j"
  by (auto simp: swap_remove_def nth_butlast)


section \<open>Onion services of a provider\<close>

text \<open>
  A provider keeps a list of its onion services, each with the flag of its listener. Dropping a listener
  lowers its flag, and a successful update keeps exactly the services whose flag is up.
\<close>

locale service_keeper =
  fixes services :: "'s \<Rightarrow> ('a \<times> nat) list"
    and active :: "'s \<Rightarrow> nat \<Rightarrow> bool"
    and drop_listener :: "onion_listener \<Rightarrow> 's \<Rightarrow> 's"
    and updated :: "'s \<Rightarrow> 's \<Rightarrow> bool"
  assumes updated_services: "updated s t \<Longrightarrow> mset (services t) = filter_mset (\<lambda>e. active s (snd e)) (mset (services s))"
    and drop_active: "active (drop_listener l s) = (active s)(ol_data l := False)"
    and drop_services: "services (drop_listener l s) = services s"
begin

lemma updated_set: "updated s t \<Longrightarrow> set (services t) = {e \<in> set (services s). active s (snd e)}"
  using arg_cong [OF updated_services, of s t set_mset] by simp

lemma dropped_gone: "updated (drop_listener l s) t \<Longrightarrow> (a, ol_data l) \<notin> set (services t)"
  by (simp add: updated_set drop_active)

lemma others_kept:
  "updated (drop_listener l s) t \<Longrightarrow> (a, f) \<in> set (services s) \<Longrightarrow> active s f \<Longrightarrow> f \<noteq> ol_data l \<Longrightarrow> (a, f) \<in> set (services t)"
  by (simp add: updated_set drop_active drop_services)

lemma quiet_update: "updated s t \<Longrightarrow> \<forall>e\<in>set (services s). active s (snd e) \<Longrightarrow> mset (services t) = mset (services s)"
  using updated_services by (simp add: filter_mset_eq_conv)

end

end
