(* ===== verification/Tor_Addresses.thy ===== *)
theory Tor_Addresses
  imports Provider_Host
begin

text \<open>
  Reading and printing addresses (\<open>tor-interface/src/tor_provider.rs\<close>). The regular expressions, the
  \<open>idna\<close> and \<open>domain\<close> crates and Unicode lower case are parameters; \<open>address_laws\<close> states what the two
  patterns match on a text of one line and what lower case does to ASCII.
\<close>

record address_ops =
  rx_onion_service :: "string \<Rightarrow> (string \<times> string) option"
  rx_domain :: "string \<Rightarrow> (string \<times> string) option"
  to_lowercase :: "string \<Rightarrow> string"
  domain_to_ascii :: "string \<Rightarrow> string option"
  name_from_str :: "string \<Rightarrow> string option"
  to_user_interface :: "string \<Rightarrow> string"

section \<open>Reading\<close>

definition parse_u16 :: "string \<Rightarrow> u16 option" where
  "parse_u16 s = map_option of_nat (parse_unsigned 16 s)"

definition onion_addr_from_str :: "crypto_ops \<Rightarrow> address_ops \<Rightarrow> string \<Rightarrow> (onion_addr, tor_error) result" where
  "onion_addr_from_str C A s = (case rx_onion_service A (to_lowercase A s) of
      Some (service_id, port) \<Rightarrow>
        (case (service_id_from_string C (to_lowercase A service_id), parse_u16 port) of
           (Ok service_id, Some port) \<Rightarrow> Ok (V3 (onion_addr_v3_new service_id port))
         | _ \<Rightarrow> Err (ParseFailure s ''OnionAddr''))
    | None \<Rightarrow> Err (ParseFailure s ''OnionAddr''))"

definition onion_addr_fmt :: "onion_addr \<Rightarrow> string" where
  "onion_addr_fmt a = (case a of V3 a \<Rightarrow> onion_addr_v3_fmt a)"

definition domain_addr_fmt :: "address_ops \<Rightarrow> domain_addr \<Rightarrow> string" where
  "domain_addr_fmt A d = to_user_interface A (da_domain d) @ '':'' @ decimal (unat (da_port d))"

definition domain_addr_try_from :: "address_ops \<Rightarrow> string \<times> u16 \<Rightarrow> (domain_addr, tor_error) result" where
  "domain_addr_try_from A value = (case value of (domain, port) \<Rightarrow>
     (let failure = Err (ParseFailure (domain @ '':'' @ decimal (unat port)) ''DomainAddr'') in
      case domain_to_ascii A domain of
        None \<Rightarrow> failure
      | Some ascii \<Rightarrow>
          (case name_from_str A ascii of
             None \<Rightarrow> failure
           | Some name \<Rightarrow> if \<not> ends_with name ''.onion'' then Ok \<lparr> da_domain = name, da_port = port \<rparr> else failure)))"

definition domain_addr_from_str :: "address_ops \<Rightarrow> string \<Rightarrow> (domain_addr, tor_error) result" where
  "domain_addr_from_str A s = (case rx_domain A s of
      Some (domain, port) \<Rightarrow>
        (case parse_u16 port of
           Some port \<Rightarrow> domain_addr_try_from A (domain, port)
         | None \<Rightarrow> Err (ParseFailure s ''DomainAddr''))
    | None \<Rightarrow> Err (ParseFailure s ''DomainAddr''))"

definition target_addr_from_str :: "crypto_ops \<Rightarrow> text_ops \<Rightarrow> address_ops \<Rightarrow> string \<Rightarrow> (target_addr, tor_error) result" where
  "target_addr_from_str C X A s = (case socket_addr_from_str X s of
      Some a \<Rightarrow> Ok (SocketTarget a)
    | None \<Rightarrow>
        (case onion_addr_from_str C A s of
           Ok a \<Rightarrow> Ok (OnionService a)
         | Err _ \<Rightarrow>
             (case domain_addr_from_str A s of
                Ok d \<Rightarrow> Ok (Domain d)
              | Err _ \<Rightarrow> Err (ParseFailure s ''TargetAddr''))))"

definition target_addr_fmt :: "address_ops \<Rightarrow> target_addr \<Rightarrow> string" where
  "target_addr_fmt A t = (case t of
      SocketTarget a \<Rightarrow> socket_addr_fmt a
    | OnionService a \<Rightarrow> onion_addr_fmt a
    | Domain d \<Rightarrow> domain_addr_fmt A d)"

section \<open>Patterns\<close>

definition base32_char :: "char \<Rightarrow> bool" where
  "base32_char c \<longleftrightarrow> (let n = of_char c :: nat in (97 \<le> n \<and> n \<le> 122) \<or> (50 \<le> n \<and> n \<le> 55))"

definition port_text :: "string \<Rightarrow> bool" where
  "port_text p \<longleftrightarrow> p \<noteq> [] \<and> length p \<le> 5 \<and> list_all is_digit p \<and> hd p \<noteq> CHR ''0''"

definition onion_service_text :: "string \<Rightarrow> (string \<times> string) option" where
  "onion_service_text s =
     (if 63 \<le> length s \<and> list_all base32_char (take 56 s) \<and> take 7 (drop 56 s) = ''.onion:'' \<and> port_text (drop 63 s)
      then Some (take 56 s, drop 63 s) else None)"

definition lower_ascii :: "char \<Rightarrow> char" where
  "lower_ascii c = (let n = of_char c :: nat in if 65 \<le> n \<and> n \<le> 90 then char_of (n + 32) else c)"

definition address_laws :: "address_ops \<Rightarrow> bool" where
  "address_laws A \<longleftrightarrow>
     (\<forall>s. CHR 10 \<notin> set s \<longrightarrow> rx_onion_service A s = onion_service_text s) \<and>
     (\<forall>s. list_all (\<lambda>c. (of_char c :: nat) < 128) s \<longrightarrow> to_lowercase A s = map lower_ascii s)"

section \<open>Properties\<close>

lemma decimal_hd: "0 < n \<Longrightarrow> hd (decimal n) \<noteq> CHR ''0''"
proof (induction n rule: decimal.induct)
  case (1 n)
  show ?case
  proof (cases "n < 10")
    case True
    have "(of_char (CHR ''0'') :: nat) = 48" by simp
    with "1.prems" digit_char [OF True] have "char_of (n + 48) \<noteq> CHR ''0''" by (metis add_cancel_left_left less_numeral_extra(3))
    with True show ?thesis by (subst decimal.simps) simp
  next
    case False
    with 1 have "hd (decimal (n div 10)) \<noteq> CHR ''0''" by auto
    with False show ?thesis by (subst decimal.simps) (simp add: decimal_digits(2))
  qed
qed


lemma length_decimal: "n < 10 ^ k \<Longrightarrow> 0 < k \<Longrightarrow> length (decimal n) \<le> k"
proof (induction n arbitrary: k rule: decimal.induct)
  case (1 n)
  show ?case
  proof (cases "n < 10")
    case True
    with "1.prems" show ?thesis by (subst decimal.simps) simp
  next
    case False
    with "1.prems" obtain m where m: "k = Suc m" "0 < m" by (cases k; cases "k - 1") auto
    with "1.prems" have "n div 10 < 10 ^ m" by (simp add: less_mult_imp_div_less mult.commute)
    with 1(1) [OF False] m False show ?thesis by (subst decimal.simps) simp
  qed
qed

lemma unat_u16: "unat (p :: u16) < 2 ^ 16"
proof -
  have "unat p < 2 ^ LENGTH(16)" by (rule unsigned_less)
  then show ?thesis by simp
qed

lemma port_text_decimal: "p \<noteq> 0 \<Longrightarrow> port_text (decimal (unat (p :: u16)))"
proof -
  assume "p \<noteq> 0"
  then have "0 < unat p" by (simp add: unat_gt_0)
  moreover have "unat p < 10 ^ 5" using unat_u16 [of p] by simp
  ultimately show ?thesis
    using length_decimal [of "unat p" 5] decimal_hd decimal_digits by (simp add: port_text_def)
qed

lemma parse_u16_decimal: "parse_u16 (decimal (unat p)) = Some p"
  using parse_decimal [of "unat p" 16] unat_u16 [of p] by (simp add: parse_u16_def)

definition lower_text :: "string \<Rightarrow> bool" where
  "lower_text s \<longleftrightarrow> list_all (\<lambda>c. let n = of_char c :: nat in n < 128 \<and> n \<noteq> 10 \<and> \<not> (65 \<le> n \<and> n \<le> 90)) s"

lemma lower_text_lowercase: "address_laws A \<Longrightarrow> lower_text s \<Longrightarrow> to_lowercase A s = s"
proof -
  assume "address_laws A" "lower_text s"
  then have "to_lowercase A s = map lower_ascii s" by (auto simp: address_laws_def lower_text_def list_all_iff Let_def)
  also have "\<dots> = map id s" using \<open>lower_text s\<close>
    by (intro map_cong refl) (auto simp: lower_text_def list_all_iff lower_ascii_def Let_def)
  finally show ?thesis by simp
qed

lemma lower_text_line: "lower_text s \<Longrightarrow> CHR 10 \<notin> set s"
  by (auto simp: lower_text_def list_all_iff Let_def)

lemma onion_text_lower: "list_all base32_char sid \<Longrightarrow> lower_text (sid @ ''.onion:'' @ decimal n)"
  using decimal_digits(1) [of n] by (auto simp: lower_text_def list_all_iff base32_char_def is_digit_def Let_def)

lemma onion_addr_reads_back:
  assumes A: "address_laws A" and sid: "service_id_from_string C (service_id_to_string sid) = Ok sid"
    "length (service_id_to_string sid) = 56" "list_all base32_char (service_id_to_string sid)" and port: "port \<noteq> 0"
  shows "onion_addr_from_str C A (onion_addr_fmt (V3 (onion_addr_v3_new sid port))) = Ok (V3 (onion_addr_v3_new sid port))"
proof -
  let ?s = "service_id_to_string sid" and ?p = "decimal (unat port)"
  let ?t = "?s @ ''.onion:'' @ ?p"
  have fmt: "onion_addr_fmt (V3 (onion_addr_v3_new sid port)) = ?t"
    by (simp add: onion_addr_fmt_def onion_addr_v3_fmt_def onion_addr_v3_new_def)
  have low: "lower_text ?t" "lower_text ?s"
    using onion_text_lower [OF sid(3)] by (simp_all add: lower_text_def)
  have "rx_onion_service A ?t = onion_service_text ?t"
    using A lower_text_line [OF low(1)] by (simp add: address_laws_def del: append.simps)
  also have "\<dots> = Some (?s, ?p)"
    using sid(2, 3) port_text_decimal [OF port] by (simp add: onion_service_text_def)
  finally show ?thesis
    unfolding fmt onion_addr_from_str_def lower_text_lowercase [OF A low(1)]
    using lower_text_lowercase [OF A low(2)] sid(1) parse_u16_decimal [of port] by (simp del: append.simps)
qed

text \<open>A domain address is never that of an onion service.\<close>

lemma domain_addr_not_onion: "domain_addr_from_str A s = Ok d \<Longrightarrow> \<not> ends_with (da_domain d) ''.onion''"
  by (auto simp: domain_addr_from_str_def domain_addr_try_from_def Let_def split: option.splits if_splits prod.splits)

lemma target_addr_reads_back:
  assumes "address_laws A" "service_id_from_string C (service_id_to_string sid) = Ok sid"
    "length (service_id_to_string sid) = 56" "list_all base32_char (service_id_to_string sid)" "port \<noteq> 0"
    "socket_addr_from_str X (target_addr_fmt A (target_addr_from (sid, port))) = None"
  shows "target_addr_from_str C X A (target_addr_fmt A (target_addr_from (sid, port))) = Ok (target_addr_from (sid, port))"
  using onion_addr_reads_back [OF assms(1-5)] assms(6) by (simp add: target_addr_from_str_def target_addr_from_def target_addr_fmt_def)

end
