(* ===== verification/Control_Stream.thy ===== *)
theory Control_Stream
  imports Net_Address Honk_Session
begin

text \<open>
  The stream of the control port (\<open>tor-interface/src/legacy_tor_control_stream.rs\<close>): bytes are
  cut into lines and lines into replies. A call of \<open>read_to_end\<close> appends the bytes that arrive
  and ends with the end of the stream or an error; the socket is the list of these results, and
  times out when none is left. Likewise each \<open>write_all\<close> has a scripted failure, with the number of
  bytes that were sent before it, and succeeds when the script has ended. The three patterns are
  parameters of the model like those of \<open>Net_Address\<close>.
\<close>

section \<open>Strings as UTF-8\<close>

definition continuation :: "byte \<Rightarrow> bool" where
  "continuation b \<longleftrightarrow> 128 \<le> b \<and> b \<le> 191"

fun utf8_valid :: "bytes \<Rightarrow> bool" where
  "utf8_valid [] = True"
| "utf8_valid (b # bs) =
     (if b < 128 then utf8_valid bs
      else if 194 \<le> b \<and> b \<le> 223 then (case bs of c # r \<Rightarrow> continuation c \<and> utf8_valid r | _ \<Rightarrow> False)
      else if 224 \<le> b \<and> b \<le> 239 then (case bs of
          c # d # r \<Rightarrow> continuation c \<and> (b = 224 \<longrightarrow> 160 \<le> c) \<and> (b = 237 \<longrightarrow> c \<le> 159) \<and> continuation d \<and> utf8_valid r
        | _ \<Rightarrow> False)
      else if 240 \<le> b \<and> b \<le> 244 then (case bs of
          c # d # e # r \<Rightarrow> continuation c \<and> (b = 240 \<longrightarrow> 144 \<le> c) \<and> (b = 244 \<longrightarrow> c \<le> 143) \<and>
            continuation d \<and> continuation e \<and> utf8_valid r
        | _ \<Rightarrow> False)
      else False)"

text \<open>Slices of a string: out of range or inside a character they panic.\<close>

definition is_char_boundary :: "string \<Rightarrow> nat \<Rightarrow> bool" where
  "is_char_boundary s i \<longleftrightarrow> i = 0 \<or> i = length s \<or> (i < length s \<and> \<not> continuation (of_char (s ! i)))"

definition str_slice :: "string \<Rightarrow> nat \<Rightarrow> nat \<Rightarrow> string outcome" where
  "str_slice s a b = (if a \<le> b \<and> is_char_boundary s a \<and> is_char_boundary s b then Ret (take (b - a) (drop a s)) else Panic)"

section \<open>The stream\<close>

datatype control_error =
    ReadTimeoutZero
  | CreationFailed io_error_kind
  | ConfigurationFailed io_error_kind
  | ParsingRegexCreationFailed
  | ReadFailed io_error_kind
  | ClosedByRemote
  | InvalidResponse
  | ReplyParseFailed string
  | WriteFailed io_error_kind

record control_patterns =
  single_line_data :: "string \<Rightarrow> bool"
  multi_line_data :: "string \<Rightarrow> bool"
  end_reply_line :: "string \<Rightarrow> bool"

record control_socket =
  cs_reads :: "(bytes \<times> io_error_kind option) list"
  cs_writes :: "(nat \<times> io_error_kind) option list"
  cs_written :: bytes

record control_stream =
  stream :: control_socket
  closed_by_remote :: bool
  pending_data :: bytes
  pending_lines :: "string list"
  pending_reply :: "string list"
  reading_multiline_value :: bool

record reply =
  status_code :: "32 word"
  reply_lines :: "string list"

definition control_stream_new ::
  "nat \<Rightarrow> (control_socket, io_error_kind) result \<Rightarrow> (unit, io_error_kind) result \<Rightarrow> (control_stream, control_error) result" where
  "control_stream_new read_timeout connected configured =
     (if read_timeout = 0 then Err ReadTimeoutZero
      else case connected of Err k \<Rightarrow> Err (CreationFailed k) | Ok skt \<Rightarrow>
        (case configured of Err k \<Rightarrow> Err (ConfigurationFailed k) | Ok _ \<Rightarrow>
           Ok \<lparr> stream = skt, closed_by_remote = False, pending_data = [], pending_lines = [],
                pending_reply = [], reading_multiline_value = False \<rparr>))"

definition read_to_end :: "control_stream \<Rightarrow> (nat, io_error_kind) result \<times> control_stream" where
  "read_to_end s = (case cs_reads (stream s) of
      [] \<Rightarrow> (Err TimedOut, s)
    | (bs, r) # rs \<Rightarrow>
        ((case r of None \<Rightarrow> Ok (length bs) | Some k \<Rightarrow> Err k),
         s\<lparr> stream := (stream s)\<lparr> cs_reads := rs \<rparr>, pending_data := pending_data s @ bs \<rparr>))"

definition write_all :: "bytes \<Rightarrow> control_socket \<Rightarrow> (unit, io_error_kind) result \<times> control_socket" where
  "write_all bs k = (case cs_writes k of
      Some (n, e) # ws \<Rightarrow> (Err e, k\<lparr> cs_writes := ws, cs_written := cs_written k @ take n bs \<rparr>)
    | None # ws \<Rightarrow> (Ok (), k\<lparr> cs_writes := ws, cs_written := cs_written k @ bs \<rparr>)
    | [] \<Rightarrow> (Ok (), k\<lparr> cs_written := cs_written k @ bs \<rparr>))"

section \<open>Lines\<close>

text \<open>
  One read of \<open>read_line\<close>: \<open>Ok False\<close> when nothing arrived in time, \<open>Ok True\<close> when the buffer is to
  be split.
\<close>

definition receive :: "control_stream \<Rightarrow> (bool, control_error) result \<times> control_stream" where
  "receive s = (case read_to_end s of (r, t) \<Rightarrow>
     (case r of
        Err k \<Rightarrow>
          if k = WouldBlock \<or> k = TimedOut
          then (Ok (length (pending_data s) \<noteq> length (pending_data t)), t)
          else (Err (ReadFailed k), t)
      | Ok n \<Rightarrow> if n = 0 then (Err ClosedByRemote, t\<lparr> closed_by_remote := True \<rparr>) else (Ok True, t)))"

text \<open>The scan for line ends: the index, the beginning of the current line and the lines found.\<close>

function scan_lines :: "bytes \<Rightarrow> nat \<Rightarrow> nat \<Rightarrow> string list \<Rightarrow> (nat, control_error) result \<times> string list" where
  "scan_lines data index begin_at lines =
     (if index < length data then
        (if data ! (index - 1) = 13 \<and> data ! index = 10 then
           let end_at = index - 1; line_view = take (end_at - begin_at) (drop begin_at data) in
           if utf8_valid line_view then scan_lines data (index + 1) (end_at + 2) (lines @ [from_bytes line_view])
           else (Err InvalidResponse, lines)
         else scan_lines data (index + 1) begin_at lines)
      else (Ok begin_at, lines))"
  by pat_completeness auto
termination
  by (relation "measure (\<lambda>(data, index, begin_at, lines). length data - index)") auto

declare scan_lines.simps [simp del]

definition split_lines :: "control_stream \<Rightarrow> (unit, control_error) result \<times> control_stream" where
  "split_lines s = (case scan_lines (pending_data s) 1 0 (pending_lines s) of
      (Err e, ls) \<Rightarrow> (Err e, s\<lparr> pending_lines := ls \<rparr>)
    | (Ok n, ls) \<Rightarrow> (Ok (), s\<lparr> pending_lines := ls, pending_data := drop n (pending_data s) \<rparr>))"

lemma receive_more: "receive s = (Ok True, t) \<Longrightarrow> length (cs_reads (stream t)) < length (cs_reads (stream s))"
  by (auto simp: receive_def read_to_end_def split: list.splits prod.splits option.splits if_splits)

lemma split_lines_stream: "stream (snd (split_lines s)) = stream s"
  by (simp add: split_lines_def split: prod.split result.split)

function read_line :: "control_stream \<Rightarrow> (string option, control_error) result \<times> control_stream" where
  "read_line s =
     (case pending_lines s of
        l # ls \<Rightarrow> (Ok (Some l), s\<lparr> pending_lines := ls \<rparr>)
      | [] \<Rightarrow>
          (case receive s of
             (Err e, t) \<Rightarrow> (Err e, t)
           | (Ok False, t) \<Rightarrow> (Ok None, t)
           | (Ok True, t) \<Rightarrow>
               (case split_lines t of
                  (Err e, u) \<Rightarrow> (Err e, u)
                | (Ok _, u) \<Rightarrow> read_line u)))"
  by pat_completeness auto
termination
proof (relation "measure (\<lambda>s. length (cs_reads (stream s)))", goal_cases)
  case (2 s r t b more p u)
  then show ?case using receive_more [of s t] split_lines_stream [of t] by (auto dest: sym)
qed simp

declare read_line.simps [simp del]

section \<open>Replies\<close>

definition slice :: "string \<Rightarrow> nat \<Rightarrow> nat \<Rightarrow> ('s, string) action" where
  "slice line a b s = (str_slice line a b, s)"

text \<open>The status code of a line has to be that of the first line of the reply.\<close>

definition same_status :: "string \<Rightarrow> (control_stream, (unit, control_error) result) action" where
  "same_status current_line s = (case pending_reply s of
      [] \<Rightarrow> ret (Ok ()) s
    | first_line # _ \<Rightarrow>
        if reading_multiline_value s then ret (Ok ()) s
        else andthen (slice first_line 0 3) (\<lambda>first_status_code.
          andthen (slice current_line 0 3) (\<lambda>current_status_code.
            if first_status_code \<noteq> current_status_code
            then ret (Err (ReplyParseFailed (''mismatched status codes, '' @ first_status_code @ '' != '' @ current_status_code)))
            else ret (Ok ()))) s)"

text \<open>What a line is; \<open>Ok True\<close> at the end of a reply.\<close>

definition sort_line :: "control_patterns \<Rightarrow> string \<Rightarrow> (control_stream, (bool, control_error) result) action" where
  "sort_line P current_line s =
     (if end_reply_line P current_line then
        if reading_multiline_value s
        then ret (Err (ReplyParseFailed ''found multi-line end reply but not reading a multi-line reply'')) s
        else ret (Ok True) (s\<lparr> pending_reply := pending_reply s @ [current_line] \<rparr>)
      else if single_line_data P current_line then
        if reading_multiline_value s
        then ret (Err (ReplyParseFailed ''found single-line reply but still reading a multi-line reply'')) s
        else ret (Ok False) (s\<lparr> pending_reply := pending_reply s @ [current_line] \<rparr>)
      else if multi_line_data P current_line then
        if reading_multiline_value s
        then ret (Err (ReplyParseFailed ''found multi-line start reply but still reading a multi-line reply'')) s
        else ret (Ok False) (s\<lparr> pending_reply := pending_reply s @ [current_line], reading_multiline_value := True \<rparr>)
      else if \<not> reading_multiline_value s
        then ret (Err (ReplyParseFailed ''found a multi-line intermediate reply but not reading a multi-line reply'')) s
      else if current_line = ''.'' then ret (Ok False) (s\<lparr> reading_multiline_value := False \<rparr>)
      else if pending_reply s = [] then panic s
      else ret (Ok False) (s\<lparr> pending_reply :=
        butlast (pending_reply s) @ [last (pending_reply s) @ CHR 10 # current_line] \<rparr>))"

definition reply_line :: "control_patterns \<Rightarrow> string \<Rightarrow> (control_stream, (bool, control_error) result) action" where
  "reply_line P current_line = try_then (same_status current_line) (\<lambda>_. sort_line P current_line)"

text \<open>The loop ends: every line takes bytes of the socket or of the buffers.\<close>

definition line_weight :: "string list \<Rightarrow> nat" where
  "line_weight ls = sum_list (map (\<lambda>l. length l + 1) ls)"

definition stream_weight :: "control_stream \<Rightarrow> nat" where
  "stream_weight s = sum_list (map (\<lambda>r. length (fst r)) (cs_reads (stream s))) + length (pending_data s) + line_weight (pending_lines s)"

lemma scan_lines_weight:
  "scan_lines data i b ls = (Ok n, ls') \<Longrightarrow> b \<le> i \<Longrightarrow> b \<le> length data \<Longrightarrow>
   n \<le> length data \<and> line_weight ls' + b \<le> line_weight ls + n"
proof (induction data i b ls arbitrary: n ls' rule: scan_lines.induct)
  case (1 data i b ls)
  note facts = "1.prems" "1.IH"
  show ?case
  proof (cases "i < length data \<and> data ! (i - 1) = 13 \<and> data ! i = 10")
    case True
    let ?l = "take (i - 1 - b) (drop b data)"
    from True facts(1) have u: "utf8_valid ?l"
      by (subst (asm) scan_lines.simps) (simp add: Let_def split: if_splits)
    with True facts(1) have "scan_lines data (i + 1) (i - 1 + 2) (ls @ [from_bytes ?l]) = (Ok n, ls')"
      by (subst (asm) scan_lines.simps) (simp add: Let_def)
    then show ?thesis using facts(2, 3) facts(4) [of "i - 1" ?l n ls'] True u
      by (cases i) (auto simp: line_weight_def from_bytes_def)
  next
    case False
    show ?thesis
    proof (cases "i < length data")
      case True
      with False have "scan_lines data i b ls = scan_lines data (i + 1) b ls"
        by (subst scan_lines.simps) auto
      with facts(1-3) True False show ?thesis using facts(5) [of n ls'] by auto
    next
      case False
      with facts(1) have "n = b" "ls' = ls" by (simp_all add: scan_lines.simps [of data i])
      with facts(3) show ?thesis by simp
    qed
  qed
qed

lemma split_lines_weight: "split_lines s = (Ok u, t) \<Longrightarrow> stream_weight t \<le> stream_weight s"
  using scan_lines_weight [of "pending_data s" 1 0 "pending_lines s"]
  by (fastforce simp: split_lines_def stream_weight_def split: prod.splits result.splits)

lemma receive_weight: "receive s = (r, t) \<Longrightarrow> stream_weight t = stream_weight s"
  by (auto simp: receive_def read_to_end_def stream_weight_def split: list.splits prod.splits option.splits if_splits)

lemma read_line_weight: "read_line s = (Ok (Some l), t) \<Longrightarrow> stream_weight t < stream_weight s"
proof (induction s rule: read_line.induct)
  case (1 s)
  show ?case
  proof (cases "pending_lines s")
    case Nil
    with "1.prems" obtain u v where u: "receive s = (Ok True, u)" "split_lines u = (Ok (), v)" "read_line v = (Ok (Some l), t)"
      by (subst (asm) read_line.simps) (auto split: prod.splits result.splits bool.splits)
    with "1.IH" Nil have "stream_weight t < stream_weight v" by auto
    with u split_lines_weight receive_weight show ?thesis by fastforce
  next
    case (Cons a ls)
    with "1.prems" show ?thesis by (subst (asm) read_line.simps) (auto simp: stream_weight_def line_weight_def)
  qed
qed

lemma reply_line_weight: "stream_weight (snd (reply_line P l s)) = stream_weight s"
proof -
  have "keeps (\<lambda>t. stream_weight t = w) (reply_line P l)" for w
    unfolding reply_line_def same_status_def sort_line_def
    by (intro keeps_intros keepsI) (auto simp: action_defs slice_def stream_weight_def split: list.splits outcome.splits)
  then show ?thesis by (auto simp: keeps_def)
qed

function reply_loop :: "control_patterns \<Rightarrow> (control_stream, (bool, control_error) result) action" where
  "reply_loop P s =
     (case read_line s of
        (Err e, t) \<Rightarrow> (Ret (Err e), t)
      | (Ok None, t) \<Rightarrow> (Ret (Ok False), t)
      | (Ok (Some current_line), t) \<Rightarrow>
          (case reply_line P current_line t of
             (Ret (Ok False), u) \<Rightarrow> reply_loop P u
           | r \<Rightarrow> r))"
  by pat_completeness auto
termination
proof (relation "measure (\<lambda>(P, s). stream_weight s)", goal_cases)
  case (2 P s r t r' l p u)
  from 2(4) have "snd (reply_line P l t) = u" by (metis snd_conv)
  with 2(1-3) show ?case using read_line_weight [of s l t] reply_line_weight [of P l t] by simp
qed simp

declare reply_loop.simps [simp del]

text \<open>The lines of a complete reply lose the status code and the character after it.\<close>

fun strip_codes :: "string \<Rightarrow> string list \<Rightarrow> string list outcome" where
  "strip_codes code [] = Ret []"
| "strip_codes code (l # ls) =
     (case (if starts_with l code then str_slice l 4 (length l) else Ret l) of
        Ret l' \<Rightarrow> (case strip_codes code ls of Ret ls' \<Rightarrow> Ret (l' # ls') | Panic \<Rightarrow> Panic | OutOfFuel \<Rightarrow> OutOfFuel)
      | Panic \<Rightarrow> Panic | OutOfFuel \<Rightarrow> OutOfFuel)"

definition finish_reply :: "(control_stream, (reply option, control_error) result) action" where
  "finish_reply s = (let lines = pending_reply s; t = s\<lparr> pending_reply := [] \<rparr> in
     case lines of
       [] \<Rightarrow> panic t
     | first_line # _ \<Rightarrow>
         andthen (slice first_line 0 3) (\<lambda>status_code_string.
           case parse_unsigned 32 status_code_string of
             None \<Rightarrow> ret (Err (ReplyParseFailed (''unable to parse '' @ quoted status_code_string @ '' as status code'')))
           | Some n \<Rightarrow> andthen (\<lambda>u. (strip_codes status_code_string lines, u)) (\<lambda>ls.
               ret (Ok (Some \<lparr> status_code = of_nat n, reply_lines = ls \<rparr>)))) t)"

definition read_reply :: "control_patterns \<Rightarrow> (control_stream, (reply option, control_error) result) action" where
  "read_reply P = try_then (reply_loop P) (\<lambda>complete. if complete then finish_reply else ret (Ok None))"

definition control_write :: "string \<Rightarrow> control_stream \<Rightarrow> (unit, control_error) result \<times> control_stream" where
  "control_write cmd s =
     (case write_all (as_bytes cmd) (stream s) of
        (Err e, k) \<Rightarrow> (Err (WriteFailed e), s\<lparr> stream := k, closed_by_remote := True \<rparr>)
      | (Ok _, k) \<Rightarrow>
          (case write_all [13, 10] k of
             (Err e, k') \<Rightarrow> (Err (WriteFailed e), s\<lparr> stream := k', closed_by_remote := True \<rparr>)
           | (Ok _, k') \<Rightarrow> (Ok (), s\<lparr> stream := k' \<rparr>)))"

end
