(* ===== verification/Control_Replies.thy ===== *)
theory Control_Replies
  imports Control_Stream
begin

text \<open>
  What the control stream reads. The scan for line ends agrees with the recursive splitting of the
  bytes at CR LF; however the bytes are cut into reads, \<open>read_line\<close> delivers the lines of their
  concatenation; and a reply printed in the format of the control protocol is read back, while
  lines the format does not allow are errors or panics.
\<close>

section \<open>Splitting at CR LF\<close>

fun crlf_lines :: "bytes \<Rightarrow> bytes list \<times> bytes" where
  "crlf_lines [] = ([], [])"
| "crlf_lines [b] = ([], [b])"
| "crlf_lines (b # c # r) =
     (if b = 13 \<and> c = 10 then (case crlf_lines r of (ls, rest) \<Rightarrow> ([] # ls, rest))
      else case crlf_lines (c # r) of (l # ls, rest) \<Rightarrow> ((b # l) # ls, rest) | ([], rest) \<Rightarrow> ([], b # rest))"

definition prefixed :: "bytes \<Rightarrow> bytes list \<times> bytes \<Rightarrow> bytes list \<times> bytes" where
  "prefixed p x = (case x of (l # ls, rest) \<Rightarrow> ((p @ l) # ls, rest) | ([], rest) \<Rightarrow> ([], p @ rest))"

lemma prefixed_simps [simp]:
  "prefixed [] x = x"
  "prefixed p ([], rest) = ([], p @ rest)"
  "prefixed p (l # ls, rest) = ((p @ l) # ls, rest)"
  "prefixed p (prefixed q x) = prefixed (p @ q) x"
  by (auto simp: prefixed_def split: prod.splits list.splits)

lemma crlf_lines_Cons: "\<not> (b = 13 \<and> r \<noteq> [] \<and> hd r = 10) \<Longrightarrow> crlf_lines (b # r) = prefixed [b] (crlf_lines r)"
  by (cases r) (auto simp: prefixed_def split: prod.splits list.splits)

lemma crlf_lines_short: "length d \<le> 1 \<Longrightarrow> crlf_lines d = ([], d)"
  by (cases d rule: crlf_lines.cases) auto

lemma crlf_lines_none: "crlf_lines d = ([], r) \<Longrightarrow> r = d"
  by (induction d arbitrary: r rule: crlf_lines.induct) (auto split: prod.splits list.splits if_splits)

lemma crlf_lines_concat: "crlf_lines d = (ls, r) \<Longrightarrow> d = concat (map (\<lambda>l. l @ [13, 10]) ls) @ r"
  by (induction d arbitrary: ls r rule: crlf_lines.induct) (auto split: prod.splits list.splits if_splits)

lemma crlf_lines_append:
  "crlf_lines (d @ e) = (case crlf_lines d of (ls, r) \<Rightarrow> (case crlf_lines (r @ e) of (ls', r') \<Rightarrow> (ls @ ls', r')))"
proof (induction d rule: crlf_lines.induct)
  case (3 b c r)
  show ?case
  proof (cases "b = 13 \<and> c = 10")
    case True
    with 3(1) show ?thesis by (simp split: prod.splits)
  next
    case False
    obtain ls rest where d: "crlf_lines (c # r) = (ls, rest)" by fastforce
    have e: "crlf_lines (b # c # r @ e) = prefixed [b] (crlf_lines (c # r @ e))"
      "crlf_lines (b # c # r) = prefixed [b] (crlf_lines (c # r))"
      using False crlf_lines_Cons [of b "c # r @ e"] crlf_lines_Cons [of b "c # r"] by (auto simp del: crlf_lines.simps)
    show ?thesis
    proof (cases ls)
      case Nil
      with d crlf_lines_none have "rest = c # r" by blast
      with e d Nil show ?thesis by (simp split: prod.splits)
    next
      case (Cons l ls')
      with 3(2) False d e show ?thesis by (auto split: prod.splits)
    qed
  qed
qed (auto split: prod.splits)

lemma crlf_lines_line: "crlf_lines l = ([], l) \<Longrightarrow> crlf_lines (l @ [13, 10] @ r) = (case crlf_lines r of (ls, rest) \<Rightarrow> (l # ls, rest))"
proof (induction l rule: crlf_lines.induct)
  case (3 b c l)
  then have "\<not> (b = 13 \<and> c = 10)" "crlf_lines (c # l) = ([], c # l)"
    by (auto split: prod.splits list.splits if_splits dest: crlf_lines_none)
  with 3(2) show ?case by (auto split: prod.splits)
qed (auto split: prod.splits)

section \<open>The scan\<close>

lemma scan_lines_skip: "data ! (b - 1) \<noteq> 13 \<Longrightarrow> scan_lines data b b ls = scan_lines data (b + 1) b ls"
  by (cases "b < length data") (simp_all add: scan_lines.simps [of data b] scan_lines.simps [of data "Suc b"])

lemma drop_cons: "i < length xs \<Longrightarrow> drop i xs = xs ! i # drop (i + 1) xs"
  using Cons_nth_drop_Suc [of i xs] by simp

lemma scan_lines_crlf:
  "b < i \<Longrightarrow> b \<le> length data \<Longrightarrow>
   prefixed (take (i - 1 - b) (drop b data)) (crlf_lines (drop (i - 1) data)) = (ls', r) \<Longrightarrow>
   \<forall>l\<in>set ls'. utf8_valid l \<Longrightarrow>
   scan_lines data i b ls = (Ok (length data - length r), ls @ map from_bytes ls')"
proof (induction "length data + 1 - i" arbitrary: i b ls ls' rule: less_induct)
  case less
  let ?seg = "take (i - 1 - b) (drop b data)"
  show ?case
  proof (cases "i < length data")
    case True
    with less.prems(1) have d: "drop (i - 1) data = data ! (i - 1) # drop i data" "drop i data = data ! i # drop (i + 1) data"
      using drop_cons [of "i - 1" data] drop_cons [of i data] by auto
    show ?thesis
    proof (cases "data ! (i - 1) = 13 \<and> data ! i = 10")
      case match: True
      obtain ms where ms: "crlf_lines (drop (i + 1) data) = (ms, r)" "ls' = ?seg # ms"
        using less.prems(3) [unfolded d(1), unfolded d(2)] match by (auto split: prod.splits)
      from match less.prems(4) ms True
      have "scan_lines data i b ls = scan_lines data (i + 1) (i + 1) (ls @ [from_bytes ?seg])"
        using less.prems(1) by (subst scan_lines.simps) (auto simp: Let_def)
      also have "\<dots> = scan_lines data (i + 2) (i + 1) (ls @ [from_bytes ?seg])"
        using match scan_lines_skip [of data "i + 1"] by simp
      finally show ?thesis using less.hyps [of "i + 2" "i + 1" ms] less.prems(4) ms True by auto
    next
      case no: False
      have seg: "take (i + 1 - 1 - b) (drop b data) = ?seg @ [data ! (i - 1)]"
        using True less.prems(1) take_Suc_conv_app_nth [of "i - 1 - b" "drop b data"] by (simp add: Suc_diff_Suc)
      have "crlf_lines (drop (i - 1) data) = prefixed [data ! (i - 1)] (crlf_lines (drop i data))"
        unfolding d(1) by (rule crlf_lines_Cons) (use no d(2) in auto)
      with less.prems(3) have "prefixed (take (i + 1 - 1 - b) (drop b data)) (crlf_lines (drop (i + 1 - 1) data)) = (ls', r)"
        unfolding seg by simp
      moreover have "scan_lines data i b ls = scan_lines data (i + 1) b ls"
        using True no by (subst scan_lines.simps) auto
      ultimately show ?thesis using less.hyps [of "i + 1" b ls'] less.prems True by auto
    qed
  next
    case False
    then have "crlf_lines (drop (i - 1) data) = ([], drop (i - 1) data)" by (intro crlf_lines_short) simp
    with less.prems(3) have r: "ls' = []" "r = ?seg @ drop (i - 1) data" by auto
    have "r = drop b data"
      unfolding r using append_take_drop_id [of "i - 1 - b" "drop b data"] less.prems(1) by simp
    with False r less.prems(2) show ?thesis by (subst scan_lines.simps) simp
  qed
qed

text \<open>The scan of \<open>read_line\<close> is the splitting at CR LF.\<close>

lemma split_lines_crlf:
  assumes "crlf_lines (pending_data s) = (ls, r)" "\<forall>l\<in>set ls. utf8_valid l"
  shows "split_lines s = (Ok (), s\<lparr> pending_lines := pending_lines s @ map from_bytes ls, pending_data := r \<rparr>)"
proof -
  have len: "drop (length d - length r) d = r" if "crlf_lines d = (ls, r)" for d
    using crlf_lines_concat [OF that] by simp
  show ?thesis
    using scan_lines_crlf [of 0 1 "pending_data s" ls r "pending_lines s"] assms len [OF assms(1)]
    by (simp add: split_lines_def)
qed


section \<open>Reading lines\<close>

text \<open>
  The lines that lie ahead of a stream: those split already and those of the bytes in the buffer
  and still to arrive, in reads that time out after some bytes.
\<close>

definition control_incoming :: "control_stream \<Rightarrow> bytes" where
  "control_incoming s = pending_data s @ concat (map fst (cs_reads (stream s)))"

definition lines_ahead :: "control_stream \<Rightarrow> string list" where
  "lines_ahead s = pending_lines s @ map from_bytes (fst (crlf_lines (control_incoming s)))"

definition arriving :: "control_stream \<Rightarrow> bool" where
  "arriving s \<longleftrightarrow> fst (crlf_lines (pending_data s)) = [] \<and> (\<forall>l\<in>set (fst (crlf_lines (control_incoming s))). utf8_valid l) \<and>
     (\<forall>r\<in>set (cs_reads (stream s)). fst r \<noteq> [] \<and> snd r \<in> {Some WouldBlock, Some TimedOut})"

definition same_output :: "control_stream \<Rightarrow> control_stream \<Rightarrow> bool" where
  "same_output s t \<longleftrightarrow> closed_by_remote t = closed_by_remote s \<and> cs_writes (stream t) = cs_writes (stream s) \<and>
     cs_written (stream t) = cs_written (stream s)"

definition same_reply :: "control_stream \<Rightarrow> control_stream \<Rightarrow> bool" where
  "same_reply s t \<longleftrightarrow> pending_reply t = pending_reply s \<and> reading_multiline_value t = reading_multiline_value s \<and> same_output s t"

lemma same_output_refl [simp]: "same_output s s"
  by (simp add: same_output_def)

lemma same_output_trans: "same_output s t \<Longrightarrow> same_output t u \<Longrightarrow> same_output s u"
  by (simp add: same_output_def)

lemma same_reply_refl [simp]: "same_reply s s"
  by (simp add: same_reply_def)

lemma same_reply_trans: "same_reply s t \<Longrightarrow> same_reply t u \<Longrightarrow> same_reply s u"
  by (simp add: same_reply_def same_output_def)

text \<open>One round of \<open>read_line\<close> when bytes arrive.\<close>

lemma read_line_round:
  assumes "arriving s" "pending_lines s = []" "cs_reads (stream s) \<noteq> []"
  obtains t where "read_line s = read_line t" "arriving t" "lines_ahead t = lines_ahead s" "same_reply s t"
    "length (cs_reads (stream t)) < length (cs_reads (stream s))"
proof -
  obtain bs k rs where r: "cs_reads (stream s) = (bs, Some k) # rs" "bs \<noteq> []" "k = WouldBlock \<or> k = TimedOut"
    using assms(1, 3) by (cases "cs_reads (stream s)") (auto simp: arriving_def)
  let ?u = "s\<lparr> stream := (stream s)\<lparr> cs_reads := rs \<rparr>, pending_data := pending_data s @ bs \<rparr>"
  obtain ls rest where ls: "crlf_lines (pending_data s @ bs) = (ls, rest)" by fastforce
  let ?t = "?u\<lparr> pending_lines := map from_bytes ls, pending_data := rest \<rparr>"
  have inc: "control_incoming s = (pending_data s @ bs) @ concat (map fst rs)" "control_incoming ?t = rest @ concat (map fst rs)"
    by (simp_all add: control_incoming_def r)
  obtain ms rest' where ms: "crlf_lines (rest @ concat (map fst rs)) = (ms, rest')" by fastforce
  with ls have all: "crlf_lines (control_incoming s) = (ls @ ms, rest')"
    unfolding inc by (subst crlf_lines_append) simp
  have rest: "crlf_lines rest = ([], rest)"
    using crlf_lines_append [of "pending_data s @ bs" "[]"] ls by (auto split: prod.splits dest: crlf_lines_none)
  from all assms(1) have valid: "\<forall>l\<in>set (ls @ ms). utf8_valid l" by (simp add: arriving_def)
  have "receive s = (Ok True, ?u)" using r by (auto simp: receive_def read_to_end_def)
  moreover have "split_lines ?u = (Ok (), ?t)"
    using split_lines_crlf [of ?u ls rest] ls valid assms(2) by simp
  ultimately have "read_line s = read_line ?t" using assms(2) by (subst read_line.simps) simp
  moreover have "lines_ahead ?t = lines_ahead s" unfolding lines_ahead_def inc(2) all ms using assms(2) by simp
  moreover have "arriving ?t" unfolding arriving_def inc(2) ms using assms(1) r(1) valid rest by (auto simp: arriving_def)
  ultimately show thesis using that [of ?t] r(1) by (simp add: same_reply_def same_output_def)
qed

lemma read_line_Some:
  assumes "arriving s" "lines_ahead s = l # ls"
  shows "\<exists>t. read_line s = (Ok (Some l), t) \<and> arriving t \<and> lines_ahead t = ls \<and> same_reply s t"
  using assms
proof (induction "length (cs_reads (stream s))" arbitrary: s rule: less_induct)
  case less
  show ?case
  proof (cases "pending_lines s")
    case (Cons a as)
    let ?t = "s\<lparr> pending_lines := as \<rparr>"
    have "control_incoming ?t = control_incoming s" by (simp add: control_incoming_def)
    with Cons less.prems show ?thesis
      by (subst read_line.simps) (simp add: arriving_def lines_ahead_def same_reply_def same_output_def)
  next
    case Nil
    have "cs_reads (stream s) \<noteq> []"
      using less.prems Nil by (auto simp: arriving_def lines_ahead_def control_incoming_def)
    then obtain t where "read_line s = read_line t" "arriving t" "lines_ahead t = lines_ahead s" "same_reply s t"
      "length (cs_reads (stream t)) < length (cs_reads (stream s))"
      using read_line_round [OF less.prems(1) Nil] by metis
    with less.hyps [of t] less.prems(2) show ?thesis by (metis same_reply_trans)
  qed
qed

lemma read_line_None:
  assumes "arriving s" "lines_ahead s = []"
  shows "\<exists>t. read_line s = (Ok None, t) \<and> arriving t \<and> lines_ahead t = [] \<and> same_reply s t"
  using assms
proof (induction "length (cs_reads (stream s))" arbitrary: s rule: less_induct)
  case less
  then have Nil: "pending_lines s = []" by (simp add: lines_ahead_def)
  show ?case
  proof (cases "cs_reads (stream s)")
    case Nil': Nil
    then have "receive s = (Ok False, s)" by (simp add: receive_def read_to_end_def)
    with Nil less.prems show ?thesis by (subst read_line.simps) simp
  next
    case (Cons a list)
    then obtain t where "read_line s = read_line t" "arriving t" "lines_ahead t = lines_ahead s" "same_reply s t"
      "length (cs_reads (stream t)) < length (cs_reads (stream s))"
      using read_line_round [OF less.prems(1) Nil] by (metis list.distinct(1))
    with less.hyps [of t] less.prems(2) show ?thesis by (metis same_reply_trans)
  qed
qed


section \<open>Reading replies\<close>

text \<open>
  The documented meaning of the patterns on a line that begins with ASCII characters. The plus sign
  of the second is a repetition, so it matches whatever begins with three digits.
\<close>

definition ascii_start :: "string \<Rightarrow> bool" where
  "ascii_start s \<longleftrightarrow> list_all (\<lambda>c. (of_char c :: nat) < 128) (take 4 s)"

definition three_digits :: "string \<Rightarrow> bool" where
  "three_digits s \<longleftrightarrow> 3 \<le> length s \<and> list_all is_digit (take 3 s)"

definition pattern_laws :: "control_patterns \<Rightarrow> bool" where
  "pattern_laws P \<longleftrightarrow> (\<forall>s. ascii_start s \<longrightarrow>
     (single_line_data P s \<longleftrightarrow> three_digits s \<and> 4 \<le> length s \<and> s ! 3 = CHR ''-'') \<and>
     (multi_line_data P s \<longleftrightarrow> three_digits s) \<and>
     (end_reply_line P s \<longleftrightarrow> three_digits s \<and> 4 \<le> length s \<and> s ! 3 = CHR '' ''))"

text \<open>
  The format of a reply: lines with a hyphen, values of several lines after a plus sign, and the last line. The lines of a value are
  those on the wire: the sender doubles a dot at the beginning of a line, and the reader, which compares a line with a single
  dot only, does not undo it. \<open>data_line\<close> are the lines the reader takes as part of a value; it leaves out those that look like
  a status line, which the protocol allows there. What the reader does with them is the subject of \<open>Reply_Limits\<close>.
\<close>

datatype reply_item = Line string | Value string "string list"

fun item_lines :: "string \<Rightarrow> reply_item \<Rightarrow> string list" where
  "item_lines code (Line t) = [code @ ''-'' @ t]"
| "item_lines code (Value t ds) = (code @ ''+'' @ t) # ds @ [''.'']"

fun item_entry :: "reply_item \<Rightarrow> string" where
  "item_entry (Line t) = t"
| "item_entry (Value t ds) = t @ concat (map (\<lambda>d. CHR 10 # d) ds)"

definition printed_reply :: "string \<Rightarrow> reply_item list \<Rightarrow> string \<Rightarrow> string list" where
  "printed_reply code items final = concat (map (item_lines code) items) @ [code @ '' '' @ final]"

definition reply_of :: "string \<Rightarrow> reply_item list \<Rightarrow> string \<Rightarrow> reply" where
  "reply_of code items final = \<lparr> status_code = of_nat (digits_value code), reply_lines = map item_entry items @ [final] \<rparr>"

definition sliceable :: "string \<Rightarrow> bool" where
  "sliceable t \<longleftrightarrow> t = [] \<or> \<not> continuation (of_char (hd t))"

definition data_line :: "control_patterns \<Rightarrow> string \<Rightarrow> bool" where
  "data_line P d \<longleftrightarrow> \<not> end_reply_line P d \<and> \<not> single_line_data P d \<and> \<not> multi_line_data P d \<and> d \<noteq> ''.''"

fun item_ok :: "control_patterns \<Rightarrow> reply_item \<Rightarrow> bool" where
  "item_ok P (Line t) = sliceable t"
| "item_ok P (Value t ds) = (sliceable t \<and> list_all (data_line P) ds)"

definition status_text :: "string \<Rightarrow> bool" where
  "status_text code \<longleftrightarrow> length code = 3 \<and> list_all is_digit code"

lemma status_textE:
  assumes "status_text code"
  obtains a b c where "code = [a, b, c]" "is_digit a" "is_digit b" "is_digit c"
proof -
  from assms obtain a b c where "code = [a, b, c]" by (auto simp: status_text_def length_Suc_conv numeral_3_eq_3)
  with assms that show thesis by (simp add: status_text_def)
qed

lemma digit_ascii: "is_digit c \<Longrightarrow> (of_char c :: nat) < 128"
  by (simp add: is_digit_def)

lemma status_line_kind:
  assumes "pattern_laws P" "status_text code" "(of_char x :: nat) < 128"
  shows "single_line_data P (code @ x # t) \<longleftrightarrow> x = CHR ''-''" "multi_line_data P (code @ x # t)"
    "end_reply_line P (code @ x # t) \<longleftrightarrow> x = CHR '' ''"
proof -
  have "ascii_start (code @ x # t)" "three_digits (code @ x # t)" "(code @ x # t) ! 3 = x" "4 \<le> length (code @ x # t)"
    using assms(2, 3) by (auto elim!: status_textE simp: ascii_start_def three_digits_def digit_ascii)
  with assms(1) show "single_line_data P (code @ x # t) \<longleftrightarrow> x = CHR ''-''" "multi_line_data P (code @ x # t)"
    "end_reply_line P (code @ x # t) \<longleftrightarrow> x = CHR '' ''"
    unfolding pattern_laws_def by metis+
qed

lemma continuation_ascii: "(of_char c :: nat) < 128 \<Longrightarrow> \<not> continuation (of_char c)"
proof -
  assume "(of_char c :: nat) < 128"
  then have "(of_nat (of_char c) :: byte) < 128" by (simp add: word_less_nat_alt unat_of_nat)
  then show ?thesis by (simp add: continuation_def of_nat_of_char not_le)
qed

lemma slice_status:
  assumes "status_text code" "(of_char x :: nat) < 128"
  shows "str_slice (code @ x # t) 0 3 = Ret code" "sliceable t \<Longrightarrow> str_slice (code @ x # t) 4 (length (code @ x # t)) = Ret t"
proof -
  from assms(1) obtain a b c where "code = [a, b, c]" "is_digit a" "is_digit b" "is_digit c" by (rule status_textE)
  with assms(2) continuation_ascii [of x] show "str_slice (code @ x # t) 0 3 = Ret code"
    "sliceable t \<Longrightarrow> str_slice (code @ x # t) 4 (length (code @ x # t)) = Ret t"
    by (auto simp: str_slice_def is_char_boundary_def sliceable_def hd_conv_nth)
qed


text \<open>A stream before the lines \<open>ls\<close>, with a reply begun.\<close>

definition before_lines :: "control_stream \<Rightarrow> string list \<Rightarrow> string list \<Rightarrow> bool \<Rightarrow> bool" where
  "before_lines s ls begun multi \<longleftrightarrow> arriving s \<and> lines_ahead s = ls \<and> pending_reply s = begun \<and> reading_multiline_value s = multi"

lemma before_lines_update: "before_lines s ls pr m \<Longrightarrow> before_lines (s\<lparr> pending_reply := pr', reading_multiline_value := m' \<rparr>) ls pr' m'"
  by (simp add: before_lines_def arriving_def lines_ahead_def control_incoming_def)

lemma before_lines_read:
  "before_lines s (l # ls) pr m \<Longrightarrow> \<exists>t. read_line s = (Ok (Some l), t) \<and> before_lines t ls pr m \<and> same_output s t"
  using read_line_Some [of s l ls] by (auto simp: before_lines_def same_reply_def)

lemma reply_loop_step:
  assumes s: "before_lines s (l # ls) pr m"
    and step: "\<And>t. pending_reply t = pr \<Longrightarrow> reading_multiline_value t = m \<Longrightarrow>
      reply_line P l t = (Ret (Ok False), t\<lparr> pending_reply := pr', reading_multiline_value := m' \<rparr>)"
  shows "\<exists>t. reply_loop P s = reply_loop P t \<and> before_lines t ls pr' m' \<and> same_output s t"
proof -
  obtain t where t: "read_line s = (Ok (Some l), t)" "before_lines t ls pr m" "same_output s t"
    using before_lines_read [OF s] by blast
  let ?u = "t\<lparr> pending_reply := pr', reading_multiline_value := m' \<rparr>"
  from t(1, 2) step [of t] have "reply_loop P s = reply_loop P ?u"
    by (subst reply_loop.simps) (simp add: before_lines_def)
  moreover have "same_output s ?u" using t(3) by (simp add: same_output_def)
  ultimately show ?thesis using before_lines_update [OF t(2)] by blast
qed

lemma keep_reading:
  "reading_multiline_value t = m \<Longrightarrow> t\<lparr> pending_reply := x, reading_multiline_value := m \<rparr> = t\<lparr> pending_reply := x \<rparr>"
  "pending_reply t = x \<Longrightarrow> t\<lparr> pending_reply := x, reading_multiline_value := m \<rparr> = t\<lparr> reading_multiline_value := m \<rparr>"
  by (cases t, simp)+

lemma same_status_multi: "reading_multiline_value t \<Longrightarrow> same_status l t = (Ret (Ok ()), t)"
  by (simp add: same_status_def ret_def split: list.split)

text \<open>The entries of a reply keep the status code until the reply is complete.\<close>

fun raw_entry :: "string \<Rightarrow> reply_item \<Rightarrow> string" where
  "raw_entry code (Line t) = code @ CHR ''-'' # t"
| "raw_entry code (Value t ds) = code @ CHR ''+'' # t @ concat (map (\<lambda>d. CHR 10 # d) ds)"

definition begun_with :: "string \<Rightarrow> string list \<Rightarrow> bool" where
  "begun_with code pr \<longleftrightarrow> pr = [] \<or> str_slice (hd pr) 0 3 = Ret code"

lemma same_status_ok:
  assumes "status_text code" "(of_char x :: nat) < 128" "begun_with code (pending_reply t)"
  shows "same_status (code @ x # r) t = (Ret (Ok ()), t)"
  using assms slice_status(1) [OF assms(1, 2)]
  by (auto simp: same_status_def begun_with_def action_defs slice_def split: list.split)

lemma begun_with_append:
  "status_text code \<Longrightarrow> (of_char x :: nat) < 128 \<Longrightarrow> begun_with code pr \<Longrightarrow> begun_with code (pr @ [code @ x # r])"
  by (cases pr) (simp_all add: begun_with_def slice_status)

lemma reply_loop_data:
  assumes "list_all (data_line P) ds" "before_lines s (ds @ ls) (pr @ [e]) True"
  shows "\<exists>t. reply_loop P s = reply_loop P t \<and> before_lines t ls (pr @ [e @ concat (map (\<lambda>d. CHR 10 # d) ds)]) True \<and> same_output s t"
  using assms
proof (induction ds arbitrary: s e)
  case (Cons d ds)
  have "reply_line P d t = (Ret (Ok False), t\<lparr> pending_reply := pr @ [e @ CHR 10 # d], reading_multiline_value := True \<rparr>)"
    if "pending_reply t = pr @ [e]" "reading_multiline_value t = True" for t
    using that Cons.prems(1) by (simp add: reply_line_def same_status_multi sort_line_def data_line_def action_defs keep_reading)
  from reply_loop_step [of s d "ds @ ls", OF _ this] Cons.prems obtain t where
    t: "reply_loop P s = reply_loop P t" "before_lines t (ds @ ls) (pr @ [e @ CHR 10 # d]) True" "same_output s t" by auto
  with Cons.IH [OF _ t(2)] Cons.prems(1) show ?case by (auto intro: same_output_trans)
qed auto

lemma reply_loop_item:
  assumes P: "pattern_laws P" and code: "status_text code" and pr: "begun_with code pr"
    and ok: "item_ok P item" and s: "before_lines s (item_lines code item @ ls) pr False"
  shows "\<exists>t. reply_loop P s = reply_loop P t \<and> before_lines t ls (pr @ [raw_entry code item]) False \<and> same_output s t"
proof (cases item)
  case (Line r)
  note [simp] = same_status_ok [OF code, of "CHR ''-''"] status_line_kind [OF P code, of "CHR ''-''"]
  have "reply_line P (code @ CHR ''-'' # r) t =
      (Ret (Ok False), t\<lparr> pending_reply := pr @ [code @ CHR ''-'' # r], reading_multiline_value := False \<rparr>)"
    if "pending_reply t = pr" "reading_multiline_value t = False" for t
    using that pr by (simp add: reply_line_def sort_line_def action_defs)
  from reply_loop_step [OF _ this] s Line show ?thesis by auto
next
  case (Value r ds)
  note [simp] = same_status_ok [OF code, of "CHR ''+''"] status_line_kind [OF P code, of "CHR ''+''"]
  from s Value have first: "before_lines s ((code @ CHR ''+'' # r) # ds @ ''.'' # ls) pr False" by simp
  have "reply_line P (code @ CHR ''+'' # r) t =
      (Ret (Ok False), t\<lparr> pending_reply := pr @ [code @ CHR ''+'' # r], reading_multiline_value := True \<rparr>)"
    if "pending_reply t = pr" "reading_multiline_value t = False" for t
    using that pr by (simp add: reply_line_def sort_line_def action_defs)
  from reply_loop_step [OF first this] obtain t where
    t: "reply_loop P s = reply_loop P t" "before_lines t (ds @ ''.'' # ls) (pr @ [code @ CHR ''+'' # r]) True" "same_output s t"
    by auto
  obtain u where u: "reply_loop P t = reply_loop P u" "before_lines u (''.'' # ls) (pr @ [raw_entry code item]) True" "same_output t u"
    using reply_loop_data [OF _ t(2)] ok Value by auto
  have "ascii_start ''.''" "\<not> three_digits ''.''" by (simp_all add: ascii_start_def three_digits_def)
  with P have "\<not> end_reply_line P ''.''" "\<not> single_line_data P ''.''" "\<not> multi_line_data P ''.''"
    by (auto simp: pattern_laws_def)
  then have "reply_line P ''.'' v =
      (Ret (Ok False), v\<lparr> pending_reply := pr @ [raw_entry code item], reading_multiline_value := False \<rparr>)"
    if "pending_reply v = pr @ [raw_entry code item]" "reading_multiline_value v = True" for v
    using that by (simp add: reply_line_def same_status_multi sort_line_def action_defs keep_reading)
  from reply_loop_step [OF u(2) this] t u show ?thesis by (metis same_output_trans)
qed

lemma reply_loop_items:
  assumes "pattern_laws P" "status_text code" "begun_with code pr" "list_all (item_ok P) items"
    "before_lines s (concat (map (item_lines code) items) @ ls) pr False"
  shows "\<exists>t. reply_loop P s = reply_loop P t \<and> before_lines t ls (pr @ map (raw_entry code) items) False \<and> same_output s t"
  using assms(3-)
proof (induction items arbitrary: s pr)
  case (Cons i items)
  from reply_loop_item [OF assms(1, 2) Cons.prems(1)] Cons.prems obtain t where
    t: "reply_loop P s = reply_loop P t" "before_lines t (concat (map (item_lines code) items) @ ls) (pr @ [raw_entry code i]) False"
      "same_output s t" by fastforce
  have "begun_with code (pr @ [raw_entry code i])"
    using Cons.prems(1) by (cases i) (simp_all add: begun_with_append [OF assms(2)])
  with Cons.IH [OF _ _ t(2)] Cons.prems(2) t show ?case by (auto intro: same_output_trans)
qed auto


lemma parse_status: "status_text code \<Longrightarrow> parse_unsigned 32 code = Some (digits_value code)"
proof -
  assume "status_text code"
  then obtain a b c where c: "code = [a, b, c]" "is_digit a" "is_digit b" "is_digit c" by (rule status_textE)
  then have "a \<noteq> CHR ''+''" using not_digit(1) by auto
  then have p: "(case code of CHR ''+'' # r \<Rightarrow> r | _ \<Rightarrow> code) = code"
    unfolding c(1) by (auto split: char.splits bool.splits)
  have "digit_value x \<le> 9" if "is_digit x" for x using that by (auto simp: digit_value_def is_digit_def)
  from this [OF c(2)] this [OF c(3)] this [OF c(4)] have "digits_value code < 2 ^ 32" by (simp add: c(1) digits_value_def)
  with c(2-4) show ?thesis unfolding parse_unsigned_def p by (simp add: Let_def c(1))
qed

lemma strip_codes_append:
  "strip_codes code ls = Ret ls' \<Longrightarrow> strip_codes code ms = Ret ms' \<Longrightarrow> strip_codes code (ls @ ms) = Ret (ls' @ ms')"
  by (induction ls arbitrary: ls') (auto split: outcome.splits if_splits)

lemma strip_code:
  assumes "status_text code" "(of_char x :: nat) < 128" "sliceable r"
  shows "strip_codes code [code @ x # r] = Ret [r]"
  using slice_status(2) [OF assms] by (simp add: starts_with_def)

lemma strip_items:
  assumes "status_text code" "list_all (item_ok P) items"
  shows "strip_codes code (map (raw_entry code) items) = Ret (map item_entry items)"
  using assms(2)
proof (induction items)
  case (Cons i items)
  have "sliceable (t @ concat (map (\<lambda>d. CHR 10 # d) ds))" if "sliceable t" for t ds
    using that continuation_ascii [of "CHR 10"] by (cases t; cases ds) (simp_all add: sliceable_def)
  then have "strip_codes code [raw_entry code i] = Ret [item_entry i]"
    using Cons.prems by (cases i) (simp_all add: strip_code [OF assms(1)] del: strip_codes.simps)
  from strip_codes_append [OF this Cons.IH] Cons.prems show ?case by simp
qed simp

text \<open>A printed reply is read back.\<close>

lemma read_reply_printed:
  assumes P: "pattern_laws P" and code: "status_text code" and items: "list_all (item_ok P) items" "sliceable final"
    and s: "before_lines s (printed_reply code items final @ ls) [] False"
  shows "\<exists>t. read_reply P s = (Ret (Ok (Some (reply_of code items final))), t) \<and> before_lines t ls [] False \<and> same_output s t"
proof -
  let ?fin = "code @ CHR '' '' # final" and ?pr = "map (raw_entry code) items"
  have "before_lines s (concat (map (item_lines code) items) @ ?fin # ls) [] False"
    using s by (simp add: printed_reply_def)
  from reply_loop_items [OF P code _ items(1) this] obtain t where
    t: "reply_loop P s = reply_loop P t" "before_lines t (?fin # ls) ?pr False" "same_output s t"
    by (auto simp: begun_with_def)
  have pr: "begun_with code ?pr"
    by (cases items; cases "hd items") (simp_all add: begun_with_def slice_status(1) [OF code])
  obtain u where u: "read_line t = (Ok (Some ?fin), u)" "before_lines u ls ?pr False" "same_output t u"
    using before_lines_read [OF t(2)] by blast
  have "reply_line P ?fin u = (Ret (Ok True), u\<lparr> pending_reply := ?pr @ [?fin] \<rparr>)"
    using u(2) pr same_status_ok [OF code, of "CHR '' ''" u final] status_line_kind [OF P code, of "CHR '' ''"]
    by (simp add: reply_line_def sort_line_def action_defs before_lines_def)
  then have loop: "reply_loop P s = (Ret (Ok True), u\<lparr> pending_reply := ?pr @ [?fin] \<rparr>)"
    unfolding t(1) by (subst reply_loop.simps) (simp add: u(1))
  have "begun_with code (?pr @ [?fin])" by (rule begun_with_append [OF code _ pr]) simp
  then obtain f r where f: "?pr @ [?fin] = f # r" "str_slice f 0 3 = Ret code"
    by (cases "?pr @ [?fin]") (auto simp: begun_with_def)
  have "strip_codes code (?pr @ [?fin]) = Ret (map item_entry items @ [final])"
    by (rule strip_codes_append [OF strip_items [OF code items(1)] strip_code [OF code _ items(2)]]) simp
  with loop f have "read_reply P s = (Ret (Ok (Some (reply_of code items final))), u\<lparr> pending_reply := [] \<rparr>)"
    by (simp add: read_reply_def finish_reply_def action_defs slice_def parse_status [OF code] reply_of_def)
  moreover have "before_lines (u\<lparr> pending_reply := [] \<rparr>) ls [] False"
    using before_lines_update [OF u(2), where pr' = "[]" and m' = False] u(2) by (simp add: keep_reading before_lines_def)
  moreover have "same_output s (u\<lparr> pending_reply := [] \<rparr>)"
    using t(3) u(3) by (simp add: same_output_def)
  ultimately show ?thesis by blast
qed

lemma read_reply_none:
  assumes "before_lines s [] pr m"
  shows "\<exists>t. read_reply P s = (Ret (Ok None), t) \<and> before_lines t [] pr m \<and> same_output s t"
proof -
  obtain t where "read_line s = (Ok None, t)" "before_lines t [] pr m" "same_output s t"
    using read_line_None [of s] assms by (auto simp: before_lines_def same_reply_def)
  then show ?thesis by (simp add: read_reply_def reply_loop.simps [of P s] action_defs)
qed

section \<open>Fresh streams\<close>

text \<open>The bytes of some lines, and a new stream that will receive them in chunks.\<close>

definition encoded_lines :: "string list \<Rightarrow> bytes" where
  "encoded_lines ls = concat (map (\<lambda>l. as_bytes l @ [13, 10]) ls)"

definition line_ok :: "string \<Rightarrow> bool" where
  "line_ok l \<longleftrightarrow> CHR 10 \<notin> set l \<and> utf8_valid (as_bytes l)"

definition fresh_stream :: "bytes list \<Rightarrow> control_stream" where
  "fresh_stream chunks = \<lparr> stream = \<lparr> cs_reads = map (\<lambda>c. (c, Some TimedOut)) chunks, cs_writes = [], cs_written = [] \<rparr>,
     closed_by_remote = False, pending_data = [], pending_lines = [], pending_reply = [], reading_multiline_value = False \<rparr>"

lemma no_line_feed: "10 \<notin> set bs \<Longrightarrow> crlf_lines bs = ([], bs)"
  by (induction bs rule: crlf_lines.induct) auto

lemma line_feed_byte: "(10 :: byte) \<in> set (as_bytes s) \<longleftrightarrow> CHR 10 \<in> set s"
proof -
  have ten: "(of_char (CHR 10) :: byte) = 10" by simp
  have "(of_char c :: byte) = of_char d \<longleftrightarrow> c = d" for c d
    using as_bytes_eq_iff [of "[c]" "[d]"] unfolding as_bytes_def list.map list.inject by (simp only: simp_thms)
  from this [of _ "CHR 10", unfolded ten] have "(of_char c :: byte) = 10 \<longleftrightarrow> c = CHR 10" for c .
  then show ?thesis unfolding as_bytes_def set_map image_iff by metis
qed

lemma crlf_encoded: "list_all line_ok ls \<Longrightarrow> crlf_lines (encoded_lines ls) = (map as_bytes ls, [])"
proof (induction ls)
  case (Cons l ls)
  then have "crlf_lines (as_bytes l) = ([], as_bytes l)" by (intro no_line_feed) (simp add: line_feed_byte line_ok_def)
  from crlf_lines_line [OF this] Cons show ?case by (simp add: encoded_lines_def)
qed (simp add: encoded_lines_def)

lemma fresh_stream_before:
  assumes "list_all line_ok ls" "concat chunks = encoded_lines ls" "[] \<notin> set chunks"
  shows "before_lines (fresh_stream chunks) ls [] False"
proof -
  have "control_incoming (fresh_stream chunks) = encoded_lines ls"
    using assms(2) by (simp add: control_incoming_def fresh_stream_def comp_def)
  with crlf_encoded [OF assms(1)] have c: "crlf_lines (control_incoming (fresh_stream chunks)) = (map as_bytes ls, [])" by simp
  have "lines_ahead (fresh_stream chunks) = ls"
    unfolding lines_ahead_def c by (simp add: fresh_stream_def comp_def)
  moreover have "arriving (fresh_stream chunks)"
    unfolding arriving_def c using assms(1, 3) by (auto simp: fresh_stream_def line_ok_def list_all_iff)
  ultimately show ?thesis by (simp add: before_lines_def fresh_stream_def)
qed

section \<open>Lines that panic\<close>

lemma read_reply_Panic: "fst (reply_loop P s) = Panic \<Longrightarrow> fst (read_reply P s) = Panic"
  by (cases "reply_loop P s") (simp add: read_reply_def action_defs)

text \<open>A line of fewer than three bytes inside a reply.\<close>

lemma short_line_panics:
  assumes "before_lines s (l # ls) (e # pr) False" "length l < 3"
  shows "fst (read_reply P s) = Panic"
proof -
  obtain t where t: "read_line s = (Ok (Some l), t)" "before_lines t ls (e # pr) False"
    using before_lines_read [OF assms(1)] by blast
  have "str_slice l 0 3 = Panic" "str_slice e 0 3 \<noteq> OutOfFuel"
    using assms(2) by (simp_all add: str_slice_def is_char_boundary_def)
  with t(2) have "fst (reply_line P l t) = Panic"
    by (cases "str_slice e 0 3") (auto simp: reply_line_def same_status_def before_lines_def action_defs slice_def)
  with t(1) show ?thesis
    by (intro read_reply_Panic) (subst reply_loop.simps, cases "reply_line P l t", simp)
qed

text \<open>A line that is only a status code is taken for the beginning of a value, whose entry is too short to strip.\<close>

lemma bare_code_panics:
  assumes P: "pattern_laws P" and code: "status_text code"
    and s: "before_lines s (code # ''.'' # (code @ CHR '' '' # final) # ls) [] False"
  shows "fst (read_reply P s) = Panic"
proof -
  from code have c: "ascii_start code" "three_digits code" "length code = 3"
    by (auto elim!: status_textE simp: ascii_start_def three_digits_def digit_ascii)
  with P have k: "\<not> end_reply_line P code" "\<not> single_line_data P code" "multi_line_data P code"
    by (auto simp: pattern_laws_def)
  then have "reply_line P code t = (Ret (Ok False), t\<lparr> pending_reply := [code], reading_multiline_value := True \<rparr>)"
    if "pending_reply t = []" "reading_multiline_value t = False" for t
    using that by (simp add: reply_line_def same_status_def sort_line_def action_defs)
  from reply_loop_step [OF s this] obtain t where
    t: "reply_loop P s = reply_loop P t" "before_lines t (''.'' # (code @ CHR '' '' # final) # ls) [code] True" by blast
  have "ascii_start ''.''" "\<not> three_digits ''.''" by (simp_all add: ascii_start_def three_digits_def)
  with P have "\<not> end_reply_line P ''.''" "\<not> single_line_data P ''.''" "\<not> multi_line_data P ''.''"
    by (auto simp: pattern_laws_def)
  then have "reply_line P ''.'' v = (Ret (Ok False), v\<lparr> pending_reply := [code], reading_multiline_value := False \<rparr>)"
    if "pending_reply v = [code]" "reading_multiline_value v = True" for v
    using that by (simp add: reply_line_def same_status_multi sort_line_def action_defs keep_reading)
  from reply_loop_step [OF t(2) this] obtain u where
    u: "reply_loop P t = reply_loop P u" "before_lines u ((code @ CHR '' '' # final) # ls) [code] False" by blast
  obtain v where v: "read_line u = (Ok (Some (code @ CHR '' '' # final)), v)" "before_lines v ls [code] False"
    using before_lines_read [OF u(2)] by blast
  have sl: "str_slice code 0 3 = Ret code" "str_slice code 4 (length code) = Panic"
    using c(3) by (simp_all add: str_slice_def is_char_boundary_def)
  have "reply_line P (code @ CHR '' '' # final) v = (Ret (Ok True), v\<lparr> pending_reply := [code, code @ CHR '' '' # final] \<rparr>)"
    using v(2) sl same_status_ok [OF code, of "CHR '' ''" v final] status_line_kind [OF P code, of "CHR '' ''"]
    by (simp add: reply_line_def sort_line_def action_defs before_lines_def begun_with_def)
  then have loop: "reply_loop P s = (Ret (Ok True), v\<lparr> pending_reply := [code, code @ CHR '' '' # final] \<rparr>)"
    unfolding t(1) u(1) by (subst reply_loop.simps) (simp add: v(1))
  have "strip_codes code [code, code @ CHR '' '' # final] = Panic" using sl(2) by (simp add: starts_with_def)
  with loop sl(1) show ?thesis
    by (simp add: read_reply_def finish_reply_def action_defs slice_def parse_status [OF code])
qed

end
