(* ===== verification/Tor_Version.thy ===== *)
theory Tor_Version
  imports Text_Parsing "HOL-Library.Product_Lexorder"
begin

text \<open>
  Version numbers of the tor daemon (\<open>tor-interface/src/legacy_tor_version.rs\<close>): construction,
  reading, printing and the partial order. The numbers are 32-bit words.
\<close>

section \<open>Versions\<close>

type_synonym u32 = "32 word"

datatype version_error = VersionParseError string

record legacy_tor_version =
  major :: u32
  minor :: u32
  micro :: u32
  patch_level :: u32
  status_tag :: "string option"

definition status_tag_pattern_is_match :: "string \<Rightarrow> bool" where
  "status_tag_pattern_is_match tag \<longleftrightarrow> tag \<noteq> [] \<and> \<not> has_whitespace tag"

definition version_new ::
  "u32 \<Rightarrow> u32 \<Rightarrow> u32 \<Rightarrow> u32 option \<Rightarrow> string option \<Rightarrow> (legacy_tor_version, version_error) result" where
  "version_new mj mn mc patch tag =
     (case (case tag of
              Some t \<Rightarrow> if status_tag_pattern_is_match t then Ok (Some t)
                        else Err (VersionParseError ''tor version status tag may not be empty or contain white-space'')
            | None \<Rightarrow> Ok None) of
        Err e \<Rightarrow> Err e
      | Ok tag \<Rightarrow> Ok \<lparr> major = mj, minor = mn, micro = mc,
                       patch_level = (case patch of Some p \<Rightarrow> p | None \<Rightarrow> 0), status_tag = tag \<rparr>)"

section \<open>Reading\<close>

definition parse_u32 :: "string \<Rightarrow> u32 option" where
  "parse_u32 s = map_option of_nat (parse_unsigned 32 s)"

text \<open>The next token as a number of the version; a missing token has its own text.\<close>

definition version_number :: "string \<Rightarrow> string list \<Rightarrow> (u32 \<times> string list, version_error) result" where
  "version_number part tokens = (case tokens of
      [] \<Rightarrow> Err (VersionParseError (''failed to find '' @ part @ '' portion of tor version''))
    | t # ts \<Rightarrow> (case parse_u32 t of
        Some n \<Rightarrow> Ok (n, ts)
      | None \<Rightarrow> Err (VersionParseError (''failed to parse '' @ quoted t @ '' as '' @ part @ '' portion of tor version''))))"

definition version_patch_level :: "string list \<Rightarrow> (u32, version_error) result" where
  "version_patch_level tokens = (case tokens of
      [] \<Rightarrow> Ok 0
    | t # ts \<Rightarrow> (case parse_u32 t of
        Some n \<Rightarrow> Ok n
      | None \<Rightarrow> Err (VersionParseError (''failed to parse '' @ quoted t @ '' as PATCHLEVEL portion of tor version''))))"

definition version_numbers :: "string \<Rightarrow> (u32 \<times> u32 \<times> u32 \<times> u32, version_error) result" where
  "version_numbers version =
     (case version_number ''MAJOR'' (split_on (CHR ''.'') version) of
        Err e \<Rightarrow> Err e
      | Ok (mj, ts) \<Rightarrow>
     (case version_number ''MINOR'' ts of
        Err e \<Rightarrow> Err e
      | Ok (mn, ts) \<Rightarrow>
     (case version_number ''MICRO'' ts of
        Err e \<Rightarrow> Err e
      | Ok (mc, ts) \<Rightarrow>
     (case version_patch_level ts of
        Err e \<Rightarrow> Err e
      | Ok p \<Rightarrow> Ok (mj, mn, mc, p)))))"

fun extra_info_check :: "string list \<Rightarrow> (unit, version_error) result" where
  "extra_info_check [] = Ok ()"
| "extra_info_check (t # ts) =
     (if \<not> starts_with t ''('' \<or> \<not> ends_with t '')''
      then Err (VersionParseError (''failed to parse '' @ quoted t @ '' as [ (EXTRA_INFO)]''))
      else extra_info_check ts)"

definition version_from_str :: "string \<Rightarrow> (legacy_tor_version, version_error) result" where
  "version_from_str s = (case split_on (CHR '' '') s of
      version_status_tag # extra \<Rightarrow>
        (case split_on (CHR ''-'') version_status_tag of
           version # tags \<Rightarrow>
             (case version_numbers version of
                Err e \<Rightarrow> Err e
              | Ok (mj, mn, mc, p) \<Rightarrow>
                  (case extra_info_check extra of
                     Err e \<Rightarrow> Err e
                   | Ok _ \<Rightarrow> version_new mj mn mc (Some p) (case tags of [] \<Rightarrow> None | t # _ \<Rightarrow> Some t)))))"

section \<open>Printing\<close>

definition version_to_string :: "legacy_tor_version \<Rightarrow> string" where
  "version_to_string v =
     decimal (unat (major v)) @ ''.'' @ decimal (unat (minor v)) @ ''.'' @ decimal (unat (micro v)) @ ''.'' @
     decimal (unat (patch_level v)) @ (case status_tag v of Some t \<Rightarrow> ''-'' @ t | None \<Rightarrow> '''')"

section \<open>Order\<close>

datatype ordering = Less | Equal | Greater

definition cmp :: "'a::linorder \<Rightarrow> 'a \<Rightarrow> ordering" where
  "cmp a b = (if a < b then Less else if a = b then Equal else Greater)"

definition version_eq :: "legacy_tor_version \<Rightarrow> legacy_tor_version \<Rightarrow> bool" where
  "version_eq v w \<longleftrightarrow> major v = major w \<and> minor v = minor w \<and> micro v = micro w \<and>
     patch_level v = patch_level w \<and> status_tag v = status_tag w"

definition version_partial_cmp :: "legacy_tor_version \<Rightarrow> legacy_tor_version \<Rightarrow> ordering option" where
  "version_partial_cmp v w =
     (if cmp (major v) (major w) \<noteq> Equal then Some (cmp (major v) (major w))
      else if cmp (minor v) (minor w) \<noteq> Equal then Some (cmp (minor v) (minor w))
      else if cmp (micro v) (micro w) \<noteq> Equal then Some (cmp (micro v) (micro w))
      else if cmp (patch_level v) (patch_level w) \<noteq> Equal then Some (cmp (patch_level v) (patch_level w))
      else if status_tag v = status_tag w then Some Equal
      else None)"

section \<open>Properties\<close>

definition version_wf :: "legacy_tor_version \<Rightarrow> bool" where
  "version_wf v \<longleftrightarrow> (\<forall>t. status_tag v = Some t \<longrightarrow> status_tag_pattern_is_match t)"

lemma version_new_wf: "version_new mj mn mc p t = Ok v \<Longrightarrow> version_wf v"
  by (auto simp: version_new_def version_wf_def split: option.splits result.splits if_splits)

lemma version_from_str_wf: "version_from_str s = Ok v \<Longrightarrow> version_wf v"
  by (auto simp: version_from_str_def dest: version_new_wf split: list.splits result.splits)

lemma parse_u32_decimal: "parse_u32 (decimal (unat n)) = Some n"
proof -
  have "unat n < 2 ^ LENGTH(32)" by (rule unsigned_less)
  then show ?thesis by (simp add: parse_u32_def parse_decimal)
qed

lemma version_numbers_decimal:
  "version_numbers (decimal (unat a) @ CHR ''.'' # decimal (unat b) @ CHR ''.'' # decimal (unat c) @ CHR ''.'' # decimal (unat d)) =
     Ok (a, b, c, d)"
  by (simp add: version_numbers_def version_number_def version_patch_level_def split_on_append split_on_word
      decimal_free not_digit parse_u32_decimal)

text \<open>What is printed is read back, unless the tag has a hyphen: the reader stops at it.\<close>

lemma version_reads_back:
  assumes "version_wf v" "\<forall>t. status_tag v = Some t \<longrightarrow> CHR ''-'' \<notin> set t"
  shows "version_from_str (version_to_string v) = Ok v"
proof -
  let ?n = "decimal (unat (major v)) @ CHR ''.'' # decimal (unat (minor v)) @ CHR ''.'' # decimal (unat (micro v)) @ CHR ''.'' #
    decimal (unat (patch_level v))"
  have sep: "CHR '' '' \<notin> set ?n" "CHR ''-'' \<notin> set ?n" by (simp_all add: decimal_free not_digit)
  show ?thesis
  proof (cases "status_tag v")
    case None
    with sep show ?thesis
      by (simp add: version_from_str_def version_to_string_def split_on_word version_numbers_decimal version_new_def)
  next
    case (Some t)
    with assms have t: "CHR '' '' \<notin> set t" "CHR ''-'' \<notin> set t" "status_tag_pattern_is_match t"
      by (auto simp: version_wf_def status_tag_pattern_is_match_def dest: has_whitespace_space)
    have str: "version_to_string v = ?n @ CHR ''-'' # t" by (simp add: version_to_string_def Some)
    have "split_on (CHR '' '') (?n @ CHR ''-'' # t) = [?n @ CHR ''-'' # t]" using sep t by (intro split_on_word) auto
    moreover have "split_on (CHR ''-'') (?n @ CHR ''-'' # t) = [?n, t]" unfolding split_on_append [OF sep(2)] split_on_word [OF t(2)] ..
    ultimately show ?thesis unfolding str
      using Some t by (simp only: version_from_str_def) (simp add: version_numbers_decimal version_new_def)
  qed
qed

lemma version_partial_cmp_spec:
  "version_partial_cmp v w = Some Less \<longleftrightarrow>
     (major v, minor v, micro v, patch_level v) < (major w, minor w, micro w, patch_level w)"
  "version_partial_cmp v w = Some Equal \<longleftrightarrow> v = w"
  by (auto simp: version_partial_cmp_def cmp_def)

end
