(* ===== verification/Tor_Controller.thy ===== *)
theory Tor_Controller
  imports Control_Replies Tor_Version Tor_Crypto
begin

text \<open>
  The commands of the control port (\<open>tor-interface/src/legacy_tor_controller.rs\<close>): a command is
  written and the replies are read until one is not an asynchronous event; events are kept and
  handed out later. Waiting for a reply has no bound in the code, so \<open>wait_sync_reply\<close> takes fuel.
  The patterns of the events are parameters.
\<close>

section \<open>Strings\<close>

text \<open>\<open>trim\<close>, \<open>find\<close>, \<open>contains\<close> and \<open>replace\<close> of a character.\<close>

definition spaces :: "string list" where
  "spaces = map (\<lambda>n. [char_of n]) [9, 10, 11, 12, 13, 32 :: nat] @ wide_spaces"

lemma spaces_not_Nil: "w \<in> set spaces \<Longrightarrow> w \<noteq> []"
  by (auto simp: spaces_def wide_spaces_def)

function trim_start :: "string \<Rightarrow> string" where
  "trim_start s = (case find (\<lambda>w. starts_with s w) spaces of None \<Rightarrow> s | Some w \<Rightarrow> trim_start (drop (length w) s))"
  by pat_completeness auto
termination
proof (relation "measure length", goal_cases)
  case (2 s w)
  then have w: "w \<in> set spaces" "starts_with s w" by (auto simp: find_Some_iff)
  then have "w \<noteq> []" by (simp add: spaces_not_Nil)
  moreover from this w(2) have "s \<noteq> []" by (auto simp: starts_with_def)
  ultimately show ?case by simp
qed simp

function trim_end :: "string \<Rightarrow> string" where
  "trim_end s = (case find (\<lambda>w. ends_with s w) spaces of None \<Rightarrow> s | Some w \<Rightarrow> trim_end (take (length s - length w) s))"
  by pat_completeness auto
termination
proof (relation "measure length", goal_cases)
  case (2 s w)
  then have w: "w \<in> set spaces" "ends_with s w" by (auto simp: find_Some_iff)
  then have "w \<noteq> []" by (simp add: spaces_not_Nil)
  moreover from this w(2) have "s \<noteq> []" by (auto simp: ends_with_def starts_with_def)
  ultimately show ?case by simp
qed simp

declare trim_start.simps [simp del] trim_end.simps [simp del]

definition trim :: "string \<Rightarrow> string" where
  "trim s = trim_end (trim_start s)"

fun str_find :: "string \<Rightarrow> string \<Rightarrow> nat option" where
  "str_find p [] = (if p = [] then Some 0 else None)"
| "str_find p (c # cs) = (if starts_with (c # cs) p then Some 0 else map_option Suc (str_find p cs))"

definition str_contains :: "string \<Rightarrow> string \<Rightarrow> bool" where
  "str_contains s p \<longleftrightarrow> str_find p s \<noteq> None"

definition replace_char :: "char \<Rightarrow> string \<Rightarrow> string \<Rightarrow> string" where
  "replace_char c r s = concat (map (\<lambda>x. if x = c then r else [x]) s)"

definition quoted_string :: "string \<Rightarrow> string" where
  "quoted_string s = replace_char (CHR 34) [CHR 92, CHR 34] (replace_char (CHR 92) [CHR 92, CHR 92] s)"

section \<open>The controller\<close>

datatype controller_error =
    EventRegexCreationFailed
  | ReadReplyFailed control_error
  | UnexpectedSynchonousReplyReceived
  | WriteCommandFailed control_error
  | InvalidCommandArguments string
  | CommandFailed u32 "string list"
  | CommandReplyParseFailed string
  | TorVersionParseFailed version_error

record add_onion_flags =
  discard_pk :: bool
  detach :: bool
  v3_auth :: bool
  non_anonymous :: bool
  max_streams_close_circuit :: bool

record onion_client_auth_add_flags =
  permanent :: bool

datatype async_event =
    Unknown "string list"
  | StatusClient string string "(string \<times> string) list"
  | HsDesc string v3_onion_service_id

record event_patterns =
  status_event_pattern :: "string \<Rightarrow> (string \<times> string) option"
  status_event_argument_pattern :: "string \<Rightarrow> (string \<times> string) list"
  hs_desc_pattern :: "string \<Rightarrow> (string \<times> string) option"

record control_env =
  ce_crypto :: crypto_ops
  ce_text :: text_ops
  ce_control :: control_patterns
  ce_events :: event_patterns

record tor_controller =
  tc_stream :: control_stream
  tc_async_replies :: "reply list"

definition tor_controller_new :: "control_stream \<Rightarrow> tor_controller" where
  "tor_controller_new s = \<lparr> tc_stream = s, tc_async_replies = [] \<rparr>"

text \<open>A call on the control stream, with the error it becomes.\<close>

definition on_stream ::
  "(control_error \<Rightarrow> controller_error) \<Rightarrow> (control_stream, ('a, control_error) result) action \<Rightarrow>
   (tor_controller, ('a, controller_error) result) action" where
  "on_stream f m c = (case m (tc_stream c) of
      (Ret (Ok a), s) \<Rightarrow> (Ret (Ok a), c\<lparr> tc_stream := s \<rparr>)
    | (Ret (Err e), s) \<Rightarrow> (Ret (Err (f e)), c\<lparr> tc_stream := s \<rparr>)
    | (Panic, s) \<Rightarrow> (Panic, c\<lparr> tc_stream := s \<rparr>)
    | (OutOfFuel, s) \<Rightarrow> (OutOfFuel, c\<lparr> tc_stream := s \<rparr>))"

section \<open>Events\<close>

lemma reply_loop_weight: "reply_loop P s = (Ret (Ok b), t) \<Longrightarrow> stream_weight t < stream_weight s \<or> \<not> b"
proof (induction P s arbitrary: t rule: reply_loop.induct)
  case (1 P s)
  show ?case
  proof (cases "\<exists>l u. read_line s = (Ok (Some l), u)")
    case True
    then obtain l u where r: "read_line s = (Ok (Some l), u)" by blast
    obtain z v where v: "reply_line P l u = (z, v)" by fastforce
    have w: "stream_weight v < stream_weight s"
      using read_line_weight [OF r] reply_line_weight [of P l u] v by simp
    from "1.prems" r v have "(z = Ret (Ok False) \<and> reply_loop P v = (Ret (Ok b), t)) \<or> v = t"
      by (subst (asm) reply_loop.simps) (auto split: outcome.splits result.splits bool.splits)
    with "1.IH" [OF r [symmetric] refl refl] v w show ?thesis by fastforce
  next
    case False
    with "1.prems" show ?thesis
      by (subst (asm) reply_loop.simps) (auto split: prod.splits result.splits option.splits)
  qed
qed

lemma read_reply_weight: "read_reply P s = (Ret (Ok (Some r)), t) \<Longrightarrow> stream_weight t < stream_weight s"
proof -
  assume "read_reply P s = (Ret (Ok (Some r)), t)"
  then obtain u where u: "reply_loop P s = (Ret (Ok True), u)" "finish_reply u = (Ret (Ok (Some r)), t)"
    unfolding read_reply_def try_then_Ok_iff by (auto simp: ret_def split: if_splits)
  from u(2) have "stream_weight t = stream_weight u"
    by (auto simp: finish_reply_def Let_def action_defs slice_def stream_weight_def split: list.splits outcome.splits option.splits)
  with reply_loop_weight [OF u(1)] show ?thesis by simp
qed

function wait_replies :: "control_patterns \<Rightarrow> reply list \<Rightarrow> (control_stream, (reply list, control_error) result) action" where
  "wait_replies P replies s = (case read_reply P s of
      (Ret (Ok (Some reply)), t) \<Rightarrow> wait_replies P (replies @ [reply]) t
    | (Ret (Ok None), t) \<Rightarrow> (Ret (Ok replies), t)
    | (Ret (Err e), t) \<Rightarrow> (Ret (Err e), t)
    | (Panic, t) \<Rightarrow> (Panic, t)
    | (OutOfFuel, t) \<Rightarrow> (OutOfFuel, t))"
  by pat_completeness auto
termination
  by (relation "measure (\<lambda>(P, replies, s). stream_weight s)") (auto dest: read_reply_weight [OF sym])

declare wait_replies.simps [simp del]

definition wait_async_replies :: "control_env \<Rightarrow> (tor_controller, (reply list, controller_error) result) action" where
  "wait_async_replies E c =
     on_stream ReadReplyFailed (wait_replies (ce_control E) (tc_async_replies c)) (c\<lparr> tc_async_replies := [] \<rparr>)"

text \<open>The value of an argument loses its quotes.\<close>

definition argument_value :: "string \<Rightarrow> string outcome" where
  "argument_value value =
     (if starts_with value [CHR 34] \<and> ends_with value [CHR 34] then str_slice value 1 (length value - 1) else Ret value)"

fun event_arguments :: "(string \<times> string) list \<Rightarrow> (string \<times> string) list outcome" where
  "event_arguments [] = Ret []"
| "event_arguments ((key, value) # kvs) = (case argument_value value of
      Ret v \<Rightarrow> (case event_arguments kvs of Ret r \<Rightarrow> Ret ((key, v) # r) | Panic \<Rightarrow> Panic | OutOfFuel \<Rightarrow> OutOfFuel)
    | Panic \<Rightarrow> Panic | OutOfFuel \<Rightarrow> OutOfFuel)"

definition reply_to_event :: "control_env \<Rightarrow> reply \<Rightarrow> (tor_controller, (async_event, controller_error) result) action" where
  "reply_to_event E reply =
     (if status_code reply \<noteq> 650 then ret (Err UnexpectedSynchonousReplyReceived)
      else
        let reply_text = join_with '' '' (reply_lines reply) in
        case status_event_pattern (ce_events E) reply_text of
          Some (severity, act) \<Rightarrow>
            andthen (\<lambda>c. (event_arguments (status_event_argument_pattern (ce_events E) reply_text), c)) (\<lambda>arguments.
              ret (Ok (StatusClient severity act arguments)))
        | None \<Rightarrow>
            (case hs_desc_pattern (ce_events E) reply_text of
               Some (act, hs_address) \<Rightarrow>
                 (case service_id_from_string (ce_crypto E) hs_address of
                    Ok hs_address \<Rightarrow> ret (Ok (HsDesc act hs_address))
                  | Err _ \<Rightarrow> ret (Ok (Unknown (reply_lines reply))))
             | None \<Rightarrow> ret (Ok (Unknown (reply_lines reply)))))"

fun replies_to_events :: "control_env \<Rightarrow> reply list \<Rightarrow> (tor_controller, (async_event list, controller_error) result) action" where
  "replies_to_events E [] = ret (Ok [])"
| "replies_to_events E (r # rs) =
     try_then (reply_to_event E r) (\<lambda>e. try_then (replies_to_events E rs) (\<lambda>es. ret (Ok (e # es))))"

definition wait_async_events :: "control_env \<Rightarrow> (tor_controller, (async_event list, controller_error) result) action" where
  "wait_async_events E = try_then (wait_async_replies E) (replies_to_events E)"

section \<open>Commands\<close>

fun wait_sync_reply :: "control_env \<Rightarrow> nat \<Rightarrow> (tor_controller, (reply, controller_error) result) action" where
  "wait_sync_reply E 0 c = (OutOfFuel, c)"
| "wait_sync_reply E (Suc n) c =
     try_then (on_stream ReadReplyFailed (read_reply (ce_control E))) (\<lambda>r.
       case r of
         Some reply \<Rightarrow>
           if status_code reply = 650
           then (\<lambda>c. wait_sync_reply E n (c\<lparr> tc_async_replies := tc_async_replies c @ [reply] \<rparr>))
           else ret (Ok reply)
       | None \<Rightarrow> wait_sync_reply E n) c"

definition write_command :: "control_env \<Rightarrow> nat \<Rightarrow> string \<Rightarrow> (tor_controller, (reply, controller_error) result) action" where
  "write_command E n txt =
     try_then (on_stream WriteCommandFailed (\<lambda>s. case control_write txt s of (r, t) \<Rightarrow> (Ret r, t))) (\<lambda>_. wait_sync_reply E n)"

definition setconf_command :: "(string \<times> string) list \<Rightarrow> string" where
  "setconf_command key_values = join_with '' '' (''SETCONF'' #
     map (\<lambda>(key, value). key @ [CHR ''='', CHR 34] @ quoted_string (trim value) @ [CHR 34]) key_values)"

definition setconf_cmd :: "control_env \<Rightarrow> nat \<Rightarrow> (string \<times> string) list \<Rightarrow> (tor_controller, (reply, controller_error) result) action" where
  "setconf_cmd E n key_values =
     (if key_values = [] then ret (Err (InvalidCommandArguments ''SETCONF key-value pairs list must not be empty''))
      else write_command E n (setconf_command key_values))"

definition setevents_cmd :: "control_env \<Rightarrow> nat \<Rightarrow> string list \<Rightarrow> (tor_controller, (reply, controller_error) result) action" where
  "setevents_cmd E n event_codes =
     (if event_codes = [] then ret (Err (InvalidCommandArguments ''SETEVENTS event codes list mut not be empty''))
      else write_command E n (''SETEVENTS '' @ join_with '' '' event_codes))"

definition authenticate_cmd :: "control_env \<Rightarrow> nat \<Rightarrow> string \<Rightarrow> (tor_controller, (reply, controller_error) result) action" where
  "authenticate_cmd E n password = write_command E n (''AUTHENTICATE '' @ [CHR 34] @ quoted_string password @ [CHR 34])"

definition getinfo_cmd :: "control_env \<Rightarrow> nat \<Rightarrow> string list \<Rightarrow> (tor_controller, (reply, controller_error) result) action" where
  "getinfo_cmd E n keywords =
     (if keywords = [] then ret (Err (InvalidCommandArguments ''GETINFO keywords list must not be empty''))
      else write_command E n (''GETINFO '' @ join_with '' '' keywords))"

definition add_onion_flag_names :: "add_onion_flags \<Rightarrow> string list" where
  "add_onion_flag_names flags =
     (if discard_pk flags then [''DiscardPK''] else []) @ (if detach flags then [''Detach''] else []) @
     (if v3_auth flags then [''V3Auth''] else []) @ (if non_anonymous flags then [''NonAnonymous''] else []) @
     (if max_streams_close_circuit flags then [''MaxStreamsCloseCircuit''] else [])"

definition add_onion_command ::
  "crypto_ops \<Rightarrow> ed25519_private_key option \<Rightarrow> add_onion_flags \<Rightarrow> u16 option \<Rightarrow> u16 \<Rightarrow> socket_addr option \<Rightarrow>
   x25519_public_key list option \<Rightarrow> string" where
  "add_onion_command C key flags max_streams virt_port target client_auth =
     (let flag_buffer = add_onion_flag_names flags in
      join_with '' ''
       ([''ADD_ONION''] @
        [case key of Some k \<Rightarrow> ed25519_private_to_key_blob C k | None \<Rightarrow> ''NEW:ED25519-V3''] @
        (if flag_buffer \<noteq> [] then [''Flags='' @ join_with '','' flag_buffer] else []) @
        (case max_streams of Some m \<Rightarrow> [''MaxStreams='' @ decimal (unat m)] | None \<Rightarrow> []) @
        [case target of
           Some t \<Rightarrow> ''Port='' @ decimal (unat virt_port) @ '','' @ socket_addr_fmt t
         | None \<Rightarrow> ''Port='' @ decimal (unat virt_port)] @
        (case client_auth of Some keys \<Rightarrow> map (\<lambda>k. ''ClientAuthV3='' @ x25519_public_to_base32 C k) keys | None \<Rightarrow> [])))"

definition add_onion_cmd ::
  "control_env \<Rightarrow> nat \<Rightarrow> ed25519_private_key option \<Rightarrow> add_onion_flags \<Rightarrow> u16 option \<Rightarrow> u16 \<Rightarrow> socket_addr option \<Rightarrow>
   x25519_public_key list option \<Rightarrow> (tor_controller, (reply, controller_error) result) action" where
  "add_onion_cmd E n key flags max_streams virt_port target client_auth =
     write_command E n (add_onion_command (ce_crypto E) key flags max_streams virt_port target client_auth)"

definition del_onion_cmd :: "control_env \<Rightarrow> nat \<Rightarrow> v3_onion_service_id \<Rightarrow> (tor_controller, (reply, controller_error) result) action" where
  "del_onion_cmd E n service_id = write_command E n (''DEL_ONION '' @ service_id_to_string service_id)"

definition onion_client_auth_add_cmd ::
  "control_env \<Rightarrow> nat \<Rightarrow> v3_onion_service_id \<Rightarrow> x25519_private_key \<Rightarrow> string option \<Rightarrow> onion_client_auth_add_flags \<Rightarrow>
   (tor_controller, (reply, controller_error) result) action" where
  "onion_client_auth_add_cmd E n service_id private_key client_name flags =
     write_command E n (join_with '' ''
       ([''ONION_CLIENT_AUTH_ADD'', service_id_to_string service_id,
         ''x25519:'' @ x25519_private_to_base64 (ce_crypto E) private_key] @
        (case client_name of Some name \<Rightarrow> [''ClientName='' @ name] | None \<Rightarrow> []) @
        (if permanent flags then [''Flags=Permanent''] else [])))"

definition onion_client_auth_remove_cmd ::
  "control_env \<Rightarrow> nat \<Rightarrow> v3_onion_service_id \<Rightarrow> (tor_controller, (reply, controller_error) result) action" where
  "onion_client_auth_remove_cmd E n service_id = write_command E n (''ONION_CLIENT_AUTH_REMOVE '' @ service_id_to_string service_id)"

section \<open>Typed commands\<close>

definition expect_codes :: "u32 list \<Rightarrow> reply \<Rightarrow> ('s, (unit, controller_error) result) action" where
  "expect_codes codes reply =
     (if status_code reply \<in> set codes then ret (Ok ()) else ret (Err (CommandFailed (status_code reply) (reply_lines reply))))"

definition setconf :: "control_env \<Rightarrow> nat \<Rightarrow> (string \<times> string) list \<Rightarrow> (tor_controller, (unit, controller_error) result) action" where
  "setconf E n key_values = try_then (setconf_cmd E n key_values) (expect_codes [250])"

definition setevents :: "control_env \<Rightarrow> nat \<Rightarrow> string list \<Rightarrow> (tor_controller, (unit, controller_error) result) action" where
  "setevents E n events = try_then (setevents_cmd E n events) (expect_codes [250])"

definition authenticate :: "control_env \<Rightarrow> nat \<Rightarrow> string \<Rightarrow> (tor_controller, (unit, controller_error) result) action" where
  "authenticate E n password = try_then (authenticate_cmd E n password) (expect_codes [250])"

text \<open>The indices found lie before or behind an ASCII character, so these slices do not panic.\<close>

fun info_key_values :: "string list \<Rightarrow> (string \<times> string) list" where
  "info_key_values [] = []"
| "info_key_values (line # ls) = (case str_find ''='' line of
      Some i \<Rightarrow> (take i line, drop (i + 1) line) # info_key_values ls
    | None \<Rightarrow> (if line \<noteq> ''OK'' then [(line, [])] else []) @ info_key_values ls)"

definition getinfo :: "control_env \<Rightarrow> nat \<Rightarrow> string list \<Rightarrow> (tor_controller, ((string \<times> string) list, controller_error) result) action" where
  "getinfo E n keywords = try_then (getinfo_cmd E n keywords) (\<lambda>reply.
     if status_code reply = 250 then ret (Ok (info_key_values (reply_lines reply)))
     else ret (Err (CommandFailed (status_code reply) (reply_lines reply))))"

fun add_onion_lines ::
  "crypto_ops \<Rightarrow> x25519_public_key list option \<Rightarrow> string list \<Rightarrow> ed25519_private_key option \<Rightarrow> v3_onion_service_id option \<Rightarrow>
   (ed25519_private_key option \<times> v3_onion_service_id option, controller_error) result" where
  "add_onion_lines C client_auth [] private_key service_id = Ok (private_key, service_id)"
| "add_onion_lines C client_auth (line # ls) private_key service_id =
     (case str_find ''ServiceID='' line of
        Some i \<Rightarrow>
          if service_id \<noteq> None then Err (CommandReplyParseFailed ''received duplicate ServiceID entries'')
          else
            let service_id_string = drop (i + length ''ServiceId='') line in
            (case service_id_from_string C service_id_string of
               Ok sid \<Rightarrow> add_onion_lines C client_auth ls private_key (Some sid)
             | Err _ \<Rightarrow> Err (CommandReplyParseFailed (''could not parse '' @ quoted service_id_string @ '' as V3OnionServiceId'')))
      | None \<Rightarrow>
          (case str_find ''PrivateKey='' line of
             Some i \<Rightarrow>
               if private_key \<noteq> None then Err (CommandReplyParseFailed ''received duplicate PrivateKey entries'')
               else
                 let key_blob_string = drop (i + length ''PrivateKey='') line in
                 (case ed25519_private_from_key_blob_legacy C key_blob_string of
                    Ok k \<Rightarrow> add_onion_lines C client_auth ls (Some k) service_id
                  | Err _ \<Rightarrow> Err (CommandReplyParseFailed (''could not parse '' @ key_blob_string @ '' as Ed25519PrivateKey'')))
           | None \<Rightarrow>
               if str_contains line ''ClientAuthV3='' then
                 if (case client_auth of Some keys \<Rightarrow> keys | None \<Rightarrow> []) = []
                 then Err (CommandReplyParseFailed ''recieved unexpected ClientAuthV3 keys'')
                 else add_onion_lines C client_auth ls private_key service_id
               else if \<not> str_contains line ''OK''
               then Err (CommandReplyParseFailed (''received unexpected reply line '' @ quoted line))
               else add_onion_lines C client_auth ls private_key service_id))"

definition add_onion_result ::
  "add_onion_flags \<Rightarrow> ed25519_private_key option \<times> v3_onion_service_id option \<Rightarrow>
   (ed25519_private_key option \<times> v3_onion_service_id, controller_error) result" where
  "add_onion_result flags r = (case r of (private_key, service_id) \<Rightarrow>
     if discard_pk flags \<and> private_key \<noteq> None
     then Err (CommandReplyParseFailed ''PrivateKey response should have been discard'')
     else if \<not> discard_pk flags \<and> private_key = None
     then Err (CommandReplyParseFailed ''did not receive a PrivateKey'')
     else case service_id of
       Some service_id \<Rightarrow> Ok (private_key, service_id)
     | None \<Rightarrow> Err (CommandReplyParseFailed ''did not receive a ServiceID''))"

definition add_onion ::
  "control_env \<Rightarrow> nat \<Rightarrow> ed25519_private_key option \<Rightarrow> add_onion_flags \<Rightarrow> u16 option \<Rightarrow> u16 \<Rightarrow> socket_addr option \<Rightarrow>
   x25519_public_key list option \<Rightarrow> (tor_controller, (ed25519_private_key option \<times> v3_onion_service_id, controller_error) result) action" where
  "add_onion E n key flags max_streams virt_port target client_auth =
     try_then (add_onion_cmd E n key flags max_streams virt_port target client_auth) (\<lambda>reply.
       if status_code reply = 250 then
         (case add_onion_lines (ce_crypto E) client_auth (reply_lines reply) None None of
            Err e \<Rightarrow> ret (Err e)
          | Ok r \<Rightarrow> ret (add_onion_result flags r))
       else ret (Err (CommandFailed (status_code reply) (reply_lines reply))))"

definition del_onion :: "control_env \<Rightarrow> nat \<Rightarrow> v3_onion_service_id \<Rightarrow> (tor_controller, (unit, controller_error) result) action" where
  "del_onion E n service_id = try_then (del_onion_cmd E n service_id) (expect_codes [250])"

definition bad_socket :: "string \<Rightarrow> controller_error" where
  "bad_socket socket_addr = CommandReplyParseFailed (''could not parse '' @ quoted socket_addr @ '' as socket address'')"

fun parse_listeners :: "text_ops \<Rightarrow> string list \<Rightarrow> (tor_controller, (socket_addr list, controller_error) result) action" where
  "parse_listeners X [] = ret (Ok [])"
| "parse_listeners X (a # as) =
     (if \<not> starts_with a [CHR 34] \<or> \<not> ends_with a [CHR 34] then ret (Err (bad_socket a))
      else andthen (slice a 1 (length a - 1)) (\<lambda>stripped.
        case socket_addr_from_str X stripped of
          None \<Rightarrow> ret (Err (bad_socket a))
        | Some addr \<Rightarrow> try_then (parse_listeners X as) (\<lambda>r. ret (Ok (addr # r)))))"

definition getinfo_net_listeners_socks :: "control_env \<Rightarrow> nat \<Rightarrow> (tor_controller, (socket_addr list, controller_error) result) action" where
  "getinfo_net_listeners_socks E n = try_then (getinfo E n [''net/listeners/socks'']) (\<lambda>response.
     case find (\<lambda>kv. fst kv = ''net/listeners/socks'') response of
       Some (_, value) \<Rightarrow>
         if value = [] then ret (Ok []) else parse_listeners (ce_text E) (split_on (CHR '' '') value)
     | None \<Rightarrow> ret (Err (CommandReplyParseFailed (''reply did not find a '' @ quoted ''net/listeners/socks'' @ '' key/value''))))"

definition getinfo_version :: "control_env \<Rightarrow> nat \<Rightarrow> (tor_controller, (legacy_tor_version, controller_error) result) action" where
  "getinfo_version E n = try_then (getinfo E n [''version'']) (\<lambda>response.
     case find (\<lambda>kv. fst kv = ''version'') response of
       Some (_, value) \<Rightarrow> (case version_from_str value of Ok v \<Rightarrow> ret (Ok v) | Err e \<Rightarrow> ret (Err (TorVersionParseFailed e)))
     | None \<Rightarrow> ret (Err (CommandReplyParseFailed (''did not find a '' @ quoted ''version'' @ '' key/value''))))"

definition onion_client_auth_add ::
  "control_env \<Rightarrow> nat \<Rightarrow> v3_onion_service_id \<Rightarrow> x25519_private_key \<Rightarrow> string option \<Rightarrow> onion_client_auth_add_flags \<Rightarrow>
   (tor_controller, (unit, controller_error) result) action" where
  "onion_client_auth_add E n service_id private_key client_name flags =
     try_then (onion_client_auth_add_cmd E n service_id private_key client_name flags) (expect_codes [250, 251, 252])"

definition onion_client_auth_remove ::
  "control_env \<Rightarrow> nat \<Rightarrow> v3_onion_service_id \<Rightarrow> (tor_controller, (unit, controller_error) result) action" where
  "onion_client_auth_remove E n service_id = try_then (onion_client_auth_remove_cmd E n service_id) (expect_codes [250, 251])"

end
