(* ===== verification/Legacy_Process.thy ===== *)
theory Legacy_Process
  imports Tor_Controller Provider_Host
begin

text \<open>
  The daemon process (\<open>tor-interface/src/legacy_tor_process.rs\<close>): the hash of the control password,
  the control port file and the start of the daemon. The file system and the processes are the
  operating system's, a record of functions on its state; a path is its bytes. Reading the standard
  output in a thread is the action \<open>read_stdout\<close> on the shared list of lines.
\<close>

datatype process_error =
    ControlPortFileReadFailed io_error_kind
  | ControlPortFileTooLarge string nat
  | ControlPortFileContentsInvalid string
  | TorBinPathNotAbsolute string
  | TorDataDirectoryPathNotAbsolute string
  | DataDirectoryCreationFailed io_error_kind
  | DataDirectoryPathExistsAsFile string
  | DefaultTorrcFileCreationFailed io_error_kind
  | DefaultTorrcFileWriteFailed io_error_kind
  | TorrcFileCreationFailed io_error_kind
  | ControlPortFileDeleteFailed io_error_kind
  | LegacyTorProcessStartFailed io_error_kind
  | ControlPortFileMissing string
  | LegacyTorProcessStdoutTakeFailed
  | StdoutReadThreadSpawnFailed io_error_kind

section \<open>The operating system\<close>

text \<open>
  \<open>fs_open\<close> gives the size of a file and the result of reading it as a string; \<open>fs_wait\<close> is what other
  processes do to the files between two looks at them.
\<close>

record 'f fs_ops =
  fs_exists :: "string \<Rightarrow> 'f \<Rightarrow> bool"
  fs_is_dir :: "string \<Rightarrow> 'f \<Rightarrow> bool"
  fs_is_file :: "string \<Rightarrow> 'f \<Rightarrow> bool"
  fs_create_dir :: "string \<Rightarrow> 'f \<Rightarrow> (unit, io_error_kind) result \<times> 'f"
  fs_create_dir_all :: "string \<Rightarrow> 'f \<Rightarrow> (unit, io_error_kind) result \<times> 'f"
  fs_create :: "string \<Rightarrow> 'f \<Rightarrow> (unit, io_error_kind) result \<times> 'f"
  fs_write :: "string \<Rightarrow> bytes \<Rightarrow> 'f \<Rightarrow> (unit, io_error_kind) result \<times> 'f"
  fs_remove_file :: "string \<Rightarrow> 'f \<Rightarrow> (unit, io_error_kind) result \<times> 'f"
  fs_symlink :: "string \<Rightarrow> string \<Rightarrow> 'f \<Rightarrow> (unit, io_error_kind) result \<times> 'f"
  fs_open :: "string \<Rightarrow> 'f \<Rightarrow> (nat \<times> (string, io_error_kind) result, io_error_kind) result"
  fs_spawn :: "string \<Rightarrow> string \<Rightarrow> string list \<Rightarrow> 'f \<Rightarrow> (bool, io_error_kind) result \<times> 'f"
  fs_spawn_thread :: "'f \<Rightarrow> (unit, io_error_kind) result"
  fs_wait :: "'f \<Rightarrow> 'f"
  fs_process_id :: nat

text \<open>A call of the operating system with the error it becomes.\<close>

definition os_call :: "('k \<Rightarrow> 'e) \<Rightarrow> ('f \<Rightarrow> ('a, 'k) result \<times> 'f) \<Rightarrow> ('f, ('a, 'e) result) action" where
  "os_call e m f = (case m f of (Ok a, g) \<Rightarrow> (Ret (Ok a), g) | (Err k, g) \<Rightarrow> (Ret (Err (e k)), g))"

definition path_join :: "string \<Rightarrow> string \<Rightarrow> string" where
  "path_join p q = (if ends_with p ''/'' then p @ q else p @ ''/'' @ q)"

definition is_relative :: "string \<Rightarrow> bool" where
  "is_relative p \<longleftrightarrow> \<not> starts_with p ''/''"

section \<open>The control port file\<close>

definition read_control_port_file :: "text_ops \<Rightarrow> 'f fs_ops \<Rightarrow> string \<Rightarrow> 'f \<Rightarrow> (socket_addr, process_error) result" where
  "read_control_port_file X os control_port_file f = (case fs_open os control_port_file f of
      Err k \<Rightarrow> Err (ControlPortFileReadFailed k)
    | Ok (len, contents) \<Rightarrow>
        if 1024 \<le> len then Err (ControlPortFileTooLarge control_port_file len)
        else (case contents of
          Err k \<Rightarrow> Err (ControlPortFileReadFailed k)
        | Ok contents \<Rightarrow>
            if starts_with contents ''PORT='' then
              (case socket_addr_from_str X (drop (length ''PORT='') (trim_end contents)) of
                 Some addr \<Rightarrow> Ok addr
               | None \<Rightarrow> Err (ControlPortFileContentsInvalid control_port_file))
            else Err (ControlPortFileContentsInvalid control_port_file)))"

section \<open>The password\<close>

record tor_process =
  tp_control_addr :: socket_addr
  tp_password :: string
  tp_stdout_lines :: "string list"

definition S2K_RFC2440_SPECIFIER_LEN :: nat where
  "S2K_RFC2440_SPECIFIER_LEN = 9"

definition COUNT :: nat where
  "COUNT = (16 + unat ((0x60 :: byte) AND 15)) * 2 ^ (unat (drop_bit 4 (0x60 :: byte)) + 6)"

text \<open>The loop that feeds the input, which begins with the salt and is not empty, to the hash: the bytes that are fed.\<close>

function s2k_bytes :: "bytes \<Rightarrow> nat \<Rightarrow> bytes" where
  "s2k_bytes inp cnt =
     (if 0 < cnt \<and> inp \<noteq> [] then
        (if length inp < cnt then inp @ s2k_bytes inp (cnt - length inp) else take cnt inp)
      else [])"
  by pat_completeness auto
termination by (relation "measure snd") auto

declare s2k_bytes.simps [simp del]

definition hash_tor_password_with_salt :: "(bytes \<Rightarrow> bytes) \<Rightarrow> (bytes \<Rightarrow> string) \<Rightarrow> bytes \<Rightarrow> string \<Rightarrow> string outcome" where
  "hash_tor_password_with_salt sha1 hexupper salt password =
     (if salt ! (S2K_RFC2440_SPECIFIER_LEN - 1) \<noteq> 0x60 then Panic
      else
        let inp = take (S2K_RFC2440_SPECIFIER_LEN - 1) salt @ as_bytes password;
            key = sha1 (s2k_bytes inp COUNT)
        in Ret (''16:'' @ hexupper salt @ hexupper key))"

text \<open>The salt is random but for its last byte.\<close>

definition hash_tor_password :: "(bytes \<Rightarrow> bytes) \<Rightarrow> (bytes \<Rightarrow> string) \<Rightarrow> bytes \<Rightarrow> string \<Rightarrow> string outcome" where
  "hash_tor_password sha1 hexupper random password =
     hash_tor_password_with_salt sha1 hexupper (random[S2K_RFC2440_SPECIFIER_LEN - 1 := 0x60]) password"

section \<open>Starting the daemon\<close>

definition DEFAULT_TORRC_CONTENT :: string where
  "DEFAULT_TORRC_CONTENT = ''SocksPort auto'' @ [CHR 10] @ ''AvoidDiskWrites 1'' @ [CHR 10] @ ''DisableNetwork 1'' @ [CHR 10]"

definition daemon_args :: "string \<Rightarrow> string \<Rightarrow> nat \<Rightarrow> string list" where
  "daemon_args data_directory password_hash pid =
     [''--defaults-torrc'', path_join data_directory ''default_torrc'', ''--torrc-file'', path_join data_directory ''torrc'',
      ''DataDirectory'', data_directory, ''ControlPort'', ''auto'', ''ControlPortWriteToFile'', path_join data_directory ''control_port'',
      ''HashedControlPassword'', password_hash, ''__OwningControllerProcess'', decimal pid]"

text \<open>The loop that waits for the control port file: the first argument bounds the looks that fit in five seconds.\<close>

fun await_control_port :: "nat \<Rightarrow> text_ops \<Rightarrow> 'f fs_ops \<Rightarrow> string \<Rightarrow> ('f, (socket_addr, process_error) result) action" where
  "await_control_port 0 X os file f = (Ret (Err (ControlPortFileMissing file)), f)"
| "await_control_port (Suc k) X os file f =
     (if fs_exists os file f then
        (case read_control_port_file X os file f of
           Err e \<Rightarrow> (Ret (Err e), f)
         | Ok addr \<Rightarrow> try_then (os_call ControlPortFileDeleteFailed (fs_remove_file os file)) (\<lambda>_. ret (Ok addr)) f)
      else await_control_port k X os file (fs_wait os f))"

text \<open>The random password and salt are arguments.\<close>

definition legacy_tor_process_new ::
  "nat \<Rightarrow> text_ops \<Rightarrow> 'f fs_ops \<Rightarrow> (bytes \<Rightarrow> bytes) \<Rightarrow> (bytes \<Rightarrow> string) \<Rightarrow> bytes \<Rightarrow> string \<Rightarrow> string \<Rightarrow> string \<Rightarrow>
   ('f, (tor_process, process_error) result) action" where
  "legacy_tor_process_new looks X os sha1 hexupper random password tor_bin_path data_directory =
     (if is_relative tor_bin_path then ret (Err (TorBinPathNotAbsolute tor_bin_path))
      else if is_relative data_directory then ret (Err (TorDataDirectoryPathNotAbsolute data_directory))
      else
        let default_torrc = path_join data_directory ''default_torrc'';
            torrc = path_join data_directory ''torrc'';
            control_port_file = path_join data_directory ''control_port'' in
        try_then (\<lambda>f.
          if \<not> fs_exists os data_directory f
          then os_call DataDirectoryCreationFailed (fs_create_dir_all os data_directory) f
          else if fs_is_file os data_directory f then ret (Err (DataDirectoryPathExistsAsFile data_directory)) f
          else ret (Ok ()) f) (\<lambda>_.
        try_then (\<lambda>f.
          if \<not> fs_exists os default_torrc f
          then try_then (os_call DefaultTorrcFileCreationFailed (fs_create os default_torrc)) (\<lambda>_.
            os_call DefaultTorrcFileWriteFailed (fs_write os default_torrc (as_bytes DEFAULT_TORRC_CONTENT))) f
          else ret (Ok ()) f) (\<lambda>_.
        try_then (\<lambda>f.
          if \<not> fs_exists os torrc f then os_call TorrcFileCreationFailed (fs_create os torrc) f else ret (Ok ()) f) (\<lambda>_.
        try_then (\<lambda>f.
          if fs_exists os control_port_file f
          then os_call ControlPortFileDeleteFailed (fs_remove_file os control_port_file) f else ret (Ok ()) f) (\<lambda>_.
        andthen (\<lambda>f. (hash_tor_password sha1 hexupper random password, f)) (\<lambda>password_hash.
        try_then (os_call LegacyTorProcessStartFailed
          (fs_spawn os tor_bin_path data_directory (daemon_args data_directory password_hash (fs_process_id os)))) (\<lambda>piped.
        try_then (await_control_port looks X os control_port_file) (\<lambda>control_addr.
          if \<not> piped then ret (Err LegacyTorProcessStdoutTakeFailed)
          else try_then (os_call StdoutReadThreadSpawnFailed (\<lambda>f. (fs_spawn_thread os f, f))) (\<lambda>_.
            ret (Ok \<lparr> tp_control_addr = control_addr, tp_password = password, tp_stdout_lines = [] \<rparr>))))))))))"

section \<open>Log lines\<close>

text \<open>
  One round of the reading thread: a line as \<open>read_line\<close> gives it, empty at the end of the output,
  loses its last character and is appended; an error is ignored.
\<close>

definition read_stdout :: "(string, io_error_kind) result \<Rightarrow> tor_process \<Rightarrow> tor_process" where
  "read_stdout line p = (case line of
      Ok l \<Rightarrow> p\<lparr> tp_stdout_lines := tp_stdout_lines p @ [butlast l] \<rparr>
    | Err _ \<Rightarrow> p)"

definition wait_log_lines :: "tor_process \<Rightarrow> string list \<times> tor_process" where
  "wait_log_lines p = (tp_stdout_lines p, p\<lparr> tp_stdout_lines := [] \<rparr>)"

text \<open>Dropping the process kills the daemon; what the operating system does then is given, its answer is ignored.\<close>

definition tor_process_drop :: "(tor_process \<Rightarrow> 'f \<Rightarrow> (unit, io_error_kind) result \<times> 'f) \<Rightarrow> tor_process \<Rightarrow> 'f \<Rightarrow> 'f" where
  "tor_process_drop kill p f = (case kill p f of (_, f) \<Rightarrow> f)"

section \<open>Properties\<close>

text \<open>The bytes that are hashed are the first \<open>COUNT\<close> bytes of the input repeated without end.\<close>

lemma COUNT_value: "COUNT = 65536"
  by (simp add: COUNT_def)

lemma s2k_bytes_nth:
  "inp \<noteq> [] \<Longrightarrow> length (s2k_bytes inp n) = n \<and> (\<forall>i<n. s2k_bytes inp n ! i = inp ! (i mod length inp))"
proof (induction inp n rule: s2k_bytes.induct)
  case (1 inp n)
  consider "n = 0" | "0 < n" "n \<le> length inp" | "length inp < n" by linarith
  then show ?case
  proof cases
    case 3
    with 1 have ih: "length (s2k_bytes inp (n - length inp)) = n - length inp"
      "\<forall>i<n - length inp. s2k_bytes inp (n - length inp) ! i = inp ! (i mod length inp)" by auto
    have "s2k_bytes inp n = inp @ s2k_bytes inp (n - length inp)"
      using 3 "1.prems" by (subst s2k_bytes.simps) auto
    with 3 ih show ?thesis by (auto simp: nth_append mod_if)
  qed (auto simp: s2k_bytes.simps [of inp n] s2k_bytes.simps [of inp 0] 1)
qed

lemma s2k_bytes_eq: "inp \<noteq> [] \<Longrightarrow> s2k_bytes inp n = map (\<lambda>i. inp ! (i mod length inp)) [0..<n]"
  using s2k_bytes_nth [of inp n] by (intro nth_equalityI) auto

lemma hash_tor_password_eq:
  assumes "length random = S2K_RFC2440_SPECIFIER_LEN"
  shows "hash_tor_password sha1 hexupper random password =
    (let inp = take 8 random @ as_bytes password in
     Ret (''16:'' @ hexupper (take 8 random @ [0x60]) @ hexupper (sha1 (map (\<lambda>i. inp ! (i mod length inp)) [0..<65536]))))"
proof -
  have r: "random[8 := 0x60] = take 8 random @ [0x60]"
    using assms by (simp add: S2K_RFC2440_SPECIFIER_LEN_def upd_conv_take_nth_drop)
  have "take 8 random @ as_bytes password \<noteq> []" using assms by (auto simp: S2K_RFC2440_SPECIFIER_LEN_def)
  then show ?thesis using assms
    by (simp add: hash_tor_password_def hash_tor_password_with_salt_def S2K_RFC2440_SPECIFIER_LEN_def r nth_append
        s2k_bytes_eq COUNT_value Let_def)
qed

end
