(* ===== verification/Bridge_Lines.thy ===== *)
theory Bridge_Lines
  imports Net_Address
begin

text \<open>
  Pluggable transports and bridge lines
  (\<open>tor-interface/src/censorship_circumvention.rs\<close>): validation, reading and the value for
  \<open>SETCONF\<close>. A path is absolute when it starts with a slash, as on Unix; the text of
  \<open>BinaryPathInvalid\<close> carries the path itself where the code has its debug print.
\<close>

section \<open>Pluggable transports\<close>

record pluggable_transport_config =
  pt_transports :: "string list"
  pt_path_to_binary :: string
  pt_options :: "string list"

datatype pluggable_transport_config_error =
    PtTransportNameInvalid string
  | BinaryPathInvalid string string

fun transports_check :: "text_ops \<Rightarrow> string list \<Rightarrow> (unit, pluggable_transport_config_error) result" where
  "transports_check X [] = Ok ()"
| "transports_check X (t # ts) = (if \<not> rx_transport X t then Err (PtTransportNameInvalid t) else transports_check X ts)"

definition pluggable_transport_config_new ::
  "text_ops \<Rightarrow> string list \<Rightarrow> string \<Rightarrow> (pluggable_transport_config, pluggable_transport_config_error) result" where
  "pluggable_transport_config_new X transports path =
     (case transports_check X transports of
        Err e \<Rightarrow> Err e
      | Ok _ \<Rightarrow>
          if \<not> starts_with path ''/'' then Err (BinaryPathInvalid path ''must be an absolute path'')
          else Ok \<lparr> pt_transports = transports, pt_path_to_binary = path, pt_options = [] \<rparr>)"

definition add_option :: "string \<Rightarrow> pluggable_transport_config \<Rightarrow> pluggable_transport_config" where
  "add_option arg c = c\<lparr> pt_options := pt_options c @ [arg] \<rparr>"

section \<open>Bridge lines\<close>

record bridge_line =
  bl_transport :: string
  bl_address :: socket_addr
  bl_fingerprint :: string
  bl_keyvalues :: "(string \<times> string) list"

datatype bridge_line_error =
    TransportMissing string
  | AddressMissing string
  | FingerprintMissing string
  | TransportNameInvalid string
  | AddressParseFailed string
  | KeyValueInvalid string
  | AddressPortInvalid
  | FingerprintInvalid string

fun keyvalues_check :: "(string \<times> string) list \<Rightarrow> (unit, bridge_line_error) result" where
  "keyvalues_check [] = Ok ()"
| "keyvalues_check ((key, v) # kvs) =
     (if CHR '' '' \<in> set key \<or> CHR ''='' \<in> set key \<or> length key = 0
      then Err (KeyValueInvalid (key @ ''='' @ v))
      else keyvalues_check kvs)"

definition bridge_line_new ::
  "text_ops \<Rightarrow> string \<Rightarrow> socket_addr \<Rightarrow> string \<Rightarrow> (string \<times> string) list \<Rightarrow> (bridge_line, bridge_line_error) result" where
  "bridge_line_new X transport address fingerprint keyvalues =
     (if \<not> rx_transport X transport then Err (TransportNameInvalid transport)
      else if sa_port address = 0 then Err AddressPortInvalid
      else if \<not> rx_fingerprint X fingerprint then Err (FingerprintInvalid fingerprint)
      else case keyvalues_check keyvalues of
        Err e \<Rightarrow> Err e
      | Ok _ \<Rightarrow> Ok \<lparr> bl_transport = transport, bl_address = address, bl_fingerprint = fingerprint,
                       bl_keyvalues = keyvalues \<rparr>)"

definition as_legacy_tor_setconf_value :: "bridge_line \<Rightarrow> string" where
  "as_legacy_tor_setconf_value l =
     bl_transport l @ '' '' @ socket_addr_fmt (bl_address l) @ '' '' @ bl_fingerprint l @ '' '' @
     join_with '' '' (map (\<lambda>(key, v). key @ ''='' @ v) (bl_keyvalues l))"

fun bridge_options :: "text_ops \<Rightarrow> string list \<Rightarrow> ((string \<times> string) list, bridge_line_error) result" where
  "bridge_options X [] = Ok []"
| "bridge_options X (t # ts) = (case rx_bridge_option X t of
      None \<Rightarrow> Err (KeyValueInvalid t)
    | Some kv \<Rightarrow> (case bridge_options X ts of Err e \<Rightarrow> Err e | Ok kvs \<Rightarrow> Ok (kv # kvs)))"

definition bridge_line_from_str :: "text_ops \<Rightarrow> string \<Rightarrow> (bridge_line, bridge_line_error) result" where
  "bridge_line_from_str X s = (case split_on (CHR '' '') s of
      [] \<Rightarrow> Err (TransportMissing s)
    | [transport] \<Rightarrow> Err (AddressMissing s)
    | transport # address # tokens \<Rightarrow>
        (case socket_addr_from_str X address of
           None \<Rightarrow> Err (AddressParseFailed address)
         | Some addr \<Rightarrow>
             (case tokens of
                [] \<Rightarrow> Err (FingerprintMissing s)
              | fingerprint # tokens \<Rightarrow>
                  (case bridge_options X tokens of
                     Err e \<Rightarrow> Err e
                   | Ok keyvalues \<Rightarrow> bridge_line_new X transport addr fingerprint keyvalues))))"

section \<open>Properties\<close>

lemma keyvalues_check_Ok:
  "keyvalues_check kvs = Ok () \<longleftrightarrow> (\<forall>(k, v)\<in>set kvs. CHR '' '' \<notin> set k \<and> CHR ''='' \<notin> set k \<and> k \<noteq> [])"
  by (induction kvs rule: keyvalues_check.induct) auto

definition bridge_line_valid :: "text_ops \<Rightarrow> bridge_line \<Rightarrow> bool" where
  "bridge_line_valid X l \<longleftrightarrow> rx_transport X (bl_transport l) \<and> sa_port (bl_address l) \<noteq> 0 \<and>
     rx_fingerprint X (bl_fingerprint l) \<and> keyvalues_check (bl_keyvalues l) = Ok ()"

lemma bridge_line_new_iff:
  "bridge_line_new X t a f kvs = Ok l \<longleftrightarrow>
     l = \<lparr> bl_transport = t, bl_address = a, bl_fingerprint = f, bl_keyvalues = kvs \<rparr> \<and> bridge_line_valid X l"
  by (auto simp: bridge_line_new_def bridge_line_valid_def split: result.splits)

lemma bridge_line_from_str_valid: "bridge_line_from_str X s = Ok l \<Longrightarrow> bridge_line_valid X l"
  by (auto simp: bridge_line_from_str_def bridge_line_new_iff split: list.splits option.splits result.splits)

text \<open>Lines whose texts have neither a space nor a line break.\<close>

definition plain :: "string \<Rightarrow> bool" where
  "plain s \<longleftrightarrow> CHR '' '' \<notin> set s \<and> CHR 10 \<notin> set s"

definition bridge_line_plain :: "bridge_line \<Rightarrow> bool" where
  "bridge_line_plain l \<longleftrightarrow> plain (bl_transport l) \<and> plain (bl_fingerprint l) \<and>
     (\<forall>(k, v)\<in>set (bl_keyvalues l). plain k \<and> plain v)"

lemma bridge_options_pairs:
  assumes "regex_laws X" "\<forall>(k, v)\<in>set kvs. plain k \<and> plain v \<and> k \<noteq> [] \<and> CHR ''='' \<notin> set k"
  shows "bridge_options X (map (\<lambda>(k, v). k @ ''='' @ v) kvs) = Ok kvs"
  using assms(2)
proof (induction kvs)
  case (Cons kv kvs)
  obtain k v where kv: "kv = (k, v)" by fastforce
  have "CHR 10 \<notin> set (k @ CHR ''='' # v)" using Cons.prems by (simp add: kv plain_def)
  then have "rx_bridge_option X (k @ CHR ''='' # v) = Some (k, v)"
    using assms(1) Cons.prems by (simp add: regex_laws_def kv key_value_pair)
  with Cons show ?case by (simp add: kv)
qed simp

text \<open>
  The value for \<open>SETCONF\<close> is read back. A line without options is not: its value ends in a space.
\<close>

lemma bridge_line_reads_back:
  assumes "regex_laws X" "bridge_line_valid X l" "socket_laws X (bl_address l)" "bridge_line_plain l" "bl_keyvalues l \<noteq> []"
  shows "bridge_line_from_str X (as_legacy_tor_setconf_value l) = Ok l"
proof -
  let ?kvs = "map (\<lambda>(k, v). k @ ''='' @ v) (bl_keyvalues l)"
  have kv: "\<forall>(k, v)\<in>set (bl_keyvalues l). plain k \<and> plain v \<and> k \<noteq> [] \<and> CHR ''='' \<notin> set k"
    using assms(2,4) by (fastforce simp: bridge_line_valid_def bridge_line_plain_def keyvalues_check_Ok)
  have "split_on (CHR '' '') (join_with [CHR '' ''] ?kvs) = ?kvs"
    using assms(5) kv by (intro split_on_join) (auto simp: plain_def)
  then have "split_on (CHR '' '') (as_legacy_tor_setconf_value l) =
      bl_transport l # socket_addr_fmt (bl_address l) # bl_fingerprint l # ?kvs"
    using assms(3,4) by (simp add: as_legacy_tor_setconf_value_def split_on_append socket_laws_def bridge_line_plain_def plain_def)
  then show ?thesis
    using assms(2,3) bridge_options_pairs [OF assms(1) kv]
    by (simp add: bridge_line_from_str_def socket_laws_def bridge_line_new_iff)
qed

lemma bridge_line_without_options:
  assumes "regex_laws X" "socket_laws X (bl_address l)" "bridge_line_plain l" "bl_keyvalues l = []"
  shows "bridge_line_from_str X (as_legacy_tor_setconf_value l) = Err (KeyValueInvalid '''')"
  using assms
  by (simp add: bridge_line_from_str_def as_legacy_tor_setconf_value_def split_on_append socket_laws_def
      bridge_line_plain_def plain_def regex_laws_def key_value_def)

text \<open>
  The patterns are matched line by line, so a name with a line break passes when one of its lines
  does, and the break reaches the control port.
\<close>

lemma bridge_line_break_accepted:
  assumes "regex_laws X" "c_identifier t" "CHR 10 \<notin> set t" "CHR 10 \<notin> set u" "sa_port a \<noteq> 0" "rx_fingerprint X f"
  shows "\<exists>l. bridge_line_new X (t @ CHR 10 # u) a f [] = Ok l \<and> CHR 10 \<in> set (as_legacy_tor_setconf_value l)"
proof -
  have "text_lines (t @ CHR 10 # u) = [t, u]" using assms(3,4) by (simp add: text_lines_def split_on_append split_on_word)
  with assms have "rx_transport X (t @ CHR 10 # u)" by (auto simp: regex_laws_def)
  with assms(5,6) show ?thesis by (auto simp: bridge_line_new_def as_legacy_tor_setconf_value_def)
qed

end
