(* ===== verification/Proxy_Config.thy ===== *)
theory Proxy_Config
  imports Tor_Provider
begin

text \<open>
  Proxy settings (\<open>tor-interface/src/proxy.rs\<close>): the three kinds of proxies and their validation.
\<close>

datatype proxy_config_error = ProxyGeneric string

record socks4_proxy_config =
  s4_address :: target_addr

record socks5_proxy_config =
  s5_address :: target_addr
  s5_username :: "string option"
  s5_password :: "string option"

record https_proxy_config =
  hp_address :: target_addr
  hp_username :: "string option"
  hp_password :: "string option"

datatype proxy_config = Socks4 socks4_proxy_config | Socks5 socks5_proxy_config | Https https_proxy_config

text \<open>The checks on the address, which the three constructors repeat.\<close>

definition proxy_address_check :: "target_addr \<Rightarrow> (unit, proxy_config_error) result" where
  "proxy_address_check address =
     (case (case address of
              SocketTarget a \<Rightarrow> Ok (sa_port a)
            | Domain a \<Rightarrow> Ok (da_port a)
            | OnionService _ \<Rightarrow> Err (ProxyGeneric ''proxy address may not be onion service'')) of
        Err e \<Rightarrow> Err e
      | Ok port \<Rightarrow> if port = 0 then Err (ProxyGeneric ''proxy port not be 0'') else Ok ())"

definition socks4_new :: "target_addr \<Rightarrow> (socks4_proxy_config, proxy_config_error) result" where
  "socks4_new address = (case proxy_address_check address of Err e \<Rightarrow> Err e | Ok _ \<Rightarrow> Ok \<lparr> s4_address = address \<rparr>)"

definition too_long :: "string option \<Rightarrow> bool" where
  "too_long s = (case s of Some t \<Rightarrow> 255 < length t | None \<Rightarrow> False)"

definition socks5_new ::
  "target_addr \<Rightarrow> string option \<Rightarrow> string option \<Rightarrow> (socks5_proxy_config, proxy_config_error) result" where
  "socks5_new address username password = (case proxy_address_check address of
      Err e \<Rightarrow> Err e
    | Ok _ \<Rightarrow>
        if too_long username then Err (ProxyGeneric ''socks5 username must be <= 255 bytes'')
        else if too_long password then Err (ProxyGeneric ''socks5 password must be <= 255 bytes'')
        else Ok \<lparr> s5_address = address, s5_username = username, s5_password = password \<rparr>)"

definition https_new ::
  "target_addr \<Rightarrow> string option \<Rightarrow> string option \<Rightarrow> (https_proxy_config, proxy_config_error) result" where
  "https_new address username password = (case proxy_address_check address of
      Err e \<Rightarrow> Err e
    | Ok _ \<Rightarrow>
        if (case username of Some u \<Rightarrow> CHR '':'' \<in> set u | None \<Rightarrow> False)
        then Err (ProxyGeneric (''username may not contain '' @ quoted '':'' @ '' character''))
        else Ok \<lparr> hp_address = address, hp_username = username, hp_password = password \<rparr>)"

section \<open>Properties\<close>

definition proxy_address :: "proxy_config \<Rightarrow> target_addr" where
  "proxy_address p = (case p of Socks4 c \<Rightarrow> s4_address c | Socks5 c \<Rightarrow> s5_address c | Https c \<Rightarrow> hp_address c)"

definition reachable_proxy :: "target_addr \<Rightarrow> bool" where
  "reachable_proxy a \<longleftrightarrow> (case a of SocketTarget s \<Rightarrow> sa_port s \<noteq> 0 | Domain d \<Rightarrow> da_port d \<noteq> 0 | OnionService _ \<Rightarrow> False)"

lemma proxy_address_check_Ok: "proxy_address_check a = Ok u \<longleftrightarrow> reachable_proxy a"
  by (auto simp: proxy_address_check_def reachable_proxy_def split: target_addr.splits)

text \<open>An accepted proxy is no onion service and has a port; credentials fit their protocol.\<close>

lemma proxies_reachable:
  "socks4_new a = Ok c4 \<Longrightarrow> reachable_proxy (proxy_address (Socks4 c4))"
  "socks5_new a u p = Ok c5 \<Longrightarrow> reachable_proxy (proxy_address (Socks5 c5)) \<and>
     (\<forall>t. s5_username c5 = Some t \<or> s5_password c5 = Some t \<longrightarrow> length t \<le> 255)"
  "https_new a u p = Ok ch \<Longrightarrow> reachable_proxy (proxy_address (Https ch)) \<and>
     (\<forall>t. hp_username ch = Some t \<longrightarrow> CHR '':'' \<notin> set t)"
  by (auto simp: socks4_new_def socks5_new_def https_new_def proxy_address_def proxy_address_check_Ok too_long_def
      split: result.splits if_splits option.splits)

end
