(* ===== verification/Legacy_Client.thy ===== *)
theory Legacy_Client
  imports Legacy_Process Ordered_Map Bridge_Lines Proxy_Config
begin

text \<open>
  The provider that drives a Tor daemon (\<open>tor-interface/src/legacy_tor_client.rs\<close>): its construction
  with the configuration of the daemon, and the operations of the provider trait. The flag that a
  listener shares with the client is a number, and the flags are part of the client's state. The
  SOCKS client is a parameter, as are the operating system, random passwords and the text of a
  target address. A circuit token and the counter behind it, a \<open>usize\<close> that is only ever incremented,
  are natural numbers: the model is the code for the first \<open>2 ^ 64\<close> tokens of a client.
\<close>

section \<open>Types\<close>

datatype legacy_error =
    LegacyTorProcessCreationFailed process_error
  | LegacyControlStreamCreationFailed control_error
  | LegacyTorControllerCreationFailed controller_error
  | LegacyTorProcessAuthenticationFailed controller_error
  | GetInfoVersionFailed controller_error
  | LegacyTorProcessTooOld string string
  | SetEventsFailed controller_error
  | DelOnionFailed controller_error
  | WaitAsyncEventsFailed controller_error
  | SetConfDisableNetwork0Failed controller_error
  | SetConfFailed controller_error
  | OnionClientAuthAddFailed controller_error
  | OnionClientAuthRemoveFailed controller_error
  | GetInfoNetListenersSocksFailed controller_error
  | NoSocksListenersFound
  | CircuitTokenInvalid
  | Socks5ConnectionFailed io_error_kind
  | LegacyTcpListenerBindFailed io_error_kind
  | LegacyTcpListenerLocalAddrFailed io_error_kind
  | AddOnionFailed controller_error
  | LegacyTorNotBootstrapped
  | PluggableTransportConfigDirectoryCreationFailed io_error_kind
  | PluggableTransportDirectoryNameCollision string
  | PluggableTransportSymlinkRemovalFailed io_error_kind
  | PluggableTransportSymlinkCreationFailed io_error_kind
  | PluggableTransportBinaryNameNotUtf8Representnable string
  | PluggableTransportConfigError pluggable_transport_config_error
  | BridgeTransportTypeMultiplyDefined string
  | BridgeTransportNotSupported string
  | LegacyNotImplemented

record legacy_circuit_token =
  ct_username :: string
  ct_password :: string

datatype legacy_tor_client_config =
    BundledTor (tor_bin_path: string) (data_directory: string) (proxy_settings: "proxy_config option")
      (allowed_ports: "u16 list option") (pluggable_transports: "pluggable_transport_config list option")
      (bridge_lines: "bridge_line list option")
  | SystemTor (tor_socks_addr: socket_addr) (tor_control_addr: socket_addr) (tor_control_passwd: string)

record legacy_client =
  lc_daemon :: "tor_process option"
  lc_version :: legacy_tor_version
  lc_controller :: tor_controller
  lc_bootstrapped :: bool
  lc_socks_listener :: "socket_addr option"
  lc_onion_services :: "(v3_onion_service_id \<times> nat) list"
  lc_circuit_token_counter :: nat
  lc_circuit_tokens :: "(nat, legacy_circuit_token) btree"
  lc_active :: "nat \<Rightarrow> bool"
  lc_next_flag :: nat

section \<open>Configuration\<close>

type_synonym 'f daemon_state = "tor_controller \<times> 'f"

definition ctl ::
  "(controller_error \<Rightarrow> legacy_error) \<Rightarrow> (tor_controller, ('a, controller_error) result) action \<Rightarrow>
   ('f daemon_state, ('a, legacy_error) result) action" where
  "ctl e m s = (case m (fst s) of
      (Ret (Ok a), c) \<Rightarrow> (Ret (Ok a), (c, snd s))
    | (Ret (Err k), c) \<Rightarrow> (Ret (Err (e k)), (c, snd s))
    | (Panic, c) \<Rightarrow> (Panic, (c, snd s))
    | (OutOfFuel, c) \<Rightarrow> (OutOfFuel, (c, snd s)))"

definition host_call ::
  "(io_error_kind \<Rightarrow> legacy_error) \<Rightarrow> ('f \<Rightarrow> ('a, io_error_kind) result \<times> 'f) \<Rightarrow> ('f daemon_state, ('a, legacy_error) result) action" where
  "host_call e m s = (case m (snd s) of
      (Ok a, f) \<Rightarrow> (Ret (Ok a), (fst s, f))
    | (Err k, f) \<Rightarrow> (Ret (Err (e k)), (fst s, f)))"

definition set_one :: "control_env \<Rightarrow> nat \<Rightarrow> string \<Rightarrow> string \<Rightarrow> ('f daemon_state, (unit, legacy_error) result) action" where
  "set_one E n key value = ctl SetConfFailed (setconf E n [(key, value)])"

definition unwrap_empty :: "string option \<Rightarrow> string" where
  "unwrap_empty s = (case s of Some t \<Rightarrow> t | None \<Rightarrow> [])"

definition configure_proxy ::
  "control_env \<Rightarrow> nat \<Rightarrow> (target_addr \<Rightarrow> string) \<Rightarrow> proxy_config option \<Rightarrow> ('f daemon_state, (unit, legacy_error) result) action" where
  "configure_proxy E n fmt proxy = (case proxy of
      None \<Rightarrow> ret (Ok ())
    | Some (Socks4 p) \<Rightarrow> set_one E n ''Socks4Proxy'' (fmt (s4_address p))
    | Some (Socks5 p) \<Rightarrow>
        try_then (set_one E n ''Socks5Proxy'' (fmt (s5_address p))) (\<lambda>_.
        try_then (if unwrap_empty (s5_username p) \<noteq> []
                  then set_one E n ''Socks5ProxyUsername'' (unwrap_empty (s5_username p)) else ret (Ok ())) (\<lambda>_.
          if unwrap_empty (s5_password p) \<noteq> []
          then set_one E n ''Socks5ProxyPassword'' (unwrap_empty (s5_password p)) else ret (Ok ())))
    | Some (Https p) \<Rightarrow>
        try_then (set_one E n ''HTTPSProxy'' (fmt (hp_address p))) (\<lambda>_.
          if unwrap_empty (hp_username p) \<noteq> [] \<or> unwrap_empty (hp_password p) \<noteq> []
          then set_one E n ''HTTPSProxyAuthenticator'' (unwrap_empty (hp_username p) @ '':'' @ unwrap_empty (hp_password p))
          else ret (Ok ())))"

text \<open>The format string \<open>*{{}}:{port}\<close> prints a pair of braces.\<close>

definition reachable_address :: "u16 \<Rightarrow> string" where
  "reachable_address port = ''*{}:'' @ decimal (unat port)"

definition configure_firewall :: "control_env \<Rightarrow> nat \<Rightarrow> u16 list option \<Rightarrow> ('f daemon_state, (unit, legacy_error) result) action" where
  "configure_firewall E n ports = (case ports of
      None \<Rightarrow> ret (Ok ())
    | Some ports \<Rightarrow> set_one E n ''ReachableAddresses'' (join_with '', '' (map reachable_address ports)))"

text \<open>The last component of a path, if it is a name.\<close>

definition file_name :: "string \<Rightarrow> string option" where
  "file_name p = (case rev (filter (\<lambda>w. w \<noteq> [] \<and> w \<noteq> ''.'') (split_on (CHR ''/'') p)) of
      [] \<Rightarrow> None
    | w # _ \<Rightarrow> if w = ''..'' then None else Some w)"

fun add_transports :: "string list \<Rightarrow> string list \<Rightarrow> (string list, legacy_error) result" where
  "add_transports [] supported = Ok supported"
| "add_transports (t # ts) supported =
     (if t \<in> set supported then Err (BridgeTransportTypeMultiplyDefined t) else add_transports ts (supported @ [t]))"

definition transport_setting :: "pluggable_transport_config \<Rightarrow> string \<Rightarrow> string" where
  "transport_setting pt binary_name =
     join_with '','' (pt_transports pt) @ '' exec pluggable-transports/'' @ binary_name @ '' '' @ join_with '' '' (pt_options pt)"

definition configure_transport ::
  "'f fs_ops \<Rightarrow> string \<Rightarrow> pluggable_transport_config \<Rightarrow> string list \<Rightarrow>
   ('f daemon_state, ((string \<times> string) \<times> string list, legacy_error) result) action" where
  "configure_transport os pt_directory pt supported = (case file_name (pt_path_to_binary pt) of
      None \<Rightarrow> panic
    | Some binary_name \<Rightarrow>
        let pt_symlink = path_join pt_directory binary_name in
        if \<not> utf8_valid (as_bytes binary_name) then ret (Err (PluggableTransportBinaryNameNotUtf8Representnable binary_name))
        else
          try_then (\<lambda>s. if fs_exists os pt_symlink (snd s)
            then host_call PluggableTransportSymlinkRemovalFailed (fs_remove_file os pt_symlink) s else ret (Ok ()) s) (\<lambda>_.
          try_then (host_call PluggableTransportSymlinkCreationFailed (fs_symlink os (pt_path_to_binary pt) pt_symlink)) (\<lambda>_.
            case add_transports (pt_transports pt) supported of
              Err e \<Rightarrow> ret (Err e)
            | Ok supported \<Rightarrow> ret (Ok ((''ClientTransportPlugin'', transport_setting pt binary_name), supported)))))"

fun configure_transport_list ::
  "'f fs_ops \<Rightarrow> string \<Rightarrow> pluggable_transport_config list \<Rightarrow> string list \<Rightarrow>
   ('f daemon_state, ((string \<times> string) list \<times> string list, legacy_error) result) action" where
  "configure_transport_list os pt_directory [] supported = ret (Ok ([], supported))"
| "configure_transport_list os pt_directory (pt # pts) supported =
     try_then (configure_transport os pt_directory pt supported) (\<lambda>(kv, supported).
     try_then (configure_transport_list os pt_directory pts supported) (\<lambda>(conf, supported). ret (Ok (kv # conf, supported))))"

text \<open>The result is the list of supported transports.\<close>

definition configure_transports ::
  "control_env \<Rightarrow> nat \<Rightarrow> 'f fs_ops \<Rightarrow> string \<Rightarrow> pluggable_transport_config list option \<Rightarrow>
   ('f daemon_state, (string list, legacy_error) result) action" where
  "configure_transports E n os data_dir pts = (case pts of
      None \<Rightarrow> ret (Ok [])
    | Some pts \<Rightarrow>
        let pt_directory = path_join data_dir ''pluggable-transports'' in
        try_then (\<lambda>s.
          if \<not> fs_exists os pt_directory (snd s)
          then host_call PluggableTransportConfigDirectoryCreationFailed (fs_create_dir os pt_directory) s
          else if \<not> fs_is_dir os pt_directory (snd s)
          then ret (Err (PluggableTransportDirectoryNameCollision pt_directory)) s
          else ret (Ok ()) s) (\<lambda>_.
        try_then (configure_transport_list os pt_directory pts []) (\<lambda>(conf, supported).
        try_then (ctl SetConfFailed (setconf E n conf)) (\<lambda>_. ret (Ok supported)))))"

fun bridge_settings :: "bridge_line list \<Rightarrow> string list \<Rightarrow> ((string \<times> string) list, legacy_error) result" where
  "bridge_settings [] supported = Ok [(''UseBridges'', ''1'')]"
| "bridge_settings (b # bs) supported =
     (if bl_transport b \<notin> set supported then Err (BridgeTransportNotSupported (bl_transport b))
      else case bridge_settings bs supported of
        Err e \<Rightarrow> Err e
      | Ok conf \<Rightarrow> Ok ((''Bridge'', as_legacy_tor_setconf_value b) # conf))"

definition configure_bridges ::
  "control_env \<Rightarrow> nat \<Rightarrow> bridge_line list option \<Rightarrow> string list \<Rightarrow> ('f daemon_state, (unit, legacy_error) result) action" where
  "configure_bridges E n bridges supported = (case bridges of
      None \<Rightarrow> ret (Ok ())
    | Some bs \<Rightarrow> (case bridge_settings bs supported of
        Err e \<Rightarrow> ret (Err e)
      | Ok conf \<Rightarrow> ctl SetConfFailed (setconf E n conf)))"

definition configure_daemon ::
  "control_env \<Rightarrow> nat \<Rightarrow> (target_addr \<Rightarrow> string) \<Rightarrow> 'f fs_ops \<Rightarrow> legacy_tor_client_config \<Rightarrow>
   ('f daemon_state, (unit, legacy_error) result) action" where
  "configure_daemon E n fmt os config = (case config of
      BundledTor _ data_dir proxy ports pts bridges \<Rightarrow>
        try_then (configure_proxy E n fmt proxy) (\<lambda>_.
        try_then (configure_firewall E n ports) (\<lambda>_.
        try_then (configure_transports E n os data_dir pts) (\<lambda>supported.
          configure_bridges E n bridges supported)))
    | SystemTor _ _ _ \<Rightarrow> ret (Ok ()))"

definition min_required_version :: legacy_tor_version where
  "min_required_version = \<lparr> major = 0, minor = 4, micro = 6, patch_level = 1, status_tag = None \<rparr>"

text \<open>
  Opening the control port: the daemon is launched when it is bundled. What connecting to an address
  gives, and what configuring the socket gives, are arguments.
\<close>

definition open_controller ::
  "(socket_addr \<Rightarrow> (control_socket, io_error_kind) result) \<Rightarrow> (unit, io_error_kind) result \<Rightarrow>
   (string \<Rightarrow> string \<Rightarrow> ('f, (tor_process, process_error) result) action) \<Rightarrow> legacy_tor_client_config \<Rightarrow>
   ('f, (tor_process option \<times> tor_controller \<times> string \<times> socket_addr option, legacy_error) result) action" where
  "open_controller connect configured launch config = (case config of
      BundledTor bin dir _ _ _ _ \<Rightarrow>
        andthen (launch bin dir) (\<lambda>r. case r of
          Err e \<Rightarrow> ret (Err (LegacyTorProcessCreationFailed e))
        | Ok daemon \<Rightarrow>
            (case control_stream_new 16 (connect (tp_control_addr daemon)) configured of
               Err e \<Rightarrow> ret (Err (LegacyControlStreamCreationFailed e))
             | Ok s \<Rightarrow> ret (Ok (Some daemon, tor_controller_new s, tp_password daemon, None))))
    | SystemTor socks control passwd \<Rightarrow>
        (case control_stream_new 16 (connect control) configured of
           Err e \<Rightarrow> ret (Err (LegacyControlStreamCreationFailed e))
         | Ok s \<Rightarrow> ret (Ok (None, tor_controller_new s, passwd, Some socks))))"

definition prepare_daemon ::
  "control_env \<Rightarrow> nat \<Rightarrow> (target_addr \<Rightarrow> string) \<Rightarrow> 'f fs_ops \<Rightarrow> legacy_tor_client_config \<Rightarrow> string \<Rightarrow>
   ('f daemon_state, (legacy_tor_version, legacy_error) result) action" where
  "prepare_daemon E n fmt os config password =
     try_then (ctl LegacyTorProcessAuthenticationFailed (authenticate E n password)) (\<lambda>_.
     try_then (ctl GetInfoVersionFailed (getinfo_version E n)) (\<lambda>version.
       if version_partial_cmp version min_required_version = Some Less
       then ret (Err (LegacyTorProcessTooOld (version_to_string version) (version_to_string min_required_version)))
       else
         try_then (configure_daemon E n fmt os config) (\<lambda>_.
         try_then (ctl SetEventsFailed (setevents E n [''STATUS_CLIENT'', ''HS_DESC''])) (\<lambda>_. ret (Ok version)))))"

definition client_of ::
  "tor_process option \<Rightarrow> socket_addr option \<Rightarrow> (legacy_tor_version, legacy_error) result outcome \<times> 'f daemon_state \<Rightarrow>
   (legacy_client, legacy_error) result outcome \<times> 'f" where
  "client_of daemon socks p = (case p of (r, controller, f) \<Rightarrow>
     ((case r of
         Ret (Ok version) \<Rightarrow> Ret (Ok \<lparr> lc_daemon = daemon, lc_version = version, lc_controller = controller,
            lc_bootstrapped = False, lc_socks_listener = socks, lc_onion_services = [], lc_circuit_token_counter = 0,
            lc_circuit_tokens = [], lc_active = (\<lambda>_. False), lc_next_flag = 0 \<rparr>)
       | Ret (Err e) \<Rightarrow> Ret (Err e)
       | Panic \<Rightarrow> Panic
       | OutOfFuel \<Rightarrow> OutOfFuel), f))"

definition legacy_tor_client_new ::
  "control_env \<Rightarrow> nat \<Rightarrow> (target_addr \<Rightarrow> string) \<Rightarrow> 'f fs_ops \<Rightarrow> (socket_addr \<Rightarrow> (control_socket, io_error_kind) result) \<Rightarrow>
   (unit, io_error_kind) result \<Rightarrow> (string \<Rightarrow> string \<Rightarrow> ('f, (tor_process, process_error) result) action) \<Rightarrow>
   legacy_tor_client_config \<Rightarrow> ('f, (legacy_client, legacy_error) result) action" where
  "legacy_tor_client_new E n fmt os connect configured launch config =
     try_then (open_controller connect configured launch config) (\<lambda>(daemon, controller, password, socks) f.
       client_of daemon socks (prepare_daemon E n fmt os config password (controller, f)))"

section \<open>Errors as text\<close>

text \<open>The texts of the \<open>thiserror\<close> attributes; the text of an I/O error and of a path are parameters.\<close>

definition control_error_fmt :: "control_error \<Rightarrow> string" where
  "control_error_fmt e = (case e of
      ReadTimeoutZero \<Rightarrow> ''control stream read timeout must not be zero''
    | CreationFailed _ \<Rightarrow> ''could not connect to control port''
    | ConfigurationFailed _ \<Rightarrow> ''configure control port socket failed''
    | ParsingRegexCreationFailed \<Rightarrow> ''control port parsing regex creation failed''
    | ReadFailed _ \<Rightarrow> ''control port stream read failure''
    | ClosedByRemote \<Rightarrow> ''control port stream closed by remote''
    | InvalidResponse \<Rightarrow> ''received control port response invalid utf8''
    | ReplyParseFailed s \<Rightarrow> ''failed to parse control port reply: '' @ s
    | WriteFailed _ \<Rightarrow> ''control port stream write failure'')"

definition controller_error_fmt :: "controller_error \<Rightarrow> string" where
  "controller_error_fmt e = (case e of
      EventRegexCreationFailed \<Rightarrow> ''response regex creation failed''
    | ReadReplyFailed _ \<Rightarrow> ''control stream read reply failed''
    | UnexpectedSynchonousReplyReceived \<Rightarrow> ''unexpected synchronous reply recieved''
    | WriteCommandFailed _ \<Rightarrow> ''control stream write command failed''
    | InvalidCommandArguments s \<Rightarrow> ''invalid command arguments: '' @ s
    | CommandFailed code ls \<Rightarrow> ''command failed: '' @ decimal (unat code) @ '' '' @ join_with [CHR 10] ls
    | CommandReplyParseFailed s \<Rightarrow> ''failed to parse command reply: '' @ s
    | TorVersionParseFailed _ \<Rightarrow> ''failed to parse received tor version'')"

record error_texts =
  et_io :: "io_error_kind \<Rightarrow> string"
  et_debug :: "string \<Rightarrow> string"
  et_transport :: "pluggable_transport_config_error \<Rightarrow> string"

definition legacy_error_fmt :: "error_texts \<Rightarrow> legacy_error \<Rightarrow> string" where
  "legacy_error_fmt T e = (case e of
      LegacyTorProcessCreationFailed _ \<Rightarrow> ''failed to create LegacyTorProcess object''
    | LegacyControlStreamCreationFailed _ \<Rightarrow> ''failed to create LegacyControlStream object''
    | LegacyTorControllerCreationFailed _ \<Rightarrow> ''failed to create LegacyTorController object''
    | LegacyTorProcessAuthenticationFailed _ \<Rightarrow> ''failed to authenticate with the tor process''
    | GetInfoVersionFailed _ \<Rightarrow> ''failed to determine the tor process version''
    | LegacyTorProcessTooOld a b \<Rightarrow> ''tor process version to old; found '' @ a @ '' but must be at least '' @ b
    | SetEventsFailed _ \<Rightarrow> ''failed to register for STATUS_CLIENT and HS_DESC events''
    | DelOnionFailed _ \<Rightarrow> ''failed to delete unused onion service''
    | WaitAsyncEventsFailed e \<Rightarrow> ''failed waiting for async events: '' @ controller_error_fmt e
    | SetConfDisableNetwork0Failed _ \<Rightarrow> ''failed to begin bootstrap''
    | SetConfFailed _ \<Rightarrow> ''failed to setconf''
    | OnionClientAuthAddFailed _ \<Rightarrow> ''failed to add client auth for onion service''
    | OnionClientAuthRemoveFailed _ \<Rightarrow> ''failed to remove client auth from onion service''
    | GetInfoNetListenersSocksFailed _ \<Rightarrow> ''failed to get socks listener''
    | NoSocksListenersFound \<Rightarrow> ''no socks listeners available to connect through''
    | CircuitTokenInvalid \<Rightarrow> ''invalid circuit token''
    | Socks5ConnectionFailed _ \<Rightarrow> ''unable to connect to socks listener''
    | LegacyTcpListenerBindFailed _ \<Rightarrow> ''unable to bind TCP listener''
    | LegacyTcpListenerLocalAddrFailed _ \<Rightarrow> ''unable to get TCP listener'' @ [CHR 0x27] @ ''s local address''
    | AddOnionFailed _ \<Rightarrow> ''failed to create onion service''
    | LegacyTorNotBootstrapped \<Rightarrow> ''tor not bootstrapped''
    | PluggableTransportConfigDirectoryCreationFailed k \<Rightarrow> et_io T k
    | PluggableTransportDirectoryNameCollision p \<Rightarrow>
        ''unable to create pluggable-transport directory because file with same name already exists: '' @ et_debug T p
    | PluggableTransportSymlinkRemovalFailed k \<Rightarrow> et_io T k
    | PluggableTransportSymlinkCreationFailed k \<Rightarrow> et_io T k
    | PluggableTransportBinaryNameNotUtf8Representnable p \<Rightarrow>
        ''pluggable transport binary name not representable as utf8: '' @ et_debug T p
    | PluggableTransportConfigError e \<Rightarrow> et_transport T e
    | BridgeTransportTypeMultiplyDefined s \<Rightarrow> ''pluggable transport multiply defines '' @ quoted s @ '' bridge transport type''
    | BridgeTransportNotSupported s \<Rightarrow> ''bridge transport '' @ quoted s @ '' not supported by pluggable transport configuration''
    | LegacyNotImplemented \<Rightarrow> ''not implemented'')"

definition legacy_error_into :: "error_texts \<Rightarrow> legacy_error \<Rightarrow> tor_error" where
  "legacy_error_into T e = Generic_error (legacy_error_fmt T e)"

section \<open>The provider\<close>

text \<open>A call on the controller, and the conversion of the error a trait operation returns.\<close>

definition on_controller ::
  "(controller_error \<Rightarrow> legacy_error) \<Rightarrow> (tor_controller, ('a, controller_error) result) action \<Rightarrow>
   (legacy_client, ('a, legacy_error) result) action" where
  "on_controller e m c = (case m (lc_controller c) of
      (Ret (Ok a), t) \<Rightarrow> (Ret (Ok a), c\<lparr> lc_controller := t \<rparr>)
    | (Ret (Err k), t) \<Rightarrow> (Ret (Err (e k)), c\<lparr> lc_controller := t \<rparr>)
    | (Panic, t) \<Rightarrow> (Panic, c\<lparr> lc_controller := t \<rparr>)
    | (OutOfFuel, t) \<Rightarrow> (OutOfFuel, c\<lparr> lc_controller := t \<rparr>))"

definition into_error ::
  "error_texts \<Rightarrow> (legacy_client, ('a, legacy_error) result) action \<Rightarrow> (legacy_client, ('a, tor_error) result) action" where
  "into_error T m = andthen m (\<lambda>r. case r of Ok a \<Rightarrow> ret (Ok a) | Err e \<Rightarrow> ret (Err (legacy_error_into T e)))"

text \<open>\<open>on_controller\<close> changes the controller only.\<close>

lemma on_controller_frame: "snd (on_controller e m c) = c\<lparr> lc_controller := snd (m (lc_controller c)) \<rparr>"
  by (simp add: on_controller_def split: prod.split outcome.split result.split)

function legacy_prune :: "control_env \<Rightarrow> nat \<Rightarrow> nat \<Rightarrow> (legacy_client, (unit, legacy_error) result) action" where
  "legacy_prune E n i c =
     (if i < length (lc_onion_services c) then
        (case lc_onion_services c ! i of (service_id, is_active) \<Rightarrow>
           if \<not> lc_active c is_active then
             (case on_controller DelOnionFailed (del_onion E n service_id)
                     (c\<lparr> lc_onion_services := swap_remove i (lc_onion_services c) \<rparr>) of
                (Ret (Ok _), d) \<Rightarrow> legacy_prune E n i d
              | (Ret (Err e), d) \<Rightarrow> (Ret (Err e), d)
              | (Panic, d) \<Rightarrow> (Panic, d)
              | (OutOfFuel, d) \<Rightarrow> (OutOfFuel, d))
           else legacy_prune E n (i + 1) c)
      else (Ret (Ok ()), c))"
  by pat_completeness auto
termination
proof (relation "measure (\<lambda>(E, n, i, c). 2 * length (lc_onion_services c) - i)", goal_cases)
  case (2 E n i c service_id is_active r d)
  then have "d = snd (on_controller DelOnionFailed (del_onion E n service_id)
      (c\<lparr> lc_onion_services := swap_remove i (lc_onion_services c) \<rparr>))" by (metis snd_conv)
  with 2(1) show ?case by (simp add: on_controller_frame)
qed auto

declare legacy_prune.simps [simp del]

fun bootstrap_arguments :: "(string \<times> string) list \<Rightarrow> u32 \<times> string \<times> string \<Rightarrow> u32 \<times> string \<times> string" where
  "bootstrap_arguments [] acc = acc"
| "bootstrap_arguments ((key, val) # args) (progress, tag, summary) = bootstrap_arguments args
     (if key = ''PROGRESS'' then (case parse_u32 val of Some p \<Rightarrow> p | None \<Rightarrow> 0, tag, summary)
      else if key = ''TAG'' then (progress, val, summary)
      else if key = ''SUMMARY'' then (progress, tag, val)
      else (progress, tag, summary))"

text \<open>What an event of the daemon becomes, and whether it ends the bootstrap.\<close>

definition handle_async_event :: "async_event \<Rightarrow> tor_event list \<times> bool" where
  "handle_async_event e = (case e of
      StatusClient severity act arguments \<Rightarrow>
        if severity = ''NOTICE'' \<and> act = ''BOOTSTRAP'' then
          (case bootstrap_arguments arguments (0, [], []) of (progress, tag, summary) \<Rightarrow>
             ([BootstrapStatus progress tag summary] @ (if progress = 100 then [BootstrapComplete] else []), progress = 100))
        else ([], False)
    | HsDesc act hs_address \<Rightarrow> (if act = ''UPLOADED'' then [OnionServicePublished hs_address] else [], False)
    | Unknown ls \<Rightarrow> ([], False))"

definition legacy_events :: "async_event list \<Rightarrow> (legacy_client, (tor_event list, legacy_error) result) action" where
  "legacy_events es c =
     (let events = concat (map (\<lambda>e. fst (handle_async_event e)) es);
          c = c\<lparr> lc_bootstrapped := lc_bootstrapped c \<or> (\<exists>e\<in>set es. snd (handle_async_event e)) \<rparr> in
      case lc_daemon c of
        Some daemon \<Rightarrow> (case wait_log_lines daemon of (lines, daemon) \<Rightarrow>
          (Ret (Ok (events @ map LogReceived lines)), c\<lparr> lc_daemon := Some daemon \<rparr>))
      | None \<Rightarrow>
          if \<not> lc_bootstrapped c then (Ret (Ok (events @ [BootstrapComplete])), c\<lparr> lc_bootstrapped := True \<rparr>)
          else (Ret (Ok events), c))"

definition legacy_update :: "control_env \<Rightarrow> nat \<Rightarrow> error_texts \<Rightarrow> (legacy_client, (tor_event list, tor_error) result) action" where
  "legacy_update E n T = into_error T
     (try_then (legacy_prune E n 0) (\<lambda>_.
      try_then (on_controller WaitAsyncEventsFailed (wait_async_events E)) legacy_events))"

definition legacy_bootstrap :: "control_env \<Rightarrow> nat \<Rightarrow> error_texts \<Rightarrow> (legacy_client, (unit, tor_error) result) action" where
  "legacy_bootstrap E n T = into_error T (\<lambda>c.
     if \<not> lc_bootstrapped c then on_controller SetConfDisableNetwork0Failed (setconf E n [(''DisableNetwork'', ''0'')]) c
     else ret (Ok ()) c)"

definition legacy_add_client_auth ::
  "control_env \<Rightarrow> nat \<Rightarrow> error_texts \<Rightarrow> v3_onion_service_id \<Rightarrow> x25519_private_key \<Rightarrow> (legacy_client, (unit, tor_error) result) action" where
  "legacy_add_client_auth E n T service_id client_auth = into_error T
     (on_controller OnionClientAuthAddFailed (onion_client_auth_add E n service_id client_auth None \<lparr> permanent = False \<rparr>))"

definition legacy_remove_client_auth ::
  "control_env \<Rightarrow> nat \<Rightarrow> error_texts \<Rightarrow> v3_onion_service_id \<Rightarrow> (legacy_client, (unit, tor_error) result) action" where
  "legacy_remove_client_auth E n T service_id = into_error T
     (on_controller OnionClientAuthRemoveFailed (onion_client_auth_remove E n service_id))"

datatype socks_target = SocksIp socket_addr | SocksDomain string u16

type_synonym socks_ops = "socket_addr \<Rightarrow> socks_target \<Rightarrow> (string \<times> string) option \<Rightarrow> (rw_stream, io_error_kind) result"

definition socks_target_of :: "target_addr \<Rightarrow> socks_target" where
  "socks_target_of target = (case target of
      SocketTarget a \<Rightarrow> SocksIp a
    | Domain d \<Rightarrow> SocksDomain (da_domain d) (da_port d)
    | OnionService (V3 a) \<Rightarrow> SocksDomain (service_id_to_string (oa_service_id a) @ ''.onion'') (oa_virt_port a))"

text \<open>The address of the SOCKS port, asked for once.\<close>

definition find_socks_listener :: "control_env \<Rightarrow> nat \<Rightarrow> (legacy_client, (socket_addr, legacy_error) result) action" where
  "find_socks_listener E n c = (case lc_socks_listener c of
      Some a \<Rightarrow> ret (Ok a) c
    | None \<Rightarrow>
        try_then (on_controller GetInfoNetListenersSocksFailed (getinfo_net_listeners_socks E n)) (\<lambda>listeners.
          case listeners of
            [] \<Rightarrow> ret (Err NoSocksListenersFound)
          | a # _ \<Rightarrow> (\<lambda>c. (Ret (Ok a), c\<lparr> lc_socks_listener := Some a \<rparr>))) c)"

text \<open>Connecting and listening need a bootstrapped daemon.\<close>

definition when_bootstrapped ::
  "(legacy_client, ('a, legacy_error) result) action \<Rightarrow> (legacy_client, ('a, legacy_error) result) action" where
  "when_bootstrapped m c = (if \<not> lc_bootstrapped c then ret (Err LegacyTorNotBootstrapped) c else m c)"

definition socks_connect ::
  "socks_ops \<Rightarrow> target_addr \<Rightarrow> circuit_token option \<Rightarrow> socket_addr \<Rightarrow> (legacy_client, (onion_stream, legacy_error) result) action" where
  "socks_connect socks target circuit listener c =
     (case (case circuit of
              None \<Rightarrow> Ok (socks listener (socks_target_of target) None)
            | Some tk \<Rightarrow> (case bt_get (lc_circuit_tokens c) tk of
                Some tok \<Rightarrow> Ok (socks listener (socks_target_of target) (Some (ct_username tok, ct_password tok)))
              | None \<Rightarrow> Err CircuitTokenInvalid)) of
        Err e \<Rightarrow> ret (Err e) c
      | Ok (Err k) \<Rightarrow> ret (Err (Socks5ConnectionFailed k)) c
      | Ok (Ok st) \<Rightarrow> ret (Ok \<lparr> os_stream = st, os_local_addr = None, os_peer_addr = Some target \<rparr>) c)"

definition legacy_connect ::
  "control_env \<Rightarrow> nat \<Rightarrow> error_texts \<Rightarrow> socks_ops \<Rightarrow> target_addr \<Rightarrow> circuit_token option \<Rightarrow>
   (legacy_client, (onion_stream, tor_error) result) action" where
  "legacy_connect E n T socks target circuit = into_error T (when_bootstrapped
     (try_then (find_socks_listener E n) (socks_connect socks target circuit)))"

text \<open>The listener is bound, the service added and its flag shared with the listener.\<close>

definition listener_flags :: "x25519_public_key list option \<Rightarrow> add_onion_flags" where
  "listener_flags authorized_clients = \<lparr> discard_pk = True, detach = False, v3_auth = (authorized_clients \<noteq> None),
     non_anonymous = False, max_streams_close_circuit = False \<rparr>"

definition register_service ::
  "tcp_listener \<Rightarrow> onion_addr \<Rightarrow> v3_onion_service_id \<Rightarrow> (legacy_client, (onion_listener, legacy_error) result) action" where
  "register_service listener onion_addr service_id c = (let is_active = lc_next_flag c in
     (Ret (Ok (onion_listener_new listener onion_addr is_active)),
      c\<lparr> lc_onion_services := lc_onion_services c @ [(service_id, is_active)],
         lc_active := (lc_active c)(is_active := True), lc_next_flag := is_active + 1 \<rparr>))"

definition legacy_listener ::
  "control_env \<Rightarrow> nat \<Rightarrow> error_texts \<Rightarrow> sys_ops \<Rightarrow> ed25519_private_key \<Rightarrow> u16 \<Rightarrow> x25519_public_key list option \<Rightarrow>
   (legacy_client, (onion_listener, tor_error) result) action" where
  "legacy_listener E n T sys private_key virt_port authorized_clients = into_error T (when_bootstrapped
     (case sys_bind sys of
        Err k \<Rightarrow> ret (Err (LegacyTcpListenerBindFailed k))
      | Ok listener \<Rightarrow>
          (case sys_local_addr sys listener of
             Err k \<Rightarrow> ret (Err (LegacyTcpListenerLocalAddrFailed k))
           | Ok socket_addr \<Rightarrow>
               let onion_addr = V3 (onion_addr_v3_new (service_id_from_private_key (ce_crypto E) private_key) virt_port) in
               try_then (on_controller AddOnionFailed
                 (add_onion E n (Some private_key) (listener_flags authorized_clients) None virt_port (Some socket_addr)
                   authorized_clients)) (\<lambda>r. register_service listener onion_addr (snd r)))))"

text \<open>The closure that runs when a listener is dropped.\<close>

definition legacy_listener_drop :: "onion_listener \<Rightarrow> legacy_client \<Rightarrow> legacy_client" where
  "legacy_listener_drop l c = c\<lparr> lc_active := (lc_active c)(ol_data l := False) \<rparr>"

definition legacy_generate_token :: "legacy_circuit_token \<Rightarrow> legacy_client \<Rightarrow> circuit_token \<times> legacy_client" where
  "legacy_generate_token tok c = (let new_token = lc_circuit_token_counter c in
     (new_token, c\<lparr> lc_circuit_token_counter := new_token + 1,
        lc_circuit_tokens := bt_insert new_token tok (lc_circuit_tokens c) \<rparr>))"

definition legacy_release_token :: "circuit_token \<Rightarrow> legacy_client \<Rightarrow> legacy_client" where
  "legacy_release_token tk c = c\<lparr> lc_circuit_tokens := bt_remove tk (lc_circuit_tokens c) \<rparr>"

end
