(* ===== verification/Controller_Commands.thy ===== *)
theory Controller_Commands
  imports Tor_Controller
begin

text \<open>
  What the commands of the control port do: a command is one line, the settings of \<open>SETCONF\<close> are read
  back by the quoting rules of the control protocol, and a command returns the first reply that is
  not an event, keeping the events before it in order.
\<close>

section \<open>Quoting\<close>

text \<open>A quoted string as the control protocol reads it: up to a quote that no backslash precedes.\<close>

fun read_quoted :: "string \<Rightarrow> (string \<times> string) option" where
  "read_quoted [] = None"
| "read_quoted (c # s) =
     (if c = CHR 34 then Some ([], s)
      else if c = CHR 92 then (case s of [] \<Rightarrow> None | d # r \<Rightarrow> map_option (apfst ((#) d)) (read_quoted r))
      else map_option (apfst ((#) c)) (read_quoted s))"

lemma quoted_string_Cons:
  "quoted_string (c # s) = (if c = CHR 34 \<or> c = CHR 92 then [CHR 92, c] else [c]) @ quoted_string s"
  by (simp add: quoted_string_def replace_char_def)

lemma read_quoted_string: "read_quoted (quoted_string v @ CHR 34 # r) = Some (v, r)"
proof (induction v)
  case (Cons c v)
  then show ?case by (simp add: quoted_string_Cons)
qed (simp add: quoted_string_def replace_char_def)

lemma read_quoted_shorter: "read_quoted s = Some (v, r) \<Longrightarrow> length r < length s"
  by (induction s arbitrary: v r rule: read_quoted.induct) (fastforce split: if_splits list.splits)+

definition read_setting :: "string \<Rightarrow> ((string \<times> string) \<times> string) option" where
  "read_setting s = (let key = takeWhile (\<lambda>c. c \<noteq> CHR ''='') s in
     case drop (length key) s of
       e # q # r \<Rightarrow> if q = CHR 34 then map_option (\<lambda>(v, r). ((key, v), r)) (read_quoted r) else None
     | _ \<Rightarrow> None)"

lemma read_setting_shorter: "read_setting s = Some (kv, r) \<Longrightarrow> length r < length s"
proof -
  assume *: "read_setting s = Some (kv, r)"
  let ?k = "takeWhile (\<lambda>c. c \<noteq> CHR ''='') s"
  from * obtain e q t v where t: "drop (length ?k) s = e # q # t" "read_quoted t = Some (v, r)"
    by (auto simp: read_setting_def Let_def split: list.splits if_splits)
  then have "length r < length t" using read_quoted_shorter by blast
  moreover have "length (drop (length ?k) s) \<le> length s" by simp
  ultimately show ?thesis using t(1) by simp
qed

function read_settings :: "string \<Rightarrow> (string \<times> string) list option" where
  "read_settings s = (case read_setting s of
      None \<Rightarrow> None
    | Some (kv, r) \<Rightarrow>
        (case r of
           [] \<Rightarrow> Some [kv]
         | c # r' \<Rightarrow> if c = CHR '' '' then map_option ((#) kv) (read_settings r') else None))"
  by pat_completeness auto
termination
  by (relation "measure length") (auto dest: read_setting_shorter)

declare read_settings.simps [simp del]

lemma read_setting_printed:
  assumes "CHR ''='' \<notin> set k"
  shows "read_setting (k @ [CHR ''='', CHR 34] @ quoted_string v @ [CHR 34] @ r) = Some ((k, v), r)"
proof -
  have "takeWhile (\<lambda>c. c \<noteq> CHR ''='') (k @ CHR ''='' # s) = k" for s
    using assms by (induction k) auto
  then show ?thesis by (simp add: read_setting_def read_quoted_string)
qed

lemma setconf_settings:
  assumes "kvs \<noteq> []" "\<forall>kv\<in>set kvs. CHR ''='' \<notin> set (fst kv)"
  shows "read_settings (join_with '' '' (map (\<lambda>(key, value). key @ [CHR ''='', CHR 34] @ quoted_string (trim value) @ [CHR 34]) kvs)) =
    Some (map (\<lambda>(k, v). (k, trim v)) kvs)"
  using assms
proof (induction kvs rule: induct_list012)
  case (2 kv)
  with read_setting_printed [of "fst kv" "trim (snd kv)" "[]"] show ?case
    by (cases kv) (simp add: read_settings.simps)
next
  case (3 kv kv' kvs)
  let ?p = "\<lambda>(key, value). key @ [CHR ''='', CHR 34] @ quoted_string (trim value) @ [CHR 34]"
  have "read_setting (?p kv @ CHR '' '' # s) = Some ((fst kv, trim (snd kv)), CHR '' '' # s)" for s
    using read_setting_printed [of "fst kv" "trim (snd kv)" "CHR '' '' # s"] 3(4) by (cases kv) simp
  with 3 show ?case by (cases kv) (simp add: read_settings.simps [of "_ @ _"] read_settings.simps [of "_ # _"])
qed simp

text \<open>The settings of a \<open>SETCONF\<close> command are what the daemon reads.\<close>

lemma setconf_command_reads_back:
  assumes "kvs \<noteq> []" "\<forall>kv\<in>set kvs. CHR ''='' \<notin> set (fst kv)"
  shows "\<exists>args. setconf_command kvs = ''SETCONF '' @ args \<and> read_settings args = Some (map (\<lambda>(k, v). (k, trim v)) kvs)"
proof -
  from assms(1) obtain kv r where "kvs = kv # r" by (cases kvs) auto
  then have "setconf_command kvs = ''SETCONF '' @ join_with '' ''
      (map (\<lambda>(key, value). key @ [CHR ''='', CHR 34] @ quoted_string (trim value) @ [CHR 34]) kvs)"
    by (simp add: setconf_command_def)
  with setconf_settings [OF assms] show ?thesis by blast
qed

text \<open>Line feeds in the command are those of the keys and the trimmed values: quoting does not remove them.\<close>

lemma quoted_string_line_feed: "CHR 10 \<in> set (quoted_string v) \<longleftrightarrow> CHR 10 \<in> set v"
proof (induction v)
  case (Cons c v)
  then show ?case by (simp add: quoted_string_Cons)
qed (simp add: quoted_string_def replace_char_def)

lemma join_line_feed: "CHR 10 \<notin> set sep \<Longrightarrow> CHR 10 \<in> set (join_with sep ws) \<longleftrightarrow> (\<exists>w\<in>set ws. CHR 10 \<in> set w)"
  by (induction sep ws rule: join_with.induct) auto

lemma setconf_line_feed:
  "CHR 10 \<in> set (setconf_command kvs) \<longleftrightarrow> (\<exists>kv\<in>set kvs. CHR 10 \<in> set (fst kv) \<or> CHR 10 \<in> set (trim (snd kv)))"
  by (simp add: setconf_command_def join_line_feed quoted_string_line_feed split_beta)

section \<open>Commands are lines\<close>

definition open_socket :: "control_stream \<Rightarrow> bool" where
  "open_socket s \<longleftrightarrow> list_all (\<lambda>w. w = None) (cs_writes (stream s))"

lemma write_all_open:
  "list_all (\<lambda>w. w = None) (cs_writes k) \<Longrightarrow>
   write_all bs k = (Ok (), k\<lparr> cs_writes := tl (cs_writes k), cs_written := cs_written k @ bs \<rparr>)"
  by (cases "cs_writes k"; cases k) (auto simp: write_all_def)

lemma control_write_open:
  assumes "open_socket s"
  shows "\<exists>t. control_write cmd s = (Ok (), t) \<and> open_socket t \<and> cs_written (stream t) = cs_written (stream s) @ as_bytes cmd @ [13, 10] \<and>
    (\<forall>ls pr m. before_lines s ls pr m \<longrightarrow> before_lines t ls pr m) \<and> closed_by_remote t = closed_by_remote s"
proof -
  have tl: "list_all Q ws \<Longrightarrow> list_all Q (tl ws)" for Q :: "(nat \<times> io_error_kind) option \<Rightarrow> bool" and ws
    by (cases ws) auto
  with assms show ?thesis
    by (auto simp: control_write_def open_socket_def write_all_open before_lines_def arriving_def lines_ahead_def control_incoming_def)
qed

text \<open>What is written for a command without a line feed is one line.\<close>

lemma command_is_line: "CHR 10 \<notin> set cmd \<Longrightarrow> crlf_lines (as_bytes cmd @ [13, 10]) = ([as_bytes cmd], [])"
  using crlf_lines_line [of "as_bytes cmd" "[]"] no_line_feed [of "as_bytes cmd"] by (simp add: line_feed_byte)

section \<open>Replies to commands\<close>

text \<open>Replies as the daemon prints them, one after the other.\<close>

type_synonym reply_parts = "string \<times> reply_item list \<times> string"

definition parts_ok :: "control_env \<Rightarrow> reply_parts \<Rightarrow> bool" where
  "parts_ok E r \<longleftrightarrow> (case r of (code, items, final) \<Rightarrow>
     status_text code \<and> list_all (item_ok (ce_control E)) items \<and> sliceable final)"

definition printed :: "reply_parts list \<Rightarrow> string list" where
  "printed rs = concat (map (\<lambda>(code, items, final). printed_reply code items final) rs)"

definition parts_reply :: "reply_parts \<Rightarrow> reply" where
  "parts_reply r = (case r of (code, items, final) \<Rightarrow> reply_of code items final)"

definition is_event :: "reply_parts \<Rightarrow> bool" where
  "is_event r \<longleftrightarrow> status_code (parts_reply r) = 650"

lemma printed_Cons: "printed (r # rs) = (case r of (code, items, final) \<Rightarrow> printed_reply code items final) @ printed rs"
  by (simp add: printed_def)

lemma printed_append: "printed (rs @ qs) = printed rs @ printed qs"
  by (simp add: printed_def)

lemma read_printed:
  assumes "pattern_laws (ce_control E)" "parts_ok E r" "before_lines s (printed (r # rs) @ ls) [] False"
  shows "\<exists>t. read_reply (ce_control E) s = (Ret (Ok (Some (parts_reply r))), t) \<and> before_lines t (printed rs @ ls) [] False \<and> same_output s t"
  using read_reply_printed [OF assms(1), of _ _ _ s "printed rs @ ls"] assms(2, 3)
  by (cases r) (simp add: parts_ok_def printed_Cons parts_reply_def)


lemma wait_sync_reply_printed:
  assumes E: "pattern_laws (ce_control E)" and rs: "list_all (\<lambda>r. parts_ok E r \<and> is_event r) rs"
    and r: "parts_ok E r" "\<not> is_event r" and n: "length rs < n"
    and c: "before_lines (tc_stream c) (printed (rs @ [r]) @ ls) [] False"
  shows "\<exists>d. wait_sync_reply E n c = (Ret (Ok (parts_reply r)), d) \<and> before_lines (tc_stream d) ls [] False \<and>
    same_output (tc_stream c) (tc_stream d) \<and> tc_async_replies d = tc_async_replies c @ map parts_reply rs"
  using rs n c
proof (induction rs arbitrary: n c)
  case Nil
  then obtain m where m: "n = Suc m" by (cases n) auto
  from read_printed [OF E r(1), of "tc_stream c" "[]" ls] Nil.prems(3) obtain t where
    "read_reply (ce_control E) (tc_stream c) = (Ret (Ok (Some (parts_reply r))), t)" "before_lines t ls [] False" "same_output (tc_stream c) t"
    by (auto simp: printed_def)
  with m r(2) show ?case by (auto simp: on_stream_def action_defs is_event_def)
next
  case (Cons q rs)
  then obtain m where m: "n = Suc m" "length rs < m" by (cases n) auto
  from read_printed [OF E, of q "tc_stream c" "rs @ [r]" ls] Cons.prems obtain t where
    t: "read_reply (ce_control E) (tc_stream c) = (Ret (Ok (Some (parts_reply q))), t)" "before_lines t (printed (rs @ [r]) @ ls) [] False"
      "same_output (tc_stream c) t" by auto
  let ?c = "c\<lparr> tc_stream := t, tc_async_replies := tc_async_replies c @ [parts_reply q] \<rparr>"
  have "wait_sync_reply E n c = wait_sync_reply E m ?c"
    using t(1) m(1) Cons.prems(1) by (simp add: on_stream_def action_defs is_event_def)
  moreover obtain d where "wait_sync_reply E m ?c = (Ret (Ok (parts_reply r)), d)" "before_lines (tc_stream d) ls [] False"
    "same_output t (tc_stream d)" "tc_async_replies d = tc_async_replies ?c @ map parts_reply rs"
    using Cons.IH [of m ?c] Cons.prems(1) m(2) t(2) by auto
  ultimately show ?case using t(3) by (auto intro: same_output_trans)
qed

text \<open>
  A command whose answer arrives after any number of events: the command is on the wire, the answer
  is returned and the events are kept in order.
\<close>

lemma write_command_answered:
  assumes E: "pattern_laws (ce_control E)" and rs: "list_all (\<lambda>r. parts_ok E r \<and> is_event r) rs"
    and r: "parts_ok E r" "\<not> is_event r" and n: "length rs < n" and opened: "open_socket (tc_stream c)"
    and c: "before_lines (tc_stream c) (printed (rs @ [r]) @ ls) [] False"
  shows "\<exists>d. write_command E n cmd c = (Ret (Ok (parts_reply r)), d) \<and> before_lines (tc_stream d) ls [] False \<and>
    open_socket (tc_stream d) \<and> tc_async_replies d = tc_async_replies c @ map parts_reply rs \<and>
    cs_written (stream (tc_stream d)) = cs_written (stream (tc_stream c)) @ as_bytes cmd @ [13, 10]"
proof -
  obtain t where t: "control_write cmd (tc_stream c) = (Ok (), t)" "open_socket t"
    "cs_written (stream t) = cs_written (stream (tc_stream c)) @ as_bytes cmd @ [13, 10]"
    "before_lines t (printed (rs @ [r]) @ ls) [] False"
    using control_write_open [OF opened, of cmd] c by blast
  from wait_sync_reply_printed [OF E rs r n, of "c\<lparr> tc_stream := t \<rparr>" ls] t(4) obtain d where
    d: "wait_sync_reply E n (c\<lparr> tc_stream := t \<rparr>) = (Ret (Ok (parts_reply r)), d)" "before_lines (tc_stream d) ls [] False"
      "same_output t (tc_stream d)" "tc_async_replies d = tc_async_replies c @ map parts_reply rs" by auto
  have "write_command E n cmd c = (Ret (Ok (parts_reply r)), d)"
    using t(1) d(1) by (simp add: write_command_def on_stream_def action_defs)
  with d t show ?thesis by (auto simp: same_output_def open_socket_def)
qed

text \<open>Everything the daemon has sent is collected, after what earlier commands kept.\<close>

lemma wait_replies_printed:
  assumes E: "pattern_laws (ce_control E)" and rs: "list_all (parts_ok E) rs" and s: "before_lines s (printed rs) [] False"
  shows "\<exists>t. wait_replies (ce_control E) qs s = (Ret (Ok (qs @ map parts_reply rs)), t) \<and> before_lines t [] [] False \<and> same_output s t"
  using rs s
proof (induction rs arbitrary: qs s)
  case Nil
  with read_reply_none [of s "[]" False "ce_control E"] show ?case
    by (auto simp: wait_replies.simps [of _ _ s] printed_def)
next
  case (Cons r rs)
  from read_printed [OF E, of r s rs "[]"] Cons.prems obtain t where
    t: "read_reply (ce_control E) s = (Ret (Ok (Some (parts_reply r))), t)" "before_lines t (printed rs) [] False" "same_output s t" by auto
  from Cons.IH [of t "qs @ [parts_reply r]"] Cons.prems(1) t show ?case
    by (auto simp: wait_replies.simps [of _ _ s] intro: same_output_trans)
qed

lemma wait_async_replies_printed:
  assumes "pattern_laws (ce_control E)" "list_all (parts_ok E) rs" "before_lines (tc_stream c) (printed rs) [] False"
  shows "\<exists>d. wait_async_replies E c = (Ret (Ok (tc_async_replies c @ map parts_reply rs)), d) \<and> tc_async_replies d = [] \<and>
    before_lines (tc_stream d) [] [] False"
  using wait_replies_printed [OF assms, of "tc_async_replies c"]
  by (auto simp: wait_async_replies_def on_stream_def)

end
