(* ===== verification/Legacy_Runs.thy ===== *)
theory Legacy_Runs
  imports Legacy_Client Controller_Commands
begin

text \<open>
  Properties of the provider that drives a Tor daemon: circuit tokens are never issued twice and are
  refused once released, in every run of the client; \<open>update\<close> deletes exactly the onion services
  whose listener was dropped; a listener is registered when the daemon answers.
\<close>

section \<open>Pruning\<close>

text \<open>A rule for properties of the loop: they are kept by the removal of an inactive service and by passing an active one.\<close>

lemma legacy_prune_rule:
  assumes "Q i c"
    and removed: "\<And>i c t sid a. Q i c \<Longrightarrow> i < length (lc_onion_services c) \<Longrightarrow> lc_onion_services c ! i = (sid, a) \<Longrightarrow>
      \<not> lc_active c a \<Longrightarrow> Q i (c\<lparr> lc_onion_services := swap_remove i (lc_onion_services c), lc_controller := t \<rparr>)"
    and passed: "\<And>i c sid a. Q i c \<Longrightarrow> i < length (lc_onion_services c) \<Longrightarrow> lc_onion_services c ! i = (sid, a) \<Longrightarrow>
      lc_active c a \<Longrightarrow> Q (i + 1) c"
  shows "\<exists>j. Q j (snd (legacy_prune E n i c)) \<and>
    (fst (legacy_prune E n i c) = Ret (Ok ()) \<longrightarrow> length (lc_onion_services (snd (legacy_prune E n i c))) \<le> j)"
  using assms(1)
proof (induction E n i c rule: legacy_prune.induct)
  case (1 E n i c)
  show ?case
  proof (cases "i < length (lc_onion_services c)")
    case True
    obtain sid a where s: "lc_onion_services c ! i = (sid, a)" by fastforce
    show ?thesis
    proof (cases "lc_active c a")
      case False
      let ?c = "c\<lparr> lc_onion_services := swap_remove i (lc_onion_services c) \<rparr>"
      obtain r d where d: "on_controller DelOnionFailed (del_onion E n sid) ?c = (r, d)" by fastforce
      have "d = ?c\<lparr> lc_controller := snd (del_onion E n sid (lc_controller ?c)) \<rparr>"
        using on_controller_frame [of DelOnionFailed "del_onion E n sid" ?c] d by simp
      with removed [OF "1.prems" True s False] have k: "Q i d" by simp
      consider u where "r = Ret (Ok u)" | e where "r = Ret (Err e)" | "r = Panic" | "r = OutOfFuel"
        by (cases r; metis result.exhaust)
      then show ?thesis
      proof cases
        case 1
        from "1.IH"(1) [OF True s [symmetric] False d [symmetric] 1 refl k] 1 d s False True show ?thesis
          by (simp add: legacy_prune.simps [of E n i c])
      qed (use k d s False True in \<open>auto simp: legacy_prune.simps [of E n i c]\<close>)
    next
      case on: True
      from "1.IH"(2) [OF True s [symmetric]] passed [OF "1.prems" True s on] on True s show ?thesis
        by (simp add: legacy_prune.simps [of E n i c])
    qed
  next
    case False
    with "1.prems" show ?thesis by (auto simp: legacy_prune.simps [of E n i c])
  qed
qed

text \<open>Exactly the services whose listener is alive remain.\<close>

lemma legacy_prune_spec:
  assumes "legacy_prune E n 0 c = (Ret (Ok ()), d)"
  shows "mset (lc_onion_services d) = filter_mset (\<lambda>s. lc_active c (snd s)) (mset (lc_onion_services c))"
    "lc_active d = lc_active c"
proof -
  let ?A = "\<lambda>s. lc_active c (snd s)"
  let ?Q = "\<lambda>i e. lc_active e = lc_active c \<and> filter_mset ?A (mset (lc_onion_services e)) = filter_mset ?A (mset (lc_onion_services c)) \<and>
    (\<forall>j<i. j < length (lc_onion_services e) \<longrightarrow> ?A (lc_onion_services e ! j))"
  have "\<exists>j. ?Q j (snd (legacy_prune E n 0 c)) \<and>
    (fst (legacy_prune E n 0 c) = Ret (Ok ()) \<longrightarrow> length (lc_onion_services (snd (legacy_prune E n 0 c))) \<le> j)"
  proof (rule legacy_prune_rule)
    fix i e t sid a
    assume Q: "?Q i e" and i: "i < length (lc_onion_services e)" and s: "lc_onion_services e ! i = (sid, a)" and off: "\<not> lc_active e a"
    from swap_remove_mset [OF i] s have "mset (lc_onion_services e) = add_mset (sid, a) (mset (swap_remove i (lc_onion_services e)))" by simp
    with Q off i show "?Q i (e\<lparr> lc_onion_services := swap_remove i (lc_onion_services e), lc_controller := t \<rparr>)"
      by (auto simp: swap_remove_before)
  next
    fix i e sid a
    assume "?Q i e" "i < length (lc_onion_services e)" "lc_onion_services e ! i = (sid, a)" "lc_active e a"
    then show "?Q (i + 1) e" by (auto simp: less_Suc_eq)
  qed simp
  then obtain j where j: "?Q j d" "length (lc_onion_services d) \<le> j" using assms by auto
  then have "\<forall>s\<in>set (lc_onion_services d). ?A s" by (metis in_set_conv_nth order_less_le_trans)
  then have "filter_mset ?A (mset (lc_onion_services d)) = mset (lc_onion_services d)"
    by (intro filter_mset_eq_conv [THEN iffD2]) auto
  with j(1) show "mset (lc_onion_services d) = filter_mset ?A (mset (lc_onion_services c))" "lc_active d = lc_active c" by auto
qed

section \<open>Tokens\<close>

lemma keeps_snd: "keeps P m \<Longrightarrow> P s \<Longrightarrow> P (snd (m s))"
  by (simp add: keeps_def)

definition same_tokens :: "legacy_client \<Rightarrow> legacy_client \<Rightarrow> bool" where
  "same_tokens c d \<longleftrightarrow> lc_circuit_tokens d = lc_circuit_tokens c \<and> lc_circuit_token_counter d = lc_circuit_token_counter c"

lemma keeps_on_controller [keeps_intros]: "keeps (same_tokens c) (on_controller e m)"
  using on_controller_frame [of e m] by (intro keepsI) (simp add: same_tokens_def)

lemma keeps_into_error [keeps_intros]: "keeps P m \<Longrightarrow> keeps P (into_error T m)"
  unfolding into_error_def by (intro keeps_intros) (auto intro: keeps_intros split: result.split)

lemma legacy_prune_tokens [keeps_intros]: "keeps (same_tokens c) (legacy_prune E n i)"
proof (rule keepsI)
  fix d assume "same_tokens c d"
  then show "same_tokens c (snd (legacy_prune E n i d))"
    using legacy_prune_rule [of "\<lambda>_. same_tokens c" i d E n] by (auto simp: same_tokens_def)
qed

lemma legacy_events_tokens [keeps_intros]: "keeps (same_tokens c) (legacy_events es)"
  by (intro keepsI) (auto simp: legacy_events_def Let_def same_tokens_def wait_log_lines_def split: option.split)

lemma keeps_when_bootstrapped [keeps_intros]: "keeps P m \<Longrightarrow> keeps P (when_bootstrapped m)"
  by (auto simp: keeps_def when_bootstrapped_def ret_def)

lemma keeps_find_socks_listener [keeps_intros]: "keeps (same_tokens c) (find_socks_listener E n)"
proof (rule keepsI)
  fix d assume d: "same_tokens c d"
  have "keeps (same_tokens c) (try_then (on_controller GetInfoNetListenersSocksFailed (getinfo_net_listeners_socks E n)) (\<lambda>listeners.
      case listeners of [] \<Rightarrow> ret (Err NoSocksListenersFound) | a # _ \<Rightarrow> (\<lambda>c. (Ret (Ok a), c\<lparr> lc_socks_listener := Some a \<rparr>))))"
    by (intro keeps_intros) (auto simp: keeps_def ret_def same_tokens_def split: list.split)
  from keeps_snd [OF this d] d show "same_tokens c (snd (find_socks_listener E n d))"
    by (simp add: find_socks_listener_def ret_def split: option.split)
qed

lemma operations_keep_tokens:
  "keeps (same_tokens c) (legacy_update E n T)"
  "keeps (same_tokens c) (legacy_bootstrap E n T)"
  "keeps (same_tokens c) (legacy_add_client_auth E n T sid k)"
  "keeps (same_tokens c) (legacy_remove_client_auth E n T sid)"
  "keeps (same_tokens c) (legacy_connect E n T socks target circuit)"
  "keeps (same_tokens c) (legacy_listener E n T sys key port auth)"
proof -
  show "keeps (same_tokens c) (legacy_update E n T)" "keeps (same_tokens c) (legacy_add_client_auth E n T sid k)"
    "keeps (same_tokens c) (legacy_remove_client_auth E n T sid)"
    unfolding legacy_update_def legacy_add_client_auth_def legacy_remove_client_auth_def by (intro keeps_intros)+
  show "keeps (same_tokens c) (legacy_bootstrap E n T)"
    unfolding legacy_bootstrap_def
    by (intro keeps_into_error keepsI) (auto simp: ret_def on_controller_frame same_tokens_def)
  have "keeps (same_tokens c) (socks_connect socks target circuit a)" for a
    by (intro keepsI) (simp add: socks_connect_def ret_def split: result.split)
  then show "keeps (same_tokens c) (legacy_connect E n T socks target circuit)"
    unfolding legacy_connect_def by (intro keeps_intros)
  have "keeps (same_tokens c) (register_service l a s)" for l a s
    by (intro keepsI) (simp add: register_service_def same_tokens_def Let_def)
  then show "keeps (same_tokens c) (legacy_listener E n T sys key port auth)"
    unfolding legacy_listener_def by (intro keeps_intros) (auto intro!: keeps_intros split: result.split)
qed

text \<open>
  Runs of a client under arbitrary calls, with the tokens issued and the tokens released so far. A
  call that panics or never returns ends a run.
\<close>

definition fresh_client :: "legacy_client \<Rightarrow> bool" where
  "fresh_client c \<longleftrightarrow> \<not> lc_bootstrapped c \<and> lc_onion_services c = [] \<and> lc_circuit_token_counter c = 0 \<and> lc_circuit_tokens c = []"

lemma client_of_fresh: "client_of daemon socks p = (Ret (Ok c), g) \<Longrightarrow> fresh_client c"
  by (cases p) (auto simp: client_of_def fresh_client_def split: outcome.splits result.splits)

lemma legacy_tor_client_new_fresh:
  "legacy_tor_client_new E n fmt os connect configured launch config f = (Ret (Ok c), g) \<Longrightarrow> fresh_client c"
  unfolding legacy_tor_client_new_def try_then_Ok_iff by (auto dest: client_of_fresh)

inductive legacy_step :: "legacy_client \<Rightarrow> legacy_client \<Rightarrow> bool" where
  "legacy_update E n T c = (Ret r, d) \<Longrightarrow> legacy_step c d"
| "legacy_bootstrap E n T c = (Ret q, d) \<Longrightarrow> legacy_step c d"
| "legacy_add_client_auth E n T sid k c = (Ret q, d) \<Longrightarrow> legacy_step c d"
| "legacy_remove_client_auth E n T sid c = (Ret q, d) \<Longrightarrow> legacy_step c d"
| "legacy_connect E n T socks target circuit c = (Ret s, d) \<Longrightarrow> legacy_step c d"
| "legacy_listener E n T sys key port auth c = (Ret l, d) \<Longrightarrow> legacy_step c d"
| "legacy_step c (legacy_listener_drop l' c)"

inductive legacy_runs :: "circuit_token list \<Rightarrow> circuit_token set \<Rightarrow> legacy_client \<Rightarrow> bool" where
  legacy_new: "fresh_client c \<Longrightarrow> legacy_runs [] {} c"
| legacy_called: "legacy_runs issued released c \<Longrightarrow> legacy_step c d \<Longrightarrow> legacy_runs issued released d"
| legacy_generated: "legacy_runs issued released c \<Longrightarrow> legacy_generate_token tok c = (tk, d) \<Longrightarrow> legacy_runs (issued @ [tk]) released d"
| legacy_released: "legacy_runs issued released c \<Longrightarrow> 
    legacy_runs issued (if tk \<in> set issued then insert tk released else released) (legacy_release_token tk c)"

lemma same_tokens_refl: "same_tokens c c"
  by (simp add: same_tokens_def)

lemma legacy_step_tokens: "legacy_step c d \<Longrightarrow> same_tokens c d"
proof (induction rule: legacy_step.induct)
  case (7 c l')
  then show ?case by (simp add: legacy_listener_drop_def same_tokens_def)
qed (rule keepsD [OF operations_keep_tokens(1) same_tokens_refl] keepsD [OF operations_keep_tokens(2) same_tokens_refl]
    keepsD [OF operations_keep_tokens(3) same_tokens_refl] keepsD [OF operations_keep_tokens(4) same_tokens_refl]
    keepsD [OF operations_keep_tokens(5) same_tokens_refl] keepsD [OF operations_keep_tokens(6) same_tokens_refl], assumption)+

definition token_inv :: "circuit_token list \<Rightarrow> circuit_token set \<Rightarrow> legacy_client \<Rightarrow> bool" where
  "token_inv issued released c \<longleftrightarrow> bt_inv (lc_circuit_tokens c) \<and> distinct issued \<and> (\<forall>tk\<in>set issued. tk < lc_circuit_token_counter c) \<and>
     released \<subseteq> set issued \<and> (\<forall>tk. bt_get (lc_circuit_tokens c) tk \<noteq> None \<longleftrightarrow> tk \<in> set issued - released)"

lemma legacy_runs_tokens: "legacy_runs issued released c \<Longrightarrow> token_inv issued released c"
proof (induction rule: legacy_runs.induct)
  case (legacy_new c)
  then show ?case by (simp add: token_inv_def fresh_client_def bt_inv_def bt_get_def)
next
  case (legacy_called issued released c d)
  then show ?case using legacy_step_tokens by (simp add: token_inv_def same_tokens_def)
next
  case (legacy_generated issued released c tok tk d)
  let ?m = "lc_circuit_tokens c"
  from legacy_generated have inv: "token_inv issued released c" and tk: "tk = lc_circuit_token_counter c"
    and d: "lc_circuit_tokens d = bt_insert tk tok ?m" "lc_circuit_token_counter d = tk + 1"
    by (auto simp: legacy_generate_token_def Let_def)
  then have get: "bt_get (lc_circuit_tokens d) t = (if t = tk then Some tok else bt_get ?m t)" for t
    by (simp add: token_inv_def bt_insert_get)
  from inv tk have fresh: "tk \<notin> set issued" "tk \<notin> released" by (auto simp: token_inv_def)
  then have "\<forall>t. bt_get (lc_circuit_tokens d) t \<noteq> None \<longleftrightarrow> t \<in> set (issued @ [tk]) - released"
    unfolding get using inv by (auto simp: token_inv_def)
  moreover have "bt_inv (lc_circuit_tokens d)" "\<forall>t\<in>set (issued @ [tk]). t < lc_circuit_token_counter d"
    using inv tk d by (auto simp: token_inv_def bt_insert_inv less_Suc_eq)
  ultimately show ?case using inv fresh(1) unfolding token_inv_def by (intro conjI) auto
next
  case (legacy_released issued released c tk)
  then have i: "bt_inv (lc_circuit_tokens c)" by (simp add: token_inv_def)
  from legacy_released(2) show ?case
    using bt.get_remove [OF i, of tk] bt.inv_remove [OF i, of tk] by (auto simp: token_inv_def legacy_release_token_def)
qed

text \<open>What connecting over a circuit does with its token.\<close>

lemma legacy_connect_token:
  assumes "lc_bootstrapped c" "lc_socks_listener c = Some a"
  shows "legacy_connect E n T socks target (Some tk) c =
    ((case bt_get (lc_circuit_tokens c) tk of
        None \<Rightarrow> Ret (Err (Generic_error ''invalid circuit token''))
      | Some tok \<Rightarrow> (case socks a (socks_target_of target) (Some (ct_username tok, ct_password tok)) of
            Ok st \<Rightarrow> Ret (Ok \<lparr> os_stream = st, os_local_addr = None, os_peer_addr = Some target \<rparr>)
          | Err k \<Rightarrow> Ret (Err (Generic_error ''unable to connect to socks listener'')))), c)"
  using assms
  by (simp add: legacy_connect_def into_error_def when_bootstrapped_def find_socks_listener_def socks_connect_def action_defs
      legacy_error_into_def legacy_error_fmt_def split: option.split result.split)

lemma legacy_not_bootstrapped:
  assumes "\<not> lc_bootstrapped c"
  shows "legacy_connect E n T socks target circuit c = (Ret (Err (Generic_error ''tor not bootstrapped'')), c)"
    "legacy_listener E n T sys key port auth c = (Ret (Err (Generic_error ''tor not bootstrapped'')), c)"
  using assms
  by (simp_all add: legacy_connect_def legacy_listener_def into_error_def when_bootstrapped_def action_defs
      legacy_error_into_def legacy_error_fmt_def)

lemma into_error_Ok: "into_error T m c = (Ret (Ok a), d) \<longleftrightarrow> m c = (Ret (Ok a), d)"
proof -
  have "(case r of Ok a \<Rightarrow> ret (Ok a) | Err e \<Rightarrow> ret (Err (legacy_error_into T e))) t = (Ret (Ok a), d) \<longleftrightarrow> r = Ok a \<and> t = d"
    for r :: "('a, legacy_error) result" and t
    by (cases r) (auto simp: ret_def)
  then show ?thesis by (auto simp: into_error_def andthen_Ret_iff)
qed

section \<open>Updates\<close>

text \<open>A system daemon reports the end of its bootstrap once.\<close>

lemma legacy_events_system:
  assumes "lc_daemon c = None" "legacy_events es c = (Ret (Ok events), d)"
  shows "lc_bootstrapped d" "lc_bootstrapped c \<Longrightarrow> es = [] \<Longrightarrow> events = []"
  using assms by (auto simp: legacy_events_def Let_def split: if_splits)

lemma legacy_events_services: "legacy_events es c = (r, d) \<Longrightarrow> lc_onion_services d = lc_onion_services c \<and> lc_active d = lc_active c"
  by (auto simp: legacy_events_def Let_def wait_log_lines_def split: option.splits if_splits)

lemma legacy_update_services:
  assumes "legacy_update E n T c = (Ret (Ok events), d)"
  shows "mset (lc_onion_services d) = filter_mset (\<lambda>s. lc_active c (snd s)) (mset (lc_onion_services c)) \<and> lc_active d = lc_active c"
proof -
  from assms obtain u es v where u: "legacy_prune E n 0 c = (Ret (Ok ()), u)" "on_controller WaitAsyncEventsFailed (wait_async_events E) u = (Ret (Ok es), v)"
    "legacy_events es v = (Ret (Ok events), d)"
    unfolding legacy_update_def into_error_Ok try_then_Ok_iff by auto
  from u(2) have "lc_onion_services v = lc_onion_services u" "lc_active v = lc_active u"
    using on_controller_frame [of WaitAsyncEventsFailed "wait_async_events E" u] by simp_all
  with legacy_prune_spec [OF u(1)] legacy_events_services [OF u(3)] show ?thesis by simp
qed


lemma legacy_update_run:
  assumes "legacy_prune E n 0 c = (Ret (Ok ()), u)" "wait_async_events E (lc_controller u) = (Ret (Ok es), t)"
    "legacy_events es (u\<lparr> lc_controller := t \<rparr>) = (Ret (Ok events), d)"
  shows "legacy_update E n T c = (Ret (Ok events), d)"
  unfolding legacy_update_def into_error_Ok try_then_Ok_iff using assms by (auto simp: on_controller_def)

lemma wait_async_events_none:
  assumes "pattern_laws (ce_control E)" "before_lines (tc_stream c) [] [] False" "tc_async_replies c = []"
  shows "\<exists>d. wait_async_events E c = (Ret (Ok []), d)"
proof -
  from wait_async_replies_printed [OF assms(1), of "[]" c] assms(2, 3) obtain d where
    "wait_async_replies E c = (Ret (Ok []), d)" by (auto simp: printed_def)
  then show ?thesis by (simp add: wait_async_events_def action_defs)
qed

interpretation legacy: service_keeper
  lc_onion_services lc_active legacy_listener_drop "\<lambda>c d. \<exists>E n T events. legacy_update E n T c = (Ret (Ok events), d)"
  by unfold_locales (auto simp: legacy_listener_drop_def dest: legacy_update_services)

section \<open>Listeners\<close>

text \<open>The answer of the daemon to \<open>ADD_ONION\<close>: the service id, and the keys of the authorised clients.\<close>

definition add_onion_answer :: "string \<Rightarrow> string list \<Rightarrow> reply_parts" where
  "add_onion_answer sid keys = (''250'', Line (''ServiceID='' @ sid) # map (\<lambda>k. Line (''ClientAuthV3='' @ k)) keys, ''OK'')"

definition plain_key :: "string \<Rightarrow> bool" where
  "plain_key k \<longleftrightarrow> str_find ''ServiceID='' (''ClientAuthV3='' @ k) = None \<and> str_find ''PrivateKey='' (''ClientAuthV3='' @ k) = None"

lemma str_find_prefix: "str_find p (p @ s) = Some 0"
proof -
  have "starts_with (p @ s) p" by (simp add: starts_with_def)
  then show ?thesis by (cases "p @ s") auto
qed

lemma add_onion_lines_keys:
  assumes "list_all plain_key keys" "keys \<noteq> [] \<Longrightarrow> (case auth of Some ks \<Rightarrow> ks | None \<Rightarrow> []) \<noteq> []"
  shows "add_onion_lines C auth (map (\<lambda>k. ''ClientAuthV3='' @ k) keys @ [''OK'']) None (Some sid) = Ok (None, Some sid)"
  using assms
proof (induction keys)
  case Nil
  have "str_find ''ServiceID='' ''OK'' = None" "str_find ''PrivateKey='' ''OK'' = None" "\<not> str_contains ''OK'' ''ClientAuthV3=''"
    "str_contains ''OK'' ''OK''" by (simp_all add: starts_with_def str_contains_def)
  then show ?case by simp
next
  case (Cons k keys)
  have "str_contains (''ClientAuthV3='' @ k) ''ClientAuthV3=''" by (simp only: str_contains_def str_find_prefix) simp
  with Cons show ?case by (auto simp: plain_key_def simp del: str_find.simps)
qed

lemma add_onion_answered:
  assumes "service_id_from_string C sid = Ok s" "list_all plain_key keys"
    "keys \<noteq> [] \<Longrightarrow> (case auth of Some ks \<Rightarrow> ks | None \<Rightarrow> []) \<noteq> []" "discard_pk flags"
  shows "case add_onion_lines C auth (reply_lines (parts_reply (add_onion_answer sid keys))) None None of
    Ok r \<Rightarrow> add_onion_result flags r = Ok (None, s) | Err e \<Rightarrow> False"
proof -
  have "reply_lines (parts_reply (add_onion_answer sid keys)) = (''ServiceID='' @ sid) # map (\<lambda>k. ''ClientAuthV3='' @ k) keys @ [''OK'']"
    by (simp add: parts_reply_def add_onion_answer_def reply_of_def comp_def)
  moreover have "drop (0 + length ''ServiceId='') (''ServiceID='' @ sid) = sid" by simp
  ultimately show ?thesis
    using assms add_onion_lines_keys [of keys auth C s]
    by (simp del: append.simps str_find.simps add: str_find_prefix add_onion_result_def Let_def append_Nil)
qed


lemma code_250:
  "status_text ''250''" "status_code (parts_reply (''250'', items, final)) = 250" "\<not> is_event (''250'', items, final)"
proof -
  show "status_text ''250''" by (simp add: status_text_def is_digit_def)
  have "digits_value ''250'' = 250" by (simp add: digits_value_def digit_value_def)
  then show "status_code (parts_reply (''250'', items, final)) = 250" by (simp add: parts_reply_def reply_of_def)
  then show "\<not> is_event (''250'', items, final)" by (simp add: is_event_def)
qed

lemma answer_ok: "parts_ok E (add_onion_answer sid keys)" "\<not> is_event (add_onion_answer sid keys)"
  "status_code (parts_reply (add_onion_answer sid keys)) = 250"
proof -
  have "sliceable (''ServiceID='' @ sid)" "sliceable (''ClientAuthV3='' @ k)" "sliceable ''OK''" for k
    using continuation_ascii [of "CHR ''S''"] continuation_ascii [of "CHR ''C''"] continuation_ascii [of "CHR ''O''"]
    by (simp_all add: sliceable_def)
  then show "parts_ok E (add_onion_answer sid keys)"
    using code_250(1) by (simp add: parts_ok_def add_onion_answer_def list_all_iff)
  show "\<not> is_event (add_onion_answer sid keys)" "status_code (parts_reply (add_onion_answer sid keys)) = 250"
    unfolding add_onion_answer_def by (rule code_250)+
qed

lemma add_onion_daemon:
  assumes E: "pattern_laws (ce_control E)" and rs: "list_all (\<lambda>r. parts_ok E r \<and> is_event r) rs" and n: "length rs < n"
    and opened: "open_socket (tc_stream c)"
    and c: "before_lines (tc_stream c) (printed (rs @ [add_onion_answer sid keys]) @ ls) [] False"
    and sid: "service_id_from_string (ce_crypto E) sid = Ok s" and keys: "list_all plain_key keys"
      "keys \<noteq> [] \<Longrightarrow> (case auth of Some ks \<Rightarrow> ks | None \<Rightarrow> []) \<noteq> []" and flags: "discard_pk flags"
  shows "\<exists>d. add_onion E n key flags ms port target auth c = (Ret (Ok (None, s)), d) \<and> before_lines (tc_stream d) ls [] False \<and>
    open_socket (tc_stream d) \<and> tc_async_replies d = tc_async_replies c @ map parts_reply rs \<and>
    cs_written (stream (tc_stream d)) = cs_written (stream (tc_stream c)) @
      as_bytes (add_onion_command (ce_crypto E) key flags ms port target auth) @ [13, 10]"
proof -
  obtain d where d: "add_onion_cmd E n key flags ms port target auth c = (Ret (Ok (parts_reply (add_onion_answer sid keys))), d)"
    "before_lines (tc_stream d) ls [] False" "open_socket (tc_stream d)" "tc_async_replies d = tc_async_replies c @ map parts_reply rs"
    "cs_written (stream (tc_stream d)) = cs_written (stream (tc_stream c)) @
      as_bytes (add_onion_command (ce_crypto E) key flags ms port target auth) @ [13, 10]"
    unfolding add_onion_cmd_def using write_command_answered [OF E rs answer_ok(1, 2) n opened c] by blast
  from add_onion_answered [OF sid keys flags] have "add_onion E n key flags ms port target auth c = (Ret (Ok (None, s)), d)"
    using d(1) answer_ok(3) [of sid keys] by (auto simp: add_onion_def action_defs split: result.splits)
  with d show ?thesis by blast
qed

text \<open>
  A listener on a bootstrapped client whose daemon answers: the command with the key, the port and the
  keys of the clients is on the wire, and the service is registered with the flag of the listener.
\<close>

lemma legacy_listener_registers:
  assumes E: "pattern_laws (ce_control E)" "codec_laws (ce_crypto E)" "signature_laws (ce_crypto E)" "signing_key (ce_crypto E) key"
    and rs: "list_all (\<lambda>r. parts_ok E r \<and> is_event r) rs" and n: "length rs < n"
    and c: "lc_bootstrapped c" "open_socket (tc_stream (lc_controller c))"
      "before_lines (tc_stream (lc_controller c))
         (printed (rs @ [add_onion_answer (service_id_to_string (service_id_from_private_key (ce_crypto E) key)) keys]) @ ls) [] False"
    and keys: "list_all plain_key keys" "keys \<noteq> [] \<Longrightarrow> (case auth of Some ks \<Rightarrow> ks | None \<Rightarrow> []) \<noteq> []"
    and sys: "sys_bind sys = Ok listener" "sys_local_addr sys listener = Ok addr"
  shows "\<exists>l d. legacy_listener E n T sys key port auth c = (Ret (Ok l), d) \<and>
    ol_onion_addr l = V3 (onion_addr_v3_new (service_id_from_private_key (ce_crypto E) key) port) \<and> ol_listener l = listener \<and>
    lc_onion_services d = lc_onion_services c @ [(service_id_from_private_key (ce_crypto E) key, ol_data l)] \<and>
    lc_active d = (lc_active c)(ol_data l := True) \<and> ol_data l = lc_next_flag c \<and>
    cs_written (stream (tc_stream (lc_controller d))) = cs_written (stream (tc_stream (lc_controller c))) @
      as_bytes (add_onion_command (ce_crypto E) (Some key) (listener_flags auth) None port (Some addr) auth) @ [13, 10] \<and>
    tc_async_replies (lc_controller d) = tc_async_replies (lc_controller c) @ map parts_reply rs"
proof -
  have "discard_pk (listener_flags auth)" by (simp add: listener_flags_def)
  from add_onion_daemon [OF E(1) rs n c(2, 3) own_service_id(1) [OF E(2-4)] keys this] obtain d where
    d: "add_onion E n (Some key) (listener_flags auth) None port (Some addr) auth (lc_controller c) =
        (Ret (Ok (None, service_id_from_private_key (ce_crypto E) key)), d)"
      "tc_async_replies d = tc_async_replies (lc_controller c) @ map parts_reply rs"
      "cs_written (stream (tc_stream d)) = cs_written (stream (tc_stream (lc_controller c))) @
        as_bytes (add_onion_command (ce_crypto E) (Some key) (listener_flags auth) None port (Some addr) auth) @ [13, 10]" by blast
  let ?on = "V3 (onion_addr_v3_new (service_id_from_private_key (ce_crypto E) key) port)"
  let ?l = "onion_listener_new listener ?on (lc_next_flag c)"
  let ?d = "snd (register_service listener ?on (service_id_from_private_key (ce_crypto E) key) (c\<lparr> lc_controller := d \<rparr>))"
  have "legacy_listener E n T sys key port auth c = (Ret (Ok ?l), ?d)"
    using c(1) sys d(1)
    by (simp add: legacy_listener_def into_error_def when_bootstrapped_def on_controller_def action_defs register_service_def Let_def)
  with d(2, 3) show ?thesis by (simp add: register_service_def Let_def onion_listener_new_def)
qed

end
