(* ===== verification/Mock_Tor.thy ===== *)
theory Mock_Tor
  imports Provider_Host
begin

text \<open>
  The mock provider (\<open>tor-interface/src/mock_tor_client.rs\<close>) as an implementation of the provider
  trait. The network, a static behind a lock, and the flags shared between a client and its
  listeners are one state, the world, that is passed along; a flag is a number.
\<close>

section \<open>The network\<close>

datatype mock_error =
    ClientNotBootstrapped
  | ClientAlreadyBootstrapped
  | OnionServiceNotFound onion_addr
  | OnionServiceNotPublished onion_addr
  | OnionServiceRequiresOnionAuth
  | OnionServiceAuthInvalid
  | TcpListenerBindFailed io_error_kind
  | TcpListenerLocalAddrFailed io_error_kind
  | ConnectFailed target_addr
  | NotImplemented

record mock_world =
  mw_onion_services :: "(onion_addr \<rightharpoonup> x25519_public_key list \<times> socket_addr) option"
  mw_active :: "nat \<Rightarrow> bool"
  mw_next_flag :: nat

definition connect_to_onion ::
  "sys_ops \<Rightarrow> v3_onion_service_id \<Rightarrow> u16 \<Rightarrow> x25519_public_key option \<Rightarrow> mock_world \<Rightarrow> (onion_stream, mock_error) result" where
  "connect_to_onion sys service_id virt_port client_auth w =
     (let onion_addr = V3 (onion_addr_v3_new service_id virt_port) in
      case mw_onion_services w of
        None \<Rightarrow> Err (OnionServiceNotPublished onion_addr)
      | Some onion_services \<Rightarrow>
          (case onion_services onion_addr of
             None \<Rightarrow> Err (OnionServiceNotPublished onion_addr)
           | Some (client_auth_keys, socket_addr) \<Rightarrow>
               (case (case (length client_auth_keys, client_auth) of
                        (0, None) \<Rightarrow> Ok ()
                      | (_, None) \<Rightarrow> Err OnionServiceRequiresOnionAuth
                      | (0, Some _) \<Rightarrow> Err OnionServiceAuthInvalid
                      | (_, Some client_auth) \<Rightarrow>
                          if client_auth \<notin> set client_auth_keys then Err OnionServiceAuthInvalid else Ok ()) of
                  Err e \<Rightarrow> Err e
                | Ok _ \<Rightarrow>
                    (case sys_connect sys socket_addr of
                       Ok st \<Rightarrow> Ok \<lparr> os_stream = st, os_local_addr = None, os_peer_addr = Some (OnionService onion_addr) \<rparr>
                     | Err _ \<Rightarrow> Err (OnionServiceNotFound onion_addr)))))"

definition start_onion ::
  "v3_onion_service_id \<Rightarrow> u16 \<Rightarrow> x25519_public_key list \<Rightarrow> socket_addr \<Rightarrow> mock_world \<Rightarrow> mock_world" where
  "start_onion service_id virt_port client_auth_keys address w =
     (let onion_addr = V3 (onion_addr_v3_new service_id virt_port) in
      case mw_onion_services w of
        Some m \<Rightarrow> w\<lparr> mw_onion_services := Some (m(onion_addr \<mapsto> (client_auth_keys, address))) \<rparr>
      | None \<Rightarrow> w\<lparr> mw_onion_services := Some [onion_addr \<mapsto> (client_auth_keys, address)] \<rparr>)"

definition stop_onion :: "onion_addr \<Rightarrow> mock_world \<Rightarrow> mock_world" where
  "stop_onion onion_addr w = (case mw_onion_services w of
      Some m \<Rightarrow> w\<lparr> mw_onion_services := Some (m(onion_addr := None)) \<rparr>
    | None \<Rightarrow> w)"

section \<open>The client\<close>

record mock_client =
  mc_events :: "tor_event list"
  mc_bootstrapped :: bool
  mc_client_auth_keys :: "v3_onion_service_id \<rightharpoonup> x25519_public_key"
  mc_onion_services :: "(onion_addr \<times> nat) list"
  mc_loopback :: socket_addr

text \<open>\<open>new\<close>, with the address of the loopback listener.\<close>

definition mock_new :: "socket_addr \<Rightarrow> mock_client" where
  "mock_new loopback = \<lparr> mc_events = [LogReceived ''[notice] MockTorClient running''], mc_bootstrapped = False,
     mc_client_auth_keys = Map.empty, mc_onion_services = [], mc_loopback = loopback \<rparr>"

definition mock_error_fmt :: "(target_addr \<Rightarrow> string) \<Rightarrow> mock_error \<Rightarrow> string" where
  "mock_error_fmt target_fmt e = (case e of
      ClientNotBootstrapped \<Rightarrow> ''client not bootstrapped''
    | ClientAlreadyBootstrapped \<Rightarrow> ''client already bootstrapped''
    | OnionServiceNotFound (V3 a) \<Rightarrow> ''onion service not found: '' @ onion_addr_v3_fmt a
    | OnionServiceNotPublished (V3 a) \<Rightarrow> ''onion service not published: '' @ onion_addr_v3_fmt a
    | OnionServiceRequiresOnionAuth \<Rightarrow> ''onion service requires onion auth''
    | OnionServiceAuthInvalid \<Rightarrow> ''provided onion auth key invalid''
    | TcpListenerBindFailed _ \<Rightarrow> ''unable to bind TCP listener''
    | TcpListenerLocalAddrFailed _ \<Rightarrow> ''unable to get TCP listener'' @ [CHR 0x27] @ ''s local adress''
    | ConnectFailed t \<Rightarrow> ''unable to connect to '' @ target_fmt t
    | NotImplemented \<Rightarrow> ''not implemented'')"

definition mock_error_into :: "(target_addr \<Rightarrow> string) \<Rightarrow> mock_error \<Rightarrow> tor_error" where
  "mock_error_into target_fmt e = Generic_error (mock_error_fmt target_fmt e)"

type_synonym mock_state = "mock_client \<times> mock_world"

function mock_prune :: "nat \<Rightarrow> (onion_addr \<times> nat) list \<Rightarrow> mock_world \<Rightarrow> (onion_addr \<times> nat) list \<times> mock_world" where
  "mock_prune i services w =
     (if i < length services then
        (if \<not> mw_active w (snd (services ! i))
         then mock_prune i (swap_remove i services) (stop_onion (fst (services ! i)) w)
         else mock_prune (i + 1) services w)
      else (services, w))"
  by pat_completeness auto
termination
  by (relation "measure (\<lambda>(i, services, w). length services + (length services - i))") auto

declare mock_prune.simps [simp del]

definition mock_update :: "mock_state \<Rightarrow> (tor_event list, tor_error) result \<times> mock_state" where
  "mock_update p = (case p of (c, w) \<Rightarrow>
     (case mock_prune 0 (mc_onion_services c) w of (services, w) \<Rightarrow>
       (Ok (mc_events c), (c\<lparr> mc_onion_services := services, mc_events := [] \<rparr>, w))))"

definition mock_bootstrap :: "(target_addr \<Rightarrow> string) \<Rightarrow> mock_state \<Rightarrow> (unit, tor_error) result \<times> mock_state" where
  "mock_bootstrap fmt p = (case p of (c, w) \<Rightarrow>
     if mc_bootstrapped c then (Err (mock_error_into fmt ClientAlreadyBootstrapped), p)
     else (Ok (), (c\<lparr> mc_events := mc_events c @
            [BootstrapStatus 0 ''start'' ''bootstrapping started'',
             BootstrapStatus 50 ''middle'' ''bootstrapping continues'',
             BootstrapStatus 100 ''finished'' ''bootstrapping completed'',
             BootstrapComplete],
          mc_bootstrapped := True \<rparr>, w)))"

definition mock_add_client_auth ::
  "crypto_ops \<Rightarrow> v3_onion_service_id \<Rightarrow> x25519_private_key \<Rightarrow> mock_state \<Rightarrow> (unit, tor_error) result \<times> mock_state" where
  "mock_add_client_auth C service_id client_auth p = (case p of (c, w) \<Rightarrow>
     (Ok (), (c\<lparr> mc_client_auth_keys :=
        (mc_client_auth_keys c)(service_id \<mapsto> x25519_public_from_private_key C client_auth) \<rparr>, w)))"

definition mock_remove_client_auth :: "v3_onion_service_id \<Rightarrow> mock_state \<Rightarrow> (unit, tor_error) result \<times> mock_state" where
  "mock_remove_client_auth service_id p = (case p of (c, w) \<Rightarrow>
     (Ok (), (c\<lparr> mc_client_auth_keys := (mc_client_auth_keys c)(service_id := None) \<rparr>, w)))"

definition mock_connect ::
  "(target_addr \<Rightarrow> string) \<Rightarrow> sys_ops \<Rightarrow> target_addr \<Rightarrow> circuit_token option \<Rightarrow> mock_state \<Rightarrow>
   (onion_stream, tor_error) result \<times> mock_state" where
  "mock_connect fmt sys target circuit p = (case p of (c, w) \<Rightarrow>
     ((case target of
         OnionService (V3 a) \<Rightarrow>
           (case connect_to_onion sys (oa_service_id a) (oa_virt_port a) (mc_client_auth_keys c (oa_service_id a)) w of
              Ok s \<Rightarrow> Ok s
            | Err e \<Rightarrow> Err (mock_error_into fmt e))
       | target_address \<Rightarrow>
           (case sys_connect sys (mc_loopback c) of
              Ok st \<Rightarrow> Ok \<lparr> os_stream = st, os_local_addr = None, os_peer_addr = Some target_address \<rparr>
            | Err _ \<Rightarrow> Err (mock_error_into fmt (ConnectFailed target_address)))), p))"

definition mock_listener ::
  "crypto_ops \<Rightarrow> (target_addr \<Rightarrow> string) \<Rightarrow> sys_ops \<Rightarrow> ed25519_private_key \<Rightarrow> u16 \<Rightarrow> x25519_public_key list option \<Rightarrow>
   mock_state \<Rightarrow> (onion_listener, tor_error) result \<times> mock_state" where
  "mock_listener C fmt sys private_key virt_port authorized_clients p = (case p of (c, w) \<Rightarrow>
     (let service_id = service_id_from_private_key C private_key;
          onion_addr = V3 (onion_addr_v3_new service_id virt_port);
          authorized_clients = (case authorized_clients of Some keys \<Rightarrow> keys | None \<Rightarrow> []) in
      case sys_bind sys of
        Err k \<Rightarrow> (Err (mock_error_into fmt (TcpListenerBindFailed k)), p)
      | Ok listener \<Rightarrow>
          (case sys_local_addr sys listener of
             Err k \<Rightarrow> (Err (mock_error_into fmt (TcpListenerLocalAddrFailed k)), p)
           | Ok socket_addr \<Rightarrow>
               (let w = start_onion service_id virt_port authorized_clients socket_addr w;
                    is_active = mw_next_flag w;
                    w = w\<lparr> mw_active := (mw_active w)(is_active := True), mw_next_flag := is_active + 1 \<rparr>
                in (Ok (onion_listener_new listener onion_addr is_active),
                    (c\<lparr> mc_onion_services := mc_onion_services c @ [(onion_addr, is_active)],
                        mc_events := mc_events c @ [OnionServicePublished service_id] \<rparr>, w))))))"

text \<open>The closure that runs when a listener is dropped, and the drop of the client itself.\<close>

definition mock_listener_drop :: "onion_listener \<Rightarrow> mock_world \<Rightarrow> mock_world" where
  "mock_listener_drop l w = w\<lparr> mw_active := (mw_active w)(ol_data l := False) \<rparr>"

definition mock_drop :: "mock_client \<Rightarrow> mock_world \<Rightarrow> mock_world" where
  "mock_drop c w = fold (\<lambda>e. stop_onion (fst e)) (mc_onion_services c) w"

definition mock_generate_token :: "mock_state \<Rightarrow> circuit_token \<times> mock_state" where
  "mock_generate_token p = (0, p)"

definition mock_release_token :: "circuit_token \<Rightarrow> mock_state \<Rightarrow> mock_state" where
  "mock_release_token token p = p"

text \<open>The implementation of the trait.\<close>

definition mock_provider ::
  "crypto_ops \<Rightarrow> (target_addr \<Rightarrow> string) \<Rightarrow> sys_ops \<Rightarrow> (rw_stream \<Rightarrow> (unit, io_error_kind) result) \<Rightarrow>
   (onion_listener \<Rightarrow> (unit, io_error_kind) result) \<Rightarrow> mock_state tor_provider" where
  "mock_provider C fmt sys nbs nbl = \<lparr>
     tp_update = mock_update,
     tp_bootstrap = mock_bootstrap fmt,
     tp_add_client_auth = mock_add_client_auth C,
     tp_remove_client_auth = mock_remove_client_auth,
     tp_connect = mock_connect fmt sys,
     tp_listener = mock_listener C fmt sys,
     tp_generate_token = mock_generate_token,
     tp_release_token = mock_release_token,
     stream_set_nonblocking = nbs,
     listener_set_nonblocking = nbl \<rparr>"

section \<open>Access to onion services\<close>

definition service_at :: "mock_world \<Rightarrow> onion_addr \<Rightarrow> (x25519_public_key list \<times> socket_addr) option" where
  "service_at w a = (case mw_onion_services w of Some m \<Rightarrow> m a | None \<Rightarrow> None)"

definition key_admitted :: "x25519_public_key list \<Rightarrow> x25519_public_key option \<Rightarrow> bool" where
  "key_admitted keys auth \<longleftrightarrow> (case auth of None \<Rightarrow> keys = [] | Some k \<Rightarrow> k \<in> set keys)"

lemma connect_to_onion_Ok_iff:
  "connect_to_onion sys sid port auth w = Ok s \<longleftrightarrow> (\<exists>keys addr st.
     service_at w (V3 (onion_addr_v3_new sid port)) = Some (keys, addr) \<and> key_admitted keys auth \<and>
     sys_connect sys addr = Ok st \<and>
     s = \<lparr> os_stream = st, os_local_addr = None, os_peer_addr = Some (OnionService (V3 (onion_addr_v3_new sid port))) \<rparr>)"
  by (cases auth)
    (auto simp: connect_to_onion_def service_at_def key_admitted_def Let_def split: option.splits result.splits nat.splits)

lemma service_at_start:
  "service_at (start_onion sid port keys addr w) a =
     (if a = V3 (onion_addr_v3_new sid port) then Some (keys, addr) else service_at w a)"
  by (auto simp: service_at_def start_onion_def Let_def split: option.splits)

lemma service_at_stop: "service_at (stop_onion b w) a = (if a = b then None else service_at w a)"
  by (auto simp: service_at_def stop_onion_def split: option.splits)

lemma service_at_flags [simp]:
  "service_at (w\<lparr> mw_active := f \<rparr>) a = service_at w a" "service_at (w\<lparr> mw_next_flag := n \<rparr>) a = service_at w a"
  by (simp_all add: service_at_def)

lemma mw_active_stop [simp]: "mw_active (stop_onion a w) = mw_active w"
  by (simp add: stop_onion_def split: option.split)

section \<open>Pruning\<close>

text \<open>Pruning keeps exactly the services whose listener is alive and stops the others.\<close>

lemma mock_prune_spec:
  assumes "mock_prune i services w = (kept, v)" "\<forall>j<i. mw_active w (snd (services ! j))" "i \<le> length services"
  shows "mset kept = filter_mset (\<lambda>e. mw_active w (snd e)) (mset services) \<and>
    (\<forall>a. service_at v a = (if \<exists>f. (a, f) \<in> set services \<and> \<not> mw_active w f then None else service_at w a)) \<and>
    mw_active v = mw_active w"
  using assms
proof (induction i services w arbitrary: kept v rule: mock_prune.induct)
  case (1 i services w)
  show ?case
  proof (cases "i < length services")
    case False
    with 1(4,5) have act: "\<forall>e\<in>set services. mw_active w (snd e)" by (metis in_set_conv_nth le_antisym linorder_not_less)
    then have "filter_mset (\<lambda>e. mw_active w (snd e)) (mset services) = mset services"
      by (intro filter_mset_eq_conv [THEN iffD2]) auto
    with False 1(3) act show ?thesis by (force simp: mock_prune.simps)
  next
    case True
    obtain a f where af: "services ! i = (a, f)" by fastforce
    have ms: "mset services = add_mset (a, f) (mset (swap_remove i services))" using swap_remove_mset [OF True] af by simp
    then have st: "set services = insert (a, f) (set (swap_remove i services))" by (metis set_mset_add_mset_insert set_mset_mset)
    show ?thesis
    proof (cases "mw_active w f")
      case False
      let ?w = "stop_onion a w"
      have run: "mock_prune i (swap_remove i services) ?w = (kept, v)"
        using 1(3) True False af by (subst (asm) mock_prune.simps) simp
      have "mset kept = filter_mset (\<lambda>e. mw_active ?w (snd e)) (mset (swap_remove i services)) \<and>
        (\<forall>b. service_at v b = (if \<exists>f. (b, f) \<in> set (swap_remove i services) \<and> \<not> mw_active ?w f then None else service_at ?w b)) \<and>
        mw_active v = mw_active ?w"
        using 1(1) [of kept v] True False af run 1(4) by (auto simp: swap_remove_before)
      with False show ?thesis unfolding ms st by (auto simp: service_at_stop)
    next
      case act: True
      have run: "mock_prune (i + 1) services w = (kept, v)"
        using 1(3) True act af by (subst (asm) mock_prune.simps) simp
      show ?thesis using 1(2) [of kept v] True act af run 1(4) by (auto simp: less_Suc_eq)
    qed
  qed
qed

lemma mock_update_spec:
  assumes "mock_update (c, w) = (Ok evs, (c', w'))"
  shows "evs = mc_events c" "mc_events c' = []"
    "mset (mc_onion_services c') = filter_mset (\<lambda>e. mw_active w (snd e)) (mset (mc_onion_services c))"
    "service_at w' a = (if \<exists>f. (a, f) \<in> set (mc_onion_services c) \<and> \<not> mw_active w f then None else service_at w a)"
proof -
  obtain kept v where run: "mock_prune 0 (mc_onion_services c) w = (kept, v)" by fastforce
  from mock_prune_spec [OF this] assms run
  show "evs = mc_events c" "mc_events c' = []"
    "mset (mc_onion_services c') = filter_mset (\<lambda>e. mw_active w (snd e)) (mset (mc_onion_services c))"
    "service_at w' a = (if \<exists>f. (a, f) \<in> set (mc_onion_services c) \<and> \<not> mw_active w f then None else service_at w a)"
    by (auto simp: mock_update_def)
qed

interpretation mock: service_keeper
  "\<lambda>p. mc_onion_services (fst p)" "\<lambda>p. mw_active (snd p)" "\<lambda>l p. (fst p, mock_listener_drop l (snd p))"
  "\<lambda>p q. \<exists>evs. mock_update p = (Ok evs, q)"
  by unfold_locales (auto simp: mock_listener_drop_def dest: mock_update_spec(3))

section \<open>A service is reachable exactly with an admitted key\<close>

lemma mock_connect_onion_iff:
  "(\<exists>s. fst (mock_connect fmt sys (OnionService (V3 (onion_addr_v3_new sid port))) tok (c, w)) = Ok s) \<longleftrightarrow>
   (\<exists>keys addr st. service_at w (V3 (onion_addr_v3_new sid port)) = Some (keys, addr) \<and>
      key_admitted keys (mc_client_auth_keys c sid) \<and> sys_connect sys addr = Ok st)"
proof -
  have "(\<exists>s. fst (mock_connect fmt sys (OnionService (V3 (onion_addr_v3_new sid port))) tok (c, w)) = Ok s) \<longleftrightarrow>
    (\<exists>s. connect_to_onion sys sid port (mc_client_auth_keys c sid) w = Ok s)"
    by (auto simp: mock_connect_def onion_addr_v3_new_def split: result.split)
  then show ?thesis by (auto simp: connect_to_onion_Ok_iff)
qed

lemma mock_listener_Ok:
  assumes "mock_listener C fmt sys key port auth (c, w) = (Ok l, (c', w'))"
  obtains lst addr where "sys_bind sys = Ok lst" "sys_local_addr sys lst = Ok addr"
    "service_at w' (V3 (onion_addr_v3_new (service_id_from_private_key C key) port)) =
       Some (case auth of Some keys \<Rightarrow> keys | None \<Rightarrow> [], addr)"
    "mw_active w' (ol_data l)"
    "(V3 (onion_addr_v3_new (service_id_from_private_key C key) port), ol_data l) \<in> set (mc_onion_services c')"
    "OnionServicePublished (service_id_from_private_key C key) \<in> set (mc_events c')"
  using assms
  by (auto simp: mock_listener_def Let_def onion_listener_new_def service_at_start split: result.splits)

text \<open>Once its listener is dropped, the next update of the client makes a service unreachable.\<close>

lemma mock_dropped_unreachable:
  assumes "(V3 (onion_addr_v3_new sid port), ol_data l) \<in> set (mc_onion_services c)"
    and "mock_update (c, mock_listener_drop l w) = (Ok evs, (c', w'))"
  shows "\<not> (\<exists>s. fst (mock_connect fmt sys (OnionService (V3 (onion_addr_v3_new sid port))) tok (d, w')) = Ok s)"
proof -
  have "\<not> mw_active (mock_listener_drop l w) (ol_data l)" by (simp add: mock_listener_drop_def)
  with assms(1) mock_update_spec(4) [OF assms(2), of "V3 (onion_addr_v3_new sid port)"]
  have "service_at w' (V3 (onion_addr_v3_new sid port)) = None" by auto
  then show ?thesis by (simp add: mock_connect_onion_iff)
qed
end
