(* ===== verification/Object_Registry.thy ===== *)
theory Object_Registry
  imports Ordered_Map "HOL-Library.Word"
begin

unbundle bit_operations_syntax

text \<open>
  The registry of the C interface (\<open>cgosling/src/object_registry.rs\<close>): it owns objects and hands out
  keys, whose high bits count the insertions and whose low bits are the registry's tag. The
  constants \<open>TAG\<close> and \<open>TAG_BITS\<close> are arguments; \<open>usize\<close> has 64 bits. A mutable reference is the value
  with the function that writes it back.
\<close>

section \<open>The registry\<close>

type_synonym usize = "64 word"

record 't object_registry =
  or_map :: "(usize, 't) btree option"
  or_counter :: usize

definition COUNTER_BITS :: "nat \<Rightarrow> nat" where
  "COUNTER_BITS tag_bits = 64 - tag_bits"

definition COUNTER_MAX :: "nat \<Rightarrow> usize" where
  "COUNTER_MAX tag_bits = drop_bit tag_bits (NOT 0)"

definition next_key :: "usize \<Rightarrow> nat \<Rightarrow> ('t object_registry, usize) action" where
  "next_key tag tag_bits r =
     (if \<not> or_counter r < COUNTER_MAX tag_bits then (Panic, r)
      else let r = r\<lparr> or_counter := or_counter r + 1 \<rparr> in
        (Ret (push_bit tag_bits (or_counter r) OR tag), r))"

definition registry_new :: "usize \<Rightarrow> nat \<Rightarrow> 't object_registry outcome" where
  "registry_new tag tag_bits =
     (if tag_bits = 0 \<or> drop_bit (COUNTER_BITS tag_bits) (push_bit (COUNTER_BITS tag_bits) tag) = tag
      then Ret \<lparr> or_map = None, or_counter = 0 \<rparr> else Panic)"

definition registry_contains_key :: "'t object_registry \<Rightarrow> usize \<Rightarrow> bool" where
  "registry_contains_key r key = (case or_map r of Some m \<Rightarrow> bt_get m key \<noteq> None | None \<Rightarrow> False)"

definition registry_remove :: "usize \<Rightarrow> 't object_registry \<Rightarrow> 't option \<times> 't object_registry" where
  "registry_remove key r = (case or_map r of
      Some m \<Rightarrow> (bt_get m key, r\<lparr> or_map := Some (bt_remove key m) \<rparr>)
    | None \<Rightarrow> (None, r))"

definition registry_insert :: "usize \<Rightarrow> nat \<Rightarrow> 't \<Rightarrow> ('t object_registry, usize) action" where
  "registry_insert tag tag_bits val = andthen (next_key tag tag_bits) (\<lambda>key r. case or_map r of
      Some m \<Rightarrow> (if bt_get m key \<noteq> None then (Panic, r\<lparr> or_map := Some (bt_insert key val m) \<rparr>)
                 else (Ret key, r\<lparr> or_map := Some (bt_insert key val m) \<rparr>))
    | None \<Rightarrow> (Ret key, r\<lparr> or_map := Some (bt_insert key val []) \<rparr>))"

definition registry_get :: "'t object_registry \<Rightarrow> usize \<Rightarrow> 't option" where
  "registry_get r key = (case or_map r of Some m \<Rightarrow> bt_get m key | None \<Rightarrow> None)"

definition registry_get_mut :: "'t object_registry \<Rightarrow> usize \<Rightarrow> ('t \<times> ('t \<Rightarrow> 't object_registry)) option" where
  "registry_get_mut r key = (case or_map r of
      Some m \<Rightarrow> map_option (\<lambda>v. (v, \<lambda>w. r\<lparr> or_map := Some (bt_insert key w m) \<rparr>)) (bt_get m key)
    | None \<Rightarrow> None)"

definition get_tag_from_key :: "nat \<Rightarrow> usize \<Rightarrow> usize" where
  "get_tag_from_key tag_bits key = drop_bit (COUNTER_BITS tag_bits) (push_bit (COUNTER_BITS tag_bits) key)"

definition get_counter_from_key :: "nat \<Rightarrow> usize \<Rightarrow> usize" where
  "get_counter_from_key tag_bits key = drop_bit tag_bits key"

definition get_key_from_counter :: "usize \<Rightarrow> nat \<Rightarrow> usize \<Rightarrow> usize" where
  "get_key_from_counter tag tag_bits counter = push_bit tag_bits counter OR tag"

section \<open>Keys\<close>

definition tag_fits :: "usize \<Rightarrow> nat \<Rightarrow> bool" where
  "tag_fits tag tag_bits \<longleftrightarrow> tag_bits < 64 \<and> take_bit tag_bits tag = tag"

lemma shift_out: "b \<le> 64 \<Longrightarrow> drop_bit (64 - b) (push_bit (64 - b) (w :: usize)) = take_bit b w"
  by (rule bit_eqI) (auto simp: bit_simps)

lemma registry_new_Ret:
  assumes "registry_new tag b = Ret r" "0 < b" "b < 64"
  shows "tag_fits tag b" "r = \<lparr> or_map = None, or_counter = 0 \<rparr>"
  using assms shift_out [of b tag] by (auto simp: registry_new_def COUNTER_BITS_def tag_fits_def split: if_splits)

lemma counter_bits:
  assumes "b \<le> 64" "c \<le> COUNTER_MAX b"
  shows "take_bit (64 - b) c = c"
proof -
  have "unat c \<le> unat (drop_bit b (- 1 :: usize))" using assms(2) by (simp add: COUNTER_MAX_def word_le_nat_alt)
  also have "\<dots> = (2 ^ 64 - 1) div 2 ^ b" unfolding unat_drop_bit_eq
    by (simp add: drop_bit_eq_div unsigned_minus_1_eq_mask mask_eq_exp_minus_1)
  also have "\<dots> < 2 ^ (64 - b)"
  proof -
    have "(2 :: nat) ^ 64 = 2 ^ (64 - b) * 2 ^ b" using assms(1) by (simp flip: power_add)
    then have "(2 :: nat) ^ 64 - 1 < 2 ^ (64 - b) * 2 ^ b" by simp
    then show ?thesis by (rule less_mult_imp_div_less)
  qed
  finally have "unat (take_bit (64 - b) c) = unat c" by (simp add: unsigned_take_bit_eq take_bit_nat_eq_self)
  then show ?thesis by (simp only: word_unat_eq_iff)
qed

lemma key_parts:
  assumes "tag_fits tag b" "c \<le> COUNTER_MAX b"
  shows "get_tag_from_key b (get_key_from_counter tag b c) = tag"
    "get_counter_from_key b (get_key_from_counter tag b c) = c"
proof -
  have b: "b < 64" and t: "\<And>n. bit tag n \<Longrightarrow> n < b"
    using assms(1) by (auto simp: tag_fits_def) (metis bit_take_bit_iff)
  have c: "n < 64 - b" if "bit c n" for n using counter_bits [OF _ assms(2)] b that by (metis bit_take_bit_iff less_imp_le)
  show "get_tag_from_key b (get_key_from_counter tag b c) = tag"
    unfolding get_tag_from_key_def get_key_from_counter_def COUNTER_BITS_def
    using b t by (subst shift_out) (auto intro!: bit_eqI simp: bit_simps)
  show "get_counter_from_key b (get_key_from_counter tag b c) = c"
    unfolding get_counter_from_key_def get_key_from_counter_def
    using t c by (intro bit_eqI) (fastforce simp: bit_simps)
qed

section \<open>Invariant\<close>

text \<open>Every key in the registry was made from a count that has been reached.\<close>

definition registry_inv :: "usize \<Rightarrow> nat \<Rightarrow> 't object_registry \<Rightarrow> bool" where
  "registry_inv tag b r \<longleftrightarrow> or_counter r \<le> COUNTER_MAX b \<and> (\<forall>m. or_map r = Some m \<longrightarrow> bt_inv m \<and>
     (\<forall>k. bt_get m k \<noteq> None \<longrightarrow> (\<exists>c. 0 < c \<and> c \<le> or_counter r \<and> k = get_key_from_counter tag b c)))"

lemma registry_inv_new: "registry_new tag b = Ret r \<Longrightarrow> registry_inv tag b r"
  by (auto simp: registry_new_def registry_inv_def split: if_splits)

lemma counter_step:
  assumes "(c :: usize) < m" shows "c < c + 1" "c + 1 \<le> m" "0 < c + 1"
  using assms by (simp_all add: word_less_nat_alt word_le_nat_alt) unat_arith+

lemma registry_get_old:
  assumes "registry_inv tag b r" "registry_get r k \<noteq> None"
  shows "\<exists>c. 0 < c \<and> c \<le> or_counter r \<and> k = get_key_from_counter tag b c"
  using assms by (auto simp: registry_inv_def registry_get_def split: option.splits)

text \<open>The key of the next count is not in use.\<close>

lemma registry_next_free:
  assumes "tag_fits tag b" "registry_inv tag b r" "or_counter r < COUNTER_MAX b"
  shows "registry_get r (get_key_from_counter tag b (or_counter r + 1)) = None"
proof (rule ccontr)
  assume "registry_get r (get_key_from_counter tag b (or_counter r + 1)) \<noteq> None"
  with registry_get_old [OF assms(2)] obtain c where c: "c \<le> or_counter r"
    "get_key_from_counter tag b (or_counter r + 1) = get_key_from_counter tag b c" by blast
  note step = counter_step [OF assms(3)]
  have "c \<le> COUNTER_MAX b" using c(1) assms(3) by simp
  with key_parts(2) [OF assms(1)] step(2) c(2) have "or_counter r + 1 = c" by metis
  with c(1) step(1) show False by simp
qed

lemma registry_insert_spec:
  assumes "tag_fits tag b" "registry_inv tag b r" "or_counter r < COUNTER_MAX b"
  defines "key \<equiv> get_key_from_counter tag b (or_counter r + 1)"
  obtains t where "registry_insert tag b v r = (Ret key, t)" "registry_inv tag b t" "or_counter t = or_counter r + 1"
    "registry_get t = (registry_get r)(key \<mapsto> v)"
proof -
  define m where "m = (case or_map r of Some m \<Rightarrow> m | None \<Rightarrow> [])"
  let ?t = "r\<lparr> or_counter := or_counter r + 1, or_map := Some (bt_insert key v m) \<rparr>"
  have m: "bt_inv m" "bt_get m = registry_get r"
    using assms(2) by (auto simp: m_def registry_inv_def registry_get_def bt_inv_def bt_get_def split: option.splits)
  note step = counter_step [OF assms(3)]
  have free: "bt_get m key = None" using registry_next_free [OF assms(1-3)] m(2) by (simp add: key_def)
  have "registry_insert tag b v r = (Ret key, ?t)"
    using assms(3) free unfolding key_def
    by (auto simp: registry_insert_def next_key_def andthen_def Let_def get_key_from_counter_def m_def split: option.splits)
  moreover have "registry_inv tag b ?t"
  proof -
    have "\<exists>c. 0 < c \<and> c \<le> or_counter r + 1 \<and> k = get_key_from_counter tag b c" if "bt_get (bt_insert key v m) k \<noteq> None" for k
    proof (cases "k = key")
      case True
      then show ?thesis using step by (auto simp: key_def)
    next
      case False
      with that m have "registry_get r k \<noteq> None" by (simp add: bt_insert_get)
      from registry_get_old [OF assms(2) this] obtain c where "0 < c" "c \<le> or_counter r" "k = get_key_from_counter tag b c" by blast
      with step(1) show ?thesis by (intro exI [of _ c]) auto
    qed
    with step(2) m(1) show ?thesis by (simp add: registry_inv_def bt_insert_inv)
  qed
  moreover have "registry_get ?t = (registry_get r)(key \<mapsto> v)"
    using m by (auto simp: registry_get_def bt_insert_get fun_eq_iff)
  ultimately show thesis using that by simp
qed

lemma registry_insert_full: "\<not> or_counter r < COUNTER_MAX b \<Longrightarrow> registry_insert tag b v r = (Panic, r)"
  by (simp add: registry_insert_def next_key_def andthen_def)

lemma registry_remove_spec:
  assumes "registry_inv tag b r" "registry_remove k r = (x, t)"
  shows "x = registry_get r k" "registry_get t = (registry_get r)(k := None)" "registry_inv tag b t"
    "or_counter t = or_counter r"
  using assms by (auto simp: registry_remove_def registry_get_def registry_inv_def fun_eq_iff bt.inv_remove bt.get_remove
      split: option.splits if_splits)

lemma registry_write_spec:
  assumes "registry_inv tag b r" "registry_get_mut r k = Some (x, put)"
  shows "registry_get r k = Some x" "registry_get (put w) = (registry_get r)(k \<mapsto> w)" "registry_inv tag b (put w)"
    "or_counter (put w) = or_counter r"
proof -
  from assms(2) obtain m where m: "or_map r = Some m" "bt_get m k = Some x" "put w = r\<lparr> or_map := Some (bt_insert k w m) \<rparr>"
    by (auto simp: registry_get_mut_def split: option.splits)
  with assms(1) have "bt_inv m" by (simp add: registry_inv_def)
  with m assms(1) show "registry_get r k = Some x" "registry_get (put w) = (registry_get r)(k \<mapsto> w)"
    "registry_inv tag b (put w)" "or_counter (put w) = or_counter r"
    by (auto simp: registry_get_def registry_inv_def fun_eq_iff bt_insert_get bt_insert_inv)
qed

section \<open>The life of a registry\<close>

inductive registry_runs :: "usize \<Rightarrow> nat \<Rightarrow> usize list \<Rightarrow> 't object_registry \<Rightarrow> bool" for tag b where
  registry_runs_new: "registry_new tag b = Ret r \<Longrightarrow> registry_runs tag b [] r"
| registry_runs_insert: "registry_runs tag b issued r \<Longrightarrow> registry_insert tag b v r = (Ret key, t) \<Longrightarrow>
    registry_runs tag b (issued @ [key]) t"
| registry_runs_remove: "registry_runs tag b issued r \<Longrightarrow> registry_remove k r = (x, t) \<Longrightarrow> registry_runs tag b issued t"
| registry_runs_write: "registry_runs tag b issued r \<Longrightarrow> registry_get_mut r k = Some (x, put) \<Longrightarrow>
    registry_runs tag b issued (put w)"

definition issued_inv :: "usize \<Rightarrow> nat \<Rightarrow> usize list \<Rightarrow> 't object_registry \<Rightarrow> bool" where
  "issued_inv tag b issued r \<longleftrightarrow> distinct issued \<and>
     (\<forall>k\<in>set issued. \<exists>c. 0 < c \<and> c \<le> or_counter r \<and> k = get_key_from_counter tag b c) \<and>
     (\<forall>k. registry_get r k \<noteq> None \<longrightarrow> k \<in> set issued)"

lemma registry_runs_inv:
  assumes "registry_runs tag b issued r" "tag_fits tag b"
  shows "registry_inv tag b r \<and> issued_inv tag b issued r"
  using assms(1)
proof induction
  case (registry_runs_new r)
  then have "registry_get r = Map.empty" by (auto simp: registry_new_def registry_get_def split: if_splits)
  with registry_inv_new [OF registry_runs_new] show ?case by (simp add: issued_inv_def)
next
  case (registry_runs_insert issued r v key t)
  then have inv: "registry_inv tag b r" "issued_inv tag b issued r" by simp_all
  have lt: "or_counter r < COUNTER_MAX b"
    using registry_runs_insert.hyps(2) registry_insert_full [of r b tag v] by (auto intro: ccontr)
  note step = counter_step [OF lt]
  from registry_insert_spec [OF assms(2) inv(1) lt, of v] registry_runs_insert.hyps(2)
  have t: "key = get_key_from_counter tag b (or_counter r + 1)" "registry_inv tag b t"
    "or_counter t = or_counter r + 1" "registry_get t = (registry_get r)(key \<mapsto> v)" by auto
  have "key \<notin> set issued"
  proof
    assume "key \<in> set issued"
    with inv(2) obtain c where c: "c \<le> or_counter r" "key = get_key_from_counter tag b c" by (auto simp: issued_inv_def)
    moreover have "c \<le> COUNTER_MAX b" using c(1) lt by simp
    ultimately have "or_counter r + 1 = c" using key_parts(2) [OF assms(2)] step(2) t(1) by metis
    with c(1) step(1) show False by simp
  qed
  moreover have "\<exists>c. 0 < c \<and> c \<le> or_counter t \<and> k = get_key_from_counter tag b c" if "k \<in> set issued" for k
  proof -
    from that inv(2) obtain c where "0 < c" "c \<le> or_counter r" "k = get_key_from_counter tag b c" by (auto simp: issued_inv_def)
    with step(1) t(3) show ?thesis by (intro exI [of _ c]) auto
  qed
  ultimately have "issued_inv tag b (issued @ [key]) t"
    using inv(2) t step by (auto simp: issued_inv_def)
  with t(2) show ?case by simp
next
  case (registry_runs_remove issued r k x t)
  then show ?case using registry_remove_spec [OF _ registry_runs_remove.hyps(2), of tag b]
    by (auto simp: issued_inv_def split: if_splits)
next
  case (registry_runs_write issued r k x "put" w)
  then show ?case using registry_write_spec [OF _ registry_runs_write.hyps(2), of tag b]
    by (auto simp: issued_inv_def split: if_splits)
qed

lemma key_not_null:
  assumes "tag_fits tag b" "0 < c" "c \<le> COUNTER_MAX b"
  shows "get_key_from_counter tag b c \<noteq> 0"
proof
  assume "get_key_from_counter tag b c = 0"
  with key_parts(2) [OF assms(1,3)] have "c = 0" by (simp add: get_counter_from_key_def)
  with assms(2) show False by simp
qed

lemma registry_keys:
  assumes "registry_runs tag b issued r" "tag_fits tag b"
  shows "distinct issued" "k \<in> set issued \<Longrightarrow> get_tag_from_key b k = tag \<and> k \<noteq> 0"
    "registry_contains_key r k \<Longrightarrow> k \<in> set issued"
proof -
  note inv = registry_runs_inv [OF assms]
  show "distinct issued" using inv by (simp add: issued_inv_def)
  show "registry_contains_key r k \<Longrightarrow> k \<in> set issued"
    using inv by (auto simp: issued_inv_def registry_contains_key_def registry_get_def split: option.splits)
  assume "k \<in> set issued"
  with inv obtain c where c: "0 < c" "c \<le> or_counter r" "k = get_key_from_counter tag b c" by (auto simp: issued_inv_def)
  moreover have "c \<le> COUNTER_MAX b" using inv c(2) by (auto simp: registry_inv_def)
  ultimately show "get_tag_from_key b k = tag \<and> k \<noteq> 0" using key_parts(1) [OF assms(2)] key_not_null [OF assms(2)] by simp
qed

end
