(* ===== verification/Reply_Limits.thy ===== *)
theory Reply_Limits
  imports Control_Replies
begin

text \<open>
  Which replies of the control protocol are understood. The lines of a value of several lines are arbitrary in the
  protocol; the reader takes a line that begins with three digits for a status line, whatever stands around it,
  and gives up.
\<close>

section \<open>Values with numbered lines\<close>

fun item_wf :: "reply_item \<Rightarrow> bool" where
  "item_wf (Line t) = sliceable t"
| "item_wf (Value t ds) = (sliceable t \<and> list_all (\<lambda>d. ascii_start d \<and> d \<noteq> ''.'') ds)"

fun item_numbered :: "reply_item \<Rightarrow> bool" where
  "item_numbered (Line t) = False"
| "item_numbered (Value t ds) = list_ex three_digits ds"

lemma plain_data_line:
  assumes "pattern_laws P" "ascii_start d" "d \<noteq> ''.''" "\<not> three_digits d"
  shows "data_line P d"
  using assms unfolding pattern_laws_def data_line_def by metis

lemma item_wf_ok: "pattern_laws P \<Longrightarrow> item_wf i \<Longrightarrow> \<not> item_numbered i \<Longrightarrow> item_ok P i"
  by (cases i) (auto simp: list_all_iff list_ex_iff plain_data_line)

lemma numbered_line_rejected:
  assumes "pattern_laws P" "before_lines s (d # ls) pr True" "ascii_start d" "three_digits d"
  shows "\<exists>m u. reply_loop P s = (Ret (Err (ReplyParseFailed m)), u)"
proof -
  obtain t where t: "read_line s = (Ok (Some d), t)" "before_lines t ls pr True"
    using before_lines_read [OF assms(2)] by blast
  have "multi_line_data P d" using assms(1, 3, 4) unfolding pattern_laws_def by metis
  moreover have "reading_multiline_value t" using t(2) by (simp add: before_lines_def)
  ultimately have "\<exists>m. reply_line P d t = (Ret (Err (ReplyParseFailed m)), t)"
    by (auto simp: reply_line_def same_status_multi sort_line_def action_defs)
  then show ?thesis using t(1) by (subst reply_loop.simps) auto
qed

lemma reply_loop_numbered_item:
  assumes P: "pattern_laws P" and code: "status_text code" and pr: "begun_with code pr"
    and item: "item_wf item" "item_numbered item" and s: "before_lines s (item_lines code item @ ls) pr False"
  shows "\<exists>m u. reply_loop P s = (Ret (Err (ReplyParseFailed m)), u)"
proof -
  obtain r ds where Value: "item = Value r ds" "list_ex three_digits ds" using item(2) by (cases item) auto
  then obtain as d bs where ds: "ds = as @ d # bs" "three_digits d" "\<forall>x\<in>set as. \<not> three_digits x"
    using split_list_first_prop [of ds three_digits] by (auto simp: list_ex_iff)
  note [simp] = same_status_ok [OF code, of "CHR ''+''"] status_line_kind [OF P code, of "CHR ''+''"]
  have first: "before_lines s ((code @ CHR ''+'' # r) # as @ d # bs @ ''.'' # ls) pr False" using s by (simp add: Value(1) ds(1))
  have "reply_line P (code @ CHR ''+'' # r) t =
      (Ret (Ok False), t\<lparr> pending_reply := pr @ [code @ CHR ''+'' # r], reading_multiline_value := True \<rparr>)"
    if "pending_reply t = pr" "reading_multiline_value t = False" for t
    using that pr by (simp add: reply_line_def sort_line_def action_defs)
  from reply_loop_step [OF first this] obtain t where
    t: "reply_loop P s = reply_loop P t" "before_lines t (as @ d # bs @ ''.'' # ls) (pr @ [code @ CHR ''+'' # r]) True" by auto
  have "list_all (data_line P) as" using item(1) Value(1) ds plain_data_line [OF P] by (auto simp: list_all_iff)
  from reply_loop_data [OF this t(2)] obtain u pr' where
    u: "reply_loop P t = reply_loop P u" "before_lines u (d # bs @ ''.'' # ls) pr' True" by auto
  have "ascii_start d" using item(1) Value(1) ds(1) by simp
  from numbered_line_rejected [OF P u(2) this ds(2)] show ?thesis using t(1) u(1) by simp
qed

lemma reply_loop_numbered:
  assumes P: "pattern_laws P" and code: "status_text code"
  shows "begun_with code pr \<Longrightarrow> list_all item_wf items \<Longrightarrow> list_ex item_numbered items \<Longrightarrow>
    before_lines s (concat (map (item_lines code) items) @ ls) pr False \<Longrightarrow>
    \<exists>m u. reply_loop P s = (Ret (Err (ReplyParseFailed m)), u)"
proof (induction items arbitrary: s pr)
  case (Cons i items)
  have s: "before_lines s (item_lines code i @ concat (map (item_lines code) items) @ ls) pr False" using Cons.prems(4) by simp
  show ?case
  proof (cases "item_numbered i")
    case True
    then show ?thesis using reply_loop_numbered_item [OF P code Cons.prems(1) _ _ s] Cons.prems(2) by simp
  next
    case False
    then have "item_ok P i" using Cons.prems(2) item_wf_ok [OF P] by simp
    from reply_loop_item [OF P code Cons.prems(1) this s] obtain t where
      t: "reply_loop P s = reply_loop P t" "before_lines t (concat (map (item_lines code) items) @ ls) (pr @ [raw_entry code i]) False" by blast
    have "begun_with code (pr @ [raw_entry code i])"
      using Cons.prems(1) by (cases i) (simp_all add: begun_with_append [OF code])
    from Cons.IH [OF this _ _ t(2)] show ?thesis using Cons.prems(2, 3) False t(1) by simp
  qed
qed simp

lemma read_reply_numbered:
  assumes "pattern_laws P" "status_text code" "list_all item_wf items" "list_ex item_numbered items"
    and "before_lines s (printed_reply code items final @ ls) [] False"
  shows "\<exists>m u. read_reply P s = (Ret (Err (ReplyParseFailed m)), u)"
proof -
  have "before_lines s (concat (map (item_lines code) items) @ (code @ '' '' @ final) # ls) [] False"
    using assms(5) by (simp add: printed_reply_def)
  from reply_loop_numbered [OF assms(1, 2) _ assms(3, 4) this] obtain m u where "reply_loop P s = (Ret (Err (ReplyParseFailed m)), u)"
    by (auto simp: begun_with_def)
  then show ?thesis by (simp add: read_reply_def action_defs)
qed

end
