(* ===== verification/Sample_Control.thy ===== *)
theory Sample_Control
  imports Legacy_Runs Mock_Tor Sample_Context Object_Registry Reply_Limits
begin

text \<open>
  Inputs of the witnesses about the control port: patterns that satisfy their laws, a stream that
  receives given chunks, and a daemon that answers \<open>ADD_ONION\<close>; also those about the mock provider
  and the object registry.
\<close>

definition ascii_patterns :: control_patterns where
  "ascii_patterns = \<lparr>
     single_line_data = (\<lambda>s. three_digits s \<and> 4 \<le> length s \<and> s ! 3 = CHR ''-''),
     multi_line_data = three_digits,
     end_reply_line = (\<lambda>s. three_digits s \<and> 4 \<le> length s \<and> s ! 3 = CHR '' '') \<rparr>"

lemma ascii_pattern_laws: "pattern_laws ascii_patterns"
  by (simp add: pattern_laws_def ascii_patterns_def)

definition sample_text :: text_ops where
  "sample_text = \<lparr> socket_addr_from_str = (\<lambda>s. None),
     rx_transport = (\<lambda>s. list_ex c_identifier (text_lines s)),
     rx_fingerprint = (\<lambda>s. list_ex hex40 (text_lines s)),
     rx_bridge_option = key_value \<rparr>"

definition sample_env :: control_env where
  "sample_env = \<lparr> ce_crypto = toy_crypto, ce_text = sample_text, ce_control = ascii_patterns,
     ce_events = \<lparr> status_event_pattern = (\<lambda>s. None), status_event_argument_pattern = (\<lambda>s. []), hs_desc_pattern = (\<lambda>s. None) \<rparr> \<rparr>"

lemma sample_env_sel [simp]: "ce_crypto sample_env = toy_crypto" "ce_control sample_env = ascii_patterns"
  by (simp_all add: sample_env_def)

section \<open>Lines\<close>

lemma ascii_utf8: "list_all (\<lambda>b. b < 128) bs \<Longrightarrow> utf8_valid bs"
  by (induction bs) auto

text \<open>A text of printable characters is a line.\<close>

definition printable :: "string \<Rightarrow> bool" where
  "printable s \<longleftrightarrow> list_all (\<lambda>c. (of_char c :: nat) < 128 \<and> c \<noteq> CHR 10) s"

lemma printable_line:
  assumes "printable s"
  shows "line_ok s"
proof -
  have "b < 128" if "b \<in> set (as_bytes s)" for b
  proof -
    from that obtain c where c: "c \<in> set s" "b = of_char c" unfolding as_bytes_def set_map by blast
    with assms have "(of_char c :: nat) < 128" unfolding printable_def list_all_iff by blast
    then have "(of_nat (of_char c) :: byte) < 128" by (simp add: word_less_nat_alt unat_of_nat)
    then show ?thesis unfolding c(2) by (simp only: of_nat_of_char)
  qed
  then have "utf8_valid (as_bytes s)" by (intro ascii_utf8) (simp add: list_all_iff)
  moreover have "CHR 10 \<notin> set s" using assms unfolding printable_def list_all_iff by blast
  ultimately show ?thesis by (simp add: line_ok_def)
qed

lemma printable_simps [simp]:
  "printable []" "printable (c # s) \<longleftrightarrow> (of_char c :: nat) < 128 \<and> c \<noteq> CHR 10 \<and> printable s"
  "printable (s @ t) \<longleftrightarrow> printable s \<and> printable t" "printable (replicate n c) \<longleftrightarrow> n = 0 \<or> ((of_char c :: nat) < 128 \<and> c \<noteq> CHR 10)"
  unfolding printable_def by (simp_all only: list.pred_inject list_all_append simp_thms conj_assoc) (auto simp: list_all_iff)

section \<open>A reply in two chunks\<close>

text \<open>The reply to \<open>GETINFO version config-text\<close>, a value of one line and one of two lines.\<close>

definition sample_items :: "reply_item list" where
  "sample_items = [Line ''version=0.4.8.1'', Value ''config-text='' [''SocksPort auto'', ''AvoidDiskWrites 1'']]"

definition sample_reply_lines :: "string list" where
  "sample_reply_lines = printed_reply ''250'' sample_items ''OK''"

lemma sample_reply:
  "list_all line_ok sample_reply_lines" "list_all (item_ok ascii_patterns) sample_items" "sliceable ''OK''" "status_text ''250''"
proof -
  have "list_all printable sample_reply_lines"
    by (simp add: sample_reply_lines_def sample_items_def printed_reply_def)
  then show "list_all line_ok sample_reply_lines" by (auto simp: list_all_iff intro: printable_line)
  show "list_all (item_ok ascii_patterns) sample_items"
    using continuation_ascii [of "CHR ''v''"] continuation_ascii [of "CHR ''c''"]
    by (simp add: sample_items_def sliceable_def data_line_def ascii_patterns_def three_digits_def is_digit_def)
  show "sliceable ''OK''" using continuation_ascii [of "CHR ''O''"] by (simp add: sliceable_def)
  show "status_text ''250''" by (rule code_250)
qed

text \<open>The list of circuits has one line for each circuit, beginning with its number.\<close>

definition circuit_items :: "reply_item list" where
  "circuit_items = [Value ''circuit-status='' [''99 BUILT'', ''100 BUILT'']]"

lemma circuit_reply:
  "list_all line_ok (printed_reply ''250'' circuit_items ''OK'')" "list_all item_wf circuit_items" "list_ex item_numbered circuit_items"
  "[] \<noteq> encoded_lines (printed_reply ''250'' circuit_items ''OK'')"
proof -
  have "list_all printable (printed_reply ''250'' circuit_items ''OK'')"
    by (simp add: circuit_items_def printed_reply_def)
  then show "list_all line_ok (printed_reply ''250'' circuit_items ''OK'')" by (auto simp: list_all_iff intro: printable_line)
  show "list_all item_wf circuit_items"
    using continuation_ascii [of "CHR ''c''"] by (simp add: circuit_items_def sliceable_def ascii_start_def)
  show "list_ex item_numbered circuit_items" by (simp add: circuit_items_def three_digits_def is_digit_def)
  show "[] \<noteq> encoded_lines (printed_reply ''250'' circuit_items ''OK'')" by (simp add: encoded_lines_def printed_reply_def)
qed

section \<open>A listener\<close>

definition listener_key :: ed25519_private_key where
  "listener_key = \<lparr> expanded_keypair = replicate 64 2 \<rparr>"

lemma listener_signing_key: "signing_key toy_crypto listener_key"
  by (simp add: toy_signing_key listener_key_def list_all_iff)

lemma listener_service_id:
  "service_id_to_string (service_id_from_private_key toy_crypto listener_key) =
     replicate 32 (CHR 2) @ [CHR 7, CHR 7, CHR 3] @ replicate 21 (CHR ''a'')"
  by code_simp

definition loopback :: socket_addr where
  "loopback = \<lparr> sa_ip = ''127.0.0.1'', sa_port = 5000 \<rparr>"

definition sample_sys :: sys_ops where
  "sample_sys = \<lparr> sys_bind = Ok \<lparr> tl_accepts = [] \<rparr>, sys_local_addr = (\<lambda>l. Ok loopback), sys_connect = (\<lambda>a. Err TimedOut) \<rparr>"


text \<open>A bootstrapped client whose daemon sends an event and answers \<open>ADD_ONION\<close>.\<close>

definition sample_event :: reply_parts where
  "sample_event = (''650'', [], ''STATUS_CLIENT NOTICE CIRCUIT_ESTABLISHED'')"

definition client_with :: "tor_controller \<Rightarrow> legacy_client" where
  "client_with t = \<lparr> lc_daemon = None, lc_version = min_required_version, lc_controller = t, lc_bootstrapped = True,
     lc_socks_listener = Some loopback, lc_onion_services = [], lc_circuit_token_counter = 0, lc_circuit_tokens = [],
     lc_active = (\<lambda>_. False), lc_next_flag = 0 \<rparr>"

definition answering :: "reply_parts list \<Rightarrow> tor_controller" where
  "answering rs = tor_controller_new (fresh_stream [encoded_lines (printed rs)])"

lemma event_ok: "parts_ok E sample_event" "is_event sample_event"
proof -
  have "sliceable ''STATUS_CLIENT NOTICE CIRCUIT_ESTABLISHED''"
    using continuation_ascii [of "CHR ''S''"] by (simp add: sliceable_def)
  then show "parts_ok E sample_event" by (simp add: parts_ok_def sample_event_def status_text_def is_digit_def)
  have "digits_value ''650'' = 650" by (simp add: digits_value_def digit_value_def)
  then show "is_event sample_event" by (simp add: is_event_def sample_event_def parts_reply_def reply_of_def)
qed

lemma answering_before:
  assumes "list_all printable (printed rs)" "printed rs \<noteq> []"
  shows "before_lines (tc_stream (answering rs)) (printed rs) [] False" "open_socket (tc_stream (answering rs))"
proof -
  have "encoded_lines (printed rs) \<noteq> []" using assms(2) by (cases "printed rs") (simp_all add: encoded_lines_def)
  moreover have "list_all line_ok (printed rs)" using assms(1) by (auto simp: list_all_iff intro: printable_line)
  ultimately show "before_lines (tc_stream (answering rs)) (printed rs) [] False"
    by (simp add: answering_def tor_controller_new_def fresh_stream_before)
  show "open_socket (tc_stream (answering rs))" by (simp add: answering_def tor_controller_new_def fresh_stream_def open_socket_def)
qed

definition listener_replies :: "reply_parts list" where
  "listener_replies = [sample_event] @ [add_onion_answer (service_id_to_string (service_id_from_private_key toy_crypto listener_key)) []]"

lemma listener_replies_printable: "list_all printable (printed listener_replies)" "printed listener_replies \<noteq> []"
  unfolding listener_replies_def listener_service_id
  by (simp_all add: printed_def printed_reply_def sample_event_def add_onion_answer_def)

definition sample_answer :: reply_parts where
  "sample_answer = (''250'', sample_items, ''OK'')"

lemma sample_answer_ok: "parts_ok sample_env sample_answer" "\<not> is_event sample_answer"
  using sample_reply code_250 by (simp_all add: parts_ok_def sample_answer_def)

lemma sample_answers_printable:
  "list_all printable (printed ([sample_event] @ [sample_answer]))" "printed ([sample_event] @ [sample_answer]) \<noteq> []"
  by (simp_all add: printed_def printed_reply_def sample_event_def sample_answer_def sample_items_def)


definition sample_settings :: "(string \<times> string) list" where
  "sample_settings = [(''Socks5ProxyPassword'', ''a'' @ [CHR 34, CHR 92] @ ''b''), (''UseBridges'', ''1'')]"

definition sample_texts :: error_texts where
  "sample_texts = \<lparr> et_io = (\<lambda>_. ''io error''), et_debug = quoted, et_transport = (\<lambda>_. ''invalid transport'') \<rparr>"

section \<open>Tokens\<close>

text \<open>A new client of a system daemon that has completed its bootstrap issues two tokens and releases the first.\<close>

definition new_client :: legacy_client where
  "new_client = (client_with (tor_controller_new (fresh_stream [])))\<lparr> lc_bootstrapped := False \<rparr>"

definition token_client :: legacy_client where
  "token_client = legacy_release_token 0 (snd (legacy_generate_token \<lparr> ct_username = ''u'', ct_password = ''q'' \<rparr>
     (snd (legacy_generate_token \<lparr> ct_username = ''u'', ct_password = ''p'' \<rparr>
       (snd (legacy_update sample_env 2 sample_texts new_client))))))"

lemma new_client_update: "legacy_update sample_env 2 sample_texts new_client = (Ret (Ok [BootstrapComplete]), new_client\<lparr> lc_bootstrapped := True \<rparr>)"
proof -
  have "read_line (fresh_stream []) = (Ok None, fresh_stream [])"
    by (subst read_line.simps) (simp add: receive_def read_to_end_def fresh_stream_def)
  then have "read_reply ascii_patterns (fresh_stream []) = (Ret (Ok None), fresh_stream [])"
    by (simp add: read_reply_def reply_loop.simps [of _ "fresh_stream []"] action_defs)
  then have "wait_async_events sample_env (tor_controller_new (fresh_stream [])) = (Ret (Ok []), tor_controller_new (fresh_stream []))"
    by (simp add: wait_async_events_def wait_async_replies_def on_stream_def wait_replies.simps [of _ _ "fresh_stream []"]
        tor_controller_new_def action_defs)
  moreover have "legacy_prune sample_env 2 0 new_client = (Ret (Ok ()), new_client)"
    by (subst legacy_prune.simps) (simp add: new_client_def client_with_def)
  ultimately show ?thesis
    by (intro legacy_update_run) (auto simp: new_client_def client_with_def legacy_events_def)
qed

lemma token_client_ready: "lc_bootstrapped token_client" "lc_socks_listener token_client = Some loopback"
  unfolding token_client_def new_client_update
  by (simp_all add: legacy_release_token_def legacy_generate_token_def Let_def new_client_def client_with_def)

lemma token_client_run: "legacy_runs [0, 1] {0} token_client"
proof -
  let ?c = "new_client\<lparr> lc_bootstrapped := True \<rparr>"
  have "legacy_runs [] {} new_client" by (rule legacy_new) (simp add: new_client_def client_with_def fresh_client_def)
  then have r: "legacy_runs [] {} ?c" by (rule legacy_called) (rule legacy_step.intros(1) [OF new_client_update])
  define c1 where "c1 = snd (legacy_generate_token \<lparr> ct_username = ''u'', ct_password = ''p'' \<rparr> ?c)"
  have g1: "legacy_generate_token \<lparr> ct_username = ''u'', ct_password = ''p'' \<rparr> ?c = (0, c1)"
    by (simp add: c1_def legacy_generate_token_def Let_def new_client_def client_with_def)
  define c2 where "c2 = snd (legacy_generate_token \<lparr> ct_username = ''u'', ct_password = ''q'' \<rparr> c1)"
  have g2: "legacy_generate_token \<lparr> ct_username = ''u'', ct_password = ''q'' \<rparr> c1 = (1, c2)"
    by (simp add: c2_def c1_def legacy_generate_token_def Let_def new_client_def client_with_def)
  from legacy_generated [OF legacy_generated [OF r g1] g2] have "legacy_runs [0, 1] {} c2" by simp
  from legacy_released [OF this, of 0] have "legacy_runs [0, 1] {0} (legacy_release_token 0 c2)" by simp
  then show ?thesis unfolding token_client_def new_client_update c1_def c2_def by simp
qed

section \<open>A dropped listener\<close>

definition dropped_listener :: onion_listener where
  "dropped_listener = onion_listener_new \<lparr> tl_accepts = [] \<rparr> (V3 (onion_addr_v3_new sample_id 80)) 0"

definition serving_client :: legacy_client where
  "serving_client = (client_with (answering [(''250'', [], ''OK'')]))\<lparr> lc_onion_services := [(sample_id, 0), (sample_id, 1)],
     lc_active := (\<lambda>f. f < 2), lc_next_flag := 2 \<rparr>"

lemma serving_client_update:
  "\<exists>events d. legacy_update sample_env 2 sample_texts (legacy_listener_drop dropped_listener serving_client) = (Ret (Ok events), d) \<and>
     set (lc_onion_services d) \<subseteq> set (lc_onion_services serving_client) \<and> length (lc_onion_services d) \<le> 1"
proof -
  let ?c = "legacy_listener_drop dropped_listener serving_client" and ?r = "(''250'', [], ''OK'') :: reply_parts"
  have p: "list_all printable (printed [?r])" "printed [?r] \<noteq> []" by (simp_all add: printed_def printed_reply_def)
  have r: "parts_ok sample_env ?r" "\<not> is_event ?r" using sample_reply(3) code_250 by (simp_all add: parts_ok_def)
  obtain t where t: "write_command sample_env 2 (''DEL_ONION '' @ service_id_to_string sample_id) (answering [?r]) = (Ret (Ok (parts_reply ?r)), t)"
    "before_lines (tc_stream t) [] [] False" "tc_async_replies t = []"
    using write_command_answered [of sample_env "[]" ?r 2 "answering [?r]" "[]"] r answering_before [OF p] ascii_pattern_laws
    by (auto simp: answering_def tor_controller_new_def)
  let ?d = "?c\<lparr> lc_onion_services := [(sample_id, 1)], lc_controller := t \<rparr>"
  have "del_onion sample_env 2 sample_id (answering [?r]) = (Ret (Ok ()), t)"
    using t(1) code_250(2) by (simp add: del_onion_def del_onion_cmd_def expect_codes_def action_defs)
  then have "legacy_prune sample_env 2 0 ?c = legacy_prune sample_env 2 0 ?d"
    by (subst legacy_prune.simps)
      (simp add: serving_client_def client_with_def legacy_listener_drop_def dropped_listener_def onion_listener_new_def swap_remove_def on_controller_def)
  also have "\<dots> = (Ret (Ok ()), ?d)"
    by (simp add: legacy_prune.simps [of _ _ 0] legacy_prune.simps [of _ _ "Suc 0"] serving_client_def legacy_listener_drop_def
        dropped_listener_def onion_listener_new_def)
  finally have prune: "legacy_prune sample_env 2 0 ?c = (Ret (Ok ()), ?d)" .
  obtain u where u: "wait_async_events sample_env t = (Ret (Ok []), u)"
    using wait_async_events_none [of sample_env t] t(2, 3) ascii_pattern_laws by auto
  have "legacy_events [] (?d\<lparr> lc_controller := u \<rparr>) = (Ret (Ok []), ?d\<lparr> lc_controller := u \<rparr>)"
    by (simp add: legacy_events_def serving_client_def client_with_def legacy_listener_drop_def)
  from legacy_update_run [OF prune _ this, of sample_texts] u show ?thesis by (auto simp: serving_client_def)
qed


section \<open>The mock provider and the object registry\<close>

definition mock_sys :: sys_ops where
  "mock_sys = \<lparr> sys_bind = Ok \<lparr> tl_accepts = [] \<rparr>, sys_local_addr = (\<lambda>l. Ok loopback), sys_connect = (\<lambda>a. Ok (quiet_stream [])) \<rparr>"

definition mock_start :: mock_world where
  "mock_start = \<lparr> mw_onion_services = None, mw_active = (\<lambda>_. False), mw_next_flag = 0 \<rparr>"

lemma sample_registry_run: "\<exists>k j r. registry_runs 5 4 [k, j] (r :: nat object_registry)"
proof -
  have fits: "tag_fits 5 4" by (simp add: tag_fits_def)
  obtain r0 :: "nat object_registry" where r0: "registry_new 5 4 = Ret r0" "or_counter r0 = 0"
    using fits shift_out [of 4 5] by (auto simp: registry_new_def COUNTER_BITS_def tag_fits_def)
  have lt: "(0 :: usize) < COUNTER_MAX 4" "(1 :: usize) < COUNTER_MAX 4" by (simp_all add: COUNTER_MAX_def mask_eq_exp_minus_1)
  note run0 = registry_runs_new [OF r0(1)]
  obtain k r1 where r1: "registry_insert 5 4 (1 :: nat) r0 = (Ret k, r1)" "or_counter r1 = 1"
    by (rule registry_insert_spec [OF fits registry_inv_new [OF r0(1)], of 1]) (use lt r0(2) in auto)
  note run1 = registry_runs_insert [OF run0 r1(1)]
  obtain j r2 where "registry_insert 5 4 (2 :: nat) r1 = (Ret j, r2)"
    by (rule registry_insert_spec [OF fits conjunct1 [OF registry_runs_inv [OF run1 fits]], of 2]) (use lt r1(2) in auto)
  from registry_runs_insert [OF run1 this] show ?thesis by auto
qed

end
