(* ===== verification/Ffi_World.thy ===== *)
theory Ffi_World
  imports Gosling_Context Object_Registry Tor_Addresses Legacy_Client
begin

unbundle bit_operations_syntax

text \<open>
  The foundation of the C interface (\<open>cgosling/src/error.rs\<close>, \<open>macros.rs\<close>, \<open>ffi.rs\<close>): one global registry
  per type of object behind a mutex, the memory of the caller, and the wrapper that turns errors and
  panics into error objects. Pointers are 64-bit addresses, 0 is null; memory is a byte per address, and that
  a caller passes valid pointers is its obligation. The mutexes are two sets of tags: those held and
  those poisoned by a panic; locking a mutex that is held does not return.
\<close>

section \<open>Memory\<close>

definition mem_store :: "usize \<Rightarrow> bytes \<Rightarrow> (usize \<Rightarrow> byte) \<Rightarrow> usize \<Rightarrow> byte" where
  "mem_store p bs m = (\<lambda>a. if unat (a - p) < length bs then bs ! unat (a - p) else m a)"

definition mem_load :: "usize \<Rightarrow> nat \<Rightarrow> (usize \<Rightarrow> byte) \<Rightarrow> bytes" where
  "mem_load p n m = map (\<lambda>i. m (p + of_nat i)) [0..<n]"

definition le_bytes :: "nat \<Rightarrow> 'w::len word \<Rightarrow> bytes" where
  "le_bytes n v = map (\<lambda>i. ucast (drop_bit (8 * i) v)) [0..<n]"

definition mem_word :: "usize \<Rightarrow> (usize \<Rightarrow> byte) \<Rightarrow> usize" where
  "mem_word p m = horner_sum ucast 256 (mem_load p 8 m)"

section \<open>Objects\<close>

record c_error =
  err_message :: bytes

text \<open>\<open>CString::new(message).unwrap_or_default()\<close>: a text with a null byte becomes the empty one.\<close>

definition error_new :: "string \<Rightarrow> c_error" where
  "error_new message = \<lparr> err_message = (if 0 \<in> set (as_bytes message) then [] else as_bytes message) \<rparr>"

datatype ip_addr = IpV4 byte byte byte byte | IpV6 u16 u16 u16 u16 u16 u16 u16 u16

datatype tor_provider_config = MockTorClientConfig | LegacyTorClientConfig legacy_tor_client_config

text \<open>A callback is a C function pointer, null for none.\<close>

type_synonym c_callback = "usize option"

record event_callbacks =
  tor_bootstrap_status_received_callback :: c_callback
  tor_bootstrap_completed_callback :: c_callback
  tor_log_received_callback :: c_callback
  identity_client_challenge_response_size_callback :: c_callback
  identity_client_build_challenge_response_callback :: c_callback
  identity_client_handshake_completed_callback :: c_callback
  identity_client_handshake_failed_callback :: c_callback
  identity_server_published_callback :: c_callback
  identity_server_handshake_started_callback :: c_callback
  identity_server_client_allowed_callback :: c_callback
  identity_server_endpoint_supported_callback :: c_callback
  identity_server_challenge_size_callback :: c_callback
  identity_server_build_challenge_callback :: c_callback
  identity_server_verify_challenge_response_callback :: c_callback
  identity_server_handshake_completed_callback :: c_callback
  identity_server_handshake_rejected_callback :: c_callback
  identity_server_handshake_failed_callback :: c_callback
  endpoint_client_handshake_completed_callback :: c_callback
  endpoint_client_handshake_failed_callback :: c_callback
  endpoint_server_published_callback :: c_callback
  endpoint_server_handshake_started_callback :: c_callback
  endpoint_server_channel_supported_callback :: c_callback
  endpoint_server_handshake_completed_callback :: c_callback
  endpoint_server_handshake_rejected_callback :: c_callback
  endpoint_server_handshake_failed_callback :: c_callback

definition no_callbacks :: event_callbacks where
  "no_callbacks = \<lparr>
     tor_bootstrap_status_received_callback = None,
     tor_bootstrap_completed_callback = None,
     tor_log_received_callback = None,
     identity_client_challenge_response_size_callback = None,
     identity_client_build_challenge_response_callback = None,
     identity_client_handshake_completed_callback = None,
     identity_client_handshake_failed_callback = None,
     identity_server_published_callback = None,
     identity_server_handshake_started_callback = None,
     identity_server_client_allowed_callback = None,
     identity_server_endpoint_supported_callback = None,
     identity_server_challenge_size_callback = None,
     identity_server_build_challenge_callback = None,
     identity_server_verify_challenge_response_callback = None,
     identity_server_handshake_completed_callback = None,
     identity_server_handshake_rejected_callback = None,
     identity_server_handshake_failed_callback = None,
     endpoint_client_handshake_completed_callback = None,
     endpoint_client_handshake_failed_callback = None,
     endpoint_server_published_callback = None,
     endpoint_server_handshake_started_callback = None,
     endpoint_server_channel_supported_callback = None,
     endpoint_server_handshake_completed_callback = None,
     endpoint_server_handshake_rejected_callback = None,
     endpoint_server_handshake_failed_callback = None \<rparr>"

text \<open>\<open>ContextTuple\<close>: the context, its callbacks, and the events a failed poll has left.\<close>

type_synonym ('tp, 'd) context_tuple = "('tp, 'd) gosling_context \<times> event_callbacks \<times> 'd context_event list option"

section \<open>The state of the library\<close>

record ('tp, 'd) c_world =
  w_mem :: "usize \<Rightarrow> byte"
  w_held :: "usize set"
  w_poisoned :: "usize set"
  w_blocked :: bool
  w_inited :: bool
  w_error :: "c_error object_registry"
  w_ed25519_private_key :: "ed25519_private_key object_registry"
  w_x25519_private_key :: "x25519_private_key object_registry"
  w_x25519_public_key :: "x25519_public_key object_registry"
  w_v3_onion_service_id :: "v3_onion_service_id object_registry"
  w_ip_addr :: "ip_addr object_registry"
  w_target_addr :: "target_addr object_registry"
  w_proxy_config :: "proxy_config object_registry"
  w_pluggable_transport_config :: "pluggable_transport_config object_registry"
  w_bridge_line :: "bridge_line object_registry"
  w_tor_provider_config :: "tor_provider_config object_registry"
  w_tor_provider :: "'tp object_registry"
  w_context_tuple :: "('tp, 'd) context_tuple object_registry"

type_synonym ('tp, 'd, 'a) c_action = "(('tp, 'd) c_world, 'a) action"

text \<open>A global registry: its tag, and how it is read from and written to the state.\<close>

record ('w, 't) slot =
  sl_tag :: usize
  sl_get :: "'w \<Rightarrow> 't object_registry"
  sl_put :: "'t object_registry \<Rightarrow> 'w \<Rightarrow> 'w"

definition ERROR_TAG :: usize where "ERROR_TAG = 0x1"
definition ED25519_PRIVATE_KEY_TAG :: usize where "ED25519_PRIVATE_KEY_TAG = 0x2"
definition X25519_PRIVATE_KEY_TAG :: usize where "X25519_PRIVATE_KEY_TAG = 0x3"
definition X25519_PUBLIC_KEY_TAG :: usize where "X25519_PUBLIC_KEY_TAG = 0x4"
definition V3_ONION_SERVICE_ID_TAG :: usize where "V3_ONION_SERVICE_ID_TAG = 0x5"
definition IP_ADDR_TAG :: usize where "IP_ADDR_TAG = 0x6"
definition TARGET_ADDR_TAG :: usize where "TARGET_ADDR_TAG = 0x7"
definition PROXY_CONFIG_TAG :: usize where "PROXY_CONFIG_TAG = 0x8"
definition PLUGGABLE_TRANSPORT_CONFIG_TAG :: usize where "PLUGGABLE_TRANSPORT_CONFIG_TAG = 0x9"
definition BRIDGE_LINE_TAG :: usize where "BRIDGE_LINE_TAG = 0xA"
definition TOR_PROVIDER_CONFIG_TAG :: usize where "TOR_PROVIDER_CONFIG_TAG = 0xB"
definition TOR_PROVIDER_TAG :: usize where "TOR_PROVIDER_TAG = 0xC"
definition CONTEXT_TUPLE_TAG :: usize where "CONTEXT_TUPLE_TAG = 0xD"

lemmas tag_defs = ERROR_TAG_def ED25519_PRIVATE_KEY_TAG_def X25519_PRIVATE_KEY_TAG_def X25519_PUBLIC_KEY_TAG_def
  V3_ONION_SERVICE_ID_TAG_def IP_ADDR_TAG_def TARGET_ADDR_TAG_def PROXY_CONFIG_TAG_def
  PLUGGABLE_TRANSPORT_CONFIG_TAG_def BRIDGE_LINE_TAG_def TOR_PROVIDER_CONFIG_TAG_def TOR_PROVIDER_TAG_def
  CONTEXT_TUPLE_TAG_def

definition error_slot :: "(('tp, 'd) c_world, c_error) slot" where
  "error_slot = \<lparr> sl_tag = ERROR_TAG, sl_get = w_error, sl_put = (\<lambda>r w. w\<lparr> w_error := r \<rparr>) \<rparr>"

definition ed25519_private_key_slot :: "(('tp, 'd) c_world, ed25519_private_key) slot" where
  "ed25519_private_key_slot = \<lparr> sl_tag = ED25519_PRIVATE_KEY_TAG, sl_get = w_ed25519_private_key,
     sl_put = (\<lambda>r w. w\<lparr> w_ed25519_private_key := r \<rparr>) \<rparr>"

definition x25519_private_key_slot :: "(('tp, 'd) c_world, x25519_private_key) slot" where
  "x25519_private_key_slot = \<lparr> sl_tag = X25519_PRIVATE_KEY_TAG, sl_get = w_x25519_private_key,
     sl_put = (\<lambda>r w. w\<lparr> w_x25519_private_key := r \<rparr>) \<rparr>"

definition x25519_public_key_slot :: "(('tp, 'd) c_world, x25519_public_key) slot" where
  "x25519_public_key_slot = \<lparr> sl_tag = X25519_PUBLIC_KEY_TAG, sl_get = w_x25519_public_key,
     sl_put = (\<lambda>r w. w\<lparr> w_x25519_public_key := r \<rparr>) \<rparr>"

definition v3_onion_service_id_slot :: "(('tp, 'd) c_world, v3_onion_service_id) slot" where
  "v3_onion_service_id_slot = \<lparr> sl_tag = V3_ONION_SERVICE_ID_TAG, sl_get = w_v3_onion_service_id,
     sl_put = (\<lambda>r w. w\<lparr> w_v3_onion_service_id := r \<rparr>) \<rparr>"

definition ip_addr_slot :: "(('tp, 'd) c_world, ip_addr) slot" where
  "ip_addr_slot = \<lparr> sl_tag = IP_ADDR_TAG, sl_get = w_ip_addr, sl_put = (\<lambda>r w. w\<lparr> w_ip_addr := r \<rparr>) \<rparr>"

definition target_addr_slot :: "(('tp, 'd) c_world, target_addr) slot" where
  "target_addr_slot = \<lparr> sl_tag = TARGET_ADDR_TAG, sl_get = w_target_addr, sl_put = (\<lambda>r w. w\<lparr> w_target_addr := r \<rparr>) \<rparr>"

definition proxy_config_slot :: "(('tp, 'd) c_world, proxy_config) slot" where
  "proxy_config_slot = \<lparr> sl_tag = PROXY_CONFIG_TAG, sl_get = w_proxy_config, sl_put = (\<lambda>r w. w\<lparr> w_proxy_config := r \<rparr>) \<rparr>"

definition pluggable_transport_config_slot :: "(('tp, 'd) c_world, pluggable_transport_config) slot" where
  "pluggable_transport_config_slot = \<lparr> sl_tag = PLUGGABLE_TRANSPORT_CONFIG_TAG, sl_get = w_pluggable_transport_config,
     sl_put = (\<lambda>r w. w\<lparr> w_pluggable_transport_config := r \<rparr>) \<rparr>"

definition bridge_line_slot :: "(('tp, 'd) c_world, bridge_line) slot" where
  "bridge_line_slot = \<lparr> sl_tag = BRIDGE_LINE_TAG, sl_get = w_bridge_line, sl_put = (\<lambda>r w. w\<lparr> w_bridge_line := r \<rparr>) \<rparr>"

definition tor_provider_config_slot :: "(('tp, 'd) c_world, tor_provider_config) slot" where
  "tor_provider_config_slot = \<lparr> sl_tag = TOR_PROVIDER_CONFIG_TAG, sl_get = w_tor_provider_config,
     sl_put = (\<lambda>r w. w\<lparr> w_tor_provider_config := r \<rparr>) \<rparr>"

definition tor_provider_slot :: "(('tp, 'd) c_world, 'tp) slot" where
  "tor_provider_slot = \<lparr> sl_tag = TOR_PROVIDER_TAG, sl_get = w_tor_provider, sl_put = (\<lambda>r w. w\<lparr> w_tor_provider := r \<rparr>) \<rparr>"

definition context_tuple_slot :: "(('tp, 'd) c_world, ('tp, 'd) context_tuple) slot" where
  "context_tuple_slot = \<lparr> sl_tag = CONTEXT_TUPLE_TAG, sl_get = w_context_tuple, sl_put = (\<lambda>r w. w\<lparr> w_context_tuple := r \<rparr>) \<rparr>"

lemmas slot_defs = error_slot_def ed25519_private_key_slot_def x25519_private_key_slot_def x25519_public_key_slot_def
  v3_onion_service_id_slot_def ip_addr_slot_def target_addr_slot_def proxy_config_slot_def
  pluggable_transport_config_slot_def bridge_line_slot_def tor_provider_config_slot_def tor_provider_slot_def
  context_tuple_slot_def

section \<open>Locking\<close>

text \<open>
  \<open>with_guard\<close> runs a body while the guard of a mutex lives. The guard is released when the body
  returns; a panic of the body poisons the mutex, and locking a poisoned mutex panics.
\<close>

definition with_guard :: "usize \<Rightarrow> ('tp, 'd, 'a) c_action \<Rightarrow> ('tp, 'd, 'a) c_action" where
  "with_guard tag body w =
     (if tag \<in> w_held w then (OutOfFuel, w\<lparr> w_blocked := True \<rparr>)
      else if tag \<in> w_poisoned w then (Panic, w)
      else case body (w\<lparr> w_held := insert tag (w_held w) \<rparr>) of
          (Ret a, w) \<Rightarrow> (Ret a, w\<lparr> w_held := w_held w - {tag} \<rparr>)
        | (Panic, w) \<Rightarrow> (Panic, w\<lparr> w_held := w_held w - {tag}, w_poisoned := insert tag (w_poisoned w) \<rparr>)
        | (OutOfFuel, w) \<Rightarrow> (OutOfFuel, w))"

definition guarded_get :: "(('tp, 'd) c_world, 't) slot \<Rightarrow> usize \<Rightarrow> ('tp, 'd, 't option) c_action" where
  "guarded_get S key w = (Ret (registry_get (sl_get S w) key), w)"

definition reg_get :: "(('tp, 'd) c_world, 't) slot \<Rightarrow> usize \<Rightarrow> ('tp, 'd, 't option) c_action" where
  "reg_get S key = with_guard (sl_tag S) (guarded_get S key)"

definition reg_insert :: "(('tp, 'd) c_world, 't) slot \<Rightarrow> 't \<Rightarrow> ('tp, 'd, usize) c_action" where
  "reg_insert S v = with_guard (sl_tag S) (\<lambda>w. case registry_insert (sl_tag S) 4 v (sl_get S w) of (r, g) \<Rightarrow> (r, sl_put S g w))"

definition reg_remove :: "(('tp, 'd) c_world, 't) slot \<Rightarrow> usize \<Rightarrow> ('tp, 'd, 't option) c_action" where
  "reg_remove S key = with_guard (sl_tag S) (\<lambda>w. case registry_remove key (sl_get S w) of (x, g) \<Rightarrow> (Ret x, sl_put S g w))"

definition reg_clear :: "(('tp, 'd) c_world, 't) slot \<Rightarrow> ('tp, 'd, unit) c_action" where
  "reg_clear S = with_guard (sl_tag S) (\<lambda>w. case registry_new (sl_tag S) 4 of
      Ret g \<Rightarrow> (Ret (), sl_put S g w)
    | Panic \<Rightarrow> (Panic, w)
    | OutOfFuel \<Rightarrow> (OutOfFuel, w))"

definition registry_free :: "(('tp, 'd) c_world, 't) slot \<Rightarrow> usize \<Rightarrow> ('tp, 'd, unit) c_action" where
  "registry_free S obj = (if obj = 0 then ret () else andthen (reg_remove S obj) (\<lambda>_. ret ()))"

section \<open>Failures\<close>

text \<open>What \<open>anyhow::Error\<close> can hold here; its text is given by the crate.\<close>

datatype anyhow_error =
    MustNotBeNull string
  | MustNotBeZero string
  | InvalidHandle string
  | Bail string
  | Utf8Error
  | IoFailure io_error_kind
  | WhichFailure
  | ContextFailure context_error
  | CryptoFailure crypto_error
  | TorFailure tor_error
  | ProxyFailure proxy_config_error
  | TransportFailure pluggable_transport_config_error
  | BridgeLineFailure bridge_line_error
  | LegacyFailure legacy_error

type_synonym ('tp, 'd, 'a) c_try = "('tp, 'd, ('a, anyhow_error) result) c_action"

definition put_bytes :: "usize \<Rightarrow> bytes \<Rightarrow> ('tp, 'd, unit) c_action" where
  "put_bytes p bs w = (Ret (), w\<lparr> w_mem := mem_store p bs (w_mem w) \<rparr>)"

definition put_word :: "usize \<Rightarrow> usize \<Rightarrow> ('tp, 'd, unit) c_action" where
  "put_word p v = put_bytes p (le_bytes 8 v)"

definition report_failure :: "'a \<Rightarrow> usize \<Rightarrow> string \<Rightarrow> ('tp, 'd, 'a) c_action" where
  "report_failure dflt out_error message =
     (if out_error \<noteq> 0
      then andthen (reg_insert error_slot (error_new message)) (\<lambda>key. andthen (put_word out_error key) (\<lambda>_. ret dflt))
      else ret dflt)"

definition translate_failures :: "(anyhow_error \<Rightarrow> string) \<Rightarrow> 'a \<Rightarrow> usize \<Rightarrow> ('tp, 'd, 'a) c_try \<Rightarrow> ('tp, 'd, 'a) c_action" where
  "translate_failures fmt dflt out_error closure w = (case closure w of
      (Ret (Ok retval), w) \<Rightarrow> (Ret retval, w)
    | (Ret (Err err), w) \<Rightarrow> report_failure dflt out_error (fmt err) w
    | (Panic, w) \<Rightarrow> report_failure dflt out_error ''panic occurred'' w
    | (OutOfFuel, w) \<Rightarrow> (OutOfFuel, w))"

definition bail :: "anyhow_error \<Rightarrow> ('tp, 'd, 'a) c_try" where
  "bail e = ret (Err e)"

definition ensure_not_null :: "string \<Rightarrow> usize \<Rightarrow> ('tp, 'd, 'a) c_try \<Rightarrow> ('tp, 'd, 'a) c_try" where
  "ensure_not_null name p body = (if p = 0 then bail (MustNotBeNull name) else body)"

definition ensure_not_zero :: "string \<Rightarrow> 'w::len word \<Rightarrow> ('tp, 'd, 'a) c_try \<Rightarrow> ('tp, 'd, 'a) c_try" where
  "ensure_not_zero name v body = (if v = 0 then bail (MustNotBeZero name) else body)"

text \<open>A lookup that clones: the guard lives for the statement only.\<close>

definition cloned :: "(('tp, 'd) c_world, 't) slot \<Rightarrow> string \<Rightarrow> usize \<Rightarrow> ('t \<Rightarrow> ('tp, 'd, 'a) c_try) \<Rightarrow> ('tp, 'd, 'a) c_try" where
  "cloned S name key body = andthen (reg_get S key) (\<lambda>x. case x of Some v \<Rightarrow> body v | None \<Rightarrow> bail (InvalidHandle name))"

text \<open>A lookup whose guard lives until the closure ends.\<close>

definition borrowed :: "(('tp, 'd) c_world, 't) slot \<Rightarrow> string \<Rightarrow> usize \<Rightarrow> ('t \<Rightarrow> ('tp, 'd, 'a) c_try) \<Rightarrow> ('tp, 'd, 'a) c_try" where
  "borrowed S name key body = with_guard (sl_tag S)
     (andthen (guarded_get S key) (\<lambda>x. case x of Some v \<Rightarrow> body v | None \<Rightarrow> bail (InvalidHandle name)))"

text \<open>The handle of a new object is stored where the caller asked for it.\<close>

definition return_handle :: "(('tp, 'd) c_world, 't) slot \<Rightarrow> usize \<Rightarrow> 't \<Rightarrow> ('tp, 'd, unit) c_try" where
  "return_handle S out v = andthen (reg_insert S v) (\<lambda>handle. andthen (put_word out handle) (\<lambda>_. ret (Ok ())))"

definition lift_result :: "('e \<Rightarrow> anyhow_error) \<Rightarrow> ('a, 'e) result \<Rightarrow> ('a \<Rightarrow> ('tp, 'd, 'b) c_try) \<Rightarrow> ('tp, 'd, 'b) c_try" where
  "lift_result f r body = (case r of Ok a \<Rightarrow> body a | Err e \<Rightarrow> bail (f e))"

text \<open>\<open>from_utf8\<close> on a slice of the caller's memory.\<close>

definition utf8_slice :: "usize \<Rightarrow> usize \<Rightarrow> (string \<Rightarrow> ('tp, 'd, 'a) c_try) \<Rightarrow> ('tp, 'd, 'a) c_try" where
  "utf8_slice p len body w = (let bs = mem_load p (unat len) (w_mem w) in
     if utf8_valid bs then body (from_bytes bs) w else bail Utf8Error w)"

section \<open>The surroundings\<close>

text \<open>
  What the functions take from outside: the libraries and the provider (parameters of the components they
  call), the text of errors, files and programs, socket numbers, and what one call is given of time and
  randomness.
\<close>

record ('tp, 'd) c_env =
  e_debug :: "anyhow_error \<Rightarrow> string"
  e_reason :: "context_error \<Rightarrow> string"
  e_crypto :: crypto_ops
  e_text :: text_ops
  e_addr :: address_ops
  e_bson :: "'d bson_ops"
  e_tor :: "'tp tor_provider"
  e_mock :: 'tp
  e_legacy :: "legacy_tor_client_config \<Rightarrow> ('tp, legacy_error) result outcome"
  e_canonicalize :: "string \<Rightarrow> (string, io_error_kind) result"
  e_which :: "string \<Rightarrow> string option"
  e_raw_fd :: "rw_stream \<Rightarrow> 32 word"
  e_now :: nat
  e_random :: "handshake_handle \<Rightarrow> bytes"
  e_generated :: "handshake_handle \<Rightarrow> ed25519_private_key"
  e_client_auth :: x25519_private_key
  e_cookie :: bytes

section \<open>Error objects\<close>

definition gosling_error_get_message :: "usize \<Rightarrow> ('tp, 'd, bytes option) c_action" where
  "gosling_error_get_message error =
     (if error \<noteq> 0
      then with_guard ERROR_TAG (\<lambda>w. if registry_contains_key (sl_get error_slot w) error
             then (case registry_get (sl_get error_slot w) error of
                 Some x \<Rightarrow> (Ret (Some (err_message x @ [0])), w)
               | None \<Rightarrow> (Ret None, w))
             else (Ret None, w))
      else ret None)"

definition gosling_error_clone :: "('tp, 'd) c_env \<Rightarrow> usize \<Rightarrow> usize \<Rightarrow> usize \<Rightarrow> ('tp, 'd, unit) c_action" where
  "gosling_error_clone E out_error orig_error error = translate_failures (e_debug E) () error (
     ensure_not_null ''out_error'' out_error (
     ensure_not_null ''orig_error'' orig_error (
     cloned error_slot ''orig_error'' orig_error (return_handle error_slot out_error))))"

definition gosling_error_free :: "usize \<Rightarrow> ('tp, 'd, unit) c_action" where
  "gosling_error_free error = registry_free error_slot error"

section \<open>The library\<close>

definition GOSLING_LIBRARY_HANDLE :: usize where
  "GOSLING_LIBRARY_HANDLE = push_bit ((8 - 1) * 8) 0x60 + 0x5E"

definition gosling_library_init :: "('tp, 'd) c_env \<Rightarrow> usize \<Rightarrow> usize \<Rightarrow> ('tp, 'd, unit) c_action" where
  "gosling_library_init E out_library error = translate_failures (e_debug E) () error (
     ensure_not_null ''out_library'' out_library (\<lambda>w.
       if w_inited w then bail (Bail ''gosling is already initialized'') w
       else andthen (put_word out_library GOSLING_LIBRARY_HANDLE) (\<lambda>_. ret (Ok ())) (w\<lparr> w_inited := True \<rparr>)))"

definition clear_registries :: "('tp, 'd, unit) c_action" where
  "clear_registries =
        andthen (reg_clear error_slot) (\<lambda>_.
        andthen (reg_clear ed25519_private_key_slot) (\<lambda>_.
        andthen (reg_clear x25519_private_key_slot) (\<lambda>_.
        andthen (reg_clear x25519_public_key_slot) (\<lambda>_.
        andthen (reg_clear v3_onion_service_id_slot) (\<lambda>_.
        andthen (reg_clear ip_addr_slot) (\<lambda>_.
        andthen (reg_clear target_addr_slot) (\<lambda>_.
        andthen (reg_clear proxy_config_slot) (\<lambda>_.
        andthen (reg_clear pluggable_transport_config_slot) (\<lambda>_.
        andthen (reg_clear bridge_line_slot) (\<lambda>_.
        andthen (reg_clear tor_provider_slot) (\<lambda>_.
        andthen (reg_clear tor_provider_config_slot) (\<lambda>_.
        andthen (reg_clear context_tuple_slot) (\<lambda>_. ret ())))))))))))))"

definition gosling_library_free :: "usize \<Rightarrow> ('tp, 'd, unit) c_action" where
  "gosling_library_free in_library w =
     (if w_inited w then andthen clear_registries (\<lambda>_ w. (Ret (), w\<lparr> w_inited := False \<rparr>)) w
      else (Ret (), w))"

end
