(* ===== verification/Ffi_Values.thy ===== *)
theory Ffi_Values
  imports Ffi_World
begin

text \<open>
  Keys, service ids and addresses of the C interface (\<open>cgosling/src/crypto.rs\<close>, \<open>utils.rs\<close>): freeing, copying,
  reading from text in the caller's memory and writing as null-terminated text into a buffer of the caller.
\<close>

section \<open>Texts\<close>

text \<open>
  The text is copied over the first bytes of the buffer and the byte after it is set to null.
\<close>

definition fill_string :: "usize \<Rightarrow> string \<Rightarrow> nat \<Rightarrow> ('tp, 'd, unit) c_try" where
  "fill_string out s len = andthen (put_bytes out (take len (as_bytes s))) (\<lambda>_.
     andthen (put_bytes (out + of_nat len) [0]) (\<lambda>_. ret (Ok ())))"

definition ED25519_PRIVATE_KEY_KEYBLOB_SIZE :: nat where
  "ED25519_PRIVATE_KEY_KEYBLOB_SIZE = ED25519_PRIVATE_KEY_KEYBLOB_LENGTH + 1"

definition X25519_PRIVATE_KEY_BASE64_SIZE :: nat where
  "X25519_PRIVATE_KEY_BASE64_SIZE = X25519_PRIVATE_KEY_BASE64_LENGTH + 1"

definition X25519_PUBLIC_KEY_BASE32_SIZE :: nat where
  "X25519_PUBLIC_KEY_BASE32_SIZE = X25519_PUBLIC_KEY_BASE32_LENGTH + 1"

definition V3_ONION_SERVICE_ID_STRING_SIZE :: nat where
  "V3_ONION_SERVICE_ID_STRING_SIZE = V3_ONION_SERVICE_ID_STRING_LENGTH + 1"

lemmas text_sizes = ED25519_PRIVATE_KEY_KEYBLOB_SIZE_def X25519_PRIVATE_KEY_BASE64_SIZE_def
  X25519_PUBLIC_KEY_BASE32_SIZE_def V3_ONION_SERVICE_ID_STRING_SIZE_def

section \<open>Keys and service ids\<close>

definition gosling_ed25519_private_key_free :: "usize \<Rightarrow> ('tp, 'd, unit) c_action" where
  "gosling_ed25519_private_key_free in_private_key = registry_free ed25519_private_key_slot in_private_key"

definition gosling_x25519_private_key_free :: "usize \<Rightarrow> ('tp, 'd, unit) c_action" where
  "gosling_x25519_private_key_free in_private_key = registry_free x25519_private_key_slot in_private_key"

definition gosling_x25519_public_key_free :: "usize \<Rightarrow> ('tp, 'd, unit) c_action" where
  "gosling_x25519_public_key_free in_public_key = registry_free x25519_public_key_slot in_public_key"

definition gosling_v3_onion_service_id_free :: "usize \<Rightarrow> ('tp, 'd, unit) c_action" where
  "gosling_v3_onion_service_id_free in_service_id = registry_free v3_onion_service_id_slot in_service_id"

text \<open>
  \<open>Ed25519PrivateKey::clone\<close> reads the key back from its bytes and is \<open>unreachable!()\<close> when they are refused.
\<close>

definition copied_key :: "('tp, 'd) c_env \<Rightarrow> ed25519_private_key \<Rightarrow> (ed25519_private_key \<Rightarrow> ('tp, 'd, 'a) c_action) \<Rightarrow> ('tp, 'd, 'a) c_action" where
  "copied_key E key body w = (case ed25519_private_clone (e_crypto E) key of
      Ret copy \<Rightarrow> body copy w
    | Panic \<Rightarrow> (Panic, w)
    | OutOfFuel \<Rightarrow> (OutOfFuel, w))"

text \<open>The copy is made while the guard of the lookup lives; it is dropped before the copy is inserted.\<close>

definition gosling_ed25519_private_key_clone :: "('tp, 'd) c_env \<Rightarrow> usize \<Rightarrow> usize \<Rightarrow> usize \<Rightarrow> ('tp, 'd, unit) c_action" where
  "gosling_ed25519_private_key_clone E out_private_key private_key error = translate_failures (e_debug E) () error (
     ensure_not_null ''out_private_key'' out_private_key (
     ensure_not_null ''private_key'' private_key (
     try_then (borrowed ed25519_private_key_slot ''private_key'' private_key (\<lambda>key. copied_key E key (\<lambda>copy. ret (Ok copy))))
       (return_handle ed25519_private_key_slot out_private_key))))"

definition gosling_x25519_public_key_clone :: "('tp, 'd) c_env \<Rightarrow> usize \<Rightarrow> usize \<Rightarrow> usize \<Rightarrow> ('tp, 'd, unit) c_action" where
  "gosling_x25519_public_key_clone E out_public_key public_key error = translate_failures (e_debug E) () error (
     ensure_not_null ''out_public_key'' out_public_key (
     ensure_not_null ''public_key'' public_key (
     cloned x25519_public_key_slot ''public_key'' public_key (return_handle x25519_public_key_slot out_public_key))))"

definition gosling_x25519_private_key_clone :: "('tp, 'd) c_env \<Rightarrow> usize \<Rightarrow> usize \<Rightarrow> usize \<Rightarrow> ('tp, 'd, unit) c_action" where
  "gosling_x25519_private_key_clone E out_private_key private_key error = translate_failures (e_debug E) () error (
     ensure_not_null ''out_private_key'' out_private_key (
     ensure_not_null ''private_key'' private_key (
     cloned x25519_private_key_slot ''private_key'' private_key (return_handle x25519_private_key_slot out_private_key))))"

definition gosling_v3_onion_service_id_clone :: "('tp, 'd) c_env \<Rightarrow> usize \<Rightarrow> usize \<Rightarrow> usize \<Rightarrow> ('tp, 'd, unit) c_action" where
  "gosling_v3_onion_service_id_clone E out_service_id service_id error = translate_failures (e_debug E) () error (
     ensure_not_null ''out_service_id'' out_service_id (
     ensure_not_null ''service_id'' service_id (
     cloned v3_onion_service_id_slot ''service_id'' service_id (return_handle v3_onion_service_id_slot out_service_id))))"

text \<open>The generated key is an argument.\<close>

definition gosling_ed25519_private_key_generate ::
  "('tp, 'd) c_env \<Rightarrow> ed25519_private_key \<Rightarrow> usize \<Rightarrow> usize \<Rightarrow> ('tp, 'd, unit) c_action" where
  "gosling_ed25519_private_key_generate E key out_private_key error = translate_failures (e_debug E) () error (
     ensure_not_null ''out_private_key'' out_private_key (
     return_handle ed25519_private_key_slot out_private_key key))"

definition gosling_ed25519_private_key_from_keyblob :: "('tp, 'd) c_env \<Rightarrow> usize \<Rightarrow> usize \<Rightarrow> usize \<Rightarrow> usize \<Rightarrow> ('tp, 'd, unit) c_action" where
  "gosling_ed25519_private_key_from_keyblob E out_private_key key_blob key_blob_length error = translate_failures (e_debug E) () error (
     ensure_not_null ''out_private_key'' out_private_key (
     ensure_not_null ''key_blob'' key_blob (
     if unat key_blob_length \<noteq> ED25519_PRIVATE_KEY_KEYBLOB_LENGTH
     then bail (Bail (''key_blob_length must be exactly ED25519_PRIVATE_KEY_KEYBLOB_LENGTH ('' @ decimal ED25519_PRIVATE_KEY_KEYBLOB_LENGTH @ ''); received '' @ quoted (decimal (unat key_blob_length))))
     else utf8_slice key_blob key_blob_length (\<lambda>text.
       lift_result CryptoFailure (ed25519_private_from_key_blob (e_crypto E) text) (return_handle ed25519_private_key_slot out_private_key)))))"

definition gosling_ed25519_private_key_to_keyblob :: "('tp, 'd) c_env \<Rightarrow> usize \<Rightarrow> usize \<Rightarrow> usize \<Rightarrow> usize \<Rightarrow> ('tp, 'd, unit) c_action" where
  "gosling_ed25519_private_key_to_keyblob E private_key out_key_blob key_blob_size error = translate_failures (e_debug E) () error (
     ensure_not_null ''private_key'' private_key (
     ensure_not_null ''out_key_blob'' out_key_blob (
     if unat key_blob_size < ED25519_PRIVATE_KEY_KEYBLOB_SIZE
     then bail (Bail (''key_blob_size must be at least ED25519_PRIVATE_KEY_KEYBLOB_SIZE ('' @ quoted (decimal ED25519_PRIVATE_KEY_KEYBLOB_SIZE) @ ''), received '' @ quoted (decimal (unat key_blob_size))))
     else borrowed ed25519_private_key_slot ''private_key'' private_key (\<lambda>x. fill_string out_key_blob (ed25519_private_to_key_blob (e_crypto E) x) ED25519_PRIVATE_KEY_KEYBLOB_LENGTH))))"

definition gosling_x25519_private_key_from_base64 :: "('tp, 'd) c_env \<Rightarrow> usize \<Rightarrow> usize \<Rightarrow> usize \<Rightarrow> usize \<Rightarrow> ('tp, 'd, unit) c_action" where
  "gosling_x25519_private_key_from_base64 E out_private_key base64 base64_length error = translate_failures (e_debug E) () error (
     ensure_not_null ''out_private_key'' out_private_key (
     ensure_not_null ''base64'' base64 (
     if unat base64_length \<noteq> X25519_PRIVATE_KEY_BASE64_LENGTH
     then bail (Bail (''base64_length must be exactly X25519_PRIVATE_KEY_BASE64_LENGTH ('' @ decimal X25519_PRIVATE_KEY_BASE64_LENGTH @ ''); received '' @ quoted (decimal (unat base64_length))))
     else utf8_slice base64 base64_length (\<lambda>text.
       lift_result CryptoFailure (x25519_private_from_base64 (e_crypto E) text) (return_handle x25519_private_key_slot out_private_key)))))"

definition gosling_x25519_private_key_to_base64 :: "('tp, 'd) c_env \<Rightarrow> usize \<Rightarrow> usize \<Rightarrow> usize \<Rightarrow> usize \<Rightarrow> ('tp, 'd, unit) c_action" where
  "gosling_x25519_private_key_to_base64 E private_key out_base64 base64_size error = translate_failures (e_debug E) () error (
     ensure_not_null ''private_key'' private_key (
     ensure_not_null ''out_base64'' out_base64 (
     if unat base64_size < X25519_PRIVATE_KEY_BASE64_SIZE
     then bail (Bail (''base64_size must be at least '' @ quoted (decimal X25519_PRIVATE_KEY_BASE64_SIZE) @ '', received '' @ quoted (decimal (unat base64_size))))
     else borrowed x25519_private_key_slot ''private_key'' private_key (\<lambda>x. fill_string out_base64 (x25519_private_to_base64 (e_crypto E) x) X25519_PRIVATE_KEY_BASE64_LENGTH))))"

definition gosling_x25519_public_key_from_base32 :: "('tp, 'd) c_env \<Rightarrow> usize \<Rightarrow> usize \<Rightarrow> usize \<Rightarrow> usize \<Rightarrow> ('tp, 'd, unit) c_action" where
  "gosling_x25519_public_key_from_base32 E out_public_key base32 base32_length error = translate_failures (e_debug E) () error (
     ensure_not_null ''out_public_key'' out_public_key (
     ensure_not_null ''base32'' base32 (
     if unat base32_length \<noteq> X25519_PUBLIC_KEY_BASE32_LENGTH
     then bail (Bail (''base32_length must be exactly X25519_PUBLIC_KEY_BASE32_LENGTH ('' @ decimal X25519_PUBLIC_KEY_BASE32_LENGTH @ ''); received '' @ quoted (decimal (unat base32_length))))
     else utf8_slice base32 base32_length (\<lambda>text.
       lift_result CryptoFailure (x25519_public_from_base32 (e_crypto E) text) (return_handle x25519_public_key_slot out_public_key)))))"

definition gosling_x25519_public_key_to_base32 :: "('tp, 'd) c_env \<Rightarrow> usize \<Rightarrow> usize \<Rightarrow> usize \<Rightarrow> usize \<Rightarrow> ('tp, 'd, unit) c_action" where
  "gosling_x25519_public_key_to_base32 E public_key out_base32 base32_size error = translate_failures (e_debug E) () error (
     ensure_not_null ''public_key'' public_key (
     ensure_not_null ''out_base32'' out_base32 (
     if unat base32_size < X25519_PUBLIC_KEY_BASE32_SIZE
     then bail (Bail (''base32_size must be at least '' @ quoted (decimal X25519_PUBLIC_KEY_BASE32_SIZE) @ '', received '' @ quoted (decimal (unat base32_size))))
     else borrowed x25519_public_key_slot ''public_key'' public_key (\<lambda>x. fill_string out_base32 (x25519_public_to_base32 (e_crypto E) x) X25519_PUBLIC_KEY_BASE32_LENGTH))))"

definition gosling_v3_onion_service_id_from_string :: "('tp, 'd) c_env \<Rightarrow> usize \<Rightarrow> usize \<Rightarrow> usize \<Rightarrow> usize \<Rightarrow> ('tp, 'd, unit) c_action" where
  "gosling_v3_onion_service_id_from_string E out_service_id service_id_string service_id_string_length error = translate_failures (e_debug E) () error (
     ensure_not_null ''out_service_id'' out_service_id (
     ensure_not_null ''service_id_string'' service_id_string (
     if unat service_id_string_length \<noteq> V3_ONION_SERVICE_ID_STRING_LENGTH
     then bail (Bail (''service_id_string_length must be exactly V3_ONION_SERVICE_ID_STRING_LENGTH ('' @ decimal V3_ONION_SERVICE_ID_STRING_LENGTH @ ''); received '' @ quoted (decimal (unat service_id_string_length))))
     else utf8_slice service_id_string service_id_string_length (\<lambda>text.
       lift_result CryptoFailure (service_id_from_string (e_crypto E) text) (return_handle v3_onion_service_id_slot out_service_id)))))"

definition gosling_v3_onion_service_id_from_ed25519_private_key ::
  "('tp, 'd) c_env \<Rightarrow> usize \<Rightarrow> usize \<Rightarrow> usize \<Rightarrow> ('tp, 'd, unit) c_action" where
  "gosling_v3_onion_service_id_from_ed25519_private_key E out_service_id ed25519_private_key error =
     translate_failures (e_debug E) () error (
     ensure_not_null ''out_service_id'' out_service_id (
     ensure_not_null ''ed25519_private_key'' ed25519_private_key (
     cloned ed25519_private_key_slot ''ed25519_private_key'' ed25519_private_key (\<lambda>key.
       return_handle v3_onion_service_id_slot out_service_id (service_id_from_private_key (e_crypto E) key)))))"

definition gosling_v3_onion_service_id_to_string :: "('tp, 'd) c_env \<Rightarrow> usize \<Rightarrow> usize \<Rightarrow> usize \<Rightarrow> usize \<Rightarrow> ('tp, 'd, unit) c_action" where
  "gosling_v3_onion_service_id_to_string E service_id out_service_id_string service_id_string_size error = translate_failures (e_debug E) () error (
     ensure_not_null ''service_id'' service_id (
     ensure_not_null ''out_service_id_string'' out_service_id_string (
     if unat service_id_string_size < V3_ONION_SERVICE_ID_STRING_SIZE
     then bail (Bail (''service_id_string_size must be at least '' @ quoted (decimal V3_ONION_SERVICE_ID_STRING_SIZE) @ '', received '' @ quoted (decimal (unat service_id_string_size))))
     else borrowed v3_onion_service_id_slot ''service_id'' service_id (\<lambda>x. fill_string out_service_id_string (service_id_to_string x) V3_ONION_SERVICE_ID_STRING_LENGTH))))"

definition gosling_string_is_valid_v3_onion_service_id ::
  "('tp, 'd) c_env \<Rightarrow> usize \<Rightarrow> usize \<Rightarrow> usize \<Rightarrow> ('tp, 'd, bool) c_action" where
  "gosling_string_is_valid_v3_onion_service_id E service_id_string service_id_string_length error =
     translate_failures (e_debug E) False error (
     ensure_not_null ''service_id_string'' service_id_string (
     if unat service_id_string_length \<noteq> V3_ONION_SERVICE_ID_STRING_LENGTH
     then bail (Bail (''service_id_string_length must be V3_ONION_SERVICE_ID_STRING_LENGTH (56); received '' @
            quoted (decimal (unat service_id_string_length))))
     else utf8_slice service_id_string service_id_string_length (\<lambda>text.
       ret (Ok (service_id_is_valid (e_crypto E) text)))))"

section \<open>Addresses\<close>

fun hexadecimal :: "nat \<Rightarrow> string" where
  "hexadecimal n = (if n < 16 then [''0123456789abcdef'' ! n] else hexadecimal (n div 16) @ [''0123456789abcdef'' ! (n mod 16)])"

declare hexadecimal.simps [simp del]

text \<open>
  \<open>Display\<close> of the standard library: an IPv6 address has its first longest run of at least two zero
  segments abbreviated, and an address mapped from IPv4 shows it.
\<close>

fun zero_run :: "nat list \<Rightarrow> nat" where
  "zero_run (0 # xs) = Suc (zero_run xs)"
| "zero_run _ = 0"

fun longest_zero_run :: "nat \<Rightarrow> nat list \<Rightarrow> nat \<times> nat" where
  "longest_zero_run i [] = (0, 0)"
| "longest_zero_run i (x # xs) = (let (s, l) = longest_zero_run (Suc i) xs; n = zero_run (x # xs) in
     if n \<noteq> 0 \<and> l \<le> n then (i, n) else (s, l))"

definition segments_fmt :: "nat list \<Rightarrow> string" where
  "segments_fmt xs = join_with '':'' (map hexadecimal xs)"

definition ip_addr_fmt :: "ip_addr \<Rightarrow> string" where
  "ip_addr_fmt ip = (case ip of
      IpV4 a b c d \<Rightarrow> join_with ''.'' (map (\<lambda>x. decimal (unat x)) [a, b, c, d])
    | IpV6 a b c d e f g h \<Rightarrow>
        (let xs = map unat [a, b, c, d, e, f, g, h] in
         if take 6 xs = [0, 0, 0, 0, 0, 0xffff]
         then ''::ffff:'' @ join_with ''.'' (map decimal [unat g div 256, unat g mod 256, unat h div 256, unat h mod 256])
         else (case longest_zero_run 0 xs of (s, l) \<Rightarrow>
           if 1 < l then segments_fmt (take s xs) @ ''::'' @ segments_fmt (drop (s + l) xs) else segments_fmt xs)))"

definition socket_addr_new :: "ip_addr \<Rightarrow> u16 \<Rightarrow> socket_addr" where
  "socket_addr_new ip port = \<lparr> sa_ip = (case ip of IpV4 _ _ _ _ \<Rightarrow> ip_addr_fmt ip
     | IpV6 _ _ _ _ _ _ _ _ \<Rightarrow> ''['' @ ip_addr_fmt ip @ '']''), sa_port = port \<rparr>"

definition gosling_ip_address_free :: "usize \<Rightarrow> ('tp, 'd, unit) c_action" where
  "gosling_ip_address_free in_ip_address = registry_free ip_addr_slot in_ip_address"

definition gosling_target_address_free :: "usize \<Rightarrow> ('tp, 'd, unit) c_action" where
  "gosling_target_address_free in_target_address = registry_free target_addr_slot in_target_address"

definition gosling_ip_address_clone :: "('tp, 'd) c_env \<Rightarrow> usize \<Rightarrow> usize \<Rightarrow> usize \<Rightarrow> ('tp, 'd, unit) c_action" where
  "gosling_ip_address_clone E out_ip_address ip_address error = translate_failures (e_debug E) () error (
     ensure_not_null ''out_ip_address'' out_ip_address (
     ensure_not_null ''ip_address'' ip_address (
     cloned ip_addr_slot ''ip_address'' ip_address (return_handle ip_addr_slot out_ip_address))))"

definition gosling_target_address_clone :: "('tp, 'd) c_env \<Rightarrow> usize \<Rightarrow> usize \<Rightarrow> usize \<Rightarrow> ('tp, 'd, unit) c_action" where
  "gosling_target_address_clone E out_target_address target_address error = translate_failures (e_debug E) () error (
     ensure_not_null ''out_target_address'' out_target_address (
     ensure_not_null ''target_address'' target_address (
     cloned target_addr_slot ''target_address'' target_address (return_handle target_addr_slot out_target_address))))"

definition gosling_ip_address_from_ipv4 ::
  "('tp, 'd) c_env \<Rightarrow> usize \<Rightarrow> byte \<Rightarrow> byte \<Rightarrow> byte \<Rightarrow> byte \<Rightarrow> usize \<Rightarrow> ('tp, 'd, unit) c_action" where
  "gosling_ip_address_from_ipv4 E out_ip_address a b c d error = translate_failures (e_debug E) () error (
     ensure_not_null ''out_ip_address'' out_ip_address (
     return_handle ip_addr_slot out_ip_address (IpV4 a b c d)))"

definition gosling_ip_address_from_ipv6 ::
  "('tp, 'd) c_env \<Rightarrow> usize \<Rightarrow> u16 \<Rightarrow> u16 \<Rightarrow> u16 \<Rightarrow> u16 \<Rightarrow> u16 \<Rightarrow> u16 \<Rightarrow> u16 \<Rightarrow> u16 \<Rightarrow> usize \<Rightarrow> ('tp, 'd, unit) c_action" where
  "gosling_ip_address_from_ipv6 E out_ip_address a b c d e f g h error = translate_failures (e_debug E) () error (
     ensure_not_null ''out_ip_address'' out_ip_address (
     return_handle ip_addr_slot out_ip_address (IpV6 a b c d e f g h)))"

definition gosling_target_address_from_ip_address ::
  "('tp, 'd) c_env \<Rightarrow> usize \<Rightarrow> usize \<Rightarrow> u16 \<Rightarrow> usize \<Rightarrow> ('tp, 'd, unit) c_action" where
  "gosling_target_address_from_ip_address E out_target_address ip_address port error = translate_failures (e_debug E) () error (
     ensure_not_null ''out_target_address'' out_target_address (
     ensure_not_null ''ip_address'' ip_address (
     cloned ip_addr_slot ''ip_address'' ip_address (\<lambda>ip.
       return_handle target_addr_slot out_target_address (SocketTarget (socket_addr_new ip port))))))"

definition gosling_target_address_from_domain ::
  "('tp, 'd) c_env \<Rightarrow> usize \<Rightarrow> usize \<Rightarrow> usize \<Rightarrow> u16 \<Rightarrow> usize \<Rightarrow> ('tp, 'd, unit) c_action" where
  "gosling_target_address_from_domain E out_target_address domain domain_length port error =
     translate_failures (e_debug E) () error (
     ensure_not_null ''out_target_address'' out_target_address (
     ensure_not_null ''domain'' domain (
     if domain_length = 0 then bail (Bail ''domain_length must be greater than 0'')
     else utf8_slice domain domain_length (\<lambda>text.
       lift_result TorFailure (domain_addr_try_from (e_addr E) (text, port)) (\<lambda>addr.
         return_handle target_addr_slot out_target_address (Domain addr))))))"

definition gosling_target_address_from_v3_onion_service_id ::
  "('tp, 'd) c_env \<Rightarrow> usize \<Rightarrow> usize \<Rightarrow> u16 \<Rightarrow> usize \<Rightarrow> ('tp, 'd, unit) c_action" where
  "gosling_target_address_from_v3_onion_service_id E out_target_address service_id port error =
     translate_failures (e_debug E) () error (
     ensure_not_null ''out_target_address'' out_target_address (
     ensure_not_null ''service_id'' service_id (
     cloned v3_onion_service_id_slot ''service_id'' service_id (\<lambda>sid.
       return_handle target_addr_slot out_target_address (OnionService (V3 (onion_addr_v3_new sid port)))))))"

definition gosling_target_address_from_string ::
  "('tp, 'd) c_env \<Rightarrow> usize \<Rightarrow> usize \<Rightarrow> usize \<Rightarrow> usize \<Rightarrow> ('tp, 'd, unit) c_action" where
  "gosling_target_address_from_string E out_target_address target_address target_address_length error =
     translate_failures (e_debug E) () error (
     ensure_not_null ''out_target_address'' out_target_address (
     ensure_not_null ''target_address'' target_address (
     if target_address_length = 0 then bail (Bail ''target_address_length must be greater than 0'')
     else utf8_slice target_address target_address_length (\<lambda>text.
       lift_result TorFailure (target_addr_from_str (e_crypto E) (e_text E) (e_addr E) text)
         (return_handle target_addr_slot out_target_address)))))"

definition gosling_target_address_to_string ::
  "('tp, 'd) c_env \<Rightarrow> usize \<Rightarrow> usize \<Rightarrow> usize \<Rightarrow> usize \<Rightarrow> ('tp, 'd, unit) c_action" where
  "gosling_target_address_to_string E target_address out_target_address_string target_address_string_size error =
     translate_failures (e_debug E) () error (
     ensure_not_null ''target_address'' target_address (
     ensure_not_null ''out_target_address_string'' out_target_address_string (
     cloned target_addr_slot ''target_address'' target_address (\<lambda>addr.
       let s = target_addr_fmt (e_addr E) addr in
       if unat target_address_string_size \<le> length s
       then bail (Bail (''string_size must be at least '' @ quoted (decimal (length s)) @ '', received '' @
              quoted (decimal (unat target_address_string_size))))
       else fill_string out_target_address_string s (length s)))))"

end
