(* ===== verification/Ffi_Providers.thy ===== *)
theory Ffi_Providers
  imports Ffi_Values
begin

text \<open>
  Providers of the C interface (\<open>cgosling/src/tor_provider.rs\<close>): proxies, pluggable transports, bridge lines,
  the configuration of a provider and its construction.
\<close>

section \<open>Objects behind a guard\<close>

text \<open>
  A lookup with \<open>get_mut\<close>: the body computes the new value of the object, which is written back when the
  body succeeds; its guard lives until the closure ends.
\<close>

definition borrowed_update :: "(('tp, 'd) c_world, 't) slot \<Rightarrow> string \<Rightarrow> usize \<Rightarrow> ('t \<Rightarrow> ('tp, 'd, 't) c_try) \<Rightarrow> ('tp, 'd, unit) c_try" where
  "borrowed_update S name key body = with_guard (sl_tag S) (\<lambda>w. case registry_get_mut (sl_get S w) key of
      Some (v, write) \<Rightarrow> try_then (body v) (\<lambda>v w. (Ret (Ok ()), sl_put S (write v) w)) w
    | None \<Rightarrow> bail (InvalidHandle name) w)"

text \<open>An optional text: a null pointer or a length of 0 stands for none.\<close>

definition optional_slice :: "usize \<Rightarrow> usize \<Rightarrow> (string option \<Rightarrow> ('tp, 'd, 'a) c_try) \<Rightarrow> ('tp, 'd, 'a) c_try" where
  "optional_slice p len body = (if p = 0 \<or> len = 0 then body None else utf8_slice p len (\<lambda>s. body (Some s)))"

definition mem_u16s :: "usize \<Rightarrow> nat \<Rightarrow> (usize \<Rightarrow> byte) \<Rightarrow> u16 list" where
  "mem_u16s p n m = map (\<lambda>i. ucast (m (p + 2 * of_nat i)) OR push_bit 8 (ucast (m (p + 2 * of_nat i + 1)))) [0..<n]"

section \<open>Freeing\<close>

definition gosling_proxy_config_free :: "usize \<Rightarrow> ('tp, 'd, unit) c_action" where
  "gosling_proxy_config_free in_proxy_config = registry_free proxy_config_slot in_proxy_config"

definition gosling_pluggable_transport_config_free :: "usize \<Rightarrow> ('tp, 'd, unit) c_action" where
  "gosling_pluggable_transport_config_free in_pluggable_transport_config =
     registry_free pluggable_transport_config_slot in_pluggable_transport_config"

definition gosling_bridge_line_free :: "usize \<Rightarrow> ('tp, 'd, unit) c_action" where
  "gosling_bridge_line_free in_bridge_line = registry_free bridge_line_slot in_bridge_line"

definition gosling_tor_provider_config_free :: "usize \<Rightarrow> ('tp, 'd, unit) c_action" where
  "gosling_tor_provider_config_free in_tor_provider_config = registry_free tor_provider_config_slot in_tor_provider_config"

definition gosling_tor_provider_free :: "usize \<Rightarrow> ('tp, 'd, unit) c_action" where
  "gosling_tor_provider_free in_tor_provider = registry_free tor_provider_slot in_tor_provider"

section \<open>Proxies\<close>

definition gosling_proxy_config_new_socks4 :: "('tp, 'd) c_env \<Rightarrow> usize \<Rightarrow> usize \<Rightarrow> usize \<Rightarrow> ('tp, 'd, unit) c_action" where
  "gosling_proxy_config_new_socks4 E out_proxy_config proxy_addr error = translate_failures (e_debug E) () error (
     ensure_not_null ''out_proxy_config'' out_proxy_config (
     ensure_not_null ''proxy_address'' proxy_addr (
     cloned target_addr_slot ''proxy_address'' proxy_addr (\<lambda>addr.
     lift_result ProxyFailure (socks4_new addr) (\<lambda>c.
       return_handle proxy_config_slot out_proxy_config (Socks4 c))))))"

definition gosling_proxy_config_new_socks5 :: "('tp, 'd) c_env \<Rightarrow> usize \<Rightarrow> usize \<Rightarrow> usize \<Rightarrow> usize \<Rightarrow> usize \<Rightarrow> usize \<Rightarrow> usize \<Rightarrow> ('tp, 'd, unit) c_action" where
  "gosling_proxy_config_new_socks5 E out_proxy_config proxy_addr username username_length password password_length error =
     translate_failures (e_debug E) () error (
     ensure_not_null ''out_proxy_config'' out_proxy_config (
     ensure_not_null ''proxy_address'' proxy_addr (
     cloned target_addr_slot ''proxy_address'' proxy_addr (\<lambda>addr.
     optional_slice username username_length (\<lambda>user.
     optional_slice password password_length (\<lambda>pass.
     lift_result ProxyFailure (socks5_new addr user pass) (\<lambda>c.
       return_handle proxy_config_slot out_proxy_config (Socks5 c))))))))"

definition gosling_proxy_config_new_https :: "('tp, 'd) c_env \<Rightarrow> usize \<Rightarrow> usize \<Rightarrow> usize \<Rightarrow> usize \<Rightarrow> usize \<Rightarrow> usize \<Rightarrow> usize \<Rightarrow> ('tp, 'd, unit) c_action" where
  "gosling_proxy_config_new_https E out_proxy_config proxy_addr username username_length password password_length error =
     translate_failures (e_debug E) () error (
     ensure_not_null ''out_proxy_config'' out_proxy_config (
     ensure_not_null ''proxy_address'' proxy_addr (
     cloned target_addr_slot ''proxy_address'' proxy_addr (\<lambda>addr.
     optional_slice username username_length (\<lambda>user.
     optional_slice password password_length (\<lambda>pass.
     lift_result ProxyFailure (https_new addr user pass) (\<lambda>c.
       return_handle proxy_config_slot out_proxy_config (Https c))))))))"

section \<open>Pluggable transports and bridge lines\<close>

text \<open>The canonical path is computed to see that the binary exists, and dropped.\<close>

definition gosling_pluggable_transport_config_new :: "('tp, 'd) c_env \<Rightarrow> usize \<Rightarrow> usize \<Rightarrow> usize \<Rightarrow> usize \<Rightarrow> usize \<Rightarrow> usize \<Rightarrow> ('tp, 'd, unit) c_action" where
  "gosling_pluggable_transport_config_new E out_pluggable_transport_config transports transports_length path_to_binary path_to_binary_length error =
     translate_failures (e_debug E) () error (
     ensure_not_null ''out_pluggable_transport_config'' out_pluggable_transport_config (
     ensure_not_null ''transports'' transports (
     ensure_not_zero ''transports_length'' transports_length (
     ensure_not_null ''path_to_binary'' path_to_binary (
     ensure_not_zero ''path_to_binary_length'' path_to_binary_length (
     utf8_slice transports transports_length (\<lambda>names.
     utf8_slice path_to_binary path_to_binary_length (\<lambda>path.
     lift_result IoFailure (e_canonicalize E path) (\<lambda>_.
     lift_result TransportFailure (pluggable_transport_config_new (e_text E) (split_on (CHR '','') names) path)
       (return_handle pluggable_transport_config_slot out_pluggable_transport_config))))))))))"

definition gosling_pluggable_transport_config_add_cmdline_option :: "('tp, 'd) c_env \<Rightarrow> usize \<Rightarrow> usize \<Rightarrow> usize \<Rightarrow> usize \<Rightarrow> ('tp, 'd, unit) c_action" where
  "gosling_pluggable_transport_config_add_cmdline_option E pluggable_transport_config option option_length error =
     translate_failures (e_debug E) () error (
     ensure_not_null ''pluggable_transport_config'' pluggable_transport_config (
     ensure_not_null ''option'' option (
     ensure_not_zero ''option_length'' option_length (
     utf8_slice option option_length (\<lambda>arg.
     borrowed_update pluggable_transport_config_slot ''pluggable_transport_config'' pluggable_transport_config
       (\<lambda>config. ret (Ok (add_option arg config))))))))"

definition gosling_bridge_line_from_string :: "('tp, 'd) c_env \<Rightarrow> usize \<Rightarrow> usize \<Rightarrow> usize \<Rightarrow> usize \<Rightarrow> ('tp, 'd, unit) c_action" where
  "gosling_bridge_line_from_string E out_bridge_line bridge_line bridge_line_length error =
     translate_failures (e_debug E) () error (
     ensure_not_null ''out_bridge_line'' out_bridge_line (
     ensure_not_null ''bridge_line'' bridge_line (
     ensure_not_zero ''bridge_line_length'' bridge_line_length (
     utf8_slice bridge_line bridge_line_length (\<lambda>line.
     lift_result BridgeLineFailure (bridge_line_from_str (e_text E) line) (return_handle bridge_line_slot out_bridge_line))))))"

section \<open>Configurations\<close>

definition gosling_tor_provider_config_new_mock_client_config :: "('tp, 'd) c_env \<Rightarrow> usize \<Rightarrow> usize \<Rightarrow> ('tp, 'd, unit) c_action" where
  "gosling_tor_provider_config_new_mock_client_config E out_tor_provider_config error = translate_failures (e_debug E) () error (
     ensure_not_null ''out_tor_provider_config'' out_tor_provider_config (
     return_handle tor_provider_config_slot out_tor_provider_config MockTorClientConfig))"

definition tor_binary :: "('tp, 'd) c_env \<Rightarrow> usize \<Rightarrow> usize \<Rightarrow> (string \<Rightarrow> ('tp, 'd, 'a) c_try) \<Rightarrow> ('tp, 'd, 'a) c_try" where
  "tor_binary E path len body =
     (if path = 0 then (case e_which E ''tor'' of Some p \<Rightarrow> body p | None \<Rightarrow> bail WhichFailure)
      else utf8_slice path len (\<lambda>p. lift_result IoFailure (e_canonicalize E p) body))"

definition gosling_tor_provider_config_new_bundled_legacy_client_config :: "('tp, 'd) c_env \<Rightarrow> usize \<Rightarrow> usize \<Rightarrow> usize \<Rightarrow> usize \<Rightarrow> usize \<Rightarrow> usize \<Rightarrow> ('tp, 'd, unit) c_action" where
  "gosling_tor_provider_config_new_bundled_legacy_client_config E out_tor_provider_config bin_path bin_path_length
     working_directory working_directory_length error = translate_failures (e_debug E) () error (
     ensure_not_null ''out_tor_provider_config'' out_tor_provider_config (
     if bin_path = 0 \<and> bin_path_length \<noteq> 0
     then bail (Bail ''tor_bin_path is null so tor_bin_path_length must be 0'')
     else if bin_path \<noteq> 0 \<and> bin_path_length = 0
     then bail (Bail ''tor_bin_path is not null so tor_bin_path_length must be greater than 0'')
     else ensure_not_null ''tor_working_directory'' working_directory (
     ensure_not_zero ''tor_working_directory_length'' working_directory_length (
     tor_binary E bin_path bin_path_length (\<lambda>bin.
     utf8_slice working_directory working_directory_length (\<lambda>dir.
       return_handle tor_provider_config_slot out_tor_provider_config
         (LegacyTorClientConfig (BundledTor bin dir None None None None))))))))"

definition gosling_tor_provider_config_new_system_legacy_client_config ::
  "('tp, 'd) c_env \<Rightarrow> usize \<Rightarrow> usize \<Rightarrow> u16 \<Rightarrow> usize \<Rightarrow> u16 \<Rightarrow> usize \<Rightarrow> usize \<Rightarrow> usize \<Rightarrow> ('tp, 'd, unit) c_action" where
  "gosling_tor_provider_config_new_system_legacy_client_config E out_tor_provider_config socks_host socks_port
     control_host control_port passwd passwd_length error = translate_failures (e_debug E) () error (
     ensure_not_null ''out_tor_provider_config'' out_tor_provider_config (
     ensure_not_null ''tor_socks_host'' socks_host (
     ensure_not_zero ''tor_socks_port'' socks_port (
     ensure_not_null ''tor_control_host'' control_host (
     ensure_not_zero ''tor_control_port'' control_port (
     ensure_not_null ''tor_control_passwd'' passwd (
     ensure_not_zero ''tor_control_passwd_length'' passwd_length (
     cloned ip_addr_slot ''tor_socks_host'' socks_host (\<lambda>socks_ip.
     cloned ip_addr_slot ''tor_control_host'' control_host (\<lambda>control_ip.
     utf8_slice passwd passwd_length (\<lambda>pass.
       return_handle tor_provider_config_slot out_tor_provider_config (LegacyTorClientConfig
         (SystemTor (socket_addr_new socks_ip socks_port) (socket_addr_new control_ip control_port) pass)))))))))))))"

text \<open>A change of a configuration of the bundled daemon; no other configuration can be changed.\<close>

definition update_bundled ::
  "usize \<Rightarrow> (legacy_tor_client_config \<Rightarrow> ('tp, 'd, legacy_tor_client_config) c_try) \<Rightarrow> ('tp, 'd, unit) c_try" where
  "update_bundled key body = borrowed_update tor_provider_config_slot ''tor_provider_config'' key (\<lambda>config.
     case config of
       LegacyTorClientConfig (BundledTor bin dir proxy ports transports bridges) \<Rightarrow>
         try_then (body (BundledTor bin dir proxy ports transports bridges)) (\<lambda>c. ret (Ok (LegacyTorClientConfig c)))
     | _ \<Rightarrow> bail (Bail ''tor_provider_config does not support this operation''))"

definition pushed :: "'a list option \<Rightarrow> 'a \<Rightarrow> 'a list option" where
  "pushed xs x = (case xs of None \<Rightarrow> Some [x] | Some xs \<Rightarrow> Some (xs @ [x]))"

fun with_proxy :: "proxy_config \<Rightarrow> legacy_tor_client_config \<Rightarrow> legacy_tor_client_config" where
  "with_proxy p (BundledTor bin dir proxy ports transports bridges) = BundledTor bin dir (Some p) ports transports bridges"
| "with_proxy p (SystemTor socks control passwd) = SystemTor socks control passwd"

fun with_ports :: "u16 list \<Rightarrow> legacy_tor_client_config \<Rightarrow> legacy_tor_client_config" where
  "with_ports ps (BundledTor bin dir proxy ports transports bridges) = BundledTor bin dir proxy (Some ps) transports bridges"
| "with_ports ps (SystemTor socks control passwd) = SystemTor socks control passwd"

fun with_transport :: "pluggable_transport_config \<Rightarrow> legacy_tor_client_config \<Rightarrow> legacy_tor_client_config" where
  "with_transport t (BundledTor bin dir proxy ports transports bridges) = BundledTor bin dir proxy ports (pushed transports t) bridges"
| "with_transport t (SystemTor socks control passwd) = SystemTor socks control passwd"

fun with_bridge :: "bridge_line \<Rightarrow> legacy_tor_client_config \<Rightarrow> legacy_tor_client_config" where
  "with_bridge b (BundledTor bin dir proxy ports transports bridges) = BundledTor bin dir proxy ports transports (pushed bridges b)"
| "with_bridge b (SystemTor socks control passwd) = SystemTor socks control passwd"

definition gosling_tor_provider_config_set_proxy_config :: "('tp, 'd) c_env \<Rightarrow> usize \<Rightarrow> usize \<Rightarrow> usize \<Rightarrow> ('tp, 'd, unit) c_action" where
  "gosling_tor_provider_config_set_proxy_config E tor_provider_config proxy_config error = translate_failures (e_debug E) () error (
     ensure_not_null ''tor_provider_config'' tor_provider_config (
     ensure_not_null ''proxy_config'' proxy_config (
     update_bundled tor_provider_config (\<lambda>c.
       cloned proxy_config_slot ''proxy_config'' proxy_config (\<lambda>p. ret (Ok (with_proxy p c)))))))"

definition gosling_tor_provider_config_set_allowed_ports :: "('tp, 'd) c_env \<Rightarrow> usize \<Rightarrow> usize \<Rightarrow> usize \<Rightarrow> usize \<Rightarrow> ('tp, 'd, unit) c_action" where
  "gosling_tor_provider_config_set_allowed_ports E tor_provider_config ports_array allowed_ports_count error =
     translate_failures (e_debug E) () error (
     ensure_not_null ''tor_provider_config'' tor_provider_config (
     ensure_not_null ''allowed_ports'' ports_array (
     ensure_not_zero ''allowed_ports_count'' allowed_ports_count (
     update_bundled tor_provider_config (\<lambda>c w.
       (Ret (Ok (with_ports (mem_u16s ports_array (unat allowed_ports_count) (w_mem w)) c)), w))))))"

definition gosling_tor_provider_config_add_pluggable_transport_config :: "('tp, 'd) c_env \<Rightarrow> usize \<Rightarrow> usize \<Rightarrow> usize \<Rightarrow> ('tp, 'd, unit) c_action" where
  "gosling_tor_provider_config_add_pluggable_transport_config E tor_provider_config pluggable_transport_config error =
     translate_failures (e_debug E) () error (
     ensure_not_null ''tor_provider_config'' tor_provider_config (
     ensure_not_null ''pluggable_transport_config'' pluggable_transport_config (
     update_bundled tor_provider_config (\<lambda>c.
       cloned pluggable_transport_config_slot ''pluggable_transport_config'' pluggable_transport_config (\<lambda>t.
         ret (Ok (with_transport t c)))))))"

definition gosling_tor_provider_config_add_bridge_line :: "('tp, 'd) c_env \<Rightarrow> usize \<Rightarrow> usize \<Rightarrow> usize \<Rightarrow> ('tp, 'd, unit) c_action" where
  "gosling_tor_provider_config_add_bridge_line E tor_provider_config bridge_line error = translate_failures (e_debug E) () error (
     ensure_not_null ''tor_provider_config'' tor_provider_config (
     ensure_not_null ''bridge_line'' bridge_line (
     update_bundled tor_provider_config (\<lambda>c.
       cloned bridge_line_slot ''bridge_line'' bridge_line (\<lambda>b. ret (Ok (with_bridge b c)))))))"

section \<open>Construction\<close>

text \<open>The constructors of the two clients are parameters, as the client is of the context.\<close>

definition provider_of :: "('tp, 'd) c_env \<Rightarrow> tor_provider_config \<Rightarrow> ('tp, 'd, 'tp) c_try" where
  "provider_of E config w = (case config of
      MockTorClientConfig \<Rightarrow> (Ret (Ok (e_mock E)), w)
    | LegacyTorClientConfig c \<Rightarrow> (case e_legacy E c of
          Ret (Ok tor) \<Rightarrow> (Ret (Ok tor), w)
        | Ret (Err e) \<Rightarrow> (Ret (Err (LegacyFailure e)), w)
        | Panic \<Rightarrow> (Panic, w)
        | OutOfFuel \<Rightarrow> (OutOfFuel, w)))"

definition gosling_tor_provider_from_tor_provider_config :: "('tp, 'd) c_env \<Rightarrow> usize \<Rightarrow> usize \<Rightarrow> usize \<Rightarrow> ('tp, 'd, unit) c_action" where
  "gosling_tor_provider_from_tor_provider_config E out_tor_provider tor_provider_config error =
     translate_failures (e_debug E) () error (
     ensure_not_null ''out_tor_provider'' out_tor_provider (
     ensure_not_null ''tor_provider_config'' tor_provider_config (
     try_then (borrowed tor_provider_config_slot ''tor_provider_config'' tor_provider_config (provider_of E))
       (return_handle tor_provider_slot out_tor_provider))))"

end
