(* ===== verification/Ffi_Context.thy ===== *)
theory Ffi_Context
  imports Ffi_Providers
begin

text \<open>
  Contexts of the C interface (\<open>cgosling/src/context.rs\<close>, \<open>callbacks.rs\<close>, and the functions of \<open>utils.rs\<close> on a
  context): every function looks a context up in its registry and calls the operation of the context under
  the guard; \<open>gosling_context_poll_events\<close> turns events into callbacks. The program that uses the
  library is a parameter: what calling one of its functions does to memory and to the library, and
  what it returns. A buffer that lives for a call only is passed as its contents.
\<close>

section \<open>The program\<close>

datatype c_call =
    TorBootstrapStatusCall usize "32 word" bytes usize bytes usize
  | TorBootstrapCompletedCall usize
  | TorLogCall usize bytes usize
  | ChallengeResponseSizeCall usize usize bytes usize
  | BuildChallengeResponseCall usize usize bytes usize usize
  | IdentityClientCompletedCall usize usize usize usize bytes usize usize
  | IdentityClientFailedCall usize usize usize
  | IdentityServerPublishedCall usize
  | IdentityServerStartedCall usize usize
  | ClientAllowedCall usize usize usize
  | EndpointSupportedCall usize usize bytes usize
  | ChallengeSizeCall usize usize
  | BuildChallengeCall usize usize usize
  | VerifyChallengeResponseCall usize usize bytes usize
  | IdentityServerCompletedCall usize usize usize bytes usize usize usize
  | IdentityServerRejectedCall usize usize bool bool bool bool bool
  | IdentityServerFailedCall usize usize usize
  | EndpointClientCompletedCall usize usize usize bytes usize "32 word"
  | EndpointClientFailedCall usize usize usize
  | EndpointServerPublishedCall usize usize bytes usize
  | EndpointServerStartedCall usize usize
  | ChannelSupportedCall usize usize usize bytes usize
  | EndpointServerCompletedCall usize usize usize usize bytes usize "32 word"
  | EndpointServerRejectedCall usize usize bool bool bool
  | EndpointServerFailedCall usize usize usize

record ('tp, 'd) c_host =
  h_notify :: "usize \<Rightarrow> c_call \<Rightarrow> ('tp, 'd) c_world \<Rightarrow> ('tp, 'd) c_world"
  h_ask :: "usize \<Rightarrow> c_call \<Rightarrow> ('tp, 'd) c_world \<Rightarrow> bool \<times> ('tp, 'd) c_world"
  h_size :: "usize \<Rightarrow> c_call \<Rightarrow> ('tp, 'd) c_world \<Rightarrow> usize \<times> ('tp, 'd) c_world"
  h_fill :: "usize \<Rightarrow> c_call \<Rightarrow> ('tp, 'd) c_world \<Rightarrow> bytes \<times> ('tp, 'd) c_world"

definition notify :: "('tp, 'd) c_host \<Rightarrow> usize \<Rightarrow> c_call \<Rightarrow> ('tp, 'd, unit) c_action" where
  "notify H callback call w = (Ret (), h_notify H callback call w)"

definition ask :: "('tp, 'd) c_host \<Rightarrow> usize \<Rightarrow> c_call \<Rightarrow> ('tp, 'd, bool) c_action" where
  "ask H callback call w = (case h_ask H callback call w of (b, w) \<Rightarrow> (Ret b, w))"

definition ask_size :: "('tp, 'd) c_host \<Rightarrow> usize \<Rightarrow> c_call \<Rightarrow> ('tp, 'd, usize) c_action" where
  "ask_size H callback call w = (case h_size H callback call w of (n, w) \<Rightarrow> (Ret n, w))"

text \<open>A buffer of zeros is allocated and the callback writes into it; a size above \<open>isize::MAX\<close> panics.\<close>

definition ask_buffer :: "('tp, 'd) c_host \<Rightarrow> usize \<Rightarrow> c_call \<Rightarrow> usize \<Rightarrow> ('tp, 'd, bytes) c_action" where
  "ask_buffer H callback call n w =
     (if 2 ^ 63 \<le> unat n then (Panic, w)
      else case h_fill H callback call w of (bs, w) \<Rightarrow> (Ret (take (unat n) (bs @ replicate (unat n - length bs) 0)), w))"

definition when_set :: "c_callback \<Rightarrow> (usize \<Rightarrow> ('tp, 'd, unit) c_try) \<Rightarrow> ('tp, 'd, unit) c_try" where
  "when_set callback body = (case callback of Some f \<Rightarrow> body f | None \<Rightarrow> ret (Ok ()))"

definition required :: "string \<Rightarrow> c_callback \<Rightarrow> (usize \<Rightarrow> ('tp, 'd, 'a) c_try) \<Rightarrow> ('tp, 'd, 'a) c_try" where
  "required message callback body = (case callback of Some f \<Rightarrow> body f | None \<Rightarrow> bail (Bail message))"

text \<open>\<open>CString::new(s).expect(..)\<close>\<close>

definition c_string :: "string \<Rightarrow> (bytes \<Rightarrow> ('tp, 'd, 'a) c_action) \<Rightarrow> ('tp, 'd, 'a) c_action" where
  "c_string s body = (if 0 \<in> set (as_bytes s) then panic else body (as_bytes s @ [0]))"

definition c_len :: "'a list \<Rightarrow> usize" where
  "c_len s = of_nat (length s)"

text \<open>A call that succeeds with the unit value.\<close>

definition done_with :: "('tp, 'd, 'a) c_action \<Rightarrow> ('tp, 'd, unit) c_try" where
  "done_with m = andthen m (\<lambda>_. ret (Ok ()))"

section \<open>Operations on a context\<close>

text \<open>An operation of the context under a guard that is already held.\<close>

definition context_result :: "('a, context_error) result outcome \<Rightarrow> ('a, anyhow_error) result outcome" where
  "context_result r = (case r of
      Ret (Ok a) \<Rightarrow> Ret (Ok a) | Ret (Err e) \<Rightarrow> Ret (Err (ContextFailure e)) | Panic \<Rightarrow> Panic | OutOfFuel \<Rightarrow> OutOfFuel)"

definition run_context :: "usize \<Rightarrow> ('tp, 'd, 'a) context_action \<Rightarrow> ('tp, 'd, 'a) c_try" where
  "run_context context f w = (case registry_get_mut (sl_get context_tuple_slot w) context of
      Some ((c, callbacks, events), write) \<Rightarrow>
        (case f c of (r, c) \<Rightarrow> (context_result r, sl_put context_tuple_slot (write (c, callbacks, events)) w))
    | None \<Rightarrow> bail (InvalidHandle ''context'') w)"

definition with_context :: "usize \<Rightarrow> ('tp, 'd, 'a) c_try \<Rightarrow> ('tp, 'd, 'a) c_try" where
  "with_context context body = borrowed context_tuple_slot ''context'' context (\<lambda>_. body)"

definition call_context :: "usize \<Rightarrow> ('tp, 'd, 'a) context_action \<Rightarrow> ('tp, 'd, 'a) c_try" where
  "call_context context f = with_context context (run_context context f)"

definition ascii_slice :: "string \<Rightarrow> usize \<Rightarrow> usize \<Rightarrow> (string \<Rightarrow> ('tp, 'd, 'a) c_try) \<Rightarrow> ('tp, 'd, 'a) c_try" where
  "ascii_slice name p len body = utf8_slice p len (\<lambda>s.
     if \<not> is_ascii s then bail (Bail (name @ '' must be an ascii string'')) else body s)"

definition gosling_context_free :: "usize \<Rightarrow> ('tp, 'd, unit) c_action" where
  "gosling_context_free in_context = registry_free context_tuple_slot in_context"

text \<open>The provider leaves its registry even when the key is then found to be invalid.\<close>

definition gosling_context_init ::
  "('tp, 'd) c_env \<Rightarrow> usize \<Rightarrow> usize \<Rightarrow> u16 \<Rightarrow> u16 \<Rightarrow> usize \<Rightarrow> usize \<Rightarrow> ('tp, 'd, unit) c_action" where
  "gosling_context_init E out_context in_tor_provider identity_port endpoint_port identity_private_key error =
     translate_failures (e_debug E) () error (
     ensure_not_null ''out_context'' out_context (
     ensure_not_null ''in_tor_provider'' in_tor_provider (
     ensure_not_zero ''identity_port'' identity_port (
     ensure_not_zero ''endpoint_port'' endpoint_port (
     ensure_not_null ''identity_private_key'' identity_private_key (
     andthen (reg_remove tor_provider_slot in_tor_provider) (\<lambda>x. case x of
       None \<Rightarrow> bail (InvalidHandle ''tor_provider'')
     | Some tor \<Rightarrow>
         borrowed ed25519_private_key_slot ''identity_private_key'' identity_private_key (\<lambda>key.
         copied_key E key (\<lambda>key.
         lift_result ContextFailure (context_new (e_crypto E) tor identity_port endpoint_port (from_secs 60) 4096
             (Some (from_secs 60)) key) (\<lambda>c.
           return_handle context_tuple_slot out_context (c, no_callbacks, None)))))))))))"

definition gosling_context_bootstrap_tor :: "('tp, 'd) c_env \<Rightarrow> usize \<Rightarrow> usize \<Rightarrow> ('tp, 'd, unit) c_action" where
  "gosling_context_bootstrap_tor E context error = translate_failures (e_debug E) () error (
     ensure_not_null ''context'' context (
     call_context context (context_bootstrap (e_tor E))))"

definition gosling_context_start_identity_server :: "('tp, 'd) c_env \<Rightarrow> usize \<Rightarrow> usize \<Rightarrow> ('tp, 'd, unit) c_action" where
  "gosling_context_start_identity_server E context error = translate_failures (e_debug E) () error (
     ensure_not_null ''context'' context (
     call_context context (identity_server_start (e_tor E))))"

definition gosling_context_stop_identity_server :: "('tp, 'd) c_env \<Rightarrow> usize \<Rightarrow> usize \<Rightarrow> ('tp, 'd, unit) c_action" where
  "gosling_context_stop_identity_server E context error = translate_failures (e_debug E) () error (
     ensure_not_null ''context'' context (
     call_context context identity_server_stop))"

definition gosling_context_start_endpoint_server :: "('tp, 'd) c_env \<Rightarrow> usize \<Rightarrow> usize \<Rightarrow> usize \<Rightarrow> usize \<Rightarrow> usize \<Rightarrow> usize \<Rightarrow> usize \<Rightarrow> ('tp, 'd, unit) c_action" where
  "gosling_context_start_endpoint_server E context endpoint_private_key endpoint_name endpoint_name_length
     client_identity client_auth_public_key error = translate_failures (e_debug E) () error (
     ensure_not_null ''context'' context (
     ensure_not_null ''endpoint_private_key'' endpoint_private_key (
     ensure_not_null ''endpoint_name'' endpoint_name (
     ensure_not_zero ''endpoint_name_length'' endpoint_name_length (
     ensure_not_null ''client_identity'' client_identity (
     ensure_not_null ''client_auth_public_key'' client_auth_public_key (
     with_context context (
     ascii_slice ''endpoint_name'' endpoint_name endpoint_name_length (\<lambda>name.
     borrowed ed25519_private_key_slot ''endpoint_private_key'' endpoint_private_key (\<lambda>key.
     borrowed v3_onion_service_id_slot ''client_identity'' client_identity (\<lambda>client.
     borrowed x25519_public_key_slot ''client_auth_public_key'' client_auth_public_key (\<lambda>auth.
       copied_key E key (\<lambda>key.
       run_context context (endpoint_server_start (e_crypto E) (e_tor E) key name client auth))))))))))))))"

definition gosling_context_stop_endpoint_server :: "('tp, 'd) c_env \<Rightarrow> usize \<Rightarrow> usize \<Rightarrow> usize \<Rightarrow> ('tp, 'd, unit) c_action" where
  "gosling_context_stop_endpoint_server E context endpoint_private_key error = translate_failures (e_debug E) () error (
     ensure_not_null ''context'' context (
     ensure_not_null ''endpoint_private_key'' endpoint_private_key (
     with_context context (
     borrowed ed25519_private_key_slot ''endpoint_private_key'' endpoint_private_key (\<lambda>key.
       run_context context (endpoint_server_stop (service_id_from_private_key (e_crypto E) key)))))))"

text \<open>The result of a failed begin is \<open>!0\<close>; handles are counted from 0.\<close>

definition handle_of :: "('tp, 'd, nat) c_try \<Rightarrow> ('tp, 'd, usize) c_try" where
  "handle_of m = try_then m (\<lambda>h. ret (Ok (of_nat h)))"

definition gosling_context_begin_identity_handshake :: "('tp, 'd) c_env \<Rightarrow> usize \<Rightarrow> usize \<Rightarrow> usize \<Rightarrow> usize \<Rightarrow> usize \<Rightarrow> ('tp, 'd, usize) c_action" where
  "gosling_context_begin_identity_handshake E context identity_service_id endpoint_name endpoint_name_length error =
     translate_failures (e_debug E) (NOT 0) error (
     ensure_not_null ''context'' context (
     ensure_not_null ''identity_service_id'' identity_service_id (
     ensure_not_null ''endpoint_name'' endpoint_name (
     ensure_not_zero ''endpoint_name_length'' endpoint_name_length (
     with_context context (
     borrowed v3_onion_service_id_slot ''identity_service_id'' identity_service_id (\<lambda>sid.
     ascii_slice ''endpoint_name'' endpoint_name endpoint_name_length (\<lambda>name.
       handle_of (run_context context (identity_client_begin_handshake (e_crypto E) (e_tor E) (e_now E) (e_client_auth E) sid name))))))))))"

definition gosling_context_abort_identity_client_handshake :: "('tp, 'd) c_env \<Rightarrow> usize \<Rightarrow> usize \<Rightarrow> usize \<Rightarrow> ('tp, 'd, unit) c_action" where
  "gosling_context_abort_identity_client_handshake E context handshake_handle error = translate_failures (e_debug E) () error (
     ensure_not_null ''context'' context (
     call_context context (identity_client_abort_handshake (unat handshake_handle))))"

definition gosling_context_begin_endpoint_handshake :: "('tp, 'd) c_env \<Rightarrow> usize \<Rightarrow> usize \<Rightarrow> usize \<Rightarrow> usize \<Rightarrow> usize \<Rightarrow> usize \<Rightarrow> ('tp, 'd, usize) c_action" where
  "gosling_context_begin_endpoint_handshake E context endpoint_service_id client_auth_private_key channel_name channel_name_length error =
     translate_failures (e_debug E) (NOT 0) error (
     ensure_not_null ''context'' context (
     ensure_not_null ''endpoint_service_id'' endpoint_service_id (
     ensure_not_null ''client_auth_private_key'' client_auth_private_key (
     ensure_not_null ''channel_name'' channel_name (
     ensure_not_zero ''channel_name_length'' channel_name_length (
     with_context context (
     borrowed v3_onion_service_id_slot ''endpoint_service_id'' endpoint_service_id (\<lambda>sid.
     borrowed x25519_private_key_slot ''client_auth_private_key'' client_auth_private_key (\<lambda>auth.
     ascii_slice ''channel_name'' channel_name channel_name_length (\<lambda>name.
       handle_of (run_context context (endpoint_client_begin_handshake (e_crypto E) (e_tor E) (e_now E) sid auth name))))))))))))"

definition gosling_context_abort_endpoint_client_handshake :: "('tp, 'd) c_env \<Rightarrow> usize \<Rightarrow> usize \<Rightarrow> usize \<Rightarrow> ('tp, 'd, unit) c_action" where
  "gosling_context_abort_endpoint_client_handshake E context handshake_handle error = translate_failures (e_debug E) () error (
     ensure_not_null ''context'' context (
     call_context context (endpoint_client_abort_handshake (unat handshake_handle))))"

definition gosling_context_connect :: "('tp, 'd) c_env \<Rightarrow> usize \<Rightarrow> usize \<Rightarrow> usize \<Rightarrow> usize \<Rightarrow> usize \<Rightarrow> ('tp, 'd, unit) c_action" where
  "gosling_context_connect E context out_tcp_socket target_address circuit_token error = translate_failures (e_debug E) () error (
     ensure_not_null ''context'' context (
     ensure_not_null ''out_tcp_socket'' out_tcp_socket (
     ensure_not_null ''target_address'' target_address (
     with_context context (
     cloned target_addr_slot ''target_address'' target_address (\<lambda>addr.
     try_then (run_context context (context_connect (e_tor E) addr (Some (unat circuit_token)))) (\<lambda>onion_stream.
       done_with (put_bytes out_tcp_socket (le_bytes 4 (e_raw_fd E (onion_stream_into onion_stream)))))))))))"

definition gosling_context_generate_circuit_token :: "('tp, 'd) c_env \<Rightarrow> usize \<Rightarrow> usize \<Rightarrow> ('tp, 'd, usize) c_action" where
  "gosling_context_generate_circuit_token E context error = translate_failures (e_debug E) (NOT 0) error (
     ensure_not_null ''context'' context (
     handle_of (call_context context (andthen (context_generate_circuit_token (e_tor E)) (\<lambda>token. ret (Ok token))))))"

definition gosling_context_release_circuit_token :: "('tp, 'd) c_env \<Rightarrow> usize \<Rightarrow> usize \<Rightarrow> usize \<Rightarrow> ('tp, 'd, unit) c_action" where
  "gosling_context_release_circuit_token E context circuit_token error = translate_failures (e_debug E) () error (
     ensure_not_null ''context'' context (
     call_context context (andthen (context_release_circuit_token (e_tor E) (unat circuit_token)) (\<lambda>u. ret (Ok u)))))"

section \<open>Events\<close>

definition SMALLEST_BSON_DOC_SIZE :: usize where "SMALLEST_BSON_DOC_SIZE = 5"

text \<open>\<open>to_writer(..).expect(..)\<close>\<close>

definition document_bytes :: "'d bson_ops \<Rightarrow> 'd \<Rightarrow> (bytes \<Rightarrow> ('tp, 'd, 'a) c_action) \<Rightarrow> ('tp, 'd, 'a) c_action" where
  "document_bytes B d body = (case to_writer B d of Ok bs \<Rightarrow> body bs | Err _ \<Rightarrow> panic)"

text \<open>A document the program writes into a buffer whose size it was asked for.\<close>

definition host_document ::
  "('tp, 'd) c_env \<Rightarrow> string \<Rightarrow> string \<Rightarrow> ('tp, 'd, usize) c_action \<Rightarrow> (usize \<Rightarrow> ('tp, 'd, bytes) c_action) \<Rightarrow>
   ('d \<Rightarrow> ('tp, 'd, 'a) c_try) \<Rightarrow> ('tp, 'd, 'a) c_try" where
  "host_document E size_name build_name ask_n build body =
     andthen ask_n (\<lambda>n.
       if n < SMALLEST_BSON_DOC_SIZE
       then bail (Bail (size_name @ '' returned an impossibly small size '' @ quoted (decimal (unat n)) @
              '', smallest possible is '' @ decimal (unat SMALLEST_BSON_DOC_SIZE)))
       else andthen (build n) (\<lambda>buffer. case from_reader (e_bson E) buffer of
           Ok d \<Rightarrow> body d
         | Err _ \<Rightarrow> bail (Bail (''failed to parse binary provided by '' @ build_name @ '' as BSON document''))))"

definition on_challenge_received ::
  "('tp, 'd) c_host \<Rightarrow> ('tp, 'd) c_env \<Rightarrow> usize \<Rightarrow> event_callbacks \<Rightarrow> handshake_handle \<Rightarrow> 'd \<Rightarrow> ('tp, 'd, unit) c_try" where
  "on_challenge_received H E context cbs handle endpoint_challenge =
     (case (identity_client_challenge_response_size_callback cbs, identity_client_build_challenge_response_callback cbs) of
        (Some size_callback, Some build_callback) \<Rightarrow>
          document_bytes (e_bson E) endpoint_challenge (\<lambda>challenge.
          host_document E ''identity_client_challenge_response_size_callback'' ''identity_client_build_challenge_response_callback''
            (ask_size H size_callback (ChallengeResponseSizeCall context (of_nat handle) challenge (c_len challenge)))
            (\<lambda>n. ask_buffer H build_callback (BuildChallengeResponseCall context (of_nat handle) challenge (c_len challenge) n) n)
            (\<lambda>response. call_context context (identity_client_handle_challenge_received (e_bson E) handle response)))
      | _ \<Rightarrow> bail (Bail (''missing required identity_client_challenge_response_size() and '' @
               ''identity_client_build_challenge_response() callbacks'')))"

definition on_identity_client_completed ::
  "('tp, 'd) c_host \<Rightarrow> usize \<Rightarrow> event_callbacks \<Rightarrow> handshake_handle \<Rightarrow> v3_onion_service_id \<Rightarrow> v3_onion_service_id \<Rightarrow> string \<Rightarrow>
   x25519_private_key \<Rightarrow> ('tp, 'd, unit) c_try" where
  "on_identity_client_completed H context cbs handle identity_service_id endpoint_service_id endpoint_name client_auth =
     required ''missing required identity_client_handshake_completed() callback'' (identity_client_handshake_completed_callback cbs) (\<lambda>f.
     andthen (reg_insert v3_onion_service_id_slot identity_service_id) (\<lambda>identity_key.
     andthen (reg_insert v3_onion_service_id_slot endpoint_service_id) (\<lambda>endpoint_key.
     c_string endpoint_name (\<lambda>name.
     andthen (reg_insert x25519_private_key_slot client_auth) (\<lambda>auth_key.
     andthen (notify H f (IdentityClientCompletedCall context (of_nat handle) identity_key endpoint_key name (c_len endpoint_name) auth_key)) (\<lambda>_.
     andthen (reg_remove v3_onion_service_id_slot identity_key) (\<lambda>_.
     andthen (reg_remove v3_onion_service_id_slot endpoint_key) (\<lambda>_.
     done_with (reg_remove x25519_private_key_slot auth_key)))))))))"

text \<open>The error object of a failed handshake lives for the call.\<close>

definition on_handshake_failed ::
  "('tp, 'd) c_host \<Rightarrow> ('tp, 'd) c_env \<Rightarrow> c_callback \<Rightarrow> (usize \<Rightarrow> c_call) \<Rightarrow> context_error \<Rightarrow> ('tp, 'd, unit) c_try" where
  "on_handshake_failed H E callback call reason = when_set callback (\<lambda>f.
     andthen (reg_insert error_slot (error_new (e_reason E reason))) (\<lambda>key.
     andthen (notify H f (call key)) (\<lambda>_.
     done_with (reg_remove error_slot key))))"

text \<open>The service id that is inserted for the first callback is not removed again.\<close>

definition on_endpoint_request ::
  "('tp, 'd) c_host \<Rightarrow> ('tp, 'd) c_env \<Rightarrow> usize \<Rightarrow> event_callbacks \<Rightarrow> handshake_handle \<Rightarrow> v3_onion_service_id \<Rightarrow> string \<Rightarrow>
   ('tp, 'd, unit) c_try" where
  "on_endpoint_request H E context cbs handle client_service_id requested_endpoint =
     required ''missing required identity_server_client_allowed() callback'' (identity_server_client_allowed_callback cbs) (\<lambda>f.
     andthen (reg_insert v3_onion_service_id_slot client_service_id) (\<lambda>client_key.
     andthen (ask H f (ClientAllowedCall context (of_nat handle) client_key)) (\<lambda>client_allowed.
     required ''missing required identity_server_endpoint_supported() callback'' (identity_server_endpoint_supported_callback cbs) (\<lambda>f.
     c_string requested_endpoint (\<lambda>name.
     andthen (ask H f (EndpointSupportedCall context (of_nat handle) name (c_len requested_endpoint))) (\<lambda>endpoint_supported.
     case (identity_server_challenge_size_callback cbs, identity_server_build_challenge_callback cbs) of
       (Some size_callback, Some build_callback) \<Rightarrow>
         host_document E ''identity_server_challenge_size_callback'' ''identity_server_build_challenge_callback''
           (ask_size H size_callback (ChallengeSizeCall context (of_nat handle)))
           (\<lambda>n. ask_buffer H build_callback (BuildChallengeCall context (of_nat handle) n) n)
           (\<lambda>challenge. call_context context (identity_server_handle_endpoint_request_received (e_bson E) (e_cookie E)
              handle client_allowed endpoint_supported challenge))
     | _ \<Rightarrow> bail (Bail (''missing required identity_server_challenge_size() and '' @
              ''identity_server_build_challenge() callbacks''))))))))"

definition on_challenge_response ::
  "('tp, 'd) c_host \<Rightarrow> ('tp, 'd) c_env \<Rightarrow> usize \<Rightarrow> event_callbacks \<Rightarrow> handshake_handle \<Rightarrow> 'd \<Rightarrow> ('tp, 'd, unit) c_try" where
  "on_challenge_response H E context cbs handle challenge_response =
     required ''missing required identity_server_verify_challenge_response() callback()''
       (identity_server_verify_challenge_response_callback cbs) (\<lambda>f.
     document_bytes (e_bson E) challenge_response (\<lambda>buffer.
     andthen (ask H f (VerifyChallengeResponseCall context (of_nat handle) buffer (c_len buffer))) (\<lambda>valid.
       call_context context (identity_server_handle_challenge_response_received handle valid))))"

definition on_identity_server_completed ::
  "('tp, 'd) c_host \<Rightarrow> usize \<Rightarrow> event_callbacks \<Rightarrow> handshake_handle \<Rightarrow> ed25519_private_key \<Rightarrow> string \<Rightarrow> v3_onion_service_id \<Rightarrow>
   x25519_public_key \<Rightarrow> ('tp, 'd, unit) c_try" where
  "on_identity_server_completed H context cbs handle endpoint_private_key endpoint_name client_service_id client_auth =
     required ''missing required identity_server_handshake_completed_callback()'' (identity_server_handshake_completed_callback cbs) (\<lambda>f.
     andthen (reg_insert ed25519_private_key_slot endpoint_private_key) (\<lambda>endpoint_key.
     c_string endpoint_name (\<lambda>name.
     andthen (reg_insert v3_onion_service_id_slot client_service_id) (\<lambda>client_key.
     andthen (reg_insert x25519_public_key_slot client_auth) (\<lambda>auth_key.
     andthen (notify H f (IdentityServerCompletedCall context (of_nat handle) endpoint_key name (c_len endpoint_name) client_key auth_key)) (\<lambda>_.
     andthen (reg_remove ed25519_private_key_slot endpoint_key) (\<lambda>_.
     andthen (reg_remove v3_onion_service_id_slot client_key) (\<lambda>_.
     done_with (reg_remove x25519_public_key_slot auth_key)))))))))"

definition on_endpoint_client_completed ::
  "('tp, 'd) c_host \<Rightarrow> ('tp, 'd) c_env \<Rightarrow> usize \<Rightarrow> event_callbacks \<Rightarrow> handshake_handle \<Rightarrow> v3_onion_service_id \<Rightarrow> string \<Rightarrow> rw_stream \<Rightarrow>
   ('tp, 'd, unit) c_try" where
  "on_endpoint_client_completed H E context cbs handle endpoint_service_id channel_name st =
     required ''missing required endpoint_client_handshake_completed() callback'' (endpoint_client_handshake_completed_callback cbs) (\<lambda>f.
     andthen (reg_insert v3_onion_service_id_slot endpoint_service_id) (\<lambda>endpoint_key.
     c_string channel_name (\<lambda>name.
     andthen (notify H f (EndpointClientCompletedCall context (of_nat handle) endpoint_key name (c_len channel_name) (e_raw_fd E st))) (\<lambda>_.
     done_with (reg_remove v3_onion_service_id_slot endpoint_key)))))"

definition on_endpoint_server_published ::
  "('tp, 'd) c_host \<Rightarrow> usize \<Rightarrow> event_callbacks \<Rightarrow> v3_onion_service_id \<Rightarrow> string \<Rightarrow> ('tp, 'd, unit) c_try" where
  "on_endpoint_server_published H context cbs endpoint_service_id endpoint_name =
     when_set (endpoint_server_published_callback cbs) (\<lambda>f.
     andthen (reg_insert v3_onion_service_id_slot endpoint_service_id) (\<lambda>endpoint_key.
     c_string endpoint_name (\<lambda>name.
     andthen (notify H f (EndpointServerPublishedCall context endpoint_key name (c_len endpoint_name))) (\<lambda>_.
     done_with (reg_remove v3_onion_service_id_slot endpoint_key)))))"

definition on_channel_request ::
  "('tp, 'd) c_host \<Rightarrow> ('tp, 'd) c_env \<Rightarrow> usize \<Rightarrow> event_callbacks \<Rightarrow> handshake_handle \<Rightarrow> v3_onion_service_id \<Rightarrow> string \<Rightarrow>
   ('tp, 'd, unit) c_try" where
  "on_channel_request H E context cbs handle client_service_id requested_channel =
     required ''missing required endpoint_server_channel_supported() callback'' (endpoint_server_channel_supported_callback cbs) (\<lambda>f.
     andthen (reg_insert v3_onion_service_id_slot client_service_id) (\<lambda>client_key.
     c_string requested_channel (\<lambda>name.
     andthen (ask H f (ChannelSupportedCall context (of_nat handle) client_key name (c_len requested_channel))) (\<lambda>channel_supported.
     andthen (reg_remove v3_onion_service_id_slot client_key) (\<lambda>_.
       call_context context (endpoint_server_handle_channel_request_received (e_cookie E) handle channel_supported))))))"

definition on_endpoint_server_completed ::
  "('tp, 'd) c_host \<Rightarrow> ('tp, 'd) c_env \<Rightarrow> usize \<Rightarrow> event_callbacks \<Rightarrow> handshake_handle \<Rightarrow> v3_onion_service_id \<Rightarrow> v3_onion_service_id \<Rightarrow>
   string \<Rightarrow> rw_stream \<Rightarrow> ('tp, 'd, unit) c_try" where
  "on_endpoint_server_completed H E context cbs handle endpoint_service_id client_service_id channel_name st =
     required ''missing required endpoint_server_handshake_completed() callback'' (endpoint_server_handshake_completed_callback cbs) (\<lambda>f.
     andthen (reg_insert v3_onion_service_id_slot endpoint_service_id) (\<lambda>endpoint_key.
     andthen (reg_insert v3_onion_service_id_slot client_service_id) (\<lambda>client_key.
     c_string channel_name (\<lambda>name.
     andthen (notify H f (EndpointServerCompletedCall context (of_nat handle) endpoint_key client_key name (c_len channel_name) (e_raw_fd E st))) (\<lambda>_.
     andthen (reg_remove v3_onion_service_id_slot endpoint_key) (\<lambda>_.
     done_with (reg_remove v3_onion_service_id_slot client_key)))))))"

fun handle_context_event ::
  "('tp, 'd) c_host \<Rightarrow> ('tp, 'd) c_env \<Rightarrow> 'd context_event \<Rightarrow> usize \<Rightarrow> event_callbacks \<Rightarrow> ('tp, 'd, unit) c_try" where
  "handle_context_event H E (TorBootstrapStatusReceived progress tag summary) context cbs =
     when_set (tor_bootstrap_status_received_callback cbs) (\<lambda>f. c_string tag (\<lambda>tag0. c_string summary (\<lambda>summary0.
       done_with (notify H f (TorBootstrapStatusCall context progress tag0 (c_len tag) summary0 (c_len summary))))))"
| "handle_context_event H E TorBootstrapCompleted context cbs =
     when_set (tor_bootstrap_completed_callback cbs) (\<lambda>f. done_with (notify H f (TorBootstrapCompletedCall context)))"
| "handle_context_event H E (TorLogReceived line) context cbs =
     when_set (tor_log_received_callback cbs) (\<lambda>f. c_string line (\<lambda>line0.
       done_with (notify H f (TorLogCall context line0 (c_len line)))))"
| "handle_context_event H E (IdentityClientChallengeReceived handle challenge) context cbs =
     on_challenge_received H E context cbs handle challenge"
| "handle_context_event H E (IdentityClientHandshakeCompleted handle identity_id endpoint_id name auth) context cbs =
     on_identity_client_completed H context cbs handle identity_id endpoint_id name auth"
| "handle_context_event H E (IdentityClientHandshakeFailed handle reason) context cbs =
     on_handshake_failed H E (identity_client_handshake_failed_callback cbs) (IdentityClientFailedCall context (of_nat handle)) reason"
| "handle_context_event H E IdentityServerPublished context cbs =
     when_set (identity_server_published_callback cbs) (\<lambda>f. done_with (notify H f (IdentityServerPublishedCall context)))"
| "handle_context_event H E (IdentityServerHandshakeStarted handle) context cbs =
     when_set (identity_server_handshake_started_callback cbs) (\<lambda>f.
       done_with (notify H f (IdentityServerStartedCall context (of_nat handle))))"
| "handle_context_event H E (IdentityServerEndpointRequestReceived handle client name) context cbs =
     on_endpoint_request H E context cbs handle client name"
| "handle_context_event H E (IdentityServerChallengeResponseReceived handle response) context cbs =
     on_challenge_response H E context cbs handle response"
| "handle_context_event H E (IdentityServerHandshakeCompleted handle key name client auth) context cbs =
     on_identity_server_completed H context cbs handle key name client auth"
| "handle_context_event H E (IdentityServerHandshakeRejected handle a b c d e) context cbs =
     when_set (identity_server_handshake_rejected_callback cbs) (\<lambda>f.
       done_with (notify H f (IdentityServerRejectedCall context (of_nat handle) a b c d e)))"
| "handle_context_event H E (IdentityServerHandshakeFailed handle reason) context cbs =
     on_handshake_failed H E (identity_server_handshake_failed_callback cbs) (IdentityServerFailedCall context (of_nat handle)) reason"
| "handle_context_event H E (EndpointClientHandshakeCompleted handle endpoint_id name st) context cbs =
     on_endpoint_client_completed H E context cbs handle endpoint_id name st"
| "handle_context_event H E (EndpointClientHandshakeFailed handle reason) context cbs =
     on_handshake_failed H E (endpoint_client_handshake_failed_callback cbs) (EndpointClientFailedCall context (of_nat handle)) reason"
| "handle_context_event H E (EndpointServerPublished endpoint_id name) context cbs =
     on_endpoint_server_published H context cbs endpoint_id name"
| "handle_context_event H E (EndpointServerHandshakeStarted handle) context cbs =
     when_set (endpoint_server_handshake_started_callback cbs) (\<lambda>f.
       done_with (notify H f (EndpointServerStartedCall context (of_nat handle))))"
| "handle_context_event H E (EndpointServerChannelRequestReceived handle client channel) context cbs =
     on_channel_request H E context cbs handle client channel"
| "handle_context_event H E (EndpointServerHandshakeCompleted handle endpoint_id client channel st) context cbs =
     on_endpoint_server_completed H E context cbs handle endpoint_id client channel st"
| "handle_context_event H E (EndpointServerHandshakeRejected handle a b c) context cbs =
     when_set (endpoint_server_handshake_rejected_callback cbs) (\<lambda>f.
       done_with (notify H f (EndpointServerRejectedCall context (of_nat handle) a b c)))"
| "handle_context_event H E (EndpointServerHandshakeFailed handle reason) context cbs =
     on_handshake_failed H E (endpoint_server_handshake_failed_callback cbs) (EndpointServerFailedCall context (of_nat handle)) reason"

section \<open>Polling\<close>

text \<open>The events of the context after those a failed poll has left, and a copy of the callbacks.\<close>

definition take_events :: "('tp, 'd) c_env \<Rightarrow> usize \<Rightarrow> ('tp, 'd, 'd context_event list \<times> event_callbacks) c_try" where
  "take_events E context = with_guard CONTEXT_TUPLE_TAG (\<lambda>w.
     case registry_get_mut (sl_get context_tuple_slot w) context of
       None \<Rightarrow> bail (InvalidHandle ''context'') w
     | Some ((c, callbacks, events), write) \<Rightarrow>
         (case context_update (e_bson E) (e_crypto E) (e_tor E) (e_now E) (e_random E) (e_generated E) c of
            (Ret (Ok new_events), c) \<Rightarrow>
              (Ret (Ok (case events of Some es \<Rightarrow> es @ new_events | None \<Rightarrow> new_events, callbacks)),
               sl_put context_tuple_slot (write (c, callbacks, None)) w)
          | (Ret (Err e), c) \<Rightarrow> (Ret (Err (ContextFailure e)), sl_put context_tuple_slot (write (c, callbacks, events)) w)
          | (Panic, c) \<Rightarrow> (Panic, sl_put context_tuple_slot (write (c, callbacks, events)) w)
          | (OutOfFuel, c) \<Rightarrow> (OutOfFuel, sl_put context_tuple_slot (write (c, callbacks, events)) w)))"

definition save_events :: "usize \<Rightarrow> 'd context_event list \<Rightarrow> ('tp, 'd, unit) c_action" where
  "save_events context events =
     (if events = [] then ret ()
      else with_guard CONTEXT_TUPLE_TAG (\<lambda>w. case registry_get_mut (sl_get context_tuple_slot w) context of
          Some ((c, callbacks, _), write) \<Rightarrow> (Ret (), sl_put context_tuple_slot (write (c, callbacks, Some events)) w)
        | None \<Rightarrow> (Ret (), w)))"

fun drain_events ::
  "('tp, 'd) c_host \<Rightarrow> ('tp, 'd) c_env \<Rightarrow> usize \<Rightarrow> event_callbacks \<Rightarrow> 'd context_event list \<Rightarrow> ('tp, 'd, unit) c_try" where
  "drain_events H E context callbacks [] = ret (Ok ())"
| "drain_events H E context callbacks (event # events) =
     andthen (handle_context_event H E event context callbacks) (\<lambda>r. case r of
       Ok _ \<Rightarrow> drain_events H E context callbacks events
     | Err e \<Rightarrow> andthen (save_events context events) (\<lambda>_. bail e))"

definition gosling_context_poll_events :: "('tp, 'd) c_host \<Rightarrow> ('tp, 'd) c_env \<Rightarrow> usize \<Rightarrow> usize \<Rightarrow> ('tp, 'd, unit) c_action" where
  "gosling_context_poll_events H E context error = translate_failures (e_debug E) () error (
     try_then (take_events E context) (\<lambda>(events, callbacks). drain_events H E context callbacks events))"

section \<open>Callbacks\<close>

definition callback_setter :: "('tp, 'd) c_env \<Rightarrow> (event_callbacks \<Rightarrow> event_callbacks) \<Rightarrow> usize \<Rightarrow> usize \<Rightarrow> ('tp, 'd, unit) c_action" where
  "callback_setter E change context error = translate_failures (e_debug E) () error (
     borrowed_update context_tuple_slot ''context'' context (\<lambda>(c, callbacks, events). ret (Ok (c, change callbacks, events))))"

definition gosling_context_set_tor_bootstrap_status_received_callback :: "('tp, 'd) c_env \<Rightarrow> usize \<Rightarrow> c_callback \<Rightarrow> usize \<Rightarrow> ('tp, 'd, unit) c_action" where
  "gosling_context_set_tor_bootstrap_status_received_callback E context callback error =
     callback_setter E (tor_bootstrap_status_received_callback_update (\<lambda>_. callback)) context error"

definition gosling_context_set_tor_bootstrap_completed_callback :: "('tp, 'd) c_env \<Rightarrow> usize \<Rightarrow> c_callback \<Rightarrow> usize \<Rightarrow> ('tp, 'd, unit) c_action" where
  "gosling_context_set_tor_bootstrap_completed_callback E context callback error =
     callback_setter E (tor_bootstrap_completed_callback_update (\<lambda>_. callback)) context error"

definition gosling_context_set_tor_log_received_callback :: "('tp, 'd) c_env \<Rightarrow> usize \<Rightarrow> c_callback \<Rightarrow> usize \<Rightarrow> ('tp, 'd, unit) c_action" where
  "gosling_context_set_tor_log_received_callback E context callback error =
     callback_setter E (tor_log_received_callback_update (\<lambda>_. callback)) context error"

definition gosling_context_set_identity_client_challenge_response_size_callback :: "('tp, 'd) c_env \<Rightarrow> usize \<Rightarrow> c_callback \<Rightarrow> usize \<Rightarrow> ('tp, 'd, unit) c_action" where
  "gosling_context_set_identity_client_challenge_response_size_callback E context callback error =
     callback_setter E (identity_client_challenge_response_size_callback_update (\<lambda>_. callback)) context error"

definition gosling_context_set_identity_client_build_challenge_response_callback :: "('tp, 'd) c_env \<Rightarrow> usize \<Rightarrow> c_callback \<Rightarrow> usize \<Rightarrow> ('tp, 'd, unit) c_action" where
  "gosling_context_set_identity_client_build_challenge_response_callback E context callback error =
     callback_setter E (identity_client_build_challenge_response_callback_update (\<lambda>_. callback)) context error"

definition gosling_context_set_identity_client_handshake_completed_callback :: "('tp, 'd) c_env \<Rightarrow> usize \<Rightarrow> c_callback \<Rightarrow> usize \<Rightarrow> ('tp, 'd, unit) c_action" where
  "gosling_context_set_identity_client_handshake_completed_callback E context callback error =
     callback_setter E (identity_client_handshake_completed_callback_update (\<lambda>_. callback)) context error"

definition gosling_context_set_identity_client_handshake_failed_callback :: "('tp, 'd) c_env \<Rightarrow> usize \<Rightarrow> c_callback \<Rightarrow> usize \<Rightarrow> ('tp, 'd, unit) c_action" where
  "gosling_context_set_identity_client_handshake_failed_callback E context callback error =
     callback_setter E (identity_client_handshake_failed_callback_update (\<lambda>_. callback)) context error"

definition gosling_context_set_identity_server_published_callback :: "('tp, 'd) c_env \<Rightarrow> usize \<Rightarrow> c_callback \<Rightarrow> usize \<Rightarrow> ('tp, 'd, unit) c_action" where
  "gosling_context_set_identity_server_published_callback E context callback error =
     callback_setter E (identity_server_published_callback_update (\<lambda>_. callback)) context error"

definition gosling_context_set_identity_server_handshake_started_callback :: "('tp, 'd) c_env \<Rightarrow> usize \<Rightarrow> c_callback \<Rightarrow> usize \<Rightarrow> ('tp, 'd, unit) c_action" where
  "gosling_context_set_identity_server_handshake_started_callback E context callback error =
     callback_setter E (identity_server_handshake_started_callback_update (\<lambda>_. callback)) context error"

definition gosling_context_set_identity_server_client_allowed_callback :: "('tp, 'd) c_env \<Rightarrow> usize \<Rightarrow> c_callback \<Rightarrow> usize \<Rightarrow> ('tp, 'd, unit) c_action" where
  "gosling_context_set_identity_server_client_allowed_callback E context callback error =
     callback_setter E (identity_server_client_allowed_callback_update (\<lambda>_. callback)) context error"

definition gosling_context_set_identity_server_endpoint_supported_callback :: "('tp, 'd) c_env \<Rightarrow> usize \<Rightarrow> c_callback \<Rightarrow> usize \<Rightarrow> ('tp, 'd, unit) c_action" where
  "gosling_context_set_identity_server_endpoint_supported_callback E context callback error =
     callback_setter E (identity_server_endpoint_supported_callback_update (\<lambda>_. callback)) context error"

definition gosling_context_set_identity_server_challenge_size_callback :: "('tp, 'd) c_env \<Rightarrow> usize \<Rightarrow> c_callback \<Rightarrow> usize \<Rightarrow> ('tp, 'd, unit) c_action" where
  "gosling_context_set_identity_server_challenge_size_callback E context callback error =
     callback_setter E (identity_server_challenge_size_callback_update (\<lambda>_. callback)) context error"

definition gosling_context_set_identity_server_build_challenge_callback :: "('tp, 'd) c_env \<Rightarrow> usize \<Rightarrow> c_callback \<Rightarrow> usize \<Rightarrow> ('tp, 'd, unit) c_action" where
  "gosling_context_set_identity_server_build_challenge_callback E context callback error =
     callback_setter E (identity_server_build_challenge_callback_update (\<lambda>_. callback)) context error"

definition gosling_context_set_identity_server_verify_challenge_response_callback :: "('tp, 'd) c_env \<Rightarrow> usize \<Rightarrow> c_callback \<Rightarrow> usize \<Rightarrow> ('tp, 'd, unit) c_action" where
  "gosling_context_set_identity_server_verify_challenge_response_callback E context callback error =
     callback_setter E (identity_server_verify_challenge_response_callback_update (\<lambda>_. callback)) context error"

definition gosling_context_set_identity_server_handshake_completed_callback :: "('tp, 'd) c_env \<Rightarrow> usize \<Rightarrow> c_callback \<Rightarrow> usize \<Rightarrow> ('tp, 'd, unit) c_action" where
  "gosling_context_set_identity_server_handshake_completed_callback E context callback error =
     callback_setter E (identity_server_handshake_completed_callback_update (\<lambda>_. callback)) context error"

definition gosling_context_set_identity_server_handshake_rejected_callback :: "('tp, 'd) c_env \<Rightarrow> usize \<Rightarrow> c_callback \<Rightarrow> usize \<Rightarrow> ('tp, 'd, unit) c_action" where
  "gosling_context_set_identity_server_handshake_rejected_callback E context callback error =
     callback_setter E (identity_server_handshake_rejected_callback_update (\<lambda>_. callback)) context error"

definition gosling_context_set_identity_server_handshake_failed_callback :: "('tp, 'd) c_env \<Rightarrow> usize \<Rightarrow> c_callback \<Rightarrow> usize \<Rightarrow> ('tp, 'd, unit) c_action" where
  "gosling_context_set_identity_server_handshake_failed_callback E context callback error =
     callback_setter E (identity_server_handshake_failed_callback_update (\<lambda>_. callback)) context error"

definition gosling_context_set_endpoint_client_handshake_completed_callback :: "('tp, 'd) c_env \<Rightarrow> usize \<Rightarrow> c_callback \<Rightarrow> usize \<Rightarrow> ('tp, 'd, unit) c_action" where
  "gosling_context_set_endpoint_client_handshake_completed_callback E context callback error =
     callback_setter E (endpoint_client_handshake_completed_callback_update (\<lambda>_. callback)) context error"

definition gosling_context_set_endpoint_client_handshake_failed_callback :: "('tp, 'd) c_env \<Rightarrow> usize \<Rightarrow> c_callback \<Rightarrow> usize \<Rightarrow> ('tp, 'd, unit) c_action" where
  "gosling_context_set_endpoint_client_handshake_failed_callback E context callback error =
     callback_setter E (endpoint_client_handshake_failed_callback_update (\<lambda>_. callback)) context error"

definition gosling_context_set_endpoint_server_published_callback :: "('tp, 'd) c_env \<Rightarrow> usize \<Rightarrow> c_callback \<Rightarrow> usize \<Rightarrow> ('tp, 'd, unit) c_action" where
  "gosling_context_set_endpoint_server_published_callback E context callback error =
     callback_setter E (endpoint_server_published_callback_update (\<lambda>_. callback)) context error"

definition gosling_context_set_endpoint_server_handshake_started_callback :: "('tp, 'd) c_env \<Rightarrow> usize \<Rightarrow> c_callback \<Rightarrow> usize \<Rightarrow> ('tp, 'd, unit) c_action" where
  "gosling_context_set_endpoint_server_handshake_started_callback E context callback error =
     callback_setter E (endpoint_server_handshake_started_callback_update (\<lambda>_. callback)) context error"

definition gosling_context_set_endpoint_server_channel_supported_callback :: "('tp, 'd) c_env \<Rightarrow> usize \<Rightarrow> c_callback \<Rightarrow> usize \<Rightarrow> ('tp, 'd, unit) c_action" where
  "gosling_context_set_endpoint_server_channel_supported_callback E context callback error =
     callback_setter E (endpoint_server_channel_supported_callback_update (\<lambda>_. callback)) context error"

definition gosling_context_set_endpoint_server_handshake_completed_callback :: "('tp, 'd) c_env \<Rightarrow> usize \<Rightarrow> c_callback \<Rightarrow> usize \<Rightarrow> ('tp, 'd, unit) c_action" where
  "gosling_context_set_endpoint_server_handshake_completed_callback E context callback error =
     callback_setter E (endpoint_server_handshake_completed_callback_update (\<lambda>_. callback)) context error"

definition gosling_context_set_endpoint_server_handshake_rejected_callback :: "('tp, 'd) c_env \<Rightarrow> usize \<Rightarrow> c_callback \<Rightarrow> usize \<Rightarrow> ('tp, 'd, unit) c_action" where
  "gosling_context_set_endpoint_server_handshake_rejected_callback E context callback error =
     callback_setter E (endpoint_server_handshake_rejected_callback_update (\<lambda>_. callback)) context error"

definition gosling_context_set_endpoint_server_handshake_failed_callback :: "('tp, 'd) c_env \<Rightarrow> usize \<Rightarrow> c_callback \<Rightarrow> usize \<Rightarrow> ('tp, 'd, unit) c_action" where
  "gosling_context_set_endpoint_server_handshake_failed_callback E context callback error =
     callback_setter E (endpoint_server_handshake_failed_callback_update (\<lambda>_. callback)) context error"

lemmas callback_setters =
  gosling_context_set_tor_bootstrap_status_received_callback_def
  gosling_context_set_tor_bootstrap_completed_callback_def
  gosling_context_set_tor_log_received_callback_def
  gosling_context_set_identity_client_challenge_response_size_callback_def
  gosling_context_set_identity_client_build_challenge_response_callback_def
  gosling_context_set_identity_client_handshake_completed_callback_def
  gosling_context_set_identity_client_handshake_failed_callback_def
  gosling_context_set_identity_server_published_callback_def
  gosling_context_set_identity_server_handshake_started_callback_def
  gosling_context_set_identity_server_client_allowed_callback_def
  gosling_context_set_identity_server_endpoint_supported_callback_def
  gosling_context_set_identity_server_challenge_size_callback_def
  gosling_context_set_identity_server_build_challenge_callback_def
  gosling_context_set_identity_server_verify_challenge_response_callback_def
  gosling_context_set_identity_server_handshake_completed_callback_def
  gosling_context_set_identity_server_handshake_rejected_callback_def
  gosling_context_set_identity_server_handshake_failed_callback_def
  gosling_context_set_endpoint_client_handshake_completed_callback_def
  gosling_context_set_endpoint_client_handshake_failed_callback_def
  gosling_context_set_endpoint_server_published_callback_def
  gosling_context_set_endpoint_server_handshake_started_callback_def
  gosling_context_set_endpoint_server_channel_supported_callback_def
  gosling_context_set_endpoint_server_handshake_completed_callback_def
  gosling_context_set_endpoint_server_handshake_rejected_callback_def
  gosling_context_set_endpoint_server_handshake_failed_callback_def

end
