(* ===== verification/Ffi_Safety.thy ===== *)
theory Ffi_Safety
  imports Ffi_Context
begin

unbundle bit_operations_syntax

text \<open>
  What every function of the C interface keeps: the invariants of the thirteen registries and the
  discipline of their mutexes. The locale \<open>registry_slot\<close> states what a registry of the library has to be, with one
  interpretation per type of object; inside it the rule of each generic operation is proved once. The
  functions are then composed of rules.
\<close>

section \<open>The invariant\<close>

definition world_inv :: "('tp, 'd) c_world \<Rightarrow> bool" where
  "world_inv w \<longleftrightarrow>
     registry_inv ERROR_TAG 4 (w_error w) \<and>
     registry_inv ED25519_PRIVATE_KEY_TAG 4 (w_ed25519_private_key w) \<and>
     registry_inv X25519_PRIVATE_KEY_TAG 4 (w_x25519_private_key w) \<and>
     registry_inv X25519_PUBLIC_KEY_TAG 4 (w_x25519_public_key w) \<and>
     registry_inv V3_ONION_SERVICE_ID_TAG 4 (w_v3_onion_service_id w) \<and>
     registry_inv IP_ADDR_TAG 4 (w_ip_addr w) \<and>
     registry_inv TARGET_ADDR_TAG 4 (w_target_addr w) \<and>
     registry_inv PROXY_CONFIG_TAG 4 (w_proxy_config w) \<and>
     registry_inv PLUGGABLE_TRANSPORT_CONFIG_TAG 4 (w_pluggable_transport_config w) \<and>
     registry_inv BRIDGE_LINE_TAG 4 (w_bridge_line w) \<and>
     registry_inv TOR_PROVIDER_CONFIG_TAG 4 (w_tor_provider_config w) \<and>
     registry_inv TOR_PROVIDER_TAG 4 (w_tor_provider w) \<and>
     registry_inv CONTEXT_TUPLE_TAG 4 (w_context_tuple w)"

text \<open>The locks held, with the invariant: what holds between two steps of a function.\<close>

definition at_locks :: "usize set \<Rightarrow> ('tp, 'd) c_world \<Rightarrow> bool" where
  "at_locks L w \<longleftrightarrow> world_inv w \<and> w_held w = L \<and> \<not> w_blocked w"

text \<open>
  Mutexes that are poisoned stay so: a function that starts with the mutexes \<open>P\<close> poisoned leaves them poisoned.
\<close>

definition standing :: "usize set \<Rightarrow> usize set \<Rightarrow> ('tp, 'd) c_world \<Rightarrow> bool" where
  "standing P L w \<longleftrightarrow> world_inv w \<and> w_held w = L \<and> \<not> w_blocked w \<and> P \<subseteq> w_poisoned w"

definition sound :: "usize set \<Rightarrow> usize set \<Rightarrow> ('tp, 'd, 'a) c_action \<Rightarrow> bool" where
  "sound P L m \<longleftrightarrow> (\<forall>w. standing P L w \<longrightarrow>
     (case m w of (r, t) \<Rightarrow> world_inv t \<and> \<not> w_blocked t \<and> P \<subseteq> w_poisoned t \<and> (r \<noteq> OutOfFuel \<longrightarrow> w_held t = L)))"

named_theorems sound_intros

lemma standing_none [simp]: "standing {} L w \<longleftrightarrow> at_locks L w"
  by (simp add: standing_def at_locks_def)

lemma soundI:
  "(\<And>w r t. standing P L w \<Longrightarrow> m w = (r, t) \<Longrightarrow> world_inv t \<and> \<not> w_blocked t \<and> P \<subseteq> w_poisoned t \<and> (r \<noteq> OutOfFuel \<longrightarrow> w_held t = L)) \<Longrightarrow> sound P L m"
  unfolding sound_def by blast

lemma sound_run: "sound P L m \<Longrightarrow> standing P L w \<Longrightarrow> m w = (r, t) \<Longrightarrow>
    world_inv t \<and> \<not> w_blocked t \<and> P \<subseteq> w_poisoned t \<and> (r \<noteq> OutOfFuel \<longrightarrow> w_held t = L)"
  unfolding sound_def by fastforce

lemma soundD: "sound P L m \<Longrightarrow> standing P L w \<Longrightarrow> m w = (r, t) \<Longrightarrow> r \<noteq> OutOfFuel \<Longrightarrow> standing P L t"
  using sound_run [of P L m w r t] by (simp add: standing_def)

lemma soundD': "sound P L m \<Longrightarrow> standing P L w \<Longrightarrow> m w = (r, t) \<Longrightarrow> world_inv t \<and> \<not> w_blocked t \<and> P \<subseteq> w_poisoned t"
  using sound_run [of P L m w r t] by simp

lemma sound_ret [sound_intros]: "sound P L (ret a)"
  by (simp add: sound_def ret_def standing_def)

lemma sound_panic [sound_intros]: "sound P L panic"
  by (simp add: sound_def panic_def standing_def)

lemma sound_bail [sound_intros]: "sound P L (bail e)"
  by (simp add: bail_def sound_ret)

lemma sound_andthen [sound_intros]:
  assumes "sound P L m" "\<And>a. sound P L (f a)"
  shows "sound P L (andthen m f)"
proof (rule soundI)
  fix w r t
  assume w: "standing P L w" and run: "andthen m f w = (r, t)"
  obtain o1 u where u: "m w = (o1, u)" by fastforce
  show "world_inv t \<and> \<not> w_blocked t \<and> P \<subseteq> w_poisoned t \<and> (r \<noteq> OutOfFuel \<longrightarrow> w_held t = L)"
  proof (cases o1)
    case (Ret a)
    with soundD [OF assms(1) w u] assms(2) [of a] run u show ?thesis by (force simp: andthen_def sound_def)
  next
    case Panic
    with soundD [OF assms(1) w u] run u show ?thesis by (auto simp: andthen_def standing_def)
  next
    case OutOfFuel
    with soundD' [OF assms(1) w u] run u show ?thesis by (auto simp: andthen_def)
  qed
qed

lemma sound_try_then [sound_intros]:
  "sound P L m \<Longrightarrow> (\<And>a. sound P L (f a)) \<Longrightarrow> sound P L (try_then m f)"
  unfolding try_then_def by (intro sound_andthen) (auto split: result.splits intro: sound_ret)

lemma sound_pure: "(\<And>w. \<exists>r. m w = (r, w)) \<Longrightarrow> sound P L m"
  by (rule soundI) (metis standing_def prod.inject)

lemma world_inv_frame [simp]:
  "world_inv (w\<lparr> w_mem := m \<rparr>) \<longleftrightarrow> world_inv w" "world_inv (w\<lparr> w_held := h \<rparr>) \<longleftrightarrow> world_inv w"
  "world_inv (w\<lparr> w_poisoned := p \<rparr>) \<longleftrightarrow> world_inv w" "world_inv (w\<lparr> w_inited := i \<rparr>) \<longleftrightarrow> world_inv w"
  by (simp_all add: world_inv_def)

lemma sound_with_guard [sound_intros]:
  assumes "tag \<notin> L" "sound P (insert tag L) body"
  shows "sound P L (with_guard tag body)"
proof (rule soundI)
  fix w r t
  assume w: "standing P L w" and run: "with_guard tag body w = (r, t)"
  let ?v = "w\<lparr> w_held := insert tag (w_held w) \<rparr>"
  obtain o1 u where u: "body ?v = (o1, u)" by fastforce
  have v: "standing P (insert tag L) ?v" using w by (simp add: standing_def)
  show "world_inv t \<and> \<not> w_blocked t \<and> P \<subseteq> w_poisoned t \<and> (r \<noteq> OutOfFuel \<longrightarrow> w_held t = L)"
  proof (cases "tag \<in> w_poisoned w")
    case True
    with run w assms(1) show ?thesis by (auto simp: with_guard_def standing_def)
  next
    case False
    with run w assms(1) u have "(r, t) = (case (o1, u) of (Ret a, w) \<Rightarrow> (Ret a, w\<lparr> w_held := w_held w - {tag} \<rparr>)
        | (Panic, w) \<Rightarrow> (Panic, w\<lparr> w_held := w_held w - {tag}, w_poisoned := insert tag (w_poisoned w) \<rparr>)
        | (OutOfFuel, w) \<Rightarrow> (OutOfFuel, w))"
      by (simp add: with_guard_def standing_def)
    with soundD [OF assms(2) v u] soundD' [OF assms(2) v u] assms(1) show ?thesis
      by (auto simp: standing_def split: outcome.splits)
  qed
qed

lemma sound_put_bytes [sound_intros]: "sound P L (put_bytes p bs)"
  by (rule soundI) (auto simp: put_bytes_def standing_def)

lemma sound_put_word [sound_intros]: "sound P L (put_word p v)"
  unfolding put_word_def by (rule sound_put_bytes)

section \<open>One registry\<close>

locale registry_slot =
  fixes S :: "(('tp, 'd) c_world, 't) slot"
  assumes tag_ok: "tag_fits (sl_tag S) 4"
    and get_put: "sl_get S (sl_put S r w) = r"
    and inv_get: "world_inv w \<Longrightarrow> registry_inv (sl_tag S) 4 (sl_get S w)"
    and inv_put: "world_inv w \<Longrightarrow> registry_inv (sl_tag S) 4 r \<Longrightarrow> world_inv (sl_put S r w)"
    and put_frame: "w_held (sl_put S r w) = w_held w" "w_blocked (sl_put S r w) = w_blocked w"
      "w_poisoned (sl_put S r w) = w_poisoned w" "w_mem (sl_put S r w) = w_mem w"
    and get_frame: "sl_get S (w\<lparr> w_held := h \<rparr>) = sl_get S w" "sl_get S (w\<lparr> w_poisoned := p \<rparr>) = sl_get S w"
      "sl_get S (w\<lparr> w_mem := m \<rparr>) = sl_get S w"
    and put_held: "sl_put S r (w\<lparr> w_held := h \<rparr>) = (sl_put S r w)\<lparr> w_held := h \<rparr>"
begin

lemma insert_inv:
  assumes "registry_inv (sl_tag S) 4 g" "registry_insert (sl_tag S) 4 v g = (r, g')"
  shows "registry_inv (sl_tag S) 4 g'" "r \<noteq> OutOfFuel"
proof -
  have "registry_inv (sl_tag S) 4 g' \<and> r \<noteq> OutOfFuel"
  proof (cases "or_counter g < COUNTER_MAX 4")
    case True
    then show ?thesis using assms(2) by (auto elim: registry_insert_spec [OF tag_ok assms(1), of v])
  next
    case False
    with assms registry_insert_full [OF False, of "sl_tag S" v] show ?thesis by simp
  qed
  then show "registry_inv (sl_tag S) 4 g'" "r \<noteq> OutOfFuel" by auto
qed

lemma sound_put: "world_inv w \<Longrightarrow> \<not> w_blocked w \<Longrightarrow> registry_inv (sl_tag S) 4 g \<Longrightarrow>
    world_inv (sl_put S g w) \<and> \<not> w_blocked (sl_put S g w) \<and> w_held (sl_put S g w) = w_held w \<and> w_poisoned (sl_put S g w) = w_poisoned w"
  by (simp add: inv_put put_frame)

lemma sound_get [sound_intros]: "sound P L (guarded_get S key)"
  by (rule sound_pure) (simp add: guarded_get_def)

lemma sound_reg_get [sound_intros]: "sl_tag S \<notin> L \<Longrightarrow> sound P L (reg_get S key)"
  unfolding reg_get_def by (intro sound_intros)

lemma sound_reg_insert [sound_intros]:
  assumes "sl_tag S \<notin> L"
  shows "sound P L (reg_insert S v)"
  unfolding reg_insert_def
proof (intro sound_with_guard assms soundI)
  fix w r t
  assume w: "standing P (insert (sl_tag S) L) w"
    and run: "(case registry_insert (sl_tag S) 4 v (sl_get S w) of (r, g) \<Rightarrow> (r, sl_put S g w)) = (r, t)"
  obtain g where g: "registry_insert (sl_tag S) 4 v (sl_get S w) = (r, g)" "t = sl_put S g w"
    using run by (auto split: prod.splits)
  with w insert_inv [OF inv_get, of w v r g] show "world_inv t \<and> \<not> w_blocked t \<and> P \<subseteq> w_poisoned t \<and> (r \<noteq> OutOfFuel \<longrightarrow> w_held t = insert (sl_tag S) L)"
    using sound_put [of w g] by (auto simp: standing_def)
qed

lemma sound_reg_remove [sound_intros]:
  assumes "sl_tag S \<notin> L"
  shows "sound P L (reg_remove S key)"
  unfolding reg_remove_def
proof (intro sound_with_guard assms soundI)
  fix w r t
  assume w: "standing P (insert (sl_tag S) L) w"
    and run: "(case registry_remove key (sl_get S w) of (x, g) \<Rightarrow> (Ret x, sl_put S g w)) = (r, t)"
  obtain x g where g: "registry_remove key (sl_get S w) = (x, g)" "t = sl_put S g w"
    using run by (auto split: prod.splits)
  with w registry_remove_spec(3) [OF inv_get, of w key x g] show "world_inv t \<and> \<not> w_blocked t \<and> P \<subseteq> w_poisoned t \<and> (r \<noteq> OutOfFuel \<longrightarrow> w_held t = insert (sl_tag S) L)"
    using sound_put [of w g] by (auto simp: standing_def)
qed

lemma sound_reg_clear [sound_intros]:
  assumes "sl_tag S \<notin> L"
  shows "sound P L (reg_clear S)"
  unfolding reg_clear_def
proof (intro sound_with_guard assms soundI)
  fix w r t
  assume w: "standing P (insert (sl_tag S) L) w"
    and run: "(case registry_new (sl_tag S) 4 of Ret g \<Rightarrow> (Ret (), sl_put S g w) | Panic \<Rightarrow> (Panic, w) | OutOfFuel \<Rightarrow> (OutOfFuel, w)) = (r, t)"
  show "world_inv t \<and> \<not> w_blocked t \<and> P \<subseteq> w_poisoned t \<and> (r \<noteq> OutOfFuel \<longrightarrow> w_held t = insert (sl_tag S) L)"
  proof (cases "registry_new (sl_tag S) 4 :: 't object_registry outcome")
    case (Ret g)
    with run w sound_put [of w g] registry_inv_new [OF Ret] show ?thesis by (auto simp: standing_def)
  qed (use run w in \<open>auto simp: standing_def\<close>)
qed

lemma sound_registry_free [sound_intros]: "sl_tag S \<notin> L \<Longrightarrow> sound P L (registry_free S obj)"
  unfolding registry_free_def by (auto intro!: sound_intros)

lemma sound_cloned [sound_intros]:
  "sl_tag S \<notin> L \<Longrightarrow> (\<And>v. sound P L (body v)) \<Longrightarrow> sound P L (cloned S name key body)"
  unfolding cloned_def by (auto intro!: sound_intros split: option.splits)

lemma sound_borrowed [sound_intros]:
  "sl_tag S \<notin> L \<Longrightarrow> (\<And>v. sound P (insert (sl_tag S) L) (body v)) \<Longrightarrow> sound P L (borrowed S name key body)"
  unfolding borrowed_def by (auto intro!: sound_intros split: option.splits)

lemma sound_return_handle [sound_intros]: "sl_tag S \<notin> L \<Longrightarrow> sound P L (return_handle S out v)"
  unfolding return_handle_def by (intro sound_intros)

lemma sound_write:
  assumes "registry_get_mut g key = Some (v, write)" "registry_inv (sl_tag S) 4 g" "world_inv w" "\<not> w_blocked w"
  shows "world_inv (sl_put S (write x) w) \<and> \<not> w_blocked (sl_put S (write x) w) \<and> w_held (sl_put S (write x) w) = w_held w \<and>
    w_poisoned (sl_put S (write x) w) = w_poisoned w"
  by (rule sound_put [OF assms(3,4) registry_write_spec(3) [OF assms(2,1)]])

lemma sound_borrowed_update [sound_intros]:
  assumes "sl_tag S \<notin> L" "\<And>v. sound P (insert (sl_tag S) L) (body v)"
  shows "sound P L (borrowed_update S name key body)"
  unfolding borrowed_update_def
proof (intro sound_with_guard assms(1))
  have "sound P (insert (sl_tag S) L) (\<lambda>w. try_then (body v) (\<lambda>v w. (Ret (Ok ()), sl_put S (wr v) w)) w)"
    if "registry_get_mut g key = Some (v, wr)" "registry_inv (sl_tag S) 4 g" for g v wr
    by (intro sound_try_then assms(2) soundI) (use sound_write [OF that] in \<open>auto simp: standing_def\<close>)
  note body = this
  show "sound P (insert (sl_tag S) L) (\<lambda>w. case registry_get_mut (sl_get S w) key of
      Some (v, write) \<Rightarrow> try_then (body v) (\<lambda>v w. (Ret (Ok ()), sl_put S (write v) w)) w
    | None \<Rightarrow> bail (InvalidHandle name) w)" (is "sound P ?L ?m")
  proof (rule soundI)
    fix w r t
    assume w: "standing P ?L w" and run: "?m w = (r, t)"
    show "world_inv t \<and> \<not> w_blocked t \<and> P \<subseteq> w_poisoned t \<and> (r \<noteq> OutOfFuel \<longrightarrow> w_held t = ?L)"
    proof (cases "registry_get_mut (sl_get S w) key")
      case None
      with run w show ?thesis by (auto simp: bail_def ret_def standing_def)
    next
      case (Some p)
      then obtain v wr where p: "registry_get_mut (sl_get S w) key = Some (v, wr)" by (cases p) auto
      with run have step: "try_then (body v) (\<lambda>v w. (Ret (Ok ()), sl_put S (wr v) w)) w = (r, t)" by simp
      have "sound P ?L (\<lambda>w. try_then (body v) (\<lambda>v w. (Ret (Ok ()), sl_put S (wr v) w)) w)"
        using body [OF p] inv_get [of w] w by (simp add: standing_def)
      from sound_run [OF this w step] show ?thesis .
    qed
  qed
qed

end

lemma slot_tags [simp]:
  "sl_tag error_slot = ERROR_TAG" "sl_tag ed25519_private_key_slot = ED25519_PRIVATE_KEY_TAG"
  "sl_tag x25519_private_key_slot = X25519_PRIVATE_KEY_TAG" "sl_tag x25519_public_key_slot = X25519_PUBLIC_KEY_TAG"
  "sl_tag v3_onion_service_id_slot = V3_ONION_SERVICE_ID_TAG" "sl_tag ip_addr_slot = IP_ADDR_TAG"
  "sl_tag target_addr_slot = TARGET_ADDR_TAG" "sl_tag proxy_config_slot = PROXY_CONFIG_TAG"
  "sl_tag pluggable_transport_config_slot = PLUGGABLE_TRANSPORT_CONFIG_TAG" "sl_tag bridge_line_slot = BRIDGE_LINE_TAG"
  "sl_tag tor_provider_config_slot = TOR_PROVIDER_CONFIG_TAG" "sl_tag tor_provider_slot = TOR_PROVIDER_TAG"
  "sl_tag context_tuple_slot = CONTEXT_TUPLE_TAG"
  by (simp_all add: slot_defs)

lemma tags_fit:
  "tag_fits ERROR_TAG 4" "tag_fits ED25519_PRIVATE_KEY_TAG 4" "tag_fits X25519_PRIVATE_KEY_TAG 4" "tag_fits X25519_PUBLIC_KEY_TAG 4"
  "tag_fits V3_ONION_SERVICE_ID_TAG 4" "tag_fits IP_ADDR_TAG 4" "tag_fits TARGET_ADDR_TAG 4" "tag_fits PROXY_CONFIG_TAG 4"
  "tag_fits PLUGGABLE_TRANSPORT_CONFIG_TAG 4" "tag_fits BRIDGE_LINE_TAG 4" "tag_fits TOR_PROVIDER_CONFIG_TAG 4"
  "tag_fits TOR_PROVIDER_TAG 4" "tag_fits CONTEXT_TUPLE_TAG 4"
  by (simp_all add: tag_fits_def tag_defs)

interpretation errors: registry_slot error_slot
  by unfold_locales (simp_all add: tags_fit error_slot_def world_inv_def)

interpretation ed25519_private_keys: registry_slot ed25519_private_key_slot
  by unfold_locales (simp_all add: tags_fit ed25519_private_key_slot_def world_inv_def)

interpretation x25519_private_keys: registry_slot x25519_private_key_slot
  by unfold_locales (simp_all add: tags_fit x25519_private_key_slot_def world_inv_def)

interpretation x25519_public_keys: registry_slot x25519_public_key_slot
  by unfold_locales (simp_all add: tags_fit x25519_public_key_slot_def world_inv_def)

interpretation v3_onion_service_ids: registry_slot v3_onion_service_id_slot
  by unfold_locales (simp_all add: tags_fit v3_onion_service_id_slot_def world_inv_def)

interpretation ip_addrs: registry_slot ip_addr_slot
  by unfold_locales (simp_all add: tags_fit ip_addr_slot_def world_inv_def)

interpretation target_addrs: registry_slot target_addr_slot
  by unfold_locales (simp_all add: tags_fit target_addr_slot_def world_inv_def)

interpretation proxy_configs: registry_slot proxy_config_slot
  by unfold_locales (simp_all add: tags_fit proxy_config_slot_def world_inv_def)

interpretation pluggable_transport_configs: registry_slot pluggable_transport_config_slot
  by unfold_locales (simp_all add: tags_fit pluggable_transport_config_slot_def world_inv_def)

interpretation bridge_lines: registry_slot bridge_line_slot
  by unfold_locales (simp_all add: tags_fit bridge_line_slot_def world_inv_def)

interpretation tor_provider_configs: registry_slot tor_provider_config_slot
  by unfold_locales (simp_all add: tags_fit tor_provider_config_slot_def world_inv_def)

interpretation tor_providers: registry_slot tor_provider_slot
  by unfold_locales (simp_all add: tags_fit tor_provider_slot_def world_inv_def)

interpretation context_tuples: registry_slot context_tuple_slot
  by unfold_locales (simp_all add: tags_fit context_tuple_slot_def world_inv_def)

section \<open>Composition\<close>

lemma sound_cond [sound_intros]: "(b \<Longrightarrow> sound P L m) \<Longrightarrow> (\<not> b \<Longrightarrow> sound P L n) \<Longrightarrow> sound P L (if b then m else n)"
  by simp

lemma sound_state: "(\<And>v. sound P L (m v)) \<Longrightarrow> sound P L (\<lambda>w. m (f w) w)"
  by (simp add: sound_def)

lemma sound_ensure_not_null [sound_intros]: "sound P L m \<Longrightarrow> sound P L (ensure_not_null name p m)"
  unfolding ensure_not_null_def by (intro sound_intros)

lemma sound_ensure_not_zero [sound_intros]: "sound P L m \<Longrightarrow> sound P L (ensure_not_zero name v m)"
  unfolding ensure_not_zero_def by (intro sound_intros)

lemma sound_lift_result [sound_intros]: "(\<And>a. sound P L (m a)) \<Longrightarrow> sound P L (lift_result f r m)"
  unfolding lift_result_def by (cases r) (auto intro: sound_intros)

lemma sound_utf8_slice [sound_intros]:
  assumes "\<And>s. sound P L (m s)"
  shows "sound P L (utf8_slice p len m)"
proof -
  have "sound P L (\<lambda>w. (if utf8_valid (mem_load p (unat len) mem) then m (from_bytes (mem_load p (unat len) mem)) else bail Utf8Error) w)" for mem
    using assms by (auto intro: sound_intros)
  then have "sound P L (\<lambda>w. (if utf8_valid (mem_load p (unat len) (w_mem w)) then m (from_bytes (mem_load p (unat len) (w_mem w))) else bail Utf8Error) w)"
    by (rule sound_state)
  moreover have "utf8_slice p len m = (\<lambda>w. (if utf8_valid (mem_load p (unat len) (w_mem w)) then m (from_bytes (mem_load p (unat len) (w_mem w))) else bail Utf8Error) w)"
    by (rule ext) (simp add: utf8_slice_def Let_def)
  ultimately show ?thesis by simp
qed

lemma sound_optional_slice [sound_intros]: "(\<And>s. sound P L (m s)) \<Longrightarrow> sound P L (optional_slice p len m)"
  unfolding optional_slice_def by (intro sound_intros)

lemma sound_ascii_slice [sound_intros]: "(\<And>s. sound P L (m s)) \<Longrightarrow> sound P L (ascii_slice name p len m)"
  unfolding ascii_slice_def by (intro sound_intros)

lemma sound_fill_string [sound_intros]: "sound P L (fill_string out s len)"
  unfolding fill_string_def by (intro sound_intros)

lemma sound_done_with [sound_intros]: "sound P L m \<Longrightarrow> sound P L (done_with m)"
  unfolding done_with_def by (intro sound_intros)

lemma sound_handle_of [sound_intros]: "sound P L m \<Longrightarrow> sound P L (handle_of m)"
  unfolding handle_of_def by (intro sound_intros)

lemma sound_copied_key [sound_intros]: "(\<And>k. sound P L (m k)) \<Longrightarrow> sound P L (copied_key E key m)"
  by (cases "ed25519_private_clone (e_crypto E) key") (simp_all add: copied_key_def [abs_def] sound_pure)

lemma sound_c_string [sound_intros]: "(\<And>bs. sound P L (m bs)) \<Longrightarrow> sound P L (c_string s m)"
  unfolding c_string_def by (intro sound_intros)

lemma sound_required [sound_intros]: "(\<And>f. sound P L (m f)) \<Longrightarrow> sound P L (required message callback m)"
  unfolding required_def by (cases callback) (auto intro: sound_intros)

lemma sound_when_set [sound_intros]: "(\<And>f. sound P L (m f)) \<Longrightarrow> sound P L (when_set callback m)"
  unfolding when_set_def by (cases callback) (auto intro: sound_intros)

lemma sound_document_bytes [sound_intros]: "(\<And>bs. sound P L (m bs)) \<Longrightarrow> sound P L (document_bytes B d m)"
  unfolding document_bytes_def by (cases "to_writer B d") (auto intro: sound_intros)

lemma sound_host_document [sound_intros]:
  "sound P L ask_n \<Longrightarrow> (\<And>n. sound P L (build n)) \<Longrightarrow> (\<And>d. sound P L (m d)) \<Longrightarrow> sound P L (host_document E size_name build_name ask_n build m)"
  unfolding host_document_def by (intro sound_intros) (auto split: result.splits intro: sound_intros)

lemma sound_report_failure [sound_intros]: "ERROR_TAG \<notin> L \<Longrightarrow> sound P L (report_failure d out_error message)"
  unfolding report_failure_def by (intro sound_intros) auto

lemma sound_translate_failures [sound_intros]:
  assumes "ERROR_TAG \<notin> L" "sound P L m"
  shows "sound P L (translate_failures fmt d out_error m)"
proof (rule soundI)
  fix w r t
  assume w: "standing P L w" and run: "translate_failures fmt d out_error m w = (r, t)"
  obtain o1 u where u: "m w = (o1, u)" by fastforce
  have rep: "sound P L (report_failure d out_error s)" for s using assms(1) by (rule sound_report_failure)
  show "world_inv t \<and> \<not> w_blocked t \<and> P \<subseteq> w_poisoned t \<and> (r \<noteq> OutOfFuel \<longrightarrow> w_held t = L)"
  proof (cases "o1 = OutOfFuel")
    case True
    with run u soundD' [OF assms(2) w u] show ?thesis by (auto simp: translate_failures_def)
  next
    case False
    have at: "standing P L u" by (rule soundD [OF assms(2) w u False])
    have "?thesis" if "report_failure d out_error s u = (r, t)" for s
      by (rule sound_run [OF rep at that])
    with run u False at show ?thesis by (cases o1) (auto simp: translate_failures_def standing_def split: result.splits)
  qed
qed

section \<open>Contexts\<close>

lemma sound_run_context [sound_intros]: "sound P L (run_context context f)"
proof (rule soundI)
  fix w r t
  assume w: "standing P L w" and run: "run_context context f w = (r, t)"
  show "world_inv t \<and> \<not> w_blocked t \<and> P \<subseteq> w_poisoned t \<and> (r \<noteq> OutOfFuel \<longrightarrow> w_held t = L)"
  proof (cases "registry_get_mut (sl_get context_tuple_slot w) context")
    case None
    with run w show ?thesis by (auto simp: run_context_def bail_def ret_def standing_def)
  next
    case (Some p)
    then obtain c cbs es wr where p: "registry_get_mut (sl_get context_tuple_slot w) context = Some ((c, cbs, es), wr)"
      by (metis prod.exhaust)
    obtain o1 c' where "f c = (o1, c')" by fastforce
    with run p have "t = sl_put context_tuple_slot (wr (c', cbs, es)) w" by (simp add: run_context_def)
    with context_tuples.sound_write [OF p context_tuples.inv_get, of w "(c', cbs, es)"] w show ?thesis
      by (auto simp: standing_def)
  qed
qed

lemma sound_with_context [sound_intros]:
  "CONTEXT_TUPLE_TAG \<notin> L \<Longrightarrow> sound P (insert CONTEXT_TUPLE_TAG L) m \<Longrightarrow> sound P L (with_context context m)"
  unfolding with_context_def by (rule context_tuples.sound_borrowed) simp_all

lemma sound_call_context [sound_intros]: "CONTEXT_TUPLE_TAG \<notin> L \<Longrightarrow> sound P L (call_context context f)"
  unfolding call_context_def by (intro sound_intros)

lemma sound_take_events [sound_intros]:
  assumes "CONTEXT_TUPLE_TAG \<notin> L"
  shows "sound P L (take_events E context)"
  unfolding take_events_def
proof (intro sound_with_guard assms soundI)
  fix w r t
  let ?L = "insert CONTEXT_TUPLE_TAG L"
  assume w: "standing P ?L w" and run: "(case registry_get_mut (sl_get context_tuple_slot w) context of
       None \<Rightarrow> bail (InvalidHandle ''context'') w
     | Some ((c, callbacks, events), write) \<Rightarrow>
         (case context_update (e_bson E) (e_crypto E) (e_tor E) (e_now E) (e_random E) (e_generated E) c of
            (Ret (Ok new_events), c) \<Rightarrow>
              (Ret (Ok (case events of Some es \<Rightarrow> es @ new_events | None \<Rightarrow> new_events, callbacks)),
               sl_put context_tuple_slot (write (c, callbacks, None)) w)
          | (Ret (Err e), c) \<Rightarrow> (Ret (Err (ContextFailure e)), sl_put context_tuple_slot (write (c, callbacks, events)) w)
          | (Panic, c) \<Rightarrow> (Panic, sl_put context_tuple_slot (write (c, callbacks, events)) w)
          | (OutOfFuel, c) \<Rightarrow> (OutOfFuel, sl_put context_tuple_slot (write (c, callbacks, events)) w))) = (r, t)"
  show "world_inv t \<and> \<not> w_blocked t \<and> P \<subseteq> w_poisoned t \<and> (r \<noteq> OutOfFuel \<longrightarrow> w_held t = ?L)"
  proof (cases "registry_get_mut (sl_get context_tuple_slot w) context")
    case None
    with run w show ?thesis by (auto simp: bail_def ret_def standing_def)
  next
    case (Some p)
    then obtain c cbs es wr where p: "registry_get_mut (sl_get context_tuple_slot w) context = Some ((c, cbs, es), wr)"
      by (metis prod.exhaust)
    obtain o1 c' where "context_update (e_bson E) (e_crypto E) (e_tor E) (e_now E) (e_random E) (e_generated E) c = (o1, c')"
      by fastforce
    with run p have "\<exists>x. t = sl_put context_tuple_slot (wr x) w" by (auto split: outcome.splits result.splits)
    then show ?thesis
      using context_tuples.sound_write [OF p context_tuples.inv_get] w by (auto simp: standing_def)
  qed
qed

lemma sound_save_events [sound_intros]:
  assumes "CONTEXT_TUPLE_TAG \<notin> L"
  shows "sound P L (save_events context events)"
  unfolding save_events_def
proof (intro sound_cond sound_ret sound_with_guard assms soundI)
  fix w r t
  let ?L = "insert CONTEXT_TUPLE_TAG L"
  assume w: "standing P ?L w" and run: "(case registry_get_mut (sl_get context_tuple_slot w) context of
          Some ((c, callbacks, _), write) \<Rightarrow> (Ret (), sl_put context_tuple_slot (write (c, callbacks, Some events)) w)
        | None \<Rightarrow> (Ret (), w)) = (r, t)"
  show "world_inv t \<and> \<not> w_blocked t \<and> P \<subseteq> w_poisoned t \<and> (r \<noteq> OutOfFuel \<longrightarrow> w_held t = ?L)"
  proof (cases "registry_get_mut (sl_get context_tuple_slot w) context")
    case None
    with run w show ?thesis by (auto simp: standing_def)
  next
    case (Some p)
    then obtain c cbs es wr where p: "registry_get_mut (sl_get context_tuple_slot w) context = Some ((c, cbs, es), wr)"
      by (metis prod.exhaust)
    with run have "t = sl_put context_tuple_slot (wr (c, cbs, Some events)) w" by simp
    with context_tuples.sound_write [OF p context_tuples.inv_get, of w "(c, cbs, Some events)"] w show ?thesis
      by (auto simp: standing_def)
  qed
qed

end
