(* ===== verification/Ffi_Runs.thy ===== *)
theory Ffi_Runs
  imports Ffi_Safety
begin

unbundle bit_operations_syntax

text \<open>
  Programs that use the C interface: every function keeps the invariant of the library and releases the
  mutexes it takes, also when callbacks of the program call the library. A run is any sequence of calls
  and of writes to memory by the program.
\<close>

section \<open>Callbacks\<close>

text \<open>
  A program that only uses the interface: called without a mutex held, its functions return with the
  invariant and without a mutex held.
\<close>

definition host_ok :: "('tp, 'd) c_host \<Rightarrow> bool" where
  "host_ok H \<longleftrightarrow> (\<forall>f call w. at_locks {} w \<longrightarrow>
     at_locks {} (h_notify H f call w) \<and> at_locks {} (snd (h_ask H f call w)) \<and>
     at_locks {} (snd (h_size H f call w)) \<and> at_locks {} (snd (h_fill H f call w)))"

lemma sound_notify: "host_ok H \<Longrightarrow> sound {} {} (notify H f call)"
  by (rule soundI) (auto simp: notify_def host_ok_def at_locks_def)

lemma sound_host_call:
  assumes "\<And>w. at_locks {} w \<Longrightarrow> at_locks {} (snd (f w))"
  shows "sound {} {} (\<lambda>w. case f w of (b, w) \<Rightarrow> (Ret (g b), w))"
  using assms by (auto simp: sound_def split_beta at_locks_def)

lemma sound_ask: "host_ok H \<Longrightarrow> sound {} {} (ask H f call)"
  using sound_host_call [of "h_ask H f call" "\<lambda>b. b"] by (simp add: host_ok_def ask_def [abs_def])

lemma sound_ask_size: "host_ok H \<Longrightarrow> sound {} {} (ask_size H f call)"
  using sound_host_call [of "h_size H f call" "\<lambda>n. n"] by (simp add: host_ok_def ask_size_def [abs_def])

lemma sound_ask_buffer: "host_ok H \<Longrightarrow> sound {} {} (ask_buffer H f call n)"
  by (rule soundI) (auto simp: ask_buffer_def host_ok_def at_locks_def split_beta split: if_splits)

lemmas sound_host = sound_notify sound_ask sound_ask_size sound_ask_buffer

lemmas event_defs = on_challenge_received_def on_identity_client_completed_def on_handshake_failed_def
  on_endpoint_request_def on_challenge_response_def on_identity_server_completed_def on_endpoint_client_completed_def
  on_endpoint_server_published_def on_channel_request_def on_endpoint_server_completed_def

lemma sound_events:
  assumes "host_ok H"
  shows "sound {} {} (on_challenge_received H E context cbs handle d)"
    "sound {} {} (on_identity_client_completed H context cbs handle i e n x)"
    "sound {} {} (on_handshake_failed H E callback call reason)"
    "sound {} {} (on_endpoint_request H E context cbs handle client requested)"
    "sound {} {} (on_challenge_response H E context cbs handle d)"
    "sound {} {} (on_identity_server_completed H context cbs handle k n client a)"
    "sound {} {} (on_endpoint_client_completed H E context cbs handle e n st)"
    "sound {} {} (on_endpoint_server_published H context cbs e n)"
    "sound {} {} (on_channel_request H E context cbs handle client requested)"
    "sound {} {} (on_endpoint_server_completed H E context cbs handle e client n st)"
  by (auto simp: event_defs intro!: sound_intros sound_host [OF assms] split: option.splits)

lemma sound_handle_context_event: "host_ok H \<Longrightarrow> sound {} {} (handle_context_event H E event context cbs)"
  by (cases event) (auto intro!: sound_intros sound_host sound_events)

lemma sound_drain_events: "host_ok H \<Longrightarrow> sound {} {} (drain_events H E context cbs events)"
  by (induction events) (auto intro!: sound_intros sound_handle_context_event split: result.splits)

lemma sound_poll_events: "host_ok H \<Longrightarrow> sound {} {} (gosling_context_poll_events H E context error)"
  unfolding gosling_context_poll_events_def by (auto intro!: sound_intros sound_drain_events split: prod.splits)

section \<open>The functions of the interface\<close>

text \<open>A call whose result the program may use in any way.\<close>

definition called :: "('tp, 'd, 'a) c_action \<Rightarrow> ('tp, 'd, unit) c_action" where
  "called m = andthen m (\<lambda>_. ret ())"

inductive api_call :: "('tp, 'd) c_host \<Rightarrow> ('tp, 'd, unit) c_action \<Rightarrow> bool" for H where
  call_error_get_message: "api_call H (called (gosling_error_get_message error))"
| call_error_clone: "api_call H (called (gosling_error_clone E out_error orig_error error))"
| call_error_free: "api_call H (called (gosling_error_free error))"
| call_library_init: "api_call H (called (gosling_library_init E out_library error))"
| call_library_free: "api_call H (called (gosling_library_free in_library))"
| call_ed25519_private_key_free: "api_call H (called (gosling_ed25519_private_key_free in_private_key))"
| call_x25519_private_key_free: "api_call H (called (gosling_x25519_private_key_free in_private_key))"
| call_x25519_public_key_free: "api_call H (called (gosling_x25519_public_key_free in_public_key))"
| call_v3_onion_service_id_free: "api_call H (called (gosling_v3_onion_service_id_free in_service_id))"
| call_ed25519_private_key_clone: "api_call H (called (gosling_ed25519_private_key_clone E out_private_key private_key error))"
| call_x25519_public_key_clone: "api_call H (called (gosling_x25519_public_key_clone E out_public_key public_key error))"
| call_x25519_private_key_clone: "api_call H (called (gosling_x25519_private_key_clone E out_private_key private_key error))"
| call_v3_onion_service_id_clone: "api_call H (called (gosling_v3_onion_service_id_clone E out_service_id service_id error))"
| call_ed25519_private_key_generate: "api_call H (called (gosling_ed25519_private_key_generate E key out_private_key error))"
| call_ed25519_private_key_from_keyblob: "api_call H (called (gosling_ed25519_private_key_from_keyblob E out_private_key key_blob key_blob_length error))"
| call_ed25519_private_key_to_keyblob: "api_call H (called (gosling_ed25519_private_key_to_keyblob E private_key out_key_blob key_blob_size error))"
| call_x25519_private_key_from_base64: "api_call H (called (gosling_x25519_private_key_from_base64 E out_private_key base64 base64_length error))"
| call_x25519_private_key_to_base64: "api_call H (called (gosling_x25519_private_key_to_base64 E private_key out_base64 base64_size error))"
| call_x25519_public_key_from_base32: "api_call H (called (gosling_x25519_public_key_from_base32 E out_public_key base32 base32_length error))"
| call_x25519_public_key_to_base32: "api_call H (called (gosling_x25519_public_key_to_base32 E public_key out_base32 base32_size error))"
| call_v3_onion_service_id_from_string: "api_call H (called (gosling_v3_onion_service_id_from_string E out_service_id service_id_string service_id_string_length error))"
| call_v3_onion_service_id_from_ed25519_private_key: "api_call H (called (gosling_v3_onion_service_id_from_ed25519_private_key E out_service_id ed25519_private_key error))"
| call_v3_onion_service_id_to_string: "api_call H (called (gosling_v3_onion_service_id_to_string E service_id out_service_id_string service_id_string_size error))"
| call_string_is_valid_v3_onion_service_id: "api_call H (called (gosling_string_is_valid_v3_onion_service_id E service_id_string service_id_string_length error))"
| call_ip_address_free: "api_call H (called (gosling_ip_address_free in_ip_address))"
| call_target_address_free: "api_call H (called (gosling_target_address_free in_target_address))"
| call_ip_address_clone: "api_call H (called (gosling_ip_address_clone E out_ip_address ip_address error))"
| call_target_address_clone: "api_call H (called (gosling_target_address_clone E out_target_address target_address error))"
| call_ip_address_from_ipv4: "api_call H (called (gosling_ip_address_from_ipv4 E out_ip_address a b c d error))"
| call_ip_address_from_ipv6: "api_call H (called (gosling_ip_address_from_ipv6 E out_ip_address a b c d e f g h error))"
| call_target_address_from_ip_address: "api_call H (called (gosling_target_address_from_ip_address E out_target_address ip_address port error))"
| call_target_address_from_domain: "api_call H (called (gosling_target_address_from_domain E out_target_address domain domain_length port error))"
| call_target_address_from_v3_onion_service_id: "api_call H (called (gosling_target_address_from_v3_onion_service_id E out_target_address service_id port error))"
| call_target_address_from_string: "api_call H (called (gosling_target_address_from_string E out_target_address target_address target_address_length error))"
| call_target_address_to_string: "api_call H (called (gosling_target_address_to_string E target_address out_target_address_string target_address_string_size error))"
| call_proxy_config_free: "api_call H (called (gosling_proxy_config_free in_proxy_config))"
| call_pluggable_transport_config_free: "api_call H (called (gosling_pluggable_transport_config_free in_pluggable_transport_config))"
| call_bridge_line_free: "api_call H (called (gosling_bridge_line_free in_bridge_line))"
| call_tor_provider_config_free: "api_call H (called (gosling_tor_provider_config_free in_tor_provider_config))"
| call_tor_provider_free: "api_call H (called (gosling_tor_provider_free in_tor_provider))"
| call_proxy_config_new_socks4: "api_call H (called (gosling_proxy_config_new_socks4 E out_proxy_config proxy_addr error))"
| call_proxy_config_new_socks5: "api_call H (called (gosling_proxy_config_new_socks5 E out_proxy_config proxy_addr username username_length password password_length error))"
| call_proxy_config_new_https: "api_call H (called (gosling_proxy_config_new_https E out_proxy_config proxy_addr username username_length password password_length error))"
| call_pluggable_transport_config_new: "api_call H (called (gosling_pluggable_transport_config_new E out_pluggable_transport_config transports transports_length path_to_binary path_to_binary_length error))"
| call_pluggable_transport_config_add_cmdline_option: "api_call H (called (gosling_pluggable_transport_config_add_cmdline_option E pluggable_transport_config option option_length error))"
| call_bridge_line_from_string: "api_call H (called (gosling_bridge_line_from_string E out_bridge_line bridge_line bridge_line_length error))"
| call_tor_provider_config_new_mock_client_config: "api_call H (called (gosling_tor_provider_config_new_mock_client_config E out_tor_provider_config error))"
| call_tor_provider_config_new_bundled_legacy_client_config: "api_call H (called (gosling_tor_provider_config_new_bundled_legacy_client_config E out_tor_provider_config bin_path bin_path_length working_directory working_directory_length error))"
| call_tor_provider_config_new_system_legacy_client_config: "api_call H (called (gosling_tor_provider_config_new_system_legacy_client_config E out_tor_provider_config socks_host socks_port control_host control_port passwd passwd_length error))"
| call_tor_provider_config_set_proxy_config: "api_call H (called (gosling_tor_provider_config_set_proxy_config E tor_provider_config proxy_config error))"
| call_tor_provider_config_set_allowed_ports: "api_call H (called (gosling_tor_provider_config_set_allowed_ports E tor_provider_config ports_array allowed_ports_count error))"
| call_tor_provider_config_add_pluggable_transport_config: "api_call H (called (gosling_tor_provider_config_add_pluggable_transport_config E tor_provider_config pluggable_transport_config error))"
| call_tor_provider_config_add_bridge_line: "api_call H (called (gosling_tor_provider_config_add_bridge_line E tor_provider_config bridge_line error))"
| call_tor_provider_from_tor_provider_config: "api_call H (called (gosling_tor_provider_from_tor_provider_config E out_tor_provider tor_provider_config error))"
| call_context_free: "api_call H (called (gosling_context_free in_context))"
| call_context_init: "api_call H (called (gosling_context_init E out_context in_tor_provider identity_port endpoint_port identity_private_key error))"
| call_context_bootstrap_tor: "api_call H (called (gosling_context_bootstrap_tor E context error))"
| call_context_start_identity_server: "api_call H (called (gosling_context_start_identity_server E context error))"
| call_context_stop_identity_server: "api_call H (called (gosling_context_stop_identity_server E context error))"
| call_context_start_endpoint_server: "api_call H (called (gosling_context_start_endpoint_server E context endpoint_private_key endpoint_name endpoint_name_length client_identity client_auth_public_key error))"
| call_context_stop_endpoint_server: "api_call H (called (gosling_context_stop_endpoint_server E context endpoint_private_key error))"
| call_context_begin_identity_handshake: "api_call H (called (gosling_context_begin_identity_handshake E context identity_service_id endpoint_name endpoint_name_length error))"
| call_context_abort_identity_client_handshake: "api_call H (called (gosling_context_abort_identity_client_handshake E context handshake_handle error))"
| call_context_begin_endpoint_handshake: "api_call H (called (gosling_context_begin_endpoint_handshake E context endpoint_service_id client_auth_private_key channel_name channel_name_length error))"
| call_context_abort_endpoint_client_handshake: "api_call H (called (gosling_context_abort_endpoint_client_handshake E context handshake_handle error))"
| call_context_connect: "api_call H (called (gosling_context_connect E context out_tcp_socket target_address circuit_token error))"
| call_context_generate_circuit_token: "api_call H (called (gosling_context_generate_circuit_token E context error))"
| call_context_release_circuit_token: "api_call H (called (gosling_context_release_circuit_token E context circuit_token error))"
| call_context_poll_events: "api_call H (called (gosling_context_poll_events H E context error))"
| call_context_set_tor_bootstrap_status_received_callback: "api_call H (called (gosling_context_set_tor_bootstrap_status_received_callback E context callback error))"
| call_context_set_tor_bootstrap_completed_callback: "api_call H (called (gosling_context_set_tor_bootstrap_completed_callback E context callback error))"
| call_context_set_tor_log_received_callback: "api_call H (called (gosling_context_set_tor_log_received_callback E context callback error))"
| call_context_set_identity_client_challenge_response_size_callback: "api_call H (called (gosling_context_set_identity_client_challenge_response_size_callback E context callback error))"
| call_context_set_identity_client_build_challenge_response_callback: "api_call H (called (gosling_context_set_identity_client_build_challenge_response_callback E context callback error))"
| call_context_set_identity_client_handshake_completed_callback: "api_call H (called (gosling_context_set_identity_client_handshake_completed_callback E context callback error))"
| call_context_set_identity_client_handshake_failed_callback: "api_call H (called (gosling_context_set_identity_client_handshake_failed_callback E context callback error))"
| call_context_set_identity_server_published_callback: "api_call H (called (gosling_context_set_identity_server_published_callback E context callback error))"
| call_context_set_identity_server_handshake_started_callback: "api_call H (called (gosling_context_set_identity_server_handshake_started_callback E context callback error))"
| call_context_set_identity_server_client_allowed_callback: "api_call H (called (gosling_context_set_identity_server_client_allowed_callback E context callback error))"
| call_context_set_identity_server_endpoint_supported_callback: "api_call H (called (gosling_context_set_identity_server_endpoint_supported_callback E context callback error))"
| call_context_set_identity_server_challenge_size_callback: "api_call H (called (gosling_context_set_identity_server_challenge_size_callback E context callback error))"
| call_context_set_identity_server_build_challenge_callback: "api_call H (called (gosling_context_set_identity_server_build_challenge_callback E context callback error))"
| call_context_set_identity_server_verify_challenge_response_callback: "api_call H (called (gosling_context_set_identity_server_verify_challenge_response_callback E context callback error))"
| call_context_set_identity_server_handshake_completed_callback: "api_call H (called (gosling_context_set_identity_server_handshake_completed_callback E context callback error))"
| call_context_set_identity_server_handshake_rejected_callback: "api_call H (called (gosling_context_set_identity_server_handshake_rejected_callback E context callback error))"
| call_context_set_identity_server_handshake_failed_callback: "api_call H (called (gosling_context_set_identity_server_handshake_failed_callback E context callback error))"
| call_context_set_endpoint_client_handshake_completed_callback: "api_call H (called (gosling_context_set_endpoint_client_handshake_completed_callback E context callback error))"
| call_context_set_endpoint_client_handshake_failed_callback: "api_call H (called (gosling_context_set_endpoint_client_handshake_failed_callback E context callback error))"
| call_context_set_endpoint_server_published_callback: "api_call H (called (gosling_context_set_endpoint_server_published_callback E context callback error))"
| call_context_set_endpoint_server_handshake_started_callback: "api_call H (called (gosling_context_set_endpoint_server_handshake_started_callback E context callback error))"
| call_context_set_endpoint_server_channel_supported_callback: "api_call H (called (gosling_context_set_endpoint_server_channel_supported_callback E context callback error))"
| call_context_set_endpoint_server_handshake_completed_callback: "api_call H (called (gosling_context_set_endpoint_server_handshake_completed_callback E context callback error))"
| call_context_set_endpoint_server_handshake_rejected_callback: "api_call H (called (gosling_context_set_endpoint_server_handshake_rejected_callback E context callback error))"
| call_context_set_endpoint_server_handshake_failed_callback: "api_call H (called (gosling_context_set_endpoint_server_handshake_failed_callback E context callback error))"

lemmas api_defs = gosling_error_get_message_def
  gosling_error_clone_def
  gosling_error_free_def
  gosling_library_init_def
  gosling_library_free_def
  gosling_ed25519_private_key_free_def
  gosling_x25519_private_key_free_def
  gosling_x25519_public_key_free_def
  gosling_v3_onion_service_id_free_def
  gosling_ed25519_private_key_clone_def
  gosling_x25519_public_key_clone_def
  gosling_x25519_private_key_clone_def
  gosling_v3_onion_service_id_clone_def
  gosling_ed25519_private_key_generate_def
  gosling_ed25519_private_key_from_keyblob_def
  gosling_ed25519_private_key_to_keyblob_def
  gosling_x25519_private_key_from_base64_def
  gosling_x25519_private_key_to_base64_def
  gosling_x25519_public_key_from_base32_def
  gosling_x25519_public_key_to_base32_def
  gosling_v3_onion_service_id_from_string_def
  gosling_v3_onion_service_id_from_ed25519_private_key_def
  gosling_v3_onion_service_id_to_string_def
  gosling_string_is_valid_v3_onion_service_id_def
  gosling_ip_address_free_def
  gosling_target_address_free_def
  gosling_ip_address_clone_def
  gosling_target_address_clone_def
  gosling_ip_address_from_ipv4_def
  gosling_ip_address_from_ipv6_def
  gosling_target_address_from_ip_address_def
  gosling_target_address_from_domain_def
  gosling_target_address_from_v3_onion_service_id_def
  gosling_target_address_from_string_def
  gosling_target_address_to_string_def
  gosling_proxy_config_free_def
  gosling_pluggable_transport_config_free_def
  gosling_bridge_line_free_def
  gosling_tor_provider_config_free_def
  gosling_tor_provider_free_def
  gosling_proxy_config_new_socks4_def
  gosling_proxy_config_new_socks5_def
  gosling_proxy_config_new_https_def
  gosling_pluggable_transport_config_new_def
  gosling_pluggable_transport_config_add_cmdline_option_def
  gosling_bridge_line_from_string_def
  gosling_tor_provider_config_new_mock_client_config_def
  gosling_tor_provider_config_new_bundled_legacy_client_config_def
  gosling_tor_provider_config_new_system_legacy_client_config_def
  gosling_tor_provider_config_set_proxy_config_def
  gosling_tor_provider_config_set_allowed_ports_def
  gosling_tor_provider_config_add_pluggable_transport_config_def
  gosling_tor_provider_config_add_bridge_line_def
  gosling_tor_provider_from_tor_provider_config_def
  gosling_context_free_def
  gosling_context_init_def
  gosling_context_bootstrap_tor_def
  gosling_context_start_identity_server_def
  gosling_context_stop_identity_server_def
  gosling_context_start_endpoint_server_def
  gosling_context_stop_endpoint_server_def
  gosling_context_begin_identity_handshake_def
  gosling_context_abort_identity_client_handshake_def
  gosling_context_begin_endpoint_handshake_def
  gosling_context_abort_endpoint_client_handshake_def
  gosling_context_connect_def
  gosling_context_generate_circuit_token_def
  gosling_context_release_circuit_token_def
  gosling_context_poll_events_def
  gosling_context_set_tor_bootstrap_status_received_callback_def
  gosling_context_set_tor_bootstrap_completed_callback_def
  gosling_context_set_tor_log_received_callback_def
  gosling_context_set_identity_client_challenge_response_size_callback_def
  gosling_context_set_identity_client_build_challenge_response_callback_def
  gosling_context_set_identity_client_handshake_completed_callback_def
  gosling_context_set_identity_client_handshake_failed_callback_def
  gosling_context_set_identity_server_published_callback_def
  gosling_context_set_identity_server_handshake_started_callback_def
  gosling_context_set_identity_server_client_allowed_callback_def
  gosling_context_set_identity_server_endpoint_supported_callback_def
  gosling_context_set_identity_server_challenge_size_callback_def
  gosling_context_set_identity_server_build_challenge_callback_def
  gosling_context_set_identity_server_verify_challenge_response_callback_def
  gosling_context_set_identity_server_handshake_completed_callback_def
  gosling_context_set_identity_server_handshake_rejected_callback_def
  gosling_context_set_identity_server_handshake_failed_callback_def
  gosling_context_set_endpoint_client_handshake_completed_callback_def
  gosling_context_set_endpoint_client_handshake_failed_callback_def
  gosling_context_set_endpoint_server_published_callback_def
  gosling_context_set_endpoint_server_handshake_started_callback_def
  gosling_context_set_endpoint_server_channel_supported_callback_def
  gosling_context_set_endpoint_server_handshake_completed_callback_def
  gosling_context_set_endpoint_server_handshake_rejected_callback_def
  gosling_context_set_endpoint_server_handshake_failed_callback_def

lemma sound_called: "sound P L m \<Longrightarrow> sound P L (called m)"
  unfolding called_def by (intro sound_intros)

lemma sound_callback_setter [sound_intros]: "CONTEXT_TUPLE_TAG \<notin> L \<Longrightarrow> ERROR_TAG \<notin> L \<Longrightarrow> sound P L (callback_setter E change context error)"
  unfolding callback_setter_def by (auto intro!: sound_intros split: prod.splits)

lemma sound_error_get_message: "ERROR_TAG \<notin> L \<Longrightarrow> sound P L (gosling_error_get_message error)"
  unfolding gosling_error_get_message_def by (intro sound_intros sound_pure) (auto split: option.splits)

lemma sound_library_init: "sound P {} (gosling_library_init E out_library error)"
  unfolding gosling_library_init_def
proof (intro sound_translate_failures sound_ensure_not_null soundI)
  fix w r t
  assume "standing P {} w" "(if w_inited w then bail (Bail ''gosling is already initialized'') w
      else andthen (put_word out_library GOSLING_LIBRARY_HANDLE) (\<lambda>_. ret (Ok ())) (w\<lparr> w_inited := True \<rparr>)) = (r, t)"
  then show "world_inv t \<and> \<not> w_blocked t \<and> P \<subseteq> w_poisoned t \<and> (r \<noteq> OutOfFuel \<longrightarrow> w_held t = {})"
    by (auto simp: bail_def standing_def action_defs put_word_def put_bytes_def split: if_splits)
qed simp

lemma sound_library_free: "sound P {} (gosling_library_free in_library)"
proof -
  have "sound P {} (\<lambda>w. (Ret (), w\<lparr> w_inited := False \<rparr>))" by (rule soundI) (auto simp: standing_def)
  moreover have "sound P {} clear_registries" unfolding clear_registries_def by (auto intro!: sound_intros)
  ultimately have free: "sound P {} (andthen clear_registries (\<lambda>_ w. (Ret (), w\<lparr> w_inited := False \<rparr>)))" by (intro sound_andthen)
  show ?thesis
  proof (rule soundI)
    fix w r t
    assume w: "standing P {} w" and run: "gosling_library_free in_library w = (r, t)"
    show "world_inv t \<and> \<not> w_blocked t \<and> P \<subseteq> w_poisoned t \<and> (r \<noteq> OutOfFuel \<longrightarrow> w_held t = {})"
      using sound_run [OF free w] run w by (cases "w_inited w") (simp_all add: gosling_library_free_def standing_def)
  qed
qed

lemma sound_update_bundled [sound_intros]:
  "TOR_PROVIDER_CONFIG_TAG \<notin> L \<Longrightarrow> (\<And>c. sound P (insert TOR_PROVIDER_CONFIG_TAG L) (body c)) \<Longrightarrow> sound P L (update_bundled key body)"
  unfolding update_bundled_def
  by (auto intro!: sound_intros split: tor_provider_config.splits legacy_tor_client_config.splits)

lemma sound_tor_binary [sound_intros]: "(\<And>p. sound P L (m p)) \<Longrightarrow> sound P L (tor_binary E path len m)"
  unfolding tor_binary_def by (auto intro!: sound_intros split: option.splits)

lemma sound_provider_of [sound_intros]: "sound P L (provider_of E config)"
  by (rule sound_pure) (auto simp: provider_of_def split: tor_provider_config.splits outcome.splits result.splits)

lemma sound_reading [sound_intros]: "sound P L (\<lambda>w. (Ret (f w), w))"
  by (rule sound_pure) simp

lemma sound_api0:
  "sound P {} (gosling_error_clone E out_error orig_error error)"
  "sound P {} (gosling_error_free error)"
  "sound P {} (gosling_ed25519_private_key_free in_private_key)"
  "sound P {} (gosling_x25519_private_key_free in_private_key)"
  "sound P {} (gosling_x25519_public_key_free in_public_key)"
  "sound P {} (gosling_v3_onion_service_id_free in_service_id)"
  "sound P {} (gosling_ed25519_private_key_clone E out_private_key private_key error)"
  "sound P {} (gosling_x25519_public_key_clone E out_public_key public_key error)"
  by (auto simp: gosling_error_clone_def gosling_error_free_def gosling_ed25519_private_key_free_def gosling_x25519_private_key_free_def gosling_x25519_public_key_free_def gosling_v3_onion_service_id_free_def gosling_ed25519_private_key_clone_def gosling_x25519_public_key_clone_def tag_defs
      intro!: sound_intros split: option.splits)

lemma sound_api1:
  "sound P {} (gosling_x25519_private_key_clone E out_private_key private_key error)"
  "sound P {} (gosling_v3_onion_service_id_clone E out_service_id service_id error)"
  "sound P {} (gosling_ed25519_private_key_generate E key out_private_key error)"
  "sound P {} (gosling_ed25519_private_key_from_keyblob E out_private_key key_blob key_blob_length error)"
  "sound P {} (gosling_ed25519_private_key_to_keyblob E private_key out_key_blob key_blob_size error)"
  "sound P {} (gosling_x25519_private_key_from_base64 E out_private_key base64 base64_length error)"
  "sound P {} (gosling_x25519_private_key_to_base64 E private_key out_base64 base64_size error)"
  "sound P {} (gosling_x25519_public_key_from_base32 E out_public_key base32 base32_length error)"
  by (auto simp: gosling_x25519_private_key_clone_def gosling_v3_onion_service_id_clone_def gosling_ed25519_private_key_generate_def gosling_ed25519_private_key_from_keyblob_def gosling_ed25519_private_key_to_keyblob_def gosling_x25519_private_key_from_base64_def gosling_x25519_private_key_to_base64_def gosling_x25519_public_key_from_base32_def tag_defs
      intro!: sound_intros split: option.splits)

lemma sound_api2:
  "sound P {} (gosling_x25519_public_key_to_base32 E public_key out_base32 base32_size error)"
  "sound P {} (gosling_v3_onion_service_id_from_string E out_service_id service_id_string service_id_string_length error)"
  "sound P {} (gosling_v3_onion_service_id_from_ed25519_private_key E out_service_id ed25519_private_key error)"
  "sound P {} (gosling_v3_onion_service_id_to_string E service_id out_service_id_string service_id_string_size error)"
  "sound P {} (gosling_string_is_valid_v3_onion_service_id E service_id_string service_id_string_length error)"
  "sound P {} (gosling_ip_address_free in_ip_address)"
  "sound P {} (gosling_target_address_free in_target_address)"
  "sound P {} (gosling_ip_address_clone E out_ip_address ip_address error)"
  by (auto simp: gosling_x25519_public_key_to_base32_def gosling_v3_onion_service_id_from_string_def gosling_v3_onion_service_id_from_ed25519_private_key_def gosling_v3_onion_service_id_to_string_def gosling_string_is_valid_v3_onion_service_id_def gosling_ip_address_free_def gosling_target_address_free_def gosling_ip_address_clone_def tag_defs
      intro!: sound_intros split: option.splits)

lemma sound_api3:
  "sound P {} (gosling_target_address_clone E out_target_address target_address error)"
  "sound P {} (gosling_ip_address_from_ipv4 E out_ip_address a b c d error)"
  "sound P {} (gosling_ip_address_from_ipv6 E out_ip_address a' b' c' d' e' f' g' h' error)"
  "sound P {} (gosling_target_address_from_ip_address E out_target_address ip_address port error)"
  "sound P {} (gosling_target_address_from_domain E out_target_address domain domain_length port error)"
  "sound P {} (gosling_target_address_from_v3_onion_service_id E out_target_address service_id port error)"
  "sound P {} (gosling_target_address_from_string E out_target_address target_address target_address_length error)"
  "sound P {} (gosling_target_address_to_string E target_address out_target_address_string target_address_string_size error)"
  by (auto simp: gosling_target_address_clone_def gosling_ip_address_from_ipv4_def gosling_ip_address_from_ipv6_def gosling_target_address_from_ip_address_def gosling_target_address_from_domain_def gosling_target_address_from_v3_onion_service_id_def gosling_target_address_from_string_def gosling_target_address_to_string_def Let_def tag_defs
      intro!: sound_intros split: option.splits)

lemma sound_api4:
  "sound P {} (gosling_proxy_config_free in_proxy_config)"
  "sound P {} (gosling_pluggable_transport_config_free in_pluggable_transport_config)"
  "sound P {} (gosling_bridge_line_free in_bridge_line)"
  "sound P {} (gosling_tor_provider_config_free in_tor_provider_config)"
  "sound P {} (gosling_tor_provider_free in_tor_provider)"
  "sound P {} (gosling_proxy_config_new_socks4 E out_proxy_config proxy_addr error)"
  "sound P {} (gosling_proxy_config_new_socks5 E out_proxy_config proxy_addr username username_length password password_length error)"
  "sound P {} (gosling_proxy_config_new_https E out_proxy_config proxy_addr username username_length password password_length error)"
  by (auto simp: gosling_proxy_config_free_def gosling_pluggable_transport_config_free_def gosling_bridge_line_free_def gosling_tor_provider_config_free_def gosling_tor_provider_free_def gosling_proxy_config_new_socks4_def gosling_proxy_config_new_socks5_def gosling_proxy_config_new_https_def tag_defs
      intro!: sound_intros split: option.splits)

lemma sound_api5:
  "sound P {} (gosling_pluggable_transport_config_new E out_pluggable_transport_config transports transports_length path_to_binary path_to_binary_length error)"
  "sound P {} (gosling_pluggable_transport_config_add_cmdline_option E pluggable_transport_config option option_length error)"
  "sound P {} (gosling_bridge_line_from_string E out_bridge_line bridge_line bridge_line_length error)"
  "sound P {} (gosling_tor_provider_config_new_mock_client_config E out_tor_provider_config error)"
  "sound P {} (gosling_tor_provider_config_new_bundled_legacy_client_config E out_tor_provider_config bin_path bin_path_length working_directory working_directory_length error)"
  "sound P {} (gosling_tor_provider_config_new_system_legacy_client_config E out_tor_provider_config socks_host socks_port control_host control_port passwd passwd_length error)"
  "sound P {} (gosling_tor_provider_config_set_proxy_config E tor_provider_config proxy_config error)"
  "sound P {} (gosling_tor_provider_config_set_allowed_ports E tor_provider_config ports_array allowed_ports_count error)"
  by (auto simp: gosling_pluggable_transport_config_new_def gosling_pluggable_transport_config_add_cmdline_option_def gosling_bridge_line_from_string_def gosling_tor_provider_config_new_mock_client_config_def gosling_tor_provider_config_new_bundled_legacy_client_config_def gosling_tor_provider_config_new_system_legacy_client_config_def gosling_tor_provider_config_set_proxy_config_def gosling_tor_provider_config_set_allowed_ports_def tag_defs
      intro!: sound_intros split: option.splits)

lemma sound_api6:
  "sound P {} (gosling_tor_provider_config_add_pluggable_transport_config E tor_provider_config pluggable_transport_config error)"
  "sound P {} (gosling_tor_provider_config_add_bridge_line E tor_provider_config bridge_line error)"
  "sound P {} (gosling_tor_provider_from_tor_provider_config E out_tor_provider tor_provider_config error)"
  "sound P {} (gosling_context_free in_context)"
  "sound P {} (gosling_context_init E out_context in_tor_provider identity_port endpoint_port identity_private_key error)"
  "sound P {} (gosling_context_bootstrap_tor E context error)"
  "sound P {} (gosling_context_start_identity_server E context error)"
  "sound P {} (gosling_context_stop_identity_server E context error)"
  by (auto simp: gosling_tor_provider_config_add_pluggable_transport_config_def gosling_tor_provider_config_add_bridge_line_def gosling_tor_provider_from_tor_provider_config_def gosling_context_free_def gosling_context_init_def gosling_context_bootstrap_tor_def gosling_context_start_identity_server_def gosling_context_stop_identity_server_def tag_defs
      intro!: sound_intros split: option.splits)

lemma sound_api7:
  "sound P {} (gosling_context_start_endpoint_server E context endpoint_private_key endpoint_name endpoint_name_length client_identity client_auth_public_key error)"
  "sound P {} (gosling_context_stop_endpoint_server E context endpoint_private_key error)"
  "sound P {} (gosling_context_begin_identity_handshake E context identity_service_id endpoint_name endpoint_name_length error)"
  "sound P {} (gosling_context_abort_identity_client_handshake E context handshake_handle error)"
  "sound P {} (gosling_context_begin_endpoint_handshake E context endpoint_service_id client_auth_private_key channel_name channel_name_length error)"
  "sound P {} (gosling_context_abort_endpoint_client_handshake E context handshake_handle error)"
  "sound P {} (gosling_context_connect E context out_tcp_socket target_address circuit_token error)"
  "sound P {} (gosling_context_generate_circuit_token E context error)"
  by (auto simp: gosling_context_start_endpoint_server_def gosling_context_stop_endpoint_server_def gosling_context_begin_identity_handshake_def gosling_context_abort_identity_client_handshake_def gosling_context_begin_endpoint_handshake_def gosling_context_abort_endpoint_client_handshake_def gosling_context_connect_def gosling_context_generate_circuit_token_def tag_defs
      intro!: sound_intros split: option.splits)

lemma sound_api8:
  "sound P {} (gosling_context_release_circuit_token E context circuit_token error)"
  "sound P {} (gosling_context_set_tor_bootstrap_status_received_callback E context callback error)"
  "sound P {} (gosling_context_set_tor_bootstrap_completed_callback E context callback error)"
  "sound P {} (gosling_context_set_tor_log_received_callback E context callback error)"
  "sound P {} (gosling_context_set_identity_client_challenge_response_size_callback E context callback error)"
  "sound P {} (gosling_context_set_identity_client_build_challenge_response_callback E context callback error)"
  "sound P {} (gosling_context_set_identity_client_handshake_completed_callback E context callback error)"
  "sound P {} (gosling_context_set_identity_client_handshake_failed_callback E context callback error)"
  by (auto simp: gosling_context_release_circuit_token_def gosling_context_set_tor_bootstrap_status_received_callback_def gosling_context_set_tor_bootstrap_completed_callback_def gosling_context_set_tor_log_received_callback_def gosling_context_set_identity_client_challenge_response_size_callback_def gosling_context_set_identity_client_build_challenge_response_callback_def gosling_context_set_identity_client_handshake_completed_callback_def gosling_context_set_identity_client_handshake_failed_callback_def tag_defs
      intro!: sound_intros split: option.splits)

lemma sound_api9:
  "sound P {} (gosling_context_set_identity_server_published_callback E context callback error)"
  "sound P {} (gosling_context_set_identity_server_handshake_started_callback E context callback error)"
  "sound P {} (gosling_context_set_identity_server_client_allowed_callback E context callback error)"
  "sound P {} (gosling_context_set_identity_server_endpoint_supported_callback E context callback error)"
  "sound P {} (gosling_context_set_identity_server_challenge_size_callback E context callback error)"
  "sound P {} (gosling_context_set_identity_server_build_challenge_callback E context callback error)"
  "sound P {} (gosling_context_set_identity_server_verify_challenge_response_callback E context callback error)"
  "sound P {} (gosling_context_set_identity_server_handshake_completed_callback E context callback error)"
  by (auto simp: gosling_context_set_identity_server_published_callback_def gosling_context_set_identity_server_handshake_started_callback_def gosling_context_set_identity_server_client_allowed_callback_def gosling_context_set_identity_server_endpoint_supported_callback_def gosling_context_set_identity_server_challenge_size_callback_def gosling_context_set_identity_server_build_challenge_callback_def gosling_context_set_identity_server_verify_challenge_response_callback_def gosling_context_set_identity_server_handshake_completed_callback_def tag_defs
      intro!: sound_intros split: option.splits)

lemma sound_api10:
  "sound P {} (gosling_context_set_identity_server_handshake_rejected_callback E context callback error)"
  "sound P {} (gosling_context_set_identity_server_handshake_failed_callback E context callback error)"
  "sound P {} (gosling_context_set_endpoint_client_handshake_completed_callback E context callback error)"
  "sound P {} (gosling_context_set_endpoint_client_handshake_failed_callback E context callback error)"
  "sound P {} (gosling_context_set_endpoint_server_published_callback E context callback error)"
  "sound P {} (gosling_context_set_endpoint_server_handshake_started_callback E context callback error)"
  "sound P {} (gosling_context_set_endpoint_server_channel_supported_callback E context callback error)"
  "sound P {} (gosling_context_set_endpoint_server_handshake_completed_callback E context callback error)"
  by (auto simp: gosling_context_set_identity_server_handshake_rejected_callback_def gosling_context_set_identity_server_handshake_failed_callback_def gosling_context_set_endpoint_client_handshake_completed_callback_def gosling_context_set_endpoint_client_handshake_failed_callback_def gosling_context_set_endpoint_server_published_callback_def gosling_context_set_endpoint_server_handshake_started_callback_def gosling_context_set_endpoint_server_channel_supported_callback_def gosling_context_set_endpoint_server_handshake_completed_callback_def tag_defs
      intro!: sound_intros split: option.splits)

lemma sound_api11:
  "sound P {} (gosling_context_set_endpoint_server_handshake_rejected_callback E context callback error)"
  "sound P {} (gosling_context_set_endpoint_server_handshake_failed_callback E context callback error)"
  by (auto simp: gosling_context_set_endpoint_server_handshake_rejected_callback_def gosling_context_set_endpoint_server_handshake_failed_callback_def tag_defs
      intro!: sound_intros split: option.splits)

lemmas sound_api = sound_api0 sound_api1 sound_api2 sound_api3 sound_api4 sound_api5 sound_api6 sound_api7 sound_api8 sound_api9 sound_api10 sound_api11

text \<open>Only \<open>gosling_context_poll_events\<close> calls the program back.\<close>

lemma api_call_sound:
  assumes "\<And>E context error. sound P {} (gosling_context_poll_events H E context error)" "api_call H m"
  shows "sound P {} m"
  using assms(2) by cases (auto intro!: sound_called assms(1) sound_error_get_message sound_library_init sound_library_free sound_api)

lemma api_sound:
  assumes "host_ok H" "api_call H m"
  shows "sound {} {} m"
  using sound_poll_events [OF assms(1)] assms(2) by (rule api_call_sound)

end
