(* ===== verification/Ffi_Facts.thy ===== *)
theory Ffi_Facts
  imports Ffi_Runs
begin

unbundle bit_operations_syntax

text \<open>
  What the functions of the C interface return: words and texts in the caller's memory, objects behind handles,
  failures as error objects, and the events that \<open>gosling_context_poll_events\<close> hands to callbacks.
\<close>

section \<open>Memory\<close>

lemma unat_offset: "i < 2 ^ 64 \<Longrightarrow> unat (of_nat i :: usize) = i"
  by (simp add: unat_of_nat take_bit_nat_eq_self)

lemma load_store: "length bs < 2 ^ 64 \<Longrightarrow> mem_load p (length bs) (mem_store p bs m) = bs"
  by (rule nth_equalityI) (auto simp: mem_load_def mem_store_def unat_offset)

lemma store_outside: "length bs \<le> unat (a - p) \<Longrightarrow> mem_store p bs m a = m a"
  by (simp add: mem_store_def)

lemma le_bytes_length [simp]: "length (le_bytes n v) = n"
  by (simp add: le_bytes_def)

lemma le_bytes_Suc: "le_bytes (Suc n) v = ucast v # le_bytes n (drop_bit 8 v)"
  unfolding le_bytes_def upt_conv_Cons [OF zero_less_Suc] by (simp add: map_Suc_upt [symmetric] comp_def drop_bit_drop_bit add.commute del: upt_Suc)

lemma horner_le_bytes: "horner_sum ucast 256 (le_bytes n v) = take_bit (8 * n) (v :: usize)"
proof (induction n arbitrary: v)
  case 0
  then show ?case by (simp add: le_bytes_def)
next
  case (Suc n)
  have "horner_sum ucast 256 (le_bytes (Suc n) v) = ucast (ucast v :: byte) + 256 * take_bit (8 * n) (drop_bit 8 v)"
    by (simp add: le_bytes_Suc Suc.IH)
  also have "ucast (ucast v :: byte) = take_bit 8 v"
    by (rule bit_eqI) (auto simp: bit_simps)
  also have "256 * take_bit (8 * n) (drop_bit 8 v) = push_bit 8 (take_bit (8 * n) (drop_bit 8 v))"
    by (simp add: push_bit_eq_mult)
  also have "take_bit 8 v + push_bit 8 (take_bit (8 * n) (drop_bit 8 v)) = take_bit 8 v OR push_bit 8 (take_bit (8 * n) (drop_bit 8 v))"
    by (rule disjunctive_add) (auto simp: bit_simps)
  also have "\<dots> = take_bit (8 * Suc n) v"
    by (rule bit_eqI) (auto simp: bit_simps)
  finally show ?case .
qed

lemma mem_word_store [simp]: "mem_word p (mem_store p (le_bytes 8 v) m) = v"
proof -
  have "mem_load p 8 (mem_store p (le_bytes 8 v) m) = le_bytes 8 v" using load_store [of "le_bytes 8 v" p m] by simp
  then show ?thesis by (simp add: mem_word_def horner_le_bytes take_bit_word_eq_self)
qed

section \<open>Objects\<close>

definition unlocked :: "usize \<Rightarrow> ('tp, 'd) c_world \<Rightarrow> bool" where
  "unlocked tag w \<longleftrightarrow> tag \<notin> w_held w \<and> tag \<notin> w_poisoned w"

lemma unlocked_frame [simp]: "unlocked tag (w\<lparr> w_mem := m \<rparr>) = unlocked tag w" "unlocked tag (w\<lparr> w_inited := i \<rparr>) = unlocked tag w"
  by (simp_all add: unlocked_def)

lemma with_guard_Ret:
  assumes "unlocked tag w" "body (w\<lparr> w_held := insert tag (w_held w) \<rparr>) = (Ret a, t)"
  shows "with_guard tag body w = (Ret a, t\<lparr> w_held := w_held t - {tag} \<rparr>)"
  using assms by (simp add: with_guard_def unlocked_def)

lemma with_guard_poisoned: "tag \<in> w_poisoned w \<Longrightarrow> tag \<notin> w_held w \<Longrightarrow> with_guard tag body w = (Panic, w)"
  by (simp add: with_guard_def)

context registry_slot
begin

lemma with_guard_put:
  assumes "unlocked (sl_tag S) w" "body (w\<lparr> w_held := insert (sl_tag S) (w_held w) \<rparr>) = (Ret a, sl_put S g (w\<lparr> w_held := insert (sl_tag S) (w_held w) \<rparr>))"
  shows "with_guard (sl_tag S) body w = (Ret a, sl_put S g w)"
proof -
  let ?v = "w\<lparr> w_held := insert (sl_tag S) (w_held w) \<rparr>"
  have "with_guard (sl_tag S) body w = (Ret a, (sl_put S g ?v)\<lparr> w_held := w_held (sl_put S g ?v) - {sl_tag S} \<rparr>)"
    using assms by (rule with_guard_Ret)
  also have "(sl_put S g ?v)\<lparr> w_held := w_held (sl_put S g ?v) - {sl_tag S} \<rparr> = (sl_put S g w)\<lparr> w_held := w_held (sl_put S g w) \<rparr>"
    using assms(1) by (simp add: put_held put_frame unlocked_def)
  finally show ?thesis by simp
qed

lemma reg_get_run: "unlocked (sl_tag S) w \<Longrightarrow> reg_get S key w = (Ret (registry_get (sl_get S w) key), w)"
  unfolding reg_get_def by (subst with_guard_Ret) (auto simp: guarded_get_def get_frame unlocked_def)

lemma reg_insert_run:
  assumes "world_inv w" "unlocked (sl_tag S) w" "or_counter (sl_get S w) < COUNTER_MAX 4"
  obtains key g where "reg_insert S v w = (Ret key, sl_put S g w)" "registry_get g = (registry_get (sl_get S w))(key \<mapsto> v)"
    "registry_inv (sl_tag S) 4 g" "or_counter g = or_counter (sl_get S w) + 1"
proof -
  obtain g where g: "registry_insert (sl_tag S) 4 v (sl_get S w) = (Ret (get_key_from_counter (sl_tag S) 4 (or_counter (sl_get S w) + 1)), g)"
    "registry_inv (sl_tag S) 4 g" "or_counter g = or_counter (sl_get S w) + 1"
    "registry_get g = (registry_get (sl_get S w))(get_key_from_counter (sl_tag S) 4 (or_counter (sl_get S w) + 1) \<mapsto> v)"
    using registry_insert_spec [OF tag_ok inv_get [OF assms(1)] assms(3), of v] by metis
  have "reg_insert S v w = (Ret (get_key_from_counter (sl_tag S) 4 (or_counter (sl_get S w) + 1)), sl_put S g w)"
    unfolding reg_insert_def by (rule with_guard_put [OF assms(2)]) (simp add: get_frame g(1))
  with g that show ?thesis by metis
qed

lemma reg_remove_run:
  assumes "unlocked (sl_tag S) w" "registry_remove key (sl_get S w) = (x, g)"
  shows "reg_remove S key w = (Ret x, sl_put S g w)"
  unfolding reg_remove_def by (rule with_guard_put [OF assms(1)]) (simp add: get_frame assms(2))

lemma return_handle_run:
  assumes "world_inv w" "unlocked (sl_tag S) w" "or_counter (sl_get S w) < COUNTER_MAX 4"
  obtains key g where "return_handle S out v w = (Ret (Ok ()), (sl_put S g w)\<lparr> w_mem := mem_store out (le_bytes 8 key) (w_mem w) \<rparr>)"
    "registry_get g = (registry_get (sl_get S w))(key \<mapsto> v)" "registry_inv (sl_tag S) 4 g"
proof -
  obtain key g where g: "reg_insert S v w = (Ret key, sl_put S g w)" "registry_get g = (registry_get (sl_get S w))(key \<mapsto> v)"
    "registry_inv (sl_tag S) 4 g"
    using reg_insert_run [OF assms] by metis
  then have "return_handle S out v w = (Ret (Ok ()), (sl_put S g w)\<lparr> w_mem := mem_store out (le_bytes 8 key) (w_mem w) \<rparr>)"
    by (simp add: return_handle_def action_defs put_word_def put_bytes_def put_frame)
  with g that show ?thesis by metis
qed

lemma cloned_run:
  "unlocked (sl_tag S) w \<Longrightarrow> cloned S name key body w =
     (case registry_get (sl_get S w) key of Some v \<Rightarrow> body v w | None \<Rightarrow> (Ret (Err (InvalidHandle name)), w))"
  by (simp add: cloned_def andthen_def reg_get_run bail_def ret_def split: option.splits)

lemma borrowed_mem:
  assumes "unlocked (sl_tag S) w" "registry_get (sl_get S w) key = Some v" "\<And>u. body v u = (Ret r, u\<lparr> w_mem := f (w_mem u) \<rparr>)"
  shows "borrowed S name key body w = (Ret r, w\<lparr> w_mem := f (w_mem w) \<rparr>)"
  using assms by (simp add: borrowed_def with_guard_def andthen_def guarded_get_def get_frame unlocked_def)

lemma get_valid:
  assumes "world_inv w" "registry_get (sl_get S w) k \<noteq> None"
  shows "k \<noteq> 0" "get_tag_from_key 4 k = sl_tag S"
proof -
  have inv: "registry_inv (sl_tag S) 4 (sl_get S w)" by (rule inv_get [OF assms(1)])
  then obtain c where c: "0 < c" "c \<le> or_counter (sl_get S w)" "k = get_key_from_counter (sl_tag S) 4 c"
    using registry_get_old assms(2) by blast
  moreover have "c \<le> COUNTER_MAX 4" using inv c(2) by (auto simp: registry_inv_def)
  ultimately show "k \<noteq> 0" "get_tag_from_key 4 k = sl_tag S"
    using key_parts(1) [OF tag_ok] key_not_null [OF tag_ok] by auto
qed

lemma cloned_other:
  assumes "world_inv w" "unlocked (sl_tag S) w" "get_tag_from_key 4 k \<noteq> sl_tag S"
  shows "cloned S name k body w = (Ret (Err (InvalidHandle name)), w)"
proof -
  have "registry_get (sl_get S w) k = None" using get_valid(2) [OF assms(1), of k] assms(3) by blast
  then show ?thesis by (simp add: cloned_run [OF assms(2)])
qed

end

section \<open>Failures\<close>

lemma error_message_run:
  assumes "unlocked ERROR_TAG w" "key \<noteq> 0" "registry_get (w_error w) key = Some x"
  shows "gosling_error_get_message key w = (Ret (Some (err_message x @ [0])), w)"
proof -
  have "registry_contains_key (w_error w) key" using assms(3)
    by (auto simp: registry_contains_key_def registry_get_def split: option.splits)
  with assms show ?thesis
    by (simp add: gosling_error_get_message_def with_guard_def unlocked_def error_slot_def)
qed

text \<open>
  A failure that can be reported: nobody asks for it, or there is room for one more error object. What the caller finds
  afterwards: the handle at the place it gave leads to an error object with the text of the failure.
\<close>

definition reportable :: "usize \<Rightarrow> ('tp, 'd) c_world \<Rightarrow> bool" where
  "reportable out_error w \<longleftrightarrow> out_error = 0 \<or> unlocked ERROR_TAG w \<and> or_counter (w_error w) < COUNTER_MAX 4"

definition error_readable :: "usize \<Rightarrow> string \<Rightarrow> ('tp, 'd) c_world \<Rightarrow> bool" where
  "error_readable out_error message w \<longleftrightarrow> (out_error \<noteq> 0 \<longrightarrow>
     gosling_error_get_message (mem_word out_error (w_mem w)) w = (Ret (Some (err_message (error_new message) @ [0])), w))"

lemma report_failure_reads:
  assumes "world_inv w" "reportable out_error w"
  shows "\<exists>t. report_failure d out_error message w = (Ret d, t) \<and> error_readable out_error message t"
proof (cases "out_error = 0")
  case True
  then show ?thesis by (simp add: report_failure_def ret_def error_readable_def)
next
  case False
  then have error: "unlocked ERROR_TAG w" "or_counter (w_error w) < COUNTER_MAX 4" using assms(2) by (simp_all add: reportable_def)
  then have slot: "unlocked (sl_tag (error_slot :: (('a, 'b) c_world, c_error) slot)) w" "or_counter (sl_get error_slot w) < COUNTER_MAX 4"
    by (simp_all add: error_slot_def)
  obtain key g where g: "reg_insert error_slot (error_new message) w = (Ret key, sl_put error_slot g w)"
    "registry_get g = (registry_get (sl_get error_slot w))(key \<mapsto> error_new message)" "registry_inv ERROR_TAG 4 g"
    by (rule errors.reg_insert_run [OF assms(1) slot, of "error_new message"]) (rule that, simp_all)
  let ?t = "(sl_put error_slot g w)\<lparr> w_mem := mem_store out_error (le_bytes 8 key) (w_mem w) \<rparr>"
  have run: "report_failure d out_error message w = (Ret d, ?t)"
    using False g(1) by (simp add: report_failure_def action_defs put_word_def put_bytes_def errors.put_frame)
  have inv: "world_inv ?t" using errors.inv_put [OF assms(1), of g] g(3) by simp
  have get: "registry_get (w_error ?t) key = Some (error_new message)" using g(2) by (simp add: error_slot_def)
  then have "key \<noteq> 0" using errors.get_valid(1) [OF inv, of key] by (simp add: error_slot_def)
  moreover have "unlocked ERROR_TAG ?t" using error(1) by (simp add: unlocked_def error_slot_def)
  ultimately have "error_readable out_error message ?t"
    using error_message_run [of ?t key, OF _ _ get] by (simp add: error_readable_def)
  then show ?thesis using run by (intro exI [of _ ?t]) simp
qed

lemma report_failure_run:
  assumes "world_inv w" "unlocked ERROR_TAG w" "or_counter (w_error w) < COUNTER_MAX 4" "out_error \<noteq> 0" "0 \<notin> set (as_bytes message)"
  shows "\<exists>t. report_failure d out_error message w = (Ret d, t) \<and>
    gosling_error_get_message (mem_word out_error (w_mem t)) t = (Ret (Some (as_bytes message @ [0])), t)"
  using report_failure_reads [OF assms(1), of out_error d message] assms(2-5)
  by (auto simp: reportable_def error_readable_def error_new_def)

section \<open>Programs\<close>

definition library_start :: "(usize \<Rightarrow> byte) \<Rightarrow> ('tp, 'd) c_world" where
  "library_start mem = \<lparr> w_mem = mem, w_held = {}, w_poisoned = {}, w_blocked = False, w_inited = False,
     w_error = \<lparr> or_map = None, or_counter = 0 \<rparr>,
     w_ed25519_private_key = \<lparr> or_map = None, or_counter = 0 \<rparr>,
     w_x25519_private_key = \<lparr> or_map = None, or_counter = 0 \<rparr>,
     w_x25519_public_key = \<lparr> or_map = None, or_counter = 0 \<rparr>,
     w_v3_onion_service_id = \<lparr> or_map = None, or_counter = 0 \<rparr>,
     w_ip_addr = \<lparr> or_map = None, or_counter = 0 \<rparr>,
     w_target_addr = \<lparr> or_map = None, or_counter = 0 \<rparr>,
     w_proxy_config = \<lparr> or_map = None, or_counter = 0 \<rparr>,
     w_pluggable_transport_config = \<lparr> or_map = None, or_counter = 0 \<rparr>,
     w_bridge_line = \<lparr> or_map = None, or_counter = 0 \<rparr>,
     w_tor_provider_config = \<lparr> or_map = None, or_counter = 0 \<rparr>,
     w_tor_provider = \<lparr> or_map = None, or_counter = 0 \<rparr>,
     w_context_tuple = \<lparr> or_map = None, or_counter = 0 \<rparr> \<rparr>"

inductive c_runs :: "('tp, 'd) c_host \<Rightarrow> ('tp, 'd) c_world \<Rightarrow> bool" for H where
  c_runs_start: "c_runs H (library_start mem)"
| c_runs_memory: "c_runs H w \<Longrightarrow> c_runs H (w\<lparr> w_mem := mem \<rparr>)"
| c_runs_call: "c_runs H w \<Longrightarrow> api_call H m \<Longrightarrow> m w = (Ret (), t) \<Longrightarrow> c_runs H t"

lemma start_at_locks: "at_locks {} (library_start mem)"
  by (simp add: at_locks_def world_inv_def library_start_def registry_inv_def)

lemma c_runs_at_locks:
  assumes "c_runs H w" "host_ok H"
  shows "at_locks {} w"
  using assms(1)
proof induction
  case (c_runs_start mem)
  show ?case by (rule start_at_locks)
next
  case (c_runs_memory w mem)
  then show ?case by (simp add: at_locks_def)
next
  case (c_runs_call w m t)
  then show ?case using soundD [OF api_sound [OF assms(2)]] by (simp add: standing_none [symmetric] del: standing_none)
qed

text \<open>The types of objects, their tags, and the handles that are valid in a state.\<close>

datatype c_type =
    CError
  | CEd25519PrivateKey
  | CX25519PrivateKey
  | CX25519PublicKey
  | CV3OnionServiceId
  | CIpAddr
  | CTargetAddr
  | CProxyConfig
  | CPluggableTransportConfig
  | CBridgeLine
  | CTorProviderConfig
  | CTorProvider
  | CContextTuple

fun type_tag :: "c_type \<Rightarrow> usize" where
  "type_tag CError = ERROR_TAG"
| "type_tag CEd25519PrivateKey = ED25519_PRIVATE_KEY_TAG"
| "type_tag CX25519PrivateKey = X25519_PRIVATE_KEY_TAG"
| "type_tag CX25519PublicKey = X25519_PUBLIC_KEY_TAG"
| "type_tag CV3OnionServiceId = V3_ONION_SERVICE_ID_TAG"
| "type_tag CIpAddr = IP_ADDR_TAG"
| "type_tag CTargetAddr = TARGET_ADDR_TAG"
| "type_tag CProxyConfig = PROXY_CONFIG_TAG"
| "type_tag CPluggableTransportConfig = PLUGGABLE_TRANSPORT_CONFIG_TAG"
| "type_tag CBridgeLine = BRIDGE_LINE_TAG"
| "type_tag CTorProviderConfig = TOR_PROVIDER_CONFIG_TAG"
| "type_tag CTorProvider = TOR_PROVIDER_TAG"
| "type_tag CContextTuple = CONTEXT_TUPLE_TAG"

fun valid_handle :: "('tp, 'd) c_world \<Rightarrow> c_type \<Rightarrow> usize \<Rightarrow> bool" where
  "valid_handle w CError k = registry_contains_key (w_error w) k"
| "valid_handle w CEd25519PrivateKey k = registry_contains_key (w_ed25519_private_key w) k"
| "valid_handle w CX25519PrivateKey k = registry_contains_key (w_x25519_private_key w) k"
| "valid_handle w CX25519PublicKey k = registry_contains_key (w_x25519_public_key w) k"
| "valid_handle w CV3OnionServiceId k = registry_contains_key (w_v3_onion_service_id w) k"
| "valid_handle w CIpAddr k = registry_contains_key (w_ip_addr w) k"
| "valid_handle w CTargetAddr k = registry_contains_key (w_target_addr w) k"
| "valid_handle w CProxyConfig k = registry_contains_key (w_proxy_config w) k"
| "valid_handle w CPluggableTransportConfig k = registry_contains_key (w_pluggable_transport_config w) k"
| "valid_handle w CBridgeLine k = registry_contains_key (w_bridge_line w) k"
| "valid_handle w CTorProviderConfig k = registry_contains_key (w_tor_provider_config w) k"
| "valid_handle w CTorProvider k = registry_contains_key (w_tor_provider w) k"
| "valid_handle w CContextTuple k = registry_contains_key (w_context_tuple w) k"

lemma type_tag_inj: "type_tag a = type_tag b \<Longrightarrow> a = b"
  by (cases a; cases b) (simp_all add: tag_defs)

lemma contains_key_valid:
  assumes "tag_fits tag 4" "registry_inv tag 4 r" "registry_contains_key r k"
  shows "k \<noteq> 0 \<and> get_tag_from_key 4 k = tag"
proof -
  have "registry_get r k \<noteq> None" using assms(3)
    by (auto simp: registry_contains_key_def registry_get_def split: option.splits)
  then obtain c where c: "0 < c" "c \<le> or_counter r" "k = get_key_from_counter tag 4 c"
    using registry_get_old assms(2) by blast
  moreover have "c \<le> COUNTER_MAX 4" using assms(2) c(2) by (auto simp: registry_inv_def)
  ultimately show ?thesis using key_parts(1) [OF assms(1)] key_not_null [OF assms(1)] by auto
qed

lemma valid_handle_tag:
  assumes "world_inv w" "valid_handle w ty k"
  shows "k \<noteq> 0 \<and> get_tag_from_key 4 k = type_tag ty"
proof -
  note inv = assms(1) [unfolded world_inv_def]
  show ?thesis using assms(2) by (cases ty) (use contains_key_valid tags_fit inv in \<open>auto simp only: valid_handle.simps type_tag.simps\<close>)
qed

section \<open>Texts\<close>

lemma is_ascii_utf8: "is_ascii s \<Longrightarrow> utf8_valid (as_bytes s)"
  unfolding is_ascii_def by (induction "as_bytes s" arbitrary: s) (auto simp: as_bytes_def)

text \<open>The memory after a text of \<open>n\<close> bytes and its terminator are written.\<close>

definition text_at :: "usize \<Rightarrow> string \<Rightarrow> (usize \<Rightarrow> byte) \<Rightarrow> usize \<Rightarrow> byte" where
  "text_at out s m = mem_store (out + of_nat (length s)) [0] (mem_store out (as_bytes s) m)"

lemma text_at_load: "length s < 2 ^ 32 \<Longrightarrow> mem_load out (length s) (text_at out s m) = as_bytes s"
proof (rule nth_equalityI)
  fix i
  assume s: "length s < 2 ^ 32" and "i < length (mem_load out (length s) (text_at out s m))"
  then have i: "i < length s" by (simp add: mem_load_def)
  have "unat (out + of_nat i - (out + of_nat (length s))) \<noteq> 0"
  proof
    assume "unat (out + of_nat i - (out + of_nat (length s))) = 0"
    then have "(of_nat i :: usize) = of_nat (length s)" by (simp add: unat_eq_0)
    then have "unat (of_nat i :: usize) = unat (of_nat (length s) :: usize)" by simp
    with i s show False by (simp add: unat_offset)
  qed
  then show "mem_load out (length s) (text_at out s m) ! i = as_bytes s ! i"
    using i s by (simp add: mem_load_def text_at_def mem_store_def unat_offset as_bytes_def)
qed (simp add: mem_load_def as_bytes_def)

lemma text_at_outside: "length s < 2 ^ 32 \<Longrightarrow> length s < unat (a - out) \<Longrightarrow> text_at out s m a = m a"
proof -
  assume s: "length s < 2 ^ 32" "length s < unat (a - out)"
  have "unat (a - (out + of_nat (length s))) \<noteq> 0"
  proof
    assume "unat (a - (out + of_nat (length s))) = 0"
    then have "a - out = of_nat (length s)" by (simp add: unat_eq_0 algebra_simps)
    with s show False by (simp add: unat_offset)
  qed
  with s show ?thesis by (simp add: text_at_def mem_store_def as_bytes_def)
qed

lemma text_at_terminated: "text_at out s m (out + of_nat (length s)) = 0"
  by (simp add: text_at_def mem_store_def)

lemma fill_string_run: "length s = n \<Longrightarrow> fill_string out s n w = (Ret (Ok ()), w\<lparr> w_mem := text_at out s (w_mem w) \<rparr>)"
  by (simp add: fill_string_def action_defs put_bytes_def text_at_def as_bytes_def)

lemma service_id_to_string_run:
  assumes "unlocked V3_ONION_SERVICE_ID_TAG w" "registry_get (w_v3_onion_service_id w) k = Some sid" "k \<noteq> 0" "out \<noteq> 0"
    and "length (sid_data sid) = V3_ONION_SERVICE_ID_STRING_LENGTH" "V3_ONION_SERVICE_ID_STRING_SIZE \<le> unat n"
  shows "gosling_v3_onion_service_id_to_string E k out n error w = (Ret (), w\<lparr> w_mem := text_at out (sid_data sid) (w_mem w) \<rparr>)"
proof -
  have "borrowed v3_onion_service_id_slot ''service_id'' k
      (\<lambda>x. fill_string out (service_id_to_string x) V3_ONION_SERVICE_ID_STRING_LENGTH) w =
    (Ret (Ok ()), w\<lparr> w_mem := text_at out (sid_data sid) (w_mem w) \<rparr>)"
    by (rule v3_onion_service_ids.borrowed_mem [where v = sid])
      (use assms in \<open>simp_all add: v3_onion_service_id_slot_def service_id_to_string_def fill_string_run\<close>)
  then show ?thesis using assms(3, 4, 6)
    by (simp add: gosling_v3_onion_service_id_to_string_def translate_failures_def ensure_not_null_def)
qed

lemma service_id_from_string_run:
  assumes "world_inv w" "unlocked V3_ONION_SERVICE_ID_TAG w" "or_counter (w_v3_onion_service_id w) < COUNTER_MAX 4"
    and "mem_load p V3_ONION_SERVICE_ID_STRING_LENGTH (w_mem w) = as_bytes s" "is_ascii s" "service_id_is_valid (e_crypto E) s"
    and "p \<noteq> 0" "out \<noteq> 0" "unat len = V3_ONION_SERVICE_ID_STRING_LENGTH"
  shows "\<exists>t. gosling_v3_onion_service_id_from_string E out p len error w = (Ret (), t) \<and>
    registry_get (w_v3_onion_service_id t) (mem_word out (w_mem t)) = Some \<lparr> sid_data = s \<rparr>"
proof -
  let ?S = "v3_onion_service_id_slot :: (('a, 'b) c_world, v3_onion_service_id) slot"
  have slot: "unlocked (sl_tag ?S) w" "or_counter (sl_get ?S w) < COUNTER_MAX 4"
    using assms(2, 3) by (simp_all add: v3_onion_service_id_slot_def)
  obtain key g where g: "return_handle ?S out \<lparr> sid_data = s \<rparr> w =
      (Ret (Ok ()), (sl_put ?S g w)\<lparr> w_mem := mem_store out (le_bytes 8 key) (w_mem w) \<rparr>)"
    "registry_get g = (registry_get (sl_get ?S w))(key \<mapsto> \<lparr> sid_data = s \<rparr>)"
    by (rule v3_onion_service_ids.return_handle_run [OF assms(1) slot, of out "\<lparr> sid_data = s \<rparr>"]) (rule that)
  have "service_id_from_string (e_crypto E) s = Ok \<lparr> sid_data = s \<rparr>" using assms(6) by (simp add: service_id_from_string_def)
  then have "gosling_v3_onion_service_id_from_string E out p len error w =
      (Ret (), (sl_put ?S g w)\<lparr> w_mem := mem_store out (le_bytes 8 key) (w_mem w) \<rparr>)"
    using assms(4, 7-9) is_ascii_utf8 [OF assms(5)] g(1)
    by (simp add: gosling_v3_onion_service_id_from_string_def translate_failures_def ensure_not_null_def utf8_slice_def lift_result_def)
  then show ?thesis using g(2) by (simp add: v3_onion_service_id_slot_def)
qed

section \<open>Polling\<close>

lemma get_mut_get: "registry_get r k = Some v \<Longrightarrow> \<exists>wr. registry_get_mut r k = Some (v, wr)"
  by (auto simp: registry_get_mut_def registry_get_def split: option.splits)

lemma drain_failure:
  assumes "drain_events H E k cbs es1 w = (Ret (Ok ()), v)" "handle_context_event H E ev k cbs v = (Ret (Err e), u)"
  shows "drain_events H E k cbs (es1 @ ev # es2) w = andthen (save_events k es2) (\<lambda>_. bail e) u"
  using assms by (induction es1 arbitrary: w) (auto simp: andthen_def ret_def bail_def split: prod.splits outcome.splits result.splits)

lemma drain_panic:
  assumes "drain_events H E k cbs es1 w = (Ret (Ok ()), v)" "handle_context_event H E ev k cbs v = (Panic, u)"
  shows "drain_events H E k cbs (es1 @ ev # es2) w = (Panic, u)"
  using assms by (induction es1 arbitrary: w) (auto simp: andthen_def ret_def bail_def split: prod.splits outcome.splits result.splits)

text \<open>What the next poll takes: the events left, then the new ones of the context.\<close>

lemma take_events_run:
  assumes "world_inv w" "unlocked CONTEXT_TUPLE_TAG w" "registry_get (w_context_tuple w) k = Some (c, cbs, left)"
    and "context_update (e_bson E) (e_crypto E) (e_tor E) (e_now E) (e_random E) (e_generated E) c = (Ret (Ok new), c')"
  shows "\<exists>t. take_events E k w = (Ret (Ok ((case left of Some es \<Rightarrow> es | None \<Rightarrow> []) @ new, cbs)), t) \<and>
    registry_get (w_context_tuple t) k = Some (c', cbs, None)"
proof -
  let ?S = "context_tuple_slot :: (('a, 'b) c_world, ('a, 'b) context_tuple) slot"
  obtain wr where wr: "registry_get_mut (sl_get ?S w) k = Some ((c, cbs, left), wr)"
    using get_mut_get [OF assms(3)] by (auto simp: context_tuple_slot_def)
  let ?g = "wr (c', cbs, None)"
  have unl: "unlocked (sl_tag ?S) w" using assms(2) by simp
  have "take_events E k w = (Ret (Ok ((case left of Some es \<Rightarrow> es | None \<Rightarrow> []) @ new, cbs)), sl_put ?S ?g w)"
    unfolding take_events_def
    by (rule context_tuples.with_guard_put [OF unl, unfolded slot_tags])
      (use wr assms(4) in \<open>auto simp: context_tuples.get_frame split: option.splits\<close>)
  moreover have "registry_get ?g k = Some (c', cbs, None)"
    using registry_write_spec(2) [OF context_tuples.inv_get [OF assms(1)] wr] by simp
  ultimately show ?thesis by (auto simp: context_tuple_slot_def)
qed

lemma save_events_run:
  assumes "world_inv w" "unlocked CONTEXT_TUPLE_TAG w" "registry_get (w_context_tuple w) k = Some (c, cbs, None)"
  shows "\<exists>t left. save_events k es w = (Ret (), t) \<and> registry_get (w_context_tuple t) k = Some (c, cbs, left) \<and>
    (case left of Some es \<Rightarrow> es | None \<Rightarrow> []) = es \<and> world_inv t \<and>
    w_held t = w_held w \<and> w_poisoned t = w_poisoned w \<and> w_error t = w_error w"
proof (cases "es = []")
  case True
  with assms show ?thesis by (auto simp: save_events_def ret_def)
next
  case False
  let ?S = "context_tuple_slot :: (('a, 'b) c_world, ('a, 'b) context_tuple) slot"
  obtain wr where wr: "registry_get_mut (sl_get ?S w) k = Some ((c, cbs, None), wr)"
    using get_mut_get [OF assms(3)] by (auto simp: context_tuple_slot_def)
  let ?g = "wr (c, cbs, Some es)"
  have unl: "unlocked (sl_tag ?S) w" using assms(2) by simp
  note inv = context_tuples.inv_get [OF assms(1)]
  have "with_guard (sl_tag ?S) (\<lambda>w. case registry_get_mut (sl_get ?S w) k of
          Some ((c, callbacks, _), write) \<Rightarrow> (Ret (), sl_put ?S (write (c, callbacks, Some es)) w)
        | None \<Rightarrow> (Ret (), w)) w = (Ret (), sl_put ?S ?g w)"
    by (rule context_tuples.with_guard_put [OF unl]) (use wr in \<open>simp add: context_tuples.get_frame\<close>)
  then have "save_events k es w = (Ret (), sl_put ?S ?g w)" using False by (simp add: save_events_def)
  moreover have "registry_get (w_context_tuple (sl_put ?S ?g w)) k = Some (c, cbs, Some es)"
    using registry_write_spec(2) [OF inv wr] by (simp add: context_tuple_slot_def)
  moreover have "world_inv (sl_put ?S ?g w)" by (rule context_tuples.inv_put [OF assms(1) registry_write_spec(3) [OF inv wr]])
  moreover have "w_error (sl_put ?S ?g w) = w_error w" by (simp add: context_tuple_slot_def)
  ultimately show ?thesis by (intro exI [of _ "sl_put ?S ?g w"] exI [of _ "Some es"]) (simp add: context_tuples.put_frame)
qed

text \<open>Reporting a failure leaves the contexts as they are.\<close>

lemma report_failure_frame:
  assumes "report_failure d out_error message w = (Ret x, t)" "world_inv w" "ERROR_TAG \<notin> w_held w"
  shows "w_context_tuple t = w_context_tuple w" "w_poisoned t = w_poisoned w" "w_held t = w_held w" "world_inv t"
proof -
  have "w_context_tuple t = w_context_tuple w \<and> w_poisoned t = w_poisoned w \<and> w_held t = w_held w \<and> world_inv t"
  proof (cases "out_error = 0")
    case True
    with assms(1, 2) show ?thesis by (simp add: report_failure_def ret_def)
  next
    case False
    with assms(1) obtain key u where u: "reg_insert error_slot (error_new message) w = (Ret key, u)"
      "t = u\<lparr> w_mem := mem_store out_error (le_bytes 8 key) (w_mem u) \<rparr>"
      by (auto simp: report_failure_def action_defs put_word_def put_bytes_def split: prod.splits outcome.splits)
    then obtain g where g: "u = w\<lparr> w_error := g \<rparr>" "registry_insert ERROR_TAG 4 (error_new message) (w_error w) = (Ret key, g)"
      using assms(3) by (auto simp: reg_insert_def with_guard_def error_slot_def split: if_splits prod.splits outcome.splits)
    have "registry_inv ERROR_TAG 4 g"
      using errors.insert_inv(1) [of "w_error w" "error_new message" "Ret key" g] g(2) assms(2) by (simp add: world_inv_def)
    with u(2) g(1) assms(2) show ?thesis by (simp add: world_inv_def)
  qed
  then show "w_context_tuple t = w_context_tuple w" "w_poisoned t = w_poisoned w" "w_held t = w_held w" "world_inv t" by auto
qed

text \<open>
  A poll that meets a failing event saves the events behind it before it reports the failure: they are what the
  next poll takes first.
\<close>

lemma poll_failure:
  assumes "take_events E k w = (Ret (Ok (es1 @ ev # es2, cbs)), v)" "drain_events H E k cbs es1 v = (Ret (Ok ()), v1)"
    and "handle_context_event H E ev k cbs v1 = (Ret (Err e), u)" "at_locks {} u" "CONTEXT_TUPLE_TAG \<notin> w_poisoned u"
    and "registry_get (w_context_tuple u) k = Some (c, cbs', None)" "reportable error u"
  shows "\<exists>t left. gosling_context_poll_events H E k error w = (Ret (), t) \<and>
    registry_get (w_context_tuple t) k = Some (c, cbs', left) \<and> (case left of Some es \<Rightarrow> es | None \<Rightarrow> []) = es2 \<and>
    world_inv t \<and> unlocked CONTEXT_TUPLE_TAG t \<and> error_readable error (e_debug E e) t"
proof -
  have u: "world_inv u" "w_held u = {}" using assms(4) by (simp_all add: at_locks_def)
  then have unl: "unlocked CONTEXT_TUPLE_TAG u" using assms(5) by (simp add: unlocked_def)
  obtain s left where s: "save_events k es2 u = (Ret (), s)" "registry_get (w_context_tuple s) k = Some (c, cbs', left)"
    "(case left of Some es \<Rightarrow> es | None \<Rightarrow> []) = es2" "world_inv s" "w_held s = w_held u" "w_poisoned s = w_poisoned u" "w_error s = w_error u"
    using save_events_run [OF u(1) unl assms(6), of es2] by (elim exE conjE) (rule that)
  have rep: "reportable error s" using assms(7) s(5-7) by (simp add: reportable_def unlocked_def)
  obtain t where t: "report_failure () error (e_debug E e) s = (Ret (), t)" "error_readable error (e_debug E e) t"
    using report_failure_reads [OF s(4) rep, of "()" "e_debug E e"] by (elim exE conjE) (rule that)
  have "ERROR_TAG \<notin> w_held s" using u(2) s(5) by simp
  note frame = report_failure_frame [OF t(1) s(4) this]
  have "gosling_context_poll_events H E k error w = (Ret (), t)"
    using assms(1) drain_failure [OF assms(2, 3), of es2] s(1) t(1)
    by (simp add: gosling_context_poll_events_def translate_failures_def try_then_def andthen_def bail_def ret_def)
  then show ?thesis using frame s u(2) assms(5) t(2) by (auto simp: unlocked_def)
qed

lemma poll_panic:
  assumes "take_events E k w = (Ret (Ok (es1 @ ev # es2, cbs)), v)" "drain_events H E k cbs es1 v = (Ret (Ok ()), v1)"
    and "handle_context_event H E ev k cbs v1 = (Panic, u)"
  shows "gosling_context_poll_events H E k error w = report_failure () error ''panic occurred'' u"
  using assms(1) drain_panic [OF assms(2, 3), of es2]
  by (simp add: gosling_context_poll_events_def translate_failures_def try_then_def andthen_def)

text \<open>A channel name with a null byte is no C string.\<close>

lemma channel_request_nul:
  assumes "world_inv w" "unlocked V3_ONION_SERVICE_ID_TAG w" "or_counter (w_v3_onion_service_id w) < COUNTER_MAX 4"
    and "endpoint_server_channel_supported_callback cbs = Some f" "0 \<in> set (as_bytes channel)"
  shows "\<exists>g. handle_context_event H E (EndpointServerChannelRequestReceived h client channel) k cbs w =
    (Panic, w\<lparr> w_v3_onion_service_id := g \<rparr>) \<and> registry_inv V3_ONION_SERVICE_ID_TAG 4 g"
proof -
  let ?S = "v3_onion_service_id_slot :: (('a, 'b) c_world, v3_onion_service_id) slot"
  have slot: "unlocked (sl_tag ?S) w" "or_counter (sl_get ?S w) < COUNTER_MAX 4"
    using assms(2, 3) by (simp_all add: v3_onion_service_id_slot_def)
  obtain key g where "reg_insert ?S client w = (Ret key, sl_put ?S g w)" "registry_inv V3_ONION_SERVICE_ID_TAG 4 g"
    by (rule v3_onion_service_ids.reg_insert_run [OF assms(1) slot, of client]) (rule that, simp_all)
  then show ?thesis using assms(4, 5)
    by (auto simp: on_channel_request_def required_def c_string_def andthen_def panic_def v3_onion_service_id_slot_def)
qed

end
