(* ===== verification/Ffi_Poisoning.thy ===== *)
theory Ffi_Poisoning
  imports Ffi_Facts
begin

unbundle bit_operations_syntax

text \<open>
  A panic under a guard poisons the mutex of a registry for the rest of the program. What that means for the
  registry of contexts: in every later state no function of the interface can use, create or free a context.
\<close>

section \<open>Poisoned mutexes\<close>

text \<open>A panic under the guard of the contexts leaves their mutex poisoned for the rest of the program.\<close>

definition contexts_poisoned :: "('tp, 'd) c_world \<Rightarrow> bool" where
  "contexts_poisoned w \<longleftrightarrow> at_locks {} w \<and> CONTEXT_TUPLE_TAG \<in> w_poisoned w"

lemma report_failure_poisoned:
  assumes "report_failure d out_error message w = (Ret x, t)" "contexts_poisoned w"
  shows "contexts_poisoned t"
proof -
  have w: "world_inv w" "w_held w = {}" "\<not> w_blocked w" "CONTEXT_TUPLE_TAG \<in> w_poisoned w"
    using assms(2) by (simp_all add: contexts_poisoned_def at_locks_def)
  have "at_locks {} t" using soundD [OF sound_report_failure [of "{}"] _ assms(1), of "{}"] w by (simp add: at_locks_def)
  moreover have "w_poisoned t = w_poisoned w" using report_failure_frame(2) [OF assms(1) w(1)] w(2) by simp
  ultimately show ?thesis using w(4) by (simp add: contexts_poisoned_def)
qed

lemma take_events_panic:
  assumes "at_locks {} w" "CONTEXT_TUPLE_TAG \<notin> w_poisoned w" "registry_get (w_context_tuple w) k = Some (c, cbs, left)"
    and "context_update (e_bson E) (e_crypto E) (e_tor E) (e_now E) (e_random E) (e_generated E) c = (Panic, c')"
  shows "\<exists>t. take_events E k w = (Panic, t) \<and> contexts_poisoned t \<and> w_error t = w_error w \<and>
    w_poisoned t = insert CONTEXT_TUPLE_TAG (w_poisoned w)"
proof -
  let ?S = "context_tuple_slot :: (('a, 'b) c_world, ('a, 'b) context_tuple) slot"
  obtain wr where wr: "registry_get_mut (sl_get ?S w) k = Some ((c, cbs, left), wr)"
    using get_mut_get [OF assms(3)] by (auto simp: context_tuple_slot_def)
  let ?t = "(sl_put ?S (wr (c', cbs, left)) w)\<lparr> w_poisoned := insert CONTEXT_TUPLE_TAG (w_poisoned w) \<rparr>"
  have w: "world_inv w" "w_held w = {}" "\<not> w_blocked w" using assms(1) by (simp_all add: at_locks_def)
  have "take_events E k w = (Panic, ?t)"
    using wr assms(2, 4) w(2) by (simp add: take_events_def with_guard_def context_tuple_slot_def)
  moreover have "world_inv ?t"
    using context_tuples.inv_put [OF w(1) registry_write_spec(3) [OF context_tuples.inv_get [OF w(1)] wr]] by simp
  ultimately show ?thesis using w by (simp add: contexts_poisoned_def at_locks_def context_tuple_slot_def)
qed

lemma poisoned_contexts:
  assumes "contexts_poisoned w"
  shows "gosling_context_poll_events H E k error w = report_failure () error ''panic occurred'' w"
    "with_context k body w = (Panic, w)" "reg_insert context_tuple_slot v w = (Panic, w)"
  using assms by (simp_all add: contexts_poisoned_def at_locks_def with_guard_def with_context_def borrowed_def reg_insert_def take_events_def
      gosling_context_poll_events_def translate_failures_def try_then_def andthen_def)

context registry_slot
begin

lemma clear_poisoned:
  assumes "\<And>t. contexts_poisoned t \<Longrightarrow> fst (f () t) = Panic" "contexts_poisoned w"
  shows "fst (andthen (reg_clear S) f w) = Panic"
proof (cases "sl_tag S \<in> w_poisoned w")
  case True
  with assms(2) show ?thesis by (simp add: contexts_poisoned_def at_locks_def reg_clear_def with_guard_def andthen_def)
next
  case False
  obtain g :: "'t object_registry" where g: "registry_new (sl_tag S) 4 = Ret g" 
    using tag_ok shift_out [of 4 "sl_tag S"] by (auto simp: registry_new_def COUNTER_BITS_def tag_fits_def)
  have "unlocked (sl_tag S) w" using assms(2) False by (simp add: contexts_poisoned_def at_locks_def unlocked_def)
  then have "reg_clear S w = (Ret (), sl_put S g w)"
    unfolding reg_clear_def by (rule with_guard_put) (simp add: g)
  moreover have "contexts_poisoned (sl_put S g w)"
    using assms(2) inv_put [of w g] registry_inv_new [OF g] by (simp add: contexts_poisoned_def at_locks_def put_frame)
  ultimately show ?thesis using assms(1) by (simp add: andthen_def)
qed

end

lemma library_free_panics:
  assumes "contexts_poisoned w" "w_inited w"
  shows "fst (gosling_library_free lib w) = Panic"
proof -
  have "fst (andthen (reg_clear context_tuple_slot) (\<lambda>_. ret ()) t) = Panic" if "contexts_poisoned t" for t :: "('a, 'b) c_world"
    using that by (simp add: contexts_poisoned_def at_locks_def reg_clear_def with_guard_def andthen_def)
  then have "fst (clear_registries w) = Panic" unfolding clear_registries_def using assms(1)
    by (intro errors.clear_poisoned ed25519_private_keys.clear_poisoned x25519_private_keys.clear_poisoned
      x25519_public_keys.clear_poisoned v3_onion_service_ids.clear_poisoned ip_addrs.clear_poisoned target_addrs.clear_poisoned
      proxy_configs.clear_poisoned pluggable_transport_configs.clear_poisoned bridge_lines.clear_poisoned
      tor_providers.clear_poisoned tor_provider_configs.clear_poisoned)
  then show ?thesis using assms(2) by (cases "clear_registries w") (simp add: gosling_library_free_def andthen_def)
qed

section \<open>Later states\<close>

text \<open>The states a program can reach from one state on, as runs are built from the start.\<close>

inductive c_later :: "('tp, 'd) c_host \<Rightarrow> ('tp, 'd) c_world \<Rightarrow> ('tp, 'd) c_world \<Rightarrow> bool" for H w where
  later_same: "c_later H w w"
| later_memory: "c_later H w u \<Longrightarrow> c_later H w (u\<lparr> w_mem := mem \<rparr>)"
| later_call: "c_later H w u \<Longrightarrow> api_call H m \<Longrightarrow> m u = (Ret (), t) \<Longrightarrow> c_later H w t"

lemma contexts_poisoned_standing: "contexts_poisoned w \<longleftrightarrow> standing {CONTEXT_TUPLE_TAG} {} w"
  by (auto simp: contexts_poisoned_def at_locks_def standing_def)

text \<open>In a poisoned state a poll stops at the mutex, before it calls the program back.\<close>

lemma poisoned_poll_sound: "sound {CONTEXT_TUPLE_TAG} {} (gosling_context_poll_events H E context error)"
proof (rule soundI)
  fix w r t
  assume w: "standing {CONTEXT_TUPLE_TAG} {} w" and run: "gosling_context_poll_events H E context error w = (r, t)"
  have report: "report_failure () error ''panic occurred'' w = (r, t)"
    using run w by (simp add: poisoned_contexts contexts_poisoned_standing)
  show "world_inv t \<and> \<not> w_blocked t \<and> {CONTEXT_TUPLE_TAG} \<subseteq> w_poisoned t \<and> (r \<noteq> OutOfFuel \<longrightarrow> w_held t = {})"
    by (rule sound_run [OF sound_report_failure w report]) simp
qed

lemma later_poisoned:
  assumes "c_later H w u" "contexts_poisoned w"
  shows "contexts_poisoned u"
  using assms(1)
proof induction
  case later_same
  show ?case by (rule assms(2))
next
  case (later_memory u mem)
  then show ?case by (simp add: contexts_poisoned_def at_locks_def)
next
  case (later_call u m t)
  then have u: "standing {CONTEXT_TUPLE_TAG} {} u" by (simp add: contexts_poisoned_standing)
  have "sound {CONTEXT_TUPLE_TAG} {} m" using poisoned_poll_sound later_call(2) by (rule api_call_sound)
  from soundD [OF this u later_call(3)] show ?case by (simp add: contexts_poisoned_standing)
qed

section \<open>Functions that need the contexts\<close>

text \<open>A closure that fails, or panics, and leaves the contexts alone.\<close>

definition fails :: "('tp, 'd, 'a) c_try \<Rightarrow> ('tp, 'd) c_world \<Rightarrow> bool" where
  "fails m w \<longleftrightarrow> (\<exists>r v. m w = (r, v) \<and> (r = Panic \<or> (\<exists>e. r = Ret (Err e))) \<and> w_context_tuple v = w_context_tuple w)"

definition doomed :: "usize set \<Rightarrow> ('tp, 'd, 'a) c_try \<Rightarrow> bool" where
  "doomed L m \<longleftrightarrow> (\<forall>w. standing {CONTEXT_TUPLE_TAG} L w \<longrightarrow> fails m w)"

named_theorems doomed_intros

lemma doomed_bail [doomed_intros]: "doomed L (bail e)"
  by (simp add: doomed_def fails_def bail_def ret_def)

lemma doomed_ensure_not_null [doomed_intros]: "doomed L m \<Longrightarrow> doomed L (ensure_not_null name p m)"
  by (simp add: ensure_not_null_def doomed_bail)

lemma doomed_ensure_not_zero [doomed_intros]: "doomed L m \<Longrightarrow> doomed L (ensure_not_zero name v m)"
  by (simp add: ensure_not_zero_def doomed_bail)

lemma doomed_lift_result [doomed_intros]: "(\<And>a. doomed L (m a)) \<Longrightarrow> doomed L (lift_result f r m)"
  by (cases r) (simp_all add: lift_result_def doomed_bail)

lemma doomed_copied_key [doomed_intros]: "(\<And>k. doomed L (m k)) \<Longrightarrow> doomed L (copied_key E key m)"
  by (auto simp: doomed_def copied_key_def fails_def ed25519_private_clone_def split: result.splits)

lemma doomed_andthen [doomed_intros]:
  assumes "sound {CONTEXT_TUPLE_TAG} L m" "\<And>w. w_context_tuple (snd (m w)) = w_context_tuple w" "\<And>w. w_held w = L \<Longrightarrow> fst (m w) \<noteq> OutOfFuel"
    and "\<And>a. doomed L (f a)"
  shows "doomed L (andthen m f)"
  unfolding doomed_def
proof (intro allI impI)
  fix w :: "('a, 'b) c_world"
  assume w: "standing {CONTEXT_TUPLE_TAG} L w"
  obtain r u where u: "m w = (r, u)" by fastforce
  have fuel: "r \<noteq> OutOfFuel" using assms(3) [of w] w u by (simp add: standing_def)
  have "standing {CONTEXT_TUPLE_TAG} L u" by (rule soundD [OF assms(1) w u fuel])
  then have "fails (f a) u" for a using assms(4) by (simp add: doomed_def)
  then show "fails (andthen m f) w"
    using u fuel assms(2) [of w] by (cases r) (auto simp: andthen_def fails_def)
qed

lemma doomed_try_then [doomed_intros]: "doomed L m \<Longrightarrow> doomed L (try_then m f)"
  by (auto simp: doomed_def fails_def try_then_def andthen_def ret_def)

lemma doomed_handle_of [doomed_intros]: "doomed L m \<Longrightarrow> doomed L (handle_of m)"
  unfolding handle_of_def by (rule doomed_try_then)

lemma doomed_with_guard [doomed_intros]:
  assumes "tag \<notin> L" "doomed (insert tag L) m"
  shows "doomed L (with_guard tag m)"
  unfolding doomed_def
proof (intro allI impI)
  fix w :: "('a, 'b) c_world"
  assume w: "standing {CONTEXT_TUPLE_TAG} L w"
  let ?v = "w\<lparr> w_held := insert tag (w_held w) \<rparr>"
  have "standing {CONTEXT_TUPLE_TAG} (insert tag L) ?v" using w by (simp add: standing_def)
  then have "fails m ?v" using assms(2) by (simp add: doomed_def)
  then show "fails (with_guard tag m) w"
    using w assms(1) by (auto simp: fails_def with_guard_def standing_def)
qed

text \<open>What takes the mutex of the contexts.\<close>

lemma doomed_contexts:
  assumes "CONTEXT_TUPLE_TAG \<notin> L"
  shows "doomed L (with_context context body)" "doomed L (call_context context f)" "doomed L (borrowed_update context_tuple_slot name context change)"
    "doomed L (return_handle context_tuple_slot out c)" "doomed L (take_events E context)"
proof -
  show "doomed L (with_context context body)" "doomed L (call_context context f)" "doomed L (borrowed_update context_tuple_slot name context change)"
    "doomed L (return_handle context_tuple_slot out c)" "doomed L (take_events E context)"
    using assms by (auto simp: doomed_def fails_def standing_def with_guard_def with_context_def call_context_def borrowed_def borrowed_update_def
      return_handle_def reg_insert_def andthen_def take_events_def)
qed

lemma doomed_borrowed [doomed_intros]:
  assumes "sl_tag S \<notin> L" "\<And>v. doomed (insert (sl_tag S) L) (body v)"
  shows "doomed L (borrowed S name key body)"
proof -
  have "doomed (insert (sl_tag S) L) (\<lambda>w. (case x of Some v \<Rightarrow> body v | None \<Rightarrow> bail (InvalidHandle name)) w)" for x
    using assms(2) doomed_bail by (cases x) simp_all
  then have "doomed (insert (sl_tag S) L) (andthen (guarded_get S key) (\<lambda>x. case x of Some v \<Rightarrow> body v | None \<Rightarrow> bail (InvalidHandle name)))"
    by (simp add: doomed_def andthen_def guarded_get_def fails_def)
  then show ?thesis unfolding borrowed_def by (rule doomed_with_guard [OF assms(1)])
qed

lemma tor_provider_removed:
  "w_context_tuple (snd (reg_remove tor_provider_slot key w)) = w_context_tuple w" "w_held w = {} \<Longrightarrow> fst (reg_remove tor_provider_slot key w) \<noteq> OutOfFuel"
  by (auto simp: reg_remove_def with_guard_def tor_provider_slot_def split: prod.splits)

text \<open>The functions of the interface on a context, by the place where each reports its failure.\<close>

inductive context_function :: "('tp, 'd) c_host \<Rightarrow> usize \<Rightarrow> ('tp, 'd, unit) c_action \<Rightarrow> bool" for H error where
  fn_context_init: "context_function H error (called (gosling_context_init E out_context in_tor_provider identity_port endpoint_port identity_private_key error))"
| fn_context_bootstrap_tor: "context_function H error (called (gosling_context_bootstrap_tor E context error))"
| fn_context_start_identity_server: "context_function H error (called (gosling_context_start_identity_server E context error))"
| fn_context_stop_identity_server: "context_function H error (called (gosling_context_stop_identity_server E context error))"
| fn_context_start_endpoint_server: "context_function H error (called (gosling_context_start_endpoint_server E context endpoint_private_key endpoint_name endpoint_name_length client_identity client_auth_public_key error))"
| fn_context_stop_endpoint_server: "context_function H error (called (gosling_context_stop_endpoint_server E context endpoint_private_key error))"
| fn_context_begin_identity_handshake: "context_function H error (called (gosling_context_begin_identity_handshake E context identity_service_id endpoint_name endpoint_name_length error))"
| fn_context_abort_identity_client_handshake: "context_function H error (called (gosling_context_abort_identity_client_handshake E context handshake_handle error))"
| fn_context_begin_endpoint_handshake: "context_function H error (called (gosling_context_begin_endpoint_handshake E context endpoint_service_id client_auth_private_key channel_name channel_name_length error))"
| fn_context_abort_endpoint_client_handshake: "context_function H error (called (gosling_context_abort_endpoint_client_handshake E context handshake_handle error))"
| fn_context_connect: "context_function H error (called (gosling_context_connect E context out_tcp_socket target_address circuit_token error))"
| fn_context_generate_circuit_token: "context_function H error (called (gosling_context_generate_circuit_token E context error))"
| fn_context_release_circuit_token: "context_function H error (called (gosling_context_release_circuit_token E context circuit_token error))"
| fn_context_poll_events: "context_function H error (called (gosling_context_poll_events H E context error))"
| fn_context_set_tor_bootstrap_status_received_callback: "context_function H error (called (gosling_context_set_tor_bootstrap_status_received_callback E context callback error))"
| fn_context_set_tor_bootstrap_completed_callback: "context_function H error (called (gosling_context_set_tor_bootstrap_completed_callback E context callback error))"
| fn_context_set_tor_log_received_callback: "context_function H error (called (gosling_context_set_tor_log_received_callback E context callback error))"
| fn_context_set_identity_client_challenge_response_size_callback: "context_function H error (called (gosling_context_set_identity_client_challenge_response_size_callback E context callback error))"
| fn_context_set_identity_client_build_challenge_response_callback: "context_function H error (called (gosling_context_set_identity_client_build_challenge_response_callback E context callback error))"
| fn_context_set_identity_client_handshake_completed_callback: "context_function H error (called (gosling_context_set_identity_client_handshake_completed_callback E context callback error))"
| fn_context_set_identity_client_handshake_failed_callback: "context_function H error (called (gosling_context_set_identity_client_handshake_failed_callback E context callback error))"
| fn_context_set_identity_server_published_callback: "context_function H error (called (gosling_context_set_identity_server_published_callback E context callback error))"
| fn_context_set_identity_server_handshake_started_callback: "context_function H error (called (gosling_context_set_identity_server_handshake_started_callback E context callback error))"
| fn_context_set_identity_server_client_allowed_callback: "context_function H error (called (gosling_context_set_identity_server_client_allowed_callback E context callback error))"
| fn_context_set_identity_server_endpoint_supported_callback: "context_function H error (called (gosling_context_set_identity_server_endpoint_supported_callback E context callback error))"
| fn_context_set_identity_server_challenge_size_callback: "context_function H error (called (gosling_context_set_identity_server_challenge_size_callback E context callback error))"
| fn_context_set_identity_server_build_challenge_callback: "context_function H error (called (gosling_context_set_identity_server_build_challenge_callback E context callback error))"
| fn_context_set_identity_server_verify_challenge_response_callback: "context_function H error (called (gosling_context_set_identity_server_verify_challenge_response_callback E context callback error))"
| fn_context_set_identity_server_handshake_completed_callback: "context_function H error (called (gosling_context_set_identity_server_handshake_completed_callback E context callback error))"
| fn_context_set_identity_server_handshake_rejected_callback: "context_function H error (called (gosling_context_set_identity_server_handshake_rejected_callback E context callback error))"
| fn_context_set_identity_server_handshake_failed_callback: "context_function H error (called (gosling_context_set_identity_server_handshake_failed_callback E context callback error))"
| fn_context_set_endpoint_client_handshake_completed_callback: "context_function H error (called (gosling_context_set_endpoint_client_handshake_completed_callback E context callback error))"
| fn_context_set_endpoint_client_handshake_failed_callback: "context_function H error (called (gosling_context_set_endpoint_client_handshake_failed_callback E context callback error))"
| fn_context_set_endpoint_server_published_callback: "context_function H error (called (gosling_context_set_endpoint_server_published_callback E context callback error))"
| fn_context_set_endpoint_server_handshake_started_callback: "context_function H error (called (gosling_context_set_endpoint_server_handshake_started_callback E context callback error))"
| fn_context_set_endpoint_server_channel_supported_callback: "context_function H error (called (gosling_context_set_endpoint_server_channel_supported_callback E context callback error))"
| fn_context_set_endpoint_server_handshake_completed_callback: "context_function H error (called (gosling_context_set_endpoint_server_handshake_completed_callback E context callback error))"
| fn_context_set_endpoint_server_handshake_rejected_callback: "context_function H error (called (gosling_context_set_endpoint_server_handshake_rejected_callback E context callback error))"
| fn_context_set_endpoint_server_handshake_failed_callback: "context_function H error (called (gosling_context_set_endpoint_server_handshake_failed_callback E context callback error))"

definition refused :: "usize \<Rightarrow> ('tp, 'd, unit) c_action \<Rightarrow> ('tp, 'd) c_world \<Rightarrow> bool" where
  "refused error m w \<longleftrightarrow> (\<exists>message v. m w = report_failure () error message v \<and> w_context_tuple v = w_context_tuple w)"

lemma called_report: "called (report_failure d error message) w = report_failure () error message w"
  by (auto simp: called_def report_failure_def andthen_def ret_def put_word_def put_bytes_def split: prod.splits outcome.splits)

lemma doomed_refused:
  assumes "doomed {} m" "contexts_poisoned w"
  shows "refused error (called (translate_failures fmt d error m)) w"
proof -
  have "fails m w" using assms by (simp add: doomed_def contexts_poisoned_standing)
  then obtain message v where "translate_failures fmt d error m w = report_failure d error message v" "w_context_tuple v = w_context_tuple w"
    by (auto simp: fails_def translate_failures_def)
  then show ?thesis using called_report [of d error message v] by (auto simp: refused_def called_def andthen_def)
qed

lemmas context_setters = callback_setter_def
  gosling_context_set_tor_bootstrap_status_received_callback_def
  gosling_context_set_tor_bootstrap_completed_callback_def
  gosling_context_set_tor_log_received_callback_def
  gosling_context_set_identity_client_challenge_response_size_callback_def
  gosling_context_set_identity_client_build_challenge_response_callback_def
  gosling_context_set_identity_client_handshake_completed_callback_def
  gosling_context_set_identity_client_handshake_failed_callback_def
  gosling_context_set_identity_server_published_callback_def
  gosling_context_set_identity_server_handshake_started_callback_def
  gosling_context_set_identity_server_client_allowed_callback_def
  gosling_context_set_identity_server_endpoint_supported_callback_def
  gosling_context_set_identity_server_challenge_size_callback_def
  gosling_context_set_identity_server_build_challenge_callback_def
  gosling_context_set_identity_server_verify_challenge_response_callback_def
  gosling_context_set_identity_server_handshake_completed_callback_def
  gosling_context_set_identity_server_handshake_rejected_callback_def
  gosling_context_set_identity_server_handshake_failed_callback_def
  gosling_context_set_endpoint_client_handshake_completed_callback_def
  gosling_context_set_endpoint_client_handshake_failed_callback_def
  gosling_context_set_endpoint_server_published_callback_def
  gosling_context_set_endpoint_server_handshake_started_callback_def
  gosling_context_set_endpoint_server_channel_supported_callback_def
  gosling_context_set_endpoint_server_handshake_completed_callback_def
  gosling_context_set_endpoint_server_handshake_rejected_callback_def
  gosling_context_set_endpoint_server_handshake_failed_callback_def

lemmas context_operations = gosling_context_init_def
  gosling_context_bootstrap_tor_def
  gosling_context_start_identity_server_def
  gosling_context_stop_identity_server_def
  gosling_context_start_endpoint_server_def
  gosling_context_stop_endpoint_server_def
  gosling_context_begin_identity_handshake_def
  gosling_context_abort_identity_client_handshake_def
  gosling_context_begin_endpoint_handshake_def
  gosling_context_abort_endpoint_client_handshake_def
  gosling_context_connect_def
  gosling_context_generate_circuit_token_def
  gosling_context_release_circuit_token_def
  gosling_context_poll_events_def

lemma poisoned_refuses:
  assumes "contexts_poisoned w" "context_function H error m"
  shows "refused error m w"
  using assms(2)
  by cases (auto simp: context_setters context_operations tag_defs intro!: doomed_refused [OF _ assms(1)] doomed_intros doomed_contexts sound_intros tor_provider_removed split: option.splits)

lemma poisoned_free: "contexts_poisoned w \<Longrightarrow> k \<noteq> 0 \<Longrightarrow> fst (gosling_context_free k w) = Panic"
  by (simp add: contexts_poisoned_def at_locks_def gosling_context_free_def registry_free_def reg_remove_def with_guard_def andthen_def)

end
