(* ===== verification/Sample_Ffi.thy ===== *)
theory Sample_Ffi
  imports Sample_Control Ffi_Poisoning
begin

unbundle bit_operations_syntax

text \<open>
  Inputs of the witnesses about the C interface: the surroundings, a program whose callbacks only answer, and
  states of the library with an address, a service id or a context behind a handle.
\<close>

definition sample_addresses :: address_ops where
  "sample_addresses = \<lparr> rx_onion_service = (\<lambda>_. None), rx_domain = (\<lambda>_. None), to_lowercase = (\<lambda>s. s),
     domain_to_ascii = Some, name_from_str = Some, to_user_interface = (\<lambda>s. s) \<rparr>"

definition sample_c_env :: "(unit, adoc) c_env" where
  "sample_c_env = \<lparr> e_debug = (\<lambda>_. ''failure''), e_reason = (\<lambda>_. ''reason''), e_crypto = toy_crypto, e_text = sample_text,
     e_addr = sample_addresses, e_bson = endpoint_bson, e_tor = sample_tor, e_mock = (), e_legacy = (\<lambda>_. Ret (Ok ())),
     e_canonicalize = Ok, e_which = (\<lambda>_. None), e_raw_fd = (\<lambda>_. 3), e_now = 0, e_random = (\<lambda>_. []),
     e_generated = (\<lambda>_. sample_key), e_client_auth = sample_x25519, e_cookie = replicate 32 5 \<rparr>"

definition sample_host :: "(unit, adoc) c_host" where
  "sample_host = \<lparr> h_notify = (\<lambda>_ _ w. w), h_ask = (\<lambda>_ _ w. (True, w)), h_size = (\<lambda>_ _ w. (5, w)), h_fill = (\<lambda>_ _ w. ([5, 0, 0, 0, 0], w)) \<rparr>"

lemma sample_host_ok: "host_ok sample_host"
  by (simp add: host_ok_def sample_host_def)

lemma counter_max_4: "COUNTER_MAX 4 = 0xFFFFFFFFFFFFFFF"
  by (simp add: COUNTER_MAX_def mask_eq_exp_minus_1)

lemma single_object_inv: "registry_inv tag 4 \<lparr> or_map = Some [(get_key_from_counter tag 4 1, v)], or_counter = 1 \<rparr>"
  by (auto simp: registry_inv_def counter_max_4 bt_inv_def bt_get_def intro!: exI [of _ 1] split: if_splits)

lemma library_start_at: "at_locks {} (library_start m :: (unit, adoc) c_world)"
  by (rule start_at_locks)

section \<open>An address\<close>

definition address_world :: "(unit, adoc) c_world" where
  "address_world = snd (gosling_ip_address_from_ipv4 sample_c_env 8 127 0 0 1 0 (library_start (\<lambda>_. 0)))"

lemmas address_run = address_world_def gosling_ip_address_from_ipv4_def translate_failures_def ensure_not_null_def
  return_handle_def reg_insert_def with_guard_def library_start_def ip_addr_slot_def registry_insert_def next_key_def
  counter_max_4 action_defs put_word_def put_bytes_def

lemma address_created:
  "called (gosling_ip_address_from_ipv4 sample_c_env 8 127 0 0 1 0) (library_start (\<lambda>_. 0)) = (Ret (), address_world)"
  by (simp add: called_def address_run)

lemma address_runs: "c_runs sample_host address_world"
  by (rule c_runs_call [OF c_runs_start call_ip_address_from_ipv4 address_created])

lemma address_valid: "valid_handle address_world CIpAddr 0x16"
  by (simp add: address_run registry_contains_key_def IP_ADDR_TAG_def bt_get_def)

section \<open>A service id\<close>

definition other_id :: v3_onion_service_id where
  "other_id = service_id_from_private_key toy_crypto other_key"

lemma other_id_ascii: "is_ascii (sid_data other_id)"
  by code_simp

lemma other_id_valid: "service_id_is_valid toy_crypto (sid_data other_id)"
  by code_simp

definition service_id_world :: "(unit, adoc) c_world" where
  "service_id_world = (library_start (\<lambda>_. 0))\<lparr> w_v3_onion_service_id := \<lparr> or_map = Some [(0x15, other_id)], or_counter = 1 \<rparr> \<rparr>"

lemma service_id_world_inv: "world_inv service_id_world"
  using v3_onion_service_ids.inv_put [of "library_start (\<lambda>_. 0) :: (unit, adoc) c_world" "\<lparr> or_map = Some [(0x15, other_id)], or_counter = 1 \<rparr>"]
    library_start_at [of "\<lambda>_. 0"] single_object_inv [of V3_ONION_SERVICE_ID_TAG other_id]
  by (simp add: at_locks_def service_id_world_def v3_onion_service_id_slot_def get_key_from_counter_def V3_ONION_SERVICE_ID_TAG_def)

section \<open>Contexts\<close>

definition context_world :: "(unit, adoc) gosling_context \<Rightarrow> event_callbacks \<Rightarrow> adoc context_event list \<Rightarrow> (unit, adoc) c_world" where
  "context_world c cbs es = (library_start (\<lambda>_. 0))\<lparr> w_context_tuple := \<lparr> or_map = Some [(0x1D, c, cbs, Some es)], or_counter = 1 \<rparr> \<rparr>"

lemma context_world_at: "at_locks {} (context_world c cbs es)"
  using context_tuples.inv_put [of "library_start (\<lambda>_. 0)" "\<lparr> or_map = Some [(0x1D, c, cbs, Some es)], or_counter = 1 \<rparr>"]
    library_start_at [of "\<lambda>_. 0"] single_object_inv [of CONTEXT_TUPLE_TAG "(c, cbs, Some es)"]
  by (simp add: at_locks_def context_world_def context_tuple_slot_def get_key_from_counter_def CONTEXT_TUPLE_TAG_def)

definition asking_callbacks :: event_callbacks where
  "asking_callbacks = no_callbacks\<lparr> endpoint_server_channel_supported_callback := Some 1 \<rparr>"

lemma taken_world:
  "\<exists>v. take_events sample_c_env 0x1D (context_world sample_context cbs es) = (Ret (Ok (es @ [TorBootstrapCompleted], cbs)), v) \<and>
     registry_get (w_context_tuple v) 0x1D = Some (sample_context\<lparr> ctx_bootstrap_complete := True \<rparr>, cbs, None) \<and>
     at_locks {} v \<and> w_poisoned v = {} \<and> or_counter (w_v3_onion_service_id v) = 0 \<and> reportable 8 v"
proof -
  let ?w = "context_world sample_context cbs es"
  have w: "world_inv ?w" "unlocked CONTEXT_TUPLE_TAG ?w" "registry_get (w_context_tuple ?w) 0x1D = Some (sample_context, cbs, Some es)"
    using context_world_at [of sample_context cbs es]
    by (simp_all add: at_locks_def context_world_def library_start_def unlocked_def registry_get_def bt_get_def)
  have up: "context_update (e_bson sample_c_env) (e_crypto sample_c_env) (e_tor sample_c_env) (e_now sample_c_env) (e_random sample_c_env)
      (e_generated sample_c_env) sample_context = (Ret (Ok [TorBootstrapCompleted]), sample_context\<lparr> ctx_bootstrap_complete := True \<rparr>)"
    by (simp add: sample_c_env_def sample_bootstrap)
  obtain v where v: "take_events sample_c_env 0x1D ?w = (Ret (Ok (es @ [TorBootstrapCompleted], cbs)), v)"
    "registry_get (w_context_tuple v) 0x1D = Some (sample_context\<lparr> ctx_bootstrap_complete := True \<rparr>, cbs, None)"
    using take_events_run [OF w up] by auto
  have "at_locks {} v" using soundD [OF sound_take_events _ v(1), where P = "{}" and L = "{}"] context_world_at by simp
  moreover have "w_poisoned v = {} \<and> or_counter (w_v3_onion_service_id v) = 0"
    using v(1) up by (auto simp: take_events_def with_guard_def context_world_def library_start_def context_tuple_slot_def
        registry_get_mut_def bt_get_def split: prod.splits)
  moreover have "or_counter (w_error v) = 0"
    using v(1) up by (auto simp: take_events_def with_guard_def context_world_def library_start_def context_tuple_slot_def
        registry_get_mut_def bt_get_def split: prod.splits)
  ultimately show ?thesis using v by (simp add: reportable_def unlocked_def at_locks_def counter_max_4)
qed

lemma again_bootstrap:
  "context_update (e_bson sample_c_env) (e_crypto sample_c_env) (e_tor sample_c_env) (e_now sample_c_env) (e_random sample_c_env)
      (e_generated sample_c_env) (sample_context\<lparr> ctx_bootstrap_complete := True \<rparr>) =
     (Ret (Ok [TorBootstrapCompleted]), sample_context\<lparr> ctx_bootstrap_complete := True \<rparr>)"
  by (simp add: sample_c_env_def sample_context_def context_new_def context_update_def accept_identity_def accept_endpoints_def
      with_tor_def sample_tor_def action_defs update_identity_clients_def update_identity_servers_def
      update_endpoint_clients_def update_endpoint_servers_def)

text \<open>An endpoint client was begun with a channel name that does not fit its request.\<close>

definition long_channel :: string where
  "long_channel = replicate 300 CHR ''a''"

definition overlong_context :: "(unit, adoc) gosling_context" where
  "overlong_context = snd (endpoint_client_begin_handshake toy_crypto sample_tor 0 other_id sample_x25519 long_channel
     (sample_context\<lparr> ctx_bootstrap_complete := True \<rparr>))"

definition overlong_session :: "adoc session" where
  "overlong_session = (session_new 0 (quiet_stream []))\<lparr> max_wait_time := DEFAULT_ENDPOINT_TIMEOUT, max_message_size := 384 \<rparr>"

definition overlong_client :: "adoc endpoint_client" where
  "overlong_client = endpoint_client_new toy_crypto overlong_session other_id \<lparr> ascii_value = long_channel \<rparr> other_key"

lemma overlong_context_eq: "overlong_context = sample_context\<lparr> ctx_bootstrap_complete := True, ctx_next_handshake_handle := 1,
    ctx_endpoint_clients := [(0, overlong_client)] \<rparr>"
proof -
  have "is_ascii long_channel" by (simp add: is_ascii_def long_channel_def as_bytes_def list_all_iff)
  moreover have "ed25519_private_clone toy_crypto other_key = Ret other_key"
    by (rule signing_keyD(5) [OF toy_signature_laws other_signing_key])
  ultimately show ?thesis
    by (simp add: overlong_context_def endpoint_client_begin_handshake_def ascii_string_new_def sample_context_def context_new_def
      with_tor_def io_result_def sample_tor_def action_defs with_session_def configured_session_def set_max_message_size_def
      set_max_wait_time_def DEFAULT_ENDPOINT_MAX_MESSAGE_SIZE_def MIN_MESSAGE_SIZE_value overlong_client_def overlong_session_def
      onion_stream_into_def)
qed

lemma overlong_session_update: "session_update_none B overlong_session = (Ret (Ok ()), overlong_session)"
  by (auto simp: session_update_none_def session_update_def on_session_def action_defs overlong_session_def session_new_def
      quiet_stream_def read_sections.simps read_message_def read_message_size_def stream_read_def io_read_def
      process_sections_def handle_requests_def serialize_messages_def write_pending_data_def write_pending_data_impl_def
      vd_as_slices_def vd_contiguous_def vd_reserve_def vd_new_def write_pending_loop.simps Let_def io_flush_def
      vd_make_contiguous_def vd_drain_front_def)

lemma overlong_begin: "fst (epc_begin (alist_bson known) overlong_session overlong_client) = Panic"
  by (rule epc_begin_panics)
    (simp_all add: overlong_session_def session_new_def MIN_MESSAGE_SIZE_value fits_def alist_doc_size request_section_into_def
      insert_opt_def channel_handshake_args_def doc_of_def overlong_client_def endpoint_client_new_def long_channel_def)

lemma overlong_update_panics:
  "\<exists>c. context_update (e_bson sample_c_env) (e_crypto sample_c_env) (e_tor sample_c_env) (e_now sample_c_env) (e_random sample_c_env)
      (e_generated sample_c_env) overlong_context = (Panic, c)"
proof -
  let ?r = "\<lambda>_. []"
  obtain s where s: "epc_begin endpoint_bson overlong_session overlong_client = (Panic, s)"
    using overlong_begin [of "[request_doc channel_begin, request_doc channel_response]"] by (cases "epc_begin endpoint_bson overlong_session overlong_client") simp
  have client: "overlong_client\<lparr> epc_rpc := Some overlong_session \<rparr> = overlong_client" "epc_rpc overlong_client = Some overlong_session"
    "epc_state overlong_client = EpC_BeginHandshake" "epc_begin_handshake_request_cookie overlong_client = None"
    "epc_send_response_request_cookie overlong_client = None"
    by (simp_all add: overlong_client_def endpoint_client_new_def)
  have "endpoint_client_update endpoint_bson toy_crypto (?r 0) overlong_client = (Panic, s)"
    by (simp add: client s endpoint_client_update_def overlong_session_update epc_advance_def)
  then have "step_endpoint_client endpoint_bson toy_crypto ?r 0 overlong_client = (Panic, s)"
    by (simp add: step_endpoint_client_def)
  then show ?thesis
    by (simp add: sample_c_env_def overlong_context_eq sample_context_def context_new_def context_update_def accept_identity_def accept_endpoints_def
      with_tor_def sample_tor_def action_defs update_identity_clients_def update_identity_servers_def
      update_endpoint_clients_def)
qed

end
