(* ===== verification/Arti_Client.thy ===== *)
theory Arti_Client
  imports Provider_Host Legacy_Process
begin

text \<open>
  The provider on the arti library (\<open>tor-interface/src/arti_client_tor_client.rs\<close>). What the arti crates answer
  is a parameter, \<open>arti_ops\<close>, with the type of their data streams; an address of theirs is what it was made from. Tasks that the client spawns on its
  runtime are part of its state; a task advances by a step on what it has awaited, in any order with the other tasks
  and with the calls of the provider. The percentage of a progress event, which the code computes in \<open>f32\<close>,
  and the texts of foreign errors are given.
\<close>

section \<open>Errors\<close>

datatype arti_error =
    Arti_NotImplemented
  | Arti_TcpListenerBindFailed io_error_kind
  | Arti_TcpListenerLocalAddrFailed io_error_kind
  | Arti_TcpListenerAcceptFailed io_error_kind
  | Arti_TcpStreamConnectFailed io_error_kind
  | Arti_TcpStreamIntoFailed io_error_kind
  | ArtiClientConfigBuilderError string
  | ArtiClientError string
  | ArtiClientTorAddrError string
  | TorKeyMgrError string
  | TorKeyMgrBuilderError
  | KeyMgrInsertionFailure
  | OnionServiceConfigBuilderError string
  | TorPersistError string
  | TorHsServiceStartupError string

fun arti_error_fmt :: "arti_error \<Rightarrow> string" where
  "arti_error_fmt Arti_NotImplemented = ''not implemented''"
| "arti_error_fmt (Arti_TcpListenerBindFailed _) = ''unable to bind TCP listener''"
| "arti_error_fmt (Arti_TcpListenerLocalAddrFailed _) = ''unable to get TCP listener'' @ [CHR 0x27] @ ''s local address''"
| "arti_error_fmt (Arti_TcpListenerAcceptFailed _) = ''unable to accept connection on TCP Listener''"
| "arti_error_fmt (Arti_TcpStreamConnectFailed _) = ''unable to connect to TCP listener''"
| "arti_error_fmt (Arti_TcpStreamIntoFailed _) = ''unable to convert tokio::TcpStream to std::net::TcpStream''"
| "arti_error_fmt (ArtiClientConfigBuilderError e) = ''arti-client config-builder error: '' @ e"
| "arti_error_fmt (ArtiClientError e) = ''arti-client error: '' @ e"
| "arti_error_fmt (ArtiClientTorAddrError e) = ''arti-client tor-addr error: '' @ e"
| "arti_error_fmt (TorKeyMgrError e) = ''tor-keymgr error: '' @ e"
| "arti_error_fmt TorKeyMgrBuilderError = ''failed to build KeyMgr''"
| "arti_error_fmt KeyMgrInsertionFailure = ''unexpected key found when inserting HsIdKeypair''"
| "arti_error_fmt (OnionServiceConfigBuilderError e) = ''onion-service config-builder error: '' @ e"
| "arti_error_fmt (TorPersistError e) = ''tor-persist error: '' @ e"
| "arti_error_fmt (TorHsServiceStartupError e) = ''tor-hsservice startup error: '' @ e"

definition arti_error_into :: "arti_error \<Rightarrow> tor_error" where
  "arti_error_into e = Generic_error (arti_error_fmt e)"

section \<open>The pump\<close>

text \<open>
  \<open>forward_stream\<close> moves bytes from a reader to a writer. Two pumps share the flag \<open>alive\<close>; a step of a pump is one access to the
  flag or one round of \<open>select!\<close>. The bytes read and those the writer has accepted are kept with the pump;
  a failing \<open>write_all\<close> may have written a part.
\<close>

datatype pump_io =
    PumpRead bytes "nat option" bool
  | PumpEnd
  | PumpReadFailed
  | PumpTimeout bool

datatype pump_pc = PumpTop | PumpSelect | PumpFlushed | PumpDying | PumpDone

record pump =
  pu_at :: pump_pc
  pu_remaining_retries :: i32
  pu_read :: bytes
  pu_written :: bytes

definition pump_new :: pump where
  "pump_new = \<lparr> pu_at = PumpTop, pu_remaining_retries = 3, pu_read = [], pu_written = [] \<rparr>"

fun pump_select :: "pump_io \<Rightarrow> pump \<Rightarrow> pump" where
  "pump_select (PumpRead bs written flushed) p =
     (let p = p\<lparr> pu_read := pu_read p @ bs \<rparr> in
      case written of
        Some n \<Rightarrow> p\<lparr> pu_written := pu_written p @ take n bs, pu_at := PumpDying \<rparr>
      | None \<Rightarrow> p\<lparr> pu_written := pu_written p @ bs, pu_at := (if flushed then PumpTop else PumpDying) \<rparr>)"
| "pump_select PumpEnd p = p\<lparr> pu_at := PumpDying \<rparr>"
| "pump_select PumpReadFailed p = p\<lparr> pu_at := PumpDying \<rparr>"
| "pump_select (PumpTimeout flushed) p = p\<lparr> pu_at := (if flushed then PumpFlushed else PumpDying) \<rparr>"

definition pump_step :: "pump_io \<Rightarrow> bool \<times> pump \<Rightarrow> bool \<times> pump" where
  "pump_step io s = (case s of (alive, p) \<Rightarrow> (case pu_at p of
      PumpTop \<Rightarrow> (alive, p\<lparr> pu_at := (if \<not> alive \<and> pu_remaining_retries p = 0 then PumpDying else PumpSelect) \<rparr>)
    | PumpSelect \<Rightarrow> (alive, pump_select io p)
    | PumpFlushed \<Rightarrow> (alive, p\<lparr> pu_at := PumpTop,
        pu_remaining_retries := (if \<not> alive then pu_remaining_retries p - 1 else pu_remaining_retries p) \<rparr>)
    | PumpDying \<Rightarrow> (False, p\<lparr> pu_at := PumpDone \<rparr>)
    | PumpDone \<Rightarrow> (alive, p)))"

section \<open>The library\<close>

text \<open>
  The answers of the arti crates: building the configuration from the cache and state directories, creating the client,
  addresses, connecting, and the steps of launching an onion service (\<open>ao_key_insert\<close> tells whether a key was there
  before). \<open>ao_accept\<close> and \<open>ao_into_std\<close> are the local listener and stream of tokio.
\<close>

datatype arti_addr = ArtiSocket socket_addr | ArtiHost string u16

record 'ds arti_ops =
  ao_build_config :: "string \<Rightarrow> string \<Rightarrow> (unit, string) result"
  ao_create_unbootstrapped :: "(unit, string) result"
  ao_into_tor_addr :: "arti_addr \<Rightarrow> (unit, string) result"
  ao_connect :: "arti_addr \<Rightarrow> ('ds, string) result"
  ao_accept :: "(rw_stream, io_error_kind) result"
  ao_into_std :: "rw_stream \<Rightarrow> (rw_stream, io_error_kind) result"
  ao_keymgr_built :: bool
  ao_nickname :: "string \<Rightarrow> bool"
  ao_key_insert :: "bytes \<Rightarrow> string \<Rightarrow> (bool, string) result"
  ao_service_config :: "string \<Rightarrow> (unit, string) result"
  ao_state_directory :: "string \<Rightarrow> (unit, string) result"
  ao_onion_service :: "string \<Rightarrow> (unit, string) result"
  ao_launch :: "string \<Rightarrow> (unit, string) result"

section \<open>The client\<close>

text \<open>The tasks \<open>bootstrap\<close>, \<open>connect\<close> and \<open>listener\<close> spawn, with what each of them captures.\<close>

datatype 'ds arti_task =
    ProgressTask
  | BootstrapTask
  | PublishTask v3_onion_service_id
  | RendTask u16 socket_addr
  | StreamsTask u16 socket_addr
  | PumpTasks 'ds rw_stream

record 'ds arti_client =
  ac_state_dir :: string
  ac_pending_events :: "tor_event list"
  ac_tasks :: "'ds arti_task list"
  ac_launched :: nat

definition spawn :: "'ds arti_task list \<Rightarrow> 'ds arti_client \<Rightarrow> 'ds arti_client" where
  "spawn ts c = c\<lparr> ac_tasks := ac_tasks c @ ts \<rparr>"

definition arti_new :: "'ds arti_ops \<Rightarrow> string \<Rightarrow> ('ds arti_client, arti_error) result" where
  "arti_new A root_data_directory =
     (let cache_dir = path_join root_data_directory ''cache'';
          state_dir = path_join root_data_directory ''state'' in
      case ao_build_config A cache_dir state_dir of
        Err e \<Rightarrow> Err (ArtiClientConfigBuilderError e)
      | Ok _ \<Rightarrow> (case ao_create_unbootstrapped A of
          Err e \<Rightarrow> Err (ArtiClientError e)
        | Ok _ \<Rightarrow> Ok \<lparr> ac_state_dir = state_dir, ac_pending_events = [LogReceived ''Starting arti-client TorProvider''],
            ac_tasks = [], ac_launched = 0 \<rparr>))"

definition arti_update :: "'ds arti_client \<Rightarrow> (tor_event list, tor_error) result \<times> 'ds arti_client" where
  "arti_update c = (Ok (ac_pending_events c), c\<lparr> ac_pending_events := [] \<rparr>)"

definition arti_bootstrap :: "'ds arti_client \<Rightarrow> (unit, tor_error) result \<times> 'ds arti_client" where
  "arti_bootstrap c = (Ok (), spawn [ProgressTask, BootstrapTask] c)"

definition arti_add_client_auth ::
  "v3_onion_service_id \<Rightarrow> x25519_private_key \<Rightarrow> 'ds arti_client \<Rightarrow> (unit, tor_error) result \<times> 'ds arti_client" where
  "arti_add_client_auth service_id client_auth c = (Err (arti_error_into Arti_NotImplemented), c)"

definition arti_remove_client_auth :: "v3_onion_service_id \<Rightarrow> 'ds arti_client \<Rightarrow> (unit, tor_error) result \<times> 'ds arti_client" where
  "arti_remove_client_auth service_id c = (Err (arti_error_into Arti_NotImplemented), c)"

definition arti_target :: "'ds arti_ops \<Rightarrow> target_addr \<Rightarrow> (arti_addr, string) result" where
  "arti_target A target =
     (let addr = (case target of
          SocketTarget socket_addr \<Rightarrow> ArtiSocket socket_addr
        | Domain domain_addr \<Rightarrow> ArtiHost (da_domain domain_addr) (da_port domain_addr)
        | OnionService (V3 a) \<Rightarrow> ArtiHost (service_id_to_string (oa_service_id a) @ ''.onion'') (oa_virt_port a))
      in case ao_into_tor_addr A addr of Ok _ \<Rightarrow> Ok addr | Err e \<Rightarrow> Err e)"

text \<open>A local connection through which the two pumps move the bytes of the data stream.\<close>

definition local_pair :: "'ds arti_ops \<Rightarrow> sys_ops \<Rightarrow> (rw_stream \<times> rw_stream, arti_error) result" where
  "local_pair A sys = (case sys_bind sys of
      Err k \<Rightarrow> Err (Arti_TcpListenerBindFailed k)
    | Ok server_listener \<Rightarrow> (case sys_local_addr sys server_listener of
        Err k \<Rightarrow> Err (Arti_TcpListenerLocalAddrFailed k)
      | Ok socket_addr \<Rightarrow> (case sys_connect sys socket_addr of
          Err k \<Rightarrow> Err (Arti_TcpStreamConnectFailed k)
        | Ok client_stream \<Rightarrow> (case ao_accept A of
            Err k \<Rightarrow> Err (Arti_TcpListenerAcceptFailed k)
          | Ok server_stream \<Rightarrow> Ok (client_stream, server_stream)))))"

definition arti_connect ::
  "'ds arti_ops \<Rightarrow> sys_ops \<Rightarrow> target_addr \<Rightarrow> circuit_token option \<Rightarrow> 'ds arti_client \<Rightarrow>
   (onion_stream, tor_error) result \<times> 'ds arti_client" where
  "arti_connect A sys target circuit c =
     (if circuit \<noteq> None then (Err (arti_error_into Arti_NotImplemented), c)
      else case arti_target A target of
        Err e \<Rightarrow> (Err (arti_error_into (ArtiClientTorAddrError e)), c)
      | Ok addr \<Rightarrow> (case ao_connect A addr of
          Err e \<Rightarrow> (Err (arti_error_into (ArtiClientError e)), c)
        | Ok data_stream \<Rightarrow> (case local_pair A sys of
            Err e \<Rightarrow> (Err (arti_error_into e), c)
          | Ok (client_stream, server_stream) \<Rightarrow>
              (let c = spawn [PumpTasks data_stream server_stream] c in
               case ao_into_std A client_stream of
                 Err k \<Rightarrow> (Err (arti_error_into (Arti_TcpStreamIntoFailed k)), c)
               | Ok st \<Rightarrow> (Ok \<lparr> os_stream = st, os_local_addr = None, os_peer_addr = Some target \<rparr>, c)))))"

text \<open>The key of the service and its launch; a name that is no nickname and a key that is none panic.\<close>

definition launch_service ::
  "'ds arti_ops \<Rightarrow> crypto_ops \<Rightarrow> ed25519_private_key \<Rightarrow> string \<Rightarrow> string \<Rightarrow> (unit, arti_error) result outcome" where
  "launch_service A C private_key hs_nickname state_dir =
     (if \<not> ao_keymgr_built A then Ret (Err TorKeyMgrBuilderError)
      else if \<not> ao_nickname A hs_nickname then Panic
      else case keypair_from_secret_key_bytes C (ed25519_private_to_bytes private_key) of
        None \<Rightarrow> Panic
      | Some keypair \<Rightarrow> Ret (case ao_key_insert A keypair hs_nickname of
          Err e \<Rightarrow> Err (TorKeyMgrError e)
        | Ok True \<Rightarrow> Err KeyMgrInsertionFailure
        | Ok False \<Rightarrow> (case ao_service_config A hs_nickname of
            Err e \<Rightarrow> Err (OnionServiceConfigBuilderError e)
          | Ok _ \<Rightarrow> (case ao_state_directory A state_dir of
              Err e \<Rightarrow> Err (TorPersistError e)
            | Ok _ \<Rightarrow> (case ao_onion_service A hs_nickname of
                Err e \<Rightarrow> Err (TorHsServiceStartupError e)
              | Ok _ \<Rightarrow> (case ao_launch A hs_nickname of
                  Err e \<Rightarrow> Err (TorHsServiceStartupError e)
                | Ok _ \<Rightarrow> Ok ()))))))"

definition arti_listener ::
  "'ds arti_ops \<Rightarrow> crypto_ops \<Rightarrow> sys_ops \<Rightarrow> ed25519_private_key \<Rightarrow> u16 \<Rightarrow> x25519_public_key list option \<Rightarrow>
   'ds arti_client \<Rightarrow> (onion_listener, tor_error) result outcome \<times> 'ds arti_client" where
  "arti_listener A C sys private_key virt_port authorized_clients c =
     (if authorized_clients \<noteq> None then (Ret (Err (arti_error_into Arti_NotImplemented)), c)
      else case sys_bind sys of
        Err k \<Rightarrow> (Ret (Err (arti_error_into (Arti_TcpListenerBindFailed k))), c)
      | Ok listener \<Rightarrow> (case sys_local_addr sys listener of
          Err k \<Rightarrow> (Ret (Err (arti_error_into (Arti_TcpListenerLocalAddrFailed k))), c)
        | Ok socket_addr \<Rightarrow>
            (let service_id = service_id_from_private_key C private_key in
             case launch_service A C private_key (service_id_to_string service_id) (ac_state_dir c) of
               Ret (Ok _) \<Rightarrow>
                 (Ret (Ok (onion_listener_new listener (V3 (onion_addr_v3_new service_id virt_port)) (ac_launched c))),
                  spawn [PublishTask service_id, RendTask virt_port socket_addr] (c\<lparr> ac_launched := ac_launched c + 1 \<rparr>))
             | Ret (Err e) \<Rightarrow> (Ret (Err (arti_error_into e)), c)
             | Panic \<Rightarrow> (Panic, c)
             | OutOfFuel \<Rightarrow> (OutOfFuel, c))))"

definition arti_generate_token :: "'ds arti_client \<Rightarrow> circuit_token \<times> 'ds arti_client" where
  "arti_generate_token c = (0, c)"

definition arti_release_token :: "circuit_token \<Rightarrow> 'ds arti_client \<Rightarrow> 'ds arti_client" where
  "arti_release_token token c = c"

section \<open>Tasks\<close>

text \<open>
  What a task awaits: a progress event with its percentage or the end of these events, the result of the bootstrap, a status
  of the service, a request for a circuit and whether its acceptance succeeds, a request for a stream with its port when it is a
  \<open>Begin\<close>, whether its acceptance and the connection to the listener succeed.
\<close>

datatype 'ds task_input =
    ProgressEvent "32 word"
  | BootstrapResult bool
  | StatusEvent bool
  | RendRequest bool
  | StreamRequest "u16 option" "'ds option" "rw_stream option"
  | NoMore

datatype task_action = Accepted u16 | ShutDown | NoAction

definition should_accept :: "u16 \<Rightarrow> u16 option \<Rightarrow> bool" where
  "should_accept virt_port request = (case request of Some port \<Rightarrow> port = virt_port | None \<Rightarrow> False)"

text \<open>
  One round of each task: the events pushed, the tasks that continue, and what becomes of a stream request. An input the task
  does not await leaves it waiting.
\<close>

type_synonym 'ds task_round = "tor_event list \<times> 'ds arti_task list \<times> task_action"

fun progress_task :: "'ds task_input \<Rightarrow> 'ds task_round" where
  "progress_task (ProgressEvent progress) = ([BootstrapStatus progress ''no-tag'' ''no summary''], [ProgressTask], NoAction)"
| "progress_task NoMore = ([], [], NoAction)"
| "progress_task _ = ([], [ProgressTask], NoAction)"

fun bootstrap_task :: "'ds task_input \<Rightarrow> 'ds task_round" where
  "bootstrap_task (BootstrapResult succeeded) = (if succeeded then [BootstrapComplete] else [], [], NoAction)"
| "bootstrap_task _ = ([], [BootstrapTask], NoAction)"

fun publish_task :: "v3_onion_service_id \<Rightarrow> 'ds task_input \<Rightarrow> 'ds task_round" where
  "publish_task service_id (StatusEvent running) =
     (if running then ([OnionServicePublished service_id], [], NoAction) else ([], [PublishTask service_id], NoAction))"
| "publish_task service_id NoMore = ([], [], NoAction)"
| "publish_task service_id _ = ([], [PublishTask service_id], NoAction)"

fun rend_task :: "u16 \<Rightarrow> socket_addr \<Rightarrow> 'ds task_input \<Rightarrow> 'ds task_round" where
  "rend_task virt_port socket_addr (RendRequest accepted) =
     ([], if accepted then [RendTask virt_port socket_addr, StreamsTask virt_port socket_addr] else [], NoAction)"
| "rend_task virt_port socket_addr NoMore = ([], [], NoAction)"
| "rend_task virt_port socket_addr _ = ([], [RendTask virt_port socket_addr], NoAction)"

fun streams_task :: "u16 \<Rightarrow> socket_addr \<Rightarrow> 'ds task_input \<Rightarrow> 'ds task_round" where
  "streams_task virt_port socket_addr (StreamRequest request data_stream local_stream) =
     (if should_accept virt_port request
      then (case (data_stream, local_stream) of
          (Some ds, Some st) \<Rightarrow> ([], [StreamsTask virt_port socket_addr, PumpTasks ds st], Accepted (the request))
        | _ \<Rightarrow> ([], [StreamsTask virt_port socket_addr], NoAction))
      else ([], [StreamsTask virt_port socket_addr], ShutDown))"
| "streams_task virt_port socket_addr NoMore = ([], [], NoAction)"
| "streams_task virt_port socket_addr _ = ([], [StreamsTask virt_port socket_addr], NoAction)"

text \<open>
  The executor, which stands for the runtime the tasks are spawned on: it gives the input to one of the tasks. The two pumps of
  a stream push no events; their steps are those of \<open>pump_step\<close>.
\<close>

fun task_step :: "'ds arti_task \<Rightarrow> 'ds task_input \<Rightarrow> 'ds task_round" where
  "task_step ProgressTask input = progress_task input"
| "task_step BootstrapTask input = bootstrap_task input"
| "task_step (PublishTask service_id) input = publish_task service_id input"
| "task_step (RendTask virt_port socket_addr) input = rend_task virt_port socket_addr input"
| "task_step (StreamsTask virt_port socket_addr) input = streams_task virt_port socket_addr input"
| "task_step (PumpTasks ds st) input = ([], [PumpTasks ds st], NoAction)"

definition run_task :: "nat \<Rightarrow> 'ds task_input \<Rightarrow> 'ds arti_client \<Rightarrow> task_action \<times> 'ds arti_client" where
  "run_task i input c = (case task_step (ac_tasks c ! i) input of (events, next_tasks, action) \<Rightarrow>
     (action, c\<lparr> ac_pending_events := ac_pending_events c @ events,
        ac_tasks := take i (ac_tasks c) @ next_tasks @ drop (Suc i) (ac_tasks c) \<rparr>))"

end
