(* ===== verification/Arti_Runs.thy ===== *)
theory Arti_Runs
  imports Arti_Client Gosling_Context "HOL-Library.Sublist"
begin

text \<open>
  Runs of the arti provider: two pumps that share their flag, in any interleaving; a client whose tasks run in any
  order between the calls of its user; and a context on top of it.
\<close>

section \<open>Pumps\<close>

inductive pumps_run :: "bool \<Rightarrow> pump list \<Rightarrow> bool" where
  pumps_start: "pumps_run True [pump_new, pump_new]"
| pumps_step: "pumps_run alive ps \<Longrightarrow> i < length ps \<Longrightarrow> pump_step io (alive, ps ! i) = (alive', p) \<Longrightarrow> pumps_run alive' (ps[i := p])"

definition pump_ended :: "pump \<Rightarrow> bool" where
  "pump_ended p \<longleftrightarrow> pu_at p = PumpDone"

text \<open>
  A pump has passed on all it has read until it dies, and has spent retries only when the flag was down; it waits
  for its reader only with retries left.
\<close>

definition pump_ok :: "bool \<Rightarrow> pump \<Rightarrow> bool" where
  "pump_ok alive p \<longleftrightarrow> prefix (pu_written p) (pu_read p) \<and>
     (pu_at p \<notin> {PumpDying, PumpDone} \<longrightarrow> pu_written p = pu_read p) \<and>
     pu_remaining_retries p \<in> {0, 1, 2, 3} \<and> (alive \<longrightarrow> pu_remaining_retries p = 3) \<and>
     (pu_at p \<in> {PumpSelect, PumpFlushed} \<longrightarrow> pu_remaining_retries p \<noteq> 0) \<and> (pump_ended p \<longrightarrow> \<not> alive)"

lemma pump_new_ok: "pump_ok True pump_new"
  by (simp add: pump_ok_def pump_new_def pump_ended_def)

lemma pump_ok_flag: "pump_ok alive p \<Longrightarrow> pump_ok False p"
  by (simp add: pump_ok_def)

lemma pump_select_ok: "pu_at p = PumpSelect \<Longrightarrow> pump_ok alive p \<Longrightarrow> pump_ok alive (pump_select io p)"
  by (cases io) (auto simp: pump_ok_def pump_ended_def Let_def take_is_prefix split: option.splits)

lemma pump_step_flag:
  assumes "pump_step io (alive, p) = (alive', q)"
  shows "alive' \<longleftrightarrow> alive \<and> pu_at p \<noteq> PumpDying" "pump_ended p \<longrightarrow> q = p"
  using assms by (cases "pu_at p"; simp add: pump_step_def pump_ended_def; blast)+

lemma pump_step_ok:
  assumes "pump_step io (alive, p) = (alive', q)" "pump_ok alive p"
  shows "pump_ok alive' q"
proof (cases "pu_at p")
  case PumpSelect
  with assms pump_select_ok [OF PumpSelect assms(2), of io] show ?thesis by (simp add: pump_step_def)
next
  case PumpTop
  with assms show ?thesis by (auto simp: pump_step_def pump_ok_def pump_ended_def)
next
  case PumpFlushed
  with assms show ?thesis by (cases alive) (auto simp: pump_step_def pump_ok_def pump_ended_def)
next
  case PumpDying
  with assms show ?thesis by (auto simp: pump_step_def pump_ok_def pump_ended_def)
next
  case PumpDone
  with assms show ?thesis by (simp add: pump_step_def)
qed

lemma pumps_ok:
  assumes "pumps_run alive ps"
  shows "length ps = 2 \<and> (\<forall>p\<in>set ps. pump_ok alive p) \<and> (\<not> alive \<longrightarrow> (\<exists>p\<in>set ps. pump_ended p))"
  using assms
proof induction
  case pumps_start
  then show ?case by (simp add: pump_new_ok)
next
  case (pumps_step alive ps i io alive' p)
  have old: "pump_ok alive (ps ! i)" using pumps_step by simp
  note step = pump_step_flag [OF pumps_step.hyps(3)]
  have "pump_ok alive' q" if "q \<in> set ps" for q
    using that pumps_step.IH step(1) pump_ok_flag [of alive q] by (cases alive'; cases alive) auto
  then have "\<forall>q\<in>set (ps[i := p]). pump_ok alive' q"
    using pump_step_ok [OF pumps_step.hyps(3) old] set_update_subset_insert [of ps i p] by blast
  moreover have "\<exists>q\<in>set (ps[i := p]). pump_ended q" if down: "\<not> alive'"
  proof (cases alive)
    case True
    with step(1) down have "pu_at (ps ! i) = PumpDying" by auto
    with pumps_step.hyps(3) have "pump_ended p" by (auto simp: pump_step_def pump_ended_def)
    then show ?thesis using pumps_step.hyps(2) set_update_memI by metis
  next
    case False
    then obtain q where q: "q \<in> set ps" "pump_ended q" using pumps_step.IH by blast
    then obtain j where j: "j < length ps" "ps ! j = q" by (auto simp: in_set_conv_nth)
    have "ps[i := p] ! j = q" using step(2) q(2) j by (cases "j = i") auto
    with j q(2) show ?thesis by (metis length_list_update nth_mem)
  qed
  ultimately show ?case using pumps_step.IH by simp
qed

text \<open>Once the flag is down a pump whose reader is silent ends: three rounds are left to it at most.\<close>

definition silent_step :: "pump \<Rightarrow> pump" where
  "silent_step p = snd (pump_step (PumpTimeout True) (False, p))"

lemma silent_simps:
  "pu_at p = PumpTop \<Longrightarrow> silent_step p = p\<lparr> pu_at := (if pu_remaining_retries p = 0 then PumpDying else PumpSelect) \<rparr>"
  "pu_at p = PumpSelect \<Longrightarrow> silent_step p = p\<lparr> pu_at := PumpFlushed \<rparr>"
  "pu_at p = PumpFlushed \<Longrightarrow> silent_step p = p\<lparr> pu_at := PumpTop, pu_remaining_retries := pu_remaining_retries p - 1 \<rparr>"
  "pu_at p = PumpDying \<Longrightarrow> silent_step p = p\<lparr> pu_at := PumpDone \<rparr>"
  "pu_at p = PumpDone \<Longrightarrow> silent_step p = p"
  by (simp_all add: silent_step_def pump_step_def)

fun rounds_left :: "pump \<Rightarrow> nat" where
  "rounds_left p = (case pu_at p of
      PumpTop \<Rightarrow> 3 * unat (pu_remaining_retries p) + 2
    | PumpSelect \<Rightarrow> 3 * unat (pu_remaining_retries p) + 1
    | PumpFlushed \<Rightarrow> 3 * unat (pu_remaining_retries p)
    | PumpDying \<Rightarrow> 1
    | PumpDone \<Rightarrow> 0)"

lemma silent_progress:
  assumes "pump_ok False p" "\<not> pump_ended p"
  shows "pump_ok False (silent_step p)" "rounds_left (silent_step p) < rounds_left p"
proof -
  show "pump_ok False (silent_step p)"
    using pump_step_ok [of "PumpTimeout True" False p False "silent_step p"] pump_step_flag(1) [of "PumpTimeout True" False p] assms(1)
    by (cases "pump_step (PumpTimeout True) (False, p)") (simp add: silent_step_def)
  show "rounds_left (silent_step p) < rounds_left p"
    using assms by (cases "pu_at p") (auto simp: silent_simps pump_ok_def pump_ended_def)
qed

lemma silent_pump_ends:
  assumes "pump_ok False p"
  shows "pump_ended ((silent_step ^^ rounds_left p) p)"
proof -
  have "pump_ended ((silent_step ^^ n) p)" if "rounds_left p \<le> n" "pump_ok False p" for n p
    using that
  proof (induction n arbitrary: p)
    case 0
    then show ?case by (cases "pu_at p") (auto simp: pump_ended_def pump_ok_def)
  next
    case (Suc n)
    show ?case
    proof (cases "pump_ended p")
      case True
      then have "silent_step p = p" by (simp add: silent_simps pump_ended_def)
      then have "(silent_step ^^ Suc n) p = p" by (induction n) simp_all
      with True show ?thesis by simp
    next
      case False
      from silent_progress [OF Suc.prems(2) this] Suc.prems(1) have "pump_ended ((silent_step ^^ n) (silent_step p))"
        by (intro Suc.IH) simp_all
      then show ?thesis by (simp add: funpow_swap1)
    qed
  qed
  then show ?thesis using assms by blast
qed

lemma rounds_bound: "pump_ok alive p \<Longrightarrow> rounds_left p \<le> 11"
  by (auto simp: pump_ok_def split: pump_pc.splits)

section \<open>Events\<close>

text \<open>
  Runs of a client: the number of calls of \<open>bootstrap\<close>, the services launched with their ports, the events that tasks have pushed after the
  first one, and the events that updates have returned.
\<close>

inductive arti_runs ::
  "nat \<Rightarrow> (v3_onion_service_id \<times> u16) list \<Rightarrow> tor_event list \<Rightarrow> tor_event list \<Rightarrow> 'ds arti_client \<Rightarrow> bool" where
  arti_runs_new: "arti_new A root = Ok c \<Longrightarrow> arti_runs 0 [] (ac_pending_events c) [] c"
| arti_runs_update: "arti_runs b launched pushed log c \<Longrightarrow> arti_update c = (Ok es, c') \<Longrightarrow> arti_runs b launched pushed (log @ es) c'"
| arti_runs_bootstrap: "arti_runs b launched pushed log c \<Longrightarrow> arti_bootstrap c = (r, c') \<Longrightarrow> arti_runs (Suc b) launched pushed log c'"
| arti_runs_add_auth: "arti_runs b launched pushed log c \<Longrightarrow> arti_add_client_auth sid x c = (r, c') \<Longrightarrow> arti_runs b launched pushed log c'"
| arti_runs_remove_auth: "arti_runs b launched pushed log c \<Longrightarrow> arti_remove_client_auth sid c = (r, c') \<Longrightarrow> arti_runs b launched pushed log c'"
| arti_runs_connect:
    "arti_runs b launched pushed log c \<Longrightarrow> arti_connect A sys target circuit c = (r, c') \<Longrightarrow> arti_runs b launched pushed log c'"
| arti_runs_listener:
    "arti_runs b launched pushed log c \<Longrightarrow> arti_listener A C sys k port auth c = (Ret (Ok l), c') \<Longrightarrow>
     arti_runs b ((service_id_from_private_key C k, port) # launched) pushed log c'"
| arti_runs_listener_failed:
    "arti_runs b launched pushed log c \<Longrightarrow> arti_listener A C sys k port auth c = (Ret (Err e), c') \<Longrightarrow> arti_runs b launched pushed log c'"
| arti_runs_token: "arti_runs b launched pushed log c \<Longrightarrow> arti_generate_token c = (token, c') \<Longrightarrow> arti_runs b launched pushed log c'"
| arti_runs_release: "arti_runs b launched pushed log c \<Longrightarrow> arti_runs b launched pushed log (arti_release_token token c)"
| arti_runs_task:
    "arti_runs b launched pushed log c \<Longrightarrow> i < length (ac_tasks c) \<Longrightarrow> run_task i input c = (action, c') \<Longrightarrow>
     arti_runs b launched (pushed @ fst (task_step (ac_tasks c ! i) input)) log c'"

text \<open>Tasks that will push an event, and the port a task serves.\<close>

fun task_port :: "'ds arti_task \<Rightarrow> u16 option" where
  "task_port (RendTask port _) = Some port"
| "task_port (StreamsTask port _) = Some port"
| "task_port _ = None"

definition arti_inv :: "nat \<Rightarrow> (v3_onion_service_id \<times> u16) list \<Rightarrow> tor_event list \<Rightarrow> 'ds arti_task list \<Rightarrow> bool" where
  "arti_inv b launched pushed tasks \<longleftrightarrow>
     count_list pushed BootstrapComplete + count_list tasks BootstrapTask \<le> b \<and>
     (\<forall>sid. count_list pushed (OnionServicePublished sid) + count_list tasks (PublishTask sid) \<le> count_list (map fst launched) sid) \<and>
     (\<forall>t\<in>set tasks. \<forall>port. task_port t = Some port \<longrightarrow> port \<in> snd ` set launched)"

lemma arti_inv_spawn:
  "arti_inv b launched pushed (tasks @ [PumpTasks ds st]) = arti_inv b launched pushed tasks"
  "arti_inv b launched pushed tasks \<Longrightarrow> arti_inv (Suc b) launched pushed (tasks @ [ProgressTask, BootstrapTask])"
  "arti_inv b launched pushed tasks \<Longrightarrow> arti_inv b ((sid, port) # launched) pushed (tasks @ [PublishTask sid, RendTask port addr])"
  by (auto simp: arti_inv_def)

lemma task_step_counts:
  assumes "task_step t input = (es, ts, action)"
  shows "count_list es BootstrapComplete + count_list ts BootstrapTask \<le> count_list [t] BootstrapTask"
    "count_list es (OnionServicePublished sid) + count_list ts (PublishTask sid) \<le> count_list [t] (PublishTask sid)"
    "\<forall>u\<in>set ts. \<forall>port. task_port u = Some port \<longrightarrow> task_port t = Some port"
    "action = Accepted port \<longrightarrow> task_port t = Some port"
  using assms
  by (cases t; cases input; auto simp: should_accept_def split: if_splits option.splits)+

lemma arti_inv_step:
  assumes "arti_inv b launched pushed tasks" "i < length tasks" "task_step (tasks ! i) input = (es, ts, action)"
  shows "arti_inv b launched (pushed @ es) (take i tasks @ ts @ drop (Suc i) tasks)"
proof -
  have split: "tasks = take i tasks @ [tasks ! i] @ drop (Suc i) tasks" using id_take_nth_drop [OF assms(2)] by simp
  have count: "count_list tasks x = count_list (take i tasks) x + count_list [tasks ! i] x + count_list (drop (Suc i) tasks) x" for x
    by (subst split) (simp only: count_list_append add.assoc)
  have members: "set tasks = set (take i tasks) \<union> {tasks ! i} \<union> set (drop (Suc i) tasks)" by (subst split) auto
  note step = task_step_counts [OF assms(3)]
  have "count_list (pushed @ es) BootstrapComplete + count_list (take i tasks @ ts @ drop (Suc i) tasks) BootstrapTask \<le> b"
    using assms(1) step(1) count [of BootstrapTask] unfolding arti_inv_def count_list_append by linarith
  moreover have "count_list (pushed @ es) (OnionServicePublished sid) + count_list (take i tasks @ ts @ drop (Suc i) tasks) (PublishTask sid)
      \<le> count_list (map fst launched) sid" for sid
  proof -
    have "count_list pushed (OnionServicePublished sid) + count_list tasks (PublishTask sid) \<le> count_list (map fst launched) sid"
      using assms(1) by (simp add: arti_inv_def)
    then show ?thesis using step(2) [of sid] count [of "PublishTask sid"] unfolding count_list_append by linarith
  qed
  moreover have "\<forall>t\<in>set (take i tasks @ ts @ drop (Suc i) tasks). \<forall>port. task_port t = Some port \<longrightarrow> port \<in> snd ` set launched"
    using assms(1) step(3) members unfolding arti_inv_def set_append by blast
  ultimately show ?thesis by (simp add: arti_inv_def)
qed

lemma arti_listener_cases:
  assumes "arti_listener A C sys k port auth c = (Ret r, c')"
  obtains e where "r = Err e" "c' = c"
  | l addr where "r = Ok l" "c' = spawn [PublishTask (service_id_from_private_key C k), RendTask port addr] (c\<lparr> ac_launched := ac_launched c + 1 \<rparr>)"
  using assms by (auto simp: arti_listener_def Let_def split: if_splits result.splits outcome.splits)

lemma arti_connect_cases:
  assumes "arti_connect A sys target circuit c = (r, c')"
  obtains "c' = c" | ds st where "c' = spawn [PumpTasks ds st] c"
  using assms by (auto simp: arti_connect_def Let_def split: if_splits result.splits prod.splits)

lemma arti_runs_inv:
  assumes "arti_runs b launched pushed log c"
  shows "log @ ac_pending_events c = pushed \<and> arti_inv b launched pushed (ac_tasks c)"
  using assms
proof induction
  case (arti_runs_new A root c)
  then show ?case by (auto simp: arti_new_def arti_inv_def Let_def split: result.splits)
next
  case (arti_runs_update b launched pushed log c es c')
  then show ?case by (auto simp: arti_update_def)
next
  case (arti_runs_bootstrap b launched pushed log c r c')
  then show ?case by (auto simp: arti_bootstrap_def spawn_def intro: arti_inv_spawn(2))
next
  case (arti_runs_add_auth b launched pushed log c sid x r c')
  then show ?case by (simp add: arti_add_client_auth_def)
next
  case (arti_runs_remove_auth b launched pushed log c sid r c')
  then show ?case by (simp add: arti_remove_client_auth_def)
next
  case (arti_runs_connect b launched pushed log c A sys target circuit r c')
  from arti_runs_connect.hyps(2) arti_runs_connect.IH show ?case
    by (cases rule: arti_connect_cases) (simp_all add: spawn_def arti_inv_spawn(1))
next
  case (arti_runs_listener b launched pushed log c A C sys k port auth l c')
  from arti_runs_listener.hyps(2) arti_runs_listener.IH show ?case
    by (cases rule: arti_listener_cases) (simp_all add: spawn_def arti_inv_spawn(3))
next
  case (arti_runs_listener_failed b launched pushed log c A C sys k port auth e c')
  from arti_runs_listener_failed.hyps(2) arti_runs_listener_failed.IH show ?case
    by (cases rule: arti_listener_cases) simp_all
next
  case (arti_runs_token b launched pushed log c token c')
  then show ?case by (simp add: arti_generate_token_def)
next
  case (arti_runs_release b launched pushed log c token)
  then show ?case by (simp add: arti_release_token_def)
next
  case (arti_runs_task b launched pushed log c i input action c')
  obtain es ts a where st: "task_step (ac_tasks c ! i) input = (es, ts, a)" by (metis prod_cases3)
  with arti_runs_task.hyps(3) have "c' = c\<lparr> ac_pending_events := ac_pending_events c @ es,
      ac_tasks := take i (ac_tasks c) @ ts @ drop (Suc i) (ac_tasks c) \<rparr>" by (simp add: run_task_def)
  moreover have "arti_inv b launched (pushed @ es) (take i (ac_tasks c) @ ts @ drop (Suc i) (ac_tasks c))"
    using arti_inv_step [OF _ arti_runs_task.hyps(2) st] arti_runs_task.IH by simp
  ultimately show ?case using arti_runs_task.IH st by auto
qed

lemma arti_accepts_launched:
  assumes "arti_runs b launched pushed log c" "i < length (ac_tasks c)" "run_task i input c = (Accepted port, c')"
  shows "port \<in> snd ` set launched"
proof -
  obtain es ts a where st: "task_step (ac_tasks c ! i) input = (es, ts, a)" by (metis prod_cases3)
  with assms(3) have "a = Accepted port" by (simp add: run_task_def)
  then have "task_port (ac_tasks c ! i) = Some port" using task_step_counts(4) [OF st] by simp
  moreover have "ac_tasks c ! i \<in> set (ac_tasks c)" using assms(2) by simp
  ultimately show ?thesis using arti_runs_inv [OF assms(1)] unfolding arti_inv_def by blast
qed

section \<open>A context on this provider\<close>

text \<open>A provider that is this client wherever the client does not panic.\<close>

definition arti_behind :: "'ds arti_ops \<Rightarrow> crypto_ops \<Rightarrow> sys_ops \<Rightarrow> 'ds arti_client tor_provider \<Rightarrow> bool" where
  "arti_behind A C sys T \<longleftrightarrow> tp_update T = arti_update \<and> tp_bootstrap T = arti_bootstrap \<and>
     tp_add_client_auth T = arti_add_client_auth \<and> tp_remove_client_auth T = arti_remove_client_auth \<and>
     tp_connect T = arti_connect A sys \<and>
     (\<forall>k port auth c r c'. arti_listener A C sys k port auth c = (Ret r, c') \<longrightarrow> tp_listener T k port auth c = (r, c')) \<and>
     tp_generate_token T = arti_generate_token \<and> tp_release_token T = arti_release_token"

lemma endpoint_server_refused:
  assumes "arti_behind A C sys T" "ctx_bootstrap_complete c" "service_id_from_private_key C k \<noteq> ctx_identity_service_id c"
    and "map_of (ctx_endpoint_listeners c) (service_id_from_private_key C k) = None"
  shows "endpoint_server_start C T k name client auth c = (Ret (Err (TorProviderError (Generic_error ''not implemented''))), c)"
proof -
  have "tp_listener T k port (Some [auth]) t = (Err (Generic_error ''not implemented''), t)" for port t
    using assms(1) by (simp add: arti_behind_def arti_listener_def arti_error_into_def)
  then show ?thesis using assms(2-4)
    by (simp add: endpoint_server_start_def Let_def with_tor_def try_then_def andthen_def ret_def service_id_from_private_key_def)
qed

lemma endpoint_client_refused:
  assumes "arti_behind A C sys T" "ctx_bootstrap_complete c" "is_ascii channel"
  shows "endpoint_client_begin_handshake C T now sid auth channel c = (Ret (Err (TorProviderError (Generic_error ''not implemented''))), c)"
  using assms
  by (simp add: endpoint_client_begin_handshake_def ascii_string_new_def arti_behind_def arti_add_client_auth_def arti_error_into_def
      with_tor_def try_then_def andthen_def ret_def)

end
