(* ===== verification/Sample_Arti.thy ===== *)
theory Sample_Arti
  imports Arti_Runs Sample_Control
begin

text \<open>Inputs of the witnesses about the arti provider: a library whose calls succeed, a client, two pumps and a context.\<close>

definition sample_arti :: "unit arti_ops" where
  "sample_arti = \<lparr> ao_build_config = (\<lambda>_ _. Ok ()), ao_create_unbootstrapped = Ok (), ao_into_tor_addr = (\<lambda>_. Ok ()),
     ao_connect = (\<lambda>_. Ok ()), ao_accept = Ok (quiet_stream []), ao_into_std = Ok, ao_keymgr_built = True, ao_nickname = (\<lambda>_. True),
     ao_key_insert = (\<lambda>_ _. Ok False), ao_service_config = (\<lambda>_. Ok ()), ao_state_directory = (\<lambda>_. Ok ()),
     ao_onion_service = (\<lambda>_. Ok ()), ao_launch = (\<lambda>_. Ok ()) \<rparr>"

definition arti_started :: "unit arti_client" where
  "arti_started = \<lparr> ac_state_dir = ''/data/state'', ac_pending_events = [LogReceived ''Starting arti-client TorProvider''],
     ac_tasks = [], ac_launched = 0 \<rparr>"

lemma arti_started_new: "arti_new sample_arti ''/data'' = Ok arti_started"
  by (simp add: arti_new_def sample_arti_def arti_started_def path_join_def ends_with_def starts_with_def)

definition arti_bootstrapped :: "unit arti_client" where
  "arti_bootstrapped = arti_started\<lparr> ac_pending_events := [], ac_tasks := [ProgressTask] \<rparr>"

lemma arti_bootstrap_run:
  "arti_runs 1 [] [LogReceived ''Starting arti-client TorProvider'', BootstrapComplete]
     [LogReceived ''Starting arti-client TorProvider'', BootstrapComplete] arti_bootstrapped"
proof -
  let ?c = "arti_started\<lparr> ac_tasks := [ProgressTask, BootstrapTask] \<rparr>"
  have 1: "arti_runs 1 [] [LogReceived ''Starting arti-client TorProvider''] [] ?c"
    using arti_runs_bootstrap [OF arti_runs_new [OF arti_started_new]] by (simp add: arti_bootstrap_def spawn_def arti_started_def)
  have "run_task 1 (BootstrapResult True) ?c = (NoAction, ?c\<lparr> ac_pending_events := ac_pending_events ?c @ [BootstrapComplete], ac_tasks := [ProgressTask] \<rparr>)"
    by (simp add: run_task_def)
  from arti_runs_update [OF arti_runs_task [OF 1 _ this]] show ?thesis
    by (simp add: arti_update_def arti_bootstrapped_def arti_started_def)
qed

text \<open>One pump has read and passed on three bytes and then met the end of its stream.\<close>

definition ended_pump :: pump where
  "ended_pump = \<lparr> pu_at = PumpDone, pu_remaining_retries = 3, pu_read = [1, 2, 3], pu_written = [1, 2, 3] \<rparr>"

lemma ended_pump_run: "pumps_run False [ended_pump, pump_new]"
proof -
  let ?p = "\<lambda>at bs. \<lparr> pu_at = at, pu_remaining_retries = 3, pu_read = bs, pu_written = bs \<rparr>"
  have s: "pumps_run a [p, pump_new] \<Longrightarrow> pump_step io (a, p) = (a', q) \<Longrightarrow> pumps_run a' [q, pump_new]" for a p io a' q
    using pumps_step [of a "[p, pump_new]" 0 io a' q] by simp
  have "pumps_run True [?p PumpSelect [], pump_new]" by (rule s [OF pumps_start]) (simp add: pump_step_def pump_new_def)
  then have "pumps_run True [?p PumpTop [1, 2, 3], pump_new]"
    by (rule s [where io = "PumpRead [1, 2, 3] None True"]) (simp add: pump_step_def)
  then have "pumps_run True [?p PumpSelect [1, 2, 3], pump_new]" by (rule s) (simp add: pump_step_def)
  then have "pumps_run True [?p PumpDying [1, 2, 3], pump_new]" by (rule s [where io = PumpEnd]) (simp add: pump_step_def)
  then show ?thesis by (rule s) (simp add: pump_step_def ended_pump_def)
qed

definition arti_provider :: "unit arti_client tor_provider" where
  "arti_provider = \<lparr> tp_update = arti_update, tp_bootstrap = arti_bootstrap, tp_add_client_auth = arti_add_client_auth,
     tp_remove_client_auth = arti_remove_client_auth, tp_connect = arti_connect sample_arti mock_sys,
     tp_listener = (\<lambda>k port auth c. case arti_listener sample_arti toy_crypto mock_sys k port auth c of
        (Ret r, c') \<Rightarrow> (r, c') | (_, c') \<Rightarrow> (Err (Generic_error ''panic''), c')),
     tp_generate_token = arti_generate_token, tp_release_token = arti_release_token,
     stream_set_nonblocking = (\<lambda>_. Ok ()), listener_set_nonblocking = (\<lambda>_. Ok ()) \<rparr>"

lemma arti_provider_behind: "arti_behind sample_arti toy_crypto mock_sys arti_provider"
  by (simp add: arti_behind_def arti_provider_def)

definition arti_context :: "(unit arti_client, adoc) gosling_context" where
  "arti_context = (case context_new toy_crypto arti_bootstrapped 1 2 (from_secs 60) 4096 None other_key of
     Ok c \<Rightarrow> c\<lparr> ctx_bootstrap_complete := True \<rparr>)"

lemma arti_context_ready:
  "ctx_bootstrap_complete arti_context" "ctx_endpoint_listeners arti_context = []"
  "ctx_identity_service_id arti_context = service_id_from_private_key toy_crypto other_key"
  by (simp_all add: arti_context_def context_new_def)

end
