(* ===== verification/Server_Runs.thy ===== *)
theory Server_Runs
  imports Identity_Server Endpoint_Server Gosling_Context
begin

text \<open>
  The servers as the context drives them: on a session the context has configured, one update after the other as long
  as they succeed (the context drops a server whose update failed) and with the answers of the host in between. The
  stream is asked to take all bytes of an update before the next one. Bytes that stay behind move the ring buffer of
  the session, and a later update may find it wrapped.
\<close>

section \<open>Sessions\<close>

definition written_out :: "'d session option \<Rightarrow> bool" where
  "written_out r \<longleftrightarrow> (\<forall>rpc. r = Some rpc \<longrightarrow> vd_items (message_write_buffer rpc) = [])"

definition sound_rpc :: "'d bson_ops \<Rightarrow> 'd session option \<Rightarrow> bool" where
  "sound_rpc B r \<longleftrightarrow> (\<forall>rpc. r = Some rpc \<longrightarrow> session_ok B rpc)"

lemma sound_rpc_simps [simp]: "sound_rpc B None" "sound_rpc B (Some rpc) \<longleftrightarrow> session_ok B rpc"
  by (simp_all add: sound_rpc_def)

lemma configured_session_ok:
  assumes "configured_session now wait max_size st = Ret (Ok rpc)"
  shows "session_ok B rpc"
proof -
  have set: "set_max_message_size max_size (set_max_wait_time wait (session_new now st)) = (Ret (Ok ()), rpc)"
    using assms by (auto simp: configured_session_def split: prod.splits outcome.splits result.splits)
  then have "rpc = (session_new now st)\<lparr> max_wait_time := wait, max_message_size := unat max_size \<rparr>"
    by (auto simp: set_max_message_size_def set_max_wait_time_def split: if_splits)
  with set_max_message_size_min [OF set] session_ok_new [of B now st] show ?thesis
    by (simp add: session_ok_def out_inv_def read_inv_def session_new_def split: option.splits)
qed

section \<open>The identity server\<close>

inductive ids_live :: "'d bson_ops \<Rightarrow> crypto_ops \<Rightarrow> host_answer list \<Rightarrow> 'd identity_server \<Rightarrow> bool" for B C where
  ids_live_new: "configured_session now wait max_size st = Ret (Ok rpc) \<Longrightarrow> ids_live B C [] (identity_server_new rpc server_identity)"
| ids_live_update: "ids_live B C log s \<Longrightarrow> signing_key C generated \<Longrightarrow>
    identity_server_update B C generated s = (Ret (Ok event), t) \<Longrightarrow> written_out (ids_rpc t) \<Longrightarrow> ids_live B C log t"
| ids_live_request: "ids_live B C log s \<Longrightarrow>
    handle_endpoint_request_received B random allowed valid challenge s = (Ret (Ok ()), t) \<Longrightarrow>
    ids_live B C (log @ [RequestAnswered allowed valid]) t"
| ids_live_response: "ids_live B C log s \<Longrightarrow>
    handle_challenge_response_received valid s = (Ret (Ok ()), t) \<Longrightarrow>
    ids_live B C (log @ [ResponseAnswered valid]) t"

lemma ids_live_reach: "ids_live B C log s \<Longrightarrow> ids_reach B C log s"
  by (induction rule: ids_live.induct) (auto intro: ids_reach.intros)

lemma ids_advance_rpc: "ids_rpc (snd (ids_advance B C s)) = ids_rpc s"
  by (simp add: ids_advance_def Let_def split: outcome.split)

lemma identity_server_update_session:
  assumes "bson_laws B" "bson_size_laws B" "signing_key C generated" "ids_ok C log s" "sound_rpc B (ids_rpc s)"
    and "identity_server_update B C generated s = (Ret (Ok event), t)" "written_out (ids_rpc t)"
  shows "sound_rpc B (ids_rpc t)"
proof (cases "ids_rpc s")
  case None
  then show ?thesis using assms(6) ids_advance_rpc [of B C s] by (simp add: identity_server_update_def)
next
  case (Some rpc)
  let ?p = "([s\<lparr> ids_rpc := None \<rparr>], rpc)"
  have h: "ids.handled C log generated {k. signing_key C k} B 1 ?p"
    unfolding ids.handled_def using assms(3-5) Some by (simp add: ids_ok_def insert_absorb ids_keys_def)
  have "2 \<le> IDENTITY_SERVER_FUEL" by (simp add: IDENTITY_SERVER_FUEL_def)
  from ids.session_update_returns [OF assms(1,2) this h] obtain q ss rpc' where
    run: "session_update B (identity_api B C generated) IDENTITY_SERVER_FUEL ?p = (Ret q, (ss, rpc'))"
      "q = Ok () \<longrightarrow> vd_items (message_write_buffer rpc') = [] \<longrightarrow> session_ok B rpc'"
    by (metis prod.collapse snd_conv)
  with assms(6) Some have q: "q = Ok ()" "ids_advance B C ((hd ss)\<lparr> ids_rpc := Some rpc' \<rparr>) = (Ret (Ok event), t)"
    by (cases q; simp add: identity_server_update_def)+
  then have "ids_rpc t = Some rpc'" using ids_advance_rpc [of B C "(hd ss)\<lparr> ids_rpc := Some rpc' \<rparr>"] by simp
  with run(2) q(1) assms(7) show ?thesis by (simp add: written_out_def)
qed

lemma ids_live_session:
  assumes "ids_live B C log s" "bson_laws B" "bson_size_laws B"
  shows "sound_rpc B (ids_rpc s)"
  using assms(1)
proof induction
  case (ids_live_new now wait max_size st rpc server_identity)
  then show ?case by (simp add: identity_server_new_def configured_session_ok)
next
  case (ids_live_update log s generated event t)
  from identity_server_update_session [OF assms(2, 3) ids_live_update(2) ids_reach_ok [OF ids_live_reach [OF ids_live_update(1)]]
      ids_live_update.IH ids_live_update(3, 4)] show ?case .
next
  case (ids_live_request log s random allowed valid challenge t)
  then have "ids_rpc t = ids_rpc s"
    by (auto simp: handle_endpoint_request_received_def Let_def split: option.splits if_splits result.splits)
  with ids_live_request.IH show ?case by simp
next
  case (ids_live_response log s valid t)
  then have "ids_rpc t = ids_rpc s" by (auto simp: handle_challenge_response_received_def split: if_splits)
  with ids_live_response.IH show ?case by simp
qed

section \<open>The endpoint server\<close>

inductive eps_live :: "'d bson_ops \<Rightarrow> crypto_ops \<Rightarrow> v3_onion_service_id \<Rightarrow> bool list \<Rightarrow> 'd endpoint_server \<Rightarrow> bool" for B C allowed where
  eps_live_new: "configured_session now wait max_size st = Ret (Ok rpc) \<Longrightarrow>
    eps_live B C allowed [] (endpoint_server_new rpc allowed server_identity)"
| eps_live_update: "eps_live B C allowed log s \<Longrightarrow> endpoint_server_update B C s = (Ret (Ok event), t) \<Longrightarrow>
    written_out (eps_rpc t) \<Longrightarrow> eps_live B C allowed log t"
| eps_live_channel: "eps_live B C allowed log s \<Longrightarrow>
    handle_channel_request_received random valid s = (Ret (Ok ()), t) \<Longrightarrow> eps_live B C allowed (log @ [valid]) t"

lemma eps_live_reach: "eps_live B C allowed log s \<Longrightarrow> eps_reach B C allowed log s"
  by (induction rule: eps_live.induct) (auto intro: eps_reach.intros)

lemma eps_advance_session: "eps_rpc (snd (eps_advance s)) = eps_rpc s \<or> eps_rpc (snd (eps_advance s)) = None"
  by (auto simp: eps_advance_def Let_def split: option.split)

lemma endpoint_server_update_session:
  assumes "bson_laws B" "bson_size_laws B" "eps_ok C allowed log s" "sound_rpc B (eps_rpc s)"
    and "endpoint_server_update B C s = (Ret (Ok event), t)" "written_out (eps_rpc t)"
  shows "sound_rpc B (eps_rpc t)"
proof (cases "eps_rpc s")
  case None
  then show ?thesis using assms(5) eps_advance_session [of s] by (auto simp: endpoint_server_update_def)
next
  case (Some rpc)
  let ?p = "([s\<lparr> eps_rpc := None \<rparr>], rpc)"
  have h: "eps.handled C allowed log B 1 ?p"
    unfolding eps.handled_def using assms(3,4) Some by (simp add: eps_ok_def)
  have "2 \<le> ENDPOINT_SERVER_FUEL" by (simp add: ENDPOINT_SERVER_FUEL_def)
  from eps.session_update_returns [OF assms(1,2) this h] obtain q ss rpc' where
    run: "session_update B (endpoint_api B C) ENDPOINT_SERVER_FUEL ?p = (Ret q, (ss, rpc'))"
      "q = Ok () \<longrightarrow> vd_items (message_write_buffer rpc') = [] \<longrightarrow> session_ok B rpc'"
    by (metis prod.collapse snd_conv)
  with assms(5) Some have q: "q = Ok ()" "eps_advance ((hd ss)\<lparr> eps_rpc := Some rpc' \<rparr>) = (Ret (Ok event), t)"
    by (cases q; simp add: endpoint_server_update_def)+
  then have "eps_rpc t = Some rpc' \<or> eps_rpc t = None" using eps_advance_session [of "(hd ss)\<lparr> eps_rpc := Some rpc' \<rparr>"] by simp
  with run(2) q(1) assms(6) show ?thesis by (auto simp: written_out_def)
qed

lemma eps_live_session:
  assumes "eps_live B C allowed log s" "bson_laws B" "bson_size_laws B"
  shows "sound_rpc B (eps_rpc s)"
  using assms(1)
proof induction
  case (eps_live_new now wait max_size st rpc server_identity)
  then show ?case by (simp add: endpoint_server_new_def configured_session_ok)
next
  case (eps_live_update log s event t)
  from endpoint_server_update_session [OF assms(2, 3) eps_reach_ok [OF eps_live_reach [OF eps_live_update(1)]]
      eps_live_update.IH eps_live_update(2, 3)] show ?case .
next
  case (eps_live_channel log s random valid t)
  then have "eps_rpc t = eps_rpc s" by (auto simp: handle_channel_request_received_def split: if_splits)
  with eps_live_channel.IH show ?case by simp
qed

end
