(* ===== verification/Honk_Delivery.thy ===== *)
theory Honk_Delivery
  imports Honk_Packing
begin

text \<open>
  The way of sections from one session to another: every outcome of writing, deliveries over streams that take and
  give the bytes in any pieces, and what a reader that is too slow does to the ring buffer of the writer.
\<close>

section \<open>Every outcome of writing\<close>

text \<open>
  A write that succeeds removes exactly the bytes that went out. One that fails, in a later write or in the flush,
  removes none, also when some bytes went out before: they are sent once more by the next call.
\<close>

lemma write_pending_data_outcome:
  assumes "vd_inv (message_write_buffer s)" "write_pending_data s = (r, t)"
  shows "\<exists>k \<le> length (vd_items (message_write_buffer s)).
    sent (stream t) = sent (stream s) @ take k (vd_items (message_write_buffer s)) \<and>
    (case r of
       Ret (Ok _) \<Rightarrow> vd_items (message_write_buffer t) = drop k (vd_items (message_write_buffer s)) \<and> vd_contiguous (message_write_buffer t)
     | Ret (Err _) \<Rightarrow> message_write_buffer t = message_write_buffer s
     | Panic \<Rightarrow> t = s \<and> \<not> vd_contiguous (message_write_buffer s)
     | OutOfFuel \<Rightarrow> False)"
proof (cases "vd_contiguous (message_write_buffer s)")
  case False
  then have "snd (vd_as_slices (message_write_buffer s)) \<noteq> []" using vd_single_slice_iff [OF assms(1)] by simp
  then have "write_pending_data s = (Panic, s)"
    by (simp add: write_pending_data_def write_pending_data_impl_def action_defs split_beta)
  with assms(2) False show ?thesis by (auto intro: exI [of _ 0])
next
  case True
  let ?v = "message_write_buffer s"
  obtain q st1 where loop: "write_pending_loop (vd_items ?v) 0 (stream s) = (q, st1)" by fastforce
  obtain f st2 where flush: "io_flush st1 = (f, st2)" by fastforce
  from write_pending_loop_spec [OF loop] obtain k where
    k: "k \<le> length (vd_items ?v)" "sent st1 = sent (stream s) @ take k (vd_items ?v)" "\<forall>n. q = Ok n \<longrightarrow> n = k" by auto
  have "sent st2 = sent st1" using flush by (auto simp: io_flush_def split: list.splits option.splits)
  moreover have "vd_contiguous (vd_make_contiguous (vd_drain_front n ?v))" for n
    using assms(1) by (simp add: vd_drain_inv vd_make_contiguous_contiguous)
  ultimately show ?thesis using assms(2) True loop flush k
    by (intro exI [of _ k]) (cases q; cases f; auto simp: write_pending_data_def write_pending_data_impl_def action_defs vd_as_slices_def)
qed

section \<open>Deliveries\<close>

inductive writes :: "'d session \<Rightarrow> 'd session \<Rightarrow> bool" where
  writes_refl: "writes s s"
| writes_step: "write_pending_data s = (Ret (Ok ()), t) \<Longrightarrow> writes t u \<Longrightarrow> writes s u"

lemma writes_conserve: "writes s t \<Longrightarrow> vd_inv (message_write_buffer s) \<Longrightarrow> wire t = wire s"
proof (induction rule: writes.induct)
  case (writes_step s t u)
  then show ?case using write_pending_data_conserves(1, 2) by metis
qed simp

text \<open>A receiver between two messages queues the sections of the documents that it takes from the stream.\<close>

lemma reads_deliver:
  assumes "frames B ds ms" "read_inv r" "message_read_buffer r = []" "incoming r = concat ds" "reads B r r'" "incoming r' = []"
  shows "pending_sections r' = pending_sections r @ concat (map msg_sections ms) \<and> message_read_buffer r' = []"
proof -
  from reads_frames [OF assms(5, 2)] assms(3, 4, 6) obtain es ns where
    *: "concat ds = concat es @ message_read_buffer r'" "frames B es ns" "read_inv r'"
      "pending_sections r' = pending_sections r @ concat (map msg_sections ns)" by auto
  have "incomplete []" using read_inv_incomplete [OF assms(2)] assms(3) by simp
  from framing_unique [OF frames_self_sized [OF assms(1)] frames_self_sized [OF *(2)] this read_inv_incomplete [OF *(3)]] *(1)
  have "ds = es" "message_read_buffer r' = []" by auto
  then show ?thesis using frames_functional [OF assms(1)] *(2, 4) by auto
qed

definition sends :: "'d bson_ops \<Rightarrow> 'd rpc_section list \<Rightarrow> 'd session \<Rightarrow> bool" where
  "sends B ss s \<longleftrightarrow> out_inv B s \<and> outbound_sections s = map (section_into B) ss \<and> vd_inv (message_write_buffer s)"

lemma delivery:
  assumes "bson_laws B" "bson_size_laws B" "list_all section_wf ss" "sends B ss s"
    "\<forall>q. sublist q ss \<longrightarrow> reads_back B (sections_message B (map (\<lambda>s. BDocument (section_into B s)) q))"
  shows "\<exists>t qs. serialize_messages B s = (Ret (Ok ()), t) \<and> outbound_sections t = [] \<and> concat qs = ss \<and>
     list_all (good_part B (max_message_size s)) (map (map (\<lambda>s. BDocument (section_into B s))) qs) \<and>
     frames B (map (message_bytes B) (map (map (\<lambda>s. BDocument (section_into B s))) qs))
       (map (\<lambda>q. \<lparr> msg_honk_rpc = HONK_RPC_VERSION, msg_sections = q \<rparr>) qs) \<and>
     wire t = wire s @ concat (map (message_bytes B) (map (map (\<lambda>s. BDocument (section_into B s))) qs)) \<and>
     vd_inv (message_write_buffer t) \<and> stream t = stream s \<and>
     (vd_head (message_write_buffer s) = 0 \<longrightarrow> vd_contiguous (message_write_buffer t))"
proof -
  from assms(4) have s: "out_inv B s" "outbound_sections s = map (section_into B) ss" "vd_inv (message_write_buffer s)"
    by (simp_all add: sends_def)
  from serialize_messages_spec [OF assms(1,2) s(1)] obtain parts t where
    run: "serialize_messages B s = (Ret (Ok ()), t)"
    and parts: "concat parts = map BDocument (outbound_sections s)" "list_all (good_part B (max_message_size s)) parts"
    and t: "message_write_buffer t = fold (\<lambda>p. vd_append (message_bytes B p)) parts (message_write_buffer s)"
      "outbound_sections t = []" "stream t = stream s" by blast
  obtain qs where qs: "concat qs = ss" "parts = map (map (\<lambda>s. BDocument (section_into B s))) qs"
    using parts(1) s(2) concat_eq_map_split [of parts "\<lambda>s. BDocument (section_into B s)" ss] by (auto simp: comp_def)
  have "frames B (map (message_bytes B) parts) (map (\<lambda>q. \<lparr> msg_honk_rpc = HONK_RPC_VERSION, msg_sections = q \<rparr>) qs)"
    using parts_frames [OF assms(1) qs(1) assms(3)] parts(2) qs assms(5) concat_sublist by blast
  moreover have "wire t = wire s @ concat (map (message_bytes B) parts)" using t by (simp add: wire_def fold_append_items)
  moreover have "vd_inv (message_write_buffer t)" using t(1) s(3) by (simp add: fold_append_inv)
  moreover have "vd_head (message_write_buffer s) = 0 \<longrightarrow> vd_contiguous (message_write_buffer t)"
    using t(1) s(3) by (simp add: fold_append_inv fold_append_head0 head0_contiguous)
  ultimately show ?thesis using run t(2, 3) qs(1) parts(2) unfolding qs(2) by (intro exI [of _ t] exI [of _ qs]) simp
qed

section \<open>A reader that is too slow\<close>

text \<open>
  Bytes that were not taken stay in the middle of the ring buffer. The next message goes behind them, and around
  the end of the buffer when it fits into the free space but not behind them.
\<close>

lemma drained_append_contiguous:
  assumes "vd_inv v" "vd_head v = 0" "k < length (vd_items v)" "m \<le> vd_cap v" "length xs = m"
  shows "vd_contiguous (vd_append xs (vd_make_contiguous (vd_drain_front k v))) \<longleftrightarrow>
    \<not> (length (vd_items v) - k + m \<le> vd_cap v \<and> vd_cap v < length (vd_items v) + m)"
proof -
  let ?d = "v\<lparr> vd_head := k, vd_items := drop k (vd_items v) \<rparr>"
  have len: "length (vd_items v) \<le> vd_cap v" using assms(1) by (simp add: vd_inv_def)
  then have d: "vd_make_contiguous (vd_drain_front k v) = ?d"
    using assms(2, 3) by (simp add: vd_drain_front_def vd_make_contiguous_def vd_contiguous_def)
  show ?thesis
  proof (cases "length (vd_items v) - k + m \<le> vd_cap v")
    case True
    then have "vd_reserve m ?d = ?d" by (simp add: vd_reserve_def Let_def)
    with True assms(3, 5) show ?thesis by (auto simp: d vd_append_def vd_contiguous_def)
  next
    case False
    have "vd_head (vd_reserve m ?d) = k" "2 * vd_cap v \<le> vd_cap (vd_reserve m ?d)"
      using False assms(3) len by (auto simp: vd_reserve_def vd_contiguous_def Let_def)
    with False assms(3-5) len show ?thesis by (simp add: d vd_append_def vd_contiguous_def)
  qed
qed

lemma one_message_serialized:
  assumes "good_part B (max_message_size s) (map BDocument ds)" "serialize_messages B (s\<lparr> outbound_sections := ds \<rparr>) = (Ret (Ok ()), t)"
  shows "message_write_buffer t = vd_append (message_bytes B (map BDocument ds)) (message_write_buffer s)"
proof -
  let ?xs = "map BDocument ds"
  have "ds \<noteq> []" "to_writer B (sections_message B ?xs) = Ok (message_bytes B ?xs)" "\<not> max_message_size s < length (message_bytes B ?xs)"
    using assms(1) by (auto simp: good_part_def)
  with assms(2) show ?thesis
    by (auto simp: serialize_messages_def serialize_messages_impl.simps [of B ?xs])
qed

lemma slow_reader:
  assumes "vd_inv (message_write_buffer s)" "vd_head (message_write_buffer s) = 0"
    and "write_pending_data s = (Ret (Ok ()), t)" "vd_items (message_write_buffer t) \<noteq> []"
    and "good_part B (max_message_size t) (map BDocument ds)" "length (message_bytes B (map BDocument ds)) \<le> vd_cap (message_write_buffer s)"
    and "serialize_messages B (t\<lparr> outbound_sections := ds \<rparr>) = (Ret (Ok ()), u)"
  shows "fst (write_pending_data u) = Panic \<longleftrightarrow>
    length (vd_items (message_write_buffer t)) + length (message_bytes B (map BDocument ds)) \<le> vd_cap (message_write_buffer s) \<and>
    vd_cap (message_write_buffer s) < length (vd_items (message_write_buffer s)) + length (message_bytes B (map BDocument ds))"
proof -
  let ?v = "message_write_buffer s" and ?m = "message_bytes B (map BDocument ds)"
  obtain n st1 st2 where t: "t = s\<lparr> stream := st2, message_write_buffer := vd_make_contiguous (vd_drain_front n ?v) \<rparr>"
    using assms(3) by (rule write_pending_data_OkE)
  with assms(4) have n: "n < length (vd_items ?v)" by simp
  have buf: "message_write_buffer u = vd_append ?m (vd_make_contiguous (vd_drain_front n ?v))"
    using one_message_serialized [OF assms(5, 7)] t by simp
  have "vd_inv (message_write_buffer u)" using assms(1) by (simp add: buf vd_append_inv vd_make_contiguous_inv vd_drain_inv)
  from write_pending_data_panics_iff [OF this] drained_append_contiguous [OF assms(1, 2) n assms(6) refl]
  show ?thesis using t n by (simp add: buf)
qed

end
