(* ===== verification/Sample_Delivery.thy ===== *)
theory Sample_Delivery
  imports Sample_Runs Honk_Delivery
begin

text \<open>Concrete sessions whose stream takes some bytes and then fails, or takes some bytes and then none for a while.\<close>

section \<open>A write that fails\<close>

definition failing_writer :: "adoc session" where
  "failing_writer = (session_new 0 (quiet_stream []\<lparr> wr_events := [Accept 2, WriteErr (OtherIoError 4)] \<rparr>))
     \<lparr> message_write_buffer := vd_append [1, 2, 3] vd_new \<rparr>"

lemma failing_writer_inv: "vd_inv (message_write_buffer failing_writer)"
  by (simp add: failing_writer_def vd_append_def vd_reserve_def vd_contiguous_def vd_new_def vd_inv_def)

lemma failing_writer_fails:
  "\<exists>t. write_pending_data failing_writer = (Ret (Err (WriterWriteFailed (OtherIoError 4))), t) \<and> sent (stream t) = [1, 2]"
proof -
  have "write_pending_loop [1, 2, 3] 0 (stream failing_writer) =
      (Err (WriterWriteFailed (OtherIoError 4)), (quiet_stream [])\<lparr> sent := [1, 2] \<rparr>)"
    by (subst write_pending_loop.simps, simp add: io_write_def session_new_def failing_writer_def quiet_stream_def)
      (subst write_pending_loop.simps, simp add: io_write_def)
  then show ?thesis
    by (simp add: write_pending_data_def write_pending_data_impl_def try_then_def andthen_def vd_append_def
        vd_reserve_def vd_new_def vd_contiguous_def vd_as_slices_def session_new_def failing_writer_def quiet_stream_def ret_def)
qed

section \<open>Two long answers to a slow reader\<close>

definition long_section :: "nat \<Rightarrow> adoc rpc_section" where
  "long_section n = SResponse \<lparr> rs_cookie = 7, rs_state = Complete, rs_result = Some (BString (replicate n (CHR ''x''))) \<rparr>"

definition long_doc :: "nat \<Rightarrow> adoc" where
  "long_doc n = ADoc [(''id'', BInt32 2), (''cookie'', BInt64 7), (''state'', BInt32 1), (''result'', BString (replicate n (CHR ''x'')))]"

lemma long_section_doc: "section_into sample_bson (long_section n) = long_doc n"
  by (simp add: long_section_def response_section_into_def insert_opt_def RESPONSE_SECTION_ID_def long_doc_def)

lemma long_doc_size: "doc_size sample_bson (long_doc n) = 53 + n" "serialises sample_bson (long_doc n)"
  by (simp_all add: alist_doc_size long_doc_def)

lemma long_message:
  assumes "90 + n \<le> m"
  shows "good_part sample_bson m [BDocument (long_doc n)]" "length (message_bytes sample_bson [BDocument (long_doc n)]) = 90 + n"
    "fits sample_bson m (long_doc n)"
proof -
  have size: "length (enc_doc (sections_message sample_bson [BDocument (long_doc n)])) = 90 + n"
    using single_section_size(2) [OF alist_bson_laws alist_bson_size_laws long_doc_size(2)] long_doc_size(1)
    by (simp add: alist_doc_size MIN_MESSAGE_SIZE_value)
  then show "length (message_bytes sample_bson [BDocument (long_doc n)]) = 90 + n" by (simp add: message_bytes_def)
  with assms show "good_part sample_bson m [BDocument (long_doc n)]" by (simp add: good_part_def message_bytes_def)
  show "fits sample_bson m (long_doc n)" using assms long_doc_size by (simp add: fits_def MIN_MESSAGE_SIZE_value)
qed

lemma long_push:
  assumes "MIN_MESSAGE_SIZE \<le> max_message_size s" "90 + n \<le> max_message_size s" "outbound_sections s = []"
  shows "push_outbound_section sample_bson (long_section n) s = (Ret (Ok ()), s\<lparr> outbound_sections := [long_doc n] \<rparr>)"
proof -
  have "count_document sample_bson (long_doc n) = Ok (53 + n)" using long_doc_size by (simp add: count_document_Ok_iff)
  then show ?thesis
    using push_outbound_section_cases [OF assms(1), of sample_bson "long_section n"] long_message(3) [OF assms(2)] assms(3)
    by (simp add: long_section_doc)
qed

text \<open>The stream takes 2000 bytes and then none until the next call.\<close>

definition slow_sender :: "adoc session" where
  "slow_sender = session_new 0 (quiet_stream []\<lparr> wr_events := [Accept 2000, WriteErr WouldBlock] \<rparr>)"

definition slow_queued :: "adoc session" where
  "slow_queued = slow_sender\<lparr> message_write_buffer := vd_append (message_bytes sample_bson [BDocument (long_doc 3000)]) (message_write_buffer slow_sender),
     message_serialization_buffer := [] \<rparr>"

lemma slow_sender_sizes: "max_message_size slow_sender = 4096" "outbound_sections slow_sender = []"
  "message_write_buffer slow_sender = \<lparr> vd_cap = 4096, vd_head = 0, vd_items = [] \<rparr>"
  by (simp_all add: slow_sender_def session_new_def DEFAULT_MAX_MESSAGE_SIZE_def vd_reserve_def vd_new_def vd_contiguous_def)

lemma slow_serialized: "serialize_messages sample_bson (slow_sender\<lparr> outbound_sections := [long_doc 3000] \<rparr>) = (Ret (Ok ()), slow_queued)"
proof -
  have "to_writer sample_bson (sections_message sample_bson [BDocument (long_doc 3000)]) = Ok (message_bytes sample_bson [BDocument (long_doc 3000)])"
    "\<not> max_message_size slow_sender < length (message_bytes sample_bson [BDocument (long_doc 3000)])"
    using long_message [of 3000 4096] slow_sender_sizes(1) by (simp_all add: good_part_def)
  then show ?thesis
    using slow_sender_sizes(2)
    by (simp add: serialize_messages_def serialize_messages_impl.simps [of sample_bson "[BDocument (long_doc 3000)]"] slow_queued_def del: alist_sel)
qed

lemma slow_queued_buffer: "vd_inv (message_write_buffer slow_queued)" "vd_head (message_write_buffer slow_queued) = 0"
  "vd_cap (message_write_buffer slow_queued) = 4096" "length (vd_items (message_write_buffer slow_queued)) = 3090"
  using long_message(2) [of 3000 4096]
  by (simp_all add: slow_queued_def slow_sender_sizes vd_append_def vd_reserve_def vd_inv_def)

lemma slow_write: "\<exists>t. write_pending_data slow_queued = (Ret (Ok ()), t) \<and> length (vd_items (message_write_buffer t)) = 1090 \<and>
    max_message_size t = 4096 \<and> outbound_sections t = []"
proof -
  let ?b = "vd_items (message_write_buffer slow_queued)"
  have "drop 2000 ?b \<noteq> []" "?b \<noteq> []" using slow_queued_buffer(4) by auto
  moreover have st: "stream slow_queued = quiet_stream []\<lparr> wr_events := [Accept 2000, WriteErr WouldBlock] \<rparr>"
    by (simp add: slow_queued_def slow_sender_def session_new_def)
  ultimately have loop: "write_pending_loop ?b 0 (stream slow_queued) = (Ok 2000, (quiet_stream [])\<lparr> sent := take 2000 ?b \<rparr>)"
    using slow_queued_buffer(4)
    by (subst write_pending_loop.simps) (simp add: io_write_def quiet_stream_def write_pending_loop.simps [of "drop 2000 ?b"])
  have "vd_contiguous (message_write_buffer slow_queued)"
    using slow_queued_buffer by (simp add: vd_contiguous_def)
  with loop slow_queued_buffer(4) show ?thesis
    by (simp add: write_pending_data_def write_pending_data_impl_def try_then_def andthen_def vd_as_slices_def io_flush_def quiet_stream_def)
      (simp add: slow_queued_def slow_sender_sizes)
qed

end
