(* ===== verification/Legacy_Deletions.thy ===== *)
theory Legacy_Deletions
  imports Legacy_Runs
begin

text \<open>
  What \<open>update\<close> of the provider that drives a daemon sends: reading replies sends nothing, a command that succeeds is
  on the wire once, and pruning sends one \<open>DEL_ONION\<close> for each service whose listener is gone.
\<close>

section \<open>Reading sends nothing\<close>

abbreviation written :: "control_stream \<Rightarrow> bytes" where
  "written s \<equiv> cs_written (stream s)"

abbreviation sent_by :: "tor_controller \<Rightarrow> bytes" where
  "sent_by c \<equiv> cs_written (stream (tc_stream c))"

lemma read_line_written: "written (snd (read_line s)) = written s"
proof (induction s rule: read_line.induct)
  case (1 s)
  have receive: "written (snd (receive s)) = written s"
    by (auto simp: receive_def read_to_end_def split: list.splits prod.splits option.splits if_splits)
  show ?case
  proof (cases "pending_lines s")
    case (Cons l ls)
    then show ?thesis by (subst read_line.simps) simp
  next
    case Nil
    obtain r t where t: "receive s = (r, t)" by fastforce
    obtain q u where u: "split_lines t = (q, u)" by fastforce
    have "written u = written s" using split_lines_stream [of t] t u receive by simp
    with "1.IH" [OF Nil t [symmetric] _ _ u [symmetric]] Nil t u receive show ?thesis
      by (subst read_line.simps) (cases q; auto split: result.splits bool.splits)
  qed
qed

lemma reply_line_written: "keeps (\<lambda>s. written s = w) (reply_line P l)"
  unfolding reply_line_def same_status_def sort_line_def
  by (intro keeps_intros keepsI) (auto simp: action_defs slice_def split: list.splits outcome.splits)

lemma reply_loop_written: "written (snd (reply_loop P s)) = written s"
proof (induction P s rule: reply_loop.induct)
  case (1 P s)
  show ?case
  proof (cases "\<exists>l t. read_line s = (Ok (Some l), t)")
    case True
    then obtain l t where t: "read_line s = (Ok (Some l), t)" by blast
    obtain z u where u: "reply_line P l t = (z, u)" by fastforce
    have w: "written u = written s"
      using read_line_written [of s] t keepsD [OF reply_line_written refl u] by simp
    show ?thesis
    proof (cases "z = Ret (Ok False)")
      case True
      with "1.IH" [OF t [symmetric] refl refl] u w have "written (snd (reply_loop P u)) = written s" by fastforce
      with True t u show ?thesis by (subst reply_loop.simps) simp
    next
      case False
      with t u w show ?thesis by (subst reply_loop.simps) (auto split: outcome.splits result.splits bool.splits)
    qed
  next
    case False
    with read_line_written [of s] show ?thesis
      by (subst reply_loop.simps) (auto split: prod.splits result.splits option.splits)
  qed
qed

lemma read_reply_written: "keeps (\<lambda>s. written s = w) (read_reply P)"
proof -
  have "keeps (\<lambda>s. written s = w) (reply_loop P)" by (rule keepsI) (simp add: reply_loop_written)
  moreover have "keeps (\<lambda>s. written s = w) finish_reply"
    by (rule keepsI) (auto simp: finish_reply_def Let_def action_defs slice_def split: list.splits outcome.splits option.splits)
  ultimately show ?thesis unfolding read_reply_def by (intro keeps_try_then) (auto intro: keeps_intros)
qed

lemma on_stream_written:
  assumes "keeps (\<lambda>s. written s = w) m"
  shows "keeps (\<lambda>c. sent_by c = w) (on_stream f m)"
  using assms by (auto simp: keeps_def on_stream_def split: prod.split outcome.split result.split)

lemma wait_replies_written: "written s = w \<Longrightarrow> written (snd (wait_replies P rs s)) = w"
proof (induction P rs s rule: wait_replies.induct)
  case (1 P rs s)
  obtain r t where t: "read_reply P s = (r, t)" by fastforce
  have "written t = w" by (rule keepsD [OF read_reply_written "1.prems" t])
  with "1.IH" [OF t [symmetric]] t show ?case
    by (subst wait_replies.simps) (auto split: outcome.splits result.splits option.splits)
qed

lemma replies_to_events_state: "snd (replies_to_events E rs c) = c"
proof -
  have "keeps (\<lambda>d. d = c) (reply_to_event E r)" for r
    by (rule keepsI) (auto simp: reply_to_event_def Let_def action_defs split: option.splits outcome.splits result.splits)
  then have "keeps (\<lambda>d. d = c) (replies_to_events E rs)" by (induction rs) (auto intro!: keeps_intros)
  then show ?thesis by (simp add: keeps_def)
qed

lemma wait_async_events_written: "keeps (\<lambda>c. sent_by c = w) (wait_async_events E)"
proof -
  have "keeps (\<lambda>c. sent_by c = w) (wait_async_replies E)"
  proof (rule keepsI)
    fix c assume "sent_by c = w"
    then show "sent_by (snd (wait_async_replies E c)) = w"
      using wait_replies_written [of "tc_stream c" w "ce_control E" "tc_async_replies c"]
      by (auto simp: wait_async_replies_def on_stream_def split: prod.split outcome.split result.split)
  qed
  moreover have "keeps (\<lambda>c. sent_by c = w) (replies_to_events E rs)" for rs
    by (rule keepsI) (simp add: replies_to_events_state)
  ultimately show ?thesis unfolding wait_async_events_def by (intro keeps_try_then)
qed

lemma wait_sync_reply_written: "keeps (\<lambda>c. sent_by c = w) (wait_sync_reply E n)"
proof (induction n)
  case (Suc n)
  let ?f = "\<lambda>r. case r of
      Some reply \<Rightarrow> if status_code reply = 650
        then (\<lambda>c. wait_sync_reply E n (c\<lparr> tc_async_replies := tc_async_replies c @ [reply] \<rparr>)) else ret (Ok reply)
    | None \<Rightarrow> wait_sync_reply E n"
  have "keeps (\<lambda>c. sent_by c = w) (\<lambda>c. wait_sync_reply E n (c\<lparr> tc_async_replies := tc_async_replies c @ [reply] \<rparr>))" for reply
    using Suc.IH by (simp add: keeps_def)
  then have "keeps (\<lambda>c. sent_by c = w) (?f r)" for r using Suc.IH by (auto intro: keeps_ret split: option.split)
  then have "keeps (\<lambda>c. sent_by c = w) (try_then (on_stream ReadReplyFailed (read_reply (ce_control E))) ?f)"
    by (intro keeps_try_then on_stream_written read_reply_written)
  moreover have "wait_sync_reply E (Suc n) = try_then (on_stream ReadReplyFailed (read_reply (ce_control E))) ?f" by (rule ext) simp
  ultimately show ?case by (simp only:)
qed (simp add: keeps_def)

section \<open>Commands\<close>

lemma write_all_Ok: "write_all bs k = (Ok (), k') \<Longrightarrow> cs_written k' = cs_written k @ bs"
  by (auto simp: write_all_def split: list.splits option.splits)

lemma control_write_Ok:
  assumes "control_write cmd s = (Ok (), t)"
  shows "written t = written s @ as_bytes cmd @ [13, 10]"
proof -
  obtain k k' where "write_all (as_bytes cmd) (stream s) = (Ok (), k)" "write_all [13, 10] k = (Ok (), k')" "t = s\<lparr> stream := k' \<rparr>"
    using assms unfolding control_write_def by (auto split: prod.splits result.splits)
  then show ?thesis using write_all_Ok by fastforce
qed

lemma write_command_Ok:
  assumes "write_command E n cmd c = (Ret (Ok r), d)"
  shows "sent_by d = sent_by c @ as_bytes cmd @ [13, 10]"
proof -
  from assms obtain t where t: "control_write cmd (tc_stream c) = (Ok (), t)" "wait_sync_reply E n (c\<lparr> tc_stream := t \<rparr>) = (Ret (Ok r), d)"
    unfolding write_command_def try_then_Ok_iff by (auto simp: on_stream_def split: prod.splits result.splits)
  then show ?thesis
    using control_write_Ok [OF t(1)] keepsD [OF wait_sync_reply_written refl t(2)] by simp
qed

definition deletion :: "v3_onion_service_id \<Rightarrow> bytes" where
  "deletion service_id = as_bytes (''DEL_ONION '' @ service_id_to_string service_id) @ [13, 10]"

lemma del_onion_Ok:
  assumes "del_onion E n sid c = (Ret (Ok u), d)"
  shows "sent_by d = sent_by c @ deletion sid"
proof -
  from assms obtain r e where "write_command E n (''DEL_ONION '' @ service_id_to_string sid) c = (Ret (Ok r), e)" "d = e"
    unfolding del_onion_def del_onion_cmd_def try_then_Ok_iff by (auto simp: expect_codes_def ret_def split: if_splits)
  with write_command_Ok show ?thesis by (simp add: deletion_def)
qed

section \<open>Pruning\<close>

lemma legacy_prune_written:
  assumes "legacy_prune E n i c = (Ret (Ok ()), d)"
  shows "\<exists>gone. mset (lc_onion_services c) = mset (lc_onion_services d) + mset gone \<and> (\<forall>s\<in>set gone. \<not> lc_active c (snd s)) \<and>
    sent_by (lc_controller d) = sent_by (lc_controller c) @ concat (map (\<lambda>s. deletion (fst s)) gone)"
  using assms
proof (induction E n i c rule: legacy_prune.induct)
  case (1 E n i c)
  show ?case
  proof (cases "i < length (lc_onion_services c)")
    case True
    obtain sid a where s: "lc_onion_services c ! i = (sid, a)" by fastforce
    show ?thesis
    proof (cases "lc_active c a")
      case False
      let ?c = "c\<lparr> lc_onion_services := swap_remove i (lc_onion_services c) \<rparr>"
      obtain r e where e: "on_controller DelOnionFailed (del_onion E n sid) ?c = (r, e)" by fastforce
      with "1.prems" True s False obtain u where r: "r = Ret (Ok u)" "legacy_prune E n i e = (Ret (Ok ()), d)"
        by (subst (asm) legacy_prune.simps) (auto split: outcome.splits result.splits)
      obtain t where t: "del_onion E n sid (lc_controller c) = (Ret (Ok u), t)" "e = ?c\<lparr> lc_controller := t \<rparr>"
        using e r(1) by (auto simp: on_controller_def split: prod.splits outcome.splits result.splits)
      from "1.IH"(1) [OF True s [symmetric] False e [symmetric] r(1) refl r(2)] obtain gone where
        gone: "mset (lc_onion_services e) = mset (lc_onion_services d) + mset gone" "\<forall>s\<in>set gone. \<not> lc_active e (snd s)"
          "sent_by (lc_controller d) = sent_by (lc_controller e) @ concat (map (\<lambda>s. deletion (fst s)) gone)" by blast
      then show ?thesis
        using swap_remove_mset [OF True] s False del_onion_Ok [OF t(1)] t(2) by (intro exI [of _ "(sid, a) # gone"]) simp
    next
      case on: True
      with "1.prems" True s have "legacy_prune E n (i + 1) c = (Ret (Ok ()), d)" by (subst (asm) legacy_prune.simps) simp
      with "1.IH"(2) [OF True s [symmetric]] on show ?thesis by simp
    qed
  next
    case False
    with "1.prems" have "d = c" by (subst (asm) legacy_prune.simps) simp
    then show ?thesis by (intro exI [of _ "[]"]) simp
  qed
qed

lemma legacy_update_written:
  assumes "legacy_update E n T c = (Ret (Ok events), d)"
  shows "\<exists>gone. mset gone = filter_mset (\<lambda>s. \<not> lc_active c (snd s)) (mset (lc_onion_services c)) \<and>
    sent_by (lc_controller d) = sent_by (lc_controller c) @ concat (map (\<lambda>s. deletion (fst s)) gone)"
proof -
  from assms obtain u es v where u: "legacy_prune E n 0 c = (Ret (Ok ()), u)" "on_controller WaitAsyncEventsFailed (wait_async_events E) u = (Ret (Ok es), v)"
    "legacy_events es v = (Ret (Ok events), d)"
    unfolding legacy_update_def into_error_Ok try_then_Ok_iff by auto
  from legacy_prune_written [OF u(1)] obtain gone where
    gone: "mset (lc_onion_services c) = mset (lc_onion_services u) + mset gone" "\<forall>s\<in>set gone. \<not> lc_active c (snd s)"
      "sent_by (lc_controller u) = sent_by (lc_controller c) @ concat (map (\<lambda>s. deletion (fst s)) gone)" by blast
  have "filter_mset (\<lambda>s. \<not> lc_active c (snd s)) (mset gone) = mset gone"
    "filter_mset (\<lambda>s. \<not> lc_active c (snd s)) (mset (lc_onion_services u)) = {#}"
    using gone(2) legacy_prune_spec(1) [OF u(1)] by (auto simp: filter_mset_eq_conv)
  then have "mset gone = filter_mset (\<lambda>s. \<not> lc_active c (snd s)) (mset (lc_onion_services c))" using gone(1) by simp
  moreover have "sent_by (lc_controller v) = sent_by (lc_controller u)"
    using keepsD [OF wait_async_events_written refl] u(2) by (auto simp: on_controller_def split: prod.splits outcome.splits result.splits)
  moreover have "lc_controller d = lc_controller v"
    using u(3) by (auto simp: legacy_events_def Let_def split: option.splits prod.splits if_splits)
  ultimately show ?thesis using gone(3) by auto
qed

end
