(* ===== verification/Spec2Isabelle.thy ===== *)
theory Spec2Isabelle
  imports Sample_Context Tor_Addresses Sample_Ffi Sample_Arti Server_Runs Sample_Delivery Legacy_Deletions
begin

text \<open>
  Gosling: a verification library.

  The program. Gosling connects peers over onion services. \<open>honk-rpc\<close> is a small RPC protocol over a
  byte stream (BSON messages of sections: errors, requests, responses). The crate \<open>gosling\<close> runs two
  handshakes over it, each with a client and a server side: the identity handshake, in which a client
  proves its service id and answers a challenge and receives the service id of a private endpoint, and
  the endpoint handshake, in which the client of an endpoint proves its service id and opens a channel.
  A context owns a Tor provider, the listeners and all handshakes in progress, each under a handle, and
  turns their events into its own. The crate \<open>tor-interface\<close> provides keys, signatures, service ids and
  the provider.

  Conventions. An operation that may panic or loop is an action: a function from a state to an outcome
  (\<open>Ret\<close>, \<open>Panic\<close>, \<open>OutOfFuel\<close>) and a state; fallible code returns \<open>Ok\<close> or \<open>Err\<close>. \<open>try_then\<close> is the
  operator \<open>?\<close>. A stream is a script of what its reads, writes and flushes will return, with the time of
  each read. Machine integers are words where the code computes with them; a \<open>usize\<close> that only counts up (handshake handles,
  circuit tokens) is a natural number, which is the code's value below \<open>2 ^ 64\<close>. After its script a stream takes
  everything, so a stream whose writes return 0 for ever is not in the model.

  Parameters. The \<open>bson\<close> crate is the record \<open>bson_ops\<close> with the laws \<open>bson_laws\<close> and \<open>bson_size_laws\<close>
  (a document is a map with ordered keys, its serialisation has the size of the BSON format);
  \<open>reads_back\<close> says of a document that the parser inverts the serialiser on it. Curve operations, hashes
  and base encodings are the record \<open>crypto_ops\<close> with \<open>codec_laws\<close> and \<open>signature_laws\<close>. The Tor provider,
  a trait object, is the record \<open>tor_provider\<close>. Regular expressions of the control port are \<open>control_patterns\<close>
  with \<open>pattern_laws\<close>; files and processes are \<open>fs_ops\<close>, sockets \<open>sys_ops\<close>, the patterns and the
  crates behind domain names \<open>address_ops\<close>, the patterns of bridge lines and the reader of socket addresses
  \<open>text_ops\<close>, the arti crates \<open>arti_ops\<close>, and the SOCKS client is a function. \<open>Bson_Alist\<close> and \<open>Crypto_Toy\<close> satisfy the laws with
  concrete functions, \<open>Sample_Runs\<close>, \<open>Sample_Delivery\<close>, \<open>Sample_Context\<close>, \<open>Sample_Control\<close>, \<open>Sample_Ffi\<close> and \<open>Sample_Arti\<close> hold the inputs of the witnesses.
  The program that uses the C interface is the record \<open>c_host\<close>: what each of its callbacks does to memory and to the
  library, and what it returns; \<open>host_ok\<close> says that a callback leaves the library as a sequence of calls would. What the
  functions take from outside (texts of errors, files, socket numbers, time, randomness) is the record \<open>c_env\<close>.

  Theories and sources (under \<open>src/source/gosling/crates\<close>).
  \<^item> \<open>Gosling_Prelude\<close>: outcomes and actions, the rules \<open>keeps\<close>, \<open>safe\<close>, \<open>preserves\<close>, \<open>returns\<close>/\<open>wp\<close>, strings and bytes.
  \<^item> \<open>Bson_Interface\<close>, \<open>Bson_Alist\<close>: the BSON parameter, its laws and an instance.
  \<^item> \<open>Honk_Message\<close>: error codes, versions, messages and sections (\<open>honk-rpc/src/honk_rpc.rs\<close>).
  \<^item> \<open>Vec_Deque\<close>: the standard ring buffer, with the locale \<open>byte_fifo\<close>.
  \<^item> \<open>Honk_Session\<close>: the session and its operations (\<open>honk_rpc.rs\<close>, \<open>byte_counter.rs\<close>).
  \<^item> \<open>Honk_Framing\<close>: reading as splitting of a byte stream; \<open>Honk_Packing\<close>: serialising and writing;
    \<open>Honk_Sizes\<close>: the size functions; \<open>Honk_Requests\<close>: routing, requests and the locales \<open>api_invariant\<close>
    and \<open>rpc_api\<close>, the contract between a session and an API set; \<open>Session_Runs\<close>: updates step by step;
    \<open>Honk_Delivery\<close>: every outcome of a write, delivery over repeated writes and reads, and the panic a slow reader causes.
  \<^item> \<open>Tor_Crypto\<close>: keys, signatures, service ids (\<open>tor-interface/src/tor_crypto.rs\<close>).
  \<^item> \<open>Gosling_Protocol\<close>: constants and the client proof (\<open>gosling/src/gosling.rs\<close>, \<open>ascii_string.rs\<close>).
  \<^item> \<open>Identity_Server\<close>, \<open>Endpoint_Server\<close>, \<open>Identity_Client\<close>, \<open>Endpoint_Client\<close>: the four state
    machines (files of the same names), with invariants and, for the servers, the reachable states; \<open>Server_Runs\<close>: the states of a server as the context drives it,
    in which the session is sound.
  \<^item> \<open>Handshakes\<close>, \<open>Honest_Runs\<close>: what the client builds is accepted by the server, whole handshakes.
  \<^item> \<open>Ordered_Map\<close>: \<open>BTreeMap\<close> with the locale \<open>finite_map\<close>; \<open>Tor_Provider\<close>: the provider trait
    (\<open>tor-interface/src/tor_provider.rs\<close>); \<open>Gosling_Context\<close>: the context (\<open>gosling/src/context.rs\<close>).
  \<^item> \<open>Context_Safety\<close>, \<open>Context_Runs\<close>: the invariant of the context, what each operation and each phase of
    \<open>update\<close> does to handles, and runs of a context under arbitrary calls of its host.

  \<^item> \<open>Text_Parsing\<close>, \<open>Net_Address\<close>: the string functions of the standard library and socket addresses.
  \<^item> \<open>Tor_Version\<close>, \<open>Proxy_Config\<close>, \<open>Bridge_Lines\<close>, \<open>Tor_Addresses\<close>: version numbers, proxies, bridge lines
    and onion, domain and target addresses (\<open>legacy_tor_version.rs\<close>, \<open>proxy.rs\<close>, \<open>censorship_circumvention.rs\<close>,
    \<open>tor_provider.rs\<close>).
  \<^item> \<open>Control_Stream\<close>: lines and replies of the control port (\<open>legacy_tor_control_stream.rs\<close>); \<open>Control_Replies\<close>:
    the printed form of replies and that reading inverts it; \<open>Reply_Limits\<close>: which printed replies are rejected.
  \<^item> \<open>Tor_Controller\<close>: commands and events (\<open>legacy_tor_controller.rs\<close>); \<open>Controller_Commands\<close>: what is on the wire
    and how an answer comes back.
  \<^item> \<open>Legacy_Process\<close>: the daemon and its password (\<open>legacy_tor_process.rs\<close>); \<open>Legacy_Client\<close>: the provider on the
    control port (\<open>legacy_tor_client.rs\<close>); \<open>Legacy_Runs\<close>: its tokens and services over runs;
    \<open>Legacy_Deletions\<close>: the commands an update sends.
  \<^item> \<open>Mock_Tor\<close>: the provider without a network (\<open>mock_tor_client.rs\<close>). \<open>Provider_Host\<close>: sockets of the operating
    system, and the locale \<open>service_keeper\<close>, the contract between dropping a listener and the next update,
    which the mock provider and the control port client both interpret.
  \<^item> \<open>Arti_Client\<close>: the provider on the arti library and its tasks (\<open>arti_client_tor_client.rs\<close>); \<open>Arti_Runs\<close>: pumps in any
    interleaving, the events of a client whose tasks run in any order, and a context on this provider.
  \<^item> \<open>Object_Registry\<close>: the handles of the C interface (\<open>cgosling/src/object_registry.rs\<close>).
  \<^item> \<open>Ffi_World\<close>: the state of the C interface, a record of the memory of the caller, the mutexes held and
    poisoned, and thirteen registries, each a \<open>slot\<close>; errors and panics as error objects (\<open>macros.rs\<close>,
    \<open>error.rs\<close>, \<open>ffi.rs\<close>). A guard that would wait for itself is the outcome \<open>OutOfFuel\<close> with \<open>w_blocked\<close> set.
  \<^item> \<open>Ffi_Values\<close>, \<open>Ffi_Providers\<close>, \<open>Ffi_Context\<close>: the exported functions (\<open>crypto.rs\<close>, \<open>utils.rs\<close>; \<open>tor_provider.rs\<close>;
    \<open>context.rs\<close>, \<open>callbacks.rs\<close>), each with the guards it takes in order and how long they live.
  \<^item> \<open>Ffi_Safety\<close>: the invariant of the library, the rules \<open>sound\<close>, and the locale \<open>registry_slot\<close>, the contract of a
    global registry, with thirteen interpretations; \<open>Ffi_Runs\<close>: the calls of the interface as \<open>api_call\<close>;
    \<open>Ffi_Facts\<close>: programs as \<open>c_runs\<close>, and what the functions return; \<open>Ffi_Poisoning\<close>: the functions on contexts
    once the mutex of the contexts is poisoned, in all later states.

  What is shown. Of the context: completed handshakes are justified (C1), handles are unique and every
  handshake ends once (C6), \<open>update\<close> accounts for all of them (C7). Of the servers: completion
  implies approval and signatures (C2, C3), honest clients are served (C4, C5), updates
  return as long as the earlier ones succeeded and the stream took their bytes (C12, C13). Of the clients: completion rests on the answer to the last request (C14,
  C15). Of the session: what is queued is delivered, for well-formed sections (C16), reading is framing and does not depend on
  chunks (C17, C18), packing loses nothing (C19) and neither does writing unless it fails (C20), messages survive the wire
  (C37), and when a slow reader makes it panic (C40). Of keys and the proof: C21,
  C36 and the round trips. Of the control port: which printed replies are read back and which rejected (C22), a command
  gets its answer (C23), settings read back, and when they are one line (C24), the password hash is S2K (C34).
  Of the providers: listeners are registered (C25) and deleted by a successful update (C27), circuit tokens are unique
  (C26), access to services of the mock (C28); the arti provider forwards bytes unchanged
  and stops (C29, C30), loses no event (C31) and refuses endpoints
  (C32). Of the registry: keys are unique (C33).
  Of the C interface: handles have one type (C9), no call waits for itself or keeps a mutex (C8),
  failures reach the caller (C11), texts stay in their buffers (C35), a failing event does not
  cost the ones after it (C10), unless it panics (C38, C39).

  Fuel. The loop over \<open>next_result\<close> in \<open>handle_requests\<close> uses fuel, since an API set could answer
  forever. The servers use 2: they have at most one result waiting, and \<open>rpc_api\<close> shows that a bound on
  the results waiting is a bound on the rounds. \<open>wait_sync_reply\<close> takes fuel, since the code waits for an
  answer without a bound; C23 shows that one round more than there are events suffices. All
  other loops of the control port are functions with termination proofs.

  Not modelled: the generated bindings of the C interface, its procedural macros and build scripts; calls of
  the C interface from several threads at once, and the abort when a panic leaves an exported function; the
  example program, terminal input and output around the library; tests and fuzz targets; the command \<open>GETCONF\<close>,
  which only a test uses; copies of socket handles; printing of errors beyond the
  texts that reach a peer or the host.
\<close>

unbundle bit_operations_syntax

section \<open>The context\<close>

text \<open>
  C1: in every run of a context, whatever the host calls and whatever peers and the provider do,
  an endpoint server reports a completed handshake only for the client this endpoint was started for and
  only after a signature of that client on the proof for this endpoint and channel was accepted; the
  identity server does so only after such a signature on the proof for the context's own service id, and
  one that binds the client's authorisation key. The signature scheme is arbitrary, so this holds of the
  relation \<open>was signed by the holder of the key\<close> in particular.
\<close>
theorem completions_justified:
  assumes "context_runs B C T started log c"
  shows "(EndpointServerHandshakeCompleted h server client channel st \<in> set log \<longrightarrow>
      (server, client) \<in> started \<and> client_proved C GoslingEndpoint channel client server) \<and>
    (IdentityServerHandshakeCompleted h' key endpoint client' auth \<in> set log \<longrightarrow>
      client_proved C GoslingIdentity endpoint client' (ctx_identity_service_id c) \<and> client_authorised C client' auth)"
proof -
  have "all_justified C (ctx_identity_service_id c) started log"
    using context_runs_inv [OF assms] by (simp add: run_inv_def)
  then show ?thesis unfolding all_justified_def by fastforce
qed

lemma completions_justified_witness: "client_proved toy_crypto GoslingEndpoint ''echo'' sample_id sample_id"
proof -
  obtain log c st where run: "context_runs endpoint_bson toy_crypto sample_tor {(sample_id, sample_id)} log c"
    and e: "EndpointServerHandshakeCompleted 0 sample_id sample_id ''echo'' st \<in> set log"
    using sample_context_run by blast
  from completions_justified [OF run] e show ?thesis by blast
qed

text \<open>
  C6: in every run of a context, no handshake is reported to have completed, failed or been rejected
  twice, none of those that were is still in progress, and the handles in progress are pairwise distinct
  across the four kinds of handshakes and below the counter that the next handle is taken from.
\<close>
theorem handshakes_end_once:
  assumes "context_runs B C T started log c"
  shows "distinct (finished log) \<and> set (finished log) \<inter> active c = {} \<and>
    distinct (map fst (ctx_identity_clients c) @ map fst (ctx_identity_servers c) @
      map fst (ctx_endpoint_clients c) @ map fst (ctx_endpoint_servers c)) \<and>
    (\<forall>h \<in> active c \<union> set (finished log). h < ctx_next_handshake_handle c)"
proof -
  have inv: "ctx_inv B C started c" "logged log c" using context_runs_inv [OF assms] by (simp_all add: run_inv_def)
  have "distinct (map fst (ctx_identity_clients c) @ map fst (ctx_identity_servers c) @
      map fst (ctx_endpoint_clients c) @ map fst (ctx_endpoint_servers c))"
    using inv(1) by (auto simp: ctx_inv_def all_vals_def bt_inv_def separate_def)
  with inv active_bound [OF inv(1)] show ?thesis by (auto simp: logged_def)
qed

lemma handshakes_end_once_witness:
  "\<exists>log c. context_runs endpoint_bson toy_crypto sample_tor {(sample_id, sample_id)} log c \<and>
     0 \<in> set (finished log) \<and> distinct (finished log) \<and> 0 \<notin> active c"
proof -
  obtain log c st where run: "context_runs endpoint_bson toy_crypto sample_tor {(sample_id, sample_id)} log c"
    and e: "EndpointServerHandshakeCompleted 0 sample_id sample_id ''echo'' st \<in> set log"
    using sample_context_run by blast
  have "0 \<in> set (finished log)" using e by (force simp: finished_def)
  with handshakes_end_once [OF run] run show ?thesis by blast
qed

text \<open>
  C7: \<open>Context::update\<close> accounts for every handshake: those in progress before it and those it accepted
  are, after it, either still in progress or ended by exactly one of the returned events, never both.
\<close>
theorem update_accounts:
  assumes "context_runs B C T started log c" "\<And>h. signing_key C (generated h)"
    and "context_update B C T now random generated c = (Ret (Ok evs), t)"
  shows "set (finished evs) \<union> active t = active c \<union> {ctx_next_handshake_handle c ..< ctx_next_handshake_handle t} \<and>
    set (finished evs) \<inter> active t = {} \<and> distinct (finished evs)"
proof -
  have "ctx_inv B C started c" using context_runs_inv [OF assms(1)] by (simp add: run_inv_def)
  from context_update_keeps(1) [OF this assms(2,3)] have "tidy c evs t" "accounted c evs t"
    by (simp_all add: stepped_justified_def stepped_def)
  then show ?thesis by (auto simp: tidy_def accounted_def seen_def)
qed

lemma update_accounts_witness:
  "\<exists>evs (t :: (unit, adoc) gosling_context) c. context_update endpoint_bson toy_crypto sample_tor 0 (\<lambda>_. []) (\<lambda>_. sample_key) c = (Ret (Ok evs), t) \<and>
     set (finished evs) \<union> active t = active c \<union> {ctx_next_handshake_handle c ..< ctx_next_handshake_handle t}"
  using update_accounts [OF context_runs_new [OF sample_context_new] sample_signing_key sample_bootstrap] sample_bootstrap by blast

text \<open>
  Stopping the identity server ends its handshakes at once; stopping an endpoint server removes its
  listener and leaves the handshakes of its clients running (the documentation of \<open>endpoint_server_stop\<close>
  says that they are ended).
\<close>
theorem servers_stop:
  "(identity_server_stop c = (Ret (Ok ()), t) \<longrightarrow>
      ctx_identity_servers t = [] \<and> ctx_identity_listener t = None \<and> \<not> ctx_identity_server_published t \<and>
      (ctx_identity_clients t, ctx_endpoint_clients t, ctx_endpoint_servers t, ctx_endpoint_listeners t) =
      (ctx_identity_clients c, ctx_endpoint_clients c, ctx_endpoint_servers c, ctx_endpoint_listeners c)) \<and>
   (endpoint_server_stop sid c = (Ret (Ok ()), u) \<longrightarrow>
      map_of (ctx_endpoint_listeners u) sid = None \<and> ctx_endpoint_servers u = ctx_endpoint_servers c)"
  by (auto simp: identity_server_stop_def endpoint_server_stop_def map_of_eq_None_iff split: if_splits option.splits)

lemma servers_stop_witness:
  "identity_server_stop (sample_context\<lparr> ctx_identity_listener := Some sample_listener \<rparr>) = (Ret (Ok ()), sample_context) \<and>
   ctx_identity_servers sample_context = [] \<and>
   (\<exists>u. endpoint_server_stop sample_id (listening 0 \<lparr> tl_accepts = [] \<rparr> []) = (Ret (Ok ()), u) \<and>
      map_of (ctx_endpoint_listeners u) sample_id = None)"
proof -
  have 1: "identity_server_stop (sample_context\<lparr> ctx_identity_listener := Some sample_listener \<rparr>) = (Ret (Ok ()), sample_context)"
    by (simp add: identity_server_stop_def sample_context_def context_new_def)
  obtain u where 2: "endpoint_server_stop sample_id (listening 0 \<lparr> tl_accepts = [] \<rparr> []) = (Ret (Ok ()), u)"
    by (simp add: endpoint_server_stop_def listening_def)
  from servers_stop [of "sample_context\<lparr> ctx_identity_listener := Some sample_listener \<rparr>" sample_context sample_id sample_context]
    servers_stop [of "listening 0 \<lparr> tl_accepts = [] \<rparr> []" u sample_id u] 1 2 show ?thesis by blast
qed

section \<open>The identity server\<close>

text \<open>
  C2: when the identity server reports \<open>HandshakeCompleted\<close>, in whatever order updates
  and answers of the host came, the host has approved exactly once the client and the endpoint and then
  the challenge response, the client has signed the proof of this handshake (this endpoint, this server,
  the cookie the server drew) with the key of the service id that is reported, and it has signed its
  service id with the authorisation key that is reported.
\<close>
theorem identity_completion_authentic:
  assumes "ids_reach B C log s" "signing_key C g"
    and "identity_server_update B C g s = (Ret (Ok (Some (IdS_HandshakeCompleted key endpoint client auth))), t)"
  shows "log = [RequestAnswered True True, ResponseAnswered True] \<and>
    ids_client_identity t = Some client \<and> ids_requested_endpoint t = Some endpoint \<and>
    ids_client_auth_key t = Some auth \<and> ids_proof_ok C t \<and> ids_auth_ok C t"
proof -
  have ok: "ids_ok C log s" using assms(1) by (rule ids_reach_ok)
  from identity_server_update_cases [OF ok assms(2,3)] obtain u where
    "ids_ok C log u" "ids_advance B C u = (Ret (Ok (Some (IdS_HandshakeCompleted key endpoint client auth))), t)" by auto
  then show ?thesis using ids_advance_completed [of C log u B key endpoint client auth t] by (simp add: ids_ok_def)
qed

text \<open>
  C4: an honest client is served. If the two requests the identity client builds arrive and
  the host approves, four updates of the server return the request, nothing, the challenge response and
  \<open>HandshakeCompleted\<close> with the client's service id and authorisation key. 146 bytes is the size of the
  largest fixed reply, and the host's challenge has to fit as well.
\<close>
theorem identity_handshake_completes:
  assumes "bson_laws B" "bson_size_laws B" "codec_laws C" "signature_laws C"
    and "identity_client_new C crpc srv ep k x = Ok c" "signing_key C k" "is_ascii (ascii_value ep)"
    and "signing_key C g" "146 \<le> n" "length cc = CLIENT_COOKIE_SIZE"
    and "get_response_section_size B (Some (challenge_result B sc ch)) = Ok m" "37 + m \<le> n"
    and "arrives B bs n (client_request ''gosling_identity'' ''begin_handshake'' (begin_handshake_args B c) cookie)"
    and "arrives B bs' n (client_request ''gosling_identity'' ''send_response'' (send_response_args B C cc sc resp c) cookie')"
    and "session_at B n wait w (two_requests u bs u' bs') rpc"
  shows "\<exists>s1 s2 s3 s4 s5 s6.
    identity_server_update B C g (identity_server_new rpc srv) =
      (Ret (Ok (Some (IdS_EndpointRequestReceived (service_id_from_private_key C k) ep))), s1) \<and>
    handle_endpoint_request_received B sc True True ch s1 = (Ret (Ok ()), s2) \<and>
    identity_server_update B C g s2 = (Ret (Ok None), s3) \<and>
    identity_server_update B C g s3 = (Ret (Ok (Some (IdS_ChallengeResponseReceived resp))), s4) \<and>
    handle_challenge_response_received True s4 = (Ret (Ok ()), s5) \<and>
    identity_server_update B C g s5 = (Ret (Ok (Some (IdS_HandshakeCompleted g ep (service_id_from_private_key C k)
      (x25519_public_from_private_key C x)))), s6)"
  using assms by (rule identity_run)

lemma identity_handshake_completes_witness:
  "\<exists>c s t. identity_server_update (identity_bson c) toy_crypto sample_key s =
     (Ret (Ok (Some (IdS_HandshakeCompleted sample_key sample_name sample_id
        (x25519_public_from_private_key toy_crypto sample_x25519)))), t)"
proof -
  obtain c where c: "identity_client_new toy_crypto (session_new 0 (quiet_stream [])) sample_id sample_name sample_key sample_x25519 =
      Ok (c :: adoc identity_client)" by (rule sample_client_Ok)
  from identity_handshake_completes [OF alist_bson_laws alist_bson_size_laws toy_codec_laws toy_signature_laws c sample_signing_key
      sample_name_ascii sample_signing_key _ sample_cookie sample_challenge_size _ sample_arrivals_args [OF c]
      session_new_at, of 0 0]
  show ?thesis unfolding sample_id_def by fastforce
qed

lemma identity_completion_authentic_witness:
  "\<exists>c log s t. ids_reach (identity_bson c) toy_crypto log s \<and> log = [RequestAnswered True True, ResponseAnswered True] \<and>
     identity_server_update (identity_bson c) toy_crypto sample_key s =
       (Ret (Ok (Some (IdS_HandshakeCompleted sample_key sample_name sample_id
          (x25519_public_from_private_key toy_crypto sample_x25519)))), t) \<and> ids_proof_ok toy_crypto t"
proof -
  obtain c where c: "identity_client_new toy_crypto (session_new 0 (quiet_stream [])) sample_id sample_name sample_key sample_x25519 =
      Ok (c :: adoc identity_client)" by (rule sample_client_Ok)
  obtain log s t where "ids_reach (identity_bson c) toy_crypto log s"
    "identity_server_update (identity_bson c) toy_crypto sample_key s =
       (Ret (Ok (Some (IdS_HandshakeCompleted sample_key sample_name sample_id
          (x25519_public_from_private_key toy_crypto sample_x25519)))), t)"
    using sample_identity_reach [OF c] by blast
  with identity_completion_authentic [OF this(1) sample_signing_key this(2)] show ?thesis by blast
qed
text \<open>
  C12: \<open>IdentityServer::update\<close> returns, without panic, whatever the peer sends, as the context drives the server: on a
  configured session, after any sequence of earlier updates and answers of the host, as long as every earlier update succeeded (the
  context drops a server whose update failed) and the stream took all bytes of it. The loop over \<open>next_result\<close> ends within two
  rounds. The two conditions cannot be left out: a rejected size header makes the next read panic (\<open>honk_rpc.rs:969\<close>), and bytes
  that a slow reader has left in the buffer can make the next write panic (\<open>honk_rpc.rs:1214\<close>).
\<close>
theorem identity_server_never_stuck:
  assumes "bson_laws B" "bson_size_laws B" "signature_laws C" "signing_key C g" "ids_live B C log s"
  shows "\<exists>r t. identity_server_update B C g s = (Ret r, t)"
  using identity_server_update_returns [OF assms(1-4) ids_reach_ok [OF ids_live_reach [OF assms(5)]]]
    ids_live_session [OF assms(5, 1, 2)] by (simp add: sound_rpc_def)

lemma identity_server_never_stuck_witness:
  "\<exists>rpc r t. configured_session 0 (from_secs 60) 4096 (quiet_stream [(0, Data [5, 0, 0, 0, 0])]) = Ret (Ok rpc) \<and>
     identity_server_update sample_bson toy_crypto sample_key (identity_server_new rpc sample_id) = (Ret r, t)"
proof -
  obtain rpc where rpc: "configured_session 0 (from_secs 60) 4096 (quiet_stream [(0, Data [5, 0, 0, 0, 0])]) = Ret (Ok (rpc :: adoc session))"
    by (simp add: configured_session_def set_max_message_size_def MIN_MESSAGE_SIZE_value)
  with identity_server_never_stuck [OF alist_bson_laws alist_bson_size_laws toy_signature_laws sample_signing_key ids_live_new [OF rpc]]
  show ?thesis by blast
qed

section \<open>The endpoint server\<close>

text \<open>
  C3: when the endpoint server reports \<open>HandshakeCompleted\<close>, the client is the one client
  the endpoint was created for, the host has approved the channel, and the client has signed the proof of
  this handshake with the key of its service id.
\<close>
theorem endpoint_completion_authentic:
  assumes "eps_reach B C allowed log s"
    and "endpoint_server_update B C s = (Ret (Ok (Some (EpS_HandshakeCompleted client channel st))), t)"
  shows "client = allowed \<and> log = [True] \<and> eps_client_identity t = Some client \<and>
    eps_requested_channel t = Some channel \<and> eps_proof_ok C t"
proof -
  from endpoint_server_update_cases [OF eps_reach_inv [OF assms(1)] assms(2)] obtain u where
    "eps_inv C allowed log u" "eps_advance u = (Ret (Ok (Some (EpS_HandshakeCompleted client channel st))), t)" by auto
  from eps_advance_completed [OF this] show ?thesis by simp
qed

lemma endpoint_completion_authentic_witness:
  "\<exists>log s t st. eps_reach endpoint_bson toy_crypto sample_id log s \<and> log = [True] \<and>
     endpoint_server_update endpoint_bson toy_crypto s = (Ret (Ok (Some (EpS_HandshakeCompleted sample_id sample_name st))), t)"
proof -
  obtain log s t st where "eps_reach endpoint_bson toy_crypto sample_id log s"
    "endpoint_server_update endpoint_bson toy_crypto s = (Ret (Ok (Some (EpS_HandshakeCompleted sample_id sample_name st))), t)"
    using sample_endpoint_reach by blast
  with endpoint_completion_authentic [OF this] show ?thesis by blast
qed

text \<open>
  C5: an honest, allowed client is served by the endpoint server: the two requests of the
  endpoint client, with the host's approval of the channel, lead to \<open>HandshakeCompleted\<close>.
\<close>
theorem endpoint_handshake_completes:
  assumes "bson_laws B" "bson_size_laws B" "codec_laws C" "signature_laws C"
    and "c = endpoint_client_new C crpc srv channel k" "signing_key C k" "is_ascii (ascii_value channel)"
    and "142 \<le> n" "length cc = CLIENT_COOKIE_SIZE" "length sc = 32"
    and "arrives B bs n (client_request ''gosling_endpoint'' ''begin_handshake'' (channel_handshake_args B c) cookie)"
    and "arrives B bs' n (client_request ''gosling_endpoint'' ''send_response'' (channel_response_args B C cc sc c) cookie')"
    and "session_at B n wait w (two_requests u bs u' bs') rpc"
  shows "\<exists>s1 s2 s3 s4 st.
    endpoint_server_update B C (endpoint_server_new rpc (service_id_from_private_key C k) srv) =
      (Ret (Ok (Some (EpS_ChannelRequestReceived (service_id_from_private_key C k) channel))), s1) \<and>
    handle_channel_request_received sc True s1 = (Ret (Ok ()), s2) \<and>
    endpoint_server_update B C s2 = (Ret (Ok None), s3) \<and>
    endpoint_server_update B C s3 =
      (Ret (Ok (Some (EpS_HandshakeCompleted (service_id_from_private_key C k) channel st))), s4)"
  using assms by (rule endpoint_run)

lemma endpoint_handshake_completes_witness:
  "\<exists>s t st. endpoint_server_update endpoint_bson toy_crypto s =
     (Ret (Ok (Some (EpS_HandshakeCompleted sample_id sample_name st))), t)"
  using endpoint_handshake_completes [OF alist_bson_laws alist_bson_size_laws toy_codec_laws toy_signature_laws
      sample_endpoint_client_def sample_signing_key sample_name_ascii _ sample_cookie _ channel_arrivals session_new_at, of 0 0]
  unfolding sample_id_def [symmetric] by fastforce

text \<open>
  C13: \<open>EndpointServer::update\<close> returns, without panic, whatever the peer sends, on a configured session, after any sequence
  of earlier updates and answers of the host, under the same two conditions: the earlier updates succeeded and the stream took all
  their bytes. In particular the session it gives away on completion is there.
\<close>
theorem endpoint_server_never_stuck:
  assumes "bson_laws B" "bson_size_laws B" "eps_live B C allowed log s"
  shows "\<exists>r t. endpoint_server_update B C s = (Ret r, t)"
  using endpoint_server_update_returns [OF assms(1,2) eps_reach_ok [OF eps_live_reach [OF assms(3)]]]
    eps_live_session [OF assms(3, 1, 2)] by (simp add: sound_rpc_def)

lemma endpoint_server_never_stuck_witness:
  "\<exists>rpc r t. configured_session 0 (from_secs 60) 4096 (quiet_stream [(0, Data [5, 0, 0, 0, 0])]) = Ret (Ok rpc) \<and>
     endpoint_server_update sample_bson toy_crypto (endpoint_server_new rpc sample_id sample_id) = (Ret r, t)"
proof -
  obtain rpc where rpc: "configured_session 0 (from_secs 60) 4096 (quiet_stream [(0, Data [5, 0, 0, 0, 0])]) = Ret (Ok (rpc :: adoc session))"
    by (simp add: configured_session_def set_max_message_size_def MIN_MESSAGE_SIZE_value)
  with endpoint_server_never_stuck [OF alist_bson_laws alist_bson_size_laws eps_live_new [OF rpc]]
  show ?thesis by blast
qed

text \<open>
  The size check of \<open>handle_endpoint_request_received\<close> is exact enough: a challenge that it
  accepts is the next asynchronous result, and pushing that result onto the session cannot fail, so a
  client is never left without its challenge.
\<close>
theorem challenge_check_suffices:
  assumes "bson_laws B" "bson_size_laws B"
    and "handle_endpoint_request_received B random allowed valid challenge s = (Ret (Ok ()), t)"
    and "ids_rpc s = Some rpc" "max_message_size rpc' = max_message_size rpc"
    and "ids_send_response_request_cookie s = None"
  shows "\<exists>cookie r u. ids_next_result B C generated t = (Ret (Some (cookie, r)), u) \<and>
     ids_begin_handshake_request_cookie s = Some cookie \<and> r = Ok (Some (challenge_result B random challenge)) \<and>
     fst (push_outbound_section B (async_section cookie r) rpc') = Ret (Ok ())"
  using assms by (rule challenge_fits)

lemma challenge_check_suffices_witness:
  "\<exists>t u cookie r. handle_endpoint_request_received sample_bson (replicate 32 5) True True (ADoc []) asked_server = (Ret (Ok ()), t) \<and>
     ids_next_result sample_bson toy_crypto sample_key t = (Ret (Some (cookie, r)), u) \<and>
     fst (push_outbound_section sample_bson (async_section cookie r) (session_new 0 (quiet_stream []))) = Ret (Ok ())"
proof -
  have rpc: "ids_rpc asked_server = Some (session_new 0 (quiet_stream []))" "ids_send_response_request_cookie asked_server = None"
    by (simp_all add: asked_server_def identity_server_new_def)
  obtain t where run: "handle_endpoint_request_received sample_bson (replicate 32 5) True True (ADoc []) asked_server = (Ret (Ok ()), t)"
    using sample_challenge_size [of "[sample_full, sample_empty]"] message_overhead_value [OF alist_bson_laws alist_bson_size_laws, of "[sample_full, sample_empty]"]
    by (auto simp: handle_endpoint_request_received_def asked_server_def identity_server_new_def Let_def ids_exec_present_def is_some_def get_max_message_size_def session_new_def DEFAULT_MAX_MESSAGE_SIZE_def MIN_MESSAGE_SIZE_value)
  from challenge_check_suffices [OF alist_bson_laws alist_bson_size_laws run rpc(1) refl rpc(2)] run show ?thesis by blast
qed

section \<open>The clients\<close>

text \<open>
  C14: when the identity client reports \<open>HandshakeCompleted\<close>, the server has answered the client's
  own \<open>send_response\<close> request with success and a well-formed service id, which is the endpoint reported;
  server, endpoint name and authorisation key are those the client was made for.
\<close>
theorem identity_client_completion:
  assumes "idc_inv s" "identity_client_update B C random s =
      (Ret (Ok (Some (IdC_HandshakeCompleted server endpoint name key))), t)"
  shows "\<exists>rpc c rest. session_update_none B (idc_rpc s) = (Ret (Ok ()), rpc) \<and>
     idc_send_response_request_cookie s = Some c \<and>
     inbound_responses rpc = RSuccess c (Some (BString (service_id_to_string endpoint))) # rest \<and>
     service_id_is_valid C (service_id_to_string endpoint) \<and>
     server = idc_server_service_id s \<and> name = ascii_value (idc_requested_endpoint s) \<and>
     key = idc_client_authorization_key_private s"
  using idc_completed [OF assms(2,1)] by blast

lemma identity_client_completion_witness:
  "\<exists>t. identity_client_update sample_bson toy_crypto [] answered_identity_client =
     (Ret (Ok (Some (IdC_HandshakeCompleted sample_id sample_id ''echo'' sample_x25519))), t) \<and>
   service_id_is_valid toy_crypto (service_id_to_string sample_id)"
  using identity_client_completion [OF answered_identity_client_completes(2)] answered_identity_client_completes(1) by blast

text \<open>
  C15: when the endpoint client reports \<open>HandshakeCompleted\<close>, the server has answered the client's
  own \<open>send_response\<close> request with success and an empty document; the stream handed to the host is the one
  of the session, which the client gives up.
\<close>
theorem endpoint_client_completion:
  assumes "endpoint_client_update B C random s = (Ret (Ok (Some (EpC_HandshakeCompleted st))), t)"
  shows "\<exists>rpc0 rpc c d rest. epc_rpc s = Some rpc0 \<and> session_update_none B rpc0 = (Ret (Ok ()), rpc) \<and>
     epc_send_response_request_cookie s = Some c \<and>
     inbound_responses rpc = RSuccess c (Some (BDocument d)) # rest \<and> doc_is_empty B d \<and>
     st = session.stream rpc \<and> epc_rpc t = None \<and> epc_state t = EpC_HandshakeComplete"
  using epc_completed [OF assms] by blast

lemma endpoint_client_completion_witness:
  "\<exists>t. endpoint_client_update sample_bson toy_crypto [] answered_endpoint_client =
     (Ret (Ok (Some (EpC_HandshakeCompleted (quiet_stream [])))), t) \<and> epc_rpc t = None"
  using endpoint_client_completion answered_endpoint_client_completes by fast

text \<open>
  \<open>EndpointClient::update\<close> unwraps its \<open>client_call\<close>: a channel name whose request does not
  fit the session's maximum message size makes the first update panic instead of failing the handshake.
\<close>
theorem endpoint_client_begin_panics:
  assumes "MIN_MESSAGE_SIZE \<le> max_message_size rpc"
    and "\<not> fits B (max_message_size rpc) (section_into B (SRequest \<lparr> rq_cookie = Some (next_cookie rpc),
       rq_namespace = ''gosling_endpoint'', rq_function = ''begin_handshake'', rq_version = 0,
       rq_arguments = channel_handshake_args B s \<rparr>))"
  shows "fst (epc_begin B rpc s) = Panic"
  using assms by (rule epc_begin_panics)

lemma endpoint_client_begin_panics_witness:
  "fst (epc_begin (alist_bson []) ((session_new 0 (quiet_stream []))\<lparr> max_message_size := 100 \<rparr>) sample_endpoint_client) = Panic"
proof (rule endpoint_client_begin_panics)
  show "MIN_MESSAGE_SIZE \<le> max_message_size ((session_new 0 (quiet_stream []))\<lparr> max_message_size := 100 \<rparr>)"
    by (simp add: MIN_MESSAGE_SIZE_value)
  have "37 + length (enc_doc (section_into (alist_bson []) (SRequest channel_begin))) > 100"
    using channel_request_sizes(1) by (simp add: request_doc_def sections_message_def del: section_into.simps)
  then show "\<not> fits (alist_bson []) (max_message_size ((session_new 0 (quiet_stream []))\<lparr> max_message_size := 100 \<rparr>)) (section_into (alist_bson [])
      (SRequest \<lparr> rq_cookie = Some (next_cookie ((session_new 0 (quiet_stream []))\<lparr> max_message_size := 100 \<rparr>)),
       rq_namespace = ''gosling_endpoint'', rq_function = ''begin_handshake'', rq_version = 0,
       rq_arguments = channel_handshake_args (alist_bson []) sample_endpoint_client \<rparr>))"
    by (simp add: fits_def alist_doc_size MIN_MESSAGE_SIZE_value channel_begin_def client_request_def session_new_def)
qed

section \<open>The wire format\<close>

text \<open>
  C37: a Honk-RPC message whose sections are well formed is converted to a BSON
  document and back without change (\<open>From<Message>\<close>, \<open>TryFrom<Document>\<close>).
\<close>
theorem message_into_try_from:
  assumes "bson_laws B" "msg_honk_rpc m = HONK_RPC_VERSION" "msg_sections m \<noteq> []"
    "list_all section_wf (msg_sections m)"
  shows "message_try_from B (message_into B m) = Ok m"
  using assms by (rule message_roundtrip)

lemma message_into_try_from_witness:
  "message_try_from sample_bson (message_into sample_bson sample_message) = Ok sample_message"
  by (rule message_into_try_from [OF alist_bson_laws]) (simp_all add: sample_message_def sample_section_wf)

text \<open>
  Whatever document a peer sends, a message that is accepted has the
  supported version, at least one section, and only well-formed sections: canonical error codes, a
  named function in every request, no result in a pending response.
\<close>
theorem message_try_from_well_formed:
  assumes "message_try_from B d = Ok m"
  shows "msg_honk_rpc m = HONK_RPC_VERSION \<and> msg_sections m \<noteq> [] \<and> list_all section_wf (msg_sections m)"
  using message_try_from_Ok [OF assms] by simp

lemma message_try_from_well_formed_witness:
  "list_all section_wf (msg_sections sample_message)"
proof -
  have "message_try_from sample_bson sample_full = Ok sample_message"
    using sample_parses by (simp add: parse_message_def split: result.splits)
  from message_try_from_well_formed [OF this] show ?thesis by simp
qed

text \<open>
  An error code survives the wire exactly when it is canonical; every 32-bit
  value is the number of the code it is read as.
\<close>
theorem error_code_roundtrip:
  "error_code_into_i32 (error_code_from_i32 v) = v \<and>
   (error_code_from_i32 (error_code_into_i32 c) = c \<longleftrightarrow> canonical_code c)"
  by (simp add: error_code_into_from error_code_from_into_iff)

text \<open>
  \<open>i32_to_semver\<close> and \<open>semver_to_i32\<close> are inverse to each other, so a number is
  read as a version exactly when it is the number of that version.
\<close>
theorem semver_bijection: "i32_to_semver v = Some (a, b, c) \<longleftrightarrow> semver_to_i32 a b c = v"
  using i32_to_semver_to_i32 semver_to_i32_to_semver by metis

text \<open>
  The overhead \<open>get_message_overhead\<close> measures, with a serialiser that follows
  the BSON layout, is the constant \<open>MIN_MESSAGE_SIZE\<close> that the session checks against: 37 bytes.
\<close>
theorem overhead_is_minimum:
  assumes "bson_laws B" "bson_size_laws B"
  shows "get_message_overhead B = Ok MIN_MESSAGE_SIZE \<and> MIN_MESSAGE_SIZE = 37"
  using message_overhead_value [OF assms] MIN_MESSAGE_SIZE_value by simp

lemma overhead_is_minimum_witness: "get_message_overhead sample_bson = Ok MIN_MESSAGE_SIZE"
  using overhead_is_minimum [OF alist_bson_laws alist_bson_size_laws] by blast

section \<open>Reading\<close>

text \<open>
  C17: \<open>read_sections\<close> refines the splitting of the byte stream into documents
  that start with their own length. The bytes buffered and consumed are the documents read and an
  incomplete rest, each document is parsed, and the sections of the messages are queued in order.
\<close>
theorem reading_is_framing:
  assumes "read_inv s" "read_sections B s = (Ret (Ok ()), t)"
  shows "\<exists>c ds ms. incoming s = c @ incoming t \<and> message_read_buffer s @ c = concat ds @ message_read_buffer t \<and>
     frames B ds ms \<and> pending_sections t = pending_sections s @ concat (map msg_sections ms) \<and>
     read_inv t \<and> only_reads s t"
  using assms by (rule read_sections_frames)

lemma reading_is_framing_witness:
  "\<exists>t c ds ms. read_sections sample_bson split_receiver = (Ret (Ok ()), t) \<and> frames sample_bson ds ms \<and>
     message_read_buffer split_receiver @ c = concat ds @ message_read_buffer t"
proof -
  obtain t where "read_sections sample_bson split_receiver = (Ret (Ok ()), t)" using split_receiver_reads by blast
  moreover have "read_inv split_receiver" by (simp add: split_receiver_def)
  ultimately show ?thesis using reading_is_framing by blast
qed

text \<open>
  C18: however the transport cuts the same bytes into reads, a session that has
  consumed all of them has queued the same sections and holds the same incomplete rest.
\<close>
theorem chunking_is_irrelevant:
  assumes "read_inv s" "read_inv s'" "message_read_buffer s' = message_read_buffer s"
    and "pending_sections s' = pending_sections s" "incoming s' = incoming s"
    and "reads B s u" "reads B s' u'" "incoming u = []" "incoming u' = []"
  shows "pending_sections u' = pending_sections u \<and> message_read_buffer u' = message_read_buffer u"
  using assms by (rule reads_chunking)

lemma chunking_is_irrelevant_witness:
  "\<exists>u u'. reads sample_bson (sample_receiver (enc_doc sample_full)) u \<and> reads sample_bson split_receiver u' \<and>
     pending_sections u' = pending_sections u"
proof -
  obtain u u' where *: "reads sample_bson (sample_receiver (enc_doc sample_full)) u" "incoming u = []"
      "reads sample_bson split_receiver u'" "incoming u' = []"
    using sample_receiver_reads split_receiver_reads reads_step [OF _ reads_refl] by metis
  have "pending_sections u' = pending_sections u \<and> message_read_buffer u' = message_read_buffer u"
    by (rule chunking_is_irrelevant [OF _ _ _ _ _ *(1,3,2,4)])
      (simp_all add: sample_receiver_def split_receiver_def incoming_def, simp_all add: session_new_def quiet_stream_def)
  then show ?thesis using * by blast
qed

text \<open>
  The loop of \<open>read_sections\<close> ends and no assertion fails, whatever the peer sends,
  as long as no earlier size header was rejected (\<open>read_inv\<close>).
\<close>
theorem reading_returns:
  assumes "read_inv s" shows "\<exists>q t. read_sections B s = (Ret q, t)"
  using assms by (rule read_sections_returns)

lemma reading_returns_witness:
  "\<exists>q t. read_sections sample_bson (sample_receiver [255, 255, 255, 255, 0]) = (Ret q, t)"
  by (rule reading_returns) (simp add: sample_receiver_def)

section \<open>Sending\<close>

text \<open>
  C19: \<open>serialize_messages\<close> never fails or panics on queued sections that were
  admitted by \<open>push_outbound_section\<close>: it splits them, in order, into non-empty messages, each of
  which fits the maximum message size, and appends their bytes to the write buffer.
\<close>
theorem sections_packed:
  assumes "bson_laws B" "bson_size_laws B" "out_inv B s"
  shows "\<exists>parts t. serialize_messages B s = (Ret (Ok ()), t) \<and>
     concat parts = map BDocument (outbound_sections s) \<and>
     list_all (good_part B (max_message_size s)) parts \<and>
     vd_items (message_write_buffer t) = vd_items (message_write_buffer s) @ concat (map (message_bytes B) parts) \<and>
     outbound_sections t = [] \<and> session.stream t = session.stream s"
  using serialize_messages_spec [OF assms] by blast

lemma sections_packed_witness:
  "\<exists>parts t. serialize_messages sample_bson sample_sender = (Ret (Ok ()), t) \<and> concat parts = [BDocument sample_doc]"
proof -
  have "out_inv sample_bson sample_sender" using sample_ready by (simp add: ready_to_send_def)
  from sections_packed [OF alist_bson_laws alist_bson_size_laws this] show ?thesis
    by (auto simp: sample_sender_def sample_section_doc)
qed

text \<open>
  C20: what \<open>write_pending_data\<close> sends is in every case a front part of the buffered bytes, in order, however short the
  writes were. If it succeeds, exactly these bytes leave the buffer, so that no byte is lost, repeated or reordered. If a later
  write or the flush fails, the buffer is left as it was: the bytes that went out before the failure would be sent once more by
  another call (the servers and clients give the session up instead). It panics only on a wrapped buffer, before anything is sent.
\<close>
theorem writing_conserves:
  assumes "vd_inv (message_write_buffer s)" "write_pending_data s = (r, t)"
  shows "\<exists>k. k \<le> length (vd_items (message_write_buffer s)) \<and>
    sent (session.stream t) = sent (session.stream s) @ take k (vd_items (message_write_buffer s)) \<and>
    (case r of
       Ret (Ok _) \<Rightarrow> vd_items (message_write_buffer t) = drop k (vd_items (message_write_buffer s)) \<and> wire t = wire s \<and>
         vd_contiguous (message_write_buffer t)
     | Ret (Err _) \<Rightarrow> message_write_buffer t = message_write_buffer s
     | Panic \<Rightarrow> t = s \<and> \<not> vd_contiguous (message_write_buffer s)
     | OutOfFuel \<Rightarrow> False)"
  using write_pending_data_outcome [OF assms] by (auto simp: wire_def split: outcome.splits result.splits)

lemma writing_conserves_witness:
  "(\<exists>t. write_pending_data sample_writer = (Ret (Ok ()), t) \<and> wire t = wire sample_writer \<and>
     sent (session.stream t) = [1, 2] \<and> vd_items (message_write_buffer t) = [3]) \<and>
   (\<exists>e t. write_pending_data failing_writer = (Ret (Err e), t) \<and> sent (session.stream t) = [1, 2] \<and>
     message_write_buffer t = message_write_buffer failing_writer)"
  using writing_conserves [OF sample_writer_inv] sample_writer_writes
    writing_conserves [OF failing_writer_inv] failing_writer_fails by fastforce

text \<open>
  C16: what one session queues is what its peer reads, for sections that are well-formed (an error code is the canonical one of its
  value, which the servers' own \<open>Runtime(0)\<close> is not), were admitted by \<open>push_outbound_section\<close>, and are in messages the BSON reader reads back. Packing succeeds and
  puts bytes behind those already on their way. However the stream takes them, successful writes keep what is sent followed by what is
  buffered. However the transport cuts the bytes, a peer between two messages that reads until all of them are consumed has queued exactly
  these sections, in order, behind those it had. Nothing fails in the plain case: a stream that takes all gets all bytes in one
  write, and a peer with no smaller maximum message size that gets them at once reads them in one call.
\<close>
theorem sections_delivered:
  assumes "bson_laws B" "bson_size_laws B" "list_all section_wf ss" "sends B ss s"
    "\<forall>q. sublist q ss \<longrightarrow> reads_back B (sections_message B (map (\<lambda>s. BDocument (section_into B s)) q))"
  shows "\<exists>t bs. serialize_messages B s = (Ret (Ok ()), t) \<and> outbound_sections t = [] \<and> wire t = wire s @ bs \<and>
    (\<forall>t'. writes t t' \<longrightarrow> wire t' = wire s @ bs) \<and>
    (\<forall>r r'. read_inv r \<and> message_read_buffer r = [] \<and> incoming r = bs \<and> reads B r r' \<and> incoming r' = [] \<longrightarrow>
       pending_sections r' = pending_sections r @ ss \<and> message_read_buffer r' = []) \<and>
    (ready_to_send B ss s \<longrightarrow>
       (\<exists>t'. write_pending_data t = (Ret (Ok ()), t') \<and> sent (session.stream t') = bs \<and> vd_items (message_write_buffer t') = [])) \<and>
    (\<forall>u r. ss \<noteq> [] \<and> max_message_size s \<le> max_message_size r \<and> ready_to_receive u bs r \<longrightarrow>
       (\<exists>r'. read_sections B r = (Ret (Ok ()), r') \<and> incoming r' = [] \<and> pending_sections r' = ss))"
proof -
  obtain t qs where t: "serialize_messages B s = (Ret (Ok ()), t)" "outbound_sections t = []" and qs: "concat qs = ss"
    "list_all (good_part B (max_message_size s)) (map (map (\<lambda>s. BDocument (section_into B s))) qs)"
    and frames: "frames B (map (message_bytes B) (map (map (\<lambda>s. BDocument (section_into B s))) qs))
       (map (\<lambda>q. \<lparr> msg_honk_rpc = HONK_RPC_VERSION, msg_sections = q \<rparr>) qs)"
    and wire: "wire t = wire s @ concat (map (message_bytes B) (map (map (\<lambda>s. BDocument (section_into B s))) qs))"
      "vd_inv (message_write_buffer t)" "session.stream t = session.stream s"
      "vd_head (message_write_buffer s) = 0 \<longrightarrow> vd_contiguous (message_write_buffer t)"
    using delivery [OF assms] by (elim exE conjE) (rule that)
  let ?bs = "concat (map (message_bytes B) (map (map (\<lambda>s. BDocument (section_into B s))) qs))"
  have read: "pending_sections r' = pending_sections r @ ss \<and> message_read_buffer r' = []"
    if "read_inv r" "message_read_buffer r = []" "incoming r = ?bs" "reads B r r'" "incoming r' = []" for r r'
    using reads_deliver [OF frames that] qs(1) by (simp add: comp_def)
  have once: "\<exists>t'. write_pending_data t = (Ret (Ok ()), t') \<and> sent (session.stream t') = ?bs \<and> vd_items (message_write_buffer t') = []"
    if "ready_to_send B ss s"
    using write_pending_data_all [OF wire(2)] wire that by (auto simp: ready_to_send_def wire_def)
  have chunk: "\<exists>r'. read_sections B r = (Ret (Ok ()), r') \<and> incoming r' = [] \<and> pending_sections r' = ss"
    if "ss \<noteq> []" "max_message_size s \<le> max_message_size r" "ready_to_receive u ?bs r" for u r
    by (rule deliver_parts [OF assms(1) qs(1) that(1) assms(3) qs(2) assms(5) that(2, 3)])
  have conserved: "wire t' = wire s @ ?bs" if "writes t t'" for t' using writes_conserve [OF that wire(2)] wire(1) by simp
  show ?thesis using t wire(1) conserved read once chunk
    by (intro exI [of _ t] exI [of _ ?bs]) blast
qed

lemma sections_delivered_witness:
  "\<exists>t bs t' r. serialize_messages sample_bson sample_sender = (Ret (Ok ()), t) \<and> write_pending_data t = (Ret (Ok ()), t') \<and>
     sent (session.stream t') = bs \<and> read_sections sample_bson (sample_receiver bs) = (Ret (Ok ()), r) \<and>
     pending_sections r = [sample_section]"
proof -
  have ready: "list_all section_wf [sample_section]" "sends sample_bson [sample_section] sample_sender"
    using sample_ready by (simp_all add: sample_section_wf sends_def ready_to_send_def)
  have readable: "\<forall>q. sublist q [sample_section] \<longrightarrow>
      reads_back sample_bson (sections_message sample_bson (map (\<lambda>s. BDocument (section_into sample_bson s)) q))"
    using sample_reads_back by blast
  obtain t bs where run: "serialize_messages sample_bson sample_sender = (Ret (Ok ()), t)"
    "\<forall>r1 r2. read_inv r1 \<and> message_read_buffer r1 = [] \<and> incoming r1 = bs \<and> reads sample_bson r1 r2 \<and> incoming r2 = [] \<longrightarrow>
       pending_sections r2 = pending_sections r1 @ [sample_section] \<and> message_read_buffer r2 = []"
    "ready_to_send sample_bson [sample_section] sample_sender \<longrightarrow>
       (\<exists>t'. write_pending_data t = (Ret (Ok ()), t') \<and> sent (session.stream t') = bs \<and> vd_items (message_write_buffer t') = [])"
    "\<forall>u r. [sample_section] \<noteq> [] \<and> max_message_size sample_sender \<le> max_message_size r \<and> ready_to_receive u bs r \<longrightarrow>
       (\<exists>r'. read_sections sample_bson r = (Ret (Ok ()), r') \<and> incoming r' = [] \<and> pending_sections r' = [sample_section])"
    using sections_delivered [OF alist_bson_laws alist_bson_size_laws ready readable] by (elim exE conjE) (rule that)
  have "max_message_size sample_sender \<le> max_message_size (sample_receiver bs)"
    by (simp add: sample_sender_def sample_receiver_def session_new_def)
  then obtain r where "read_sections sample_bson (sample_receiver bs) = (Ret (Ok ()), r)" "pending_sections r = [sample_section]"
    using run(4) sample_receive by blast
  moreover obtain t' where "write_pending_data t = (Ret (Ok ()), t')" "sent (session.stream t') = bs"
    using run(3) sample_ready by blast
  ultimately show ?thesis using run(1) by blast
qed

text \<open>
  \<open>set_max_message_size\<close> accepts exactly the values from 37 to the largest
  positive \<open>i32\<close>, and stores an accepted value unchanged.
\<close>
theorem max_message_size_bounds:
  "set_max_message_size n s = (if 37 \<le> sint n then (Ret (Ok ()), s\<lparr> max_message_size := nat (sint n) \<rparr>)
     else (Ret (Err InvalidMaxMesageSize), s))"
proof -
  have "n <s of_nat MIN_MESSAGE_SIZE \<longleftrightarrow> sint n < 37"
    by (simp add: word_sless_alt MIN_MESSAGE_SIZE_value)
  moreover have "unat n = nat (sint n)" if "37 \<le> sint n"
    using that sint_positive_i32 [of n] by (simp add: word_sle_eq)
  ultimately show ?thesis by (auto simp: set_max_message_size_def not_less)
qed

section \<open>Dispatch\<close>

text \<open>
  The binary search for the namespace of a request agrees with a linear
  search on the sorted list of the api sets' namespaces.
\<close>
theorem binary_search_finds:
  assumes "sorted ns"
  shows "(binary_search ns key = None \<longleftrightarrow> key \<notin> set ns) \<and>
    (\<forall>i. binary_search ns key = Some i \<longrightarrow> i < length ns \<and> ns ! i = key)"
proof -
  have "key \<notin> set ns" if "binary_search ns key = None" using binary_search_None [OF that assms] .
  moreover have "binary_search ns key = None" if "key \<notin> set ns"
    using that binary_search_Some [of ns key] by (cases "binary_search ns key") (auto dest: nth_mem)
  ultimately show ?thesis using binary_search_Some by blast
qed

lemma binary_search_finds_witness:
  "binary_search [''gosling_endpoint'', ''gosling_identity''] ''gosling_identity'' = Some 1"
proof -
  have "sorted [''gosling_endpoint'', ''gosling_identity'']" by code_simp
  from binary_search_finds [OF this, of "''gosling_identity''"] show ?thesis
    by (auto simp: less_Suc_eq nth_Cons')
qed

text \<open>
  \<open>process_sections\<close> takes every pending section once: requests go to the inbound
  requests and answers to the inbound responses, each in order of arrival; an error section
  without a cookie stops it with its code, after the sections before it were handled.
\<close>
theorem sections_routed:
  assumes "\<forall>x\<in>set good. \<not> fatal x" "pending_sections s = good @ rest"
    and "queued = s\<lparr> inbound_requests := inbound_requests s @ List.map_filter is_request good,
           inbound_responses := inbound_responses s @ List.map_filter as_response good \<rparr>"
  shows "(rest = [] \<longrightarrow> process_sections s = (Ret (Ok ()), queued\<lparr> pending_sections := [] \<rparr>)) \<and>
    (\<forall>e later. rest = SError e # later \<longrightarrow> es_cookie e = None \<longrightarrow>
       process_sections s = (Ret (Err (UnknownErrorSectionReceived (es_code e))), queued\<lparr> pending_sections := later \<rparr>))"
  using assms process_sections_loop_append [OF assms(1), of "[]"]
  by (simp add: process_sections_def process_sections_loop_append)

lemma sections_routed_witness:
  "process_sections ((session_new 0 (quiet_stream []))\<lparr> pending_sections := [sample_section, error_of None MessageTooBig] \<rparr>) =
   (Ret (Err (UnknownErrorSectionReceived MessageTooBig)), (session_new 0 (quiet_stream []))
     \<lparr> inbound_responses := [RSuccess 7 (Some (BString ''ok''))], pending_sections := [] \<rparr>)"
  using sections_routed [of "[sample_section]" "(session_new 0 (quiet_stream []))\<lparr> pending_sections := [sample_section, error_of None MessageTooBig] \<rparr>"
      "[error_of None MessageTooBig]", OF _ _ refl]
  by (simp add: fatal_def sample_section_def error_of_def as_response_def is_request_def session_new_def)

section \<open>The control port and the providers\<close>

text \<open>
  C22: which replies of the control protocol are understood, however their bytes are cut into reads. A reply of lines with a
  hyphen, values of several lines after a plus sign and a last line, in which no line of such a value looks like a status line, is read
  back as its status code and its texts; the lines of a value come as they stand on the wire, so that a dot doubled by the sender stays
  doubled. A reply with a value one of whose lines begins with three digits, as the list of circuits has from circuit 100 on, is rejected
  with \<open>ReplyParseFailed\<close>. For ASCII texts there is no third case.
\<close>
theorem control_reply_read:
  assumes "pattern_laws P" "status_text code" "sliceable final" "list_all line_ok (printed_reply code items final)"
    and "concat chunks = encoded_lines (printed_reply code items final)" "[] \<notin> set chunks"
  shows "(list_all (item_ok P) items \<longrightarrow>
      (\<exists>t. read_reply P (fresh_stream chunks) = (Ret (Ok (Some (reply_of code items final))), t) \<and>
        lines_ahead t = [] \<and> pending_reply t = [] \<and> \<not> reading_multiline_value t)) \<and>
    (list_all item_wf items \<and> list_ex item_numbered items \<longrightarrow>
      (\<exists>m t. read_reply P (fresh_stream chunks) = (Ret (Err (ReplyParseFailed m)), t))) \<and>
    (list_all item_wf items \<and> \<not> list_ex item_numbered items \<longrightarrow> list_all (item_ok P) items)"
proof -
  have s: "before_lines (fresh_stream chunks) (printed_reply code items final @ []) [] False"
    using fresh_stream_before [OF assms(4-6)] by simp
  show ?thesis
    using read_reply_printed [OF assms(1, 2) _ assms(3) s] read_reply_numbered [OF assms(1, 2) _ _ s] item_wf_ok [OF assms(1)]
    by (auto simp: before_lines_def list_all_iff list_ex_iff)
qed

lemma control_reply_read_witness:
  "(\<exists>t. read_reply ascii_patterns (fresh_stream [take 5 (encoded_lines sample_reply_lines), drop 5 (encoded_lines sample_reply_lines)]) =
     (Ret (Ok (Some \<lparr> status_code = 250, reply_lines = [''version=0.4.8.1'',
        ''config-text='' @ [CHR 10] @ ''SocksPort auto'' @ [CHR 10] @ ''AvoidDiskWrites 1'', ''OK''] \<rparr>)), t)) \<and>
   (\<exists>m t. read_reply ascii_patterns (fresh_stream [encoded_lines (printed_reply ''250'' circuit_items ''OK'')]) = (Ret (Err (ReplyParseFailed m)), t))"
proof
  let ?b = "encoded_lines sample_reply_lines"
  have "5 < length ?b" by (simp add: encoded_lines_def sample_reply_lines_def printed_reply_def)
  then have "[] \<notin> set [take 5 ?b, drop 5 ?b]" by auto
  moreover have "reply_of ''250'' sample_items ''OK'' = \<lparr> status_code = 250, reply_lines = [''version=0.4.8.1'',
        ''config-text='' @ [CHR 10] @ ''SocksPort auto'' @ [CHR 10] @ ''AvoidDiskWrites 1'', ''OK''] \<rparr>"
    by (simp add: reply_of_def sample_items_def digits_value_def digit_value_def)
  ultimately show "\<exists>t. read_reply ascii_patterns (fresh_stream [take 5 ?b, drop 5 ?b]) =
     (Ret (Ok (Some \<lparr> status_code = 250, reply_lines = [''version=0.4.8.1'',
        ''config-text='' @ [CHR 10] @ ''SocksPort auto'' @ [CHR 10] @ ''AvoidDiskWrites 1'', ''OK''] \<rparr>)), t)"
    using control_reply_read [OF ascii_pattern_laws sample_reply(4, 3), of sample_items "[take 5 ?b, drop 5 ?b]"] sample_reply(1, 2)
    unfolding sample_reply_lines_def by auto
  show "\<exists>m t. read_reply ascii_patterns (fresh_stream [encoded_lines (printed_reply ''250'' circuit_items ''OK'')]) = (Ret (Err (ReplyParseFailed m)), t)"
    using control_reply_read [OF ascii_pattern_laws sample_reply(4, 3), of circuit_items "[encoded_lines (printed_reply ''250'' circuit_items ''OK'')]"]
      circuit_reply by simp
qed



text \<open>
  C24: the settings of \<open>SETCONF\<close>, if no key has an equals sign, are what the daemon reads: the quoted strings of the command read back
  as the keys with the trimmed values, whatever quotes and backslashes they have. The command has a line feed exactly when a key or a
  trimmed value has one, since quoting keeps line breaks; without one it is one line on the wire.
\<close>
theorem setconf_reads_back:
  assumes "kvs \<noteq> []" "\<forall>kv\<in>set kvs. CHR ''='' \<notin> set (fst kv)"
  shows "\<exists>args. setconf_command kvs = ''SETCONF '' @ args \<and> read_settings args = Some (map (\<lambda>(k, v). (k, trim v)) kvs) \<and>
    (CHR 10 \<in> set (setconf_command kvs) \<longleftrightarrow> (\<exists>kv\<in>set kvs. CHR 10 \<in> set (fst kv) \<or> CHR 10 \<in> set (trim (snd kv)))) \<and>
    ((\<forall>kv\<in>set kvs. CHR 10 \<notin> set (fst kv) \<and> CHR 10 \<notin> set (trim (snd kv))) \<longrightarrow>
      crlf_lines (as_bytes (setconf_command kvs) @ [13, 10]) = ([as_bytes (''SETCONF '' @ args)], []))"
proof -
  obtain args where args: "setconf_command kvs = ''SETCONF '' @ args" "read_settings args = Some (map (\<lambda>(k, v). (k, trim v)) kvs)"
    using setconf_command_reads_back [OF assms] by blast
  have "crlf_lines (as_bytes (setconf_command kvs) @ [13, 10]) = ([as_bytes (''SETCONF '' @ args)], [])"
    if "\<forall>kv\<in>set kvs. CHR 10 \<notin> set (fst kv) \<and> CHR 10 \<notin> set (trim (snd kv))"
    using command_is_line [of "setconf_command kvs"] that args(1) unfolding setconf_line_feed by metis
  with args setconf_line_feed [of kvs] show ?thesis by (intro exI [of _ args]) blast
qed

lemma setconf_reads_back_witness:
  "\<exists>args. crlf_lines (as_bytes (setconf_command sample_settings) @ [13, 10]) = ([as_bytes (''SETCONF '' @ args)], []) \<and>
    read_settings args = Some sample_settings"
proof -
  have trimmed: "map (\<lambda>(k, v). (k, trim v)) sample_settings = sample_settings" "CHR 10 \<notin> set (setconf_command sample_settings)"
    by code_simp+
  then have "\<forall>kv\<in>set sample_settings. CHR 10 \<notin> set (fst kv) \<and> CHR 10 \<notin> set (trim (snd kv))"
    unfolding setconf_line_feed by blast
  moreover have "sample_settings \<noteq> []" "\<forall>kv\<in>set sample_settings. CHR ''='' \<notin> set (fst kv)" by (simp_all add: sample_settings_def)
  from setconf_reads_back [OF this] obtain args where
    "read_settings args = Some (map (\<lambda>(k, v). (k, trim v)) sample_settings)"
    "(\<forall>kv\<in>set sample_settings. CHR 10 \<notin> set (fst kv) \<and> CHR 10 \<notin> set (trim (snd kv))) \<longrightarrow>
      crlf_lines (as_bytes (setconf_command sample_settings) @ [13, 10]) = ([as_bytes (''SETCONF '' @ args)], [])"
    by (elim exE conjE) (rule that)
  ultimately show ?thesis using trimmed(1) by (intro exI [of _ args]) (simp only: simp_thms)
qed

text \<open>
  C25: on a bootstrapped client whose daemon answers, possibly after events, \<open>listener\<close>
  succeeds: the command with key, port and client keys is on the wire, the listener has the address of the
  key, and the service is registered under the flag of the listener.
\<close>
theorem listener_registered:
  assumes "pattern_laws (ce_control E)" "codec_laws (ce_crypto E)" "signature_laws (ce_crypto E)" "signing_key (ce_crypto E) key"
    and "list_all (\<lambda>r. parts_ok E r \<and> is_event r) rs" "length rs < n"
    and "lc_bootstrapped c" "open_socket (tc_stream (lc_controller c))"
      "before_lines (tc_stream (lc_controller c))
         (printed (rs @ [add_onion_answer (service_id_to_string (service_id_from_private_key (ce_crypto E) key)) keys]) @ ls) [] False"
    and "list_all plain_key keys" "keys \<noteq> [] \<Longrightarrow> (case auth of Some ks \<Rightarrow> ks | None \<Rightarrow> []) \<noteq> []"
    and "sys_bind sys = Ok lst" "sys_local_addr sys lst = Ok addr"
  shows "\<exists>l d. legacy_listener E n T sys key port auth c = (Ret (Ok l), d) \<and>
    ol_onion_addr l = V3 (onion_addr_v3_new (service_id_from_private_key (ce_crypto E) key) port) \<and>
    lc_onion_services d = lc_onion_services c @ [(service_id_from_private_key (ce_crypto E) key, ol_data l)] \<and>
    lc_active d = (lc_active c)(ol_data l := True) \<and> ol_data l = lc_next_flag c \<and>
    cs_written (stream (tc_stream (lc_controller d))) = cs_written (stream (tc_stream (lc_controller c))) @
      as_bytes (add_onion_command (ce_crypto E) (Some key) (listener_flags auth) None port (Some addr) auth) @ [13, 10]"
  using legacy_listener_registers [OF assms] by blast

lemma listener_registered_witness:
  "\<exists>l d. legacy_listener sample_env 2 sample_texts sample_sys listener_key 80 None (client_with (answering listener_replies)) = (Ret (Ok l), d) \<and>
    lc_onion_services d = [(service_id_from_private_key toy_crypto listener_key, 0)]"
proof -
  have "list_all (\<lambda>r. parts_ok sample_env r \<and> is_event r) [sample_event]" using event_ok by simp
  from listener_registered [OF _ _ _ _ this, where c = "client_with (answering listener_replies)" and n = 2 and keys = "[]" and
      ls = "[]" and key = listener_key and sys = sample_sys and lst = "\<lparr> tl_accepts = [] \<rparr>" and addr = loopback and auth = None and T = sample_texts and port = 80]
  show ?thesis
    using ascii_pattern_laws toy_codec_laws toy_signature_laws listener_signing_key answering_before [OF listener_replies_printable]
    by (auto simp: client_with_def sample_sys_def listener_replies_def)
qed

text \<open>
  C26: in every run of the client, no circuit token is issued twice, the tokens that can be used are
  those issued and not released, and connecting with any other is refused without touching the client.
\<close>
theorem circuit_tokens:
  assumes "legacy_runs issued released c"
  shows "distinct issued \<and> (\<forall>tk. bt_get (lc_circuit_tokens c) tk \<noteq> None \<longleftrightarrow> tk \<in> set issued - released) \<and>
    (\<forall>tk a. tk \<notin> set issued - released \<longrightarrow> lc_bootstrapped c \<longrightarrow> lc_socks_listener c = Some a \<longrightarrow>
       legacy_connect E n T socks target (Some tk) c = (Ret (Err (Generic_error ''invalid circuit token'')), c))"
proof -
  have inv: "token_inv issued released c" by (rule legacy_runs_tokens [OF assms])
  then have "bt_get (lc_circuit_tokens c) tk = None" if "tk \<notin> set issued - released" for tk
    using that unfolding token_inv_def by blast
  then show ?thesis using inv by (auto simp: token_inv_def legacy_connect_token)
qed

lemma circuit_tokens_witness:
  "legacy_connect sample_env 1 sample_texts (\<lambda>a t p. Err TimedOut) (SocketTarget loopback) (Some 0) token_client =
     (Ret (Err (Generic_error ''invalid circuit token'')), token_client) \<and> bt_get (lc_circuit_tokens token_client) 1 \<noteq> None"
  using circuit_tokens [OF token_client_run, of sample_env 1 sample_texts "\<lambda>a t p. Err TimedOut" "SocketTarget loopback"]
  by (simp add: token_client_ready)

text \<open>
  C27: a successful update, in any state of the client, has sent one \<open>DEL_ONION\<close> command for each registered service whose listener is gone,
  and nothing else, and each was answered with success; these services are no longer registered and all others still are. In
  particular an update after a listener was dropped has removed its service and kept the others that have a listener. A service whose
  \<open>DEL_ONION\<close> fails is forgotten by that failing update, and no later one deletes it.
\<close>
theorem dropped_service_deleted:
  assumes "legacy_update E n T c = (Ret (Ok events), d)"
  shows "(\<exists>gone. mset gone = filter_mset (\<lambda>s. \<not> lc_active c (snd s)) (mset (lc_onion_services c)) \<and>
      cs_written (control_stream.stream (tc_stream (lc_controller d))) = cs_written (control_stream.stream (tc_stream (lc_controller c))) @
        concat (map (\<lambda>s. as_bytes (''DEL_ONION '' @ service_id_to_string (fst s)) @ [13, 10]) gone)) \<and>
    mset (lc_onion_services d) = filter_mset (\<lambda>s. lc_active c (snd s)) (mset (lc_onion_services c)) \<and>
    (\<forall>l b. c = legacy_listener_drop l b \<longrightarrow> (\<forall>sid. (sid, ol_data l) \<notin> set (lc_onion_services d)) \<and>
      (\<forall>sid f. (sid, f) \<in> set (lc_onion_services b) \<longrightarrow> lc_active b f \<longrightarrow> f \<noteq> ol_data l \<longrightarrow> (sid, f) \<in> set (lc_onion_services d)))"
proof -
  have "(\<forall>sid. (sid, ol_data l) \<notin> set (lc_onion_services d)) \<and>
      (\<forall>sid f. (sid, f) \<in> set (lc_onion_services b) \<longrightarrow> lc_active b f \<longrightarrow> f \<noteq> ol_data l \<longrightarrow> (sid, f) \<in> set (lc_onion_services d))"
    if "c = legacy_listener_drop l b" for l b
  proof -
    have u: "\<exists>E n T events. legacy_update E n T (legacy_listener_drop l b) = (Ret (Ok events), d)" using assms that by blast
    show ?thesis using legacy.dropped_gone [OF u] legacy.others_kept [OF u] by blast
  qed
  then show ?thesis using legacy_update_written [OF assms, unfolded deletion_def] legacy_update_services [OF assms] by blast
qed

lemma dropped_service_deleted_witness:
  "\<exists>events d. legacy_update sample_env 2 sample_texts (legacy_listener_drop dropped_listener serving_client) = (Ret (Ok events), d) \<and>
    lc_onion_services d = [(sample_id, 1)] \<and>
    cs_written (control_stream.stream (tc_stream (lc_controller d))) = as_bytes (''DEL_ONION '' @ service_id_to_string sample_id) @ [13, 10]"
proof -
  let ?c = "legacy_listener_drop dropped_listener serving_client"
  obtain events d where d: "legacy_update sample_env 2 sample_texts ?c = (Ret (Ok events), d)" using serving_client_update by blast
  have c: "lc_onion_services ?c = [(sample_id, 0), (sample_id, 1)]" "\<not> lc_active ?c 0" "lc_active ?c 1"
    "cs_written (control_stream.stream (tc_stream (lc_controller ?c))) = []"
    by (simp_all add: serving_client_def client_with_def legacy_listener_drop_def dropped_listener_def onion_listener_new_def answering_def
        tor_controller_new_def fresh_stream_def)
  obtain gone where gone: "mset gone = {#(sample_id, 0)#}" "mset (lc_onion_services d) = {#(sample_id, 1)#}"
    "cs_written (control_stream.stream (tc_stream (lc_controller d))) =
      concat (map (\<lambda>s. as_bytes (''DEL_ONION '' @ service_id_to_string (fst s)) @ [13, 10]) gone)"
    using dropped_service_deleted [OF d] c by (auto simp del: as_bytes_append)
  then have "gone = [(sample_id, 0)]" "lc_onion_services d = [(sample_id, 1)]" by simp_all
  with gone(3) d show ?thesis by auto
qed

text \<open>
  C28: a service of the mock provider is reachable exactly by clients whose key it admits, and by
  nobody once its listener is dropped and its client updated.
\<close>
theorem mock_service_access:
  assumes "mock_listener C fmt sys key port auth (c, w) = (Ok l, (c', w'))" "\<forall>a. \<exists>st. sys_connect sys a = Ok st"
  shows "((\<exists>s. fst (mock_connect fmt sys (OnionService (ol_onion_addr l)) tok (d, w')) = Ok s) \<longleftrightarrow>
      key_admitted (case auth of Some ks \<Rightarrow> ks | None \<Rightarrow> []) (mc_client_auth_keys d (service_id_from_private_key C key))) \<and>
    (\<forall>evs c'' w''. mock_update (c', mock_listener_drop l w') = (Ok evs, (c'', w'')) \<longrightarrow>
      \<not> (\<exists>s. fst (mock_connect fmt sys (OnionService (ol_onion_addr l)) tok (d, w'')) = Ok s))"
proof -
  let ?a = "V3 (onion_addr_v3_new (service_id_from_private_key C key) port)"
  have l: "ol_onion_addr l = ?a"
    using assms(1) by (auto simp: mock_listener_def Let_def onion_listener_new_def split: result.splits)
  from mock_listener_Ok [OF assms(1)] obtain addr where
    at: "service_at w' ?a = Some (case auth of Some ks \<Rightarrow> ks | None \<Rightarrow> [], addr)" "(?a, ol_data l) \<in> set (mc_onion_services c')" by metis
  have "(\<exists>s. fst (mock_connect fmt sys (OnionService ?a) tok (d, w')) = Ok s) \<longleftrightarrow>
      key_admitted (case auth of Some ks \<Rightarrow> ks | None \<Rightarrow> []) (mc_client_auth_keys d (service_id_from_private_key C key))"
    using at(1) assms(2) by (simp add: mock_connect_onion_iff)
  moreover have "\<not> (\<exists>s. fst (mock_connect fmt sys (OnionService ?a) tok (d, w'')) = Ok s)"
    if "mock_update (c', mock_listener_drop l w') = (Ok evs, (c'', w''))" for evs c'' w''
    by (rule mock_dropped_unreachable [OF at(2) that])
  ultimately show ?thesis unfolding l by blast
qed

lemma mock_service_access_witness:
  "\<exists>l p s. mock_listener toy_crypto (\<lambda>_. []) mock_sys sample_key 80 None (mock_new loopback, mock_start) = (Ok l, p) \<and>
    fst (mock_connect (\<lambda>_. []) mock_sys (OnionService (ol_onion_addr l)) None (mock_new loopback, snd p)) = Ok s"
proof -
  obtain l c w where r: "mock_listener toy_crypto (\<lambda>_. []) mock_sys sample_key 80 None (mock_new loopback, mock_start) = (Ok l, (c, w))"
    by (auto simp: mock_listener_def mock_sys_def Let_def)
  moreover have "\<forall>a. \<exists>st. sys_connect mock_sys a = Ok st" by (simp add: mock_sys_def)
  ultimately show ?thesis
    using mock_service_access [OF r, of None "mock_new loopback"] by (auto simp: key_admitted_def mock_new_def)
qed

text \<open>
  C33: over the whole life of an object registry, no key is issued twice, every key carries the tag of
  the registry and is not the null pointer, and only issued keys find an object.
\<close>
theorem registry_keys_unique:
  assumes "registry_runs tag b issued r" "tag_fits tag b"
  shows "distinct issued \<and> (\<forall>k\<in>set issued. get_tag_from_key b k = tag \<and> k \<noteq> 0) \<and>
    (\<forall>k. registry_contains_key r k \<longrightarrow> k \<in> set issued)"
  using registry_keys [OF assms] by blast

lemma registry_keys_unique_witness:
  "\<exists>k j r. registry_runs 5 4 [k, j] (r :: nat object_registry) \<and> k \<noteq> j \<and> get_tag_from_key 4 k = 5"
proof -
  obtain k j r where r: "registry_runs 5 4 [k, j] (r :: nat object_registry)" using sample_registry_run by blast
  moreover have "tag_fits 5 4" by (simp add: tag_fits_def)
  ultimately show ?thesis using registry_keys_unique [OF r] by auto
qed

text \<open>
  C34: the hash of the control password is the iterated and salted S2K of RFC 2440: SHA-1 over the first
  65536 bytes of salt and password repeated without end, printed after the salt and the count byte.
\<close>
theorem password_hash_is_s2k:
  assumes "length random = S2K_RFC2440_SPECIFIER_LEN"
  shows "hash_tor_password sha1 hexupper random password =
    (let inp = take 8 random @ as_bytes password in
     Ret (''16:'' @ hexupper (take 8 random @ [0x60]) @ hexupper (sha1 (map (\<lambda>i. inp ! (i mod length inp)) [0..<65536]))))"
  by (rule hash_tor_password_eq [OF assms])

lemma password_hash_is_s2k_witness:
  "hash_tor_password (\<lambda>bs. [hd bs, last bs]) hex_encode (replicate 9 7) ''pw'' = Ret (''16:'' @ hex_encode (replicate 8 7 @ [0x60, 7, 7]))"
proof -
  let ?f = "\<lambda>i. (take 8 (replicate 9 (7 :: byte)) @ as_bytes ''pw'') ! (i mod 10)"
  have "hd (map ?f [0..<65536]) = 7" "last (map ?f [0..<65536]) = ?f 65535"
    by (simp_all add: hd_map last_map nth_append)
  moreover have "?f 65535 = 7" by (simp add: nth_append)
  ultimately show ?thesis
    using password_hash_is_s2k [of "replicate 9 7" "\<lambda>bs. [hd bs, last bs]" hex_encode "''pw''"]
    by (simp add: S2K_RFC2440_SPECIFIER_LEN_def hex_encode_def Let_def)
qed

section \<open>Where the session panics\<close>

text \<open>
  A size header that was rejected stays in the read buffer; the next read of the session asserts
  that the buffer is shorter than a header and panics. The session must not be updated again after
  \<open>BsonDocumentSizeTooSmall\<close>.
\<close>
theorem rejected_header_panics:
  assumes "read_inv s" "read_message B s = (Ret (Err (BsonDocumentSizeTooSmall n)), t)"
  shows "fst (read_message B t) = Panic"
  using assms by (rule read_after_bad_header_panics)

lemma rejected_header_panics_witness:
  "\<exists>n t. read_message sample_bson (sample_receiver [4, 0, 0, 0]) = (Ret (Err (BsonDocumentSizeTooSmall n)), t) \<and>
     fst (read_message sample_bson t) = Panic"
proof -
  have inv: "read_inv (sample_receiver [4, 0, 0, 0])"
    by (simp add: read_inv_def sample_receiver_def session_new_def)
  have "header_i32 4 0 0 0 <=s 4" by (simp add: header_i32_def)
  then obtain n t where run: "read_message sample_bson (sample_receiver [4, 0, 0, 0]) = (Ret (Err (BsonDocumentSizeTooSmall n)), t)"
    by (auto simp: read_message_def read_message_size_def action_defs stream_read_def io_read_def finish_message_size_def
        sample_receiver_def session_new_def quiet_stream_def Let_def)
  from rejected_header_panics [OF inv run] run show ?thesis by blast
qed

text \<open>
  A section that was accepted while the maximum message size was larger makes \<open>serialize_messages\<close>
  panic after \<open>set_max_message_size\<close> was lowered below what it needs.
\<close>
theorem shrinking_panics:
  assumes "bson_laws B" "bson_size_laws B" "outbound_sections s = [d]" "serialises B d"
    and "max_message_size s < MIN_MESSAGE_SIZE + doc_size B d"
  shows "fst (serialize_messages B s) = Panic"
  using assms by (rule shrink_then_serialize_panics)

lemma shrinking_panics_witness:
  "fst (serialize_messages sample_bson (snd (set_max_message_size 50 sample_sender))) = Panic"
proof (rule shrinking_panics [OF alist_bson_laws alist_bson_size_laws])
  show "outbound_sections (snd (set_max_message_size 50 sample_sender)) = [sample_doc]"
    by (simp add: sample_sender_def set_max_message_size_def MIN_MESSAGE_SIZE_value sample_section_doc)
  show "serialises sample_bson sample_doc" by simp
  show "max_message_size (snd (set_max_message_size 50 sample_sender)) < MIN_MESSAGE_SIZE + doc_size sample_bson sample_doc"
    using sample_sizes(1) by (simp add: set_max_message_size_def MIN_MESSAGE_SIZE_value alist_doc_size)
qed



section \<open>Keys and service ids\<close>

text \<open>
  C36: a string passes \<open>V3OnionServiceId::is_valid\<close> exactly when it is the service id
  of some 32-byte public key: the checks of length, alphabet, version and checksum leave nothing else.
\<close>
theorem service_id_valid_iff_key:
  assumes "codec_laws C"
  shows "service_id_is_valid C s \<longleftrightarrow>
    (\<exists>pk. length pk = 32 \<and> s = sid_data (service_id_from_public_key C \<lparr> ed_public_key = pk \<rparr>))"
  using assms by (rule service_id_is_valid_iff)

lemma service_id_valid_iff_key_witness:
  "service_id_is_valid toy_crypto (sid_data (service_id_from_public_key toy_crypto \<lparr> ed_public_key = replicate 32 1 \<rparr>))"
  unfolding service_id_valid_iff_key [OF toy_codec_laws] by (rule exI [of _ "replicate 32 1"]) simp

text \<open>
  The service id of a signing key is accepted by \<open>from_string\<close> after printing,
  and decodes to the public key of that signing key.
\<close>
theorem own_service_id_accepted:
  assumes "codec_laws C" "signature_laws C" "signing_key C k"
  shows "service_id_from_string C (service_id_to_string (service_id_from_private_key C k)) =
      Ok (service_id_from_private_key C k) \<and>
    ed25519_public_from_service_id C (service_id_from_private_key C k) =
      Ok (ed25519_public_from_private_key C k)"
  using own_service_id [OF assms] by simp

lemma own_service_id_accepted_witness:
  "ed25519_public_from_service_id toy_crypto (service_id_from_private_key toy_crypto sample_key) =
     Ok (ed25519_public_from_private_key toy_crypto sample_key)"
  using own_service_id_accepted [OF toy_codec_laws toy_signature_laws sample_signing_key] by simp

text \<open>
  A signing key printed as a key blob is read back as the same key; the
  textual forms of X25519 keys are read back too.
\<close>
theorem key_blob_reads_back:
  assumes "codec_laws C" "signing_key C k" "length raw = 32" "x25519_private_from_raw raw = Ok x" "length pub = 32"
  shows "ed25519_private_from_key_blob C (ed25519_private_to_key_blob C k) = Ok k \<and>
    x25519_private_from_base64 C (x25519_private_to_base64 C x) = Ok x \<and>
    x25519_public_from_base32 C (x25519_public_to_base32 C (x25519_public_from_raw pub)) = Ok (x25519_public_from_raw pub)"
  using key_blob_roundtrip [OF assms(1,2)] x25519_private_roundtrip [OF assms(1,3,4)]
    x25519_public_roundtrip [OF assms(1,5)] by simp

lemma key_blob_reads_back_witness:
  "ed25519_private_from_key_blob toy_crypto (ed25519_private_to_key_blob toy_crypto sample_key) = Ok sample_key"
  using key_blob_reads_back [OF toy_codec_laws sample_signing_key, of "replicate 32 64" _ "replicate 32 64"]
  by (simp add: x25519_private_from_raw_def)

text \<open>
  A message signed with the Ed25519 key derived from an X25519 private
  key verifies against the X25519 public key and the sign bit of the derivation. The
  authorisation signature of the identity handshake rests on this.
\<close>
theorem authorization_signature_verifies:
  assumes "signature_laws C" "x25519_private_sign_message C x m = Ok (sig, b)"
  shows "ed25519_signature_verify_x25519 C sig m (x25519_public_from_private_key C x) b"
  using assms x25519_sign_verifies [OF assms(1)]
  by (auto simp: x25519_private_sign_message_def split: result.splits prod.splits)

lemma authorization_signature_verifies_witness:
  "\<exists>sig b. x25519_private_sign_message toy_crypto sample_x25519 [1, 2] = Ok (sig, b) \<and>
     ed25519_signature_verify_x25519 toy_crypto sig [1, 2] (x25519_public_from_private_key toy_crypto sample_x25519) b"
proof -
  obtain sig b where "x25519_private_sign_message toy_crypto sample_x25519 [1, 2] = Ok (sig, b)"
    by (simp add: x25519_private_sign_message_def ed25519_private_from_private_x25519_def sample_x25519_def list_all_iff)
  then show ?thesis using authorization_signature_verifies [OF toy_signature_laws] by blast
qed

text \<open>
  \<open>X25519PrivateKey::from_raw\<close> accepts a clamped key only when bit 3 of its first
  byte is clear: its mask is 240 where clamping clears the low three bits (mask 248), so half of all
  clamped keys are rejected.
\<close>
theorem from_raw_rejects_clamped:
  assumes "x25519_clamped raw"
  shows "x25519_private_from_raw raw = (if bit (raw ! 0) 3 then Err KeyInvalid else Ok \<lparr> secret_key = raw \<rparr>)"
  using assms by (rule x25519_from_raw_clamped)

lemma from_raw_rejects_clamped_witness:
  "x25519_private_from_raw (8 # replicate 30 0 @ [64]) = Err KeyInvalid"
  using from_raw_rejects_clamped [of "8 # replicate 30 0 @ [64]"]
  by (simp add: x25519_clamped_def nth_append nth_Cons' bit_numeral_rec)

section \<open>The handshake proof\<close>

text \<open>
  C21: the message a client signs determines every part of the handshake it is signed
  for: the kind of handshake, the requested endpoint or channel, both service ids and both cookies.
  A signature cannot be replayed in another context.
\<close>
theorem proof_binds_everything:
  assumes "codec_laws C"
    and "length (sid_data c) = 56" "length (sid_data c') = 56"
    and "length (sid_data s) = 56" "length (sid_data s') = 56"
    and "length cc = 32" "length cc' = 32" "length sc = 32" "length sc' = 32"
    and "build_client_proof C sep r c s cc sc = build_client_proof C sep' r' c' s' cc' sc'"
  shows "sep = sep' \<and> r = r' \<and> c = c' \<and> s = s' \<and> cc = cc' \<and> sc = sc'"
  using assms by (rule build_client_proof_inj)

lemma proof_binds_everything_witness:
  "build_client_proof toy_crypto GoslingIdentity sample_name sample_id sample_id (replicate 32 1) (replicate 32 2) \<noteq>
   build_client_proof toy_crypto GoslingEndpoint sample_name sample_id sample_id (replicate 32 1) (replicate 32 2)"
proof -
  have "length (sid_data sample_id) = 56"
    unfolding sample_id_def by (rule own_service_id(3) [OF toy_codec_laws toy_signature_laws sample_signing_key])
  then show ?thesis
    using proof_binds_everything [OF toy_codec_laws, of sample_id sample_id sample_id sample_id
        "replicate 32 1" "replicate 32 1" "replicate 32 2" "replicate 32 2" GoslingIdentity sample_name GoslingEndpoint sample_name]
    by auto
qed

section \<open>The C interface\<close>

text \<open>
  C9: in every state a program can reach through the C interface, a handle is valid for one type of object only,
  carries the tag of that type and is not null; so a handle of one type is refused where another type is expected:
  the service id of a private key cannot be asked of a handle that is valid for any other type.
\<close>
theorem c_handles_typed:
  assumes "host_ok H" "c_runs H w" "valid_handle w ty k"
  shows "k \<noteq> 0 \<and> get_tag_from_key 4 k = type_tag ty \<and> (\<forall>ty'. valid_handle w ty' k \<longrightarrow> ty' = ty) \<and>
    (ty \<noteq> CEd25519PrivateKey \<and> ED25519_PRIVATE_KEY_TAG \<notin> w_poisoned w \<and> out \<noteq> 0 \<longrightarrow>
      gosling_v3_onion_service_id_from_ed25519_private_key E out k error w =
        report_failure () error (e_debug E (InvalidHandle ''ed25519_private_key'')) w)"
proof -
  have w: "world_inv w" "w_held w = {}" using c_runs_at_locks [OF assms(2, 1)] by (simp_all add: at_locks_def)
  note tag = valid_handle_tag [OF w(1)]
  have "gosling_v3_onion_service_id_from_ed25519_private_key E out k error w =
      report_failure () error (e_debug E (InvalidHandle ''ed25519_private_key'')) w"
    if "ty \<noteq> CEd25519PrivateKey" "ED25519_PRIVATE_KEY_TAG \<notin> w_poisoned w" "out \<noteq> 0"
  proof -
    have unl: "unlocked ED25519_PRIVATE_KEY_TAG w" using that(2) w(2) by (simp add: unlocked_def)
    have "get_tag_from_key 4 k \<noteq> ED25519_PRIVATE_KEY_TAG"
      using tag [OF assms(3)] that(1) type_tag_inj [of ty CEd25519PrivateKey] by auto
    note refused = ed25519_private_keys.cloned_other [unfolded slot_tags, OF w(1) unl this]
    show ?thesis using that(3) tag [OF assms(3)]
      by (simp add: gosling_v3_onion_service_id_from_ed25519_private_key_def translate_failures_def ensure_not_null_def refused)
  qed
  moreover have "ty' = ty" if "valid_handle w ty' k" for ty'
    using tag [OF that] tag [OF assms(3)] by (intro type_tag_inj) simp
  ultimately show ?thesis using tag [OF assms(3)] by blast
qed

lemma c_handles_typed_witness:
  "gosling_v3_onion_service_id_from_ed25519_private_key sample_c_env 16 0x16 0 address_world = (Ret (), address_world)"
  using c_handles_typed [OF sample_host_ok address_runs address_valid, of 16 sample_c_env 0]
  by (simp add: address_run report_failure_def)

text \<open>
  C8: a call of any function of the C interface in a reachable state, by a program whose callbacks use the interface
  properly, never waits for a mutex that the call itself holds, keeps the invariants of all registries, and
  when it returns, or panics, every mutex is released.
\<close>
theorem c_calls_release_locks:
  assumes "host_ok H" "c_runs H w" "api_call H m" "m w = (r, t)"
  shows "\<not> w_blocked t \<and> world_inv t \<and> (r \<noteq> OutOfFuel \<longrightarrow> w_held t = {})"
  using api_sound [OF assms(1, 3)] c_runs_at_locks [OF assms(2, 1)] assms(4) by (force simp: sound_def)

lemma c_calls_release_locks_witness: "w_held address_world = {} \<and> world_inv address_world"
  using c_calls_release_locks [OF sample_host_ok c_runs_start call_ip_address_from_ipv4 address_created] by simp

text \<open>
  C11: when the body of a function fails or panics, \<open>translate_failures\<close> returns the default value, stores the handle
  of an error object where the caller asked for it, and the message of that object is the text of the failure, or
  \<open>panic occurred\<close>, with a terminating null byte.
\<close>
theorem c_failures_reported:
  assumes "closure w = (r, v)" "r = Ret (Err err) \<and> message = fmt err \<or> r = Panic \<and> message = ''panic occurred''"
    and "world_inv v" "unlocked ERROR_TAG v" "or_counter (w_error v) < COUNTER_MAX 4" "out_error \<noteq> 0" "0 \<notin> set (as_bytes message)"
  shows "\<exists>t. translate_failures fmt d out_error closure w = (Ret d, t) \<and>
    gosling_error_get_message (mem_word out_error (w_mem t)) t = (Ret (Some (as_bytes message @ [0])), t)"
  using report_failure_run [OF assms(3-7), of d] assms(1, 2) by (auto simp: translate_failures_def)

lemma c_failures_reported_witness:
  "\<exists>t. gosling_ip_address_clone sample_c_env 0 0 8 address_world = (Ret (), t) \<and>
     gosling_error_get_message (mem_word 8 (w_mem t)) t = (Ret (Some (as_bytes ''failure'' @ [0])), t)"
proof -
  have w: "world_inv address_world" "unlocked ERROR_TAG address_world" "or_counter (w_error address_world) < COUNTER_MAX 4"
    using c_runs_at_locks [OF address_runs sample_host_ok] by (simp_all add: at_locks_def address_run unlocked_def)
  show ?thesis unfolding gosling_ip_address_clone_def
    by (rule c_failures_reported [OF _ _ w, where err = "MustNotBeNull ''out_ip_address''"])
      (simp_all add: ensure_not_null_def bail_def ret_def sample_c_env_def as_bytes_def)
qed

text \<open>
  C35: \<open>gosling_v3_onion_service_id_to_string\<close> writes into the 57 bytes of the buffer only and ends the text with a null byte,
  and \<open>gosling_v3_onion_service_id_from_string\<close> on these 56 characters returns a handle of the same service id.
\<close>
theorem service_id_text_roundtrip:
  assumes "world_inv w" "unlocked V3_ONION_SERVICE_ID_TAG w" "or_counter (w_v3_onion_service_id w) < COUNTER_MAX 4"
    and "registry_get (w_v3_onion_service_id w) k = Some sid" "service_id_is_valid (e_crypto E) (sid_data sid)" "is_ascii (sid_data sid)"
    and "out \<noteq> 0" "out' \<noteq> 0" "57 \<le> unat n"
  shows "\<exists>t u. gosling_v3_onion_service_id_to_string E k out n error w = (Ret (), t) \<and>
    (\<forall>a. 57 \<le> unat (a - out) \<longrightarrow> w_mem t a = w_mem w a) \<and> w_mem t (out + 56) = 0 \<and>
    gosling_v3_onion_service_id_from_string E out' out 56 error t = (Ret (), u) \<and>
    registry_get (w_v3_onion_service_id u) (mem_word out' (w_mem u)) = Some sid"
proof -
  have len: "length (sid_data sid) = 56" using assms(5) by (simp add: service_id_is_valid_def crypto_sizes split: if_splits)
  let ?t = "w\<lparr> w_mem := text_at out (sid_data sid) (w_mem w) \<rparr>"
  have "k \<noteq> 0" using v3_onion_service_ids.get_valid(1) [OF assms(1), of k] assms(4) by (simp add: v3_onion_service_id_slot_def)
  then have to_string: "gosling_v3_onion_service_id_to_string E k out n error w = (Ret (), ?t)"
    by (intro service_id_to_string_run) (use assms len in \<open>simp_all add: text_sizes crypto_sizes\<close>)
  have load: "mem_load out 56 (text_at out (sid_data sid) (w_mem w)) = as_bytes (sid_data sid)"
    using text_at_load [of "sid_data sid" out "w_mem w"] len by simp
  have "\<exists>u. gosling_v3_onion_service_id_from_string E out' out 56 error ?t = (Ret (), u) \<and>
      registry_get (w_v3_onion_service_id u) (mem_word out' (w_mem u)) = Some \<lparr> sid_data = sid_data sid \<rparr>"
    by (rule service_id_from_string_run) (use assms load in \<open>simp_all add: text_sizes crypto_sizes\<close>)
  then obtain u where "gosling_v3_onion_service_id_from_string E out' out 56 error ?t = (Ret (), u)"
    "registry_get (w_v3_onion_service_id u) (mem_word out' (w_mem u)) = Some sid" by auto
  then show ?thesis
    using to_string text_at_outside [of "sid_data sid" _ out "w_mem w"] text_at_terminated [of out "sid_data sid" "w_mem w"] len
    by (intro exI [of _ ?t] exI [of _ u]) simp
qed

lemma service_id_text_roundtrip_witness:
  "\<exists>t u. gosling_v3_onion_service_id_to_string sample_c_env 0x15 64 57 0 service_id_world = (Ret (), t) \<and>
    gosling_v3_onion_service_id_from_string sample_c_env 8 64 56 0 t = (Ret (), u) \<and>
    registry_get (w_v3_onion_service_id u) (mem_word 8 (w_mem u)) = Some other_id"
  using service_id_text_roundtrip [OF service_id_world_inv, where k = "0x15" and sid = other_id and E = sample_c_env and out = 64 and out' = 8 and n = 57 and error = 0] other_id_valid other_id_ascii
  by (auto simp: service_id_world_def library_start_def unlocked_def counter_max_4 registry_get_def bt_get_def sample_c_env_def)

text \<open>
  C10: when handling an event fails, \<open>gosling_context_poll_events\<close> reports the failure and keeps the events that come after it:
  if the caller gave a place for an error, the handle found there leads to an error object with the text of the failure, and
  the next poll takes the kept events first, then what the context has reported since.
\<close>
theorem poll_keeps_events:
  assumes "take_events E k w = (Ret (Ok (es1 @ ev # es2, cbs)), v)" "drain_events H E k cbs es1 v = (Ret (Ok ()), v1)"
    and "handle_context_event H E ev k cbs v1 = (Ret (Err e), u)" "at_locks {} u" "CONTEXT_TUPLE_TAG \<notin> w_poisoned u"
    and "registry_get (w_context_tuple u) k = Some (c, cbs', None)" "reportable error u"
    and "context_update (e_bson E') (e_crypto E') (e_tor E') (e_now E') (e_random E') (e_generated E') c = (Ret (Ok new), c')"
  shows "\<exists>t t'. gosling_context_poll_events H E k error w = (Ret (), t) \<and>
    (error \<noteq> 0 \<longrightarrow> gosling_error_get_message (mem_word error (w_mem t)) t =
      (Ret (Some (err_message (error_new (e_debug E e)) @ [0])), t)) \<and>
    take_events E' k t = (Ret (Ok (es2 @ new, cbs')), t')"
proof -
  obtain t left where t: "gosling_context_poll_events H E k error w = (Ret (), t)"
    "registry_get (w_context_tuple t) k = Some (c, cbs', left)" "(case left of Some es \<Rightarrow> es | None \<Rightarrow> []) = es2"
    "world_inv t" "unlocked CONTEXT_TUPLE_TAG t" "error_readable error (e_debug E e) t"
    using poll_failure [OF assms(1-7)] by (elim exE conjE) (rule that)
  show ?thesis using take_events_run [OF t(4, 5, 2) assms(8)] t(1, 3, 6) by (auto simp: error_readable_def)
qed

lemma poll_keeps_events_witness:
  "\<exists>t t'. gosling_context_poll_events sample_host sample_c_env 0x1D 8
      (context_world sample_context no_callbacks [EndpointServerChannelRequestReceived 0 sample_id ''echo'', IdentityServerPublished]) = (Ret (), t) \<and>
    gosling_error_get_message (mem_word 8 (w_mem t)) t = (Ret (Some (as_bytes ''failure'' @ [0])), t) \<and>
    take_events sample_c_env 0x1D t = (Ret (Ok ([IdentityServerPublished, TorBootstrapCompleted, TorBootstrapCompleted], no_callbacks)), t')"
proof -
  let ?req = "EndpointServerChannelRequestReceived 0 sample_id ''echo'' :: adoc context_event"
  let ?w = "context_world sample_context no_callbacks [?req, IdentityServerPublished]"
  let ?c = "sample_context\<lparr> ctx_bootstrap_complete := True \<rparr>"
  obtain v where v: "take_events sample_c_env 0x1D ?w = (Ret (Ok ([] @ ?req # [IdentityServerPublished, TorBootstrapCompleted], no_callbacks)), v)"
    "registry_get (w_context_tuple v) 0x1D = Some (?c, no_callbacks, None)" "at_locks {} v" "CONTEXT_TUPLE_TAG \<notin> w_poisoned v" "reportable 8 v"
    using taken_world [of no_callbacks "[?req, IdentityServerPublished]"] by auto
  have fails: "handle_context_event sample_host sample_c_env ?req 0x1D no_callbacks v =
      (Ret (Err (Bail ''missing required endpoint_server_channel_supported() callback'')), v)"
    by (simp add: on_channel_request_def required_def no_callbacks_def bail_def ret_def)
  have "err_message (error_new (e_debug sample_c_env x)) = as_bytes ''failure''" for x
    by (simp add: error_new_def sample_c_env_def as_bytes_def)
  then show ?thesis
    using poll_keeps_events [OF v(1) _ fails v(3, 4, 2, 5) again_bootstrap] by (simp add: ret_def)
qed

text \<open>
  C38: a peer may request a channel whose name has a null byte; with a callback for such requests set, handling the request panics in
  \<open>CString::new(..).expect(..)\<close>. The poll reports the panic (an error object that says \<open>panic occurred\<close>, where the caller gave a place for it),
  no context is changed any more, so that the request stays unanswered, and the events behind it are lost: the next poll finds only what the context reports anew.
\<close>
theorem nul_name_loses_events:
  assumes "take_events E k w = (Ret (Ok (es1 @ EndpointServerChannelRequestReceived h client channel # es2, cbs)), v)"
    and "drain_events H E k cbs es1 v = (Ret (Ok ()), u)" "endpoint_server_channel_supported_callback cbs = Some f"
    and "0 \<in> set (as_bytes channel)" "at_locks {} u" "V3_ONION_SERVICE_ID_TAG \<notin> w_poisoned u"
    and "or_counter (w_v3_onion_service_id u) < COUNTER_MAX 4" "reportable error u"
    and "CONTEXT_TUPLE_TAG \<notin> w_poisoned u" "registry_get (w_context_tuple u) k = Some (c, cbs', None)"
    and "context_update (e_bson E') (e_crypto E') (e_tor E') (e_now E') (e_random E') (e_generated E') c = (Ret (Ok new), c')"
  shows "\<exists>t t'. gosling_context_poll_events H E k error w = (Ret (), t) \<and>
    (error \<noteq> 0 \<longrightarrow> gosling_error_get_message (mem_word error (w_mem t)) t = (Ret (Some (as_bytes ''panic occurred'' @ [0])), t)) \<and>
    w_context_tuple t = w_context_tuple u \<and> take_events E' k t = (Ret (Ok (new, cbs')), t')"
proof -
  have u: "world_inv u" "w_held u = {}" using assms(5) by (simp_all add: at_locks_def)
  then have "unlocked V3_ONION_SERVICE_ID_TAG u" using assms(6) by (simp add: unlocked_def)
  from channel_request_nul [OF u(1) this assms(7, 3, 4), of H E h client k]
  obtain g where g: "handle_context_event H E (EndpointServerChannelRequestReceived h client channel) k cbs u =
      (Panic, u\<lparr> w_v3_onion_service_id := g \<rparr>)" "registry_inv V3_ONION_SERVICE_ID_TAG 4 g" by blast
  let ?u = "u\<lparr> w_v3_onion_service_id := g \<rparr>"
  have inv: "world_inv ?u" using u(1) g(2) by (simp add: world_inv_def)
  have rep: "reportable error ?u" using assms(8) by (simp add: reportable_def unlocked_def)
  obtain t where t: "report_failure () error ''panic occurred'' ?u = (Ret (), t)" "error_readable error ''panic occurred'' t"
    using report_failure_reads [OF inv rep, of "()" "''panic occurred''"] by (elim exE conjE) (rule that)
  have "ERROR_TAG \<notin> w_held ?u" using u(2) by simp
  note frame = report_failure_frame [OF t(1) inv this]
  have at: "unlocked CONTEXT_TUPLE_TAG t" "registry_get (w_context_tuple t) k = Some (c, cbs', None)"
    using frame u(2) assms(9, 10) by (simp_all add: unlocked_def)
  have "err_message (error_new ''panic occurred'') = as_bytes ''panic occurred''" by (simp add: error_new_def as_bytes_def)
  then show ?thesis
    using poll_panic [OF assms(1, 2) g(1), of error] t frame(1) take_events_run [OF frame(4) at assms(11)]
    by (auto simp: error_readable_def)
qed

lemma nul_name_loses_events_witness:
  "\<exists>t t'. gosling_context_poll_events sample_host sample_c_env 0x1D 8
      (context_world sample_context asking_callbacks [EndpointServerChannelRequestReceived 0 sample_id [CHR 0x00], IdentityServerPublished]) = (Ret (), t) \<and>
    gosling_error_get_message (mem_word 8 (w_mem t)) t = (Ret (Some (as_bytes ''panic occurred'' @ [0])), t) \<and>
    registry_get (w_context_tuple t) 0x1D = Some (sample_context\<lparr> ctx_bootstrap_complete := True \<rparr>, asking_callbacks, None) \<and>
    take_events sample_c_env 0x1D t = (Ret (Ok ([TorBootstrapCompleted], asking_callbacks)), t')"
proof -
  let ?req = "EndpointServerChannelRequestReceived 0 sample_id [CHR 0x00] :: adoc context_event"
  let ?w = "context_world sample_context asking_callbacks [?req, IdentityServerPublished]"
  obtain v where v: "take_events sample_c_env 0x1D ?w = (Ret (Ok ([] @ ?req # [IdentityServerPublished, TorBootstrapCompleted], asking_callbacks)), v)"
    "registry_get (w_context_tuple v) 0x1D = Some (sample_context\<lparr> ctx_bootstrap_complete := True \<rparr>, asking_callbacks, None)"
    "at_locks {} v" "V3_ONION_SERVICE_ID_TAG \<notin> w_poisoned v" "or_counter (w_v3_onion_service_id v) = 0"
    "CONTEXT_TUPLE_TAG \<notin> w_poisoned v" "reportable 8 v"
    using taken_world [of asking_callbacks "[?req, IdentityServerPublished]"] by auto
  have set: "endpoint_server_channel_supported_callback asking_callbacks = Some 1" "0 \<in> set (as_bytes [CHR 0x00])"
    "or_counter (w_v3_onion_service_id v) < COUNTER_MAX 4" "drain_events sample_host sample_c_env 0x1D asking_callbacks [] v = (Ret (Ok ()), v)"
    using v(5) by (simp_all add: asking_callbacks_def as_bytes_def counter_max_4 ret_def)
  show ?thesis
    using nul_name_loses_events [OF v(1) set(4, 1, 2) v(3, 4) set(3) v(7, 6, 2) again_bootstrap] v(2) by auto
qed

text \<open>
  C39: a panic while a poll updates one context poisons the mutex that all contexts share, for the rest of the program. The poll
  reports the panic. From then on, in every state that further calls and writes of the program reach, each of the 39 functions of the
  interface that work on a context or create one (the polls, the servers, the handshakes, connecting, the tokens, the callback setters)
  only reports a failure to its caller and leaves the contexts as they are, a poll always reports \<open>panic occurred\<close>,
  \<open>gosling_context_free\<close> panics on every handle, and \<open>gosling_library_free\<close> panics.
\<close>
theorem panic_poisons_contexts:
  assumes "at_locks {} w" "CONTEXT_TUPLE_TAG \<notin> w_poisoned w" "registry_get (w_context_tuple w) k = Some (c, cbs, left)"
    and "context_update (e_bson E) (e_crypto E) (e_tor E) (e_now E) (e_random E) (e_generated E) c = (Panic, c')"
    and "reportable error w"
  shows "\<exists>t. gosling_context_poll_events H E k error w = (Ret (), t) \<and> error_readable error ''panic occurred'' t \<and>
    (\<forall>u. c_later H t u \<longrightarrow>
      (\<forall>error' m. context_function H error' m \<longrightarrow>
        (\<exists>message v. m u = report_failure () error' message v \<and> w_context_tuple v = w_context_tuple u)) \<and>
      (\<forall>E' k' error'. gosling_context_poll_events H E' k' error' u = report_failure () error' ''panic occurred'' u) \<and>
      (\<forall>k'. k' \<noteq> 0 \<longrightarrow> fst (gosling_context_free k' u) = Panic) \<and>
      (w_inited u \<longrightarrow> fst (gosling_library_free lib u) = Panic))"
proof -
  obtain u where u: "take_events E k w = (Panic, u)" "contexts_poisoned u" "w_error u = w_error w"
    "w_poisoned u = insert CONTEXT_TUPLE_TAG (w_poisoned w)"
    using take_events_panic [OF assms(1-4)] by (elim exE conjE) (rule that)
  have inv: "world_inv u" "w_held u = {}" "\<not> w_blocked u" using u(2) by (simp_all add: contexts_poisoned_def at_locks_def)
  have rep: "reportable error u" using assms(1, 5) inv(2) u(3, 4) by (auto simp: reportable_def unlocked_def at_locks_def tag_defs)
  obtain t where t: "report_failure () error ''panic occurred'' u = (Ret (), t)" "error_readable error ''panic occurred'' t"
    using report_failure_reads [OF inv(1) rep, of "()" "''panic occurred''"] by (elim exE conjE) (rule that)
  have "gosling_context_poll_events H E k error w = (Ret (), t)"
    using u(1) t(1) by (simp add: gosling_context_poll_events_def translate_failures_def try_then_def andthen_def)
  moreover have poisoned: "contexts_poisoned s" if "c_later H t s" for s
    by (rule later_poisoned [OF that report_failure_poisoned [OF t(1) u(2)]])
  ultimately show ?thesis
    using t(2) poisoned_refuses [OF poisoned, unfolded refused_def] poisoned_contexts(1) [OF poisoned]
      poisoned_free [OF poisoned] library_free_panics [OF poisoned]
    by (intro exI [of _ t]) simp
qed

lemma panic_poisons_contexts_witness:
  "\<exists>t u v. gosling_context_poll_events sample_host sample_c_env 0x1D 0 (context_world overlong_context no_callbacks []) = (Ret (), t) \<and>
     called (gosling_ed25519_private_key_free 0) t = (Ret (), u) \<and>
     called (gosling_context_generate_circuit_token sample_c_env 0x2D 0) u = (Ret (), v) \<and>
     fst (gosling_context_free 0x1D u) = Panic"
proof -
  let ?w = "context_world overlong_context no_callbacks []"
  obtain c where c: "context_update (e_bson sample_c_env) (e_crypto sample_c_env) (e_tor sample_c_env) (e_now sample_c_env)
      (e_random sample_c_env) (e_generated sample_c_env) overlong_context = (Panic, c)"
    using overlong_update_panics by blast
  have w: "CONTEXT_TUPLE_TAG \<notin> w_poisoned ?w" "registry_get (w_context_tuple ?w) 0x1D = Some (overlong_context, no_callbacks, Some [])"
    "reportable 0 ?w"
    by (simp_all add: context_world_def library_start_def registry_get_def bt_get_def reportable_def)
  obtain t where t: "gosling_context_poll_events sample_host sample_c_env 0x1D 0 ?w = (Ret (), t)"
    "\<And>u. c_later sample_host t u \<Longrightarrow> (\<forall>error' m. context_function sample_host error' m \<longrightarrow>
        (\<exists>message v. m u = report_failure () error' message v \<and> w_context_tuple v = w_context_tuple u)) \<and> fst (gosling_context_free 0x1D u) = Panic"
    using panic_poisons_contexts [OF context_world_at w(1, 2) c w(3)] by fastforce
  have free: "called (gosling_ed25519_private_key_free 0) t = (Ret (), t)"
    by (simp add: called_def gosling_ed25519_private_key_free_def registry_free_def andthen_def ret_def)
  have later: "c_later sample_host t t" using later_same call_ed25519_private_key_free free by (rule later_call)
  obtain v where "called (gosling_context_generate_circuit_token sample_c_env 0x2D 0) t = (Ret (), v)"
    using t(2) [OF later] fn_context_generate_circuit_token [of sample_host 0 sample_c_env "0x2D"] by (fastforce simp: report_failure_def ret_def)
  then show ?thesis using t free later by blast
qed

section \<open>The arti provider\<close>

text \<open>
  C29: two pumps of the arti provider share a flag, in any interleaving of their steps. A pump passes on exactly what it has read,
  in order, until a write fails or its stream ends; the flag is down exactly when one of them has ended; the
  counter of retries never leaves the range from 0 to 3, so its decrement cannot overflow.
\<close>
theorem arti_pumps_forward:
  assumes "pumps_run alive ps" "p \<in> set ps"
  shows "prefix (pu_written p) (pu_read p) \<and> (pu_at p \<notin> {PumpDying, PumpDone} \<longrightarrow> pu_written p = pu_read p) \<and>
    (alive \<longleftrightarrow> \<not> (\<exists>q\<in>set ps. pump_ended q)) \<and> pu_remaining_retries p \<in> {0, 1, 2, 3}"
  using pumps_ok [OF assms(1)] assms(2) by (auto simp: pump_ok_def)

lemma arti_pumps_forward_witness: "prefix (pu_written ended_pump) (pu_read ended_pump) \<and> pump_ended ended_pump"
  using arti_pumps_forward [OF ended_pump_run, of ended_pump] by (simp add: ended_pump_def pump_ended_def)

text \<open>
  C30: when one pump of a pair has ended, the other ends after at most three further timeouts if its reader stays silent: within
  eleven steps it has left its loop, whatever the two have done before.
\<close>
theorem arti_pump_stops:
  assumes "pumps_run False ps" "p \<in> set ps"
  shows "\<exists>n\<le>11. pump_ended ((silent_step ^^ n) p)"
  using pumps_ok [OF assms(1)] assms(2) silent_pump_ends [of p] rounds_bound [of False p] by blast

lemma arti_pump_stops_witness: "\<exists>n\<le>11. pump_ended ((silent_step ^^ n) pump_new)"
  using arti_pump_stops [OF ended_pump_run, of pump_new] by simp

text \<open>
  C31: in every run of the arti provider, however its tasks are scheduled between the calls, updates return the events in the order they were
  pushed and none is lost or repeated; there is at most one \<open>BootstrapComplete\<close> per call of \<open>bootstrap\<close> and one publication per
  service launched; and a stream is accepted only on the port of a service that was launched.
\<close>
theorem arti_events_accounted:
  assumes "arti_runs b launched raised log c"
  shows "log @ ac_pending_events c = raised \<and> count_list raised BootstrapComplete \<le> b \<and>
    (\<forall>sid. count_list raised (OnionServicePublished sid) \<le> count_list (map fst launched) sid) \<and>
    (\<forall>i input port c'. i < length (ac_tasks c) \<and> run_task i input c = (Accepted port, c') \<longrightarrow> port \<in> snd ` set launched)"
proof (intro conjI allI impI)
  note inv = arti_runs_inv [OF assms]
  show "log @ ac_pending_events c = raised" using inv by simp
  show "count_list raised BootstrapComplete \<le> b" using inv by (simp add: arti_inv_def)
  fix sid
  have "count_list raised (OnionServicePublished sid) + count_list (ac_tasks c) (PublishTask sid) \<le> count_list (map fst launched) sid"
    using inv unfolding arti_inv_def by blast
  then show "count_list raised (OnionServicePublished sid) \<le> count_list (map fst launched) sid" by linarith
next
  fix i input port c'
  assume "i < length (ac_tasks c) \<and> run_task i input c = (Accepted port, c')"
  then show "port \<in> snd ` set launched" using arti_accepts_launched [OF assms] by blast
qed

lemma arti_events_accounted_witness:
  "ac_pending_events arti_bootstrapped = [] \<and> count_list [LogReceived ''Starting arti-client TorProvider'', BootstrapComplete] BootstrapComplete \<le> 1"
  using arti_events_accounted [OF arti_bootstrap_run] by simp

text \<open>
  C32: a context on the arti provider cannot serve or use endpoints: starting an endpoint server asks for client authorisation and beginning an
  endpoint handshake adds a client key, and the provider implements neither. Both fail with the error of the provider and leave the context as it was.
\<close>
theorem arti_refuses_endpoints:
  assumes "arti_behind A C sys T" "ctx_bootstrap_complete c"
  shows "(service_id_from_private_key C k \<noteq> ctx_identity_service_id c \<and> map_of (ctx_endpoint_listeners c) (service_id_from_private_key C k) = None \<longrightarrow>
      endpoint_server_start C T k name client auth c = (Ret (Err (TorProviderError (Generic_error ''not implemented''))), c)) \<and>
    (is_ascii channel \<longrightarrow>
      endpoint_client_begin_handshake C T now sid x channel c = (Ret (Err (TorProviderError (Generic_error ''not implemented''))), c))"
  using endpoint_server_refused [OF assms] endpoint_client_refused [OF assms] by blast

lemma arti_refuses_endpoints_witness:
  "endpoint_server_start toy_crypto arti_provider sample_key ''endpoint'' sample_id (x25519_public_from_private_key toy_crypto sample_x25519) arti_context =
     (Ret (Err (TorProviderError (Generic_error ''not implemented''))), arti_context)"
  using arti_refuses_endpoints [OF arti_provider_behind arti_context_ready(1), of sample_key] sample_id_other
  by (simp add: arti_context_ready sample_id_def)

end
